(* ===== verification/Prelude.thy ===== *)
theory Prelude
  imports Main "HOL-Library.AList"
begin

text \<open>
  Shared foundations of the development.

  The Go sources are imperative: they call clients that may fail, mutate objects behind
  pointers and may panic on a nil dereference or an index out of range.  A call is modelled as
  a state transformer \<open>('s, 'a) io\<close> that yields either a value or a panic together with the
  state reached.  The theory holds this small monad with its laws, a Hoare-style judgement for
  it with one rule per construct (collected in \<open>hoare_rules\<close>), the judgement \<open>up\<close> for calls that
  go through (with \<open>up_rules\<close>), the representation of Go errors,
  Go maps from strings to strings, and the formatting verbs the sources use.
\<close>

named_theorems io_simps \<open>unfolding equations of the state transformer combinators\<close>
named_theorems run_simps \<open>what a call that returned went through\<close>
named_theorems hoare_rules \<open>introduction rules of the Hoare judgement\<close>
named_theorems up_rules \<open>how calls that go through compose\<close>

subsection \<open>Calls that may panic\<close>

datatype 'a res = Ret 'a | Panics string

type_synonym ('s, 'a) io = "'s \<Rightarrow> 'a res \<times> 's"

definition return :: "'a \<Rightarrow> ('s, 'a) io" where
  "return x = (\<lambda>s. (Ret x, s))"

definition panic :: "string \<Rightarrow> ('s, 'a) io" where
  "panic msg = (\<lambda>s. (Panics msg, s))"

definition bind :: "('s, 'a) io \<Rightarrow> ('a \<Rightarrow> ('s, 'b) io) \<Rightarrow> ('s, 'b) io" where
  "bind m f = (\<lambda>s. case m s of (Ret x, t) \<Rightarrow> f x t | (Panics p, t) \<Rightarrow> (Panics p, t))"

definition reads :: "('s \<Rightarrow> 'a) \<Rightarrow> ('s, 'a) io" where
  "reads f = (\<lambda>s. (Ret (f s), s))"

definition modify :: "('s \<Rightarrow> 's) \<Rightarrow> ('s, unit) io" where
  "modify f = (\<lambda>s. (Ret (), f s))"

text \<open>
  A deferred call runs on every way out of the function, a panic included.  It receives the
  value being returned, if there is one, and may replace it, as a Go closure over a named
  result does.
\<close>

definition deferred :: "('s, 'a) io \<Rightarrow> ('a option \<Rightarrow> ('s, 'a option) io) \<Rightarrow> ('s, 'a) io" where
  "deferred m d = (\<lambda>s. case m s of
      (Ret x, t) \<Rightarrow> (case d (Some x) t of
          (Ret (Some y), u) \<Rightarrow> (Ret y, u)
        | (Ret None, u) \<Rightarrow> (Ret x, u)
        | (Panics p, u) \<Rightarrow> (Panics p, u))
    | (Panics p, t) \<Rightarrow> (case d None t of
          (Ret _, u) \<Rightarrow> (Panics p, u)
        | (Panics q, u) \<Rightarrow> (Panics q, u)))"

text \<open>A call on one component of the state, the way a service works on the cloud only.\<close>

definition zoom :: "('s \<Rightarrow> 'w) \<Rightarrow> ('w \<Rightarrow> 's \<Rightarrow> 's) \<Rightarrow> ('w, 'a) io \<Rightarrow> ('s, 'a) io" where
  "zoom get put m = (\<lambda>s. case m (get s) of (r, w) \<Rightarrow> (r, put w s))"

text \<open>A loop over a slice whose body may return early with a value.\<close>

fun forEach :: "'a list \<Rightarrow> ('a \<Rightarrow> ('s, 'b option) io) \<Rightarrow> ('s, 'b option) io" where
  "forEach [] f = return None"
| "forEach (x # xs) f = bind (f x) (\<lambda>r. case r of Some y \<Rightarrow> return (Some y) | None \<Rightarrow> forEach xs f)"

lemmas io_defs = return_def panic_def bind_def reads_def modify_def zoom_def

lemma bind_return_left [simp]: "bind (return x) f = f x"
  by (simp add: io_defs)

lemma bind_return_right [simp]: "bind m return = m"
  by (auto simp: io_defs fun_eq_iff split: prod.splits res.splits)

lemma bind_assoc: "bind (bind m f) g = bind m (\<lambda>x. bind (f x) g)"
  by (auto simp: io_defs fun_eq_iff split: prod.splits res.splits)

lemma return_app [io_simps, simp]: "return x s = (Ret x, s)"
  by (simp add: return_def)

lemma panic_app [io_simps, simp]: "panic p s = (Panics p, s)"
  by (simp add: panic_def)

lemma reads_app [io_simps, simp]: "reads f s = (Ret (f s), s)"
  by (simp add: reads_def)

lemma modify_app [io_simps, simp]: "modify f s = (Ret (), f s)"
  by (simp add: modify_def)

lemma bind_Ret [io_simps]: "m s = (Ret x, t) \<Longrightarrow> bind m f s = f x t"
  by (simp add: bind_def)

lemma bind_Panics [io_simps]: "m s = (Panics p, t) \<Longrightarrow> bind m f s = (Panics p, t)"
  by (simp add: bind_def)

lemma bind_reads [simp]: "bind (reads g) f s = f (g s) s"
  by (simp add: bind_def)

lemma bind_modify [simp]: "bind (modify g) f s = f () (g s)"
  by (simp add: bind_def)

lemma bind_panic [simp]: "bind (panic p) f = panic p"
  by (simp add: io_defs)

lemma bind_eq_Ret [run_simps]:
  "bind m f s = (Ret y, u) \<longleftrightarrow> (\<exists>x t. m s = (Ret x, t) \<and> f x t = (Ret y, u))"
  by (auto simp: bind_def split: prod.splits res.splits)

lemma case_sum_eq_Ret [run_simps]:
  "(case r of Inl e \<Rightarrow> f e | Inr x \<Rightarrow> g x) s = (Ret y, u) \<longleftrightarrow>
     (\<exists>e. r = Inl e \<and> f e s = (Ret y, u)) \<or> (\<exists>x. r = Inr x \<and> g x s = (Ret y, u))"
  by (cases r) auto

lemma case_option_eq_Ret [run_simps]:
  "(case r of None \<Rightarrow> m | Some x \<Rightarrow> g x) s = (Ret y, u) \<longleftrightarrow>
     (r = None \<and> m s = (Ret y, u)) \<or> (\<exists>x. r = Some x \<and> g x s = (Ret y, u))"
  by (cases r) auto

lemma case_list_eq_Ret [run_simps]:
  "(case r of [] \<Rightarrow> m | x # xs \<Rightarrow> g x xs) s = (Ret y, u) \<longleftrightarrow>
     (r = [] \<and> m s = (Ret y, u)) \<or> (\<exists>x xs. r = x # xs \<and> g x xs s = (Ret y, u))"
  by (cases r) auto

lemma case_prod_eq_Ret [run_simps]:
  "(case r of (a, b) \<Rightarrow> f a b) s = (Ret y, u) \<longleftrightarrow> (\<exists>a b. r = (a, b) \<and> f a b s = (Ret y, u))"
  by (cases r) auto

lemma if_eq_Ret [run_simps]:
  "(if b then m else n) s = (Ret y, u) \<longleftrightarrow>
     (b \<and> m s = (Ret y, u)) \<or> (\<not> b \<and> n s = (Ret y, u))"
  by simp

lemma zoom_app [io_simps]: "m (get s) = (r, w) \<Longrightarrow> zoom get put m s = (r, put w s)"
  by (simp add: zoom_def)

lemma zoom_return [simp]: "put (get s) s = s \<Longrightarrow> zoom get put (return x) s = (Ret x, s)"
  by (simp add: zoom_def)

subsection \<open>A Hoare judgement\<close>

text \<open>
  \<open>hoare P m Q R\<close>: from a state in \<open>P\<close> the call \<open>m\<close> either returns \<open>x\<close> in a state in
  \<open>Q x\<close> or panics in a state in \<open>R\<close>.
\<close>

definition hoare :: "('s \<Rightarrow> bool) \<Rightarrow> ('s, 'a) io \<Rightarrow> ('a \<Rightarrow> 's \<Rightarrow> bool) \<Rightarrow> ('s \<Rightarrow> bool) \<Rightarrow> bool" where
  "hoare P m Q R \<longleftrightarrow>
     (\<forall>s. P s \<longrightarrow> (case m s of (Ret x, t) \<Rightarrow> Q x t | (Panics _, t) \<Rightarrow> R t))"

abbreviation preserves :: "('s, 'a) io \<Rightarrow> ('s \<Rightarrow> bool) \<Rightarrow> bool" where
  "preserves m I \<equiv> hoare I m (\<lambda>_. I) I"

lemma hoareI:
  assumes "\<And>s x t. P s \<Longrightarrow> m s = (Ret x, t) \<Longrightarrow> Q x t"
    and "\<And>s p t. P s \<Longrightarrow> m s = (Panics p, t) \<Longrightarrow> R t"
  shows "hoare P m Q R"
  using assms by (auto simp: hoare_def split: prod.splits res.splits)

lemma hoareD_Ret: "hoare P m Q R \<Longrightarrow> P s \<Longrightarrow> m s = (Ret x, t) \<Longrightarrow> Q x t"
  by (auto simp: hoare_def split: prod.splits res.splits)

lemma hoareD_Panics: "hoare P m Q R \<Longrightarrow> P s \<Longrightarrow> m s = (Panics p, t) \<Longrightarrow> R t"
  by (force simp: hoare_def split: prod.splits res.splits)

lemma hoare_weaken:
  assumes "hoare P' m Q' R'" "\<And>s. P s \<Longrightarrow> P' s" "\<And>x s. Q' x s \<Longrightarrow> Q x s" "\<And>s. R' s \<Longrightarrow> R s"
  shows "hoare P m Q R"
  using assms by (intro hoareI) (blast dest: hoareD_Ret hoareD_Panics)+

lemma hoare_return [hoare_rules]: "(\<And>s. P s \<Longrightarrow> Q x s) \<Longrightarrow> hoare P (return x) Q R"
  by (simp add: hoare_def)

lemma hoare_panic [hoare_rules]: "(\<And>s. P s \<Longrightarrow> R s) \<Longrightarrow> hoare P (panic p) Q R"
  by (simp add: hoare_def)

lemma hoare_reads [hoare_rules]: "(\<And>s. P s \<Longrightarrow> Q (f s) s) \<Longrightarrow> hoare P (reads f) Q R"
  by (simp add: hoare_def)

lemma hoare_modify [hoare_rules]: "(\<And>s. P s \<Longrightarrow> Q () (f s)) \<Longrightarrow> hoare P (modify f) Q R"
  by (simp add: hoare_def)

lemma hoare_bind:
  assumes "hoare P m B R" "\<And>x. hoare (B x) (f x) Q R"
  shows "hoare P (bind m f) Q R"
proof (rule hoareI)
  fix s y u assume "P s" and run: "bind m f s = (Ret y, u)"
  then obtain x t where "m s = (Ret x, t)" "f x t = (Ret y, u)"
    by (auto simp: bind_eq_Ret)
  with assms \<open>P s\<close> show "Q y u" by (blast dest: hoareD_Ret)
next
  fix s p u assume P: "P s" and run: "bind m f s = (Panics p, u)"
  show "R u"
  proof (cases "m s")
    case (Pair r t)
    with run assms P show ?thesis
      by (cases r) (auto simp: bind_def dest: hoareD_Ret hoareD_Panics)
  qed
qed

lemma hoare_any: "hoare P m (\<lambda>x t. \<exists>s. P s \<and> m s = (Ret x, t)) (\<lambda>_. True)"
  by (intro hoareI) auto

lemma hoare_True: "hoare P m Q R \<Longrightarrow> hoare P m Q (\<lambda>_. True)"
  by (erule hoare_weaken) auto

lemma hoare_pure: "(A \<Longrightarrow> hoare P m Q R) \<Longrightarrow> hoare (\<lambda>s. P s \<and> A) m Q R"
  by (auto simp: hoare_def)

lemma preserves_bind [hoare_rules]:
  assumes "preserves m I" "\<And>x. hoare I (f x) Q I"
  shows "hoare I (bind m f) Q I"
  using assms by (rule hoare_bind)

lemma hoare_if [hoare_rules]:
  "(b \<Longrightarrow> hoare P m Q R) \<Longrightarrow> (\<not> b \<Longrightarrow> hoare P n Q R) \<Longrightarrow> hoare P (if b then m else n) Q R"
  by simp

lemma hoare_case_option [hoare_rules]:
  "(v = None \<Longrightarrow> hoare P m Q R) \<Longrightarrow> (\<And>x. v = Some x \<Longrightarrow> hoare P (f x) Q R) \<Longrightarrow>
   hoare P (case v of None \<Rightarrow> m | Some x \<Rightarrow> f x) Q R"
  by (cases v) auto

lemma hoare_case_sum [hoare_rules]:
  "(\<And>e. v = Inl e \<Longrightarrow> hoare P (f e) Q R) \<Longrightarrow> (\<And>x. v = Inr x \<Longrightarrow> hoare P (g x) Q R) \<Longrightarrow>
   hoare P (case v of Inl e \<Rightarrow> f e | Inr x \<Rightarrow> g x) Q R"
  by (cases v) auto

lemma hoare_case_prod [hoare_rules]:
  "(\<And>a b. v = (a, b) \<Longrightarrow> hoare P (f a b) Q R) \<Longrightarrow> hoare P (case v of (a, b) \<Rightarrow> f a b) Q R"
  by (cases v) auto

lemma hoare_case_list [hoare_rules]:
  "(v = [] \<Longrightarrow> hoare P m Q R) \<Longrightarrow> (\<And>x xs. v = x # xs \<Longrightarrow> hoare P (f x xs) Q R) \<Longrightarrow>
   hoare P (case v of [] \<Rightarrow> m | x # xs \<Rightarrow> f x xs) Q R"
  by (cases v) auto

lemma hoare_Let [hoare_rules]: "hoare P (f x) Q R \<Longrightarrow> hoare P (let y = x in f y) Q R"
  by simp

lemma preserves_forEach [hoare_rules]:
  "(\<And>x. x \<in> set xs \<Longrightarrow> preserves (f x) I) \<Longrightarrow> preserves (forEach xs f) I"
  by (induction xs) (auto intro!: hoare_rules)

lemma preserves_zoom [hoare_rules]:
  "(\<And>w s. I s \<Longrightarrow> I (put w s)) \<Longrightarrow> preserves (zoom get put m) I"
  by (auto simp: hoare_def zoom_def split: prod.splits res.splits)

text \<open>What holds of a view of the state that is kept, and of two facts at once.\<close>

lemma preserves_view:
  assumes "\<And>v. preserves m (\<lambda>s. f s = v)"
  shows "preserves m (\<lambda>s. P (f s))"
proof (rule hoareI)
  show "P (f t)" if "P (f s)" "m s = (Ret x, t)" for s x t using hoareD_Ret [OF assms refl that(2)] that(1) by simp
  show "P (f t)" if "P (f s)" "m s = (Panics p, t)" for s p t using hoareD_Panics [OF assms refl that(2)] that(1) by simp
qed

lemma hoare_conj:
  assumes "hoare P m Q R" "hoare P' m Q' R'"
  shows "hoare (\<lambda>s. P s \<and> P' s) m (\<lambda>x s. Q x s \<and> Q' x s) (\<lambda>s. R s \<and> R' s)"
  by (rule hoareI) (auto dest: hoareD_Ret [OF assms(1)] hoareD_Ret [OF assms(2)]
      hoareD_Panics [OF assms(1)] hoareD_Panics [OF assms(2)])

subsection \<open>Calls that go through\<close>

text \<open>From a world in \<open>ok\<close> the call returns a value in \<open>Q\<close>, in a world in \<open>ok\<close>.\<close>

definition up :: "('w \<Rightarrow> bool) \<Rightarrow> ('w, 'a) io \<Rightarrow> ('a \<Rightarrow> bool) \<Rightarrow> bool" where
  "up ok m Q \<longleftrightarrow> (\<forall>w. ok w \<longrightarrow> (\<exists>x w'. m w = (Ret x, w') \<and> ok w' \<and> Q x))"

lemma upD: "up ok m Q \<Longrightarrow> ok w \<Longrightarrow> \<exists>x w'. m w = (Ret x, w') \<and> ok w' \<and> Q x"
  by (simp add: up_def)

lemma up_return [up_rules]: "Q x \<Longrightarrow> up ok (return x) Q"
  by (simp add: up_def)

lemma up_Pair [up_rules]: "Q x \<Longrightarrow> up ok (Pair (Ret x)) Q"
  by (simp add: up_def)

lemma up_case_prod [up_rules]: "(\<And>a b. v = (a, b) \<Longrightarrow> up ok (f a b) Q) \<Longrightarrow> up ok (case v of (a, b) \<Rightarrow> f a b) Q"
  by (cases v) auto

lemma up_bind: "up ok m P \<Longrightarrow> (\<And>x. P x \<Longrightarrow> up ok (f x) Q) \<Longrightarrow> up ok (bind m f) Q"
  unfolding up_def bind_def by fastforce

lemma up_any: "up ok m (\<lambda>_. True) \<Longrightarrow> (\<And>x. up ok (f x) Q) \<Longrightarrow> up ok (bind m f) Q"
  by (rule up_bind)

lemma up_if [up_rules]: "(b \<Longrightarrow> up ok m Q) \<Longrightarrow> (\<not> b \<Longrightarrow> up ok n Q) \<Longrightarrow> up ok (if b then m else n) Q"
  by simp

lemma up_case_sum [up_rules]:
  "(\<And>e. v = Inl e \<Longrightarrow> up ok (f e) Q) \<Longrightarrow> (\<And>x. v = Inr x \<Longrightarrow> up ok (g x) Q) \<Longrightarrow>
   up ok (case v of Inl e \<Rightarrow> f e | Inr x \<Rightarrow> g x) Q"
  by (cases v) auto

lemma up_case_option [up_rules]:
  "(v = None \<Longrightarrow> up ok m Q) \<Longrightarrow> (\<And>x. v = Some x \<Longrightarrow> up ok (f x) Q) \<Longrightarrow>
   up ok (case v of None \<Rightarrow> m | Some x \<Rightarrow> f x) Q"
  by (cases v) auto

lemma up_weaken: "up ok m P \<Longrightarrow> (\<And>x. P x \<Longrightarrow> Q x) \<Longrightarrow> up ok m Q"
  unfolding up_def by blast

subsection \<open>Errors\<close>

text \<open>
  A Go \<open>error\<close> is nil or a value; nil is \<open>None\<close>.  \<open>ErrorNew\<close> is an error made with
  \<open>errors.New\<close>, \<open>errors.Errorf\<close> or \<open>fmt.Errorf\<close>, \<open>Wrap\<close> one made with \<open>errors.Wrap\<close> or
  \<open>errors.Wrapf\<close> around a cause, and \<open>External\<close> one that a client returned.  Nothing is
  assumed of what the error libraries see in a wrapped error: every observation of an error is
  made through the library parameters of \<open>Externals\<close>.
\<close>

datatype goerror = ErrorNew string | Wrap string goerror | External string

text \<open>\<open>errors.Wrapf(err, ...)\<close> is documented to return nil when \<open>err\<close> is nil.\<close>

definition wrapf :: "goerror option \<Rightarrow> string \<Rightarrow> goerror option" where
  "wrapf err msg = map_option (Wrap msg) err"

lemma wrapf_simps [simp]: "wrapf None msg = None" "wrapf (Some e) msg = Some (Wrap msg e)"
  by (simp_all add: wrapf_def)

lemma wrapf_None [simp]: "wrapf e msg = None \<longleftrightarrow> e = None"
  by (cases e) simp_all

fun is_err :: "'e option \<Rightarrow> bool" where
  "is_err None = False"
| "is_err (Some _) = True"

subsection \<open>Go maps from strings to strings\<close>

text \<open>\<open>None\<close> is the nil map; reading a missing key gives the empty string.\<close>

type_synonym gomap = "(string \<times> string) list option"

definition map_get :: "gomap \<Rightarrow> string \<Rightarrow> string" where
  "map_get m k = (case m of None \<Rightarrow> [] | Some al \<Rightarrow>
     (case map_of al k of None \<Rightarrow> [] | Some v \<Rightarrow> v))"

definition map_len :: "gomap \<Rightarrow> nat" where
  "map_len m = (case m of None \<Rightarrow> 0 | Some al \<Rightarrow> length al)"

text \<open>Assignment after the sources' \<open>if m == nil { m = map[string]string{} }\<close>.\<close>

definition map_put :: "gomap \<Rightarrow> string \<Rightarrow> string \<Rightarrow> gomap" where
  "map_put m k v = Some (AList.update k v (case m of None \<Rightarrow> [] | Some al \<Rightarrow> al))"

lemma map_get_put [simp]: "map_get (map_put m k v) k' = (if k' = k then v else map_get m k')"
  by (cases m) (auto simp: map_get_def map_put_def update_conv' split: option.splits)

lemma map_put_not_nil [simp]: "map_put m k v \<noteq> None"
  by (simp add: map_put_def)

subsection \<open>Formatting\<close>

text \<open>The verbs \<open>%d\<close> for naturals and \<open>%q\<close> for strings; \<open>%s\<close> is concatenation.\<close>

fun show_nat :: "nat \<Rightarrow> string" where
  "show_nat n = (if n < 10 then [char_of (n + 48)]
     else show_nat (n div 10) @ [char_of (n mod 10 + 48)])"

declare show_nat.simps [simp del]

definition hex_digit :: "nat \<Rightarrow> char" where
  "hex_digit n = (if n < 10 then char_of (n + 48) else char_of (n + 87))"

definition quote_char :: "char \<Rightarrow> string" where
  "quote_char c = (let n = of_char c :: nat in
     if n = 34 then [char_of (92::nat), c]
     else if n = 92 then [c, c]
     else if n = 7 then char_of (92::nat) # ''a''
     else if n = 8 then char_of (92::nat) # ''b''
     else if n = 12 then char_of (92::nat) # ''f''
     else if n = 10 then char_of (92::nat) # ''n''
     else if n = 13 then char_of (92::nat) # ''r''
     else if n = 9 then char_of (92::nat) # ''t''
     else if n = 11 then char_of (92::nat) # ''v''
     else if n < 32 \<or> n = 127
       then char_of (92::nat) # ''x'' @ [hex_digit (n div 16), hex_digit (n mod 16)]
     else [c])"

definition quote :: "string \<Rightarrow> string" where
  "quote s = char_of (34::nat) # concat (map quote_char s) @ [char_of (34::nat)]"

subsection \<open>Lists and decimal numerals\<close>

lemma append_same_suffix [simp]: "xs @ zs = ys @ zs \<longleftrightarrow> xs = ys"
  by simp

lemma digit_char_inj: "m < 10 \<Longrightarrow> n < 10 \<Longrightarrow> char_of (m + 48) = (char_of (n + 48) :: char) \<Longrightarrow> m = (n::nat)"
  by (drule arg_cong [where f = "of_char :: char \<Rightarrow> nat"]) simp

end
