(* ===== verification/ApiTypes.thy ===== *)
theory ApiTypes
  imports Prelude "HOL-Library.Word"
begin

text \<open>
  The API types of \<open>api/v1beta2\<close>: one record per struct, with the struct's fields under a
  prefix of the record, and the constants of \<open>types.go\<close>, \<open>conditions_consts.go\<close> and
  \<open>phase_types.go\<close>.  A Go pointer is an \<open>option\<close> (\<open>None\<close> is nil), a slice a list (the nil and
  the empty slice are not told apart), an \<open>int32\<close> a 32-bit word read with \<open>sint\<close>.  Of the
  types of other modules (Kubernetes metadata, Cluster API \<open>Cluster\<close> and \<open>Machine\<close>) the
  fields the sources use are kept.
\<close>

type_synonym int32 = "32 word"

subsection \<open>Kubernetes metadata\<close>

record TypeMeta =
  tm_Kind :: string
  tm_APIVersion :: string

record OwnerReference =
  or_APIVersion :: string
  or_Kind :: string
  or_Name :: string
  or_UID :: string

record ObjectMeta =
  om_Name :: string
  om_Namespace :: string
  om_UID :: string
  om_Labels :: gomap
  om_Annotations :: gomap
  om_Finalizers :: "string list"
  om_OwnerReferences :: "OwnerReference list"
  om_CreationTimestamp :: int
  om_DeletionTimestamp :: "int option"

text \<open>\<open>DeletionTimestamp.IsZero()\<close> holds of the nil pointer and of the zero time.\<close>

definition DeletionTimestamp_IsZero :: "ObjectMeta \<Rightarrow> bool" where
  "DeletionTimestamp_IsZero m = (case om_DeletionTimestamp m of None \<Rightarrow> True | Some t \<Rightarrow> t = 0)"

record Condition =
  c_Type :: string
  c_Status :: string
  c_ObservedGeneration :: int
  c_LastTransitionTime :: int
  c_Reason :: string
  c_Message :: string

definition ConditionTrue :: string where "ConditionTrue = ''True''"
definition ConditionFalse :: string where "ConditionFalse = ''False''"

text \<open>The literal \<open>metav1.Condition{Type: t, Status: st, Reason: r, Message: m}\<close>.\<close>

definition mkCondition :: "string \<Rightarrow> string \<Rightarrow> string \<Rightarrow> string \<Rightarrow> Condition" where
  "mkCondition t st r m =
     \<lparr>c_Type = t, c_Status = st, c_ObservedGeneration = 0, c_LastTransitionTime = 0, c_Reason = r, c_Message = m\<rparr>"

lemma mkCondition_sel [simp]:
  "c_Type (mkCondition t st r m) = t" "c_Status (mkCondition t st r m) = st"
  "c_Reason (mkCondition t st r m) = r" "c_Message (mkCondition t st r m) = m"
  by (simp_all add: mkCondition_def)

subsection \<open>types.go\<close>

record VnetSpec =
  vnet_ID :: string
  vnet_Name :: string
  vnet_CidrBlock :: string
  vnet_Group :: string

record SubnetSpec =
  sn_ID :: string
  sn_Name :: string
  sn_VnetID :: string
  sn_CidrBlock :: string

record NetworkSpec =
  net_Vnet :: VnetSpec
  net_Subnets :: "SubnetSpec option list"

text \<open>A nil element makes \<open>x.ID\<close> panic; the last subnet with an ID wins.\<close>

fun Subnets_ToMap_loop :: "(string \<times> SubnetSpec) list \<Rightarrow> SubnetSpec option list \<Rightarrow>
    (string \<times> SubnetSpec) list res" where
  "Subnets_ToMap_loop res [] = Ret res"
| "Subnets_ToMap_loop res (None # xs) = Panics ''nil pointer dereference''"
| "Subnets_ToMap_loop res (Some x # xs) = Subnets_ToMap_loop (AList.update (sn_ID x) x res) xs"

definition Subnets_ToMap :: "SubnetSpec option list \<Rightarrow> (string \<times> SubnetSpec) list res" where
  "Subnets_ToMap s = Subnets_ToMap_loop [] s"

type_synonym IPAllocationMethod = int32

record IpConfigurationSpec =
  ip_Name :: string
  ip_Primary :: bool
  ip_Allocation :: IPAllocationMethod
  ip_IpAddress :: string
  ip_PrefixLength :: string
  ip_SubnetId :: string
  ip_Gateway :: string

record NetworkInterfaceSpec =
  ni_Name :: string
  ni_IPConfigurations :: "IpConfigurationSpec option list"

type_synonym NetworkInterfaces = "NetworkInterfaceSpec option list"

record Image =
  img_Publisher :: "string option"
  img_Offer :: "string option"
  img_SKU :: "string option"
  img_ID :: "string option"
  img_SubscriptionID :: "string option"
  img_ResourceGroup :: "string option"
  img_Gallery :: "string option"
  img_Name :: "string option"
  img_Version :: "string option"
  img_OSType :: string

record AvailabilityZone =
  az_ID :: "string option"
  az_Enabled :: "bool option"

record ManagedDisk =
  md_StorageAccountType :: string

record OSDisk =
  osd_Name :: string
  osd_Source :: string
  osd_OSType :: string
  osd_DiskSizeGB :: int32
  osd_ManagedDisk :: "ManagedDisk option"

record VM =
  vm_ID :: string
  vm_Name :: string
  vm_AvailabilityZone :: string
  vm_VMSize :: string
  vm_Image :: Image
  vm_OSDisk :: OSDisk
  vm_BootstrapData :: string
  vm_State :: string
  vm_Identity :: string

text \<open>Zero values, for struct literals that leave fields out.\<close>

definition zeroImage :: Image where
  "zeroImage = \<lparr>img_Publisher = None, img_Offer = None, img_SKU = None, img_ID = None,
     img_SubscriptionID = None, img_ResourceGroup = None, img_Gallery = None, img_Name = None,
     img_Version = None, img_OSType = []\<rparr>"

definition zeroOSDisk :: OSDisk where
  "zeroOSDisk = \<lparr>osd_Name = [], osd_Source = [], osd_OSType = [], osd_DiskSizeGB = 0,
     osd_ManagedDisk = None\<rparr>"

definition zeroVM :: VM where
  "zeroVM = \<lparr>vm_ID = [], vm_Name = [], vm_AvailabilityZone = [], vm_VMSize = [],
     vm_Image = zeroImage, vm_OSDisk = zeroOSDisk, vm_BootstrapData = [], vm_State = [],
     vm_Identity = []\<rparr>"

definition ControlPlane :: string where "ControlPlane = ''control-plane''"
definition Node :: string where "Node = ''node''"

definition OSVersionLabelName :: string where
  "OSVersionLabelName = ''msft.microsoft/os-version''"
definition LoadBalancerLabel :: string where
  "LoadBalancerLabel = ''msft.microsoft/load-balancer''"
definition AzureOperationIDAnnotationKey :: string where
  "AzureOperationIDAnnotationKey = ''management.azure.com/operationId''"
definition AzureCorrelationIDAnnotationKey :: string where
  "AzureCorrelationIDAnnotationKey = ''management.azure.com/correlationId''"

definition VMStateFailed :: string where "VMStateFailed = ''Failed''"
definition VMStateSucceeded :: string where "VMStateSucceeded = ''Succeeded''"
definition VMStateUpdating :: string where "VMStateUpdating = ''Updating''"

definition OSTypeLinux :: string where "OSTypeLinux = ''Linux''"
definition OSTypeWindows :: string where "OSTypeWindows = ''Windows''"
definition OSTypeWindows2022 :: string where "OSTypeWindows2022 = ''Windows2022''"

lemma consts_distinct [simp]:
  "ConditionTrue \<noteq> ConditionFalse" "ConditionFalse \<noteq> ConditionTrue"
  "ControlPlane \<noteq> Node" "Node \<noteq> ControlPlane"
  "OSVersionLabelName \<noteq> LoadBalancerLabel" "LoadBalancerLabel \<noteq> OSVersionLabelName"
  "AzureOperationIDAnnotationKey \<noteq> AzureCorrelationIDAnnotationKey"
  "AzureCorrelationIDAnnotationKey \<noteq> AzureOperationIDAnnotationKey"
  "VMStateFailed \<noteq> VMStateSucceeded" "VMStateSucceeded \<noteq> VMStateFailed"
  "VMStateUpdating \<noteq> VMStateSucceeded" "VMStateSucceeded \<noteq> VMStateUpdating"
  "VMStateFailed \<noteq> []" "VMStateSucceeded \<noteq> []" "VMStateUpdating \<noteq> []"
  by (simp_all add: ConditionTrue_def ConditionFalse_def ControlPlane_def Node_def
      OSVersionLabelName_def LoadBalancerLabel_def AzureOperationIDAnnotationKey_def
      AzureCorrelationIDAnnotationKey_def VMStateFailed_def VMStateSucceeded_def
      VMStateUpdating_def)

subsection \<open>AzureStackHCIVirtualMachine\<close>

definition VirtualMachineFinalizer :: string where
  "VirtualMachineFinalizer = ''azurestackhcivirtualmachine.infrastructure.cluster.x-k8s.io''"

record AzureStackHCIVirtualMachineSpec =
  vms_VMSize :: string
  vms_AvailabilityZone :: "AvailabilityZone option"
  vms_Image :: "Image option"
  vms_OSDisk :: "OSDisk option"
  vms_BootstrapData :: "string option"
  vms_Identity :: string
  vms_Location :: string
  vms_SSHPublicKey :: string
  vms_StorageContainer :: string
  vms_GpuCount :: int32
  vms_ResourceGroup :: string
  vms_VnetName :: string
  vms_ClusterName :: string
  vms_SubnetName :: string
  vms_BackendPoolNames :: "string list"
  vms_AdditionalSSHKeys :: "string list"
  vms_NetworkInterfaces :: NetworkInterfaces
  vms_AvailabilitySetName :: string
  vms_PlacementGroupName :: string

record AzureStackHCIVirtualMachineStatus =
  vmst_Ready :: bool
  vmst_Addresses :: "string list"
  vmst_VMState :: "string option"
  vmst_FailureReason :: "string option"
  vmst_FailureMessage :: "string option"
  vmst_Conditions :: "Condition list"

record AzureStackHCIVirtualMachine =
  hvm_TypeMeta :: TypeMeta
  hvm_Meta :: ObjectMeta
  hvm_Spec :: AzureStackHCIVirtualMachineSpec
  hvm_Status :: AzureStackHCIVirtualMachineStatus

definition VM_GetConditions :: "AzureStackHCIVirtualMachine \<Rightarrow> Condition list" where
  "VM_GetConditions m = vmst_Conditions (hvm_Status m)"

definition VM_SetConditions :: "Condition list \<Rightarrow> AzureStackHCIVirtualMachine \<Rightarrow>
    AzureStackHCIVirtualMachine" where
  "VM_SetConditions cs m = m\<lparr>hvm_Status := (hvm_Status m)\<lparr>vmst_Conditions := cs\<rparr>\<rparr>"

subsection \<open>AzureStackHCIMachine\<close>

definition MachineFinalizer :: string where
  "MachineFinalizer = ''azurestackhcimachine.infrastructure.cluster.x-k8s.io''"

record AzureStackHCIMachineSpec =
  ms_ProviderID :: "string option"
  ms_VMSize :: string
  ms_AvailabilityZone :: "AvailabilityZone option"
  ms_Image :: "Image option"
  ms_OSDisk :: "OSDisk option"
  ms_Location :: string
  ms_SSHPublicKey :: string
  ms_StorageContainer :: string
  ms_GpuCount :: int32
  ms_AllocatePublicIP :: bool
  ms_AdditionalSSHKeys :: "string list"
  ms_NetworkInterfaces :: NetworkInterfaces
  ms_AvailabilitySetName :: string
  ms_PlacementGroupName :: string

record AzureStackHCIMachineInitializationStatus =
  mi_Provisioned :: "bool option"

record AzureStackHCIMachineStatus =
  mst_Ready :: bool
  mst_Addresses :: "string list"
  mst_VMState :: "string option"
  mst_Conditions :: "Condition list"
  mst_Initialization :: "AzureStackHCIMachineInitializationStatus option"

record AzureStackHCIMachine =
  hm_TypeMeta :: TypeMeta
  hm_Meta :: ObjectMeta
  hm_Spec :: AzureStackHCIMachineSpec
  hm_Status :: AzureStackHCIMachineStatus

definition Machine_GetConditions :: "AzureStackHCIMachine \<Rightarrow> Condition list" where
  "Machine_GetConditions c = mst_Conditions (hm_Status c)"

definition Machine_SetConditions :: "Condition list \<Rightarrow> AzureStackHCIMachine \<Rightarrow>
    AzureStackHCIMachine" where
  "Machine_SetConditions cs c = c\<lparr>hm_Status := (hm_Status c)\<lparr>mst_Conditions := cs\<rparr>\<rparr>"

subsection \<open>AzureStackHCILoadBalancer\<close>

definition AzureStackHCILoadBalancerFinalizer :: string where
  "AzureStackHCILoadBalancerFinalizer =
     ''azurestackhciloadbalancer.infrastructure.cluster.x-k8s.io''"

record AzureStackHCILoadBalancerSpec =
  lbs_SSHPublicKey :: string
  lbs_Image :: "Image option"
  lbs_VMSize :: string
  lbs_StorageContainer :: string
  lbs_Replicas :: "int32 option"

record AzureStackHCILoadBalancerStatus =
  lbst_Ready :: bool
  lbst_Replicas :: int32
  lbst_ReadyReplicas :: int32
  lbst_FailedReplicas :: int32
  lbst_Address :: string
  lbst_Port :: int32
  lbst_Phase :: string
  lbst_Conditions :: "Condition list"
  lbst_ErrorReason :: "string option"
  lbst_ErrorMessage :: "string option"
  lbst_Selector :: string

record AzureStackHCILoadBalancer =
  hlb_TypeMeta :: TypeMeta
  hlb_Meta :: ObjectMeta
  hlb_Spec :: AzureStackHCILoadBalancerSpec
  hlb_Status :: AzureStackHCILoadBalancerStatus

definition LB_GetConditions :: "AzureStackHCILoadBalancer \<Rightarrow> Condition list" where
  "LB_GetConditions c = lbst_Conditions (hlb_Status c)"

definition LB_SetConditions :: "Condition list \<Rightarrow> AzureStackHCILoadBalancer \<Rightarrow>
    AzureStackHCILoadBalancer" where
  "LB_SetConditions cs c = c\<lparr>hlb_Status := (hlb_Status c)\<lparr>lbst_Conditions := cs\<rparr>\<rparr>"

subsection \<open>AzureStackHCICluster\<close>

definition ClusterFinalizer :: string where
  "ClusterFinalizer = ''azurestackhcicluster.infrastructure.cluster.x-k8s.io''"

record APIEndpoint =
  ep_Host :: string
  ep_Port :: int32

record AzureStackHCIClusterSpec =
  cs_NetworkSpec :: NetworkSpec
  cs_ResourceGroup :: string
  cs_Location :: string
  cs_AzureStackHCILoadBalancer :: "AzureStackHCILoadBalancerSpec option"
  cs_ControlPlaneEndpoint :: APIEndpoint
  cs_Version :: "string option"
  cs_Management :: bool

record AzureStackHCIClusterInitializationStatus =
  ci_Provisioned :: "bool option"

record AzureStackHCIClusterStatus =
  cst_Bastion :: VM
  cst_Phase :: string
  cst_Conditions :: "Condition list"
  cst_Initialization :: "AzureStackHCIClusterInitializationStatus option"

record AzureStackHCICluster =
  hc_TypeMeta :: TypeMeta
  hc_Meta :: ObjectMeta
  hc_Spec :: AzureStackHCIClusterSpec
  hc_Status :: AzureStackHCIClusterStatus

definition Cluster_GetConditions :: "AzureStackHCICluster \<Rightarrow> Condition list" where
  "Cluster_GetConditions c = cst_Conditions (hc_Status c)"

definition Cluster_SetConditions :: "Condition list \<Rightarrow> AzureStackHCICluster \<Rightarrow>
    AzureStackHCICluster" where
  "Cluster_SetConditions cs c = c\<lparr>hc_Status := (hc_Status c)\<lparr>cst_Conditions := cs\<rparr>\<rparr>"

subsection \<open>Cluster API objects\<close>

record Cluster =
  cl_TypeMeta :: TypeMeta
  cl_Meta :: ObjectMeta
  cl_APIServerPort :: int32
  cl_InfrastructureRef_Name :: string

record Machine =
  ma_TypeMeta :: TypeMeta
  ma_Meta :: ObjectMeta
  ma_DataSecretName :: "string option"
  ma_Version :: string
  ma_InfrastructureRef_Name :: string
  ma_NodeRef_Name :: string

record ObjectKey =
  key_Namespace :: string
  key_Name :: string

definition mkKey :: "string \<Rightarrow> string \<Rightarrow> ObjectKey" where
  "mkKey ns n = \<lparr>key_Namespace = ns, key_Name = n\<rparr>"

text \<open>Fresh objects: \<open>&T{ObjectMeta: metav1.ObjectMeta{Namespace: ns, Name: n}}\<close>.\<close>

definition newMeta :: "string \<Rightarrow> string \<Rightarrow> ObjectMeta" where
  "newMeta ns n = \<lparr>om_Name = n, om_Namespace = ns, om_UID = [], om_Labels = None,
     om_Annotations = None, om_Finalizers = [], om_OwnerReferences = [],
     om_CreationTimestamp = 0, om_DeletionTimestamp = None\<rparr>"

definition zeroTypeMeta :: TypeMeta where
  "zeroTypeMeta = \<lparr>tm_Kind = [], tm_APIVersion = []\<rparr>"

definition newVirtualMachine :: "string \<Rightarrow> string \<Rightarrow> AzureStackHCIVirtualMachine" where
  "newVirtualMachine ns n = \<lparr>hvm_TypeMeta = zeroTypeMeta, hvm_Meta = newMeta ns n,
     hvm_Spec = \<lparr>vms_VMSize = [], vms_AvailabilityZone = None, vms_Image = None,
       vms_OSDisk = None, vms_BootstrapData = None, vms_Identity = [], vms_Location = [],
       vms_SSHPublicKey = [], vms_StorageContainer = [], vms_GpuCount = 0,
       vms_ResourceGroup = [], vms_VnetName = [], vms_ClusterName = [], vms_SubnetName = [],
       vms_BackendPoolNames = [], vms_AdditionalSSHKeys = [], vms_NetworkInterfaces = [],
       vms_AvailabilitySetName = [], vms_PlacementGroupName = []\<rparr>,
     hvm_Status = \<lparr>vmst_Ready = False, vmst_Addresses = [], vmst_VMState = None,
       vmst_FailureReason = None, vmst_FailureMessage = None, vmst_Conditions = []\<rparr>\<rparr>"

definition newLoadBalancer :: "string \<Rightarrow> string \<Rightarrow> AzureStackHCILoadBalancer" where
  "newLoadBalancer ns n = \<lparr>hlb_TypeMeta = zeroTypeMeta, hlb_Meta = newMeta ns n,
     hlb_Spec = \<lparr>lbs_SSHPublicKey = [], lbs_Image = None, lbs_VMSize = [],
       lbs_StorageContainer = [], lbs_Replicas = None\<rparr>,
     hlb_Status = \<lparr>lbst_Ready = False, lbst_Replicas = 0, lbst_ReadyReplicas = 0,
       lbst_FailedReplicas = 0, lbst_Address = [], lbst_Port = 0, lbst_Phase = [],
       lbst_Conditions = [], lbst_ErrorReason = None, lbst_ErrorMessage = None,
       lbst_Selector = []\<rparr>\<rparr>"

end
