(* ===== verification/ApiConsts.thy ===== *)
theory ApiConsts
  imports ApiTypes
begin

text \<open>
  The string constants of \<open>api/v1beta2/conditions_consts.go\<close> and the typed phases of
  \<open>api/v1beta2/phase_types.go\<close> with the accessors \<open>SetTypedPhase\<close> and \<open>GetTypedPhase\<close> of the
  two status types that carry a phase.  The accessors share the contract of the locale
  \<open>typed_phase\<close>, which both implement.
\<close>

subsection \<open>Condition types and reasons\<close>

definition VMRunningCondition :: string where "VMRunningCondition = ''VMRunning''"
definition VMUpdatingReason :: string where "VMUpdatingReason = ''VMUpdating''"
definition VMProvisionFailedReason :: string where "VMProvisionFailedReason = ''VMProvisionFailed''"
definition VMNotFoundReason :: string where "VMNotFoundReason = ''VMNotFound''"
definition OutOfMemoryReason :: string where "OutOfMemoryReason = ''OutOfMemory''"
definition OutOfCapacityReason :: string where "OutOfCapacityReason = ''OutOfCapacity''"
definition OutOfNodeCapacityReason :: string where "OutOfNodeCapacityReason = ''OutOfNodeCapacity''"
definition PathNotFoundReason :: string where "PathNotFoundReason = ''PathNotFound''"
definition NotFoundReason :: string where "NotFoundReason = ''NotFound''"
definition MOCUnreachableReason :: string where "MOCUnreachableReason = ''MOCUnreachable''"
definition NetworkInfrastructureReadyCondition :: string where "NetworkInfrastructureReadyCondition = ''NetworkInfrastructureReady''"
definition ClusterReconciliationFailedReason :: string where "ClusterReconciliationFailedReason = ''ClusterReconciliationFailed''"
definition LoadBalancerProvisioningReason :: string where "LoadBalancerProvisioningReason = ''LoadBalancerProvisioning''"
definition LoadBalancerDeletingReason :: string where "LoadBalancerDeletingReason = ''LoadBalancerDeleting''"
definition AzureStackHCIMachinesDeletingReason :: string where "AzureStackHCIMachinesDeletingReason = ''AzureStackHCIMachineDeleting''"
definition LoadBalancerInfrastructureReadyCondition :: string where "LoadBalancerInfrastructureReadyCondition = ''LoadBalancerInfrastructureReady''"
definition LoadBalancerServiceReconciliationFailedReason :: string where "LoadBalancerServiceReconciliationFailedReason = ''ServiceReconciliationFailed''"
definition LoadBalancerServiceStatusFailedReason :: string where "LoadBalancerServiceStatusFailedReason = ''ServiceStatusFailed''"
definition LoadBalancerMachineReconciliationFailedReason :: string where "LoadBalancerMachineReconciliationFailedReason = ''MachineReconciliationFailed''"
definition LoadBalancerAddressUnavailableReason :: string where "LoadBalancerAddressUnavailableReason = ''AddressUnavailable''"
definition LoadBalancerNoReplicasReadyReason :: string where "LoadBalancerNoReplicasReadyReason = ''NoReplicasReady''"
definition LoadBalancerReplicasReadyCondition :: string where "LoadBalancerReplicasReadyCondition = ''LoadBalancerReplicasReady''"
definition LoadBalancerWaitingForReplicasReadyReason :: string where "LoadBalancerWaitingForReplicasReadyReason = ''WaitingForReplicasToBeReady''"
definition LoadBalancerReplicasScalingUpReason :: string where "LoadBalancerReplicasScalingUpReason = ''ScalingUp''"
definition LoadBalancerReplicasScalingDownReason :: string where "LoadBalancerReplicasScalingDownReason = ''ScalingDown''"
definition LoadBalancerReplicasUpgradingReason :: string where "LoadBalancerReplicasUpgradingReason = ''Upgrading''"
definition LoadBalancerReplicasFailedReason :: string where "LoadBalancerReplicasFailedReason = ''FailedReplicas''"
definition InfrastructureReadyReason :: string where "InfrastructureReadyReason = ''InfrastructureReady''"
definition DeletionFailedReason :: string where "DeletionFailedReason = ''DeletionFailed''"
definition ReadyCondition :: string where "ReadyCondition = ''Ready''"

text \<open>\<open>ReadyCondition\<close> is the Cluster API constant \<open>clusterv1.ReadyCondition\<close>.\<close>

lemmas condition_consts =
  VMRunningCondition_def VMUpdatingReason_def
  VMProvisionFailedReason_def VMNotFoundReason_def
  OutOfMemoryReason_def OutOfCapacityReason_def
  OutOfNodeCapacityReason_def PathNotFoundReason_def
  NotFoundReason_def MOCUnreachableReason_def
  NetworkInfrastructureReadyCondition_def ClusterReconciliationFailedReason_def
  LoadBalancerProvisioningReason_def LoadBalancerDeletingReason_def
  AzureStackHCIMachinesDeletingReason_def LoadBalancerInfrastructureReadyCondition_def
  LoadBalancerServiceReconciliationFailedReason_def LoadBalancerServiceStatusFailedReason_def
  LoadBalancerMachineReconciliationFailedReason_def LoadBalancerAddressUnavailableReason_def
  LoadBalancerNoReplicasReadyReason_def LoadBalancerReplicasReadyCondition_def
  LoadBalancerWaitingForReplicasReadyReason_def LoadBalancerReplicasScalingUpReason_def
  LoadBalancerReplicasScalingDownReason_def LoadBalancerReplicasUpgradingReason_def
  LoadBalancerReplicasFailedReason_def InfrastructureReadyReason_def
  DeletionFailedReason_def ReadyCondition_def

subsection \<open>Phases\<close>

definition AzureStackHCIClusterPhasePending :: string where "AzureStackHCIClusterPhasePending = ''pending''"
definition AzureStackHCIClusterPhaseProvisioning :: string where "AzureStackHCIClusterPhaseProvisioning = ''provisioning''"
definition AzureStackHCIClusterPhaseProvisioned :: string where "AzureStackHCIClusterPhaseProvisioned = ''provisioned''"
definition AzureStackHCIClusterPhaseDeleting :: string where "AzureStackHCIClusterPhaseDeleting = ''deleting''"
definition AzureStackHCIClusterPhaseFailed :: string where "AzureStackHCIClusterPhaseFailed = ''failed''"
definition AzureStackHCIClusterPhaseUpgrading :: string where "AzureStackHCIClusterPhaseUpgrading = ''upgrading''"
definition AzureStackHCIClusterPhaseUnknown :: string where "AzureStackHCIClusterPhaseUnknown = []"
definition AzureStackHCILoadBalancerPhasePending :: string where "AzureStackHCILoadBalancerPhasePending = ''pending''"
definition AzureStackHCILoadBalancerPhaseProvisioning :: string where "AzureStackHCILoadBalancerPhaseProvisioning = ''provisioning''"
definition AzureStackHCILoadBalancerPhaseProvisioned :: string where "AzureStackHCILoadBalancerPhaseProvisioned = ''provisioned''"
definition AzureStackHCILoadBalancerPhaseScaling :: string where "AzureStackHCILoadBalancerPhaseScaling = ''scaling''"
definition AzureStackHCILoadBalancerPhaseUpgrading :: string where "AzureStackHCILoadBalancerPhaseUpgrading = ''upgrading''"
definition AzureStackHCILoadBalancerPhaseDeleting :: string where "AzureStackHCILoadBalancerPhaseDeleting = ''deleting''"
definition AzureStackHCILoadBalancerPhaseFailed :: string where "AzureStackHCILoadBalancerPhaseFailed = ''failed''"
definition AzureStackHCILoadBalancerPhaseUnknown :: string where "AzureStackHCILoadBalancerPhaseUnknown = []"

lemmas AzureStackHCIClusterPhase_defs =
  AzureStackHCIClusterPhasePending_def
  AzureStackHCIClusterPhaseProvisioning_def
  AzureStackHCIClusterPhaseProvisioned_def
  AzureStackHCIClusterPhaseDeleting_def
  AzureStackHCIClusterPhaseFailed_def
  AzureStackHCIClusterPhaseUpgrading_def
  AzureStackHCIClusterPhaseUnknown_def

lemmas AzureStackHCILoadBalancerPhase_defs =
  AzureStackHCILoadBalancerPhasePending_def
  AzureStackHCILoadBalancerPhaseProvisioning_def
  AzureStackHCILoadBalancerPhaseProvisioned_def
  AzureStackHCILoadBalancerPhaseScaling_def
  AzureStackHCILoadBalancerPhaseUpgrading_def
  AzureStackHCILoadBalancerPhaseDeleting_def
  AzureStackHCILoadBalancerPhaseFailed_def
  AzureStackHCILoadBalancerPhaseUnknown_def
definition Cluster_SetTypedPhase :: "string \<Rightarrow> AzureStackHCIClusterStatus \<Rightarrow>
    AzureStackHCIClusterStatus" where
  "Cluster_SetTypedPhase p c = c\<lparr>cst_Phase := p\<rparr>"

definition Cluster_GetTypedPhase :: "AzureStackHCIClusterStatus \<Rightarrow> string" where
  "Cluster_GetTypedPhase c = (let phase = cst_Phase c in
     if phase = AzureStackHCIClusterPhasePending \<or>
        phase = AzureStackHCIClusterPhaseProvisioning \<or>
        phase = AzureStackHCIClusterPhaseProvisioned \<or>
        phase = AzureStackHCIClusterPhaseDeleting \<or>
        phase = AzureStackHCIClusterPhaseFailed
     then phase else AzureStackHCIClusterPhaseUnknown)"

definition LB_SetTypedPhase :: "string \<Rightarrow> AzureStackHCILoadBalancerStatus \<Rightarrow>
    AzureStackHCILoadBalancerStatus" where
  "LB_SetTypedPhase p c = c\<lparr>lbst_Phase := p\<rparr>"

definition LB_GetTypedPhase :: "AzureStackHCILoadBalancerStatus \<Rightarrow> string" where
  "LB_GetTypedPhase c = (let phase = lbst_Phase c in
     if phase = AzureStackHCILoadBalancerPhasePending \<or>
        phase = AzureStackHCILoadBalancerPhaseProvisioning \<or>
        phase = AzureStackHCILoadBalancerPhaseProvisioned \<or>
        phase = AzureStackHCILoadBalancerPhaseScaling \<or>
        phase = AzureStackHCILoadBalancerPhaseUpgrading \<or>
        phase = AzureStackHCILoadBalancerPhaseDeleting \<or>
        phase = AzureStackHCILoadBalancerPhaseFailed
     then phase else AzureStackHCILoadBalancerPhaseUnknown)"

text \<open>
  The contract of the accessors: reading back a phase that was set gives that phase when it is
  one of the parsed phases and the empty, unknown phase otherwise, and setting it again
  overwrites it.
\<close>

locale typed_phase =
  fixes parsed :: "string list"
    and setPhase :: "string \<Rightarrow> 'st \<Rightarrow> 'st"
    and getPhase :: "'st \<Rightarrow> string"
  assumes get_set: "getPhase (setPhase p st) = (if p \<in> set parsed then p else [])"
    and set_set: "setPhase p (setPhase q st) = setPhase p st"
    and get_parsed: "getPhase st \<in> insert [] (set parsed)"
begin

lemma get_set_parsed: "p \<in> set parsed \<Longrightarrow> getPhase (setPhase p st) = p"
  by (simp add: get_set)

lemma last_set_wins: "getPhase (setPhase p (setPhase q st)) = getPhase (setPhase p st)"
  by (simp add: set_set)

text \<open>Writing back what was read never changes what is read.\<close>

lemma get_set_get: "getPhase (setPhase (getPhase st) st) = getPhase st"
  using get_parsed [of st] by (auto simp: get_set)

end

definition Cluster_parsed_phases :: "string list" where
  "Cluster_parsed_phases = [AzureStackHCIClusterPhasePending,
     AzureStackHCIClusterPhaseProvisioning, AzureStackHCIClusterPhaseProvisioned,
     AzureStackHCIClusterPhaseDeleting, AzureStackHCIClusterPhaseFailed]"

definition LB_parsed_phases :: "string list" where
  "LB_parsed_phases = [AzureStackHCILoadBalancerPhasePending,
     AzureStackHCILoadBalancerPhaseProvisioning, AzureStackHCILoadBalancerPhaseProvisioned,
     AzureStackHCILoadBalancerPhaseScaling, AzureStackHCILoadBalancerPhaseUpgrading,
     AzureStackHCILoadBalancerPhaseDeleting, AzureStackHCILoadBalancerPhaseFailed]"

interpretation cluster_phase: typed_phase Cluster_parsed_phases Cluster_SetTypedPhase
    Cluster_GetTypedPhase
  by unfold_locales
    (auto simp: Cluster_parsed_phases_def Cluster_SetTypedPhase_def Cluster_GetTypedPhase_def
      AzureStackHCIClusterPhaseUnknown_def Let_def)

interpretation lb_phase: typed_phase LB_parsed_phases LB_SetTypedPhase LB_GetTypedPhase
  by unfold_locales
    (auto simp: LB_parsed_phases_def LB_SetTypedPhase_def LB_GetTypedPhase_def
      AzureStackHCILoadBalancerPhaseUnknown_def Let_def)

subsection \<open>Orders on virtual machines\<close>

text \<open>
  \<open>VirtualMachinesByCreationTimestamp.Less\<close>; strings compare bytewise, as the lexicographic
  order on character codes.
\<close>

fun string_less :: "string \<Rightarrow> string \<Rightarrow> bool" where
  "string_less _ [] = False"
| "string_less [] (_ # _) = True"
| "string_less (c # cs) (d # ds) =
     ((of_char c :: nat) < of_char d \<or> (c = d \<and> string_less cs ds))"

definition VirtualMachines_Less :: "AzureStackHCIVirtualMachine \<Rightarrow> AzureStackHCIVirtualMachine \<Rightarrow>
    bool" where
  "VirtualMachines_Less a b =
     (if om_CreationTimestamp (hvm_Meta a) = om_CreationTimestamp (hvm_Meta b)
      then string_less (om_Name (hvm_Meta a)) (om_Name (hvm_Meta b))
      else om_CreationTimestamp (hvm_Meta a) < om_CreationTimestamp (hvm_Meta b))"

lemma string_less_irrefl [simp]: "\<not> string_less s s"
  by (induction s) auto

lemma string_less_trans: "string_less a b \<Longrightarrow> string_less b c \<Longrightarrow> string_less a c"
proof (induction a b arbitrary: c rule: string_less.induct)
  case (2 d ds)
  then show ?case by (cases c) auto
next
  case (3 c cs d ds)
  then show ?case by (cases c) auto
qed simp

lemma string_less_total: "a = b \<or> string_less a b \<or> string_less b a"
proof (induction a b rule: string_less.induct)
  case (3 c cs d ds)
  then show ?case by (auto simp: not_less_iff_gr_or_eq neq_iff)
next
  case (1 s)
  then show ?case by (cases s) auto
qed simp

lemma VirtualMachines_Less_irrefl [simp]: "\<not> VirtualMachines_Less a a"
  by (simp add: VirtualMachines_Less_def)

lemma VirtualMachines_Less_trans:
  "VirtualMachines_Less a b \<Longrightarrow> VirtualMachines_Less b c \<Longrightarrow> VirtualMachines_Less a c"
  by (auto simp: VirtualMachines_Less_def split: if_splits intro: string_less_trans)

lemma VirtualMachines_Less_total:
  "om_Name (hvm_Meta a) \<noteq> om_Name (hvm_Meta b) \<Longrightarrow>
   VirtualMachines_Less a b \<or> VirtualMachines_Less b a"
  using string_less_total [of "om_Name (hvm_Meta a)" "om_Name (hvm_Meta b)"]
  by (auto simp: VirtualMachines_Less_def)

end
