(* ===== verification/Externals.thy ===== *)
theory Externals
  imports ApiConsts
begin

text \<open>
  What the sources call but do not contain: the Kubernetes client and Cluster API helpers, the
  MOC SDK clients, error inspection, randomness, the environment.  Each is a field of a record
  that the operations take as an argument, so every theorem holds for whatever these functions
  do, up to the documented laws stated here as predicates on the records (\<open>lib_conditions\<close>,
  \<open>lib_finalizers\<close>, \<open>lib_ownerrefs\<close>).  The type variable \<open>'w\<close> is the world the effectful calls
  act on.

  The theory also holds what several components build on these: the state of a reconciler
  (world, object under reconciliation, events) and the interface through which the conditions
  library reads and writes an object, the locale \<open>conditions_object\<close>.
\<close>

subsection \<open>Pure library functions\<close>

text \<open>\<open>err_Error\<close> is \<open>err.Error()\<close>, \<open>err_Plus\<close> the rendering of an error by \<open>%+v\<close>.\<close>

datatype grpc_code = GrpcOK | GrpcNotFound | GrpcAlreadyExists | GrpcUnavailable | GrpcOther nat

record lib =
  cond_Set :: "Condition list \<Rightarrow> Condition \<Rightarrow> Condition list"
  cond_Get :: "Condition list \<Rightarrow> string \<Rightarrow> Condition option"
  cond_IsFalse :: "Condition list \<Rightarrow> string \<Rightarrow> bool"
  cond_GetReason :: "Condition list \<Rightarrow> string \<Rightarrow> string"
  lib_AddFinalizer :: "string list \<Rightarrow> string \<Rightarrow> string list"
  lib_RemoveFinalizer :: "string list \<Rightarrow> string \<Rightarrow> string list"
  lib_EnsureOwnerRef :: "OwnerReference list \<Rightarrow> OwnerReference \<Rightarrow> OwnerReference list"
  lib_IsControlPlaneMachine :: "Machine \<Rightarrow> bool"
  semver_ParseTolerant :: "string \<Rightarrow> goerror + nat \<times> nat \<times> nat"
  err_Error :: "goerror \<Rightarrow> string"
  err_Plus :: "goerror \<Rightarrow> string"
  err_Aggregate :: "goerror list \<Rightarrow> string"
  err_IsNotFound :: "goerror \<Rightarrow> bool"
  err_IsAlreadyExists :: "goerror \<Rightarrow> bool"
  moc_GetErrorCode :: "goerror \<Rightarrow> string"
  moc_IsPathNotFound :: "goerror \<Rightarrow> bool"
  moc_IsGRPCUnavailable :: "goerror \<Rightarrow> bool"
  moc_IsExpired :: "goerror \<Rightarrow> bool"
  status_FromError :: "goerror \<Rightarrow> grpc_code option"
  moc_OutOfMemory :: string
  moc_OutOfCapacity :: string
  moc_OutOfNodeCapacity :: string
  moc_NotFound :: string
  moccodes_NotFound :: string

text \<open>
  The conditions library keeps at most one condition per type.  \<open>Set\<close> replaces or adds the
  condition of its type, keeps status, reason and message, and leaves other types alone;
  \<open>IsFalse\<close> and \<open>GetReason\<close> look at the condition \<open>Get\<close> finds, which is one of the list.
\<close>

definition same_condition :: "Condition \<Rightarrow> Condition \<Rightarrow> bool" where
  "same_condition c d \<longleftrightarrow> c_Type c = c_Type d \<and> c_Status c = c_Status d \<and>
     c_Reason c = c_Reason d \<and> c_Message c = c_Message d"

definition lib_conditions :: "lib \<Rightarrow> bool" where
  "lib_conditions L \<longleftrightarrow>
     (\<forall>cs c. \<exists>d. cond_Get L (cond_Set L cs c) (c_Type c) = Some d \<and> same_condition d c) \<and>
     (\<forall>cs c t. t \<noteq> c_Type c \<longrightarrow> cond_Get L (cond_Set L cs c) t = cond_Get L cs t) \<and>
     (\<forall>cs c. distinct (map c_Type cs) \<longrightarrow> distinct (map c_Type (cond_Set L cs c))) \<and>
     (\<forall>cs c. c_Type ` set (cond_Set L cs c) = insert (c_Type c) (c_Type ` set cs)) \<and>
     (\<forall>cs t. cond_IsFalse L cs t =
        (case cond_Get L cs t of None \<Rightarrow> False | Some c \<Rightarrow> c_Status c = ConditionFalse)) \<and>
     (\<forall>cs t. cond_GetReason L cs t =
        (case cond_Get L cs t of None \<Rightarrow> [] | Some c \<Rightarrow> c_Reason c)) \<and>
     (\<forall>cs t c. cond_Get L cs t = Some c \<longrightarrow> c \<in> set cs \<and> c_Type c = t)"

definition lib_finalizers :: "lib \<Rightarrow> bool" where
  "lib_finalizers L \<longleftrightarrow>
     (\<forall>fs f. set (lib_AddFinalizer L fs f) = insert f (set fs)) \<and>
     (\<forall>fs f. set (lib_RemoveFinalizer L fs f) = set fs - {f})"

definition lib_ownerrefs :: "lib \<Rightarrow> bool" where
  "lib_ownerrefs L \<longleftrightarrow> (\<forall>refs r. r \<in> set (lib_EnsureOwnerRef L refs r))"

text \<open>\<open>cloud/errors.go\<close>\<close>

definition ResourceNotFound :: "lib \<Rightarrow> goerror \<Rightarrow> bool" where
  "ResourceNotFound L err =
     (case status_FromError L err of Some code \<Rightarrow> code = GrpcNotFound | None \<Rightarrow> False)"

definition ResourceAlreadyExists :: "lib \<Rightarrow> goerror \<Rightarrow> bool" where
  "ResourceAlreadyExists L err =
     (case status_FromError L err of Some code \<Rightarrow> code = GrpcAlreadyExists | None \<Rightarrow> False)"

subsection \<open>The Kubernetes API\<close>

record Secret =
  sec_Data :: "(string \<times> string) list"

record VolumeAttachment =
  va_Attacher :: string
  va_NodeName :: string
  va_PersistentVolumeName :: "string option"

record RestConfig =
  rc_Data :: string
  rc_TimeoutSeconds :: nat

datatype OperationResult = OperationResultNone | OperationResultCreated | OperationResultUpdated
  | OperationResultUpdatedStatus | OperationResultUpdatedStatusOnly

record 'w kube =
  k_Get_VM :: "ObjectKey \<Rightarrow> ('w, goerror + AzureStackHCIVirtualMachine) io"
  k_Get_LB :: "ObjectKey \<Rightarrow> ('w, goerror + AzureStackHCILoadBalancer) io"
  k_Get_HCluster :: "ObjectKey \<Rightarrow> ('w, goerror + AzureStackHCICluster) io"
  k_Get_HMachine :: "ObjectKey \<Rightarrow> ('w, goerror + AzureStackHCIMachine) io"
  k_Get_Secret :: "ObjectKey \<Rightarrow> ('w, goerror + Secret) io"
  k_Create_Secret :: "ObjectKey \<Rightarrow> (string \<times> string) list \<Rightarrow> ('w, goerror option) io"
  k_List_VMs :: "string \<Rightarrow> (string \<times> string) list \<Rightarrow>
      ('w, goerror + AzureStackHCIVirtualMachine list) io"
  k_List_HMachines :: "string \<Rightarrow> (string \<times> string) list \<Rightarrow>
      ('w, goerror + AzureStackHCIMachine list) io"
  k_List_Machines :: "string \<Rightarrow> (string \<times> string) list \<Rightarrow> ('w, goerror + Machine list) io"
  k_Update_VM :: "AzureStackHCIVirtualMachine \<Rightarrow>
      ('w, goerror option \<times> AzureStackHCIVirtualMachine) io"
  k_Update_LB :: "AzureStackHCILoadBalancer \<Rightarrow>
      ('w, goerror option \<times> AzureStackHCILoadBalancer) io"
  k_Update_HMachine :: "AzureStackHCIMachine \<Rightarrow>
      ('w, goerror option \<times> AzureStackHCIMachine) io"
  k_Delete_VM :: "AzureStackHCIVirtualMachine \<Rightarrow> ('w, goerror option) io"
  k_Delete_LB :: "AzureStackHCILoadBalancer \<Rightarrow> ('w, goerror option) io"
  k_Delete_HMachine :: "AzureStackHCIMachine \<Rightarrow> ('w, goerror option) io"
  k_CreateOrUpdate_VM :: "AzureStackHCIVirtualMachine \<Rightarrow>
      (AzureStackHCIVirtualMachine \<Rightarrow> ('w, goerror option \<times> AzureStackHCIVirtualMachine) io) \<Rightarrow>
      ('w, OperationResult \<times> goerror option \<times> AzureStackHCIVirtualMachine) io"
  k_CreateOrUpdate_LB :: "AzureStackHCILoadBalancer \<Rightarrow>
      (AzureStackHCILoadBalancer \<Rightarrow> ('w, goerror option \<times> AzureStackHCILoadBalancer) io) \<Rightarrow>
      ('w, OperationResult \<times> goerror option \<times> AzureStackHCILoadBalancer) io"
  k_NewHelper :: "('w, goerror option) io"
  k_Patch_VM :: "AzureStackHCIVirtualMachine \<Rightarrow> AzureStackHCIVirtualMachine \<Rightarrow>
      ('w, goerror option) io"
  k_Patch_HMachine :: "AzureStackHCIMachine \<Rightarrow> AzureStackHCIMachine \<Rightarrow> ('w, goerror option) io"
  k_Patch_LB :: "AzureStackHCILoadBalancer \<Rightarrow> AzureStackHCILoadBalancer \<Rightarrow>
      ('w, goerror option) io"
  k_Patch_HCluster :: "AzureStackHCICluster \<Rightarrow> AzureStackHCICluster \<Rightarrow> ('w, goerror option) io"
  k_GetOwnerMachine :: "ObjectMeta \<Rightarrow> ('w, goerror + Machine option) io"
  k_GetOwnerCluster :: "ObjectMeta \<Rightarrow> ('w, goerror + Cluster option) io"
  k_GetClusterFromMetadata :: "ObjectMeta \<Rightarrow> ('w, goerror + Cluster) io"
  k_KubeconfigFromSecret :: "ObjectKey \<Rightarrow> ('w, goerror + string) io"
  k_RESTConfigFromKubeConfig :: "string \<Rightarrow> goerror + RestConfig"
  k_NewForConfig :: "RestConfig \<Rightarrow> goerror + string"
  k_ListVolumeAttachments :: "string \<Rightarrow> ('w, goerror + VolumeAttachment list) io"

subsection \<open>The process environment\<close>

text \<open>
  Environment variables, files, randomness, polling, and the goroutine scheduler: \<open>sys_go m\<close> is
  what starting \<open>m\<close> as a goroutine does to the world by the time the caller goes on, all of
  \<open>m\<close>, nothing, or anything a scheduler may do.
\<close>

record 'w sys =
  sys_Getenv :: "string \<Rightarrow> ('w, string) io"
  sys_go :: "('w, unit) io \<Rightarrow> ('w, unit) io"
  sys_randInt :: "nat \<Rightarrow> ('w, goerror + nat) io"
  sys_PollImmediate :: "nat \<Rightarrow> nat \<Rightarrow> ('w, bool \<times> goerror option) io \<Rightarrow> ('w, goerror option) io"
  sys_Stat :: "string \<Rightarrow> ('w, goerror option) io"
  sys_NewAuthorizerFromEnvironment :: "string \<Rightarrow> ('w, goerror + string) io"
  sys_LoadYAMLConfig :: "string \<Rightarrow> goerror + string"
  sys_NewAuthenticationClientAuthMode :: "string \<Rightarrow> string \<Rightarrow> ('w, goerror + string) io"
  sys_LoginWithConfig :: "string \<Rightarrow> string \<Rightarrow> ('w, goerror option) io"
  sys_UpdateLoginConfig :: "string \<Rightarrow> ('w, unit) io"
  sys_GenerateRSAKey :: "nat \<Rightarrow> ('w, goerror + string) io"
  sys_NewPublicKey :: "string \<Rightarrow> goerror + string"
  sys_MarshalAuthorizedKey :: "string \<Rightarrow> string"

subsection \<open>The MOC SDK\<close>

type_synonym tags = "(string \<times> string option) list"

record Group =
  g_Name :: "string option"
  g_Location :: "string option"
  g_Tags :: tags

record KeyVault =
  kv_Name :: "string option"

record VirtualHardDisk =
  vhd_Name :: "string option"

record VirtualNetwork =
  vn_Name :: "string option"
  vn_Type :: "string option"
  vn_AddressPrefixes :: "string list"
  vn_Tags :: tags

record InterfaceIPConfiguration =
  iic_Name :: "string option"
  iic_Primary :: "bool option"
  iic_SubnetID :: "string option"
  iic_BackendAddressPools :: "string list option"
  iic_PrivateIPAddress :: "string option"

record Interface =
  if_Name :: "string option"
  if_EnableIPForwarding :: "bool option"
  if_EnableMACSpoofing :: "bool option"
  if_MacAddress :: "string option"
  if_IPConfigurations :: "InterfaceIPConfiguration list"

record FrontendIPProperties =
  fip_SubnetID :: "string option"
  fip_IPAddress :: "string option"

text \<open>SDK constants are known by name only.\<close>

datatype TransportProtocol = TransportProtocolTCP
datatype GpuAssignment = GpuDefault

record LoadBalancingRule =
  lbr_Protocol :: TransportProtocol
  lbr_FrontendPort :: "int32 option"
  lbr_BackendPort :: "int32 option"

record LoadBalancerProperties =
  lbp_BackendAddressPools :: "string option list"
  lbp_FrontendIPConfigurations :: "FrontendIPProperties option list option"
  lbp_LoadBalancingRules :: "LoadBalancingRule list"
  lbp_ReplicationCount :: int

record LoadBalancer =
  nlb_Name :: "string option"
  nlb_Properties :: "LoadBalancerProperties option"
  nlb_Tags :: tags

record VipPool =
  vp_Name :: "string option"

datatype VMType = Tenant | LoadBalancerVMType

record ImageReference =
  ir_Name :: "string option"
  ir_ID :: "string option"
  ir_Publisher :: "string option"
  ir_Offer :: "string option"
  ir_Sku :: "string option"
  ir_Version :: "string option"

record StorageProfile =
  sp_OsDiskVhdURI :: string
  sp_DataDisks :: "string list"
  sp_ImageReference :: ImageReference
  sp_VmConfigContainerName :: string

record SSHPublicKey =
  sshk_Path :: string
  sshk_KeyData :: string

record LinuxConfiguration =
  lc_SSH :: "SSHPublicKey list"
  lc_DisablePasswordAuthentication :: "bool option"

record OSProfile =
  osp_ComputerName :: "string option"
  osp_AdminUsername :: "string option"
  osp_AdminPassword :: "string option"
  osp_CustomData :: "string option"
  osp_OsType :: string
  osp_LinuxConfiguration :: "LinuxConfiguration option"
  osp_WindowsConfiguration :: "SSHPublicKey list option"

record VirtualMachineProperties =
  vmp_StorageProfile :: StorageProfile
  vmp_OsProfile :: OSProfile
  vmp_NetworkInterfaces :: "string option list"
  vmp_VmType :: VMType
  vmp_VMSize :: string
  vmp_GPUs :: "GpuAssignment list"
  vmp_AvailabilitySet :: "(string \<times> string) option"
  vmp_PlacementGroup :: "(string \<times> string) option"

record VirtualMachine =
  sdk_ID :: "string option"
  sdk_Name :: "string option"
  sdk_Properties :: "VirtualMachineProperties option"

record 'w moc =
  m_Get_Group :: "string \<Rightarrow> string \<Rightarrow> ('w, goerror + Group list) io"
  m_Create_Group :: "string \<Rightarrow> string \<Rightarrow> Group \<Rightarrow> ('w, goerror option) io"
  m_Delete_Group :: "string \<Rightarrow> string \<Rightarrow> ('w, goerror option) io"
  m_Get_KeyVault :: "string \<Rightarrow> string \<Rightarrow> ('w, goerror + KeyVault list) io"
  m_Create_KeyVault :: "string \<Rightarrow> string \<Rightarrow> KeyVault \<Rightarrow> ('w, goerror option) io"
  m_Delete_KeyVault :: "string \<Rightarrow> string \<Rightarrow> ('w, goerror option) io"
  m_Get_Disk :: "string \<Rightarrow> string \<Rightarrow> string \<Rightarrow> ('w, goerror + VirtualHardDisk list) io"
  m_Create_Disk :: "string \<Rightarrow> string \<Rightarrow> string \<Rightarrow> VirtualHardDisk \<Rightarrow> ('w, goerror option) io"
  m_Delete_Disk :: "string \<Rightarrow> string \<Rightarrow> string \<Rightarrow> ('w, goerror option) io"
  m_Get_VNet :: "string \<Rightarrow> string \<Rightarrow> ('w, goerror + VirtualNetwork list) io"
  m_Create_VNet :: "string \<Rightarrow> string \<Rightarrow> VirtualNetwork \<Rightarrow> ('w, goerror option) io"
  m_Delete_VNet :: "string \<Rightarrow> string \<Rightarrow> ('w, goerror option) io"
  m_Get_NIC :: "string \<Rightarrow> string \<Rightarrow> ('w, goerror + Interface list) io"
  m_Create_NIC :: "string \<Rightarrow> string \<Rightarrow> Interface \<Rightarrow> ('w, goerror option) io"
  m_Delete_NIC :: "string \<Rightarrow> string \<Rightarrow> ('w, goerror option) io"
  m_Get_LB :: "string \<Rightarrow> string \<Rightarrow> ('w, goerror + LoadBalancer list) io"
  m_Create_LB :: "string \<Rightarrow> string \<Rightarrow> LoadBalancer \<Rightarrow> ('w, goerror option) io"
  m_Delete_LB :: "string \<Rightarrow> string \<Rightarrow> ('w, goerror option) io"
  m_Get_VipPool :: "string \<Rightarrow> string \<Rightarrow> ('w, goerror + VipPool list) io"
  m_Get_VM :: "string \<Rightarrow> string \<Rightarrow> ('w, goerror + VirtualMachine list) io"
  m_Create_VM :: "string \<Rightarrow> string \<Rightarrow> VirtualMachine \<Rightarrow> ('w, goerror option) io"
  m_Delete_VM :: "string \<Rightarrow> string \<Rightarrow> ('w, goerror option) io"
  m_GetVersion :: "('w, goerror + string \<times> string) io"
  m_GetDeploymentId :: "('w, goerror + string) io"

subsection \<open>Reconciler state\<close>

datatype EventType = EventTypeNormal | EventTypeWarning

record Event =
  ev_Type :: EventType
  ev_Reason :: string
  ev_Message :: string

text \<open>
  A reconcile works on the world, on the object it was asked to reconcile, which its scope
  holds by pointer, and on the event stream.
\<close>

record ('w, 'o) rstate =
  world :: 'w
  obj :: 'o
  events :: "Event list"

definition on_world :: "('w, 'a) io \<Rightarrow> (('w, 'o) rstate, 'a) io" where
  "on_world m = zoom world (\<lambda>w s. s\<lparr>world := w\<rparr>) m"

definition upd_obj :: "('o \<Rightarrow> 'o) \<Rightarrow> (('w, 'o) rstate, unit) io" where
  "upd_obj f = modify (\<lambda>s. s\<lparr>obj := f (obj s)\<rparr>)"

definition Eventf :: "EventType \<Rightarrow> string \<Rightarrow> string \<Rightarrow> (('w, 'o) rstate, unit) io" where
  "Eventf ty reason msg = modify (\<lambda>s. s\<lparr>events := events s @
     [\<lparr>ev_Type = ty, ev_Reason = reason, ev_Message = msg\<rparr>]\<rparr>)"

text \<open>
  A handler that fetched its object runs on it; what it leaves behind is the world and the
  events, the object itself having been persisted by patches.
\<close>

definition with_obj :: "'o \<Rightarrow> (('w, 'o) rstate, 'a) io \<Rightarrow> (('w, unit) rstate, 'a) io" where
  "with_obj x m = (\<lambda>s. case m \<lparr>world = world s, obj = x, events = events s\<rparr> of
     (r, t) \<Rightarrow> (r, \<lparr>world = world t, obj = (), events = events t\<rparr>))"

text \<open>The result of a reconcile, \<open>ctrl.Result\<close>, with its delay in seconds.\<close>

record Result =
  Requeue :: bool
  RequeueAfter :: nat

definition noResult :: Result where "noResult = \<lparr>Requeue = False, RequeueAfter = 0\<rparr>"

text \<open>
  The deferred \<open>Close\<close> of the reconcilers: it always runs, and its error is returned when the
  reconcile itself had none.
\<close>

definition close_after :: "('s, goerror option) io \<Rightarrow> ('s, Result \<times> goerror option) io \<Rightarrow>
    ('s, Result \<times> goerror option) io" where
  "close_after close m = deferred m (\<lambda>r. bind close (\<lambda>e. return (case (e, r) of
      (Some err, Some (res, None)) \<Rightarrow> Some (res, Some err)
    | _ \<Rightarrow> None)))"

lemma close_after_Ret:
  "m s = (Ret (res, e), t) \<Longrightarrow> close t = (Ret c, u) \<Longrightarrow>
   close_after close m s = (Ret (res, case e of None \<Rightarrow> c | Some err \<Rightarrow> Some err), u)"
  by (auto simp: close_after_def deferred_def bind_def split: option.splits)

lemma on_world_app: "on_world m s = (case m (world s) of (r, w) \<Rightarrow> (r, s\<lparr>world := w\<rparr>))"
  by (simp add: on_world_def zoom_def)

lemma bind_upd_obj [simp]: "bind (upd_obj f) g s = g () (s\<lparr>obj := f (obj s)\<rparr>)"
  by (simp add: upd_obj_def)

lemma bind_Eventf [simp]: "bind (Eventf ty r msg) g s = g () (s\<lparr>events := events s @
    [\<lparr>ev_Type = ty, ev_Reason = r, ev_Message = msg\<rparr>]\<rparr>)"
  by (simp add: Eventf_def)

lemma upd_obj_eq_Ret [run_simps]: "upd_obj f s = (Ret u, t) \<longleftrightarrow> t = s\<lparr>obj := f (obj s)\<rparr>"
  by (auto simp: upd_obj_def modify_def)

lemma Eventf_eq_Ret [run_simps]: "Eventf ty r msg s = (Ret u, t) \<longleftrightarrow>
    t = s\<lparr>events := events s @ [\<lparr>ev_Type = ty, ev_Reason = r, ev_Message = msg\<rparr>]\<rparr>"
  by (auto simp: Eventf_def modify_def)

lemma hoare_upd_obj [hoare_rules]:
  "(\<And>s. P s \<Longrightarrow> Q () (s\<lparr>obj := f (obj s)\<rparr>)) \<Longrightarrow> hoare P (upd_obj f) Q R"
  by (simp add: upd_obj_def hoare_def)

lemma hoare_Eventf [hoare_rules]:
  "(\<And>s e. P s \<Longrightarrow> Q () (s\<lparr>events := events s @ [e]\<rparr>)) \<Longrightarrow> hoare P (Eventf ty r msg) Q R"
  by (simp add: Eventf_def hoare_def)

lemma preserves_on_world [hoare_rules]:
  "(\<And>w s. I s \<Longrightarrow> I (s\<lparr>world := w\<rparr>)) \<Longrightarrow> preserves (on_world m) I"
  unfolding on_world_def by (rule preserves_zoom)

lemma hoare_on_world:
  assumes "\<And>s x w. P s \<Longrightarrow> m (world s) = (Ret x, w) \<Longrightarrow> Q x (s\<lparr>world := w\<rparr>)"
    and "\<And>s p w. P s \<Longrightarrow> m (world s) = (Panics p, w) \<Longrightarrow> R (s\<lparr>world := w\<rparr>)"
  shows "hoare P (on_world m) Q R"
  using assms by (intro hoareI) (auto simp: on_world_app split: prod.splits)

lemma on_world_view:
  assumes "\<And>x. preserves m (\<lambda>w. f w = x)"
  shows "preserves (on_world m) (\<lambda>s. P (f (world s)) (obj s))"
proof (rule hoare_on_world)
  fix s x w assume "P (f (world s)) (obj s)" "m (world s) = (Ret x, w)"
  then show "P (f (world (s\<lparr>world := w\<rparr>))) (obj (s\<lparr>world := w\<rparr>))" using hoareD_Ret [OF assms refl] by simp
next
  fix s p w assume "P (f (world s)) (obj s)" "m (world s) = (Panics p, w)"
  then show "P (f (world (s\<lparr>world := w\<rparr>))) (obj (s\<lparr>world := w\<rparr>))" using hoareD_Panics [OF assms refl] by simp
qed

text \<open>The deferred patch at the end runs on every way out, a panic included.\<close>

lemma hoare_close_after:
  assumes "hoare P m (\<lambda>_. C) C" "hoare C close (\<lambda>_. I) I"
  shows "hoare P (close_after close m) (\<lambda>_. I) I"
proof -
  have close: "hoare C (bind close (\<lambda>e. return (f e))) (\<lambda>_. I) I" for f :: "goerror option \<Rightarrow> (Result \<times> goerror option) option"
    by (rule hoare_bind [OF assms(2)], rule hoare_return)
  show ?thesis
    unfolding close_after_def deferred_def
    using close assms(1) unfolding hoare_def by (fastforce split: prod.splits res.splits option.splits)
qed

lemma hoare_with_obj:
  assumes "hoare Q m (\<lambda>_ s. I (world s)) (\<lambda>s. I (world s))"
    and "\<And>s. P s \<Longrightarrow> Q \<lparr>world = world s, obj = x, events = events s\<rparr>"
  shows "hoare P (with_obj x m) (\<lambda>_ s. I (world s)) (\<lambda>s. I (world s))"
  using assms unfolding with_obj_def hoare_def by (fastforce split: prod.splits res.splits)

lemma bind_on_world:
  "bind (on_world c) f s = (case c (world s) of
     (Ret x, w) \<Rightarrow> f x (s\<lparr>world := w\<rparr>) | (Panics p, w) \<Rightarrow> (Panics p, s\<lparr>world := w\<rparr>))"
  by (simp add: bind_def on_world_app split: prod.splits res.splits)

subsection \<open>Conditions on an object\<close>

text \<open>
  \<open>conditions.Set\<close>, \<open>Get\<close>, \<open>IsFalse\<close> and \<open>GetReason\<close> act on any object with the accessors
  \<open>GetConditions\<close> and \<open>SetConditions\<close>.
\<close>

definition conditions_Set :: "lib \<Rightarrow> ('o \<Rightarrow> Condition list) \<Rightarrow> (Condition list \<Rightarrow> 'o \<Rightarrow> 'o) \<Rightarrow>
    Condition \<Rightarrow> 'o \<Rightarrow> 'o" where
  "conditions_Set L getC setC c x = setC (cond_Set L (getC x) c) x"

text \<open>The object has a condition of this type, status, reason and message.\<close>

definition has_condition :: "lib \<Rightarrow> Condition list \<Rightarrow> Condition \<Rightarrow> bool" where
  "has_condition L cs c = (case cond_Get L cs (c_Type c) of
     None \<Rightarrow> False | Some d \<Rightarrow> same_condition d c)"

lemma Get_Set:
  "lib_conditions L \<Longrightarrow>
   \<exists>d. cond_Get L (cond_Set L cs c) (c_Type c) = Some d \<and> same_condition d c"
  by (simp only: lib_conditions_def)

lemma Get_Set_other:
  assumes "lib_conditions L" "t \<noteq> c_Type c"
  shows "cond_Get L (cond_Set L cs c) t = cond_Get L cs t"
proof -
  have "\<forall>cs c t. t \<noteq> c_Type c \<longrightarrow> cond_Get L (cond_Set L cs c) t = cond_Get L cs t"
    using assms(1) unfolding lib_conditions_def by (elim conjE)
  then show ?thesis using assms(2) by simp
qed

lemma IsFalse_Get:
  "lib_conditions L \<Longrightarrow> cond_IsFalse L cs t =
     (case cond_Get L cs t of None \<Rightarrow> False | Some c \<Rightarrow> c_Status c = ConditionFalse)"
  by (simp only: lib_conditions_def)

lemma GetReason_Get:
  "lib_conditions L \<Longrightarrow> cond_GetReason L cs t =
     (case cond_Get L cs t of None \<Rightarrow> [] | Some c \<Rightarrow> c_Reason c)"
  by (simp only: lib_conditions_def)

lemma has_condition_Set: "lib_conditions L \<Longrightarrow> has_condition L (cond_Set L cs c) c"
  using Get_Set [of L cs c] by (auto simp: has_condition_def)

lemma has_condition_Set_other:
  "lib_conditions L \<Longrightarrow> c_Type d \<noteq> c_Type c \<Longrightarrow>
   has_condition L (cond_Set L cs c) d = has_condition L cs d"
  by (simp add: has_condition_def Get_Set_other)

lemma IsFalse_Set:
  "lib_conditions L \<Longrightarrow> cond_IsFalse L (cond_Set L cs c) (c_Type c) = (c_Status c = ConditionFalse)"
  using Get_Set [of L cs c] by (auto simp: IsFalse_Get same_condition_def)

lemma IsFalse_Set_other:
  "lib_conditions L \<Longrightarrow> t \<noteq> c_Type c \<Longrightarrow> cond_IsFalse L (cond_Set L cs c) t = cond_IsFalse L cs t"
  by (simp add: IsFalse_Get Get_Set_other)

lemma GetReason_Set:
  "lib_conditions L \<Longrightarrow> cond_GetReason L (cond_Set L cs c) (c_Type c) = c_Reason c"
  using Get_Set [of L cs c] by (auto simp: GetReason_Get same_condition_def)

lemma GetReason_Set_other:
  "lib_conditions L \<Longrightarrow> t \<noteq> c_Type c \<Longrightarrow>
   cond_GetReason L (cond_Set L cs c) t = cond_GetReason L cs t"
  by (simp add: GetReason_Get Get_Set_other)

lemma distinct_Set:
  assumes "lib_conditions L" "distinct (map c_Type cs)"
  shows "distinct (map c_Type (cond_Set L cs c))"
proof -
  have "\<forall>cs c. distinct (map c_Type cs) \<longrightarrow> distinct (map c_Type (cond_Set L cs c))"
    using assms(1) unfolding lib_conditions_def by (elim conjE)
  then show ?thesis using assms(2) by simp
qed

lemma types_Set:
  "lib_conditions L \<Longrightarrow> c_Type ` set (cond_Set L cs c) = insert (c_Type c) (c_Type ` set cs)"
  by (simp only: lib_conditions_def)

lemma Get_member: "lib_conditions L \<Longrightarrow> cond_Get L cs t = Some c \<Longrightarrow> c \<in> set cs \<and> c_Type c = t"
  unfolding lib_conditions_def by blast

lemma has_condition_member:
  "lib_conditions L \<Longrightarrow> has_condition L cs c \<Longrightarrow> \<exists>d \<in> set cs. same_condition d c"
  by (auto simp: has_condition_def split: option.splits dest: Get_member)

lemmas cond_lib = has_condition_Set has_condition_Set_other IsFalse_Set IsFalse_Set_other
  GetReason_Set GetReason_Set_other distinct_Set types_Set

text \<open>What the library needs of the accessors: they are a lens onto the object.\<close>

locale conditions_object =
  fixes getC :: "'o \<Rightarrow> Condition list"
    and setC :: "Condition list \<Rightarrow> 'o \<Rightarrow> 'o"
  assumes get_set: "getC (setC cs x) = cs"
    and set_get: "setC (getC x) x = x"
    and set_set: "setC cs (setC ds x) = setC cs x"
begin

lemma getC_Set [simp]: "getC (conditions_Set L getC setC c x) = cond_Set L (getC x) c"
  by (simp add: conditions_Set_def get_set)

lemma has_Set:
  "lib_conditions L \<Longrightarrow> has_condition L (getC (conditions_Set L getC setC c x)) c"
  by (simp add: cond_lib)

text \<open>Two settings of different types do not disturb each other.\<close>

lemma has_Set_Set:
  "lib_conditions L \<Longrightarrow> c_Type c \<noteq> c_Type d \<Longrightarrow>
   has_condition L (getC (conditions_Set L getC setC d (conditions_Set L getC setC c x))) c"
  by (simp add: cond_lib)

lemma distinct_Set_types:
  "lib_conditions L \<Longrightarrow> distinct (map c_Type (getC x)) \<Longrightarrow>
   distinct (map c_Type (getC (conditions_Set L getC setC c x)))"
  by (simp add: cond_lib)

text \<open>Setting a whole list of conditions, one after the other.\<close>

lemma fold_Set_types:
  "lib_conditions L \<Longrightarrow>
   c_Type ` set (getC (fold (conditions_Set L getC setC) cs x)) =
   c_Type ` set cs \<union> c_Type ` set (getC x)"
  by (induction cs arbitrary: x) (auto simp: cond_lib)

lemma fold_Set_distinct:
  "lib_conditions L \<Longrightarrow> distinct (map c_Type (getC x)) \<Longrightarrow>
   distinct (map c_Type (getC (fold (conditions_Set L getC setC) cs x)))"
  by (induction cs arbitrary: x) (auto simp: cond_lib)

lemma fold_Set_other:
  "lib_conditions L \<Longrightarrow> t \<notin> c_Type ` set cs \<Longrightarrow>
   cond_Get L (getC (fold (conditions_Set L getC setC) cs x)) t = cond_Get L (getC x) t"
  by (induction cs arbitrary: x) (auto simp: Get_Set_other)

lemma fold_Set_has:
  "lib_conditions L \<Longrightarrow> distinct (map c_Type cs) \<Longrightarrow> c \<in> set cs \<Longrightarrow>
   has_condition L (getC (fold (conditions_Set L getC setC) cs x)) c"
proof (induction cs arbitrary: x)
  case (Cons d ds)
  show ?case
  proof (cases "c = d")
    case True
    with Cons.prems have "c_Type c \<notin> c_Type ` set ds" by simp
    with True Cons.prems(1) show ?thesis
      using has_Set [of L d x] by (simp add: has_condition_def fold_Set_other)
  next
    case False
    with Cons show ?thesis by simp
  qed
qed simp

end

interpretation vm_conditions: conditions_object VM_GetConditions VM_SetConditions
  by unfold_locales (auto simp: VM_GetConditions_def VM_SetConditions_def)

interpretation machine_conditions: conditions_object Machine_GetConditions Machine_SetConditions
  by unfold_locales (auto simp: Machine_GetConditions_def Machine_SetConditions_def)

interpretation lb_conditions: conditions_object LB_GetConditions LB_SetConditions
  by unfold_locales (auto simp: LB_GetConditions_def LB_SetConditions_def)

interpretation cluster_conditions: conditions_object Cluster_GetConditions Cluster_SetConditions
  by unfold_locales (auto simp: Cluster_GetConditions_def Cluster_SetConditions_def)

abbreviation "VM_Set L \<equiv> conditions_Set L VM_GetConditions VM_SetConditions"
abbreviation "Machine_Set L \<equiv> conditions_Set L Machine_GetConditions Machine_SetConditions"
abbreviation "LB_Set L \<equiv> conditions_Set L LB_GetConditions LB_SetConditions"
abbreviation "HCluster_Set L \<equiv> conditions_Set L Cluster_GetConditions Cluster_SetConditions"

end
