(* ===== verification/Defaults.thy ===== *)
theory Defaults
  imports Externals
begin

text \<open>
  \<open>cloud/defaults.go\<close> and \<open>pkg/util/util.go\<close>: the default names of cloud resources, the
  default image, random machine names, and the helpers the controllers share.  The lemmas show
  that generated names identify what they were generated from, what a random name consists of,
  and which volumes count as attached to a node.
\<close>

subsection \<open>Decimal numerals\<close>

definition digits :: "char set" where
  "digits = (\<lambda>n. char_of (n + 48)) ` {..<10 :: nat}"

lemma show_nat_digits: "set (show_nat n) \<subseteq> digits"
proof (induction n rule: show_nat.induct)
  case (1 n)
  show ?case
  proof (cases "n < 10")
    case True
    then show ?thesis by (subst show_nat.simps) (auto simp: digits_def)
  next
    case False
    with 1 show ?thesis by (subst show_nat.simps) (auto simp: digits_def)
  qed
qed

lemma show_nat_nonempty [simp]: "show_nat n \<noteq> []" "[] \<noteq> show_nat n"
  by (subst show_nat.simps, simp)+

lemma show_nat_inject: "show_nat m = show_nat n \<Longrightarrow> m = n"
proof (induction m arbitrary: n rule: show_nat.induct)
  case (1 m)
  show ?case
  proof (cases "m < 10")
    case True
    then show ?thesis using 1(2)
      by (cases "n < 10") (auto simp: show_nat.simps [of m] show_nat.simps [of n] dest: digit_char_inj)
  next
    case False
    with 1(2) have "\<not> n < 10"
      by (auto simp: show_nat.simps [of m] show_nat.simps [of n])
    with False 1(2) have "show_nat (m div 10) = show_nat (n div 10)"
      and "char_of (m mod 10 + 48) = (char_of (n mod 10 + 48) :: char)"
      by (auto simp: show_nat.simps [of m] show_nat.simps [of n])
    with 1(1) [OF False] have "m div 10 = n div 10" "m mod 10 = n mod 10"
      by (auto dest: digit_char_inj)
    then show ?thesis by (metis div_mult_mod_eq)
  qed
qed

lemma show_nat_inj [simp]: "show_nat m = show_nat n \<longleftrightarrow> m = n"
  using show_nat_inject by blast

text \<open>A numeral after a character that is no digit can be read back off the end of a string.\<close>

lemma append_numeral_inj:
  assumes "xs @ c # show_nat m = ys @ c # show_nat n" "c \<notin> digits"
  shows "xs = ys \<and> m = n"
proof -
  let ?f = "\<lambda>zs. takeWhile (\<lambda>d. d \<in> digits) (rev zs)"
  have tail: "?f (zs @ c # show_nat k) = rev (show_nat k)" for zs k
    using assms(2) show_nat_digits [of k] by (simp add: takeWhile_append subset_iff)
  have "rev (show_nat m) = rev (show_nat n)"
    using tail [of xs m] tail [of ys n] assms(1) by simp
  then show ?thesis using assms(1) by simp
qed

subsection \<open>Default names\<close>

definition DefaultUserName :: string where "DefaultUserName = ''clouduser''"
definition DefaultAzureStackHCIDNSZone :: string where
  "DefaultAzureStackHCIDNSZone = ''cloudapp.azurestackhci.com''"
definition DefaultVnetCIDR :: string where "DefaultVnetCIDR = ''10.0.0.0/8''"
definition DefaultControlPlaneSubnetCIDR :: string where
  "DefaultControlPlaneSubnetCIDR = ''10.0.0.0/16''"
definition DefaultNodeSubnetCIDR :: string where "DefaultNodeSubnetCIDR = ''10.1.0.0/16''"
definition DefaultInternalLBIPAddress :: string where
  "DefaultInternalLBIPAddress = ''10.0.0.100''"
definition DefaultImageOfferID :: string where "DefaultImageOfferID = ''linux''"
definition DefaultImageSKU :: string where "DefaultImageSKU = ''linux''"
definition DefaultImagePublisherID :: string where "DefaultImagePublisherID = ''na''"
definition LatestVersion :: string where "LatestVersion = ''latest''"
definition LBRoleTagName :: string where "LBRoleTagName = ''Role''"
definition LBRoleAksHciApiServer :: string where "LBRoleAksHciApiServer = ''AKSHCI_APISERVER''"

definition SupportedAvailabilityZoneLocations :: "string list" where
  "SupportedAvailabilityZoneLocations =
     [''centralus'', ''eastus'', ''eastus2'', ''westus2'',
      ''francecentral'', ''northeurope'', ''uksouth'', ''westeurope'',
      ''japaneast'', ''southeastasia'']"

definition GenerateVnetName :: "string \<Rightarrow> string" where
  "GenerateVnetName clusterName = clusterName @ ''-'' @ ''vnet''"

definition GenerateControlPlaneSecurityGroupName :: "string \<Rightarrow> string" where
  "GenerateControlPlaneSecurityGroupName clusterName = clusterName @ ''-'' @ ''controlplane-nsg''"

definition GenerateNodeSecurityGroupName :: "string \<Rightarrow> string" where
  "GenerateNodeSecurityGroupName clusterName = clusterName @ ''-'' @ ''node-nsg''"

definition GenerateNodeRouteTableName :: "string \<Rightarrow> string" where
  "GenerateNodeRouteTableName clusterName = clusterName @ ''-'' @ ''node-routetable''"

definition GenerateControlPlaneSubnetName :: "string \<Rightarrow> string" where
  "GenerateControlPlaneSubnetName clusterName = clusterName @ ''-'' @ ''controlplane-subnet''"

definition GenerateNodeSubnetName :: "string \<Rightarrow> string" where
  "GenerateNodeSubnetName clusterName = clusterName @ ''-'' @ ''node-subnet''"

definition GenerateFQDN :: "string \<Rightarrow> string \<Rightarrow> string" where
  "GenerateFQDN publicIPName location =
     publicIPName @ ''.'' @ location @ ''.'' @ DefaultAzureStackHCIDNSZone"

definition GenerateNICName :: "string \<Rightarrow> string" where
  "GenerateNICName machineName = machineName @ ''-nic''"

definition show_int :: "int \<Rightarrow> string" where
  "show_int i = (if i < 0 then ''-'' @ show_nat (nat (- i)) else show_nat (nat i))"

definition GenerateIPConfigName :: "string \<Rightarrow> int \<Rightarrow> string" where
  "GenerateIPConfigName nicName index = nicName @ ''-ipconfig-'' @ show_int index"

definition GenerateOSDiskName :: "string \<Rightarrow> string" where
  "GenerateOSDiskName machineName = machineName @ ''_OSDisk''"

definition GenerateAzureStackHCILoadBalancerName :: "string \<Rightarrow> string" where
  "GenerateAzureStackHCILoadBalancerName clusterName = clusterName @ ''-load-balancer''"

definition GenerateControlPlaneBackendPoolName :: "string \<Rightarrow> string" where
  "GenerateControlPlaneBackendPoolName clusterName = clusterName @ ''-controlplane-backend-pool''"

definition GenerateBackendPoolName :: "string \<Rightarrow> string" where
  "GenerateBackendPoolName clusterName = clusterName @ ''-backend-pool''"

text \<open>Each generator is the name with a suffix, so it forgets nothing of the name.\<close>

lemma GenerateNICName_inj [simp]: "GenerateNICName a = GenerateNICName b \<longleftrightarrow> a = b"
  by (simp add: GenerateNICName_def)

lemma GenerateOSDiskName_inj [simp]: "GenerateOSDiskName a = GenerateOSDiskName b \<longleftrightarrow> a = b"
  by (simp add: GenerateOSDiskName_def)

text \<open>The NIC and the disk of two machines never share a name: the last characters differ.\<close>

lemma last_of_names:
  "last (GenerateNICName a) = CHR ''c''" "last (GenerateOSDiskName a) = CHR ''k''"
  by (simp_all add: GenerateNICName_def GenerateOSDiskName_def)

lemma NIC_not_disk [simp]: "GenerateNICName a \<noteq> GenerateOSDiskName b"
proof
  assume "GenerateNICName a = GenerateOSDiskName b"
  from arg_cong [OF this, of last] show False by (simp add: last_of_names)
qed

lemma backend_pools_differ [simp]:
  "GenerateControlPlaneBackendPoolName c \<noteq> GenerateBackendPoolName c"
  by (simp add: GenerateControlPlaneBackendPoolName_def GenerateBackendPoolName_def)

text \<open>
  An IP configuration name determines its NIC and its index: the machine's loop over the
  interfaces cannot name two configurations alike.
\<close>

lemma dash_no_digit: "CHR ''-'' \<notin> digits"
proof
  assume "CHR ''-'' \<in> digits"
  then obtain n :: nat where "n < 10" "CHR ''-'' = char_of (n + 48)"
    by (auto simp: digits_def)
  from arg_cong [OF this(2), of "of_char :: char \<Rightarrow> nat"] this(1) show False by simp
qed

lemma GenerateIPConfigName_inj:
  assumes "0 \<le> i" "0 \<le> j" "GenerateIPConfigName a i = GenerateIPConfigName b j"
  shows "a = b \<and> i = j"
proof -
  from assms have "(a @ ''-ipconfig'') @ CHR ''-'' # show_nat (nat i) =
      (b @ ''-ipconfig'') @ CHR ''-'' # show_nat (nat j)"
    by (simp add: GenerateIPConfigName_def show_int_def)
  then have "a @ ''-ipconfig'' = b @ ''-ipconfig'' \<and> nat i = nat j"
    using dash_no_digit by (rule append_numeral_inj)
  with assms show ?thesis by (simp add: eq_nat_nat_iff)
qed

subsection \<open>Default image\<close>

definition getDefaultImageName :: "lib \<Rightarrow> string \<Rightarrow> string \<Rightarrow> goerror + string" where
  "getDefaultImageName L osType k8sVersion =
     (case semver_ParseTolerant L k8sVersion of
        Inl err \<Rightarrow> Inl (Wrap (''unable to parse Kubernetes version '' @ [CHR 0x22] @ k8sVersion @
          [CHR 0x22] @ '' in spec, expected valid SemVer string'') err)
      | Inr (major, minor, patch) \<Rightarrow>
          Inr (osType @ ''_k8s_'' @ show_nat major @ ''-'' @ show_nat minor @ ''-'' @ show_nat patch))"

definition GetDefaultImage :: "lib \<Rightarrow> string \<Rightarrow> string \<Rightarrow> goerror + Image" where
  "GetDefaultImage L osType k8sVersion =
     (case getDefaultImageName L osType k8sVersion of
        Inl err \<Rightarrow> Inl (Wrap ''failed to get default image name'' err)
      | Inr imageName \<Rightarrow> Inr (zeroImage\<lparr>img_Name := Some imageName, img_OSType := osType,
          img_Publisher := Some DefaultImagePublisherID, img_Offer := Some DefaultImageOfferID,
          img_SKU := Some DefaultImageSKU, img_Version := Some LatestVersion\<rparr>))"

lemma getDefaultImageName_inj:
  assumes "getDefaultImageName L os v = Inr n" "getDefaultImageName L os w = Inr n"
  shows "semver_ParseTolerant L v = semver_ParseTolerant L w"
proof -
  obtain a b c a' b' c' where v: "semver_ParseTolerant L v = Inr (a, b, c)"
    and w: "semver_ParseTolerant L w = Inr (a', b', c')"
    using assms by (auto simp: getDefaultImageName_def split: sum.splits)
  let ?p = "\<lambda>x y. (os @ ''_k8s_'') @ show_nat x @ ''-'' @ show_nat y"
  have "?p a b @ CHR ''-'' # show_nat c = ?p a' b' @ CHR ''-'' # show_nat c'"
    using assms v w by (simp add: getDefaultImageName_def)
  then have 1: "?p a b = ?p a' b' \<and> c = c'"
    using dash_no_digit by (rule append_numeral_inj)
  then have "((os @ ''_k8s_'') @ show_nat a) @ CHR ''-'' # show_nat b =
      ((os @ ''_k8s_'') @ show_nat a') @ CHR ''-'' # show_nat b'"
    by simp
  then have "(os @ ''_k8s_'') @ show_nat a = (os @ ''_k8s_'') @ show_nat a' \<and> b = b'"
    using dash_no_digit by (rule append_numeral_inj)
  with 1 v w show ?thesis by simp
qed

subsection \<open>Random names\<close>

definition charSet :: string where "charSet = ''abcdefghijklmnopqrstuvwxyz0123456789''"

text \<open>
  \<open>rand.Int\<close> yields a number below its bound or an error; an index out of range of the
  character set would panic.
\<close>

definition sys_rand :: "'w sys \<Rightarrow> bool" where
  "sys_rand S \<longleftrightarrow> (\<forall>n w. \<exists>r w'. sys_randInt S n w = (Ret r, w') \<and> (\<forall>v. r = Inr v \<longrightarrow> v < n))"

fun RandomAlphaNumericString_loop :: "'w sys \<Rightarrow> nat list \<Rightarrow> string \<Rightarrow> ('w, goerror + string) io" where
  "RandomAlphaNumericString_loop S [] result = return (Inr result)"
| "RandomAlphaNumericString_loop S (i # is) result =
     bind (sys_randInt S (length charSet)) (\<lambda>r. case r of
        Inl err \<Rightarrow> return (Inl err)
      | Inr val \<Rightarrow> if val < length charSet
          then RandomAlphaNumericString_loop S is (result[i := charSet ! val])
          else panic ''index out of range'')"

definition RandomAlphaNumericString :: "'w sys \<Rightarrow> nat \<Rightarrow> ('w, goerror + string) io" where
  "RandomAlphaNumericString S n =
     RandomAlphaNumericString_loop S [0..<n] (replicate n (CHR 0x00))"

definition GenerateAzureStackHCILoadBalancerMachineName ::
    "'w sys \<Rightarrow> string \<Rightarrow> ('w, string \<times> goerror option) io" where
  "GenerateAzureStackHCILoadBalancerMachineName S loadBalancerName =
     bind (RandomAlphaNumericString S 5) (\<lambda>r. case r of
        Inl err \<Rightarrow> return (loadBalancerName, Some err)
      | Inr randomString \<Rightarrow> return (loadBalancerName @ ''-'' @ randomString, None))"

lemma RandomAlphaNumericString_loop_result:
  assumes "sys_rand S" "distinct is" "set is \<subseteq> {..<length res}"
    and "\<And>i. i < length res \<Longrightarrow> i \<notin> set is \<Longrightarrow> res ! i \<in> set charSet"
  shows "\<exists>r t. RandomAlphaNumericString_loop S is res s = (Ret r, t) \<and>
    (\<forall>x. r = Inr x \<longrightarrow> length x = length res \<and> set x \<subseteq> set charSet)"
  using assms
proof (induction "is" arbitrary: res s)
  case Nil
  then show ?case by (auto simp: set_conv_nth)
next
  case (Cons i js)
  obtain r t where run: "sys_randInt S (length charSet) s = (Ret r, t)"
    and bound: "\<And>v. r = Inr v \<Longrightarrow> v < length charSet"
    using Cons.prems(1) unfolding sys_rand_def by metis
  show ?case
  proof (cases r)
    case (Inl e)
    with run show ?thesis by (simp add: bind_def)
  next
    case (Inr v)
    with bound have v: "v < length charSet" by simp
    have "\<exists>r' t'. RandomAlphaNumericString_loop S js (res[i := charSet ! v]) t = (Ret r', t') \<and>
        (\<forall>x. r' = Inr x \<longrightarrow> length x = length (res[i := charSet ! v]) \<and> set x \<subseteq> set charSet)"
      using Cons.prems v by (intro Cons.IH) (auto simp: nth_list_update)
    then show ?thesis using run Inr v by (simp add: bind_def)
  qed
qed

lemma RandomAlphaNumericString_result:
  "sys_rand S \<Longrightarrow> \<exists>r t. RandomAlphaNumericString S n s = (Ret r, t) \<and>
     (\<forall>x. r = Inr x \<longrightarrow> length x = n \<and> set x \<subseteq> set charSet)"
  using RandomAlphaNumericString_loop_result [of S "[0..<n]" "replicate n (CHR 0x00)" s]
  by (simp add: RandomAlphaNumericString_def atLeast0LessThan)

subsection \<open>Helpers of pkg/util\<close>

definition ClusterNameLabel :: string where "ClusterNameLabel = ''cluster.x-k8s.io/cluster-name''"
definition diskCsiDriver :: string where "diskCsiDriver = ''disk.csi.akshci.com''"

definition GetAzureStackHCIMachinesInCluster ::
    "'w kube \<Rightarrow> string \<Rightarrow> string \<Rightarrow> ('w, goerror + AzureStackHCIMachine list) io" where
  "GetAzureStackHCIMachinesInCluster K namespace clusterName =
     k_List_HMachines K namespace [(ClusterNameLabel, clusterName)]"

definition NewTargetClusterConfig :: "'w kube \<Rightarrow> ObjectKey \<Rightarrow> ('w, goerror + RestConfig) io" where
  "NewTargetClusterConfig K clusterKey =
     bind (k_KubeconfigFromSecret K clusterKey) (\<lambda>r. case r of
        Inl err \<Rightarrow> return (Inl (Wrap (''failed to retrieve kubeconfig secret for cluster '' @
          key_Namespace clusterKey @ '':'' @ key_Name clusterKey) err))
      | Inr kubeconfig \<Rightarrow> (case k_RESTConfigFromKubeConfig K kubeconfig of
          Inl err \<Rightarrow> return (Inl (Wrap (''failed to create client configuration for cluster '' @
            key_Namespace clusterKey @ '':'' @ key_Name clusterKey) err))
        | Inr restConfig \<Rightarrow> return (Inr restConfig)))"

definition NewTargetClusterClient :: "'w kube \<Rightarrow> ObjectKey \<Rightarrow> ('w, goerror + string) io" where
  "NewTargetClusterClient K clusterKey =
     bind (NewTargetClusterConfig K clusterKey) (\<lambda>r. case r of
        Inl err \<Rightarrow> return (Inl (Wrap (''failed to create client configuration for cluster '' @
          key_Namespace clusterKey @ '':'' @ key_Name clusterKey) err))
      | Inr restConfig \<Rightarrow> (case k_NewForConfig K (restConfig\<lparr>rc_TimeoutSeconds := 10\<rparr>) of
          Inl err \<Rightarrow> return (Inl (Wrap (''failed to connect to the cluster '' @
            key_Namespace clusterKey @ '':'' @ key_Name clusterKey) err))
        | Inr targetClusterClient \<Rightarrow> return (Inr targetClusterClient)))"

definition GetNodeName :: "'w kube \<Rightarrow> ObjectMeta \<Rightarrow> ('w, goerror + string) io" where
  "GetNodeName K om =
     bind (k_GetOwnerMachine K om) (\<lambda>r. case r of
        Inl err \<Rightarrow> return (Inl (Wrap (''failed to get owner machine for '' @ om_Namespace om @ ''.'' @
          om_Name om) err))
      | Inr None \<Rightarrow> return (Inl (ErrorNew (''resource '' @ om_Namespace om @ ''.'' @ om_Name om @
          '' has no owning machine'')))
      | Inr (Some machine) \<Rightarrow>
          if ma_NodeRef_Name machine = []
          then return (Inl (ErrorNew (''machine '' @ om_Namespace (ma_Meta machine) @ ''.'' @
            om_Name (ma_Meta machine) @ '' has no node ref'')))
          else return (Inr (ma_NodeRef_Name machine)))"

text \<open>\<open>strings.EqualFold\<close> on ASCII, the alphabet of node names.\<close>

definition fold_char :: "char \<Rightarrow> char" where
  "fold_char c = (if 65 \<le> (of_char c :: nat) \<and> (of_char c :: nat) \<le> 90
     then char_of ((of_char c :: nat) + 32) else c)"

definition EqualFold :: "string \<Rightarrow> string \<Rightarrow> bool" where
  "EqualFold s t \<longleftrightarrow> map fold_char s = map fold_char t"

fun attached_loop :: "string \<Rightarrow> string list \<Rightarrow> VolumeAttachment list \<Rightarrow> string list" where
  "attached_loop nodeName res [] = res"
| "attached_loop nodeName res (va # vas) = attached_loop nodeName
     (if va_Attacher va = diskCsiDriver \<and> EqualFold (va_NodeName va) nodeName
      then res @ [case va_PersistentVolumeName va of None \<Rightarrow> [] | Some n \<Rightarrow> n] else res) vas"

definition ListVolumeAttachmentOnNode ::
    "'w kube \<Rightarrow> string \<Rightarrow> ObjectKey \<Rightarrow> string \<Rightarrow> ('w, goerror + string list) io" where
  "ListVolumeAttachmentOnNode K clientset clusterKey nodeName =
     bind (k_ListVolumeAttachments K clientset) (\<lambda>r. case r of
        Inl err \<Rightarrow> return (Inl (Wrap (''failed to list VolumeAttachments for Cluster '' @
          key_Namespace clusterKey @ '':'' @ key_Name clusterKey) err))
      | Inr items \<Rightarrow> return (Inr (attached_loop nodeName [] items)))"

lemma attached_loop_eq:
  "attached_loop nodeName res vas = res @ map (\<lambda>va. case va_PersistentVolumeName va of None \<Rightarrow> [] | Some n \<Rightarrow> n)
     (filter (\<lambda>va. va_Attacher va = diskCsiDriver \<and> EqualFold (va_NodeName va) nodeName) vas)"
  by (induction nodeName res vas rule: attached_loop.induct) auto

text \<open>The identifier of a reconcile, from the context or else a new one (\<open>uuid.NewUUID\<close>).\<close>

definition GetReconcileID :: "string \<Rightarrow> ('w, string) io \<Rightarrow> ('w, string) io" where
  "GetReconcileID fromContext newUUID = (if fromContext = [] then newUUID else return fromContext)"

definition CopyCorrelationID :: "ObjectMeta \<Rightarrow> ObjectMeta \<Rightarrow> ObjectMeta" where
  "CopyCorrelationID source target =
     (let sourceAnnotations = om_Annotations source in
      if map_len sourceAnnotations = 0 then target
      else let annotations = map_put (om_Annotations target) AzureCorrelationIDAnnotationKey
             (map_get sourceAnnotations AzureCorrelationIDAnnotationKey);
           annotations = map_put annotations AzureOperationIDAnnotationKey
             (map_get sourceAnnotations AzureOperationIDAnnotationKey)
        in target\<lparr>om_Annotations := annotations\<rparr>)"

lemma CopyCorrelationID_meta [simp]:
  "om_Name (CopyCorrelationID m t) = om_Name t" "om_Namespace (CopyCorrelationID m t) = om_Namespace t"
  "om_Labels (CopyCorrelationID m t) = om_Labels t" "om_Finalizers (CopyCorrelationID m t) = om_Finalizers t"
  "om_OwnerReferences (CopyCorrelationID m t) = om_OwnerReferences t"
  by (simp_all add: CopyCorrelationID_def Let_def)

end
