(* ===== verification/Telemetry.thy ===== *)
theory Telemetry
  imports Defaults
begin

text \<open>
  \<open>cloud/telemetry/logutils.go\<close> with the version and health services it reads
  (\<open>cloud/services/versions\<close>, \<open>cloud/services/health\<close>).  A log entry is the value handed to the
  logger; the logger itself is a sink.  The theory also holds the recording wrapper \<open>traced\<close> of
  the cloud client, through which later theories state in which order the cloud is called.
\<close>

subsection \<open>Versions and health\<close>

record VersionPair =
  WssdCloudAgentVersion :: string
  MocVersion :: string

definition versions_Get :: "'w moc \<Rightarrow> ('w, goerror + VersionPair) io" where
  "versions_Get M = bind (m_GetVersion M) (\<lambda>r. case r of
      Inl err \<Rightarrow> return (Inl err)
    | Inr (version, mocversion) \<Rightarrow>
        return (Inr \<lparr>WssdCloudAgentVersion = version, MocVersion = mocversion\<rparr>))"

definition versions_Reconcile :: "('w, goerror option) io" where
  "versions_Reconcile = return (Some (ErrorNew ''Reconciling version is not supported''))"

definition versions_Delete :: "('w, goerror option) io" where
  "versions_Delete = return (Some (ErrorNew ''Deleting version is not supported''))"

definition health_GetMocDeploymentID :: "'w moc \<Rightarrow> ('w, string) io" where
  "health_GetMocDeploymentID M = bind (m_GetDeploymentId M) (\<lambda>r. case r of
      Inl err \<Rightarrow> return []
    | Inr deploymentID \<Rightarrow> return deploymentID)"

definition health_Reconcile :: "('w, goerror option) io" where
  "health_Reconcile = return (Some (ErrorNew ''Reconciling health is not supported''))"

definition health_Delete :: "('w, goerror option) io" where
  "health_Delete = return (Some (ErrorNew ''Deleting health is not supported''))"

subsection \<open>Log entries\<close>

record 'p OperationLog =
  Timestamp :: string
  ParentResource :: string
  Resource :: string
  FilterKeyword :: string
  Action :: string
  Params :: "'p option"
  ErrorCode :: string
  Message :: string

definition WriteMocOperationLog :: "lib \<Rightarrow> string \<Rightarrow> string \<Rightarrow> string \<Rightarrow> string \<Rightarrow> string \<Rightarrow>
    'p option \<Rightarrow> goerror option \<Rightarrow> 'p OperationLog" where
  "WriteMocOperationLog L now operation crResourceName mocResourceType mocResourceName params err =
     (let (errcode, message) = (case err of None \<Rightarrow> (''0'', [])
        | Some e \<Rightarrow> (moc_GetErrorCode L e, err_Error L e))
      in \<lparr>Timestamp = now, ParentResource = crResourceName,
          Resource = mocResourceType @ ''/'' @ mocResourceName,
          FilterKeyword = ''RESOURCE_ACTION'', Action = operation, Params = params,
          ErrorCode = errcode, Message = message\<rparr>)"

definition RecordHybridAKSCRDChange :: "lib \<Rightarrow> string \<Rightarrow> string \<Rightarrow> string \<Rightarrow> string \<Rightarrow> string \<Rightarrow>
    'p option \<Rightarrow> goerror option \<Rightarrow> 'p OperationLog" where
  "RecordHybridAKSCRDChange L now parentResource resource action resourceType params err =
     (let (errCode, errMessage) = (case err of None \<Rightarrow> (''0'', [])
        | Some e \<Rightarrow> (''-1'', err_Error L e))
      in \<lparr>Timestamp = now, ParentResource = parentResource, Resource = resource,
          FilterKeyword = ''RESOURCE_ACTION'', Action = action @ '' '' @ resourceType,
          Params = params, ErrorCode = errCode, Message = errMessage\<rparr>)"

fun strings_Join :: "string list \<Rightarrow> string \<Rightarrow> string" where
  "strings_Join [] sep = []"
| "strings_Join [x] sep = x"
| "strings_Join (x # y # ys) sep = x @ sep @ strings_Join (y # ys) sep"

definition GenerateMocResourceName :: "string list \<Rightarrow> string" where
  "GenerateMocResourceName nameSegments = strings_Join nameSegments ''/''"

record MocInfoLog =
  MocDeploymentID :: string
  info_WssdCloudAgentVersion :: string
  info_MocVersion :: string

text \<open>The version query is a call to the cloud agent; its failure is only logged.\<close>

definition WriteMocInfoLog :: "'w moc \<Rightarrow> ('w, MocInfoLog) io" where
  "WriteMocInfoLog M = bind (versions_Get M) (\<lambda>r. return (case r of
      Inl err \<Rightarrow> \<lparr>MocDeploymentID = [], info_WssdCloudAgentVersion = [], info_MocVersion = []\<rparr>
    | Inr vp \<Rightarrow> \<lparr>MocDeploymentID = [], info_WssdCloudAgentVersion = WssdCloudAgentVersion vp,
        info_MocVersion = MocVersion vp\<rparr>))"

definition IsCRDUpdate :: "OperationResult \<Rightarrow> bool" where
  "IsCRDUpdate r \<longleftrightarrow> r = OperationResultCreated \<or> r = OperationResultUpdatedStatus \<or>
     r = OperationResultUpdatedStatusOnly"

fun ConvertOperationResult :: "OperationResult \<Rightarrow> string \<times> string" where
  "ConvertOperationResult OperationResultCreated = (''Create'', ''CRD'')"
| "ConvertOperationResult OperationResultUpdated = (''Update'', ''CRD'')"
| "ConvertOperationResult OperationResultUpdatedStatus = (''Update'', ''Status'')"
| "ConvertOperationResult OperationResultUpdatedStatusOnly = (''Update'', ''Status'')"
| "ConvertOperationResult OperationResultNone = ([], [])"

text \<open>An entry reports code 0 for success; what it says of a failure is the error itself.\<close>

lemma WriteMocOperationLog_success:
  "ErrorCode (WriteMocOperationLog L now op cr ty n ps None) = ''0''"
  by (simp add: WriteMocOperationLog_def)

text \<open>
  Every change that is recorded has an operation name, but an update of the object itself has
  one and is not recorded.
\<close>

lemma IsCRDUpdate_named: "IsCRDUpdate r \<Longrightarrow> ConvertOperationResult r \<noteq> ([], [])"
  by (cases r) (auto simp: IsCRDUpdate_def)

lemma unrecorded_update:
  "ConvertOperationResult r \<noteq> ([], []) \<and> \<not> IsCRDUpdate r \<longleftrightarrow> r = OperationResultUpdated"
  by (cases r) (auto simp: IsCRDUpdate_def)

text \<open>Segments without a slash can be read back from a resource name of two segments.\<close>

lemma GenerateMocResourceName_inj:
  assumes "CHR ''/'' \<notin> set a" "CHR ''/'' \<notin> set a'"
    and "GenerateMocResourceName [a, b] = GenerateMocResourceName [a', b']"
  shows "a = a' \<and> b = b'"
proof -
  have eq: "a @ CHR ''/'' # b = a' @ CHR ''/'' # b'"
    using assms(3) by (simp add: GenerateMocResourceName_def)
  have cut: "takeWhile (\<lambda>c. c \<noteq> CHR ''/'') (xs @ CHR ''/'' # ys) = xs"
    if "CHR ''/'' \<notin> set xs" for xs ys
    using that by (induction xs) auto
  from cut [OF assms(1), of b] cut [OF assms(2), of b'] eq have "a = a'" by simp
  with eq show ?thesis by simp
qed

subsection \<open>Recording calls to the cloud\<close>

datatype kind = KGroup | KKeyVault | KDisk | KVNet | KNIC | KLB | KVipPool | KVM

datatype moc_call =
    CGet kind string string bool
  | CCreate kind string string "goerror option"
  | CDelete kind string string "goerror option"
  | CInfo

definition record_call :: "('w, 'a) io \<Rightarrow> ('a \<Rightarrow> moc_call) \<Rightarrow> ('w \<times> moc_call list, 'a) io" where
  "record_call m c = (\<lambda>(w, tr). case m w of
      (Ret x, w') \<Rightarrow> (Ret x, (w', tr @ [c x]))
    | (Panics p, w') \<Rightarrow> (Panics p, (w', tr)))"

text \<open>
  \<open>traced M\<close> behaves as the client \<open>M\<close> and writes down every call that returned, with its
  outcome.  A statement about \<open>traced M\<close> for all \<open>M\<close> is a statement about which calls the code
  makes, whatever the cloud answers.
\<close>

definition traced :: "'w moc \<Rightarrow> ('w \<times> moc_call list) moc" where
  "traced M = \<lparr>
     m_Get_Group = (\<lambda>l n. record_call (m_Get_Group M l n) (\<lambda>r. CGet KGroup l n (isl r))),
     m_Create_Group = (\<lambda>l n g. record_call (m_Create_Group M l n g) (CCreate KGroup l n)),
     m_Delete_Group = (\<lambda>l n. record_call (m_Delete_Group M l n) (CDelete KGroup l n)),
     m_Get_KeyVault = (\<lambda>l n. record_call (m_Get_KeyVault M l n) (\<lambda>r. CGet KKeyVault l n (isl r))),
     m_Create_KeyVault = (\<lambda>l n g. record_call (m_Create_KeyVault M l n g) (CCreate KKeyVault l n)),
     m_Delete_KeyVault = (\<lambda>l n. record_call (m_Delete_KeyVault M l n) (CDelete KKeyVault l n)),
     m_Get_Disk = (\<lambda>l c n. record_call (m_Get_Disk M l c n) (\<lambda>r. CGet KDisk l n (isl r))),
     m_Create_Disk = (\<lambda>l c n g. record_call (m_Create_Disk M l c n g) (CCreate KDisk l n)),
     m_Delete_Disk = (\<lambda>l c n. record_call (m_Delete_Disk M l c n) (CDelete KDisk l n)),
     m_Get_VNet = (\<lambda>l n. record_call (m_Get_VNet M l n) (\<lambda>r. CGet KVNet l n (isl r))),
     m_Create_VNet = (\<lambda>l n g. record_call (m_Create_VNet M l n g) (CCreate KVNet l n)),
     m_Delete_VNet = (\<lambda>l n. record_call (m_Delete_VNet M l n) (CDelete KVNet l n)),
     m_Get_NIC = (\<lambda>l n. record_call (m_Get_NIC M l n) (\<lambda>r. CGet KNIC l n (isl r))),
     m_Create_NIC = (\<lambda>l n g. record_call (m_Create_NIC M l n g) (CCreate KNIC l n)),
     m_Delete_NIC = (\<lambda>l n. record_call (m_Delete_NIC M l n) (CDelete KNIC l n)),
     m_Get_LB = (\<lambda>l n. record_call (m_Get_LB M l n) (\<lambda>r. CGet KLB l n (isl r))),
     m_Create_LB = (\<lambda>l n g. record_call (m_Create_LB M l n g) (CCreate KLB l n)),
     m_Delete_LB = (\<lambda>l n. record_call (m_Delete_LB M l n) (CDelete KLB l n)),
     m_Get_VipPool = (\<lambda>l n. record_call (m_Get_VipPool M l n) (\<lambda>r. CGet KVipPool l n (isl r))),
     m_Get_VM = (\<lambda>l n. record_call (m_Get_VM M l n) (\<lambda>r. CGet KVM l n (isl r))),
     m_Create_VM = (\<lambda>l n g. record_call (m_Create_VM M l n g) (CCreate KVM l n)),
     m_Delete_VM = (\<lambda>l n. record_call (m_Delete_VM M l n) (CDelete KVM l n)),
     m_GetVersion = record_call (m_GetVersion M) (\<lambda>_. CInfo),
     m_GetDeploymentId = record_call (m_GetDeploymentId M) (\<lambda>_. CInfo)\<rparr>"

text \<open>The calls that change the cloud.\<close>

fun is_change :: "moc_call \<Rightarrow> bool" where
  "is_change (CCreate _ _ _ _) = True"
| "is_change (CDelete _ _ _ _) = True"
| "is_change _ = False"

abbreviation changes :: "'w \<times> moc_call list \<Rightarrow> moc_call list" where
  "changes s \<equiv> filter is_change (snd s)"

text \<open>The calls that concern a resource: all but the version log.\<close>

abbreviation calls :: "'w \<times> moc_call list \<Rightarrow> moc_call list" where
  "calls s \<equiv> filter (\<lambda>c. c \<noteq> CInfo) (snd s)"

lemma changes_calls: "changes s = filter is_change (calls s)"
  by (induction "snd s" rule: rev_induct) (auto intro: filter_cong)

text \<open>What a recorded call adds to the changes: one entry for a create or delete, else none.\<close>

lemma record_call_Ret:
  "record_call m c s = (Ret x, t) \<Longrightarrow> snd t = snd s @ [c x]"
  by (cases s) (auto simp: record_call_def split: prod.splits res.splits)

lemma record_call_Panics:
  "record_call m c s = (Panics p, t) \<Longrightarrow> snd t = snd s"
  by (cases s) (auto simp: record_call_def split: prod.splits res.splits)

lemma hoare_record_call:
  assumes "\<And>s x w. P s \<Longrightarrow> Q x (w, snd s @ [c x])" "\<And>s w. P s \<Longrightarrow> R (w, snd s)"
  shows "hoare P (record_call m c) Q R"
  using assms
  by (auto intro!: hoareI) (metis prod.collapse record_call_Ret, metis prod.collapse record_call_Panics)

definition changes_only :: "('w \<times> moc_call list \<Rightarrow> bool) \<Rightarrow> bool" where
  "changes_only P \<longleftrightarrow> (\<forall>s t. changes s = changes t \<longrightarrow> P s = P t)"

lemma changes_onlyI: "changes_only (\<lambda>s. Q (changes s))"
  by (simp add: changes_only_def)

lemma changes_onlyD: "changes_only P \<Longrightarrow> P s \<Longrightarrow> changes s = changes t \<Longrightarrow> P t"
  unfolding changes_only_def by blast

lemma hoare_record_quiet:
  fixes m :: "('w, 'a) io"
  assumes "\<And>x. \<not> is_change (c x)" "changes_only P"
  shows "preserves (record_call m c) P"
proof (rule hoare_record_call)
  fix s x and w :: 'w
  assume "P s"
  then show "P (w, snd s @ [c x])"
    by (rule changes_onlyD [OF assms(2)]) (simp add: assms(1))
next
  fix s and w :: 'w
  assume "P s"
  then show "P (w, snd s)" by (rule changes_onlyD [OF assms(2)]) simp
qed

text \<open>Queries and the version log leave every statement about changes alone.\<close>

lemma traced_quiet:
  assumes "changes_only P"
  shows "preserves (m_Get_Group (traced M) l n) P" "preserves (m_Get_KeyVault (traced M) l n) P"
    "preserves (m_Get_Disk (traced M) l c n) P" "preserves (m_Get_VNet (traced M) l n) P"
    "preserves (m_Get_NIC (traced M) l n) P" "preserves (m_Get_LB (traced M) l n) P"
    "preserves (m_Get_VipPool (traced M) l n) P" "preserves (m_Get_VM (traced M) l n) P"
    "preserves (m_GetVersion (traced M)) P" "preserves (m_GetDeploymentId (traced M)) P"
  using assms by (simp_all add: traced_def hoare_record_quiet)

lemma cloud_log: "preserves (m_GetVersion M) I \<Longrightarrow> preserves (WriteMocInfoLog M) I"
  unfolding WriteMocInfoLog_def versions_Get_def by (auto intro!: hoare_rules)

lemma WriteMocInfoLog_quiet:
  assumes "changes_only P"
  shows "preserves (WriteMocInfoLog (traced M)) P"
  unfolding WriteMocInfoLog_def versions_Get_def
  by (intro hoare_rules traced_quiet assms)

lemma WriteMocInfoLog_calls: "preserves (WriteMocInfoLog (traced M)) (\<lambda>s. P (calls s))"
  by (rule cloud_log) (simp add: traced_def hoare_record_call)

end
