(* ===== verification/Services.thy ===== *)
theory Services
  imports Telemetry
begin

text \<open>
  The cloud services of \<open>cloud/services\<close> other than the virtual machines: groups, key vaults,
  disks, network interfaces, load balancers, virtual networks and VIP pools, each with \<open>Get\<close>,
  \<open>Reconcile\<close> and \<open>Delete\<close>.  An operation takes \<open>spec interface{}\<close> and asserts its dynamic
  type: \<open>None\<close> stands for a value of another type.  \<open>rg\<close> is the scope's resource group.

  \<open>Reconcile\<close> and \<open>Delete\<close> of most services follow the contract of \<open>azurestackhci.Service\<close> that
  the locale \<open>cloud_service\<close> states: create what is not found, delete and forgive a missing
  resource.  The lemmas of the locale say what a successful call ensures and which calls it
  makes; the services interpret it.
\<close>

subsection \<open>The service contract\<close>

locale cloud_service =
  fixes log :: "('w, 'l) io"
    and get :: "('w, goerror + 'r) io"
    and create :: "('w, goerror option) io"
    and del :: "('w, goerror option) io"
    and NF :: "goerror \<Rightarrow> bool"
    and wrapC :: "goerror \<Rightarrow> goerror"
    and msg :: string
    and reconcile :: "('w, goerror option) io"
    and delete :: "('w, goerror option) io"
  assumes reconcile_eq: "reconcile = bind log (\<lambda>_. bind get (\<lambda>r. case r of
        Inr _ \<Rightarrow> return None
      | Inl _ \<Rightarrow> bind create (\<lambda>e. return (map_option wrapC e))))"
    and delete_eq: "delete = bind log (\<lambda>_. bind del (\<lambda>e. case e of
        None \<Rightarrow> return None
      | Some err \<Rightarrow> if NF err then return None else return (Some (Wrap msg err))))"
begin

lemma reconcile_nil:
  assumes "reconcile s = (Ret None, t)"
  shows "(\<exists>l u x. log s = (Ret l, u) \<and> get u = (Ret (Inr x), t)) \<or>
    (\<exists>l u e v. log s = (Ret l, u) \<and> get u = (Ret (Inl e), v) \<and> create v = (Ret None, t))"
proof -
  obtain l u r v where "log s = (Ret l, u)" "get u = (Ret r, v)"
    and "(case r of Inr _ \<Rightarrow> return None
      | Inl _ \<Rightarrow> bind create (\<lambda>e. return (map_option wrapC e))) v = (Ret None, t)"
    using assms unfolding reconcile_eq by (auto simp: bind_eq_Ret)
  then show ?thesis by (cases r) (auto simp: bind_eq_Ret)
qed

text \<open>A successful \<open>Reconcile\<close> leaves the resource in place.\<close>

lemma reconcile_ensures:
  assumes "reconcile s = (Ret None, t)"
    and "\<And>u x v. get u = (Ret (Inr x), v) \<Longrightarrow> present v"
    and "\<And>u v. create u = (Ret None, v) \<Longrightarrow> present v"
  shows "present t"
  using reconcile_nil [OF assms(1)] assms(2,3) by blast

text \<open>A successful \<open>Delete\<close> had the resource deleted or heard that there is none.\<close>

lemma delete_nil:
  assumes "delete s = (Ret None, t)"
  shows "\<exists>l u e. log s = (Ret l, u) \<and> del u = (Ret e, t) \<and> (\<forall>err. e = Some err \<longrightarrow> NF err)"
  using assms unfolding delete_eq by (auto simp: bind_eq_Ret split: option.splits if_splits)

lemma delete_ensures:
  assumes "delete s = (Ret None, t)"
    and "\<And>u v e. del u = (Ret e, v) \<Longrightarrow> (\<forall>err. e = Some err \<longrightarrow> NF err) \<Longrightarrow> absent v"
  shows "absent t"
  using delete_nil [OF assms(1)] assms(2) by blast

lemma delete_error:
  assumes "delete s = (Ret (Some x), t)"
  shows "\<exists>err. x = Wrap msg err \<and> \<not> NF err"
  using assms unfolding delete_eq by (auto simp: bind_eq_Ret split: option.splits if_splits)

lemma hoare_reconcile:
  assumes "preserves log P" "preserves get P"
    and "\<And>s. P s \<Longrightarrow> Q None s" and "hoare P create (\<lambda>e. Q (map_option wrapC e)) P"
  shows "hoare P reconcile Q P"
proof -
  have "hoare P (bind create (\<lambda>e. return (map_option wrapC e))) Q P"
    using assms(4) by (rule hoare_bind) (simp add: hoare_return)
  with assms show ?thesis
    unfolding reconcile_eq by (auto intro!: hoare_rules)
qed

lemma hoare_delete:
  assumes "preserves log P" "hoare P del B P"
    and "\<And>e s. B e s \<Longrightarrow>
      Q (case e of None \<Rightarrow> None | Some err \<Rightarrow> if NF err then None else Some (Wrap msg err)) s"
  shows "hoare P delete Q P"
  unfolding delete_eq
  using assms(1)
  by (rule hoare_bind)
    (rule hoare_bind [OF assms(2)], intro hoare_rules; drule assms(3); simp)

end

subsection \<open>Groups\<close>

definition TagKeyClusterGroup :: string where "TagKeyClusterGroup = ''ownedBy''"
definition TagValClusterGroup :: string where "TagValClusterGroup = ''caph''"

record groups_Spec =
  group_Name :: string
  group_Location :: string

definition groups_Get :: "'w moc \<Rightarrow> groups_Spec option \<Rightarrow> ('w, goerror + Group) io" where
  "groups_Get M spec = (case spec of
      None \<Rightarrow> return (Inl (ErrorNew ''Invalid group specification''))
    | Some groupSpec \<Rightarrow>
        bind (m_Get_Group M (group_Location groupSpec) (group_Name groupSpec)) (\<lambda>r. case r of
            Inl err \<Rightarrow> return (Inl err)
          | Inr [] \<Rightarrow> panic ''index out of range''
          | Inr (g # _) \<Rightarrow> return (Inr g)))"

definition groups_Create :: "'w moc \<Rightarrow> groups_Spec \<Rightarrow> ('w, goerror option) io" where
  "groups_Create M groupSpec =
     m_Create_Group M (group_Location groupSpec) (group_Name groupSpec)
       \<lparr>g_Name = Some (group_Name groupSpec), g_Location = Some (group_Location groupSpec),
        g_Tags = [(TagKeyClusterGroup, Some TagValClusterGroup)]\<rparr>"

definition groups_Reconcile :: "'w moc \<Rightarrow> groups_Spec option \<Rightarrow> ('w, goerror option) io" where
  "groups_Reconcile M spec = bind (WriteMocInfoLog M) (\<lambda>_. case spec of
      None \<Rightarrow> return (Some (ErrorNew ''Invalid group specification''))
    | Some groupSpec \<Rightarrow> bind (groups_Get M (Some groupSpec)) (\<lambda>r. case r of
          Inr _ \<Rightarrow> return None
        | Inl _ \<Rightarrow> bind (groups_Create M groupSpec) (\<lambda>err. return err)))"

definition groups_Delete :: "lib \<Rightarrow> 'w moc \<Rightarrow> groups_Spec option \<Rightarrow> ('w, goerror option) io" where
  "groups_Delete L M spec = bind (WriteMocInfoLog M) (\<lambda>_. case spec of
      None \<Rightarrow> return (Some (ErrorNew ''Invalid group specification''))
    | Some groupSpec \<Rightarrow>
        bind (m_Get_Group M (group_Location groupSpec) (group_Name groupSpec)) (\<lambda>r. case r of
            Inl err \<Rightarrow> if ResourceNotFound L err then return None else return (Some err)
          | Inr [] \<Rightarrow> panic ''index out of range''
          | Inr (groupObj # _) \<Rightarrow>
              (if map_of (g_Tags groupObj) TagKeyClusterGroup = Some (Some TagValClusterGroup)
               then bind (m_Delete_Group M (group_Location groupSpec) (group_Name groupSpec))
                 (\<lambda>e. case e of
                     None \<Rightarrow> return None
                   | Some err \<Rightarrow> if ResourceNotFound L err then return None
                       else return (Some (Wrap (''failed to delete group '' @ group_Name groupSpec) err)))
               else return None)))"

subsection \<open>Key vaults\<close>

record keyvaults_Spec =
  vault_Name :: string

definition keyvaults_Get :: "'w moc \<Rightarrow> string \<Rightarrow> keyvaults_Spec option \<Rightarrow>
    ('w, goerror + KeyVault) io" where
  "keyvaults_Get M rg spec = (case spec of
      None \<Rightarrow> return (Inl (ErrorNew ''Invalid keyvault specification''))
    | Some vaultSpec \<Rightarrow> bind (m_Get_KeyVault M rg (vault_Name vaultSpec)) (\<lambda>r. case r of
          Inl err \<Rightarrow> return (Inl err)
        | Inr [] \<Rightarrow> panic ''index out of range''
        | Inr (v # _) \<Rightarrow> return (Inr v)))"

definition keyvaults_Reconcile :: "'w moc \<Rightarrow> string \<Rightarrow> keyvaults_Spec option \<Rightarrow>
    ('w, goerror option) io" where
  "keyvaults_Reconcile M rg spec = bind (WriteMocInfoLog M) (\<lambda>_. case spec of
      None \<Rightarrow> return (Some (ErrorNew ''Invalid keyvault specification''))
    | Some vaultSpec \<Rightarrow> bind (keyvaults_Get M rg (Some vaultSpec)) (\<lambda>r. case r of
          Inr _ \<Rightarrow> return None
        | Inl _ \<Rightarrow> bind (m_Create_KeyVault M rg (vault_Name vaultSpec)
              \<lparr>kv_Name = Some (vault_Name vaultSpec)\<rparr>) (\<lambda>err. return err)))"

definition keyvaults_Delete :: "lib \<Rightarrow> 'w moc \<Rightarrow> string \<Rightarrow> keyvaults_Spec option \<Rightarrow>
    ('w, goerror option) io" where
  "keyvaults_Delete L M rg spec = bind (WriteMocInfoLog M) (\<lambda>_. case spec of
      None \<Rightarrow> return (Some (ErrorNew ''Invalid keyvault specification''))
    | Some vaultSpec \<Rightarrow> bind (m_Delete_KeyVault M rg (vault_Name vaultSpec)) (\<lambda>e. case e of
          None \<Rightarrow> return None
        | Some err \<Rightarrow> if ResourceNotFound L err then return None
            else return (Some (Wrap (''failed to delete keyvault '' @ vault_Name vaultSpec @
              '' in resource group '' @ rg) err))))"

subsection \<open>Disks\<close>

record disks_Spec =
  disk_Name :: string
  disk_Source :: string

definition disks_Get :: "'w moc \<Rightarrow> string \<Rightarrow> disks_Spec option \<Rightarrow>
    ('w, goerror + VirtualHardDisk) io" where
  "disks_Get M rg spec = (case spec of
      None \<Rightarrow> return (Inl (ErrorNew ''Invalid Disk Specification''))
    | Some diskSpec \<Rightarrow> bind (m_Get_Disk M rg [] (disk_Name diskSpec)) (\<lambda>r. case r of
          Inl err \<Rightarrow> return (Inl err)
        | Inr [] \<Rightarrow> panic ''index out of range''
        | Inr (d # _) \<Rightarrow> return (Inr d)))"

definition disks_Reconcile :: "'w moc \<Rightarrow> string \<Rightarrow> disks_Spec option \<Rightarrow>
    ('w, goerror option) io" where
  "disks_Reconcile M rg spec = bind (WriteMocInfoLog M) (\<lambda>_. case spec of
      None \<Rightarrow> return (Some (ErrorNew ''Invalid Disk Specification''))
    | Some diskSpec \<Rightarrow> bind (disks_Get M rg (Some diskSpec)) (\<lambda>r. case r of
          Inr _ \<Rightarrow> return None
        | Inl _ \<Rightarrow> bind (m_Create_Disk M rg [] (disk_Name diskSpec)
              \<lparr>vhd_Name = Some (disk_Name diskSpec)\<rparr>) (\<lambda>err. return err)))"

definition disks_Delete :: "lib \<Rightarrow> 'w moc \<Rightarrow> string \<Rightarrow> disks_Spec option \<Rightarrow>
    ('w, goerror option) io" where
  "disks_Delete L M rg spec = bind (WriteMocInfoLog M) (\<lambda>_. case spec of
      None \<Rightarrow> return (Some (ErrorNew ''Invalid disk specification''))
    | Some diskSpec \<Rightarrow> bind (m_Delete_Disk M rg [] (disk_Name diskSpec)) (\<lambda>e. case e of
          None \<Rightarrow> return None
        | Some err \<Rightarrow> if ResourceNotFound L err then return None
            else return (Some (Wrap (''failed to delete disk '' @ disk_Name diskSpec @
              '' in resource group '' @ rg) err))))"

subsection \<open>Network interfaces\<close>

record IPConfiguration =
  ipc_Name :: string
  ipc_Primary :: bool

record networkinterfaces_Spec =
  nic_Name :: string
  nic_SubnetName :: string
  nic_VnetName :: string
  nic_StaticIPAddress :: string
  nic_MacAddress :: string
  nic_BackendPoolNames :: "string list"
  nic_IPConfigurations :: "IPConfiguration option list"

definition networkinterfaces_Get :: "'w moc \<Rightarrow> string \<Rightarrow> networkinterfaces_Spec option \<Rightarrow>
    ('w, goerror + Interface) io" where
  "networkinterfaces_Get M rg spec = (case spec of
      None \<Rightarrow> return (Inl (ErrorNew ''invalid network interface specification''))
    | Some nicSpec \<Rightarrow> bind (m_Get_NIC M rg (nic_Name nicSpec)) (\<lambda>r. case r of
          Inl err \<Rightarrow> return (Inl err)
        | Inr [] \<Rightarrow> panic ''index out of range''
        | Inr (n # _) \<Rightarrow> return (Inr n)))"

text \<open>The loop over the IP configurations of the spec; a nil element would panic.\<close>

fun nic_ipconfigs :: "networkinterfaces_Spec \<Rightarrow> InterfaceIPConfiguration list \<Rightarrow>
    IPConfiguration option list \<Rightarrow> InterfaceIPConfiguration list option" where
  "nic_ipconfigs nicSpec acc [] = Some acc"
| "nic_ipconfigs nicSpec acc (None # cs) = None"
| "nic_ipconfigs nicSpec acc (Some ipconfig # cs) =
     nic_ipconfigs nicSpec (acc @ [\<lparr>iic_Name = Some (ipc_Name ipconfig),
       iic_Primary = Some (ipc_Primary ipconfig), iic_SubnetID = Some (nic_VnetName nicSpec),
       iic_BackendAddressPools =
         (if ipc_Primary ipconfig then Some (nic_BackendPoolNames nicSpec) else None),
       iic_PrivateIPAddress = None\<rparr>]) cs"

definition nic_interface :: "networkinterfaces_Spec \<Rightarrow> Interface option" where
  "nic_interface nicSpec = map_option (\<lambda>cs. \<lparr>if_Name = Some (nic_Name nicSpec),
       if_EnableIPForwarding = Some True, if_EnableMACSpoofing = Some True,
       if_MacAddress = Some (nic_MacAddress nicSpec), if_IPConfigurations = cs\<rparr>)
     (if nic_IPConfigurations nicSpec \<noteq> []
      then nic_ipconfigs nicSpec [] (nic_IPConfigurations nicSpec)
      else Some [\<lparr>iic_Name = Some ''pipConfig'', iic_Primary = None,
        iic_SubnetID = Some (nic_VnetName nicSpec),
        iic_BackendAddressPools = Some (nic_BackendPoolNames nicSpec),
        iic_PrivateIPAddress = (if nic_StaticIPAddress nicSpec \<noteq> []
          then Some (nic_StaticIPAddress nicSpec) else None)\<rparr>])"

definition networkinterfaces_Create :: "'w moc \<Rightarrow> string \<Rightarrow> networkinterfaces_Spec \<Rightarrow>
    ('w, goerror option) io" where
  "networkinterfaces_Create M rg nicSpec = (case nic_interface nicSpec of
      None \<Rightarrow> panic ''nil pointer dereference''
    | Some networkInterface \<Rightarrow> m_Create_NIC M rg (nic_Name nicSpec) networkInterface)"

definition networkinterfaces_Reconcile :: "'w moc \<Rightarrow> string \<Rightarrow> networkinterfaces_Spec option \<Rightarrow>
    ('w, goerror option) io" where
  "networkinterfaces_Reconcile M rg spec = bind (WriteMocInfoLog M) (\<lambda>_. case spec of
      None \<Rightarrow> return (Some (ErrorNew ''invalid network interface specification''))
    | Some nicSpec \<Rightarrow> bind (networkinterfaces_Get M rg (Some nicSpec)) (\<lambda>r. case r of
          Inr _ \<Rightarrow> return None
        | Inl _ \<Rightarrow> bind (networkinterfaces_Create M rg nicSpec) (\<lambda>err. return (wrapf err
            (''failed to create network interface '' @ nic_Name nicSpec @
             '' in resource group '' @ rg)))))"

definition networkinterfaces_Delete :: "lib \<Rightarrow> 'w moc \<Rightarrow> string \<Rightarrow> networkinterfaces_Spec option \<Rightarrow>
    ('w, goerror option) io" where
  "networkinterfaces_Delete L M rg spec = bind (WriteMocInfoLog M) (\<lambda>_. case spec of
      None \<Rightarrow> return (Some (ErrorNew ''invalid network interface Specification''))
    | Some nicSpec \<Rightarrow> bind (m_Delete_NIC M rg (nic_Name nicSpec)) (\<lambda>e. case e of
          None \<Rightarrow> return None
        | Some err \<Rightarrow> if ResourceNotFound L err then return None
            else return (Some (Wrap (''failed to delete network interface '' @ nic_Name nicSpec @
              '' in resource group '' @ rg) err))))"

subsection \<open>Load balancers\<close>

record loadbalancers_Spec =
  lbspec_Name :: string
  lbspec_BackendPoolName :: string
  lbspec_VnetName :: string
  lbspec_FrontendPort :: int32
  lbspec_BackendPort :: int32
  lbspec_Tags :: tags

definition loadbalancers_Get :: "'w moc \<Rightarrow> string \<Rightarrow> loadbalancers_Spec option \<Rightarrow>
    ('w, goerror + LoadBalancer) io" where
  "loadbalancers_Get M rg spec = (case spec of
      None \<Rightarrow> return (Inl (ErrorNew ''invalid loadbalancer specification''))
    | Some lbSpec \<Rightarrow> bind (m_Get_LB M rg (lbspec_Name lbSpec)) (\<lambda>r. case r of
          Inl err \<Rightarrow> return (Inl err)
        | Inr [] \<Rightarrow> panic ''index out of range''
        | Inr (lb # _) \<Rightarrow> return (Inr lb)))"

definition lb_networkLB :: "loadbalancers_Spec \<Rightarrow> LoadBalancer" where
  "lb_networkLB lbSpec = \<lparr>nlb_Name = Some (lbspec_Name lbSpec),
     nlb_Properties = Some
       \<lparr>lbp_BackendAddressPools = [Some (lbspec_BackendPoolName lbSpec)],
        lbp_FrontendIPConfigurations =
          Some [Some \<lparr>fip_SubnetID = Some (lbspec_VnetName lbSpec), fip_IPAddress = None\<rparr>],
        lbp_LoadBalancingRules =
          [\<lparr>lbr_Protocol = TransportProtocolTCP, lbr_FrontendPort = Some (lbspec_FrontendPort lbSpec),
            lbr_BackendPort = Some (lbspec_BackendPort lbSpec)\<rparr>],
        lbp_ReplicationCount = 0\<rparr>,
     nlb_Tags = lbspec_Tags lbSpec\<rparr>"

definition loadbalancers_Reconcile :: "'w moc \<Rightarrow> string \<Rightarrow> loadbalancers_Spec option \<Rightarrow>
    ('w, goerror option) io" where
  "loadbalancers_Reconcile M rg spec = bind (WriteMocInfoLog M) (\<lambda>_. case spec of
      None \<Rightarrow> return (Some (ErrorNew ''invalid loadbalancer specification''))
    | Some lbSpec \<Rightarrow> bind (loadbalancers_Get M rg (Some lbSpec)) (\<lambda>r. case r of
          Inr _ \<Rightarrow> return None
        | Inl _ \<Rightarrow> bind (m_Create_LB M rg (lbspec_Name lbSpec) (lb_networkLB lbSpec))
            (\<lambda>err. return err)))"

definition loadbalancers_Delete :: "lib \<Rightarrow> 'w moc \<Rightarrow> string \<Rightarrow> loadbalancers_Spec option \<Rightarrow>
    ('w, goerror option) io" where
  "loadbalancers_Delete L M rg spec = bind (WriteMocInfoLog M) (\<lambda>_. case spec of
      None \<Rightarrow> return (Some (ErrorNew ''invalid loadbalancer specification''))
    | Some lbSpec \<Rightarrow> bind (m_Delete_LB M rg (lbspec_Name lbSpec)) (\<lambda>e. case e of
          None \<Rightarrow> return None
        | Some err \<Rightarrow> if ResourceNotFound L err then return None
            else return (Some (Wrap (''failed to delete loadbalancer '' @ lbspec_Name lbSpec @
              '' in resource group '' @ rg) err))))"

subsection \<open>Virtual networks\<close>

definition OWNER :: string where "OWNER = ''owner''"
definition CAPH :: string where "CAPH = ''CAPH''"

record virtualnetworks_Spec =
  vnspec_Name :: string
  vnspec_Group :: string
  vnspec_CIDR :: string

text \<open>The dynamic type of what \<open>Get\<close> returns as \<open>interface{}\<close>.\<close>

datatype vnet_interface = VnetValue VirtualNetwork | VnetSlicePtr "VirtualNetwork list"

definition virtualnetworks_Get :: "'w moc \<Rightarrow> virtualnetworks_Spec option \<Rightarrow>
    ('w, goerror + vnet_interface) io" where
  "virtualnetworks_Get M spec = (case spec of
      None \<Rightarrow> return (Inl (ErrorNew ''Invalid VNET Specification''))
    | Some vnetSpec \<Rightarrow> bind (m_Get_VNet M (vnspec_Group vnetSpec) (vnspec_Name vnetSpec))
        (\<lambda>r. case r of
            Inl err \<Rightarrow> return (Inl err)
          | Inr vnet \<Rightarrow> return (Inr (VnetSlicePtr vnet))))"

definition virtualnetworks_Reconcile :: "'w moc \<Rightarrow> virtualnetworks_Spec option \<Rightarrow>
    ('w, goerror option) io" where
  "virtualnetworks_Reconcile M spec = bind (WriteMocInfoLog M) (\<lambda>_. case spec of
      None \<Rightarrow> return (Some (ErrorNew ''Invalid VNET Specification''))
    | Some vnetSpec \<Rightarrow> bind (virtualnetworks_Get M (Some vnetSpec)) (\<lambda>r. case r of
          Inr _ \<Rightarrow> return None
        | Inl _ \<Rightarrow> bind (m_Create_VNet M (vnspec_Group vnetSpec) (vnspec_Name vnetSpec)
              \<lparr>vn_Name = Some (vnspec_Name vnetSpec), vn_Type = Some ''Transparent'',
               vn_AddressPrefixes = [vnspec_CIDR vnetSpec], vn_Tags = [(OWNER, Some CAPH)]\<rparr>)
            (\<lambda>err. return err)))"

definition zeroVirtualNetwork :: VirtualNetwork where
  "zeroVirtualNetwork = \<lparr>vn_Name = None, vn_Type = None, vn_AddressPrefixes = [], vn_Tags = []\<rparr>"

text \<open>\<open>vnet, _ := vnetInterface.(network.VirtualNetwork)\<close>\<close>

fun assert_VirtualNetwork :: "vnet_interface \<Rightarrow> VirtualNetwork" where
  "assert_VirtualNetwork (VnetValue v) = v"
| "assert_VirtualNetwork (VnetSlicePtr _) = zeroVirtualNetwork"

definition virtualnetworks_Delete :: "lib \<Rightarrow> 'w moc \<Rightarrow> virtualnetworks_Spec option \<Rightarrow>
    ('w, goerror option) io" where
  "virtualnetworks_Delete L M spec = bind (WriteMocInfoLog M) (\<lambda>_. case spec of
      None \<Rightarrow> return (Some (ErrorNew ''Invalid VNET Specification''))
    | Some vnetSpec \<Rightarrow> bind (virtualnetworks_Get M (Some vnetSpec)) (\<lambda>r. case r of
          Inl err \<Rightarrow> return (Some err)
        | Inr vnetInterface \<Rightarrow>
            (let vnet = assert_VirtualNetwork vnetInterface;
                 owner = map_of (vn_Tags vnet) OWNER in
             if owner = None \<or> owner = Some None \<or> owner = Some (Some CAPH)
             then return None
             else bind (m_Delete_VNet M (vnspec_Group vnetSpec) (vnspec_Name vnetSpec))
               (\<lambda>e. case e of
                   None \<Rightarrow> return None
                 | Some err \<Rightarrow> if ResourceNotFound L err then return None
                     else return (Some (Wrap (''failed to delete vnet '' @ vnspec_Name vnetSpec @
                       '' in resource group '' @ vnspec_Group vnetSpec) err))))))"

subsection \<open>VIP pools\<close>

record vippools_Spec =
  vpspec_Name :: string
  vpspec_Location :: string

definition vippools_Get :: "'w moc \<Rightarrow> vippools_Spec option \<Rightarrow> ('w, goerror + VipPool option) io" where
  "vippools_Get M spec = (case spec of
      None \<Rightarrow> return (Inl (ErrorNew ''invalid vippool specification''))
    | Some vpSpec \<Rightarrow> bind (m_Get_VipPool M (vpspec_Location vpSpec) (vpspec_Name vpSpec))
        (\<lambda>r. case r of
            Inl err \<Rightarrow> return (Inl err)
          | Inr [] \<Rightarrow> return (Inr None)
          | Inr (vp # _) \<Rightarrow> return (Inr (Some vp))))"

definition vippools_Reconcile :: "'w moc \<Rightarrow> vippools_Spec option \<Rightarrow> ('w, goerror option) io" where
  "vippools_Reconcile M spec = (case spec of
      None \<Rightarrow> return (Some (ErrorNew ''invalid vippool specification''))
    | Some vpSpec \<Rightarrow> bind (vippools_Get M (Some vpSpec)) (\<lambda>r. case r of
          Inr _ \<Rightarrow> return None
        | Inl _ \<Rightarrow> return (Some (ErrorNew ''creating a vippool is not supported''))))"

definition vippools_Delete :: "vippools_Spec option \<Rightarrow> ('w, goerror option) io" where
  "vippools_Delete spec = return (Some (ErrorNew ''deleting a vippool is not supported''))"

subsection \<open>The services meet the contract\<close>

interpretation keyvaults: cloud_service "WriteMocInfoLog M" "keyvaults_Get M rg (Some spec)"
  "m_Create_KeyVault M rg (vault_Name spec) \<lparr>kv_Name = Some (vault_Name spec)\<rparr>"
  "m_Delete_KeyVault M rg (vault_Name spec)" "ResourceNotFound L" "\<lambda>e. e"
  "''failed to delete keyvault '' @ vault_Name spec @ '' in resource group '' @ rg"
  "keyvaults_Reconcile M rg (Some spec)" "keyvaults_Delete L M rg (Some spec)"
  for L M rg spec
  by unfold_locales (simp_all add: keyvaults_Reconcile_def keyvaults_Delete_def option.map_ident cong: sum.case_cong)

interpretation disks: cloud_service "WriteMocInfoLog M" "disks_Get M rg (Some spec)"
  "m_Create_Disk M rg [] (disk_Name spec) \<lparr>vhd_Name = Some (disk_Name spec)\<rparr>"
  "m_Delete_Disk M rg [] (disk_Name spec)" "ResourceNotFound L" "\<lambda>e. e"
  "''failed to delete disk '' @ disk_Name spec @ '' in resource group '' @ rg"
  "disks_Reconcile M rg (Some spec)" "disks_Delete L M rg (Some spec)"
  for L M rg spec
  by unfold_locales (simp_all add: disks_Reconcile_def disks_Delete_def option.map_ident cong: sum.case_cong)

interpretation nics: cloud_service "WriteMocInfoLog M" "networkinterfaces_Get M rg (Some spec)"
  "networkinterfaces_Create M rg spec"
  "m_Delete_NIC M rg (nic_Name spec)" "ResourceNotFound L"
  "Wrap (''failed to create network interface '' @ nic_Name spec @ '' in resource group '' @ rg)"
  "''failed to delete network interface '' @ nic_Name spec @ '' in resource group '' @ rg"
  "networkinterfaces_Reconcile M rg (Some spec)" "networkinterfaces_Delete L M rg (Some spec)"
  for L M rg spec
  by unfold_locales
    (simp_all add: networkinterfaces_Reconcile_def networkinterfaces_Delete_def wrapf_def
      cong: sum.case_cong)

interpretation lbs: cloud_service "WriteMocInfoLog M" "loadbalancers_Get M rg (Some spec)"
  "m_Create_LB M rg (lbspec_Name spec) (lb_networkLB spec)"
  "m_Delete_LB M rg (lbspec_Name spec)" "ResourceNotFound L" "\<lambda>e. e"
  "''failed to delete loadbalancer '' @ lbspec_Name spec @ '' in resource group '' @ rg"
  "loadbalancers_Reconcile M rg (Some spec)" "loadbalancers_Delete L M rg (Some spec)"
  for L M rg spec
  by unfold_locales (simp_all add: loadbalancers_Reconcile_def loadbalancers_Delete_def option.map_ident cong: sum.case_cong)

subsection \<open>Which calls the services make\<close>

text \<open>A delete call settles a resource when it succeeds or the resource is not found.\<close>

definition gone :: "lib \<Rightarrow> goerror option \<Rightarrow> bool" where
  "gone L e = (case e of None \<Rightarrow> True | Some err \<Rightarrow> ResourceNotFound L err)"

lemma traced_Delete:
  "hoare (\<lambda>s. changes s = tr) (m_Delete_NIC (traced M) rg n)
     (\<lambda>e t. changes t = tr @ [CDelete KNIC rg n e]) (\<lambda>t. changes t = tr)"
  "hoare (\<lambda>s. changes s = tr) (m_Delete_Disk (traced M) rg c n)
     (\<lambda>e t. changes t = tr @ [CDelete KDisk rg n e]) (\<lambda>t. changes t = tr)"
  "hoare (\<lambda>s. changes s = tr) (m_Delete_LB (traced M) rg n)
     (\<lambda>e t. changes t = tr @ [CDelete KLB rg n e]) (\<lambda>t. changes t = tr)"
  "hoare (\<lambda>s. changes s = tr) (m_Delete_KeyVault (traced M) rg n)
     (\<lambda>e t. changes t = tr @ [CDelete KKeyVault rg n e]) (\<lambda>t. changes t = tr)"
  "hoare (\<lambda>s. changes s = tr) (m_Delete_Group (traced M) rg n)
     (\<lambda>e t. changes t = tr @ [CDelete KGroup rg n e]) (\<lambda>t. changes t = tr)"
  "hoare (\<lambda>s. changes s = tr) (m_Delete_VM (traced M) rg n)
     (\<lambda>e t. changes t = tr @ [CDelete KVM rg n e]) (\<lambda>t. changes t = tr)"
  by (simp_all add: traced_def hoare_record_call)

lemma traced_Create:
  "hoare (\<lambda>s. changes s = tr) (m_Create_NIC (traced M) rg n x)
     (\<lambda>e t. changes t = tr @ [CCreate KNIC rg n e]) (\<lambda>t. changes t = tr)"
  "hoare (\<lambda>s. changes s = tr) (m_Create_LB (traced M) rg n y)
     (\<lambda>e t. changes t = tr @ [CCreate KLB rg n e]) (\<lambda>t. changes t = tr)"
  "hoare (\<lambda>s. changes s = tr) (m_Create_Group (traced M) rg n g)
     (\<lambda>e t. changes t = tr @ [CCreate KGroup rg n e]) (\<lambda>t. changes t = tr)"
  "hoare (\<lambda>s. changes s = tr) (m_Create_VM (traced M) rg n v)
     (\<lambda>e t. changes t = tr @ [CCreate KVM rg n e]) (\<lambda>t. changes t = tr)"
  by (simp_all add: traced_def hoare_record_call)

lemma changes_eq_only [simp]: "changes_only (\<lambda>s. changes s = tr)"
  by (simp add: changes_only_def)

lemmas quiet = traced_quiet [OF changes_eq_only] WriteMocInfoLog_quiet [OF changes_eq_only]

text \<open>
  A query, a log line, then one deletion: what every \<open>Delete\<close> that follows the contract does,
  and its result tells whether the resource is settled.
\<close>

lemma networkinterfaces_Delete_trace:
  "hoare (\<lambda>s. changes s = tr) (networkinterfaces_Delete L (traced M) rg (Some spec))
     (\<lambda>r t. \<exists>e. changes t = tr @ [CDelete KNIC rg (nic_Name spec) e] \<and> (r = None \<longleftrightarrow> gone L e))
     (\<lambda>t. changes t = tr)"
  by (rule nics.hoare_delete [OF quiet(11) traced_Delete(1)])
    (auto simp: gone_def split: option.splits)

lemma disks_Delete_trace:
  "hoare (\<lambda>s. changes s = tr) (disks_Delete L (traced M) rg (Some spec))
     (\<lambda>r t. \<exists>e. changes t = tr @ [CDelete KDisk rg (disk_Name spec) e] \<and> (r = None \<longleftrightarrow> gone L e))
     (\<lambda>t. changes t = tr)"
  by (rule disks.hoare_delete [OF quiet(11) traced_Delete(2)])
    (auto simp: gone_def split: option.splits)

lemma loadbalancers_Delete_trace:
  "hoare (\<lambda>s. changes s = tr) (loadbalancers_Delete L (traced M) rg (Some spec))
     (\<lambda>r t. \<exists>e. changes t = tr @ [CDelete KLB rg (lbspec_Name spec) e] \<and> (r = None \<longleftrightarrow> gone L e))
     (\<lambda>t. changes t = tr)"
  by (rule lbs.hoare_delete [OF quiet(11) traced_Delete(3)])
    (auto simp: gone_def split: option.splits)

text \<open>
  Reconciling a network interface asks for it and, exactly when the answer is an error, creates it in
  the scope's resource group; it reports success exactly when the interface was found or its
  creation succeeded.
\<close>

definition nic_calls :: "string \<Rightarrow> string \<Rightarrow> bool \<Rightarrow> goerror option \<Rightarrow> moc_call list" where
  "nic_calls rg n missing e = CGet KNIC rg n missing # (if missing then [CCreate KNIC rg n e] else [])"

lemma networkinterfaces_Reconcile_calls:
  "hoare (\<lambda>s. calls s = tr) (networkinterfaces_Reconcile (traced M) rg (Some spec))
     (\<lambda>r t. \<exists>missing e. calls t = tr @ nic_calls rg (nic_Name spec) missing e \<and> (r = None \<longleftrightarrow> \<not> missing \<or> e = None))
     (\<lambda>_. True)"
proof -
  have get: "hoare (\<lambda>s. calls s = tr) (m_Get_NIC (traced M) rg n)
      (\<lambda>r t. calls t = tr @ [CGet KNIC rg n (isl r)]) (\<lambda>_. True)" for n
    by (simp add: traced_def hoare_record_call)
  have create: "hoare (\<lambda>s. calls s = tr') (m_Create_NIC (traced M) rg n x)
      (\<lambda>e t. calls t = tr' @ [CCreate KNIC rg n e]) (\<lambda>_. True)" for n x tr'
    by (simp add: traced_def hoare_record_call)
  have interface: "hoare (\<lambda>s. calls s = tr) (networkinterfaces_Get (traced M) rg (Some spec))
      (\<lambda>r t. calls t = tr @ [CGet KNIC rg (nic_Name spec) (isl r)]) (\<lambda>_. True)"
    unfolding networkinterfaces_Get_def option.case
    by (rule hoare_bind [OF get]) (auto simp: hoare_def split: sum.splits list.splits)
  have make: "hoare (\<lambda>s. calls s = tr') (networkinterfaces_Create (traced M) rg spec)
      (\<lambda>e t. calls t = tr' @ [CCreate KNIC rg (nic_Name spec) e]) (\<lambda>_. True)" for tr'
    unfolding networkinterfaces_Create_def by (intro hoare_case_option create hoare_panic) simp
  have missing: "hoare (\<lambda>s. calls s = tr @ [CGet KNIC rg (nic_Name spec) True])
      (bind (networkinterfaces_Create (traced M) rg spec) (\<lambda>err. return (wrapf err msg)))
      (\<lambda>r t. \<exists>missing e. calls t = tr @ nic_calls rg (nic_Name spec) missing e \<and> (r = None \<longleftrightarrow> \<not> missing \<or> e = None)) (\<lambda>_. True)" for msg
    by (rule hoare_bind [OF make], rule hoare_return)
      (rule exI [of _ True], rule exI, auto simp: nic_calls_def wrapf_def)
  show ?thesis
    unfolding networkinterfaces_Reconcile_def option.case
    apply (rule hoare_bind [OF hoare_True [OF WriteMocInfoLog_calls]])
    apply (rule hoare_bind [OF interface])
    apply (rule hoare_case_sum)
     apply (rule hoare_weaken [OF missing]; simp)
    apply (rule hoare_return)
    apply (rule exI [of _ False])
    apply (simp add: nic_calls_def)
    done
qed

text \<open>
  A group is deleted only when the cloud reported it with the tag \<open>ownedBy=caph\<close> that
  \<open>Reconcile\<close> puts on the groups it creates; otherwise \<open>Delete\<close> changes nothing.
\<close>

lemma groups_Delete_trace:
  "hoare (\<lambda>s. changes s = tr) (groups_Delete L (traced M) (Some spec))
     (\<lambda>r t. changes t = tr \<or>
        (\<exists>e w w' g gs. m_Get_Group M (group_Location spec) (group_Name spec) w =
             (Ret (Inr (g # gs)), w') \<and>
           map_of (g_Tags g) TagKeyClusterGroup = Some (Some TagValClusterGroup) \<and>
           changes t = tr @ [CDelete KGroup (group_Location spec) (group_Name spec) e] \<and>
           (r = None \<longleftrightarrow> gone L e)))
     (\<lambda>t. changes t = tr)"
proof -
  let ?get = "m_Get_Group M (group_Location spec) (group_Name spec)"
  have get: "hoare (\<lambda>s. changes s = tr) (m_Get_Group (traced M) (group_Location spec) (group_Name spec))
      (\<lambda>r s. changes s = tr \<and> (\<exists>w w'. ?get w = (Ret r, w'))) (\<lambda>t. changes t = tr)"
    by (rule hoareI) (auto simp: traced_def record_call_def split: prod.splits res.splits)
  have del: "hoare (\<lambda>s. changes s = tr) (case r of
      Inl err \<Rightarrow> if ResourceNotFound L err then return None else return (Some err)
    | Inr [] \<Rightarrow> panic ''index out of range''
    | Inr (groupObj # _) \<Rightarrow>
       (if map_of (g_Tags groupObj) TagKeyClusterGroup = Some (Some TagValClusterGroup)
        then bind (m_Delete_Group (traced M) (group_Location spec) (group_Name spec)) (\<lambda>e. case e of
            None \<Rightarrow> return None
          | Some err \<Rightarrow> if ResourceNotFound L err then return None
              else return (Some (Wrap (''failed to delete group '' @ group_Name spec) err)))
        else return None))
     (\<lambda>r' t. changes t = tr \<or> (\<exists>e g gs. r = Inr (g # gs) \<and>
        map_of (g_Tags g) TagKeyClusterGroup = Some (Some TagValClusterGroup) \<and>
        changes t = tr @ [CDelete KGroup (group_Location spec) (group_Name spec) e] \<and>
        (r' = None \<longleftrightarrow> gone L e)))
     (\<lambda>t. changes t = tr)" for r
    by (intro hoare_case_sum hoare_case_list hoare_if hoare_bind [OF traced_Delete(5)]
        hoare_case_option hoare_return hoare_panic) (auto simp: gone_def split: option.splits)
  show ?thesis
    unfolding groups_Delete_def option.case
    by (rule hoare_bind [OF quiet(11)], rule hoare_bind [OF get], rule hoare_pure,
        rule hoare_weaken [OF del]) blast+
qed

text \<open>
  Deleting a virtual network never deletes anything: \<open>Get\<close> returns the slice pointer of the
  client, the assertion to a network value fails, and the tags of the zero value are empty.
\<close>

lemma virtualnetworks_Delete_reads:
  assumes "preserves (WriteMocInfoLog M) I" "\<And>g n. preserves (m_Get_VNet M g n) I"
  shows "preserves (virtualnetworks_Delete L M spec) I"
proof -
  have get: "hoare I (virtualnetworks_Get M (Some v))
      (\<lambda>r t. I t \<and> (\<forall>x. r = Inr x \<longrightarrow> assert_VirtualNetwork x = zeroVirtualNetwork)) I" for v
    unfolding virtualnetworks_Get_def option.case
    by (rule hoare_bind [OF assms(2)], intro hoare_rules) auto
  have skip: "map_of (vn_Tags zeroVirtualNetwork) OWNER = None"
    by (simp add: zeroVirtualNetwork_def)
  show ?thesis
    unfolding virtualnetworks_Delete_def
    apply (rule hoare_bind [OF assms(1)])
    apply (rule hoare_case_option)
     apply (rule hoare_return, assumption)
    apply (rule hoare_bind [OF get])
    apply (auto simp: hoare_def skip Let_def split: sum.splits)
    done
qed

lemma virtualnetworks_Delete_quiet:
  "preserves (virtualnetworks_Delete L (traced M) spec) (\<lambda>s. changes s = tr)"
  by (rule virtualnetworks_Delete_reads [OF quiet(11) quiet(4)])

lemma keyvaults_Delete_trace:
  "hoare (\<lambda>s. changes s = tr) (keyvaults_Delete L (traced M) rg (Some spec))
     (\<lambda>r t. \<exists>e. changes t = tr @ [CDelete KKeyVault rg (vault_Name spec) e] \<and> (r = None \<longleftrightarrow> gone L e))
     (\<lambda>t. changes t = tr)"
  by (rule keyvaults.hoare_delete [OF quiet(11) traced_Delete(4)])
    (auto simp: gone_def split: option.splits)

text \<open>
  The interface sent to the cloud has one IP configuration per configuration of the spec, in
  order and all in the spec's network, and exactly the primary ones carry the backend pools.
\<close>

lemma nic_interface_configurations:
  assumes "nic_IPConfigurations spec = map Some cs" "cs \<noteq> []"
  shows "\<exists>i. nic_interface spec = Some i \<and>
    map iic_Name (if_IPConfigurations i) = map (Some \<circ> ipc_Name) cs \<and>
    map iic_BackendAddressPools (if_IPConfigurations i) =
      map (\<lambda>c. if ipc_Primary c then Some (nic_BackendPoolNames spec) else None) cs \<and>
    (\<forall>c \<in> set (if_IPConfigurations i). iic_SubnetID c = Some (nic_VnetName spec))"
proof -
  have "\<exists>cs'. nic_ipconfigs spec acc (map Some ds) = Some (acc @ cs') \<and>
      map iic_Name cs' = map (Some \<circ> ipc_Name) ds \<and>
      map iic_BackendAddressPools cs' =
        map (\<lambda>c. if ipc_Primary c then Some (nic_BackendPoolNames spec) else None) ds \<and>
      (\<forall>c \<in> set cs'. iic_SubnetID c = Some (nic_VnetName spec))" for acc ds
  proof (induction ds arbitrary: acc)
    case (Cons d ds)
    let ?c = "\<lparr>iic_Name = Some (ipc_Name d), iic_Primary = Some (ipc_Primary d),
      iic_SubnetID = Some (nic_VnetName spec), iic_BackendAddressPools =
        (if ipc_Primary d then Some (nic_BackendPoolNames spec) else None),
      iic_PrivateIPAddress = None\<rparr>"
    from Cons [of "acc @ [?c]"] show ?case by (auto intro!: exI [of _ "?c # _"])
  qed simp
  from this [of "[]" cs] assms show ?thesis
    by (auto simp: nic_interface_def)
qed

end
