(* ===== verification/Auth.thy ===== *)
theory Auth
  imports Defaults
begin

text \<open>
  \<open>pkg/auth/auth.go\<close>: obtaining an authorizer for the cloud agent, from the login file when
  there is one and by logging in with the credentials secret otherwise.  The file system, the
  environment, the authorizer constructor and the login client are parameters; the mutex around
  a login has no effect on a single call.
\<close>

definition AzHCIAccessCreds :: string where "AzHCIAccessCreds = ''caphlogintoken''"
definition AzHCICreds :: string where "AzHCICreds = ''cloudconfig''"
definition AzHCIAccessTokenFieldName :: string where "AzHCIAccessTokenFieldName = ''value''"

definition auth_GetSecret :: "'w kube \<Rightarrow> string \<Rightarrow> ('w, goerror + Secret) io" where
  "auth_GetSecret K name = bind (k_Get_Secret K (mkKey ''default'' name)) (\<lambda>r. case r of
      Inl err \<Rightarrow> return (Inl (Wrap ''kubernetes secret query failed'' err))
    | Inr secret \<Rightarrow> return (Inr secret))"

definition auth_CreateSecret :: "'w kube \<Rightarrow> string \<Rightarrow> string \<Rightarrow> ('w, goerror + Secret) io" where
  "auth_CreateSecret K name data =
     bind (k_Create_Secret K (mkKey ''default'' name) [(AzHCIAccessTokenFieldName, data)])
       (\<lambda>r. case r of
           Some err \<Rightarrow> return (Inl (Wrap ''kubernetes secret create failed'' err))
         | None \<Rightarrow> return (Inr \<lparr>sec_Data = [(AzHCIAccessTokenFieldName, data)]\<rparr>))"

definition UpdateLoginConfig :: "'w sys \<Rightarrow> 'w kube \<Rightarrow> ('w, unit) io" where
  "UpdateLoginConfig S K = bind (auth_GetSecret K AzHCIAccessCreds) (\<lambda>r. case r of
      Inl err \<Rightarrow> return ()
    | Inr secret \<Rightarrow> (case map_of (sec_Data secret) AzHCIAccessTokenFieldName of
        None \<Rightarrow> return ()
      | Some data \<Rightarrow> (case sys_LoadYAMLConfig S data of
          Inl err \<Rightarrow> return ()
        | Inr loginconfig \<Rightarrow> sys_UpdateLoginConfig S loginconfig)))"

text \<open>The part of \<open>login\<close> that contacts the cloud agent.\<close>

definition login_attempt :: "lib \<Rightarrow> 'w sys \<Rightarrow> 'w kube \<Rightarrow> string \<Rightarrow> string \<Rightarrow>
    ('w, goerror + string) io" where
  "login_attempt L S K wssdconfigpath cloudFqdn =
     bind (auth_GetSecret K AzHCIAccessCreds) (\<lambda>r. case r of
       Inl err \<Rightarrow> return (Inl (Wrap
         ''failed to create wssd session, missing login credentials secret'' err))
     | Inr secret \<Rightarrow> (case map_of (sec_Data secret) AzHCIAccessTokenFieldName of
         None \<Rightarrow> return (Inl (ErrorNew ''error: could not parse kubernetes secret''))
       | Some data \<Rightarrow> (case sys_LoadYAMLConfig S data of
           Inl err \<Rightarrow> return (Inl (Wrap
             ''failed to create wssd session: parse yaml login config failed'' err))
         | Inr loginconfig \<Rightarrow>
             bind (sys_NewAuthenticationClientAuthMode S cloudFqdn loginconfig) (\<lambda>r. case r of
               Inl err \<Rightarrow> return (Inl err)
             | Inr authenticationClient \<Rightarrow>
                 bind (sys_LoginWithConfig S authenticationClient loginconfig) (\<lambda>e.
                   let finish = bind (sys_Stat S wssdconfigpath) (\<lambda>e. case e of
                       Some err \<Rightarrow> return (Inl (Wrap (''Missing wssdconfig '' @ wssdconfigpath @
                         '' after login'') err))
                     | None \<Rightarrow> sys_NewAuthorizerFromEnvironment S cloudFqdn)
                   in case e of
                       None \<Rightarrow> finish
                     | Some err \<Rightarrow> if \<not> ResourceAlreadyExists L err
                         then return (Inl (Wrap
                           ''failed to create wssd session: login failed'' err))
                         else finish)))))"

definition login :: "lib \<Rightarrow> 'w sys \<Rightarrow> 'w kube \<Rightarrow> string \<Rightarrow> ('w, goerror + string) io" where
  "login L S K cloudFqdn = bind (sys_Getenv S ''WSSD_CONFIG_PATH'') (\<lambda>wssdconfigpath.
     if wssdconfigpath = []
     then return (Inl (ErrorNew
       ''ReconcileAzureStackHCIAccess: Environment variable WSSD_CONFIG_PATH is not set''))
     else bind (sys_Stat S wssdconfigpath) (\<lambda>e. case e of
         Some _ \<Rightarrow> login_attempt L S K wssdconfigpath cloudFqdn
       | None \<Rightarrow> bind (sys_NewAuthorizerFromEnvironment S cloudFqdn) (\<lambda>r. case r of
             Inr authorizer \<Rightarrow> return (Inr authorizer)
           | Inl _ \<Rightarrow> login_attempt L S K wssdconfigpath cloudFqdn)))"

definition strings_ToLower :: "string \<Rightarrow> string" where
  "strings_ToLower s = map fold_char s"

text \<open>The authorizer from the environment, with a login when the certificate has expired.\<close>

definition authorize_or_login :: "lib \<Rightarrow> 'w sys \<Rightarrow> 'w kube \<Rightarrow> string \<Rightarrow>
    ('w, goerror + string) io" where
  "authorize_or_login L S K cloudFqdn =
     bind (sys_NewAuthorizerFromEnvironment S cloudFqdn) (\<lambda>r. case r of
         Inr authorizer \<Rightarrow> return (Inr authorizer)
       | Inl err \<Rightarrow> if \<not> moc_IsExpired L err
           then return (Inl (Wrap ''error: new authorizer failed'' err))
           else login L S K cloudFqdn)"

definition ReconcileAzureStackHCIAccess :: "lib \<Rightarrow> 'w sys \<Rightarrow> 'w kube \<Rightarrow> string \<Rightarrow>
    ('w, goerror + string) io" where
  "ReconcileAzureStackHCIAccess L S K cloudFqdn =
     bind (sys_Getenv S ''WSSD_CONFIG_PATH'') (\<lambda>wssdconfigpath.
       if wssdconfigpath = []
       then return (Inl (ErrorNew
         ''ReconcileAzureStackHCIAccess: Environment variable WSSD_CONFIG_PATH is not set''))
       else bind (sys_Getenv S ''WSSD_DEBUG_MODE'') (\<lambda>mode.
         if strings_ToLower mode \<noteq> ''on''
         then bind (sys_Stat S wssdconfigpath) (\<lambda>e. case e of
             Some err \<Rightarrow> login L S K cloudFqdn
           | None \<Rightarrow> bind (sys_go S (UpdateLoginConfig S K)) (\<lambda>_.
               authorize_or_login L S K cloudFqdn))
         else authorize_or_login L S K cloudFqdn))"

text \<open>
  From inside a cluster: \<open>inClusterConfig\<close> and \<open>clientNew\<close> are \<open>rest.InClusterConfig\<close> and
  \<open>client.New\<close>; the configuration gets a timeout of ten seconds.
\<close>

definition GetAuthorizerFromKubernetesCluster :: "lib \<Rightarrow> 'w sys \<Rightarrow> ('w, goerror + RestConfig) io \<Rightarrow>
    (RestConfig \<Rightarrow> ('w, goerror + 'w kube) io) \<Rightarrow> string \<Rightarrow> ('w, goerror + string) io" where
  "GetAuthorizerFromKubernetesCluster L S inClusterConfig clientNew cloudFqdn =
     bind inClusterConfig (\<lambda>r. case r of
       Inl err \<Rightarrow> return (Inl err)
     | Inr config \<Rightarrow> bind (clientNew (config\<lparr>rc_TimeoutSeconds := 10\<rparr>)) (\<lambda>r. case r of
         Inl err \<Rightarrow> return (Inl (Wrap ''failed to create a client'' err))
       | Inr c \<Rightarrow> ReconcileAzureStackHCIAccess L S c cloudFqdn))"

subsection \<open>When a login happens\<close>

text \<open>
  A login needs a missing file or an authorizer that failed: with the file in place and an
  authorizer from the environment, nothing but the environment is consulted.
\<close>

lemma authorize_or_login_valid:
  assumes "sys_NewAuthorizerFromEnvironment S cloudFqdn s = (Ret (Inr a), t)"
  shows "authorize_or_login L S K cloudFqdn s = (Ret (Inr a), t)"
  using assms by (simp add: authorize_or_login_def bind_def)

lemma authorize_or_login_other_error:
  assumes "sys_NewAuthorizerFromEnvironment S cloudFqdn s = (Ret (Inl e), t)" "\<not> moc_IsExpired L e"
  shows "authorize_or_login L S K cloudFqdn s =
    (Ret (Inl (Wrap ''error: new authorizer failed'' e)), t)"
  using assms by (simp add: authorize_or_login_def bind_def)

text \<open>
  An attempt that yields an authorizer saw the login file in place: a login that leaves no file
  behind is an error even when the agent accepted it.
\<close>

lemma login_attempt_needs_file:
  assumes "login_attempt L S K path cloudFqdn s = (Ret (Inr a), t)"
  shows "\<exists>u v. sys_Stat S path u = (Ret None, v) \<and>
    sys_NewAuthorizerFromEnvironment S cloudFqdn v = (Ret (Inr a), t)"
  using assms unfolding login_attempt_def
  by (auto simp: run_simps Let_def)

end
