(* ===== verification/Base64.thy ===== *)
theory Base64
  imports Defaults
begin

text \<open>
  The part of Go's \<open>encoding/base64\<close> the sources use: \<open>StdEncoding.EncodeToString\<close> on the
  bootstrap data and \<open>StdEncoding.DecodeString\<close> on the SSH keys.  Decoding skips carriage
  returns and newlines, demands padding, ignores the unused bits of the last character, and
  reports the offset of the first byte it cannot accept.
\<close>

definition b64_alphabet :: string where
  "b64_alphabet = ''ABCDEFGHIJKLMNOPQRSTUVWXYZabcdefghijklmnopqrstuvwxyz0123456789+/''"

definition b64_char :: "nat \<Rightarrow> char" where
  "b64_char n = b64_alphabet ! n"

fun index_of :: "char \<Rightarrow> char list \<Rightarrow> nat option" where
  "index_of c [] = None"
| "index_of c (d # ds) = (if c = d then Some 0 else map_option Suc (index_of c ds))"

definition b64_value :: "char \<Rightarrow> nat option" where
  "b64_value c = index_of c b64_alphabet"

fun EncodeToString :: "string \<Rightarrow> string" where
  "EncodeToString [] = []"
| "EncodeToString [a] = (let a = of_char a :: nat in
     [b64_char (a div 4), b64_char (a mod 4 * 16), CHR ''='', CHR ''=''])"
| "EncodeToString [a, b] = (let a = of_char a :: nat; b = of_char b :: nat in
     [b64_char (a div 4), b64_char (a mod 4 * 16 + b div 16), b64_char (b mod 16 * 4), CHR ''=''])"
| "EncodeToString (a # b # c # bs) = (let a' = of_char a :: nat; b' = of_char b :: nat;
       c' = of_char c :: nat in
     b64_char (a' div 4) # b64_char (a' mod 4 * 16 + b' div 16) #
     b64_char (b' mod 16 * 4 + c' div 64) # b64_char (c' mod 64) # EncodeToString bs)"

text \<open>What follows the padding must be the end of the input.\<close>

definition no_garbage :: "(nat \<times> char) list \<Rightarrow> string \<Rightarrow> nat + string" where
  "no_garbage rest out = (case rest of [] \<Rightarrow> Inr out | (p, _) # _ \<Rightarrow> Inl p)"

text \<open>The three bytes of a quantum, from its six-bit values.\<close>

definition byte1 :: "nat \<Rightarrow> nat \<Rightarrow> char" where "byte1 v0 v1 = char_of (v0 * 4 + v1 div 16)"
definition byte2 :: "nat \<Rightarrow> nat \<Rightarrow> char" where "byte2 v1 v2 = char_of (v1 mod 16 * 16 + v2 div 4)"
definition byte3 :: "nat \<Rightarrow> nat \<Rightarrow> char" where "byte3 v2 v3 = char_of (v2 mod 4 * 64 + v3)"

text \<open>
  \<open>decodeQuantum\<close> over the input with its positions, newlines removed; \<open>n\<close> is the length of the
  input.  \<open>Inl p\<close> is \<open>CorruptInputError(p)\<close>.
\<close>

fun b64_quanta :: "nat \<Rightarrow> (nat \<times> char) list \<Rightarrow> nat + string" where
  "b64_quanta n [] = Inr []"
| "b64_quanta n [(p0, c0)] = (case b64_value c0 of None \<Rightarrow> Inl p0 | Some _ \<Rightarrow> Inl (n - 1))"
| "b64_quanta n [(p0, c0), (p1, c1)] = (case b64_value c0 of None \<Rightarrow> Inl p0 | Some _ \<Rightarrow>
     (case b64_value c1 of None \<Rightarrow> Inl p1 | Some _ \<Rightarrow> Inl (n - 2)))"
| "b64_quanta n ((p0, c0) # (p1, c1) # (p2, c2) # xs) = (case b64_value c0 of None \<Rightarrow> Inl p0
     | Some v0 \<Rightarrow> (case b64_value c1 of None \<Rightarrow> Inl p1
     | Some v1 \<Rightarrow> (case b64_value c2 of
         None \<Rightarrow> if c2 \<noteq> CHR ''='' then Inl p2 else
           (case xs of [] \<Rightarrow> Inl n
             | (p3, c3) # rest \<Rightarrow> if c3 \<noteq> CHR ''='' then Inl (p3 - 1)
                 else no_garbage rest [byte1 v0 v1])
       | Some v2 \<Rightarrow> (case xs of
           [] \<Rightarrow> Inl (n - 3)
         | (p3, c3) # rest \<Rightarrow> (case b64_value c3 of
             None \<Rightarrow> if c3 \<noteq> CHR ''='' then Inl p3
               else no_garbage rest [byte1 v0 v1, byte2 v1 v2]
           | Some v3 \<Rightarrow> (case b64_quanta n rest of
               Inl p \<Rightarrow> Inl p
             | Inr bs \<Rightarrow> Inr (byte1 v0 v1 # byte2 v1 v2 # byte3 v2 v3 # bs)))))))"

definition b64_positions :: "string \<Rightarrow> (nat \<times> char) list" where
  "b64_positions s = filter (\<lambda>(p, c). c \<noteq> CHR 0x0A \<and> c \<noteq> CHR 0x0D) (enumerate 0 s)"

definition DecodeString :: "string \<Rightarrow> goerror + string" where
  "DecodeString s = (case b64_quanta (length s) (b64_positions s) of
      Inl p \<Rightarrow> Inl (ErrorNew (''illegal base64 data at input byte '' @ show_nat p))
    | Inr bs \<Rightarrow> Inr bs)"

subsection \<open>The alphabet\<close>

lemma b64_value_char: "n < 64 \<Longrightarrow> b64_value (b64_char n) = Some n"
proof -
  have "\<forall>n \<in> set [0..<64]. b64_value (b64_char n) = Some n"
    by code_simp
  then show "n < 64 \<Longrightarrow> b64_value (b64_char n) = Some n" by simp
qed

lemma b64_char_no_newline: "n < 64 \<Longrightarrow> b64_char n \<noteq> CHR 0x0A \<and> b64_char n \<noteq> CHR 0x0D"
proof -
  have "\<forall>n \<in> set [0..<64]. b64_char n \<noteq> CHR 0x0A \<and> b64_char n \<noteq> CHR 0x0D"
    by code_simp
  then show "n < 64 \<Longrightarrow> b64_char n \<noteq> CHR 0x0A \<and> b64_char n \<noteq> CHR 0x0D" by simp
qed

lemma b64_value_pad [simp]: "b64_value CHR ''='' = None"
  by code_simp

lemma byte_div [simp]:
  "(of_char a :: nat) div 4 < 64" "(of_char a :: nat) div 16 < 16" "(of_char a :: nat) div 64 < 4"
  using nat_of_char_less_256 [of a] by (simp_all add: less_mult_imp_div_less)

lemma shift_add: "r < m \<Longrightarrow> d < k \<Longrightarrow> r * k + d < m * (k :: nat)"
proof -
  assume "r < m" "d < k"
  then have "r * k + d < Suc r * k" and "Suc r * k \<le> m * k"
    by (simp, intro mult_le_mono1) simp
  then show ?thesis by linarith
qed

lemma byte_bounds [simp]:
  "(of_char a :: nat) mod 4 * 16 < 64"
  "(of_char a :: nat) mod 4 * 16 + (of_char b :: nat) div 16 < 64"
  "(of_char b :: nat) mod 16 * 4 < 64"
  "(of_char b :: nat) mod 16 * 4 + (of_char c :: nat) div 64 < 64" "(of_char c :: nat) mod 64 < 64"
  using shift_add [of "of_char a mod 4" 4 0 16] shift_add [of "of_char a mod 4" 4 "of_char b div 16" 16]
    shift_add [of "of_char b mod 16" 16 0 4] shift_add [of "of_char b mod 16" 16 "of_char c div 64" 4]
  by simp_all

lemma EncodeToString_chars:
  "c \<in> set (EncodeToString bs) \<Longrightarrow> c = CHR ''='' \<or> (\<exists>n < 64. c = b64_char n)"
  by (induction bs rule: EncodeToString.induct) (auto simp: Let_def intro: byte_bounds byte_div)

lemma length_EncodeToString: "length (EncodeToString bs) = (length bs + 2) div 3 * 4"
proof (induction bs rule: EncodeToString.induct)
  case (4 a b c bs)
  then show ?case by (simp add: Let_def) presburger
qed (simp_all add: Let_def)

text \<open>No newline in what \<open>EncodeToString\<close> yields, so decoding sees every character.\<close>

lemma b64_positions_Encode: "b64_positions (EncodeToString bs) = enumerate 0 (EncodeToString bs)"
proof -
  have "c \<noteq> CHR 0x0A \<and> c \<noteq> CHR 0x0D" if "c \<in> set (EncodeToString bs)" for c
    using EncodeToString_chars [OF that] b64_char_no_newline by fastforce
  then show ?thesis
    unfolding b64_positions_def by (intro filter_True) (auto simp: in_set_enumerate_eq)
qed

subsection \<open>Round trip\<close>

lemma char_ofI: "n mod 256 = (of_char c :: nat) \<Longrightarrow> char_of n = c"
  by (metis char_of_char char_of_mod_256)

lemma shift_back:
  "d < k \<Longrightarrow> (r * k + d) div k = (r :: nat)" "d < k \<Longrightarrow> (r * k + d) mod k = d"
  by simp_all

lemma quantum_bytes:
  "byte1 (of_char a div 4) (of_char a mod 4 * 16 + (of_char b :: nat) div 16) = a"
  "byte1 (of_char a div 4) (of_char a mod 4 * 16) = a"
  "byte2 (of_char a mod 4 * 16 + of_char b div 16) (of_char b mod 16 * 4 + (of_char c :: nat) div 64) = b"
  "byte2 (of_char a mod 4 * 16 + of_char b div 16) (of_char b mod 16 * 4) = b"
  "byte3 (of_char b mod 16 * 4 + of_char c div 64) (of_char c mod 64) = c"
  unfolding byte1_def byte2_def byte3_def
  by (simp_all only: shift_back byte_div div_mult_mod_eq nonzero_mult_div_cancel_right
      char_of_char zero_neq_numeral [symmetric] not_False_eq_True)

lemma b64_quanta_Encode: "b64_quanta n (enumerate k (EncodeToString bs)) = Inr bs"
proof (induction bs arbitrary: k rule: EncodeToString.induct)
  case (4 a b c bs)
  have "b64_quanta n (enumerate (Suc (Suc (Suc (Suc k)))) (EncodeToString bs)) = Inr bs"
    using 4 by blast
  then show ?case by (simp add: Let_def b64_value_char quantum_bytes)
qed (simp_all add: Let_def b64_value_char quantum_bytes no_garbage_def)

lemma DecodeString_EncodeToString: "DecodeString (EncodeToString bs) = Inr bs"
  by (simp add: DecodeString_def b64_positions_Encode b64_quanta_Encode)

end
