(* ===== verification/Scope.thy ===== *)
theory Scope
  imports Auth Base64
begin

text \<open>
  The scopes of \<open>cloud/scope\<close>: what a reconcile iteration knows and may write.  A scope holds
  its object by pointer; the object lives in the state of the reconciler (\<open>obj\<close>), and the scope
  record keeps the rest: the related objects and the object's value when the patch helper was
  made, from which \<open>PatchObject\<close> computes its patch.  Accessors are functions of the object they
  read; setters are functions on it.
\<close>

subsection \<open>VirtualMachineScope\<close>

record VirtualMachineScope =
  vsc_before :: AzureStackHCIVirtualMachine
  vsc_CloudAgentFqdn :: string
  vsc_Authorizer :: string

definition NewVirtualMachineScope :: "lib \<Rightarrow> 'w sys \<Rightarrow> 'w kube \<Rightarrow>
    AzureStackHCIVirtualMachine option \<Rightarrow> ('w, goerror + VirtualMachineScope) io" where
  "NewVirtualMachineScope L S K vm = (case vm of
      None \<Rightarrow> return (Inl (ErrorNew
        ''azurestackhci virtual machine is required when creating a VirtualMachineScope''))
    | Some vm \<Rightarrow> bind (sys_Getenv S ''AZURESTACKHCI_CLOUDAGENT_FQDN'') (\<lambda>agentFqdn.
        if agentFqdn = []
        then return (Inl (ErrorNew (''error creating azurestackhci services. '' @
          ''Environment variable AZURESTACKHCI_CLOUDAGENT_FQDN is not set'')))
        else bind (ReconcileAzureStackHCIAccess L S K agentFqdn) (\<lambda>r. case r of
            Inl err \<Rightarrow> return (Inl (Wrap ''failed to create azurestackhci session'' err))
          | Inr authorizer \<Rightarrow> bind (k_NewHelper K) (\<lambda>e. case e of
              Some err \<Rightarrow> return (Inl (Wrap ''failed to init patch helper'' err))
            | None \<Rightarrow> return (Inr \<lparr>vsc_before = vm, vsc_CloudAgentFqdn = agentFqdn,
                vsc_Authorizer = authorizer\<rparr>)))))"

definition VMScope_GetResourceGroup :: "AzureStackHCIVirtualMachine \<Rightarrow> string" where
  "VMScope_GetResourceGroup m = vms_ResourceGroup (hvm_Spec m)"
definition VMScope_VnetName :: "AzureStackHCIVirtualMachine \<Rightarrow> string" where
  "VMScope_VnetName m = vms_VnetName (hvm_Spec m)"
definition VMScope_SubnetName :: "AzureStackHCIVirtualMachine \<Rightarrow> string" where
  "VMScope_SubnetName m = vms_SubnetName (hvm_Spec m)"
definition VMScope_ClusterName :: "AzureStackHCIVirtualMachine \<Rightarrow> string" where
  "VMScope_ClusterName m = vms_ClusterName (hvm_Spec m)"
definition VMScope_Location :: "AzureStackHCIVirtualMachine \<Rightarrow> string" where
  "VMScope_Location m = vms_Location (hvm_Spec m)"
definition VMScope_Name :: "AzureStackHCIVirtualMachine \<Rightarrow> string" where
  "VMScope_Name m = om_Name (hvm_Meta m)"
definition VMScope_Namespace :: "AzureStackHCIVirtualMachine \<Rightarrow> string" where
  "VMScope_Namespace m = om_Namespace (hvm_Meta m)"
definition VMScope_StorageContainer :: "AzureStackHCIVirtualMachine \<Rightarrow> string" where
  "VMScope_StorageContainer m = vms_StorageContainer (hvm_Spec m)"
definition VMScope_BackendPoolNames :: "AzureStackHCIVirtualMachine \<Rightarrow> string list" where
  "VMScope_BackendPoolNames m = vms_BackendPoolNames (hvm_Spec m)"
definition VMScope_GetVMState :: "AzureStackHCIVirtualMachine \<Rightarrow> string option" where
  "VMScope_GetVMState m = vmst_VMState (hvm_Status m)"

definition VMScope_GetCustomResourceTypeWithName :: "AzureStackHCIVirtualMachine \<Rightarrow> string" where
  "VMScope_GetCustomResourceTypeWithName m =
     ''Cluster/'' @ VMScope_Namespace m @ ''/'' @ VMScope_ClusterName m"

definition VMScope_AvailabilityZone :: "AzureStackHCIVirtualMachine \<Rightarrow> string" where
  "VMScope_AvailabilityZone m = (case vms_AvailabilityZone (hvm_Spec m) of
      None \<Rightarrow> [] | Some az \<Rightarrow> (case az_ID az of None \<Rightarrow> [] | Some i \<Rightarrow> i))"

definition VMScope_SetVMState :: "string \<Rightarrow> AzureStackHCIVirtualMachine \<Rightarrow>
    AzureStackHCIVirtualMachine" where
  "VMScope_SetVMState v m = m\<lparr>hvm_Status := (hvm_Status m)\<lparr>vmst_VMState := Some v\<rparr>\<rparr>"

definition VMScope_SetReady :: "AzureStackHCIVirtualMachine \<Rightarrow> AzureStackHCIVirtualMachine" where
  "VMScope_SetReady m = m\<lparr>hvm_Status := (hvm_Status m)\<lparr>vmst_Ready := True\<rparr>\<rparr>"

definition VMScope_SetAnnotation :: "string \<Rightarrow> string \<Rightarrow> AzureStackHCIVirtualMachine \<Rightarrow>
    AzureStackHCIVirtualMachine" where
  "VMScope_SetAnnotation key v m = m\<lparr>hvm_Meta := (hvm_Meta m)\<lparr>om_Annotations :=
     map_put (om_Annotations (hvm_Meta m)) key v\<rparr>\<rparr>"

definition VMScope_PatchObject :: "'w kube \<Rightarrow> VirtualMachineScope \<Rightarrow>
    (('w, AzureStackHCIVirtualMachine) rstate, goerror option) io" where
  "VMScope_PatchObject K sc = bind (reads obj) (\<lambda>m. on_world (k_Patch_VM K (vsc_before sc) m))"

definition VMScope_Close :: "'w kube \<Rightarrow> VirtualMachineScope \<Rightarrow>
    (('w, AzureStackHCIVirtualMachine) rstate, goerror option) io" where
  "VMScope_Close K sc = VMScope_PatchObject K sc"

text \<open>The loop over the owner references stops at the first load balancer of the same version.\<close>

fun owned_by_lb :: "string \<Rightarrow> OwnerReference list \<Rightarrow> bool" where
  "owned_by_lb v [] = False"
| "owned_by_lb v (r # refs) = (if or_Kind r = ''AzureStackHCILoadBalancer'' \<and> or_APIVersion r = v
     then True else owned_by_lb v refs)"

definition VMScope_AzureStackHCILoadBalancerVM :: "AzureStackHCIVirtualMachine \<Rightarrow> bool" where
  "VMScope_AzureStackHCILoadBalancerVM m =
     owned_by_lb (tm_APIVersion (hvm_TypeMeta m)) (om_OwnerReferences (hvm_Meta m))"

lemma owned_by_lb_iff:
  "owned_by_lb v refs \<longleftrightarrow>
     (\<exists>r \<in> set refs. or_Kind r = ''AzureStackHCILoadBalancer'' \<and> or_APIVersion r = v)"
  by (induction refs) auto

subsection \<open>MachineScope\<close>

record MachineScope =
  msc_before :: AzureStackHCIMachine
  msc_Cluster :: Cluster
  msc_Machine :: Machine
  msc_AzureStackHCICluster :: AzureStackHCICluster

definition NewMachineScope :: "'w kube \<Rightarrow> Machine option \<Rightarrow> Cluster option \<Rightarrow>
    AzureStackHCICluster option \<Rightarrow> AzureStackHCIMachine option \<Rightarrow>
    ('w, goerror + MachineScope) io" where
  "NewMachineScope K machine cluster hcluster hmachine = (case machine of
      None \<Rightarrow> return (Inl (ErrorNew ''machine is required when creating a MachineScope''))
    | Some machine \<Rightarrow> (case cluster of
      None \<Rightarrow> return (Inl (ErrorNew ''cluster is required when creating a MachineScope''))
    | Some cluster \<Rightarrow> (case hcluster of
      None \<Rightarrow> return (Inl (ErrorNew
        ''azurestackhci cluster is required when creating a MachineScope''))
    | Some hcluster \<Rightarrow> (case hmachine of
      None \<Rightarrow> return (Inl (ErrorNew
        ''azurestackhci machine is required when creating a MachineScope''))
    | Some hmachine \<Rightarrow> bind (k_NewHelper K) (\<lambda>e. case e of
        Some err \<Rightarrow> return (Inl (Wrap ''failed to init patch helper'' err))
      | None \<Rightarrow> return (Inr \<lparr>msc_before = hmachine, msc_Cluster = cluster,
          msc_Machine = machine, msc_AzureStackHCICluster = hcluster\<rparr>))))))"

definition MachineScope_Location :: "MachineScope \<Rightarrow> string" where
  "MachineScope_Location sc = cs_Location (hc_Spec (msc_AzureStackHCICluster sc))"
definition MachineScope_Name :: "AzureStackHCIMachine \<Rightarrow> string" where
  "MachineScope_Name m = om_Name (hm_Meta m)"
definition MachineScope_Namespace :: "AzureStackHCIMachine \<Rightarrow> string" where
  "MachineScope_Namespace m = om_Namespace (hm_Meta m)"
definition MachineScope_IsControlPlane :: "lib \<Rightarrow> MachineScope \<Rightarrow> bool" where
  "MachineScope_IsControlPlane L sc = lib_IsControlPlaneMachine L (msc_Machine sc)"
definition MachineScope_Role :: "lib \<Rightarrow> MachineScope \<Rightarrow> string" where
  "MachineScope_Role L sc =
     (if lib_IsControlPlaneMachine L (msc_Machine sc) then ControlPlane else Node)"

definition MachineScope_AvailabilityZone :: "AzureStackHCIMachine \<Rightarrow> string" where
  "MachineScope_AvailabilityZone m = (case ms_AvailabilityZone (hm_Spec m) of
      None \<Rightarrow> [] | Some az \<Rightarrow> (case az_ID az of None \<Rightarrow> [] | Some i \<Rightarrow> i))"

definition MachineScope_GetProviderID :: "AzureStackHCIMachine \<Rightarrow> string" where
  "MachineScope_GetProviderID m = (case ms_ProviderID (hm_Spec m) of Some i \<Rightarrow> i | None \<Rightarrow> [])"

definition MachineScope_GetVMID :: "AzureStackHCIMachine \<Rightarrow> string option" where
  "MachineScope_GetVMID m = Some (MachineScope_GetProviderID m)"

definition MachineScope_SetProviderID :: "string \<Rightarrow> AzureStackHCIMachine \<Rightarrow> AzureStackHCIMachine" where
  "MachineScope_SetProviderID v m = m\<lparr>hm_Spec := (hm_Spec m)\<lparr>ms_ProviderID := Some v\<rparr>\<rparr>"

definition MachineScope_GetVMState :: "AzureStackHCIMachine \<Rightarrow> string option" where
  "MachineScope_GetVMState m = mst_VMState (hm_Status m)"

text \<open>\<open>SetVMState\<close> dereferences its argument.\<close>

definition MachineScope_SetVMState :: "string option \<Rightarrow>
    (('w, AzureStackHCIMachine) rstate, unit) io" where
  "MachineScope_SetVMState v = (case v of
      None \<Rightarrow> panic ''nil pointer dereference''
    | Some st \<Rightarrow> upd_obj (\<lambda>m. m\<lparr>hm_Status := (hm_Status m)\<lparr>mst_VMState := Some st\<rparr>\<rparr>))"

definition MachineScope_SetReady :: "AzureStackHCIMachine \<Rightarrow> AzureStackHCIMachine" where
  "MachineScope_SetReady m = (let st = hm_Status m;
       init = (case mst_Initialization st of None \<Rightarrow> \<lparr>mi_Provisioned = None\<rparr> | Some i \<Rightarrow> i) in
     m\<lparr>hm_Status := st\<lparr>mst_Ready := True,
       mst_Initialization := Some (init\<lparr>mi_Provisioned := Some True\<rparr>)\<rparr>\<rparr>)"

definition MachineScope_SetAnnotation :: "string \<Rightarrow> string \<Rightarrow> AzureStackHCIMachine \<Rightarrow>
    AzureStackHCIMachine" where
  "MachineScope_SetAnnotation key v m = m\<lparr>hm_Meta := (hm_Meta m)\<lparr>om_Annotations :=
     map_put (om_Annotations (hm_Meta m)) key v\<rparr>\<rparr>"

definition MachineScope_PatchObject :: "'w kube \<Rightarrow> MachineScope \<Rightarrow>
    (('w, AzureStackHCIMachine) rstate, goerror option) io" where
  "MachineScope_PatchObject K sc =
     bind (reads obj) (\<lambda>m. on_world (k_Patch_HMachine K (msc_before sc) m))"

definition MachineScope_Close :: "'w kube \<Rightarrow> MachineScope \<Rightarrow>
    (('w, AzureStackHCIMachine) rstate, goerror option) io" where
  "MachineScope_Close K sc = MachineScope_PatchObject K sc"

definition MachineScope_GetBootstrapData :: "'w kube \<Rightarrow> MachineScope \<Rightarrow> AzureStackHCIMachine \<Rightarrow>
    ('w, goerror + string) io" where
  "MachineScope_GetBootstrapData K sc m = (case ma_DataSecretName (msc_Machine sc) of
      None \<Rightarrow> return (Inl (ErrorNew (''error retrieving bootstrap data: '' @
        ''linked Machine's bootstrap.dataSecretName is nil'')))
    | Some name \<Rightarrow> bind (k_Get_Secret K (mkKey (MachineScope_Namespace m) name)) (\<lambda>r. case r of
        Inl err \<Rightarrow> return (Inl (Wrap
          (''failed to retrieve bootstrap data secret for AzureStackHCIMachine '' @
           MachineScope_Namespace m @ ''/'' @ MachineScope_Name m) err))
      | Inr secret \<Rightarrow> (case map_of (sec_Data secret) ''value'' of
          None \<Rightarrow> return (Inl (ErrorNew
            ''error retrieving bootstrap data: secret value key is missing''))
        | Some v \<Rightarrow> return (Inr (EncodeToString v)))))"

subsection \<open>LoadBalancerScope\<close>

record LoadBalancerScope =
  lsc_before :: AzureStackHCILoadBalancer
  lsc_Cluster :: "Cluster option"
  lsc_AzureStackHCICluster :: "AzureStackHCICluster option"

definition NewLoadBalancerScope :: "'w kube \<Rightarrow> AzureStackHCILoadBalancer option \<Rightarrow>
    Cluster option \<Rightarrow> AzureStackHCICluster option \<Rightarrow> ('w, goerror + LoadBalancerScope) io" where
  "NewLoadBalancerScope K lb cluster hcluster = (case lb of
      None \<Rightarrow> return (Inl (ErrorNew
        ''azurestackhci loadbalancer is required when creating a LoadBalancerScope''))
    | Some lb \<Rightarrow> bind (k_NewHelper K) (\<lambda>e. case e of
        Some err \<Rightarrow> return (Inl (Wrap ''failed to init patch helper'' err))
      | None \<Rightarrow> return (Inr \<lparr>lsc_before = lb, lsc_Cluster = cluster,
          lsc_AzureStackHCICluster = hcluster\<rparr>)))"

definition MaxSurge :: int32 where "MaxSurge = 1"

definition LBScope_Name :: "AzureStackHCILoadBalancer \<Rightarrow> string" where
  "LBScope_Name l = om_Name (hlb_Meta l)"
definition LBScope_Address :: "AzureStackHCILoadBalancer \<Rightarrow> string" where
  "LBScope_Address l = lbst_Address (hlb_Status l)"

definition LBScope_OSVersion :: "AzureStackHCILoadBalancer \<Rightarrow> string" where
  "LBScope_OSVersion l = (case lbs_Image (hlb_Spec l) of None \<Rightarrow> []
     | Some i \<Rightarrow> (case img_Version i of None \<Rightarrow> [] | Some v \<Rightarrow> v))"

definition LBScope_SetAnnotation :: "string \<Rightarrow> string \<Rightarrow> AzureStackHCILoadBalancer \<Rightarrow>
    AzureStackHCILoadBalancer" where
  "LBScope_SetAnnotation key v l = l\<lparr>hlb_Meta := (hlb_Meta l)\<lparr>om_Annotations :=
     map_put (om_Annotations (hlb_Meta l)) key v\<rparr>\<rparr>"

definition LBScope_PatchObject :: "'w kube \<Rightarrow> LoadBalancerScope \<Rightarrow>
    (('w, AzureStackHCILoadBalancer) rstate, goerror option) io" where
  "LBScope_PatchObject K sc = bind (reads obj) (\<lambda>l. on_world (k_Patch_LB K (lsc_before sc) l))"

definition LBScope_Close :: "'w kube \<Rightarrow> LoadBalancerScope \<Rightarrow>
    (('w, AzureStackHCILoadBalancer) rstate, goerror option) io" where
  "LBScope_Close K sc = bind (reads obj) (\<lambda>l. on_world (k_Patch_LB K (lsc_before sc) l))"

definition lb_status :: "(AzureStackHCILoadBalancerStatus \<Rightarrow> AzureStackHCILoadBalancerStatus) \<Rightarrow>
    AzureStackHCILoadBalancer \<Rightarrow> AzureStackHCILoadBalancer" where
  "lb_status f l = l\<lparr>hlb_Status := f (hlb_Status l)\<rparr>"

definition LBScope_SetReady :: "AzureStackHCILoadBalancer \<Rightarrow> AzureStackHCILoadBalancer" where
  "LBScope_SetReady = lb_status (\<lambda>st. st\<lparr>lbst_Ready := True\<rparr>)"
definition LBScope_GetReady :: "AzureStackHCILoadBalancer \<Rightarrow> bool" where
  "LBScope_GetReady l = lbst_Ready (hlb_Status l)"

definition LBScope_AddReplica :: "AzureStackHCILoadBalancer \<Rightarrow> AzureStackHCILoadBalancer" where
  "LBScope_AddReplica = lb_status (\<lambda>st. st\<lparr>lbst_Replicas := lbst_Replicas st + 1\<rparr>)"

definition LBScope_RemoveReplica :: "AzureStackHCILoadBalancer \<Rightarrow> AzureStackHCILoadBalancer" where
  "LBScope_RemoveReplica = lb_status (\<lambda>st.
     if sint (lbst_Replicas st) > 0 then st\<lparr>lbst_Replicas := lbst_Replicas st - 1\<rparr> else st)"

definition LBScope_SetReplicas :: "int32 \<Rightarrow> AzureStackHCILoadBalancer \<Rightarrow> AzureStackHCILoadBalancer" where
  "LBScope_SetReplicas n = lb_status (\<lambda>st. st\<lparr>lbst_Replicas := n\<rparr>)"
definition LBScope_GetReplicas :: "AzureStackHCILoadBalancer \<Rightarrow> int32" where
  "LBScope_GetReplicas l = lbst_Replicas (hlb_Status l)"
definition LBScope_SetReadyReplicas :: "int32 \<Rightarrow> AzureStackHCILoadBalancer \<Rightarrow>
    AzureStackHCILoadBalancer" where
  "LBScope_SetReadyReplicas n = lb_status (\<lambda>st. st\<lparr>lbst_ReadyReplicas := n\<rparr>)"
definition LBScope_GetReadyReplicas :: "AzureStackHCILoadBalancer \<Rightarrow> int32" where
  "LBScope_GetReadyReplicas l = lbst_ReadyReplicas (hlb_Status l)"
definition LBScope_SetFailedReplicas :: "int32 \<Rightarrow> AzureStackHCILoadBalancer \<Rightarrow>
    AzureStackHCILoadBalancer" where
  "LBScope_SetFailedReplicas n = lb_status (\<lambda>st. st\<lparr>lbst_FailedReplicas := n\<rparr>)"
definition LBScope_GetFailedReplicas :: "AzureStackHCILoadBalancer \<Rightarrow> int32" where
  "LBScope_GetFailedReplicas l = lbst_FailedReplicas (hlb_Status l)"

definition LBScope_GetDesiredReplicas :: "AzureStackHCILoadBalancer \<Rightarrow> int32" where
  "LBScope_GetDesiredReplicas l = (case lbs_Replicas (hlb_Spec l) of None \<Rightarrow> 0 | Some n \<Rightarrow> n)"
definition LBScope_GetMaxReplicas :: "AzureStackHCILoadBalancer \<Rightarrow> int32" where
  "LBScope_GetMaxReplicas l = LBScope_GetDesiredReplicas l + MaxSurge"

definition LBScope_SetErrorMessage :: "lib \<Rightarrow> goerror \<Rightarrow> AzureStackHCILoadBalancer \<Rightarrow>
    AzureStackHCILoadBalancer" where
  "LBScope_SetErrorMessage L v = lb_status (\<lambda>st. st\<lparr>lbst_ErrorMessage := Some (err_Error L v)\<rparr>)"
definition LBScope_SetErrorReason :: "string \<Rightarrow> AzureStackHCILoadBalancer \<Rightarrow>
    AzureStackHCILoadBalancer" where
  "LBScope_SetErrorReason v = lb_status (\<lambda>st. st\<lparr>lbst_ErrorReason := Some v\<rparr>)"
definition LBScope_SetAddress :: "string \<Rightarrow> AzureStackHCILoadBalancer \<Rightarrow> AzureStackHCILoadBalancer" where
  "LBScope_SetAddress a = lb_status (\<lambda>st. st\<lparr>lbst_Address := a\<rparr>)"
definition LBScope_SetPort :: "int32 \<Rightarrow> AzureStackHCILoadBalancer \<Rightarrow> AzureStackHCILoadBalancer" where
  "LBScope_SetPort p = lb_status (\<lambda>st. st\<lparr>lbst_Port := p\<rparr>)"
definition LBScope_GetPort :: "AzureStackHCILoadBalancer \<Rightarrow> int32" where
  "LBScope_GetPort l = (if lbst_Port (hlb_Status l) = 0 then 6443 else lbst_Port (hlb_Status l))"
definition LBScope_SetPhase :: "string \<Rightarrow> AzureStackHCILoadBalancer \<Rightarrow> AzureStackHCILoadBalancer" where
  "LBScope_SetPhase p = lb_status (LB_SetTypedPhase p)"
definition LBScope_SetSelector :: "string \<Rightarrow> AzureStackHCILoadBalancer \<Rightarrow> AzureStackHCILoadBalancer" where
  "LBScope_SetSelector s = lb_status (\<lambda>st. st\<lparr>lbst_Selector := s\<rparr>)"

subsection \<open>ClusterScope\<close>

record ClusterScope =
  csc_before :: AzureStackHCICluster
  csc_Cluster :: Cluster
  csc_CloudAgentFqdn :: string
  csc_Authorizer :: string

definition NewClusterScope :: "lib \<Rightarrow> 'w sys \<Rightarrow> 'w kube \<Rightarrow> Cluster option \<Rightarrow>
    AzureStackHCICluster option \<Rightarrow> ('w, goerror + ClusterScope) io" where
  "NewClusterScope L S K cluster hcluster = (case cluster of
      None \<Rightarrow> return (Inl (ErrorNew ''failed to generate new scope from nil Cluster''))
    | Some cluster \<Rightarrow> (case hcluster of
      None \<Rightarrow> return (Inl (ErrorNew ''failed to generate new scope from nil AzureStackHCICluster''))
    | Some hcluster \<Rightarrow> bind (sys_Getenv S ''AZURESTACKHCI_CLOUDAGENT_FQDN'') (\<lambda>agentFqdn.
        if agentFqdn = []
        then return (Inl (ErrorNew (''error creating azurestackhci services. '' @
          ''Environment variable AZURESTACKHCI_CLOUDAGENT_FQDN is not set'')))
        else bind (k_NewHelper K) (\<lambda>e. case e of
            Some err \<Rightarrow> return (Inl (Wrap ''failed to init patch helper'' err))
          | None \<Rightarrow> bind (ReconcileAzureStackHCIAccess L S K agentFqdn) (\<lambda>r. case r of
              Inl err \<Rightarrow> return (Inl (Wrap (''error creating azurestackhci services. '' @
                ''can not authenticate to azurestackhci'') err))
            | Inr authorizer \<Rightarrow> return (Inr \<lparr>csc_before = hcluster, csc_Cluster = cluster,
                csc_CloudAgentFqdn = agentFqdn, csc_Authorizer = authorizer\<rparr>))))))"

definition ClusterScope_GetResourceGroup :: "AzureStackHCICluster \<Rightarrow> string" where
  "ClusterScope_GetResourceGroup c = cs_ResourceGroup (hc_Spec c)"
definition ClusterScope_Vnet :: "AzureStackHCICluster \<Rightarrow> VnetSpec" where
  "ClusterScope_Vnet c = net_Vnet (cs_NetworkSpec (hc_Spec c))"
definition ClusterScope_Subnets :: "AzureStackHCICluster \<Rightarrow> SubnetSpec option list" where
  "ClusterScope_Subnets c = net_Subnets (cs_NetworkSpec (hc_Spec c))"
definition ClusterScope_Name :: "ClusterScope \<Rightarrow> string" where
  "ClusterScope_Name sc = om_Name (cl_Meta (csc_Cluster sc))"
definition ClusterScope_Namespace :: "ClusterScope \<Rightarrow> string" where
  "ClusterScope_Namespace sc = om_Namespace (cl_Meta (csc_Cluster sc))"
definition ClusterScope_APIVersion :: "ClusterScope \<Rightarrow> string" where
  "ClusterScope_APIVersion sc = tm_APIVersion (cl_TypeMeta (csc_Cluster sc))"
definition ClusterScope_Kind :: "ClusterScope \<Rightarrow> string" where
  "ClusterScope_Kind sc = tm_Kind (cl_TypeMeta (csc_Cluster sc))"
definition ClusterScope_UID :: "ClusterScope \<Rightarrow> string" where
  "ClusterScope_UID sc = om_UID (cl_Meta (csc_Cluster sc))"
definition ClusterScope_Location :: "AzureStackHCICluster \<Rightarrow> string" where
  "ClusterScope_Location c = cs_Location (hc_Spec c)"
definition ClusterScope_GetCustomResourceTypeWithName :: "ClusterScope \<Rightarrow> string" where
  "ClusterScope_GetCustomResourceTypeWithName sc =
     ''Cluster/'' @ ClusterScope_Namespace sc @ ''/'' @ ClusterScope_Name sc"
definition ClusterScope_ListOptionsLabelSelector :: "ClusterScope \<Rightarrow> (string \<times> string) list" where
  "ClusterScope_ListOptionsLabelSelector sc = [(ClusterNameLabel, om_Name (cl_Meta (csc_Cluster sc)))]"
definition ClusterScope_AzureStackHCILoadBalancer :: "AzureStackHCICluster \<Rightarrow>
    AzureStackHCILoadBalancerSpec option" where
  "ClusterScope_AzureStackHCILoadBalancer c = cs_AzureStackHCILoadBalancer (hc_Spec c)"

definition ClusterScope_PatchObject :: "'w kube \<Rightarrow> ClusterScope \<Rightarrow>
    (('w, AzureStackHCICluster) rstate, goerror option) io" where
  "ClusterScope_PatchObject K sc =
     bind (reads obj) (\<lambda>c. on_world (k_Patch_HCluster K (csc_before sc) c))"

definition ClusterScope_Close :: "'w kube \<Rightarrow> ClusterScope \<Rightarrow>
    (('w, AzureStackHCICluster) rstate, goerror option) io" where
  "ClusterScope_Close K sc = ClusterScope_PatchObject K sc"

definition ClusterScope_APIServerPort :: "ClusterScope \<Rightarrow> int32" where
  "ClusterScope_APIServerPort sc = (if cl_APIServerPort (csc_Cluster sc) = 0 then 6443
     else cl_APIServerPort (csc_Cluster sc))"

definition GetNamespaceOrDefault :: "string \<Rightarrow> string" where
  "GetNamespaceOrDefault namespace = (if namespace = [] then ''default'' else namespace)"

definition ClusterScope_GetSecret :: "'w kube \<Rightarrow> ClusterScope \<Rightarrow> string \<Rightarrow>
    ('w, goerror + Secret) io" where
  "ClusterScope_GetSecret K sc name =
     bind (k_Get_Secret K (mkKey (GetNamespaceOrDefault (om_Namespace (cl_Meta (csc_Cluster sc)))) name))
       (\<lambda>r. case r of
           Inl err \<Rightarrow> return (Inl (Wrap
             ''kubernetes secret query for azurestackhci access token failed'' err))
         | Inr secret \<Rightarrow> return (Inr secret))"

subsection \<open>Facts about the setters\<close>

lemmas LBScope_setters = LBScope_SetReady_def LBScope_AddReplica_def LBScope_RemoveReplica_def
  LBScope_SetReplicas_def LBScope_SetReadyReplicas_def LBScope_SetFailedReplicas_def
  LBScope_SetErrorMessage_def LBScope_SetErrorReason_def LBScope_SetAddress_def
  LBScope_SetPort_def LBScope_SetPhase_def LBScope_SetSelector_def lb_status_def

text \<open>A setter of the status leaves metadata and spec alone.\<close>

lemma lb_status_frame [simp]:
  "hlb_Meta (lb_status f l) = hlb_Meta l" "hlb_Spec (lb_status f l) = hlb_Spec l"
  "hlb_Status (lb_status f l) = f (hlb_Status l)"
  by (simp_all add: lb_status_def)

text \<open>\<open>SetReady\<close> satisfies both readiness contracts of Cluster API.\<close>

lemma MachineScope_SetReady_ready [simp]:
  "mst_Ready (hm_Status (MachineScope_SetReady m))"
  "map_option mi_Provisioned (mst_Initialization (hm_Status (MachineScope_SetReady m))) =
     Some (Some True)"
  by (simp_all add: MachineScope_SetReady_def Let_def)

lemma int32_pred: "0 < sint (x :: int32) \<Longrightarrow> sint (x - 1) = sint x - 1"
proof -
  assume pos: "0 < sint x"
  have "sint x < 2 ^ 31" using sint_lt [of x] by simp
  with pos show ?thesis
    by (simp add: sint_word_ariths signed_take_bit_int_eq_self)
qed

lemma int32_succ: "sint (x :: int32) < 2 ^ 31 - 1 \<Longrightarrow> sint (x + 1) = sint x + 1"
proof -
  assume less: "sint x < 2 ^ 31 - 1"
  have "- (2 ^ 31) \<le> sint x" using sint_ge [of x] by simp
  with less show ?thesis
    by (simp add: sint_word_ariths signed_take_bit_int_eq_self)
qed

text \<open>
  The replica counter never becomes negative: \<open>RemoveReplica\<close> decrements a positive count by
  one and leaves any other count alone, and no 32-bit wrap-around occurs.
\<close>

lemma RemoveReplica_count:
  "sint (LBScope_GetReplicas (LBScope_RemoveReplica l)) =
     (if 0 < sint (LBScope_GetReplicas l) then sint (LBScope_GetReplicas l) - 1
      else sint (LBScope_GetReplicas l))"
  by (simp add: LBScope_GetReplicas_def LBScope_RemoveReplica_def int32_pred)

text \<open>
  C31: Bootstrap data reaches the virtual machine unharmed: what \<open>GetBootstrapData\<close> returns is text
  that decodes to exactly the bytes under \<open>value\<close> in the machine's bootstrap secret.
\<close>

theorem GetBootstrapData_decodes:
  "hoare (\<lambda>w. w = w0) (MachineScope_GetBootstrapData K sc m)
     (\<lambda>r w. case r of
         Inl _ \<Rightarrow> True
       | Inr d \<Rightarrow> \<exists>name secret bytes. ma_DataSecretName (msc_Machine sc) = Some name \<and>
           k_Get_Secret K (mkKey (MachineScope_Namespace m) name) w0 = (Ret (Inr secret), w) \<and>
           map_of (sec_Data secret) ''value'' = Some bytes \<and> DecodeString d = Inr bytes)
     (\<lambda>_. True)"
  unfolding MachineScope_GetBootstrapData_def
  by (rule hoareI) (auto simp: run_simps DecodeString_EncodeToString split: sum.splits)

end
