(* ===== verification/Instances.thy ===== *)
theory Instances
  imports Scope
begin

text \<open>
  One concrete instance of every parameter record, so that theorems can be applied at concrete
  inputs and the laws are seen to be satisfiable: a conditions library on lists, a Kubernetes
  API and a cloud on which every call fails, and a process environment.  The witnesses of later
  theories replace single fields.
\<close>

fun cond_find :: "Condition list \<Rightarrow> string \<Rightarrow> Condition option" where
  "cond_find [] t = None"
| "cond_find (c # cs) t = (if c_Type c = t then Some c else cond_find cs t)"

fun cond_replace :: "Condition list \<Rightarrow> Condition \<Rightarrow> Condition list" where
  "cond_replace [] c = [c]"
| "cond_replace (d # ds) c = (if c_Type d = c_Type c then c # ds else d # cond_replace ds c)"

definition lib0 :: lib where
  "lib0 = \<lparr>cond_Set = cond_replace, cond_Get = cond_find,
     cond_IsFalse = (\<lambda>cs t. case cond_find cs t of None \<Rightarrow> False | Some c \<Rightarrow> c_Status c = ConditionFalse),
     cond_GetReason = (\<lambda>cs t. case cond_find cs t of None \<Rightarrow> [] | Some c \<Rightarrow> c_Reason c),
     lib_AddFinalizer = (\<lambda>fs f. if f \<in> set fs then fs else fs @ [f]),
     lib_RemoveFinalizer = (\<lambda>fs f. filter (\<lambda>g. g \<noteq> f) fs),
     lib_EnsureOwnerRef = (\<lambda>refs r. if r \<in> set refs then refs else refs @ [r]),
     lib_IsControlPlaneMachine =
       (\<lambda>m. map_get (om_Labels (ma_Meta m)) ''cluster.x-k8s.io/control-plane'' \<noteq> []),
     semver_ParseTolerant = (\<lambda>v. if v = ''v1.2.3'' then Inr (1, 2, 3) else Inl (ErrorNew v)),
     err_Error = (\<lambda>e. case e of ErrorNew m \<Rightarrow> m | Wrap m _ \<Rightarrow> m | External m \<Rightarrow> m),
     err_Plus = (\<lambda>e. case e of ErrorNew m \<Rightarrow> m | Wrap m _ \<Rightarrow> m | External m \<Rightarrow> m),
     err_Aggregate = (\<lambda>es. ''errors''),
     err_IsNotFound = (\<lambda>e. e = External ''NotFound''),
     err_IsAlreadyExists = (\<lambda>e. e = External ''AlreadyExists''),
     moc_GetErrorCode = (\<lambda>e. case e of External m \<Rightarrow> m | _ \<Rightarrow> ''Unknown''),
     moc_IsPathNotFound = (\<lambda>e. e = External ''PathNotFound''),
     moc_IsGRPCUnavailable = (\<lambda>e. e = External ''Unavailable''),
     moc_IsExpired = (\<lambda>e. e = External ''Expired''),
     status_FromError = (\<lambda>e. if e = External ''NotFound'' then Some GrpcNotFound
       else if e = External ''AlreadyExists'' then Some GrpcAlreadyExists else None),
     moc_OutOfMemory = ''OutOfMemory'', moc_OutOfCapacity = ''OutOfCapacity'',
     moc_OutOfNodeCapacity = ''OutOfNodeCapacity'', moc_NotFound = ''NotFound'',
     moccodes_NotFound = ''Not Found''\<rparr>"

lemma cond_find_replace: "cond_find (cond_replace cs c) t =
    (if t = c_Type c then Some c else cond_find cs t)"
  by (induction cs) auto

lemma types_cond_replace: "c_Type ` set (cond_replace cs c) = insert (c_Type c) (c_Type ` set cs)"
  by (induction cs) auto

lemma distinct_cond_replace:
  "distinct (map c_Type cs) \<Longrightarrow> distinct (map c_Type (cond_replace cs c))"
proof (induction cs)
  case (Cons d ds)
  then show ?case using types_cond_replace [of ds c] by (auto simp: image_iff)
qed simp

lemma cond_find_member: "cond_find cs t = Some c \<Longrightarrow> c \<in> set cs \<and> c_Type c = t"
  by (induction cs) (auto split: if_splits)

lemma lib0_conditions: "lib_conditions lib0"
  by (simp add: cond_find_member lib_conditions_def lib0_def cond_find_replace types_cond_replace
      distinct_cond_replace same_condition_def)

lemma lib0_finalizers: "lib_finalizers lib0"
  by (auto simp: lib_finalizers_def lib0_def)

lemma lib0_ownerrefs: "lib_ownerrefs lib0"
  by (auto simp: lib_ownerrefs_def lib0_def)

abbreviation fails :: "('w, goerror + 'a) io" where
  "fails \<equiv> return (Inl (External ''NotFound''))"

definition kube0 :: "'w kube" where
  "kube0 = \<lparr>k_Get_VM = (\<lambda>_. fails), k_Get_LB = (\<lambda>_. fails), k_Get_HCluster = (\<lambda>_. fails),
     k_Get_HMachine = (\<lambda>_. fails), k_Get_Secret = (\<lambda>_. fails),
     k_Create_Secret = (\<lambda>_ _. return None), k_List_VMs = (\<lambda>_ _. return (Inr [])),
     k_List_HMachines = (\<lambda>_ _. return (Inr [])), k_List_Machines = (\<lambda>_ _. return (Inr [])),
     k_Update_VM = (\<lambda>x. return (None, x)), k_Update_LB = (\<lambda>x. return (None, x)),
     k_Update_HMachine = (\<lambda>x. return (None, x)), k_Delete_VM = (\<lambda>_. return None),
     k_Delete_LB = (\<lambda>_. return None), k_Delete_HMachine = (\<lambda>_. return None),
     k_CreateOrUpdate_VM = (\<lambda>x f. bind (f x) (\<lambda>(e, y). return (OperationResultCreated, e, y))),
     k_CreateOrUpdate_LB = (\<lambda>x f. bind (f x) (\<lambda>(e, y). return (OperationResultCreated, e, y))),
     k_NewHelper = return None, k_Patch_VM = (\<lambda>_ _. return None),
     k_Patch_HMachine = (\<lambda>_ _. return None), k_Patch_LB = (\<lambda>_ _. return None),
     k_Patch_HCluster = (\<lambda>_ _. return None), k_GetOwnerMachine = (\<lambda>_. return (Inr None)),
     k_GetOwnerCluster = (\<lambda>_. return (Inr None)), k_GetClusterFromMetadata = (\<lambda>_. fails),
     k_KubeconfigFromSecret = (\<lambda>_. fails),
     k_RESTConfigFromKubeConfig = (\<lambda>s. Inr \<lparr>rc_Data = s, rc_TimeoutSeconds = 0\<rparr>),
     k_NewForConfig = (\<lambda>c. Inr (rc_Data c)), k_ListVolumeAttachments = (\<lambda>_. return (Inr []))\<rparr>"

definition sys0 :: "'w sys" where
  "sys0 = \<lparr>sys_Getenv = (\<lambda>n. return (if n = ''WSSD_DEBUG_MODE'' then ''on'' else ''set'')),
     sys_go = (\<lambda>m. m), sys_randInt = (\<lambda>n. return (if n = 0 then Inl (External ''empty'') else Inr 0)),
     sys_PollImmediate = (\<lambda>_ _ f. bind f (\<lambda>_. return None)),
     sys_Stat = (\<lambda>_. return None), sys_NewAuthorizerFromEnvironment = (\<lambda>a. return (Inr a)),
     sys_LoadYAMLConfig = Inr, sys_NewAuthenticationClientAuthMode = (\<lambda>a _. return (Inr a)),
     sys_LoginWithConfig = (\<lambda>_ _. return None), sys_UpdateLoginConfig = (\<lambda>_. return ()),
     sys_GenerateRSAKey = (\<lambda>_. return (Inr ''key'')), sys_NewPublicKey = Inr,
     sys_MarshalAuthorizedKey = (\<lambda>k. k)\<rparr>"

lemma sys0_rand: "sys_rand sys0"
  by (simp add: sys_rand_def sys0_def)

definition moc0 :: "'w moc" where
  "moc0 = \<lparr>m_Get_Group = (\<lambda>_ _. fails), m_Create_Group = (\<lambda>_ _ _. return None),
     m_Delete_Group = (\<lambda>_ _. return None), m_Get_KeyVault = (\<lambda>_ _. fails),
     m_Create_KeyVault = (\<lambda>_ _ _. return None), m_Delete_KeyVault = (\<lambda>_ _. return None),
     m_Get_Disk = (\<lambda>_ _ _. fails), m_Create_Disk = (\<lambda>_ _ _ _. return None),
     m_Delete_Disk = (\<lambda>_ _ _. return None), m_Get_VNet = (\<lambda>_ _. fails),
     m_Create_VNet = (\<lambda>_ _ _. return None), m_Delete_VNet = (\<lambda>_ _. return None),
     m_Get_NIC = (\<lambda>_ _. fails), m_Create_NIC = (\<lambda>_ _ _. return None),
     m_Delete_NIC = (\<lambda>_ _. return None), m_Get_LB = (\<lambda>_ _. fails),
     m_Create_LB = (\<lambda>_ _ _. return None), m_Delete_LB = (\<lambda>_ _. return None),
     m_Get_VipPool = (\<lambda>_ _. fails), m_Get_VM = (\<lambda>_ _. fails),
     m_Create_VM = (\<lambda>_ _ _. return None), m_Delete_VM = (\<lambda>_ _. return None),
     m_GetVersion = return (Inr (''1'', ''1'')), m_GetDeploymentId = return (Inr ''d'')\<rparr>"

text \<open>A cluster with its infrastructure object, and the scopes built on them.\<close>

definition cluster0 :: Cluster where
  "cluster0 = \<lparr>cl_TypeMeta = zeroTypeMeta, cl_Meta = newMeta ''ns'' ''c'', cl_APIServerPort = 0,
     cl_InfrastructureRef_Name = ''c''\<rparr>"

definition hcluster0 :: AzureStackHCICluster where
  "hcluster0 = \<lparr>hc_TypeMeta = zeroTypeMeta, hc_Meta = newMeta ''ns'' ''c'',
     hc_Spec = \<lparr>cs_NetworkSpec = \<lparr>net_Vnet = \<lparr>vnet_ID = [], vnet_Name = [], vnet_CidrBlock = [],
         vnet_Group = []\<rparr>, net_Subnets = []\<rparr>, cs_ResourceGroup = ''rg'', cs_Location = ''loc'',
       cs_AzureStackHCILoadBalancer = None, cs_ControlPlaneEndpoint = \<lparr>ep_Host = [], ep_Port = 0\<rparr>,
       cs_Version = None, cs_Management = False\<rparr>,
     hc_Status = \<lparr>cst_Bastion = zeroVM, cst_Phase = [], cst_Conditions = [], cst_Initialization = None\<rparr>\<rparr>"

definition hcluster_lb0 :: AzureStackHCICluster where
  "hcluster_lb0 = hcluster0\<lparr>hc_Spec := (hc_Spec hcluster0)\<lparr>cs_AzureStackHCILoadBalancer :=
     Some (hlb_Spec (newLoadBalancer [] []))\<rparr>\<rparr>"

definition csc0 :: ClusterScope where
  "csc0 = \<lparr>csc_before = hcluster0, csc_Cluster = cluster0, csc_CloudAgentFqdn = ''set'',
     csc_Authorizer = ''set''\<rparr>"

definition lsc0 :: LoadBalancerScope where
  "lsc0 = \<lparr>lsc_before = newLoadBalancer ''ns'' ''lb'', lsc_Cluster = Some cluster0,
     lsc_AzureStackHCICluster = Some hcluster0\<rparr>"

definition machine0 :: Machine where
  "machine0 = \<lparr>ma_TypeMeta = zeroTypeMeta, ma_Meta = newMeta ''ns'' ''m'', ma_DataSecretName = None,
     ma_Version = ''v1.2.3'', ma_InfrastructureRef_Name = ''m'', ma_NodeRef_Name = []\<rparr>"

definition hmachine0 :: AzureStackHCIMachine where
  "hmachine0 = \<lparr>hm_TypeMeta = zeroTypeMeta, hm_Meta = newMeta ''ns'' ''m'',
     hm_Spec = \<lparr>ms_ProviderID = None, ms_VMSize = [], ms_AvailabilityZone = None, ms_Image = None,
       ms_OSDisk = None, ms_Location = [], ms_SSHPublicKey = [], ms_StorageContainer = [],
       ms_GpuCount = 0, ms_AllocatePublicIP = False, ms_AdditionalSSHKeys = [],
       ms_NetworkInterfaces = [], ms_AvailabilitySetName = [], ms_PlacementGroupName = []\<rparr>,
     hm_Status = \<lparr>mst_Ready = False, mst_Addresses = [], mst_VMState = None, mst_Conditions = [],
       mst_Initialization = None\<rparr>\<rparr>"

definition msc0 :: MachineScope where
  "msc0 = \<lparr>msc_before = hmachine0, msc_Cluster = cluster0, msc_Machine = machine0,
     msc_AzureStackHCICluster = hcluster0\<rparr>"

text \<open>A cloud with a running machine, and one with a load balancer of a network that balances itself.\<close>

definition moc_vm0 :: "unit moc" where
  "moc_vm0 = moc0\<lparr>m_Get_VM := \<lambda>_ _. return (Inr
     [\<lparr>sdk_ID = Some ''id'', sdk_Name = Some ''n'', sdk_Properties = None\<rparr>])\<rparr>"

definition moc_lb0 :: "unit moc" where
  "moc_lb0 = moc0\<lparr>m_Get_LB := \<lambda>_ _. return (Inr [\<lparr>nlb_Name = Some ''lb'', nlb_Properties = Some
     \<lparr>lbp_BackendAddressPools = [], lbp_FrontendIPConfigurations =
        Some [Some \<lparr>fip_SubnetID = None, fip_IPAddress = Some ''10.0.0.1''\<rparr>],
      lbp_LoadBalancingRules = [], lbp_ReplicationCount = 0\<rparr>, nlb_Tags = []\<rparr>])\<rparr>"

definition lb_sdn0 :: AzureStackHCILoadBalancer where
  "lb_sdn0 = (newLoadBalancer ''ns'' ''lb'')\<lparr>hlb_Spec :=
     (hlb_Spec (newLoadBalancer ''ns'' ''lb''))\<lparr>lbs_Replicas := Some 0\<rparr>\<rparr>"

definition lsc_sdn0 :: LoadBalancerScope where
  "lsc_sdn0 = \<lparr>lsc_before = lb_sdn0, lsc_Cluster = Some cluster0, lsc_AzureStackHCICluster = Some hcluster0\<rparr>"

definition kube_lb0 :: "unit kube" where
  "kube_lb0 = kube0\<lparr>k_Get_LB := \<lambda>_. return (Inr lb_sdn0), k_GetOwnerCluster := \<lambda>_. return (Inr (Some cluster0)),
     k_Get_HCluster := \<lambda>_. return (Inr hcluster0)\<rparr>"

end
