(* ===== verification/Ownership.thy ===== *)
theory Ownership
  imports Services Scope Instances
begin

text \<open>
  What finalizers are for, once for all four controllers.  An object of the API server owns
  resources elsewhere: machines, interfaces and disks, a load balancer or a key vault in the cloud,
  or another object of the API server.  A controller registers its finalizer before it creates any
  of them, and removes it only after all of them are gone.  The theory states that discipline and
  proves what comes of it, that no owned resource outlives its object; the four controllers are
  its instances.
\<close>

subsection \<open>The stored object and what it owns\<close>

definition held_by :: "('o \<Rightarrow> ObjectMeta) \<Rightarrow> string \<Rightarrow> 'o option \<Rightarrow> bool" where
  "held_by meta fin x \<longleftrightarrow> (\<exists>m. x = Some m \<and> fin \<in> set (om_Finalizers (meta m)))"

text \<open>
  The object under the key, if there is one, has the identity \<open>v\<close> by which its resources \<open>R\<close> are
  found, and none of them exists unless the object is there and carries the finalizer.
\<close>

definition covers :: "('o \<Rightarrow> ObjectMeta) \<Rightarrow> string \<Rightarrow> ('o \<Rightarrow> 'v) \<Rightarrow> 'v \<Rightarrow> 'r set \<Rightarrow> 'o option \<Rightarrow> 'r set \<Rightarrow> bool" where
  "covers meta fin ident v R x p \<longleftrightarrow> (\<forall>m. x = Some m \<longrightarrow> ident m = v) \<and> (p \<inter> R \<noteq> {} \<longrightarrow> held_by meta fin x)"

text \<open>
  What a patch leaves stored: the finalizers and the identity of the patched object, or nothing if
  the patched object has no finalizer; a failing patch may also leave the object as it was.  It
  touches nothing that the object owns.
\<close>

definition stored_as :: "('o \<Rightarrow> ObjectMeta) \<Rightarrow> ('o \<Rightarrow> 'v) \<Rightarrow> 'o \<Rightarrow> 'o option \<Rightarrow> bool" where
  "stored_as meta ident m x = (case x of
      None \<Rightarrow> om_Finalizers (meta m) = []
    | Some m' \<Rightarrow> om_Finalizers (meta m') = om_Finalizers (meta m) \<and> ident m' = ident m)"

definition patches :: "('o \<Rightarrow> ObjectMeta) \<Rightarrow> ('o \<Rightarrow> 'v) \<Rightarrow> ('w \<Rightarrow> 'o option) \<Rightarrow> ('w \<Rightarrow> 'r set) \<Rightarrow>
    ('o \<Rightarrow> 'o \<Rightarrow> ('w, goerror option) io) \<Rightarrow> bool" where
  "patches meta ident stored present patch \<longleftrightarrow> (\<forall>b m w r w'. patch b m w = (r, w') \<longrightarrow> present w' = present w \<and>
     (stored_as meta ident m (stored w') \<or> r \<noteq> Ret None \<and> stored w' = stored w))"

text \<open>
  A call that takes resources away: it leaves the stored object alone, creates nothing, and when it
  returns a value in \<open>ok\<close>, none of \<open>R\<close> is left.
\<close>

definition clears :: "('w \<Rightarrow> 'o option) \<Rightarrow> ('w \<Rightarrow> 'r set) \<Rightarrow> 'r set \<Rightarrow> ('a \<Rightarrow> bool) \<Rightarrow> ('w, 'a) io \<Rightarrow> bool" where
  "clears stored present R ok m \<longleftrightarrow> (\<forall>w r w'. m w = (r, w') \<longrightarrow> stored w' = stored w \<and>
     present w' \<subseteq> present w \<and> (\<forall>x. r = Ret x \<and> ok x \<longrightarrow> present w' \<inter> R = {}))"

text \<open>
  Others may do anything that respects three rules: nobody else creates the object's resources, a
  finalizer that is not one's own stays (so the API server keeps the object), and the object keeps
  its identity.
\<close>

definition bystander :: "('o \<Rightarrow> ObjectMeta) \<Rightarrow> string \<Rightarrow> ('o \<Rightarrow> 'v) \<Rightarrow> 'v \<Rightarrow> 'r set \<Rightarrow> ('w \<Rightarrow> 'o option) \<Rightarrow> ('w \<Rightarrow> 'r set) \<Rightarrow>
    'w \<Rightarrow> 'w \<Rightarrow> bool" where
  "bystander meta fin ident v R stored present w w' \<longleftrightarrow> present w' \<inter> R \<subseteq> present w \<and>
     (held_by meta fin (stored w) \<longrightarrow> held_by meta fin (stored w')) \<and> (\<forall>m. stored w' = Some m \<longrightarrow> ident m = v)"

text \<open>The life of an object: a complete reconcile, however it ends, or a step of others.\<close>

inductive life_step :: "(('w, unit) rstate, 'a) io \<Rightarrow> ('w \<Rightarrow> 'w \<Rightarrow> bool) \<Rightarrow> ('w, unit) rstate \<Rightarrow> ('w, unit) rstate \<Rightarrow> bool"
  for recon others where
  reconcile: "recon s = (r, t) \<Longrightarrow> life_step recon others s t"
| other: "others (world s) w \<Longrightarrow> life_step recon others s (s\<lparr>world := w\<rparr>)"

inductive_cases life_stepE: "life_step recon others s t"

subsection \<open>The API server and the cloud\<close>

text \<open>A resource of the cloud: its kind, group and name.\<close>

type_synonym resource = "kind \<times> string \<times> string"

text \<open>What the scopes call: the environment, the login, the patch helper.\<close>

definition access_only :: "'w sys \<Rightarrow> 'w kube \<Rightarrow> ('w \<Rightarrow> bool) \<Rightarrow> bool" where
  "access_only S K I \<longleftrightarrow>
     (\<forall>x. preserves (sys_Getenv S x) I) \<and> (\<forall>x. preserves (sys_Stat S x) I) \<and>
     (\<forall>x. preserves (sys_NewAuthorizerFromEnvironment S x) I) \<and>
     (\<forall>x y. preserves (sys_NewAuthenticationClientAuthMode S x y) I) \<and>
     (\<forall>x y. preserves (sys_LoginWithConfig S x y) I) \<and> (\<forall>x. preserves (sys_UpdateLoginConfig S x) I) \<and>
     (\<forall>m. preserves m I \<longrightarrow> preserves (sys_go S m) I) \<and>
     (\<forall>k. preserves (k_Get_Secret K k) I) \<and> preserves (k_NewHelper K) I"

text \<open>
  A deletion never brings a resource into being, and one that succeeded, or found nothing, leaves
  none behind.
\<close>

definition deletes :: "lib \<Rightarrow> ('w \<Rightarrow> resource set) \<Rightarrow> resource \<Rightarrow> ('w, goerror option) io \<Rightarrow> bool" where
  "deletes L present x m \<longleftrightarrow> (\<forall>w r w'. m w = (r, w') \<longrightarrow> present w' \<subseteq> present w \<and>
     (\<forall>e. r = Ret e \<and> gone L e \<longrightarrow> x \<notin> present w'))"

text \<open>Wrapping an error does not make it look like a missing resource.\<close>

definition lib_wraps :: "lib \<Rightarrow> bool" where
  "lib_wraps L \<longleftrightarrow> (\<forall>msg err. ResourceNotFound L (Wrap msg err) \<longrightarrow> ResourceNotFound L err)"

lemma settled_gone:
  assumes "lib_wraps L"
  shows "(\<forall>err. (case e of None \<Rightarrow> None | Some err \<Rightarrow> if ResourceNotFound L err then None else Some (Wrap msg err)) = Some err \<longrightarrow>
    ResourceNotFound L err) = gone L e"
proof (cases e)
  case (Some err)
  have "ResourceNotFound L (Wrap msg err) \<Longrightarrow> ResourceNotFound L err"
    using assms unfolding lib_wraps_def by (elim allE impE)
  with Some show ?thesis by (auto simp: gone_def)
qed (simp add: gone_def)

lemma NewClusterScope_fields:
  "NewClusterScope L S K (Some c) (Some hc) w = (Ret (Inr csc), w') \<Longrightarrow> csc_before csc = hc \<and> csc_Cluster csc = c"
  by (auto simp: NewClusterScope_def run_simps)

lemma access_quiet:
  assumes "access_only S K I"
  shows "preserves (NewVirtualMachineScope L S K vm) I" "preserves (NewClusterScope L S K c hc) I"
    "preserves (NewLoadBalancerScope K lb c hc) I" "preserves (NewMachineScope K ma c hc hm) I"
proof -
  note ops = assms [unfolded access_only_def]
  have attempt: "preserves (login_attempt L S K p f) I" for p f
    using ops unfolding login_attempt_def auth_GetSecret_def Let_def by (auto intro!: hoare_rules)
  have login: "preserves (login L S K f) I" for f
    using ops unfolding login_def by (auto intro!: hoare_rules attempt)
  have auth: "preserves (authorize_or_login L S K f) I" for f
    using ops unfolding authorize_or_login_def by (auto intro!: hoare_rules login)
  have upd: "preserves (sys_go S (UpdateLoginConfig S K)) I"
  proof -
    have "preserves (UpdateLoginConfig S K) I"
      using ops unfolding UpdateLoginConfig_def auth_GetSecret_def by (auto intro!: hoare_rules)
    with ops show ?thesis by blast
  qed
  have access: "preserves (ReconcileAzureStackHCIAccess L S K f) I" for f
    using ops unfolding ReconcileAzureStackHCIAccess_def by (auto intro!: hoare_rules login auth upd)
  show "preserves (NewVirtualMachineScope L S K vm) I" "preserves (NewClusterScope L S K c hc) I"
      "preserves (NewLoadBalancerScope K lb c hc) I" "preserves (NewMachineScope K ma c hc hm) I"
    using ops unfolding NewVirtualMachineScope_def NewClusterScope_def NewLoadBalancerScope_def NewMachineScope_def
    by (auto intro!: hoare_rules access)
qed

lemma on_world_conj:
  assumes "preserves m J"
  shows "preserves (on_world m) (\<lambda>s. J (world s) \<and> F (obj s))"
proof (rule hoare_on_world)
  show "J (world (s\<lparr>world := w\<rparr>)) \<and> F (obj (s\<lparr>world := w\<rparr>))"
    if "J (world s) \<and> F (obj s)" "m (world s) = (Ret x, w)" for s x w
    using hoareD_Ret [OF assms conjunct1 [OF that(1)] that(2)] that(1) by simp
  show "J (world (s\<lparr>world := w\<rparr>)) \<and> F (obj (s\<lparr>world := w\<rparr>))"
    if "J (world s) \<and> F (obj s)" "m (world s) = (Panics p, w)" for s p w
    using hoareD_Panics [OF assms conjunct1 [OF that(1)] that(2)] that(1) by simp
qed

lemma quiet_same:
  assumes "\<And>v. preserves m (\<lambda>w. f w = v)" "m w = (r, w')"
  shows "f w' = f w"
  using hoareD_Ret [OF assms(1) refl] hoareD_Panics [OF assms(1) refl] assms(2) by (cases r) auto

text \<open>A lookup changes nothing, and what it found is known from then on; \<open>f\<close> is what one sees of the world.\<close>

lemma hoare_lookup:
  assumes "\<And>v. preserves m (\<lambda>w. f w = v)"
    and "\<And>x w w'. m w = (Ret x, w') \<Longrightarrow> P (f w) \<Longrightarrow> Q x"
    and "\<And>x. Q x \<Longrightarrow> hoare (\<lambda>s. P (f (world s))) (g x) B C"
    and "\<And>s. P (f (world s)) \<Longrightarrow> C s"
  shows "hoare (\<lambda>s. P (f (world s))) (bind (on_world m) g) B C"
proof (rule hoare_bind [OF hoare_on_world hoare_pure [OF assms(3)]])
  note same = quiet_same [OF assms(1)]
  show "P (f (world (s\<lparr>world := w\<rparr>))) \<and> Q x" if "P (f (world s))" "m (world s) = (Ret x, w)" for s x w
    using same [OF that(2)] assms(2) [OF that(2,1)] that(1) by simp
  show "C (s\<lparr>world := w\<rparr>)" if "P (f (world s))" "m (world s) = (Panics p, w)" for s p w
    using same [OF that(2)] that(1) by (intro assms(4)) simp
qed

text \<open>Reading the object under reconciliation.\<close>

lemma hoare_fetch:
  assumes "\<And>v. preserves get (\<lambda>w. f w = v)"
    and "\<And>w m w'. get w = (Ret (Inr m), w') \<Longrightarrow> P (f w) \<Longrightarrow> G m (f w)"
    and "\<And>err. hoare (\<lambda>s. P (f (world s))) (k err) B C"
    and "\<And>m. hoare (\<lambda>s. P (f (world s)) \<and> G m (f (world s))) (g m) B C"
    and "\<And>s. P (f (world s)) \<Longrightarrow> C s"
  shows "hoare (\<lambda>s. P (f (world s))) (bind (on_world get) (\<lambda>r. case r of Inl err \<Rightarrow> k err | Inr m \<Rightarrow> g m)) B C"
proof (rule hoare_bind [OF hoare_on_world])
  note same = quiet_same [OF assms(1)]
  let ?B = "\<lambda>r s. P (f (world s)) \<and> (\<forall>m. r = Inr m \<longrightarrow> G m (f (world s)))"
  show "?B r (s\<lparr>world := w\<rparr>)" if "P (f (world s))" "get (world s) = (Ret r, w)" for s r w
    using same [OF that(2)] that assms(2) by (cases r) auto
  show "C (s\<lparr>world := w\<rparr>)" if "P (f (world s))" "get (world s) = (Panics p, w)" for s p w
    using same [OF that(2)] that(1) by (intro assms(5)) simp
  show "hoare (?B r) (case r of Inl err \<Rightarrow> k err | Inr m \<Rightarrow> g m) B C" for r
    using assms(3,4) by (cases r) (auto elim: hoare_weaken)
qed

text \<open>Giving up on the way, with or without an event.\<close>

lemma hoare_stop:
  "hoare (\<lambda>s. P (world s) \<and> A s) (return x) (\<lambda>_ s. P (world s)) (\<lambda>s. P (world s))"
  "hoare (\<lambda>s. P (world s)) (return x) (\<lambda>_ s. P (world s)) (\<lambda>s. P (world s))"
  "hoare (\<lambda>s. P (world s) \<and> A s) (bind (Eventf ty re ms) (\<lambda>_. return x)) (\<lambda>_ s. P (world s)) (\<lambda>s. P (world s))"
  by (auto simp: hoare_def)

text \<open>A deletion on the way to an empty cloud.\<close>

lemma delete_step:
  assumes "deletes L present y m" "preserves m (\<lambda>w. stored w = x)"
  shows "hoare (\<lambda>w. stored w = x \<and> present w \<inter> A = {}) m
    (\<lambda>e w. stored w = x \<and> present w \<inter> A = {} \<and> (gone L e \<longrightarrow> y \<notin> present w))
    (\<lambda>w. stored w = x \<and> present w \<inter> A = {})"
proof (rule hoareI)
  fix w e w' assume w: "stored w = x \<and> present w \<inter> A = {}" and run: "m w = (Ret e, w')"
  show "stored w' = x \<and> present w' \<inter> A = {} \<and> (gone L e \<longrightarrow> y \<notin> present w')"
    using hoareD_Ret [OF assms(2) _ run] assms(1) run w unfolding deletes_def by blast
next
  fix w p w' assume w: "stored w = x \<and> present w \<inter> A = {}" and run: "m w = (Panics p, w')"
  show "stored w' = x \<and> present w' \<inter> A = {}"
    using hoareD_Panics [OF assms(2) _ run] assms(1) run w unfolding deletes_def by blast
qed

lemma clearsI:
  assumes "\<And>x A. hoare (\<lambda>w. stored w = x \<and> present w \<inter> A = {}) m
    (\<lambda>r w. stored w = x \<and> present w \<inter> A = {} \<and> (ok r \<longrightarrow> present w \<inter> R = {})) (\<lambda>w. stored w = x \<and> present w \<inter> A = {})"
  shows "clears stored present R ok m"
  unfolding clears_def
proof (intro allI impI)
  fix w r w' assume run: "m w = (r, w')"
  have w: "stored w = stored w \<and> present w \<inter> A = {}" if "A \<inter> present w = {}" for A using that by auto
  show "stored w' = stored w \<and> present w' \<subseteq> present w \<and> (\<forall>x. r = Ret x \<and> ok x \<longrightarrow> present w' \<inter> R = {})"
    using hoareD_Ret [OF assms w [of "- present w"]] hoareD_Panics [OF assms w [of "- present w"]] run
    by (cases r) auto
qed

text \<open>The API server of the witnesses only runs the function that it is given.\<close>

lemma kube0_CreateOrUpdate:
  "(\<And>y. preserves (f y) I) \<Longrightarrow> preserves (k_CreateOrUpdate_VM kube0 x f) I"
  "(\<And>y. preserves (h y) I) \<Longrightarrow> preserves (k_CreateOrUpdate_LB kube0 z h) I"
  by (auto simp: kube0_def intro!: hoare_rules)

lemma lib0_wraps: "lib_wraps lib0"
  by (auto simp: lib_wraps_def ResourceNotFound_def lib0_def split: if_splits)

lemma clears_preserves:
  assumes "clears stored present R ok m"
  shows "preserves m (\<lambda>w. stored w = x \<and> present w \<inter> A = {})"
  by (rule hoareI) (use assms in \<open>unfold clears_def, blast+\<close>)

subsection \<open>The discipline\<close>

text \<open>
  What the argument needs of a kind of objects: registering the finalizer puts it among the
  finalizers, and neither registering nor removing it changes the identity.
\<close>

locale finalizer_guard =
  fixes meta :: "'o \<Rightarrow> ObjectMeta" and fin :: string and ident :: "'o \<Rightarrow> 'v"
    and addF :: "lib \<Rightarrow> 'o \<Rightarrow> 'o" and removeF :: "lib \<Rightarrow> 'o \<Rightarrow> 'o"
  assumes added: "lib_finalizers L \<Longrightarrow> fin \<in> set (om_Finalizers (meta (addF L m)))"
    and ident_add: "ident (addF L m) = ident m"
    and ident_remove: "ident (removeF L m) = ident m"
begin

text \<open>
  The state of a running reconcile.  At any time the object may be patched: it still carries the
  finalizer, or there is nothing that it owns.  While the controller creates resources, the stored
  object is held.
\<close>

definition closable :: "('w \<Rightarrow> 'o option) \<Rightarrow> ('w \<Rightarrow> 'r set) \<Rightarrow> 'v \<Rightarrow> 'r set \<Rightarrow> ('w, 'o) rstate \<Rightarrow> bool" where
  "closable stored present v R s \<longleftrightarrow> covers meta fin ident v R (stored (world s)) (present (world s)) \<and>
     ident (obj s) = v \<and> (fin \<in> set (om_Finalizers (meta (obj s))) \<or> present (world s) \<inter> R = {})"

definition engaged :: "('w \<Rightarrow> 'o option) \<Rightarrow> 'v \<Rightarrow> ('w, 'o) rstate \<Rightarrow> bool" where
  "engaged stored v s \<longleftrightarrow> held_by meta fin (stored (world s)) \<and> (\<forall>m. stored (world s) = Some m \<longrightarrow> ident m = v) \<and>
     ident (obj s) = v \<and> fin \<in> set (om_Finalizers (meta (obj s)))"

lemma engaged_closable: "engaged stored v s \<Longrightarrow> closable stored present v R s"
  by (simp add: engaged_def closable_def covers_def)

lemma closable_events [simp]: "closable stored present v R (s\<lparr>events := es\<rparr>) = closable stored present v R s"
  by (simp add: closable_def)

lemma closable_obj:
  "closable stored present v R s \<Longrightarrow> om_Finalizers (meta (f (obj s))) = om_Finalizers (meta (obj s)) \<Longrightarrow>
   ident (f (obj s)) = ident (obj s) \<Longrightarrow>
   closable stored present v R (s\<lparr>obj := f (obj s)\<rparr>)"
  by (simp add: closable_def)

text \<open>What keeps the stored object, and finalizers and identity of the one at hand, stays engaged.\<close>

lemma engaged_frame:
  assumes "\<And>x. preserves m (\<lambda>s. (stored (world s), om_Finalizers (meta (obj s)), ident (obj s)) = x)"
  shows "preserves m (engaged stored v)"
  using preserves_view [OF assms, where P = "\<lambda>(x, fs, i). held_by meta fin x \<and>
      (\<forall>m. x = Some m \<longrightarrow> ident m = v) \<and> i = v \<and> fin \<in> set fs"]
  by (simp add: engaged_def [abs_def])

lemma engaged_work:
  assumes "\<And>x. preserves m (\<lambda>s. (stored (world s), om_Finalizers (meta (obj s)), ident (obj s)) = x)"
  shows "hoare (engaged stored v) m (\<lambda>_. closable stored present v R) (closable stored present v R)"
  by (rule hoare_weaken [OF engaged_frame [OF assms]]) (auto intro: engaged_closable)

text \<open>Calls that touch neither the stored object nor what it owns.\<close>

lemma closable_world:
  assumes "\<And>x. preserves m (\<lambda>w. (stored w, present w) = x)"
  shows "preserves (on_world m) (closable stored present v R)"
  using on_world_view [OF assms, where P = "\<lambda>(x, p) o'. covers meta fin ident v R x p \<and>
      ident o' = v \<and> (fin \<in> set (om_Finalizers (meta o')) \<or> p \<inter> R = {})"]
  by (simp add: closable_def [abs_def])

lemma clears_closable:
  assumes "clears stored present R ok m"
  shows "hoare (closable stored present v R) (on_world m)
    (\<lambda>x s. closable stored present v R s \<and> (ok x \<longrightarrow> present (world s) \<inter> R = {})) (closable stored present v R)"
proof (rule hoare_on_world)
  fix s x w assume "closable stored present v R s" "m (world s) = (Ret x, w)"
  then show "closable stored present v R (s\<lparr>world := w\<rparr>) \<and> (ok x \<longrightarrow> present (world (s\<lparr>world := w\<rparr>)) \<inter> R = {})"
    using assms unfolding clears_def closable_def covers_def by fastforce
next
  fix s p w assume "closable stored present v R s" "m (world s) = (Panics p, w)"
  then show "closable stored present v R (s\<lparr>world := w\<rparr>)"
    using assms unfolding clears_def closable_def covers_def by fastforce
qed

text \<open>Patching: always possible, and with the finalizer in the object it holds the stored one.\<close>

lemma patch_closable:
  assumes "patches meta ident stored present patch"
  shows "hoare (closable stored present v R) (bind (reads obj) (\<lambda>m. on_world (patch b m)))
    (\<lambda>r s. closable stored present v R s \<and> (r = None \<and> fin \<in> set (om_Finalizers (meta (obj s))) \<longrightarrow> engaged stored v s))
    (closable stored present v R)"
proof -
  have kept: "closable stored present v R (s\<lparr>world := w'\<rparr>) \<and>
      (r = Ret None \<and> fin \<in> set (om_Finalizers (meta (obj s))) \<longrightarrow> engaged stored v (s\<lparr>world := w'\<rparr>))"
    if s: "closable stored present v R s" and run: "patch b (obj s) (world s) = (r, w')" for s r w'
  proof -
    from assms run have p: "present w' = present (world s)"
        and "stored_as meta ident (obj s) (stored w') \<or> r \<noteq> Ret None \<and> stored w' = stored (world s)"
      unfolding patches_def by blast+
    from this(2) show ?thesis
    proof
      assume "stored_as meta ident (obj s) (stored w')"
      then show ?thesis using s p
        by (auto simp: closable_def engaged_def covers_def stored_as_def held_by_def split: option.splits)
    next
      assume "r \<noteq> Ret None \<and> stored w' = stored (world s)"
      then show ?thesis using s p by (auto simp: closable_def)
    qed
  qed
  show ?thesis
    apply (rule hoare_bind [where B = "\<lambda>m s. closable stored present v R s \<and> obj s = m"], rule hoare_reads, simp)
    apply (rule hoare_on_world)
    using kept by fastforce+
qed

text \<open>Registering: nothing is created before the stored object is held.\<close>

lemma register:
  assumes "patches meta ident stored present patch" "lib_finalizers L"
    and "\<And>err. preserves (fail err) (closable stored present v R)"
    and "hoare (engaged stored v) work (\<lambda>_. closable stored present v R) (closable stored present v R)"
  shows "preserves (bind (upd_obj (addF L)) (\<lambda>_. bind (bind (reads obj) (\<lambda>m. on_world (patch b m)))
    (\<lambda>e. case e of None \<Rightarrow> work | Some err \<Rightarrow> fail err))) (closable stored present v R)"
proof -
  let ?C = "closable stored present v R" and ?F = "\<lambda>s. fin \<in> set (om_Finalizers (meta (obj s)))"
  have "preserves (bind (reads obj) (\<lambda>m. on_world (patch b m))) ?F"
    by (auto intro!: hoare_rules)
  then have patch: "hoare (\<lambda>s. ?C s \<and> ?F s) (bind (reads obj) (\<lambda>m. on_world (patch b m)))
      (\<lambda>r s. ?C s \<and> (r = None \<longrightarrow> engaged stored v s)) ?C"
    by (rule hoare_weaken [OF hoare_conj [OF patch_closable [OF assms(1), of v R b]]]) auto
  have added: "?C s \<Longrightarrow> ?C (s\<lparr>obj := addF L (obj s)\<rparr>) \<and> ?F (s\<lparr>obj := addF L (obj s)\<rparr>)" for s
    using added [OF assms(2)] by (simp add: closable_def ident_add)
  have rest: "hoare (\<lambda>s. ?C s \<and> (e = None \<longrightarrow> engaged stored v s)) (case e of None \<Rightarrow> work | Some err \<Rightarrow> fail err)
      (\<lambda>_. ?C) ?C" for e
    using assms(3,4) by (cases e) (auto elim: hoare_weaken)
  show ?thesis
    by (rule hoare_bind [where B = "\<lambda>_ s. ?C s \<and> ?F s"], rule hoare_upd_obj, erule added, rule hoare_bind [OF patch rest])
qed

text \<open>Releasing: the finalizer goes when nothing is left.\<close>

lemma release:
  "hoare (\<lambda>s. closable stored present v R s \<and> present (world s) \<inter> R = {}) (upd_obj (removeF L))
     (\<lambda>_. closable stored present v R) Q"
  by (rule hoare_upd_obj) (simp add: closable_def ident_remove)

text \<open>A whole session on the object that was read, with the patch at its end.\<close>

lemma session:
  assumes "preserves body (closable stored present v R)"
    and "hoare (closable stored present v R) close (\<lambda>_. closable stored present v R) (closable stored present v R)"
  shows "hoare (\<lambda>s. covers meta fin ident v R (stored (world s)) (present (world s)) \<and> stored (world s) = Some m)
    (with_obj m (close_after close body))
    (\<lambda>_ s. covers meta fin ident v R (stored (world s)) (present (world s)))
    (\<lambda>s. covers meta fin ident v R (stored (world s)) (present (world s)))"
proof (rule hoare_with_obj [where I = "\<lambda>w. covers meta fin ident v R (stored w) (present w)"])
  show "hoare (closable stored present v R) (close_after close body)
      (\<lambda>_ s. covers meta fin ident v R (stored (world s)) (present (world s)))
      (\<lambda>s. covers meta fin ident v R (stored (world s)) (present (world s)))"
  proof (rule hoare_close_after [OF assms(1)])
    show "hoare (closable stored present v R) close
        (\<lambda>_ s. covers meta fin ident v R (stored (world s)) (present (world s)))
        (\<lambda>s. covers meta fin ident v R (stored (world s)) (present (world s)))"
      by (rule hoare_weaken [OF assms(2)]) (auto simp: closable_def)
  qed
  show "closable stored present v R \<lparr>world = world s, obj = m, events = events s\<rparr>"
    if "covers meta fin ident v R (stored (world s)) (present (world s)) \<and> stored (world s) = Some m" for s
    using that by (auto simp: closable_def covers_def held_by_def)
qed

lemma bystander_covers:
  "bystander meta fin ident v R stored present w w' \<Longrightarrow> covers meta fin ident v R (stored w) (present w) \<Longrightarrow>
   covers meta fin ident v R (stored w') (present w')"
  unfolding bystander_def covers_def by auto

text \<open>A whole life.\<close>

lemma life_covers:
  assumes "preserves recon (\<lambda>s. covers meta fin ident v R (stored (world s)) (present (world s)))"
    and "(life_step recon (bystander meta fin ident v R stored present))\<^sup>*\<^sup>* s t"
    and "covers meta fin ident v R (stored (world s)) (present (world s))"
  shows "covers meta fin ident v R (stored (world t)) (present (world t))"
  using assms(2,3)
proof (induction rule: rtranclp_induct)
  case (step u t)
  from step.hyps(2) show ?case
  proof cases
    case (reconcile r)
    then show ?thesis
      using hoareD_Ret [OF assms(1)] hoareD_Panics [OF assms(1)] step.IH [OF step.prems] by (cases r) blast+
  next
    case (other w)
    then show ?thesis using bystander_covers step.IH [OF step.prems] by fastforce
  qed
qed

end

end
