(* ===== verification/VirtualMachines.thy ===== *)
theory VirtualMachines
  imports Services Instances
begin

text \<open>
  The virtual machine service, \<open>cloud/services/virtualmachines\<close>, with the converter
  \<open>cloud/converters/vm.go\<close>: image references, computer names, the machine sent to the cloud, and
  \<open>Get\<close>, \<open>Reconcile\<close> and \<open>Delete\<close>.
\<close>

definition computerNamePrefix :: string where "computerNamePrefix = ''moc-''"
definition computerNameLength :: nat where "computerNameLength = 15"

record virtualmachines_Spec =
  vmspec_Name :: string
  vmspec_NICName :: string
  vmspec_SSHKeyData :: "string list"
  vmspec_Size :: string
  vmspec_GpuCount :: int32
  vmspec_Zone :: string
  vmspec_Image :: Image
  vmspec_OSDisk :: OSDisk
  vmspec_CustomData :: string
  vmspec_VMType :: VMType
  vmspec_StorageContainer :: string
  vmspec_AvailabilitySetName :: string
  vmspec_PlacementGroupName :: string

text \<open>\<open>&virtualmachines.Spec{Name: name}\<close>; the zero \<open>VMType\<close> is the tenant type.\<close>

definition namedSpec :: "string \<Rightarrow> virtualmachines_Spec" where
  "namedSpec name = \<lparr>vmspec_Name = name, vmspec_NICName = [], vmspec_SSHKeyData = [],
     vmspec_Size = [], vmspec_GpuCount = 0, vmspec_Zone = [], vmspec_Image = zeroImage,
     vmspec_OSDisk = zeroOSDisk, vmspec_CustomData = [], vmspec_VMType = Tenant,
     vmspec_StorageContainer = [], vmspec_AvailabilitySetName = [],
     vmspec_PlacementGroupName = []\<rparr>"

subsection \<open>Converting the SDK machine\<close>

definition to_String :: "string option \<Rightarrow> string" where
  "to_String s = (case s of None \<Rightarrow> [] | Some x \<Rightarrow> x)"

definition SDKToVM :: "VirtualMachine \<Rightarrow> goerror + VM" where
  "SDKToVM v = Inr (zeroVM\<lparr>vm_ID := to_String (sdk_ID v), vm_Name := to_String (sdk_Name v),
     vm_State := VMStateSucceeded\<rparr>)"

subsection \<open>Image references\<close>

definition generateImageID :: "Image \<Rightarrow> goerror + string" where
  "generateImageID img = (case img_SubscriptionID img of
      None \<Rightarrow> Inl (ErrorNew ''Image subscription ID cannot be nil when specifying an image from an AzureStackHCI Shared Image Gallery'')
    | Some sub \<Rightarrow> (case img_ResourceGroup img of
      None \<Rightarrow> Inl (ErrorNew ''Image resource group cannot be nil when specifying an image from an AzureStackHCI Shared Image Gallery'')
    | Some rg \<Rightarrow> (case img_Gallery img of
      None \<Rightarrow> Inl (ErrorNew ''Image gallery cannot be nil when specifying an image from an AzureStackHCI Shared Image Gallery'')
    | Some gallery \<Rightarrow> (case img_Name img of
      None \<Rightarrow> Inl (ErrorNew ''Image name cannot be nil when specifying an image from an AzureStackHCI Shared Image Gallery'')
    | Some name \<Rightarrow> (case img_Version img of
      None \<Rightarrow> Inl (ErrorNew ''Image version cannot be nil when specifying an image from an AzureStackHCI Shared Image Gallery'')
    | Some version \<Rightarrow> Inr (''/subscriptions/'' @ sub @ ''/resourceGroups/'' @ rg @
        ''/providers/Microsoft.Compute/galleries/'' @ gallery @ ''/images/'' @ name @
        ''/versions/'' @ version))))))"

definition zeroImageReference :: ImageReference where
  "zeroImageReference = \<lparr>ir_Name = None, ir_ID = None, ir_Publisher = None, ir_Offer = None,
     ir_Sku = None, ir_Version = None\<rparr>"

text \<open>The last error prints the reference with \<open>%+v\<close>, pointers included; the text before it is kept.\<close>

definition generateImageReference :: "Image \<Rightarrow> goerror + ImageReference" where
  "generateImageReference img = (case img_Name img of
      None \<Rightarrow> Inl (ErrorNew ''Missing ImageReference'')
    | Some name \<Rightarrow>
        (let imageRef = zeroImageReference\<lparr>ir_Name := Some name\<rparr> in
         case img_ID img of
           Some i \<Rightarrow> Inr (imageRef\<lparr>ir_ID := Some i\<rparr>)
         | None \<Rightarrow>
           if img_SubscriptionID img \<noteq> None \<and> img_ResourceGroup img \<noteq> None \<and>
              img_Gallery img \<noteq> None \<and> img_Name img \<noteq> None \<and> img_Version img \<noteq> None
           then (case generateImageID img of
               Inl err \<Rightarrow> Inl err
             | Inr imageID \<Rightarrow> Inr (imageRef\<lparr>ir_ID := Some imageID\<rparr>))
           else
             (let imageRef = (if img_Publisher img \<noteq> None
                    then imageRef\<lparr>ir_Publisher := img_Publisher img\<rparr> else imageRef);
                  imageRef = (if img_Offer img \<noteq> None
                    then imageRef\<lparr>ir_Offer := img_Offer img\<rparr> else imageRef);
                  imageRef = (if img_SKU img \<noteq> None
                    then imageRef\<lparr>ir_Sku := img_SKU img\<rparr> else imageRef)
              in case img_Version img of
                Some v \<Rightarrow> Inr (imageRef\<lparr>ir_Version := Some v\<rparr>)
              | None \<Rightarrow> Inl (ErrorNew
                  ''Image reference cannot be generated, as fields are missing: ''))))"

definition generateStorageProfile :: "virtualmachines_Spec \<Rightarrow> goerror + StorageProfile" where
  "generateStorageProfile vmSpec = (case generateImageReference (vmspec_Image vmSpec) of
      Inl err \<Rightarrow> Inl (Wrap ''error getting image reference'' err)
    | Inr imageRef \<Rightarrow> Inr \<lparr>sp_OsDiskVhdURI = GenerateOSDiskName (vmspec_Name vmSpec),
        sp_DataDisks = [], sp_ImageReference = imageRef,
        sp_VmConfigContainerName = vmspec_StorageContainer vmSpec\<rparr>)"

subsection \<open>Computer names and GPUs\<close>

definition os_identifier :: "string \<Rightarrow> string" where
  "os_identifier os = (if os = OSTypeWindows then ''w'' else if os = OSTypeWindows2022 then ''w''
     else if os = OSTypeLinux then ''l'' else ''u'')"

definition generateComputerName :: "'w sys \<Rightarrow> string \<Rightarrow> ('w, goerror + string) io" where
  "generateComputerName S os = (let computerName = computerNamePrefix @ os_identifier os in
     if length computerName < computerNameLength
     then bind (RandomAlphaNumericString S (computerNameLength - length computerName)) (\<lambda>r. case r of
         Inl err \<Rightarrow> return (Inl err)
       | Inr randomString \<Rightarrow> return (Inr (computerName @ randomString)))
     else return (Inr computerName))"

definition generateGpuList :: "int32 \<Rightarrow> GpuAssignment list" where
  "generateGpuList gpuCount = (if sint gpuCount \<le> 0 then []
     else map (\<lambda>i. GpuDefault) [0..<nat (sint gpuCount)])"

subsection \<open>The operations\<close>

text \<open>The dynamic types \<open>Get\<close> can return as \<open>interface{}\<close>; nil is \<open>None\<close>.\<close>

datatype vm_interface = SdkVM | VMPtr VM

lemma case_vm_interface_eq_Ret [run_simps]:
  "(case i of SdkVM \<Rightarrow> f | VMPtr v \<Rightarrow> g v) s = (Ret y, u) \<longleftrightarrow>
     (i = SdkVM \<and> f s = (Ret y, u)) \<or> (\<exists>v. i = VMPtr v \<and> g v s = (Ret y, u))"
  by (cases i) auto

definition virtualmachines_Get :: "'w moc \<Rightarrow> string \<Rightarrow> virtualmachines_Spec option \<Rightarrow>
    ('w, vm_interface option \<times> goerror option) io" where
  "virtualmachines_Get M rg spec = (case spec of
      None \<Rightarrow> return (Some SdkVM, Some (ErrorNew ''invalid vm specification''))
    | Some vmSpec \<Rightarrow> bind (m_Get_VM M rg (vmspec_Name vmSpec)) (\<lambda>r. case r of
          Inl err \<Rightarrow> return (None, Some err)
        | Inr [] \<Rightarrow> return (None, wrapf None (''vm '' @ vmspec_Name vmSpec @ '' not found''))
        | Inr (v # _) \<Rightarrow> (case SDKToVM v of
            Inl err \<Rightarrow> return (None, Some err)
          | Inr vm \<Rightarrow> return (Some (VMPtr vm), None))))"

text \<open>The keys to install: those of the spec, or a fresh key pair when it has none.\<close>

definition vm_sshKeyData :: "'w sys \<Rightarrow> string list \<Rightarrow> ('w, goerror + string list) io" where
  "vm_sshKeyData S keys = (if keys \<noteq> [] then return (Inr keys)
     else bind (sys_GenerateRSAKey S 2048) (\<lambda>r. case r of
         Inl perr \<Rightarrow> return (Inl (Wrap ''Failed to generate private key'' perr))
       | Inr privateKey \<Rightarrow> (case sys_NewPublicKey S privateKey of
           Inl perr \<Rightarrow> return (Inl (Wrap ''Failed to generate public key'' perr))
         | Inr publicRsaKey \<Rightarrow> return (Inr [sys_MarshalAuthorizedKey S publicRsaKey]))))"

definition vm_virtualMachine :: "string \<Rightarrow> virtualmachines_Spec \<Rightarrow> StorageProfile \<Rightarrow> Interface \<Rightarrow>
    string list \<Rightarrow> string \<Rightarrow> VirtualMachine" where
  "vm_virtualMachine rg vmSpec storageProfile nic sshKeyData computerName =
     (let sshKeyPath = ''/home/'' @ DefaultUserName @ ''/.ssh/authorized_keys'';
          sshPublicKeys = map (\<lambda>k. \<lparr>sshk_Path = sshKeyPath, sshk_KeyData = k\<rparr>) sshKeyData;
          osType = img_OSType (vmspec_Image vmSpec);
          windows = (osType = OSTypeWindows \<or> osType = OSTypeWindows2022)
      in \<lparr>sdk_ID = None, sdk_Name = Some (vmspec_Name vmSpec), sdk_Properties = Some
           \<lparr>vmp_StorageProfile = storageProfile,
            vmp_OsProfile = \<lparr>osp_ComputerName = Some computerName,
              osp_AdminUsername = Some (if windows then ''Administrator'' else DefaultUserName),
              osp_AdminPassword = (if windows then Some [] else None),
              osp_CustomData = Some (vmspec_CustomData vmSpec),
              osp_OsType = osd_OSType (vmspec_OSDisk vmSpec),
              osp_LinuxConfiguration = (if windows then None
                else Some \<lparr>lc_SSH = sshPublicKeys, lc_DisablePasswordAuthentication = Some True\<rparr>),
              osp_WindowsConfiguration = (if windows then Some sshPublicKeys else None)\<rparr>,
            vmp_NetworkInterfaces = [if_Name nic],
            vmp_VmType = vmspec_VMType vmSpec,
            vmp_VMSize = vmspec_Size vmSpec,
            vmp_GPUs = generateGpuList (vmspec_GpuCount vmSpec),
            vmp_AvailabilitySet = (if vmspec_AvailabilitySetName vmSpec \<noteq> []
              then Some (vmspec_AvailabilitySetName vmSpec, rg) else None),
            vmp_PlacementGroup = (if vmspec_PlacementGroupName vmSpec \<noteq> []
              then Some (vmspec_PlacementGroupName vmSpec, rg) else None)\<rparr>\<rparr>)"

definition nicNamed :: "string \<Rightarrow> networkinterfaces_Spec" where
  "nicNamed n = \<lparr>nic_Name = n, nic_SubnetName = [], nic_VnetName = [], nic_StaticIPAddress = [],
     nic_MacAddress = [], nic_BackendPoolNames = [], nic_IPConfigurations = []\<rparr>"

definition virtualmachines_Reconcile :: "'w sys \<Rightarrow> 'w moc \<Rightarrow> string \<Rightarrow>
    virtualmachines_Spec option \<Rightarrow> ('w, goerror option) io" where
  "virtualmachines_Reconcile S M rg spec = bind (WriteMocInfoLog M) (\<lambda>_. case spec of
      None \<Rightarrow> return (Some (ErrorNew ''invalid vm specification''))
    | Some vmSpec \<Rightarrow> (case generateStorageProfile vmSpec of
        Inl err \<Rightarrow> return (Some err)
      | Inr storageProfile \<Rightarrow>
          bind (networkinterfaces_Get M rg (Some (nicNamed (vmspec_NICName vmSpec)))) (\<lambda>r. case r of
            Inl err \<Rightarrow> return (Some err)
          | Inr nic \<Rightarrow> bind (vm_sshKeyData S (vmspec_SSHKeyData vmSpec)) (\<lambda>r. case r of
              Inl err \<Rightarrow> return (Some err)
            | Inr sshKeyData \<Rightarrow>
                bind (generateComputerName S (img_OSType (vmspec_Image vmSpec))) (\<lambda>r. case r of
                  Inl err \<Rightarrow> return (Some (Wrap ''Failed to generate computer name'' err))
                | Inr computerName \<Rightarrow>
                    bind (m_Create_VM M rg (vmspec_Name vmSpec)
                        (vm_virtualMachine rg vmSpec storageProfile nic sshKeyData computerName))
                      (\<lambda>err. return (wrapf err ''cannot create vm'')))))))"

definition virtualmachines_Delete :: "lib \<Rightarrow> 'w moc \<Rightarrow> string \<Rightarrow> virtualmachines_Spec option \<Rightarrow>
    ('w, goerror option) io" where
  "virtualmachines_Delete L M rg spec = bind (WriteMocInfoLog M) (\<lambda>_. case spec of
      None \<Rightarrow> return (Some (ErrorNew ''invalid vm Specification''))
    | Some vmSpec \<Rightarrow> bind (m_Delete_VM M rg (vmspec_Name vmSpec)) (\<lambda>e. case e of
          None \<Rightarrow> return None
        | Some err \<Rightarrow> if ResourceNotFound L err then return None
            else return (Some (Wrap (''failed to delete vm '' @ vmspec_Name vmSpec @
              '' in resource group '' @ rg) err))))"

subsection \<open>Properties\<close>

lemma virtualmachines_Delete_trace:
  "hoare (\<lambda>s. changes s = tr) (virtualmachines_Delete L (traced M) rg (Some spec))
     (\<lambda>r t. \<exists>e. changes t = tr @ [CDelete KVM rg (vmspec_Name spec) e] \<and> (r = None \<longleftrightarrow> gone L e))
     (\<lambda>t. changes t = tr)"
  unfolding virtualmachines_Delete_def option.case
  by (rule hoare_bind [OF quiet(11)], rule hoare_bind [OF traced_Delete(6)], intro hoare_rules)
    (auto simp: gone_def split: option.splits)

text \<open>
  The computer name given to a machine has exactly the fifteen characters Windows allows,
  starts with \<open>moc-\<close> and the operating system's letter and goes on with characters of the
  alphanumeric set; generating it never panics.
\<close>

lemma generateComputerName_shape:
  assumes "sys_rand S"
  shows "hoare (\<lambda>_. True) (generateComputerName S os)
    (\<lambda>r _. case r of Inl _ \<Rightarrow> True
      | Inr n \<Rightarrow> length n = 15 \<and> take 5 n = ''moc-'' @ os_identifier os \<and>
          set (drop 5 n) \<subseteq> set charSet)
    (\<lambda>_. False)"
proof -
  have len: "length (os_identifier os) = 1" by (simp add: os_identifier_def)
  have "hoare (\<lambda>_. True) (RandomAlphaNumericString S 10)
     (\<lambda>r _. case r of Inl _ \<Rightarrow> True | Inr x \<Rightarrow> length x = 10 \<and> set x \<subseteq> set charSet) (\<lambda>_. False)"
    using RandomAlphaNumericString_result [OF assms, of 10]
    by (intro hoareI) (auto split: sum.splits, metis Pair_inject res.inject(1) Inr_inject,
        metis Pair_inject res.inject(1) Inr_inject subsetD, metis Pair_inject res.distinct(1))
  then have random: "hoare (\<lambda>_. True) (RandomAlphaNumericString S (computerNameLength -
      length (computerNamePrefix @ os_identifier os)))
     (\<lambda>r _. case r of Inl _ \<Rightarrow> True | Inr x \<Rightarrow> length x = 10 \<and> set x \<subseteq> set charSet) (\<lambda>_. False)"
    using len by (simp add: computerNameLength_def computerNamePrefix_def)
  have small: "length (computerNamePrefix @ os_identifier os) < computerNameLength"
    using len by (simp add: computerNameLength_def computerNamePrefix_def)
  show ?thesis
    unfolding generateComputerName_def Let_def if_P [OF small]
    by (rule hoare_bind [OF random], intro hoare_rules)
      (auto simp: len computerNamePrefix_def)
qed

text \<open>
  An image reference names the image, and identifies it in one of three ways: by the image's
  ID, by the gallery path built from all five gallery fields, or by publisher, offer, SKU and
  version; it fails exactly when the name is missing or neither an ID nor a version is given.
\<close>

lemma generateImageReference_cases:
  "case generateImageReference img of
     Inl _ \<Rightarrow> img_Name img = None \<or> (img_ID img = None \<and> img_Version img = None)
   | Inr ref \<Rightarrow> img_Name img \<noteq> None \<and> ir_Name ref = img_Name img \<and>
       (if img_ID img \<noteq> None then ir_ID ref = img_ID img
        else img_Version img \<noteq> None \<and>
          (if img_SubscriptionID img \<noteq> None \<and> img_ResourceGroup img \<noteq> None \<and> img_Gallery img \<noteq> None
           then Inr (the (ir_ID ref)) = generateImageID img \<and> ir_ID ref \<noteq> None
           else ir_ID ref = None \<and> ir_Version ref = img_Version img \<and>
             ir_Publisher ref = img_Publisher img \<and> ir_Offer ref = img_Offer img \<and>
             ir_Sku ref = img_SKU img))"
proof (cases "img_Name img")
  case None
  then show ?thesis by (simp add: generateImageReference_def)
next
  case (Some name)
  then show ?thesis
    by (auto simp: generateImageReference_def generateImageID_def zeroImageReference_def Let_def
        split: option.splits)
qed

text \<open>
  A Windows machine is created with an administrator account and Windows SSH keys, any other
  with the default user, key-only logins and Linux SSH keys; either way all keys are installed,
  the machine hangs on the one interface, and it gets one GPU per requested unit.
\<close>

lemma vm_virtualMachine_profile:
  "\<exists>p. sdk_Properties (vm_virtualMachine rg spec sp nic keys cn) = Some p \<and>
     vmp_NetworkInterfaces p = [if_Name nic] \<and>
     length (vmp_GPUs p) = nat (sint (vmspec_GpuCount spec)) \<and>
     (if img_OSType (vmspec_Image spec) \<in> {OSTypeWindows, OSTypeWindows2022}
      then osp_LinuxConfiguration (vmp_OsProfile p) = None \<and>
        osp_AdminUsername (vmp_OsProfile p) = Some ''Administrator'' \<and>
        map_option (map sshk_KeyData) (osp_WindowsConfiguration (vmp_OsProfile p)) = Some keys
      else osp_WindowsConfiguration (vmp_OsProfile p) = None \<and>
        osp_AdminUsername (vmp_OsProfile p) = Some DefaultUserName \<and>
        osp_AdminPassword (vmp_OsProfile p) = None \<and>
        map_option (\<lambda>c. map sshk_KeyData (lc_SSH c)) (osp_LinuxConfiguration (vmp_OsProfile p)) =
          Some keys \<and>
        map_option lc_DisablePasswordAuthentication (osp_LinuxConfiguration (vmp_OsProfile p)) =
          Some (Some True))"
  by (auto simp: vm_virtualMachine_def Let_def generateGpuList_def comp_def)

end
