(* ===== verification/VMReconciler.thy ===== *)
theory VMReconciler
  imports VirtualMachines Scope
begin

text \<open>
  \<open>controllers/azurestackhcivirtualmachine_reconciler.go\<close>: how a virtual machine object is turned
  into an interface, a machine and a disk in the cloud, and how these are taken down again.  The
  service reads the object of its scope, here the argument \<open>m\<close>, and does not change it.
\<close>

definition waitVolumeAttachmentsInterval :: nat where "waitVolumeAttachmentsInterval = 2"
definition waitVolumeAttachmentsTimeout :: nat where "waitVolumeAttachmentsTimeout = 300"

subsection \<open>Creating\<close>

text \<open>The loop over the IP configurations of the first interface; a nil element would panic.\<close>

fun vm_ipconfigs :: "string \<Rightarrow> int \<Rightarrow> IPConfiguration option list \<Rightarrow> IpConfigurationSpec option list \<Rightarrow>
    IPConfiguration option list option" where
  "vm_ipconfigs nicName i acc [] = Some acc"
| "vm_ipconfigs nicName i acc (None # cs) = None"
| "vm_ipconfigs nicName i acc (Some ipconfigSpec # cs) =
     (let ipconfigName = (if ip_Name ipconfigSpec = [] then GenerateIPConfigName nicName i
        else ip_Name ipconfigSpec)
      in vm_ipconfigs nicName (i + 1)
        (acc @ [Some \<lparr>ipc_Name = ipconfigName, ipc_Primary = ip_Primary ipconfigSpec\<rparr>]) cs)"

definition reconcileNetworkInterface :: "'w moc \<Rightarrow> AzureStackHCIVirtualMachine \<Rightarrow> string \<Rightarrow>
    IPConfiguration option list \<Rightarrow> ('w, goerror option) io" where
  "reconcileNetworkInterface M m nicName ipconfigs =
     bind (networkinterfaces_Reconcile M (VMScope_GetResourceGroup m) (Some
         \<lparr>nic_Name = nicName, nic_SubnetName = VMScope_SubnetName m,
          nic_VnetName = VMScope_VnetName m, nic_StaticIPAddress = [], nic_MacAddress = [],
          nic_BackendPoolNames = VMScope_BackendPoolNames m, nic_IPConfigurations = ipconfigs\<rparr>))
       (\<lambda>err. return (wrapf err ''unable to create VM network interface''))"

definition reconcileDisk :: "'w moc \<Rightarrow> AzureStackHCIVirtualMachine \<Rightarrow> OSDisk \<Rightarrow>
    ('w, goerror option) io" where
  "reconcileDisk M m disk = bind (disks_Reconcile M (VMScope_GetResourceGroup m) (Some
       \<lparr>disk_Name = GenerateOSDiskName (VMScope_Name m), disk_Source = osd_Source disk\<rparr>))
     (\<lambda>err. return (wrapf err ''unable to create VM OS disk''))"

fun location_in :: "string \<Rightarrow> string list \<Rightarrow> bool" where
  "location_in l [] = False"
| "location_in l (x # xs) = (if l = x then True else location_in l xs)"

definition isAvailabilityZoneSupported :: "AzureStackHCIVirtualMachine \<Rightarrow> bool" where
  "isAvailabilityZoneSupported m =
     location_in (VMScope_Location m) SupportedAvailabilityZoneLocations"

definition getVirtualMachineZone :: "goerror + string" where
  "getVirtualMachineZone = Inr []"

text \<open>The decoded keys: the spec's key, then the additional ones.\<close>

fun decode_keys :: "string list \<Rightarrow> string list \<Rightarrow> goerror + string list" where
  "decode_keys acc [] = Inr acc"
| "decode_keys acc (key # keys) = (case DecodeString key of
      Inl err \<Rightarrow> Inl (Wrap ''failed to decode an additional ssh public key'' err)
    | Inr decoded \<Rightarrow> decode_keys (acc @ [decoded]) keys)"

text \<open>
  The zone and the spec of a machine to create.  \<open>Spec.AvailabilityZone.Enabled\<close> is read without
  a check of the pointer, and so is \<open>*Spec.BootstrapData\<close>.
\<close>

definition vm_zone :: "AzureStackHCIVirtualMachine \<Rightarrow> (goerror + string) option" where
  "vm_zone m = (if isAvailabilityZoneSupported m
     then (case vms_AvailabilityZone (hvm_Spec m) of
         None \<Rightarrow> None
       | Some az \<Rightarrow>
           (if (case az_Enabled az of None \<Rightarrow> True | Some b \<Rightarrow> b)
            then (case getVirtualMachineZone of
                Inl zoneErr \<Rightarrow> Some (Inl (Wrap ''failed to get availability zone'' zoneErr))
              | Inr z \<Rightarrow> Some (Inr z))
            else Some (Inr [])))
     else Some (Inr []))"

definition vm_createSpec :: "AzureStackHCIVirtualMachine \<Rightarrow> string \<Rightarrow> string list \<Rightarrow> string \<Rightarrow>
    virtualmachines_Spec option" where
  "vm_createSpec m nicName decodedKeys vmZone = (case vms_BootstrapData (hvm_Spec m) of
      None \<Rightarrow> None
    | Some bootstrapData \<Rightarrow> Some
        \<lparr>vmspec_Name = VMScope_Name m, vmspec_NICName = nicName,
         vmspec_SSHKeyData = decodedKeys, vmspec_Size = vms_VMSize (hvm_Spec m),
         vmspec_GpuCount = vms_GpuCount (hvm_Spec m), vmspec_Zone = vmZone,
         vmspec_Image = (case vms_Image (hvm_Spec m) of None \<Rightarrow> zeroImage | Some i \<Rightarrow> i),
         vmspec_OSDisk = (case vms_OSDisk (hvm_Spec m) of None \<Rightarrow> zeroOSDisk | Some d \<Rightarrow> d),
         vmspec_CustomData = bootstrapData,
         vmspec_VMType = (if VMScope_AzureStackHCILoadBalancerVM m then LoadBalancerVMType else Tenant),
         vmspec_StorageContainer = VMScope_StorageContainer m,
         vmspec_AvailabilitySetName = vms_AvailabilitySetName (hvm_Spec m),
         vmspec_PlacementGroupName = vms_PlacementGroupName (hvm_Spec m)\<rparr>)"

text \<open>What follows once the machine should be there: read it back and judge its state.\<close>

definition check_newVM :: "lib \<Rightarrow> 'w moc \<Rightarrow> AzureStackHCIVirtualMachine \<Rightarrow> virtualmachines_Spec \<Rightarrow>
    ('w, goerror + VM) io" where
  "check_newVM L M m vmSpec =
     bind (virtualmachines_Get M (VMScope_GetResourceGroup m) (Some vmSpec)) (\<lambda>(newVM, err).
       case err of
         Some err \<Rightarrow> return (Inl (Wrap ''failed to get vm'' err))
       | None \<Rightarrow> (case newVM of
           Some (VMPtr vm) \<Rightarrow>
             (if vm_State vm = []
              then return (Inl (ErrorNew (''vm '' @ VMScope_Name m @
                '' is nil provisioning state, reconcile'')))
              else if vm_State vm = VMStateFailed
              then bind (virtualmachines_Delete L M (VMScope_GetResourceGroup m) (Some vmSpec))
                (\<lambda>e. case e of
                    Some err \<Rightarrow> return (Inl (Wrap ''failed to delete machine'' err))
                  | None \<Rightarrow> return (Inl (ErrorNew (''vm '' @ VMScope_Name m @
                      '' is deleted, retry creating in next reconcile''))))
              else if vm_State vm \<noteq> VMStateSucceeded
              then return (Inl (ErrorNew (''vm '' @ VMScope_Name m @
                '' is still in provisioning state '' @ vm_State vm @ '', reconcile'')))
              else return (Inr vm))
         | _ \<Rightarrow> return (Inl (ErrorNew ''returned incorrect vm interface''))))"

definition createVirtualMachine :: "lib \<Rightarrow> 'w sys \<Rightarrow> 'w moc \<Rightarrow> AzureStackHCIVirtualMachine \<Rightarrow>
    string \<Rightarrow> ('w, goerror + VM) io" where
  "createVirtualMachine L S M m nicName =
     (case DecodeString (vms_SSHPublicKey (hvm_Spec m)) of
        Inl err \<Rightarrow> return (Inl (Wrap ''failed to decode ssh public key'' err))
      | Inr decoded \<Rightarrow> (case decode_keys [decoded] (vms_AdditionalSSHKeys (hvm_Spec m)) of
          Inl err \<Rightarrow> return (Inl err)
        | Inr decodedKeys \<Rightarrow>
            bind (virtualmachines_Get M (VMScope_GetResourceGroup m)
                (Some (namedSpec (VMScope_Name m)))) (\<lambda>(vmInterface, err).
              case err of
                None \<Rightarrow> check_newVM L M m (namedSpec (VMScope_Name m))
              | Some err \<Rightarrow>
                  if vmInterface \<noteq> None then return (Inl (Wrap ''failed to get vm'' err))
                  else (case vm_zone m of
                    None \<Rightarrow> panic ''nil pointer dereference''
                  | Some (Inl zoneErr) \<Rightarrow> return (Inl zoneErr)
                  | Some (Inr vmZone) \<Rightarrow> (case vm_createSpec m nicName decodedKeys vmZone of
                      None \<Rightarrow> panic ''nil pointer dereference''
                    | Some vmSpec \<Rightarrow>
                        bind (virtualmachines_Reconcile S M (VMScope_GetResourceGroup m) (Some vmSpec))
                          (\<lambda>e. case e of
                              Some err \<Rightarrow> return (Inl (Wrap ''failed to create or get machine'' err))
                            | None \<Rightarrow> check_newVM L M m vmSpec))))))"

definition vmsvc_Create :: "lib \<Rightarrow> 'w sys \<Rightarrow> 'w moc \<Rightarrow> AzureStackHCIVirtualMachine \<Rightarrow>
    ('w, goerror + VM) io" where
  "vmsvc_Create L S M m =
     (let nicName = GenerateNICName (VMScope_Name m);
          ipconfigs = (case vms_NetworkInterfaces (hvm_Spec m) of
              [] \<Rightarrow> Some []
            | None # _ \<Rightarrow> None
            | Some ni # _ \<Rightarrow> vm_ipconfigs nicName 0 [] (ni_IPConfigurations ni))
      in case ipconfigs of
        None \<Rightarrow> panic ''nil pointer dereference''
      | Some ipconfigs \<Rightarrow> bind (reconcileNetworkInterface M m nicName ipconfigs) (\<lambda>nicErr.
          case nicErr of
            Some nicErr \<Rightarrow> return (Inl (Wrap (''failed to create nic '' @ nicName @
              '' for machine '' @ VMScope_Name m) nicErr))
          | None \<Rightarrow> bind (createVirtualMachine L S M m nicName) (\<lambda>r. case r of
              Inl vmErr \<Rightarrow> return (Inl (Wrap (''failed to create vm '' @ VMScope_Name m @ '' '') vmErr))
            | Inr vm \<Rightarrow> return (Inr vm))))"

definition vmsvc_VMIfExists :: "'w moc \<Rightarrow> AzureStackHCIVirtualMachine \<Rightarrow>
    ('w, goerror + VM option) io" where
  "vmsvc_VMIfExists M m =
     bind (virtualmachines_Get M (VMScope_GetResourceGroup m) (Some (namedSpec (VMScope_Name m))))
       (\<lambda>(vmInterface, err). case err of
           Some err \<Rightarrow> (if vmInterface = None then return (Inr None)
             else return (Inl (Wrap ''Failed to get vm'' err)))
         | None \<Rightarrow> (case vmInterface of
             Some (VMPtr vm) \<Rightarrow> return (Inr (Some vm))
           | _ \<Rightarrow> return (Inl (ErrorNew ''returned incorrect vm interface''))))"

subsection \<open>Deleting\<close>

definition vmsvc_ListVolumeAttachments :: "'w kube \<Rightarrow> AzureStackHCIVirtualMachine \<Rightarrow>
    ('w, goerror + string list) io" where
  "vmsvc_ListVolumeAttachments K m =
     (let clusterKey = mkKey (om_Namespace (hvm_Meta m)) (vms_ClusterName (hvm_Spec m)) in
      bind (NewTargetClusterClient K clusterKey) (\<lambda>r. case r of
        Inl err \<Rightarrow> return (Inl (Wrap (''failed to create target cluster client for cluster '' @
          key_Namespace clusterKey @ '':'' @ key_Name clusterKey) err))
      | Inr targetClusterClient \<Rightarrow> bind (GetNodeName K (hvm_Meta m)) (\<lambda>r. case r of
          Inl err \<Rightarrow> return (Inl (Wrap (''failed to get node name for vm '' @ VMScope_Name m) err))
        | Inr nodeName \<Rightarrow>
            if nodeName = [] then return (Inr [])
            else bind (ListVolumeAttachmentOnNode K targetClusterClient clusterKey nodeName)
              (\<lambda>r. case r of
                  Inl err \<Rightarrow> return (Inl (Wrap (''failed to check volume attachment on vm '' @
                    VMScope_Name m) err))
                | Inr volumes \<Rightarrow> return (Inr volumes)))))"

text \<open>One poll: done when nothing is attached or the attachments cannot be listed.\<close>

definition volumes_detached :: "'w kube \<Rightarrow> AzureStackHCIVirtualMachine \<Rightarrow>
    ('w, bool \<times> goerror option) io" where
  "volumes_detached K m = bind (vmsvc_ListVolumeAttachments K m) (\<lambda>r. case r of
      Inl err \<Rightarrow> return (True, None)
    | Inr volumes \<Rightarrow> if volumes = [] then return (True, None) else return (False, None))"

definition vmsvc_Delete :: "lib \<Rightarrow> 'w sys \<Rightarrow> 'w moc \<Rightarrow> 'w kube \<Rightarrow> AzureStackHCIVirtualMachine \<Rightarrow>
    ('w, goerror option) io" where
  "vmsvc_Delete L S M K m =
     bind (sys_PollImmediate S waitVolumeAttachmentsInterval waitVolumeAttachmentsTimeout
         (volumes_detached K m)) (\<lambda>_.
     bind (virtualmachines_Delete L M (VMScope_GetResourceGroup m)
         (Some (namedSpec (VMScope_Name m)))) (\<lambda>e. case e of
       Some err \<Rightarrow> return (Some (Wrap ''failed to delete machine'' err))
     | None \<Rightarrow>
     bind (networkinterfaces_Delete L M (VMScope_GetResourceGroup m)
         (Some ((nicNamed (GenerateNICName (VMScope_Name m)))\<lparr>nic_VnetName := VMScope_VnetName m\<rparr>)))
       (\<lambda>e. case e of
       Some err \<Rightarrow> return (Some (Wrap ''Unable to delete network interface'' err))
     | None \<Rightarrow>
     bind (disks_Delete L M (VMScope_GetResourceGroup m)
         (Some \<lparr>disk_Name = GenerateOSDiskName (VMScope_Name m), disk_Source = []\<rparr>))
       (\<lambda>e. case e of
       Some err \<Rightarrow> return (Some (Wrap (''Unable to delete os disk of machine '' @ VMScope_Name m) err))
     | None \<Rightarrow> return None))))"

subsection \<open>Availability zones and IP configurations\<close>

lemma location_in_iff: "location_in l xs \<longleftrightarrow> l \<in> set xs"
  by (induction xs) auto

text \<open>Configurations are kept in order and the unnamed ones get pairwise different names.\<close>

lemma vm_ipconfigs_eq:
  "vm_ipconfigs nicName i acc (map Some cs) = Some (acc @ map (\<lambda>(k, c). Some
     \<lparr>ipc_Name = (if ip_Name c = [] then GenerateIPConfigName nicName (i + int k) else ip_Name c),
      ipc_Primary = ip_Primary c\<rparr>) (enumerate 0 cs))"
proof (induction cs arbitrary: i acc)
  case (Cons c cs)
  have "enumerate (Suc 0) cs = map (\<lambda>(k, c). (Suc k, c)) (enumerate 0 cs)"
    by (rule nth_equalityI) (simp_all add: nth_enumerate_eq)
  then show ?case by (simp add: Let_def Cons.IH algebra_simps case_prod_beta)
qed simp

subsection \<open>The machine that is handed back\<close>

lemma virtualmachines_Get_Succeeded:
  assumes "virtualmachines_Get M rg (Some spec) s = (Ret (Some i, None), t)"
  shows "\<exists>vm. i = VMPtr vm \<and> vm_State vm = VMStateSucceeded"
  using assms unfolding virtualmachines_Get_def
  by (auto simp: run_simps SDKToVM_def)

lemma check_newVM_Succeeded:
  "check_newVM L M m spec s = (Ret (Inr vm), t) \<Longrightarrow> vm_State vm = VMStateSucceeded"
  unfolding check_newVM_def by (auto simp: run_simps)

lemma createVirtualMachine_Succeeded:
  "createVirtualMachine L S M m n s = (Ret (Inr vm), t) \<Longrightarrow> vm_State vm = VMStateSucceeded"
  unfolding createVirtualMachine_def
  by (auto simp: run_simps dest!: check_newVM_Succeeded)

lemma vmsvc_Create_Succeeded:
  "vmsvc_Create L S M m s = (Ret (Inr vm), t) \<Longrightarrow> vm_State vm = VMStateSucceeded"
  unfolding vmsvc_Create_def Let_def
  by (auto simp: run_simps dest!: createVirtualMachine_Succeeded)

lemma vmsvc_VMIfExists_Succeeded:
  "vmsvc_VMIfExists M m s = (Ret (Inr (Some vm)), t) \<Longrightarrow> vm_State vm = VMStateSucceeded"
  unfolding vmsvc_VMIfExists_def
  by (auto simp: run_simps dest!: virtualmachines_Get_Succeeded)

subsection \<open>Order and completeness of the calls\<close>

text \<open>
  What the deletion uses of its environment before it touches the cloud: reads of the
  Kubernetes API and polling, neither of which changes the cloud.
\<close>

definition reads_only :: "'w sys \<Rightarrow> 'w kube \<Rightarrow> ('w \<Rightarrow> bool) \<Rightarrow> bool" where
  "reads_only S K I \<longleftrightarrow>
     (\<forall>k. preserves (k_KubeconfigFromSecret K k) I) \<and>
     (\<forall>om. preserves (k_GetOwnerMachine K om) I) \<and>
     (\<forall>c. preserves (k_ListVolumeAttachments K c) I) \<and>
     (\<forall>i t f. preserves f I \<longrightarrow> preserves (sys_PollImmediate S i t f) I)"

lemma volumes_detached_quiet:
  assumes "reads_only S K I"
  shows "preserves (volumes_detached K m) I"
  using assms
  unfolding volumes_detached_def vmsvc_ListVolumeAttachments_def NewTargetClusterClient_def
    NewTargetClusterConfig_def GetNodeName_def ListVolumeAttachmentOnNode_def Let_def reads_only_def
  by (auto intro!: hoare_rules)

lemma hoare_bind_option:
  assumes "hoare P m (\<lambda>e t. B e t) R"
    and "\<And>err. hoare (B (Some err)) (f err) Q R" and "hoare (B None) g Q R"
  shows "hoare P (bind m (\<lambda>e. case e of Some err \<Rightarrow> f err | None \<Rightarrow> g)) Q R"
  using assms(1) by (rule hoare_bind) (auto split: option.splits intro: assms(2,3))

text \<open>One more call after any history of a given shape.\<close>

lemma hoare_after:
  assumes "\<And>tr. hoare (\<lambda>s. changes s = tr) c
      (\<lambda>r t. \<exists>e. changes t = tr @ [d e] \<and> Q r e) (\<lambda>t. changes t = tr)"
  shows "hoare (\<lambda>s. \<exists>es. A es \<and> changes s = tr @ es) c
      (\<lambda>r t. \<exists>es e. A es \<and> changes t = tr @ es @ [d e] \<and> Q r e) (\<lambda>_. True)"
proof (rule hoareI)
  fix s x t
  assume "\<exists>es. A es \<and> changes s = tr @ es" and run: "c s = (Ret x, t)"
  then obtain es where es: "A es" "changes s = tr @ es" by blast
  from hoareD_Ret [OF assms es(2) run] es(1)
  show "\<exists>es e. A es \<and> changes t = tr @ es @ [d e] \<and> Q x e" by auto
qed simp

text \<open>
  C9: Taking a machine down deletes, in this order and in its resource group, the machine, its
  network interface and its OS disk.  Each step is tried only when every step before it succeeded
  or found the resource gone, and the deletion reports success exactly when all three did.
\<close>

theorem vmsvc_Delete_order:
  assumes "reads_only S K (\<lambda>s. changes s = tr)"
  shows "hoare (\<lambda>s. changes s = tr) (vmsvc_Delete L S (traced M) K m)
    (\<lambda>r t. let rg = VMScope_GetResourceGroup m; n = VMScope_Name m in
       \<exists>e1 e2 e3. if \<not> gone L e1 then r \<noteq> None \<and> changes t = tr @ [CDelete KVM rg n e1]
         else if \<not> gone L e2
         then r \<noteq> None \<and> changes t = tr @ [CDelete KVM rg n e1,
           CDelete KNIC rg (GenerateNICName n) e2]
         else (r = None) = gone L e3 \<and> changes t = tr @ [CDelete KVM rg n e1,
           CDelete KNIC rg (GenerateNICName n) e2, CDelete KDisk rg (GenerateOSDiskName n) e3])
    (\<lambda>_. True)"
proof -
  let ?rg = "VMScope_GetResourceGroup m" and ?n = "VMScope_Name m"
  have poll: "preserves (sys_PollImmediate S waitVolumeAttachmentsInterval
      waitVolumeAttachmentsTimeout (volumes_detached K m)) (\<lambda>s. changes s = tr)"
    using assms volumes_detached_quiet [OF assms] by (simp add: reads_only_def)
  let ?A1 = "\<lambda>es. es = []"
  let ?A2 = "\<lambda>es. \<exists>e1. gone L e1 \<and> es = [CDelete KVM ?rg ?n e1]"
  let ?A3 = "\<lambda>es. \<exists>e1 e2. gone L e1 \<and> gone L e2 \<and>
    es = [CDelete KVM ?rg ?n e1, CDelete KNIC ?rg (GenerateNICName ?n) e2]"
  note vm = hoare_after [where tr = tr and A = ?A1, OF virtualmachines_Delete_trace [where M = M and rg = ?rg and
        spec = "namedSpec ?n"]]
  note nic = hoare_after [where tr = tr and A = ?A2, OF networkinterfaces_Delete_trace [where M = M and rg = ?rg and
        spec = "(nicNamed (GenerateNICName ?n))\<lparr>nic_VnetName := VMScope_VnetName m\<rparr>"]]
  note disk = hoare_after [where tr = tr and A = ?A3, OF disks_Delete_trace [where M = M and rg = ?rg and
        spec = "\<lparr>disk_Name = GenerateOSDiskName ?n, disk_Source = []\<rparr>"]]
  show ?thesis
    unfolding vmsvc_Delete_def Let_def
    apply (rule hoare_bind [OF hoare_True [OF poll]])
    apply (rule hoare_bind_option [OF hoare_weaken [OF vm]])
         apply simp
        apply assumption
       apply simp
      apply (rule hoare_return)
      apply (fastforce simp: namedSpec_def)
    apply (rule hoare_bind_option [OF hoare_weaken [OF nic]])
         apply (fastforce simp: namedSpec_def)
        apply assumption
       apply simp
      apply (rule hoare_return)
      apply (fastforce simp: nicNamed_def)
    apply (rule hoare_bind_option [OF hoare_weaken [OF disk]])
         apply (fastforce simp: nicNamed_def)
        apply assumption
       apply simp
      apply (rule hoare_return, fastforce)
    apply (rule hoare_return, fastforce)
    done
qed

lemma sampleVM_names:
  "VMScope_GetResourceGroup (newVirtualMachine ''ns'' ''n'') = []"
  "VMScope_Name (newVirtualMachine ''ns'' ''n'') = ''n''"
  "GenerateNICName ''n'' = ''n-nic''" "GenerateOSDiskName ''n'' = ''n_OSDisk''"
  by (simp_all add: VMScope_GetResourceGroup_def VMScope_Name_def newVirtualMachine_def newMeta_def
      GenerateNICName_def GenerateOSDiskName_def)

theorem vmsvc_Delete_order_witness:
  "hoare (\<lambda>s. changes s = []) (vmsvc_Delete lib0 sys0 (traced (moc0 :: unit moc)) kube0
      (newVirtualMachine ''ns'' ''n''))
    (\<lambda>r t. \<exists>e1 e2 e3. if \<not> gone lib0 e1 then r \<noteq> None \<and> changes t = [CDelete KVM [] ''n'' e1]
       else if \<not> gone lib0 e2
       then r \<noteq> None \<and> changes t = [CDelete KVM [] ''n'' e1, CDelete KNIC [] ''n-nic'' e2]
       else (r = None) = gone lib0 e3 \<and> changes t = [CDelete KVM [] ''n'' e1,
         CDelete KNIC [] ''n-nic'' e2, CDelete KDisk [] ''n_OSDisk'' e3])
    (\<lambda>_. True)"
proof -
  have "reads_only sys0 kube0 (\<lambda>s :: unit \<times> moc_call list. changes s = [])"
    by (auto simp: reads_only_def sys0_def kube0_def intro!: hoare_rules)
  from vmsvc_Delete_order [OF this, of lib0 moc0 "newVirtualMachine ''ns'' ''n''"]
  show ?thesis by (simp only: sampleVM_names Let_def append_Nil)
qed

text \<open>What creating a machine uses of the process environment: randomness and a fresh key.\<close>

definition random_only :: "'w sys \<Rightarrow> ('w \<Rightarrow> bool) \<Rightarrow> bool" where
  "random_only S I \<longleftrightarrow> (\<forall>n. preserves (sys_randInt S n) I) \<and> (\<forall>n. preserves (sys_GenerateRSAKey S n) I)"

lemma RandomAlphaNumericString_loop_quiet:
  "random_only S I \<Longrightarrow> preserves (RandomAlphaNumericString_loop S is res) I"
  by (induction "is" arbitrary: res) (auto intro!: hoare_rules simp: random_only_def)

lemma generateComputerName_quiet: "random_only S I \<Longrightarrow> preserves (generateComputerName S os) I"
  unfolding generateComputerName_def RandomAlphaNumericString_def Let_def
  by (intro hoare_rules RandomAlphaNumericString_loop_quiet)

lemma vm_sshKeyData_quiet: "random_only S I \<Longrightarrow> preserves (vm_sshKeyData S ks) I"
  unfolding vm_sshKeyData_def random_only_def by (intro hoare_rules) auto

text \<open>A predicate that the calls a virtual machine makes to the cloud keep, and what the creation keeps then.\<close>

definition cloud_keeps :: "'w moc \<Rightarrow> ('w \<Rightarrow> bool) \<Rightarrow> bool" where
  "cloud_keeps M I \<longleftrightarrow> preserves (m_GetVersion M) I \<and>
     (\<forall>g n. preserves (m_Get_VM M g n) I \<and> preserves (m_Get_NIC M g n) I \<and>
        preserves (m_Delete_VM M g n) I \<and> preserves (m_Delete_NIC M g n) I) \<and>
     (\<forall>g n x. preserves (m_Create_VM M g n x) I) \<and> (\<forall>g n x. preserves (m_Create_NIC M g n x) I) \<and>
     (\<forall>g c n. preserves (m_Delete_Disk M g c n) I)"

lemma createVirtualMachine_keeps:
  assumes "cloud_keeps M I" "random_only S I"
  shows "preserves (createVirtualMachine L S M m n) I"
proof -
  note ops = assms(1) [unfolded cloud_keeps_def]
  have log: "preserves (WriteMocInfoLog M) I" using ops by (intro cloud_log) blast
  have get: "preserves (virtualmachines_Get M g spec) I" for g spec
    using ops unfolding virtualmachines_Get_def by (auto intro!: hoare_rules)
  have del: "preserves (virtualmachines_Delete L M g spec) I" for g spec
    using ops unfolding virtualmachines_Delete_def by (auto intro!: hoare_rules log)
  have nic: "preserves (networkinterfaces_Get M g spec) I" for g spec
    using ops unfolding networkinterfaces_Get_def by (auto intro!: hoare_rules)
  have key: "preserves (vm_sshKeyData S ks) I" for ks by (rule vm_sshKeyData_quiet [OF assms(2)])
  have name: "preserves (generateComputerName S os) I" for os by (rule generateComputerName_quiet [OF assms(2)])
  have vm: "preserves (virtualmachines_Reconcile S M g spec) I" for g spec
    using ops unfolding virtualmachines_Reconcile_def by (auto intro!: hoare_rules log nic key name)
  have check: "preserves (check_newVM L M m spec) I" for spec
    unfolding check_newVM_def by (auto intro!: hoare_rules get del split: vm_interface.split)
  show ?thesis unfolding createVirtualMachine_def by (auto intro!: hoare_rules get check vm)
qed

lemma vmsvc_Create_keeps:
  assumes "cloud_keeps M I" "random_only S I"
  shows "preserves (vmsvc_Create L S M m) I"
proof -
  note ops = assms(1) [unfolded cloud_keeps_def]
  have log: "preserves (WriteMocInfoLog M) I" using ops by (intro cloud_log) blast
  have nic: "preserves (networkinterfaces_Get M g spec) I" for g spec
    using ops unfolding networkinterfaces_Get_def by (auto intro!: hoare_rules)
  have "preserves (reconcileNetworkInterface M m n cs) I" for n cs
    using ops unfolding reconcileNetworkInterface_def networkinterfaces_Reconcile_def networkinterfaces_Create_def
    by (auto intro!: hoare_rules log nic)
  then show ?thesis
    unfolding vmsvc_Create_def Let_def by (auto intro!: hoare_rules createVirtualMachine_keeps [OF assms])
qed

lemma networkinterfaces_Get_quiet:
  "preserves (networkinterfaces_Get (traced M) rg spec) (\<lambda>s. changes s = tr)"
  unfolding networkinterfaces_Get_def by (intro hoare_rules quiet)

lemma virtualmachines_Get_quiet:
  "preserves (virtualmachines_Get (traced M) rg spec) (\<lambda>s. changes s = tr)"
  unfolding virtualmachines_Get_def by (intro hoare_rules quiet)

lemma virtualmachines_Reconcile_trace:
  assumes "random_only S (\<lambda>s. changes s = tr)"
  shows "hoare (\<lambda>s. changes s = tr) (virtualmachines_Reconcile S (traced M) rg (Some spec))
     (\<lambda>r t. changes t = tr \<or> (\<exists>e. changes t = tr @ [CCreate KVM rg (vmspec_Name spec) e])) (\<lambda>t. changes t = tr)"
proof -
  have create: "hoare (\<lambda>s. changes s = tr) (bind (m_Create_VM (traced M) rg n v) (\<lambda>e. return (wrapf e msg)))
     (\<lambda>r t. changes t = tr \<or> (\<exists>e. changes t = tr @ [CCreate KVM rg n e])) (\<lambda>t. changes t = tr)" for n v msg
    by (rule hoare_bind [OF traced_Create(4)], rule hoare_return) blast
  show ?thesis
    unfolding virtualmachines_Reconcile_def option.case
    by (rule hoare_bind [OF quiet(11)], rule hoare_case_sum, rule hoare_return, simp,
        rule hoare_bind [OF networkinterfaces_Get_quiet], rule hoare_case_sum, rule hoare_return, simp,
        rule hoare_bind [OF vm_sshKeyData_quiet [OF assms]], rule hoare_case_sum, rule hoare_return, simp,
        rule hoare_bind [OF generateComputerName_quiet [OF assms]], rule hoare_case_sum,
        rule hoare_return, simp, rule create)
qed

text \<open>Reading the machine back changes nothing: a machine that is found is never failed.\<close>

lemma check_newVM_quiet: "preserves (check_newVM L (traced M) m spec) (\<lambda>s. changes s = tr)"
proof -
  have get: "hoare (\<lambda>s. changes s = tr) (virtualmachines_Get (traced M) rg (Some spec))
     (\<lambda>x t. changes t = tr \<and> (snd x = None \<longrightarrow>
        (\<forall>vm. fst x = Some (VMPtr vm) \<longrightarrow> vm_State vm = VMStateSucceeded))) (\<lambda>t. changes t = tr)" for rg
  proof (rule hoareI)
    fix s x t
    assume "changes s = tr" and run: "virtualmachines_Get (traced M) rg (Some spec) s = (Ret x, t)"
    then have "changes t = tr" by (rule hoareD_Ret [OF virtualmachines_Get_quiet])
    then show "changes t = tr \<and> (snd x = None \<longrightarrow>
        (\<forall>vm. fst x = Some (VMPtr vm) \<longrightarrow> vm_State vm = VMStateSucceeded))"
      using run by (cases x) (auto dest: virtualmachines_Get_Succeeded)
  qed (rule hoareD_Panics [OF virtualmachines_Get_quiet])
  show ?thesis
    unfolding check_newVM_def
    by (rule hoare_bind [OF get]) (auto simp: hoare_def split: option.splits vm_interface.splits)
qed

lemma createVirtualMachine_trace:
  assumes "random_only S (\<lambda>s. changes s = tr)"
  shows "hoare (\<lambda>s. changes s = tr) (createVirtualMachine L S (traced M) m nicName)
     (\<lambda>r t. changes t = tr \<or>
        (\<exists>e. changes t = tr @ [CCreate KVM (VMScope_GetResourceGroup m) (VMScope_Name m) e])) (\<lambda>_. True)"
proof -
  let ?Q = "\<lambda>t. changes t = tr \<or>
        (\<exists>e. changes t = tr @ [CCreate KVM (VMScope_GetResourceGroup m) (VMScope_Name m) e])"
  have check: "hoare ?Q (check_newVM L (traced M) m spec) (\<lambda>_. ?Q) (\<lambda>_. True)" for spec
  proof (rule hoareI)
    fix s x t
    assume "?Q s" and run: "check_newVM L (traced M) m spec s = (Ret x, t)"
    moreover have "changes t = changes s" by (rule hoareD_Ret [OF check_newVM_quiet refl run])
    ultimately show "?Q t" by simp
  qed simp
  have check0: "hoare (\<lambda>s. changes s = tr) (check_newVM L (traced M) m spec) (\<lambda>_. ?Q) (\<lambda>_. True)" for spec
    by (rule hoare_weaken [OF check_newVM_quiet]) auto
  have create: "hoare (\<lambda>s. changes s = tr)
      (virtualmachines_Reconcile S (traced M) (VMScope_GetResourceGroup m) (Some spec)) (\<lambda>_. ?Q) (\<lambda>_. True)"
    if "vm_createSpec m nicName keys z = Some spec" for keys z spec
    using that
    by (intro hoare_weaken [OF virtualmachines_Reconcile_trace [OF assms]])
      (auto simp: vm_createSpec_def split: option.splits)
  show ?thesis
    unfolding createVirtualMachine_def
    apply (intro hoare_case_sum)
      apply (rule hoare_return, simp)
     apply (rule hoare_return, simp)
    apply (rule hoare_bind [OF hoare_True [OF virtualmachines_Get_quiet]])
    apply (intro hoare_case_prod hoare_case_option hoare_if hoare_case_sum check0)
        apply (rule hoare_return, simp)
       apply (rule hoare_panic, simp)
      apply (rule hoare_return, simp)
     apply (rule hoare_panic, simp)
    apply (rule hoare_bind, rule create, assumption)
    apply (intro hoare_case_option check)
    apply (rule hoare_return, assumption)
    done
qed

text \<open>After its calls so far, \<open>createVirtualMachine\<close> makes more, of which at most one changes the cloud.\<close>

lemma traced_keeps:
  assumes "\<And>x. P x \<Longrightarrow> (\<And>c. P (x @ [c]))"
  shows "cloud_keeps (traced M) (\<lambda>s. P (snd s))"
  using assms by (simp add: cloud_keeps_def traced_def hoare_record_call)

lemma random_only_view: "(\<And>v. random_only S (\<lambda>s. f s = v)) \<Longrightarrow> random_only S (\<lambda>s. P (f s))"
  unfolding random_only_def by (blast intro: preserves_view [where f = f])

lemma createVirtualMachine_after:
  assumes "\<And>tr. random_only S (\<lambda>s. snd s = tr)" "createVirtualMachine L S (traced M) m n s = (Ret x, t)"
  shows "\<exists>rest. calls t = calls s @ rest \<and> (filter is_change rest = [] \<or>
    (\<exists>e. filter is_change rest = [CCreate KVM (VMScope_GetResourceGroup m) (VMScope_Name m) e]))"
proof -
  let ?more = "\<lambda>l. \<exists>rest. filter (\<lambda>c. c \<noteq> CInfo) l = calls s @ rest"
  have "cloud_keeps (traced M) (\<lambda>s. ?more (snd s))" by (rule traced_keeps [where P = ?more]) auto
  from hoareD_Ret [OF createVirtualMachine_keeps [OF this random_only_view [OF assms(1)]] _ assms(2)]
  obtain rest where rest: "calls t = calls s @ rest" by auto
  have "changes t = changes s \<or> (\<exists>e. changes t = changes s @ [CCreate KVM (VMScope_GetResourceGroup m) (VMScope_Name m) e])"
    by (rule hoareD_Ret [OF createVirtualMachine_trace [OF random_only_view [OF assms(1), of "\<lambda>l. filter is_change l = _"]] refl assms(2)])
  then show ?thesis using rest by (intro exI [of _ rest]) (auto simp: changes_calls simp del: filter_filter)
qed

text \<open>
  C25: Which calls creating a machine makes, up to the version log.  First it asks for the interface
  named after the machine, in the machine's resource group; when the answer is an error it creates
  the interface, and only then.  If that creation fails, the whole operation fails and makes no
  further call.  Otherwise what follows changes the cloud at most once, by creating the machine in
  the same group; nothing is deleted.  A machine that is handed back is in state \<open>Succeeded\<close>.
\<close>

theorem vmsvc_Create_order:
  fixes m :: AzureStackHCIVirtualMachine
  assumes "\<And>tr. random_only S (\<lambda>s. snd s = tr)"
  defines "g \<equiv> VMScope_GetResourceGroup m" and "nic \<equiv> GenerateNICName (VMScope_Name m)"
  shows "hoare (\<lambda>s. snd s = []) (vmsvc_Create L S (traced M) m)
    (\<lambda>r t. \<exists>missing e rest. calls t = nic_calls g nic missing e @ rest \<and>
        (missing \<and> e \<noteq> None \<longrightarrow> isl r \<and> rest = []) \<and>
        (filter is_change rest = [] \<or> (\<exists>e'. filter is_change rest = [CCreate KVM g (VMScope_Name m) e'])) \<and>
        (\<forall>vm. r = Inr vm \<longrightarrow> vm_State vm = VMStateSucceeded))
    (\<lambda>_. True)"
  (is "hoare ?P _ ?Q _")
proof -
  let ?N = "\<lambda>r t. \<exists>missing e. calls t = nic_calls g nic missing e \<and> (r = None \<longleftrightarrow> \<not> missing \<or> e = None)"
  have interface: "hoare ?P (reconcileNetworkInterface (traced M) m nic cs) ?N (\<lambda>_. True)" for cs
    unfolding reconcileNetworkInterface_def g_def
    by (rule hoare_bind [where B = ?N and R = "\<lambda>_. True"], rule hoare_weaken [OF networkinterfaces_Reconcile_calls [of "[]"]])
      (simp_all add: g_def wrapf_def hoare_return)
  have failed: "?Q (Inl err) t" if "?N (Some x) t" for err x t
    using that by fastforce
  have vm: "hoare (?N None) (createVirtualMachine L S (traced M) m n) ?Q (\<lambda>_. True)" for n
  proof (rule hoareI)
    fix s x t
    assume "?N None s" and run: "createVirtualMachine L S (traced M) m n s = (Ret x, t)"
    then obtain missing e where nic: "calls s = nic_calls g nic missing e" "\<not> missing \<or> e = None" by auto
    from createVirtualMachine_after [OF assms(1) run] obtain rest where "calls t = calls s @ rest"
      "filter is_change rest = [] \<or> (\<exists>e. filter is_change rest = [CCreate KVM g (VMScope_Name m) e])"
      unfolding g_def by blast
    with nic createVirtualMachine_Succeeded run show "?Q x t" by (intro exI [of _ missing] exI [of _ e] exI [of _ rest]) auto
  qed simp
  show ?thesis
    unfolding vmsvc_Create_def Let_def nic_def [symmetric]
    apply (rule hoare_case_option)
     apply (rule hoare_panic, simp)
    apply (rule hoare_bind_option [OF interface])
     apply (rule hoare_return, erule failed)
    apply (rule hoare_bind [OF vm])
    apply (intro hoare_case_sum hoare_return; fastforce)
    done
qed

theorem vmsvc_Create_order_witness:
  "hoare (\<lambda>s. snd s = []) (vmsvc_Create lib0 sys0 (traced (moc0 :: unit moc)) (newVirtualMachine ''ns'' ''n''))
    (\<lambda>r t. \<exists>missing e rest. calls t = nic_calls [] ''n-nic'' missing e @ rest \<and>
        (missing \<and> e \<noteq> None \<longrightarrow> isl r \<and> rest = []) \<and>
        (filter is_change rest = [] \<or> (\<exists>e'. filter is_change rest = [CCreate KVM [] ''n'' e'])) \<and>
        (\<forall>vm. r = Inr vm \<longrightarrow> vm_State vm = VMStateSucceeded))
    (\<lambda>_. True)"
proof -
  have "random_only sys0 (\<lambda>s :: unit \<times> moc_call list. snd s = tr)" for tr
    by (auto simp: random_only_def sys0_def intro!: hoare_rules)
  from vmsvc_Create_order [OF this, of lib0 moc0 "newVirtualMachine ''ns'' ''n''"]
  show ?thesis by (simp only: sampleVM_names)
qed

text \<open>
  Every IP configuration of a machine gets a name: its own or, when it has none, the
  interface's name with its position.  The generated names are pairwise different, so two unnamed
  configurations never collide.
\<close>

lemma vm_ipconfigs_names:
  "\<exists>acc. vm_ipconfigs nicName 0 [] (map Some cs) = Some (map Some acc) \<and> length acc = length cs \<and>
     map ipc_Primary acc = map ip_Primary cs \<and>
     (\<forall>i < length cs. \<forall>j < length cs. i = j \<or> ip_Name (cs ! i) \<noteq> [] \<or> ip_Name (cs ! j) \<noteq> [] \<or>
        ipc_Name (acc ! i) \<noteq> ipc_Name (acc ! j))"
proof -
  define acc where "acc = map (\<lambda>(k, c). \<lparr>ipc_Name = (if ip_Name c = []
      then GenerateIPConfigName nicName (int k) else ip_Name c), ipc_Primary = ip_Primary c\<rparr>)
    (enumerate 0 cs)"
  have "vm_ipconfigs nicName 0 [] (map Some cs) = Some (map Some acc)"
    by (simp add: vm_ipconfigs_eq acc_def case_prod_beta comp_def)
  moreover have "length acc = length cs" by (simp add: acc_def)
  moreover have "map ipc_Primary acc = map ip_Primary cs"
    by (rule nth_equalityI) (simp_all add: acc_def nth_enumerate_eq)
  moreover have "i = j \<or> ip_Name (cs ! i) \<noteq> [] \<or> ip_Name (cs ! j) \<noteq> [] \<or>
      ipc_Name (acc ! i) \<noteq> ipc_Name (acc ! j)" if "i < length cs" "j < length cs" for i j
    using that GenerateIPConfigName_inj [of "int i" "int j" nicName nicName]
    by (auto simp: acc_def nth_enumerate_eq)
  ultimately show ?thesis by blast
qed

text \<open>
  C34: Where availability zones are supported, creating a machine whose spec has no availability
  zone dereferences a nil pointer: when the machine is not found the controller panics.
\<close>

theorem createVirtualMachine_nil_zone:
  assumes "VMScope_Location m \<in> set SupportedAvailabilityZoneLocations"
    and "vms_AvailabilityZone (hvm_Spec m) = None"
    and "DecodeString (vms_SSHPublicKey (hvm_Spec m)) = Inr k"
    and "decode_keys [k] (vms_AdditionalSSHKeys (hvm_Spec m)) = Inr ks"
    and "m_Get_VM M (VMScope_GetResourceGroup m) (VMScope_Name m) s = (Ret (Inl err), t)"
  shows "createVirtualMachine L S M m nicName s = (Panics ''nil pointer dereference'', t)"
  using assms
  by (simp add: createVirtualMachine_def virtualmachines_Get_def namedSpec_def vm_zone_def bind_def
      isAvailabilityZoneSupported_def location_in_iff)

theorem createVirtualMachine_nil_zone_witness:
  "createVirtualMachine lib0 sys0 (moc0 :: unit moc)
     ((newVirtualMachine ''ns'' ''n'')\<lparr>hvm_Spec :=
       (hvm_Spec (newVirtualMachine ''ns'' ''n''))\<lparr>vms_Location := ''eastus''\<rparr>\<rparr>) ''n-nic'' () =
   (Panics ''nil pointer dereference'', ())"
  by (rule createVirtualMachine_nil_zone [where k = "[]" and ks = "[[]]" and
        err = "External ''NotFound''"])
    (simp_all add: newVirtualMachine_def VMScope_Location_def SupportedAvailabilityZoneLocations_def
      moc0_def DecodeString_def b64_positions_def)

end
