(* ===== verification/VMController.thy ===== *)
theory VMController
  imports VMReconciler
begin

text \<open>
  \<open>controllers/azurestackhcivirtualmachine_controller.go\<close>: the reconcile loop of a virtual
  machine object, with its finalizer, its conditions and its error classification.
\<close>

definition findVM :: "'w moc \<Rightarrow> AzureStackHCIVirtualMachine \<Rightarrow> ('w, goerror + VM option) io" where
  "findVM M m = bind (vmsvc_VMIfExists M m) (\<lambda>r. case r of
      Inl err \<Rightarrow> return (Inl (Wrap ''failed to query AzureStackHCIVirtualMachine'' err))
    | Inr vm \<Rightarrow> return (Inr vm))"

definition setVMProvisionFailure :: "lib \<Rightarrow> string \<Rightarrow> string \<Rightarrow> AzureStackHCIVirtualMachine \<Rightarrow>
    AzureStackHCIVirtualMachine" where
  "setVMProvisionFailure L reason message m =
     VM_Set L (mkCondition ReadyCondition ConditionFalse reason message)
       (VM_Set L (mkCondition VMRunningCondition ConditionFalse reason message) m)"

text \<open>The switch on the error code of a failed creation; the first matching case wins.\<close>

definition creation_failure :: "lib \<Rightarrow> goerror \<Rightarrow> AzureStackHCIVirtualMachine \<Rightarrow>
    AzureStackHCIVirtualMachine" where
  "creation_failure L err =
     (let code = moc_GetErrorCode L err in
      if code = moc_OutOfMemory L
      then setVMProvisionFailure L OutOfMemoryReason (err_Error L err)
      else if code = moc_OutOfCapacity L
      then setVMProvisionFailure L OutOfCapacityReason (err_Error L err)
      else if code = moc_OutOfNodeCapacity L
      then setVMProvisionFailure L OutOfNodeCapacityReason (err_Error L err)
      else if code = moc_NotFound L \<or> code = moccodes_NotFound L
      then (if moc_IsPathNotFound L err
        then setVMProvisionFailure L PathNotFoundReason (err_Error L err)
        else setVMProvisionFailure L NotFoundReason (err_Error L err))
      else setVMProvisionFailure L
        (if moc_IsGRPCUnavailable L err then MOCUnreachableReason else VMProvisionFailedReason)
        (err_Error L err))"

definition VM_getOrCreate :: "lib \<Rightarrow> 'w sys \<Rightarrow> 'w moc \<Rightarrow>
    (('w, AzureStackHCIVirtualMachine) rstate, goerror + VM) io" where
  "VM_getOrCreate L S M = bind (reads obj) (\<lambda>m.
     bind (on_world (findVM M m)) (\<lambda>r. case r of
       Inl err \<Rightarrow>
         bind (Eventf EventTypeWarning ''FailureQueryForVM'' (err_Error L (Wrap
           (''Failed to query for AzureStackHCIVirtualMachine '' @ VMScope_Namespace m @ ''/'' @
            VMScope_Name m) err))) (\<lambda>_.
         bind (upd_obj (VM_Set L (mkCondition VMRunningCondition ConditionFalse VMNotFoundReason
           (err_Error L err)))) (\<lambda>_.
         return (Inl err)))
     | Inr (Some vm) \<Rightarrow> return (Inr vm)
     | Inr None \<Rightarrow> bind (on_world (vmsvc_Create L S M m)) (\<lambda>r. case r of
         Inl err \<Rightarrow>
           bind (upd_obj (creation_failure L err)) (\<lambda>_.
           bind (Eventf EventTypeWarning ''FailureCreateVM''
             (err_Error L (Wrap ''failed to create AzureStackHCIVirtualMachine'' err))) (\<lambda>_.
           return (Inl (Wrap ''failed to create AzureStackHCIVirtualMachine'' err))))
       | Inr vm \<Rightarrow>
           bind (Eventf EventTypeNormal ''SuccessfulCreateVM''
             (''Success creating AzureStackHCIVirtualMachine '' @ VMScope_Namespace m @ ''/'' @
              VMScope_Name m)) (\<lambda>_.
           return (Inr vm)))))"

definition VM_addFinalizer :: "lib \<Rightarrow> AzureStackHCIVirtualMachine \<Rightarrow> AzureStackHCIVirtualMachine" where
  "VM_addFinalizer L m = m\<lparr>hvm_Meta := (hvm_Meta m)\<lparr>om_Finalizers :=
     lib_AddFinalizer L (om_Finalizers (hvm_Meta m)) VirtualMachineFinalizer\<rparr>\<rparr>"

definition VM_removeFinalizer :: "lib \<Rightarrow> AzureStackHCIVirtualMachine \<Rightarrow> AzureStackHCIVirtualMachine" where
  "VM_removeFinalizer L m = m\<lparr>hvm_Meta := (hvm_Meta m)\<lparr>om_Finalizers :=
     lib_RemoveFinalizer L (om_Finalizers (hvm_Meta m)) VirtualMachineFinalizer\<rparr>\<rparr>"

text \<open>The switch on the state of the machine that was found or created.\<close>

definition VM_applyState :: "lib \<Rightarrow> VM \<Rightarrow>
    (('w, AzureStackHCIVirtualMachine) rstate, Result \<times> goerror option) io" where
  "VM_applyState L vm =
     bind (upd_obj (VMScope_SetVMState (vm_State vm))) (\<lambda>_.
       if vm_State vm = VMStateSucceeded
       then bind (upd_obj VMScope_SetReady) (\<lambda>_.
         bind (upd_obj (VM_Set L (mkCondition VMRunningCondition ConditionTrue VMStateSucceeded []))) (\<lambda>_.
         bind (upd_obj (VM_Set L (mkCondition ReadyCondition ConditionTrue VMStateSucceeded []))) (\<lambda>_.
         return (noResult, None))))
       else if vm_State vm = VMStateUpdating
       then bind (upd_obj (VM_Set L (mkCondition VMRunningCondition ConditionFalse VMUpdatingReason [])))
         (\<lambda>_. return (noResult, None))
       else bind (Eventf EventTypeWarning ''UnexpectedVMState''
           (''AzureStackHCIVirtualMachine is in an unexpected state '' @ quote (vm_State vm))) (\<lambda>_.
         bind (upd_obj (VM_Set L (mkCondition VMRunningCondition ConditionFalse VMProvisionFailedReason
           (''AzureStackHCI VM state '' @ quote (vm_State vm) @ '' is unexpected'')))) (\<lambda>_.
         return (noResult, None))))"

definition VM_reconcileNormal :: "lib \<Rightarrow> 'w sys \<Rightarrow> 'w moc \<Rightarrow> 'w kube \<Rightarrow> VirtualMachineScope \<Rightarrow>
    (('w, AzureStackHCIVirtualMachine) rstate, Result \<times> goerror option) io" where
  "VM_reconcileNormal L S M K sc = bind (reads obj) (\<lambda>m.
     if vmst_FailureReason (hvm_Status m) \<noteq> None \<or> vmst_FailureMessage (hvm_Status m) \<noteq> None
     then return (noResult, None)
     else bind (upd_obj (VM_addFinalizer L)) (\<lambda>_.
       bind (VMScope_PatchObject K sc) (\<lambda>e. case e of
         Some err \<Rightarrow> return (noResult, Some err)
       | None \<Rightarrow> bind (VM_getOrCreate L S M) (\<lambda>r. case r of
           Inl err \<Rightarrow> return (noResult, Some err)
         | Inr vm \<Rightarrow> VM_applyState L vm))))"

definition VM_reconcileDelete :: "lib \<Rightarrow> 'w sys \<Rightarrow> 'w moc \<Rightarrow> 'w kube \<Rightarrow>
    (('w, AzureStackHCIVirtualMachine) rstate, Result \<times> goerror option) io" where
  "VM_reconcileDelete L S M K =
     bind (upd_obj (VM_Set L (mkCondition VMRunningCondition ConditionFalse ''Deleting'' []))) (\<lambda>_.
     bind (reads obj) (\<lambda>m.
     bind (on_world (vmsvc_Delete L S M K m)) (\<lambda>e. case e of
       Some err \<Rightarrow>
         (let wrappedErr = Wrap (''error deleting AzureStackHCIVirtualMachine '' @
            VMScope_Namespace m @ ''/'' @ VMScope_Name m) err in
          bind (Eventf EventTypeWarning ''FailureDeleteVM'' (err_Error L wrappedErr)) (\<lambda>_.
          bind (upd_obj (VM_Set L (mkCondition VMRunningCondition ConditionFalse DeletionFailedReason
            (err_Error L err)))) (\<lambda>_.
          return (noResult, Some wrappedErr))))
     | None \<Rightarrow>
         bind (Eventf EventTypeNormal ''SuccessfulDeleteVM''
           (''Success deleting AzureStackHCIVirtualMachine '' @ VMScope_Namespace m @ ''/'' @
            VMScope_Name m)) (\<lambda>_.
         bind (upd_obj (VM_removeFinalizer L)) (\<lambda>_.
         return (noResult, None))))))"

definition VM_validateUpdate :: "AzureStackHCIVirtualMachineSpec \<Rightarrow> VM \<Rightarrow> goerror list" where
  "VM_validateUpdate spec i = []"

definition VM_Reconcile :: "lib \<Rightarrow> 'w sys \<Rightarrow> 'w moc \<Rightarrow> 'w kube \<Rightarrow> ObjectKey \<Rightarrow>
    (('w, unit) rstate, Result \<times> goerror option) io" where
  "VM_Reconcile L S M K req = bind (on_world (k_Get_VM K req)) (\<lambda>r. case r of
      Inl err \<Rightarrow> if err_IsNotFound L err then return (noResult, None)
        else return (noResult, Some err)
    | Inr m \<Rightarrow> bind (on_world (NewVirtualMachineScope L S K (Some m))) (\<lambda>r. case r of
        Inl err \<Rightarrow>
          bind (Eventf EventTypeWarning ''FailureCreateVMScope''
            (err_Error L (Wrap ''failed to create VM scope'' err))) (\<lambda>_.
          return (noResult, Some (ErrorNew (''failed to create scope: '' @ err_Plus L err))))
      | Inr sc \<Rightarrow> with_obj m (close_after (VMScope_Close K sc)
          (if \<not> DeletionTimestamp_IsZero (hvm_Meta m)
           then VM_reconcileDelete L S M K
           else VM_reconcileNormal L S M K sc))))"

subsection \<open>Frames\<close>

text \<open>Conditions are status: setting one leaves metadata and spec alone.\<close>

lemma VM_Set_frame [simp]:
  "hvm_Meta (VM_Set L c m) = hvm_Meta m" "hvm_Spec (VM_Set L c m) = hvm_Spec m"
  by (simp_all add: conditions_Set_def VM_SetConditions_def)

lemma VMScope_Set_frame [simp]:
  "VM_GetConditions (VMScope_SetReady m) = VM_GetConditions m"
  "VM_GetConditions (VMScope_SetVMState v m) = VM_GetConditions m"
  "hvm_Meta (VMScope_SetReady m) = hvm_Meta m" "hvm_Meta (VMScope_SetVMState v m) = hvm_Meta m"
  by (simp_all add: VMScope_SetReady_def VMScope_SetVMState_def VM_GetConditions_def)

lemma VM_Set_status [simp]:
  "vmst_Ready (hvm_Status (VM_Set L c m)) = vmst_Ready (hvm_Status m)"
  "vmst_VMState (hvm_Status (VM_Set L c m)) = vmst_VMState (hvm_Status m)"
  by (simp_all add: conditions_Set_def VM_SetConditions_def)

lemma VMRunning_not_Ready [simp]:
  "VMRunningCondition \<noteq> ReadyCondition" "ReadyCondition \<noteq> VMRunningCondition"
  by (simp_all add: condition_consts)

text \<open>Both failure conditions carry the same reason and message.\<close>

lemma setVMProvisionFailure_both:
  assumes "lib_conditions L"
  shows "has_condition L (VM_GetConditions (setVMProvisionFailure L r msg m))
      (mkCondition VMRunningCondition ConditionFalse r msg)"
    and "has_condition L (VM_GetConditions (setVMProvisionFailure L r msg m))
      (mkCondition ReadyCondition ConditionFalse r msg)"
  using assms by (simp_all add: setVMProvisionFailure_def vm_conditions.getC_Set cond_lib)

text \<open>
  The reason a failed creation is reported with, as a table from error codes: the first row whose
  code is the cause's decides, and a cause of no row is generic, unless the cloud agent could not
  be reached.
\<close>

definition failure_reason :: "lib \<Rightarrow> goerror \<Rightarrow> string" where
  "failure_reason L err =
     (let notFound = (if moc_IsPathNotFound L err then PathNotFoundReason else NotFoundReason);
          generic = (if moc_IsGRPCUnavailable L err then MOCUnreachableReason else VMProvisionFailedReason)
      in case map_of [(moc_OutOfMemory L, OutOfMemoryReason), (moc_OutOfCapacity L, OutOfCapacityReason),
           (moc_OutOfNodeCapacity L, OutOfNodeCapacityReason), (moc_NotFound L, notFound), (moccodes_NotFound L, notFound)]
           (moc_GetErrorCode L err) of
         Some reason \<Rightarrow> reason | None \<Rightarrow> generic)"

lemma creation_failure_eq: "creation_failure L err = setVMProvisionFailure L (failure_reason L err) (err_Error L err)"
  by (simp add: creation_failure_def failure_reason_def Let_def)

lemma findVM_Succeeded: "findVM M m w = (Ret (Inr (Some vm)), w') \<Longrightarrow> vm_State vm = VMStateSucceeded"
  unfolding findVM_def by (auto simp: run_simps dest: vmsvc_VMIfExists_Succeeded)

lemma creation_failure_frame [simp]:
  "hvm_Meta (creation_failure L err m) = hvm_Meta m"
  "vmst_Ready (hvm_Status (creation_failure L err m)) = vmst_Ready (hvm_Status m)"
  by (simp_all add: creation_failure_def setVMProvisionFailure_def Let_def)

text \<open>Looking for the machine leaves metadata and readiness alone.\<close>

lemma VM_getOrCreate_frame:
  "hoare (\<lambda>s. hvm_Meta (obj s) = om \<and> vmst_Ready (hvm_Status (obj s)) = b) (VM_getOrCreate L S M)
     (\<lambda>r t. hvm_Meta (obj t) = om \<and> vmst_Ready (hvm_Status (obj t)) = b \<and>
        (case r of Inl _ \<Rightarrow> True | Inr vm \<Rightarrow> vm_State vm = VMStateSucceeded)) (\<lambda>_. True)"
  unfolding VM_getOrCreate_def hoare_def
  by (auto simp: bind_on_world dest: findVM_Succeeded vmsvc_Create_Succeeded
      split: prod.splits res.splits option.splits sum.splits)

text \<open>A reconcile without an error leaves the state of the running machine.\<close>

lemma VM_reconcileNormal_Succeeded:
  assumes "VM_reconcileNormal L S M K sc s = (Ret (res, None), t)"
    and "vmst_FailureReason (hvm_Status (obj s)) = None" "vmst_FailureMessage (hvm_Status (obj s)) = None"
  shows "vmst_VMState (hvm_Status (obj t)) = Some VMStateSucceeded"
proof -
  have state: "vm_State vm = VMStateSucceeded" if "VM_getOrCreate L S M u = (Ret (Inr vm), v)" for u v vm
    using hoareD_Ret [OF VM_getOrCreate_frame [of "hvm_Meta (obj u)" "vmst_Ready (hvm_Status (obj u))"] _ that]
    by simp
  show ?thesis
    using assms unfolding VM_reconcileNormal_def
    by (auto simp: run_simps VM_applyState_def VMScope_SetReady_def VMScope_SetVMState_def dest!: state)
qed

subsection \<open>Properties\<close>

text \<open>
  C10: The finalizer of a virtual machine object is removed only after the cloud deletion reported
  success.  When the deletion fails the finalizers are untouched, the error is returned, and the
  \<open>VMRunning\<close> condition is false with reason \<open>DeletionFailed\<close> and the error as its message; a panic
  leaves the finalizers untouched, too.
\<close>

theorem VM_reconcileDelete_finalizer:
  assumes "lib_conditions L" "lib_finalizers L"
  shows "hoare (\<lambda>s. obj s = m) (VM_reconcileDelete L S M K)
    (\<lambda>(res, e) t. case e of
        None \<Rightarrow> VirtualMachineFinalizer \<notin> set (om_Finalizers (hvm_Meta (obj t))) \<and>
          (\<exists>w w'. vmsvc_Delete L S M K
            (VM_Set L (mkCondition VMRunningCondition ConditionFalse ''Deleting'' []) m) w = (Ret None, w'))
      | Some err \<Rightarrow> om_Finalizers (hvm_Meta (obj t)) = om_Finalizers (hvm_Meta m) \<and>
          (\<exists>cause. err = Wrap (''error deleting AzureStackHCIVirtualMachine '' @
              VMScope_Namespace m @ ''/'' @ VMScope_Name m) cause \<and>
            has_condition L (VM_GetConditions (obj t))
              (mkCondition VMRunningCondition ConditionFalse DeletionFailedReason (err_Error L cause))))
    (\<lambda>t. om_Finalizers (hvm_Meta (obj t)) = om_Finalizers (hvm_Meta m))"
proof -
  have removed: "VirtualMachineFinalizer \<notin> set (om_Finalizers (hvm_Meta (VM_removeFinalizer L x)))" for x
    using assms(2) by (simp add: VM_removeFinalizer_def lib_finalizers_def)
  show ?thesis
    unfolding VM_reconcileDelete_def hoare_def
    using assms(1)
    by (auto simp: bind_on_world removed Let_def cond_lib VMScope_Namespace_def VMScope_Name_def
        split: prod.splits res.splits option.splits)
qed

theorem VM_reconcileDelete_finalizer_witness:
  "hoare (\<lambda>s. obj s = newVirtualMachine ''ns'' ''n'') (VM_reconcileDelete lib0 sys0 (moc0 :: unit moc) kube0)
    (\<lambda>(res, e) t. case e of
        None \<Rightarrow> VirtualMachineFinalizer \<notin> set (om_Finalizers (hvm_Meta (obj t)))
      | Some err \<Rightarrow> om_Finalizers (hvm_Meta (obj t)) = [])
    (\<lambda>t. om_Finalizers (hvm_Meta (obj t)) = [])"
  by (rule hoare_weaken [OF VM_reconcileDelete_finalizer [OF lib0_conditions lib0_finalizers,
          of "newVirtualMachine ''ns'' ''n''"]])
    (auto simp: newVirtualMachine_def newMeta_def split: option.splits)

text \<open>
  C24: What a machine that cannot be had is reported with.  When the query fails, the object gets
  \<open>VMRunning\<close> false with reason \<open>VMNotFound\<close> and the error's text, nothing else of it changes, and
  the error is returned.  When there is no machine and its creation fails, both \<open>VMRunning\<close> and the
  contract condition \<open>Ready\<close> are false, with the reason that the table \<open>failure_reason\<close> gives the
  cause and the cause's text, so the real reason reaches Cluster API, and the error returned wraps
  the cause.  A machine that is found or created is returned in state \<open>Succeeded\<close> with the object
  unchanged; a panic leaves the object unchanged.
\<close>

theorem VM_getOrCreate_failure:
  assumes "lib_conditions L"
  shows "hoare (\<lambda>s. obj s = m \<and> world s = w0) (VM_getOrCreate L S M)
    (\<lambda>r t. case findVM M m w0 of
        (Ret (Inl err), w) \<Rightarrow> r = Inl err \<and> world t = w \<and>
          obj t = VM_Set L (mkCondition VMRunningCondition ConditionFalse VMNotFoundReason (err_Error L err)) m \<and>
          has_condition L (VM_GetConditions (obj t))
            (mkCondition VMRunningCondition ConditionFalse VMNotFoundReason (err_Error L err))
      | (Ret (Inr (Some vm)), w) \<Rightarrow> r = Inr vm \<and> world t = w \<and> obj t = m \<and> vm_State vm = VMStateSucceeded
      | (Ret (Inr None), w) \<Rightarrow> (case vmsvc_Create L S M m w of
          (Ret (Inl cause), w') \<Rightarrow> r = Inl (Wrap ''failed to create AzureStackHCIVirtualMachine'' cause) \<and> world t = w' \<and>
            (\<forall>c \<in> {VMRunningCondition, ReadyCondition}. has_condition L (VM_GetConditions (obj t))
              (mkCondition c ConditionFalse (failure_reason L cause) (err_Error L cause)))
        | (Ret (Inr vm), w') \<Rightarrow> r = Inr vm \<and> world t = w' \<and> obj t = m \<and> vm_State vm = VMStateSucceeded
        | (Panics p, _) \<Rightarrow> False)
      | (Panics p, _) \<Rightarrow> False)
    (\<lambda>t. obj t = m)"
proof -
  have fail: "\<forall>c \<in> {VMRunningCondition, ReadyCondition}. has_condition L (VM_GetConditions (creation_failure L cause x))
      (mkCondition c ConditionFalse (failure_reason L cause) (err_Error L cause))" for cause x
    using setVMProvisionFailure_both [OF assms] by (simp add: creation_failure_eq)
  show ?thesis
    unfolding VM_getOrCreate_def hoare_def
    using assms fail
    by (auto simp: bind_on_world cond_lib dest: findVM_Succeeded vmsvc_Create_Succeeded
        split: prod.splits res.splits option.splits sum.splits)
qed

theorem VM_getOrCreate_failure_witness:
  "hoare (\<lambda>s. obj s = newVirtualMachine ''ns'' ''n'' \<and> world s = ()) (VM_getOrCreate lib0 sys0 (moc0 :: unit moc))
    (\<lambda>r t. case findVM moc0 (newVirtualMachine ''ns'' ''n'') () of
        (Ret (Inl err), w) \<Rightarrow> r = Inl err \<and> world t = w \<and>
          obj t = VM_Set lib0 (mkCondition VMRunningCondition ConditionFalse VMNotFoundReason (err_Error lib0 err)) (newVirtualMachine ''ns'' ''n'') \<and>
          has_condition lib0 (VM_GetConditions (obj t))
            (mkCondition VMRunningCondition ConditionFalse VMNotFoundReason (err_Error lib0 err))
      | (Ret (Inr (Some vm)), w) \<Rightarrow> r = Inr vm \<and> world t = w \<and> obj t = newVirtualMachine ''ns'' ''n'' \<and> vm_State vm = VMStateSucceeded
      | (Ret (Inr None), w) \<Rightarrow> (case vmsvc_Create lib0 sys0 moc0 (newVirtualMachine ''ns'' ''n'') w of
          (Ret (Inl cause), w') \<Rightarrow> r = Inl (Wrap ''failed to create AzureStackHCIVirtualMachine'' cause) \<and> world t = w' \<and>
            (\<forall>c \<in> {VMRunningCondition, ReadyCondition}. has_condition lib0 (VM_GetConditions (obj t))
              (mkCondition c ConditionFalse (failure_reason lib0 cause) (err_Error lib0 cause)))
        | (Ret (Inr vm), w') \<Rightarrow> r = Inr vm \<and> world t = w' \<and> obj t = newVirtualMachine ''ns'' ''n'' \<and> vm_State vm = VMStateSucceeded
        | (Panics p, _) \<Rightarrow> False)
      | (Panics p, _) \<Rightarrow> False)
    (\<lambda>t. obj t = newVirtualMachine ''ns'' ''n'')"
  by (rule VM_getOrCreate_failure [OF lib0_conditions])

text \<open>
  C14: A reconcile that ends without an error has made the object ready: its state is \<open>Succeeded\<close>,
  it is marked ready, \<open>VMRunning\<close> and \<open>Ready\<close> are both true, and it carries the finalizer.  A
  reconcile that fails leaves readiness as it was, with the finalizer in place.  An object in a
  terminal failure state is left alone altogether.
\<close>

theorem VM_reconcileNormal_ready:
  assumes "lib_conditions L" "lib_finalizers L"
  shows "hoare (\<lambda>s. obj s = m) (VM_reconcileNormal L S M K sc)
    (\<lambda>(res, e) t.
      if vmst_FailureReason (hvm_Status m) \<noteq> None \<or> vmst_FailureMessage (hvm_Status m) \<noteq> None
      then e = None \<and> obj t = m
      else VirtualMachineFinalizer \<in> set (om_Finalizers (hvm_Meta (obj t))) \<and>
        (case e of
           None \<Rightarrow> vmst_Ready (hvm_Status (obj t)) \<and>
             vmst_VMState (hvm_Status (obj t)) = Some VMStateSucceeded \<and>
             has_condition L (VM_GetConditions (obj t))
               (mkCondition VMRunningCondition ConditionTrue VMStateSucceeded []) \<and>
             has_condition L (VM_GetConditions (obj t))
               (mkCondition ReadyCondition ConditionTrue VMStateSucceeded [])
         | Some _ \<Rightarrow> vmst_Ready (hvm_Status (obj t)) = vmst_Ready (hvm_Status m)))
    (\<lambda>_. True)"
  (is "hoare _ _ ?Q _")
proof -
  let ?fail = "vmst_FailureReason (hvm_Status m) \<noteq> None \<or> vmst_FailureMessage (hvm_Status m) \<noteq> None"
  let ?om = "hvm_Meta (VM_addFinalizer L m)" and ?b = "vmst_Ready (hvm_Status m)"
  have fin: "VirtualMachineFinalizer \<in> set (om_Finalizers ?om)"
    using assms(2) by (simp add: VM_addFinalizer_def lib_finalizers_def)
  have b: "vmst_Ready (hvm_Status (VM_addFinalizer L m)) = ?b" by (simp add: VM_addFinalizer_def)
  have apply_state: "hoare (\<lambda>s. hvm_Meta (obj s) = ?om \<and> vm_State vm = VMStateSucceeded) (VM_applyState L vm)
      ?Q (\<lambda>_. True)" if "\<not> ?fail" for vm
    using assms(1) that fin
    by (auto simp: VM_applyState_def hoare_def cond_lib VMScope_SetReady_def VMScope_SetVMState_def)
  have "hoare (\<lambda>s. obj s = VM_addFinalizer L m) (VMScope_PatchObject K sc)
      (\<lambda>_ t. hvm_Meta (obj t) = ?om \<and> vmst_Ready (hvm_Status (obj t)) = ?b) (\<lambda>_. True)"
    by (auto simp: VMScope_PatchObject_def hoare_def on_world_app b split: prod.splits res.splits)
  then have body: "hoare (\<lambda>s. obj s = VM_addFinalizer L m)
      (bind (VMScope_PatchObject K sc) (\<lambda>e. case e of
         Some err \<Rightarrow> return (noResult, Some err)
       | None \<Rightarrow> bind (VM_getOrCreate L S M) (\<lambda>r. case r of
           Inl err \<Rightarrow> return (noResult, Some err)
         | Inr vm \<Rightarrow> VM_applyState L vm))) ?Q (\<lambda>_. True)" if ok: "\<not> ?fail"
    apply (rule hoare_bind)
    apply (rule hoare_case_option)
     apply (rule hoare_bind [OF VM_getOrCreate_frame], rule hoare_case_sum)
      apply (rule hoare_return, use ok fin in auto)[]
     apply (rule hoare_weaken [OF apply_state [OF ok]]; auto)
    apply (rule hoare_return, use ok fin in auto)[]
    done
  show ?thesis
  proof (cases ?fail)
    case True
    then show ?thesis by (auto simp: VM_reconcileNormal_def hoare_def)
  next
    case False
    then show ?thesis using body unfolding VM_reconcileNormal_def hoare_def by auto
  qed
qed

theorem VM_reconcileNormal_ready_witness:
  "hoare (\<lambda>s. obj s = newVirtualMachine ''ns'' ''n'') (VM_reconcileNormal lib0 sys0 (moc0 :: unit moc) kube0
      \<lparr>vsc_before = newVirtualMachine ''ns'' ''n'', vsc_CloudAgentFqdn = [], vsc_Authorizer = []\<rparr>)
    (\<lambda>(res, e) t. VirtualMachineFinalizer \<in> set (om_Finalizers (hvm_Meta (obj t))) \<and>
        (case e of
           None \<Rightarrow> vmst_Ready (hvm_Status (obj t)) \<and>
             has_condition lib0 (VM_GetConditions (obj t))
               (mkCondition ReadyCondition ConditionTrue VMStateSucceeded [])
         | Some _ \<Rightarrow> \<not> vmst_Ready (hvm_Status (obj t))))
    (\<lambda>_. True)"
  by (rule hoare_weaken [OF VM_reconcileNormal_ready [OF lib0_conditions lib0_finalizers,
          of "newVirtualMachine ''ns'' ''n''"]])
    (auto simp: newVirtualMachine_def split: option.splits)

text \<open>
  The finalizer is registered before the cloud is touched: when the patch that registers it
  fails, the reconcile returns that error at once, and the world is exactly what the patch left.
\<close>

lemma VM_reconcileNormal_patch_first:
  assumes "vmst_FailureReason (hvm_Status (obj s)) = None"
    and "vmst_FailureMessage (hvm_Status (obj s)) = None"
    and "k_Patch_VM K (vsc_before sc) (VM_addFinalizer L (obj s)) (world s) = (Ret (Some err), w)"
  shows "VM_reconcileNormal L S M K sc s =
    (Ret (noResult, Some err), s\<lparr>obj := VM_addFinalizer L (obj s), world := w\<rparr>)"
  using assms
  by (simp add: VM_reconcileNormal_def VMScope_PatchObject_def bind_def on_world_app upd_obj_def)

end
