(* ===== verification/LBMachines.thy ===== *)
theory LBMachines
  imports VMReconciler "HOL-Library.Multiset"
begin

text \<open>
  \<open>controllers/azurestackhciloadbalancer_virtualmachine.go\<close>: the replicas of a load balancer,
  how they are listed, counted, scaled up, scaled down and upgraded.  The load balancer object is
  the object of the reconciler state; the cluster object is the one its scope was made from and
  is only read.
\<close>

subsection \<open>Sorting\<close>

text \<open>
  \<open>sort.Sort\<close> with a strict weak order.  The library's algorithm is not stable, which only shows
  on elements neither of which is less than the other: two machines of one name.
\<close>

fun insert_by :: "('a \<Rightarrow> 'a \<Rightarrow> bool) \<Rightarrow> 'a \<Rightarrow> 'a list \<Rightarrow> 'a list" where
  "insert_by lt x [] = [x]"
| "insert_by lt x (y # ys) = (if lt y x then y # insert_by lt x ys else x # y # ys)"

definition sort_Sort :: "('a \<Rightarrow> 'a \<Rightarrow> bool) \<Rightarrow> 'a list \<Rightarrow> 'a list" where
  "sort_Sort lt xs = foldr (insert_by lt) xs []"

lemma mset_insert_by [simp]: "mset (insert_by lt x xs) = add_mset x (mset xs)"
  by (induction xs) auto

lemma mset_sort_Sort [simp]: "mset (sort_Sort lt xs) = mset xs"
  by (induction xs) (simp_all add: sort_Sort_def)

lemma set_sort_Sort [simp]: "set (sort_Sort lt xs) = set xs"
  by (metis mset_sort_Sort set_mset_mset)

locale sort_order =
  fixes lt :: "'a \<Rightarrow> 'a \<Rightarrow> bool"
  assumes asym: "lt a b \<Longrightarrow> \<not> lt b a"
    and ntrans: "\<not> lt b a \<Longrightarrow> \<not> lt c b \<Longrightarrow> \<not> lt c a"
begin

lemma sorted_insert_by:
  "sorted_wrt (\<lambda>a b. \<not> lt b a) xs \<Longrightarrow> sorted_wrt (\<lambda>a b. \<not> lt b a) (insert_by lt x xs)"
proof (induction xs)
  case (Cons y ys)
  have "set (insert_by lt x ys) = insert x (set ys)"
    by (metis mset_insert_by set_mset_add_mset_insert set_mset_mset)
  then show ?case
  proof (cases "lt y x")
    case True
    then show ?thesis using Cons asym [of y x] by (simp add: \<open>set (insert_by lt x ys) = insert x (set ys)\<close>)
  next
    case False
    then show ?thesis using Cons ntrans [of y x] by auto
  qed
qed simp

lemma sorted_sort_Sort: "sorted_wrt (\<lambda>a b. \<not> lt b a) (sort_Sort lt xs)"
  by (induction xs) (simp_all add: sort_Sort_def sorted_insert_by)

lemma hd_sort_Sort_least: "x \<in> set xs \<Longrightarrow> \<not> lt x (hd (sort_Sort lt xs))"
proof -
  assume x: "x \<in> set xs"
  then have "x \<in> set (sort_Sort lt xs)" by simp
  then obtain y ys where "sort_Sort lt xs = y # ys" by (cases "sort_Sort lt xs") auto
  moreover have "\<not> lt y y" using asym by blast
  ultimately show ?thesis using sorted_sort_Sort [of xs] \<open>x \<in> set (sort_Sort lt xs)\<close> by auto
qed

text \<open>The first element with a property is the least one that has it.\<close>

lemma find_sort_Sort_least:
  assumes "find P (sort_Sort lt xs) = Some y" "x \<in> set xs" "P x"
  shows "\<not> lt x y"
proof -
  from assms(1) obtain i where i: "i < length (sort_Sort lt xs)" "sort_Sort lt xs ! i = y"
      "\<And>j. j < i \<Longrightarrow> \<not> P (sort_Sort lt xs ! j)"
    by (auto simp: find_Some_iff)
  from assms(2) obtain j where j: "j < length (sort_Sort lt xs)" "sort_Sort lt xs ! j = x"
    by (metis in_set_conv_nth set_sort_Sort)
  have "i \<le> j" using i(3) [of j] j assms(3) by (metis not_le)
  then show ?thesis
    using sorted_sort_Sort [of xs] i j asym by (metis le_neq_implies_less sorted_wrt_nth_less)
qed

end

lemma string_less_ntrans: "\<not> string_less b a \<Longrightarrow> \<not> string_less c b \<Longrightarrow> \<not> string_less c a"
  using string_less_total [of a b] string_less_trans [of c a b] by auto

interpretation vm_order: sort_order VirtualMachines_Less
proof
  show "VirtualMachines_Less a b \<Longrightarrow> \<not> VirtualMachines_Less b a" for a b
    using VirtualMachines_Less_irrefl VirtualMachines_Less_trans by blast
  show "\<not> VirtualMachines_Less b a \<Longrightarrow> \<not> VirtualMachines_Less c b \<Longrightarrow> \<not> VirtualMachines_Less c a"
    for a b c
    using string_less_ntrans [of "om_Name (hvm_Meta b)" "om_Name (hvm_Meta a)" "om_Name (hvm_Meta c)"]
    by (auto simp: VirtualMachines_Less_def split: if_splits)
qed

subsection \<open>Replica conditions and counts\<close>

definition replicasAreUpgrading :: "lib \<Rightarrow> AzureStackHCILoadBalancer \<Rightarrow> bool" where
  "replicasAreUpgrading L lb \<longleftrightarrow>
     cond_GetReason L (LB_GetConditions lb) LoadBalancerReplicasReadyCondition =
       LoadBalancerReplicasUpgradingReason"

definition replicasAreScalingUp :: "lib \<Rightarrow> AzureStackHCILoadBalancer \<Rightarrow> bool" where
  "replicasAreScalingUp L lb \<longleftrightarrow>
     cond_GetReason L (LB_GetConditions lb) LoadBalancerReplicasReadyCondition =
       LoadBalancerReplicasScalingUpReason"

definition replicasAreScalingDown :: "lib \<Rightarrow> AzureStackHCILoadBalancer \<Rightarrow> bool" where
  "replicasAreScalingDown L lb \<longleftrightarrow>
     cond_GetReason L (LB_GetConditions lb) LoadBalancerReplicasReadyCondition =
       LoadBalancerReplicasScalingDownReason"

definition replicasAreScaling :: "lib \<Rightarrow> AzureStackHCILoadBalancer \<Rightarrow> bool" where
  "replicasAreScaling L lb \<longleftrightarrow> replicasAreScalingUp L lb \<or> replicasAreScalingDown L lb"

definition isScaleUpRequired :: "AzureStackHCILoadBalancer \<Rightarrow> bool" where
  "isScaleUpRequired lb \<longleftrightarrow>
     sint (LBScope_GetReplicas lb) < sint (LBScope_GetDesiredReplicas lb)"

definition isScaleDownRequired :: "AzureStackHCILoadBalancer \<Rightarrow> bool" where
  "isScaleDownRequired lb \<longleftrightarrow>
     sint (LBScope_GetReplicas lb) > sint (LBScope_GetDesiredReplicas lb)"

text \<open>\<open>vm.Labels[infrav1.OSVersionLabelName] != lbs.OSVersion()\<close>\<close>

definition outdated :: "AzureStackHCILoadBalancer \<Rightarrow> AzureStackHCIVirtualMachine \<Rightarrow> bool" where
  "outdated lb vm \<longleftrightarrow> map_get (om_Labels (hvm_Meta vm)) OSVersionLabelName \<noteq> LBScope_OSVersion lb"

fun isUpgradeRequired :: "AzureStackHCILoadBalancer \<Rightarrow> AzureStackHCIVirtualMachine list \<Rightarrow> bool" where
  "isUpgradeRequired lb [] = False"
| "isUpgradeRequired lb (vm # vms) = (if outdated lb vm then True else isUpgradeRequired lb vms)"

fun failed_count :: "int32 \<Rightarrow> AzureStackHCIVirtualMachine list \<Rightarrow> int32" where
  "failed_count n [] = n"
| "failed_count n (vm # vms) = (case vmst_VMState (hvm_Status vm) of
      None \<Rightarrow> failed_count n vms
    | Some st \<Rightarrow> failed_count (if st = VMStateFailed then n + 1 else n) vms)"

definition getMachineReplicaCounts :: "AzureStackHCIVirtualMachine list \<Rightarrow> int32 \<times> int32" where
  "getMachineReplicaCounts vmList = (word_of_nat (length vmList), failed_count 0 vmList)"

subsection \<open>Listing\<close>

fun not_deleted :: "AzureStackHCIVirtualMachine list \<Rightarrow> AzureStackHCIVirtualMachine list \<Rightarrow>
    AzureStackHCIVirtualMachine list" where
  "not_deleted filtered [] = filtered"
| "not_deleted filtered (vm # vms) = not_deleted
     (if DeletionTimestamp_IsZero (hvm_Meta vm) then filtered @ [vm] else filtered) vms"

definition getVirtualMachinesForLoadBalancer :: "'w kube \<Rightarrow> ClusterScope \<Rightarrow>
    AzureStackHCILoadBalancer \<Rightarrow> ('w, goerror + AzureStackHCIVirtualMachine list) io" where
  "getVirtualMachinesForLoadBalancer K csc lb =
     bind (k_List_VMs K (ClusterScope_Namespace csc) [(LoadBalancerLabel, LBScope_Name lb)])
       (\<lambda>r. case r of
           Inl err \<Rightarrow> return (Inl err)
         | Inr items \<Rightarrow> return (Inr (not_deleted [] items)))"

lemma not_deleted_eq:
  "not_deleted acc vms = acc @ filter (\<lambda>vm. DeletionTimestamp_IsZero (hvm_Meta vm)) vms"
  by (induction vms arbitrary: acc) auto

subsection \<open>Selecting a machine to remove\<close>

fun first_outdated :: "AzureStackHCILoadBalancer \<Rightarrow> AzureStackHCIVirtualMachine list \<Rightarrow>
    AzureStackHCIVirtualMachine option" where
  "first_outdated lb [] = None"
| "first_outdated lb (vm # vms) = (if outdated lb vm then Some vm else first_outdated lb vms)"

definition selectVirtualMachineForScaleDown :: "AzureStackHCILoadBalancer \<Rightarrow>
    AzureStackHCIVirtualMachine list \<Rightarrow> goerror + AzureStackHCIVirtualMachine" where
  "selectVirtualMachineForScaleDown lb vmList =
     (if length vmList < 1
      then Inl (ErrorNew ''no machines were provided for scale down selection'')
      else let vmList = sort_Sort VirtualMachines_Less vmList in
        case first_outdated lb vmList of
          Some vm \<Rightarrow> Inr vm
        | None \<Rightarrow> Inr (vmList ! 0))"

lemma first_outdated_find: "first_outdated lb vms = find (outdated lb) vms"
  by (induction vms) auto

subsection \<open>Creating a replica\<close>

text \<open>
  The image of a replica: the custom image if it has a name, else the default image of the
  cluster's version.  A nil cluster would be dereferenced, the result \<open>None\<close>.
\<close>

definition getVMImage :: "lib \<Rightarrow> LoadBalancerScope \<Rightarrow> AzureStackHCILoadBalancer \<Rightarrow>
    (goerror + Image) option" where
  "getVMImage L lsc lb =
     (let default = (\<lambda>osType. case lsc_AzureStackHCICluster lsc of
          None \<Rightarrow> None
        | Some hc \<Rightarrow> Some (GetDefaultImage L osType (to_String (cs_Version (hc_Spec hc)))))
      in case lbs_Image (hlb_Spec lb) of
          None \<Rightarrow> default OSTypeLinux
        | Some i \<Rightarrow> (case img_Name i of
            None \<Rightarrow> default (img_OSType i)
          | Some n \<Rightarrow> if n \<noteq> [] then Some (Inr i) else default (img_OSType i)))"

definition lbvm_mutate :: "lib \<Rightarrow> LoadBalancerScope \<Rightarrow> ClusterScope \<Rightarrow> AzureStackHCILoadBalancer \<Rightarrow>
    AzureStackHCIVirtualMachine \<Rightarrow> AzureStackHCIVirtualMachine" where
  "lbvm_mutate L lsc csc lb vm =
     (let hc = csc_before csc; om = hvm_Meta vm;
          refs = lib_EnsureOwnerRef L (om_OwnerReferences om)
            \<lparr>or_APIVersion = tm_APIVersion (hlb_TypeMeta lb), or_Kind = tm_Kind (hlb_TypeMeta lb),
             or_Name = om_Name (hlb_Meta lb), or_UID = om_UID (hlb_Meta lb)\<rparr>;
          labels = map_put (map_put (om_Labels om) OSVersionLabelName (LBScope_OSVersion lb))
            LoadBalancerLabel (LBScope_Name lb)
      in vm\<lparr>hvm_Meta := om\<lparr>om_OwnerReferences := refs, om_Labels := labels\<rparr>,
           hvm_Spec := (hvm_Spec vm)
             \<lparr>vms_ResourceGroup := cs_ResourceGroup (hc_Spec hc),
              vms_VnetName := vnet_Name (net_Vnet (cs_NetworkSpec (hc_Spec hc))),
              vms_ClusterName := om_Name (hc_Meta hc),
              vms_SubnetName := GenerateNodeSubnetName (ClusterScope_Name csc),
              vms_BootstrapData := Some [],
              vms_VMSize := lbs_VMSize (hlb_Spec lb),
              vms_Location := ClusterScope_Location hc,
              vms_SSHPublicKey := lbs_SSHPublicKey (hlb_Spec lb),
              vms_StorageContainer := lbs_StorageContainer (hlb_Spec lb)\<rparr>\<rparr>)"

definition lbvm_mutateFn :: "lib \<Rightarrow> LoadBalancerScope \<Rightarrow> ClusterScope \<Rightarrow> AzureStackHCILoadBalancer \<Rightarrow>
    AzureStackHCIVirtualMachine \<Rightarrow> ('w, goerror option \<times> AzureStackHCIVirtualMachine) io" where
  "lbvm_mutateFn L lsc csc lb vm =
     (let vm = lbvm_mutate L lsc csc lb vm in
      case getVMImage L lsc lb of
        None \<Rightarrow> panic ''nil pointer dereference''
      | Some (Inl err) \<Rightarrow>
          return (Some (Wrap ''failed to get AzureStackHCILoadBalancer image'' err), vm)
      | Some (Inr i) \<Rightarrow> return (None, vm\<lparr>hvm_Spec := (hvm_Spec vm)\<lparr>vms_Image := Some i\<rparr>,
          hvm_Meta := CopyCorrelationID (hlb_Meta lb) (hvm_Meta vm)\<rparr>))"

definition lb_createOrUpdateVirtualMachine :: "lib \<Rightarrow> 'w sys \<Rightarrow> 'w kube \<Rightarrow> LoadBalancerScope \<Rightarrow>
    ClusterScope \<Rightarrow> AzureStackHCILoadBalancer \<Rightarrow> ('w, goerror + AzureStackHCIVirtualMachine) io" where
  "lb_createOrUpdateVirtualMachine L S K lsc csc lb =
     bind (GenerateAzureStackHCILoadBalancerMachineName S (LBScope_Name lb)) (\<lambda>(name, err).
       case err of
         Some err \<Rightarrow> return (Inl err)
       | None \<Rightarrow> bind (k_CreateOrUpdate_VM K (newVirtualMachine (ClusterScope_Namespace csc) name)
             (lbvm_mutateFn L lsc csc lb)) (\<lambda>(opResult, err, vm). case err of
           Some err \<Rightarrow> return (Inl err)
         | None \<Rightarrow> return (Inr vm)))"

subsection \<open>Deleting a replica\<close>

definition lb_deleteVirtualMachine :: "lib \<Rightarrow> 'w kube \<Rightarrow> AzureStackHCILoadBalancer \<Rightarrow>
    AzureStackHCIVirtualMachine \<Rightarrow> ('w, goerror option) io" where
  "lb_deleteVirtualMachine L K lb vm =
     (if DeletionTimestamp_IsZero (hvm_Meta vm)
      then (let vm = vm\<lparr>hvm_Meta := CopyCorrelationID (hlb_Meta lb) (hvm_Meta vm)\<rparr> in
        bind (k_Update_VM K vm) (\<lambda>(e, vm).
          let delete = bind (k_Delete_VM K vm) (\<lambda>e. case e of
                None \<Rightarrow> return None
              | Some err \<Rightarrow> if \<not> err_IsNotFound L err
                  then return (Some (Wrap (''failed to delete AzureStackHCIVirtualMachine '' @
                    om_Name (hvm_Meta vm)) err))
                  else return None)
          in case e of
              None \<Rightarrow> delete
            | Some err \<Rightarrow> if \<not> err_IsNotFound L err
                then return (Some (Wrap (''failed to update AzureStackHCIVirtualMachine '' @
                  om_Name (hvm_Meta vm)) err))
                else delete))
      else return None)"

definition lb_reconcileDeleteVirtualMachines :: "lib \<Rightarrow> 'w kube \<Rightarrow> ClusterScope \<Rightarrow>
    AzureStackHCILoadBalancer \<Rightarrow> ('w, goerror option) io" where
  "lb_reconcileDeleteVirtualMachines L K csc lb =
     bind (getVirtualMachinesForLoadBalancer K csc lb) (\<lambda>r. case r of
        Inl err \<Rightarrow> return (Some (Wrap ''failed to get loadbalancer virtual machine list'' err))
      | Inr vmList \<Rightarrow> forEach vmList (lb_deleteVirtualMachine L K lb))"

subsection \<open>Scaling\<close>

definition scaleUpVirtualMachines :: "lib \<Rightarrow> 'w sys \<Rightarrow> 'w kube \<Rightarrow> LoadBalancerScope \<Rightarrow> ClusterScope \<Rightarrow>
    (('w, AzureStackHCILoadBalancer) rstate, goerror option) io" where
  "scaleUpVirtualMachines L S K lsc csc = bind (reads obj) (\<lambda>lb.
     bind (Eventf EventTypeNormal ''ScalingUpLoadBalancer''
       (''Scaling up AzureStackHCILoadBalancer '' @ LBScope_Name lb)) (\<lambda>_.
     bind (on_world (lb_createOrUpdateVirtualMachine L S K lsc csc lb)) (\<lambda>r. case r of
       Inl err \<Rightarrow> return (Some (Wrap ''failed to create or update loadbalancer VM'' err))
     | Inr _ \<Rightarrow> bind (upd_obj LBScope_AddReplica) (\<lambda>_. return None))))"

definition scaleDownVirtualMachines :: "lib \<Rightarrow> 'w kube \<Rightarrow> AzureStackHCIVirtualMachine list \<Rightarrow>
    (('w, AzureStackHCILoadBalancer) rstate, goerror option) io" where
  "scaleDownVirtualMachines L K vmList = bind (reads obj) (\<lambda>lb.
     bind (Eventf EventTypeNormal ''ScalingDownLoadBalancer''
       (''Scaling down AzureStackHCILoadBalancer '' @ LBScope_Name lb)) (\<lambda>_.
     case selectVirtualMachineForScaleDown lb vmList of
       Inl err \<Rightarrow> return (Some err)
     | Inr vm \<Rightarrow> bind (on_world (lb_deleteVirtualMachine L K lb vm)) (\<lambda>e. case e of
         Some err \<Rightarrow> return (Some (Wrap (''failed to scale down loadbalancer VM '' @
           om_Name (hvm_Meta vm)) err))
       | None \<Rightarrow> bind (upd_obj LBScope_RemoveReplica) (\<lambda>_. return None))))"

text \<open>A replica that was created is counted; nothing else of the load balancer changes.\<close>

lemma scaleUp_obj:
  "scaleUpVirtualMachines L S K lsc csc s = (Ret e, t) \<Longrightarrow>
   obj t = (if e = None then LBScope_AddReplica (obj s) else obj s)"
  unfolding scaleUpVirtualMachines_def
  by (auto simp: bind_on_world split: prod.split_asm res.split_asm sum.split_asm)

lemma scaleUp_obj_Panics:
  "scaleUpVirtualMachines L S K lsc csc s = (Panics p, t) \<Longrightarrow> obj t = obj s"
  unfolding scaleUpVirtualMachines_def
  by (auto simp: bind_on_world split: prod.split_asm res.split_asm sum.split_asm)

lemma AddReplica_counts [simp]:
  "LBScope_GetReplicas (LBScope_AddReplica lb) = LBScope_GetReplicas lb + 1"
  "LBScope_GetMaxReplicas (LBScope_AddReplica lb) = LBScope_GetMaxReplicas lb"
  "LBScope_GetDesiredReplicas (LBScope_AddReplica lb) = LBScope_GetDesiredReplicas lb"
  by (simp_all add: LBScope_GetReplicas_def LBScope_GetMaxReplicas_def
      LBScope_GetDesiredReplicas_def LBScope_AddReplica_def)

lemma int32_max: "sint (x :: int32) \<le> 2 ^ 31 - 1"
  using sint_lt [of x] by simp

text \<open>
  The loop of an upgrade, \<open>for lbs.GetReplicas() < lbs.GetMaxReplicas()\<close>.  Each round counts one
  replica more and the maximum stays, so it ends; below the maximum the counter cannot wrap.
\<close>

function upgrade_loop :: "lib \<Rightarrow> 'w sys \<Rightarrow> 'w kube \<Rightarrow> LoadBalancerScope \<Rightarrow> ClusterScope \<Rightarrow>
    (('w, AzureStackHCILoadBalancer) rstate, goerror option) io" where
  "upgrade_loop L S K lsc csc s =
     (if sint (LBScope_GetReplicas (obj s)) < sint (LBScope_GetMaxReplicas (obj s))
      then (case scaleUpVirtualMachines L S K lsc csc s of
          (Ret e, t) \<Rightarrow> (case e of
              Some err \<Rightarrow> (Ret (Some (Wrap ''failed to scale up loadbalancer VM for upgrade'' err)), t)
            | None \<Rightarrow> upgrade_loop L S K lsc csc t)
        | (Panics p, t) \<Rightarrow> (Panics p, t))
      else (Ret None, s))"
  by pat_completeness auto

termination
proof (relation "measure (\<lambda>(L, S, K, lsc, csc, s). nat (sint (LBScope_GetMaxReplicas (obj s)) -
    sint (LBScope_GetReplicas (obj s))))", goal_cases)
  case (2 L S K lsc csc s r t e)
  then have "obj t = LBScope_AddReplica (obj s)"
    using scaleUp_obj [of L S K lsc csc s e t] by simp
  moreover have "sint (LBScope_GetReplicas (obj s) + 1) = sint (LBScope_GetReplicas (obj s)) + 1"
    using 2(1) int32_max [of "LBScope_GetMaxReplicas (obj s)"] by (intro int32_succ) linarith
  ultimately show ?case using 2(1) by simp
qed simp

declare upgrade_loop.simps [simp del]

subsection \<open>Status of the load balancer service\<close>

text \<open>
  The address is read through pointers that may all be nil; the properties of the load balancer
  are an embedded pointer, too.
\<close>

definition lb_frontend_address :: "LoadBalancerProperties \<Rightarrow> string option" where
  "lb_frontend_address p = (case lbp_FrontendIPConfigurations p of
      None \<Rightarrow> None
    | Some [] \<Rightarrow> None
    | Some (None # _) \<Rightarrow> None
    | Some (Some f # _) \<Rightarrow> fip_IPAddress f)"

definition lb_spec_named :: "string \<Rightarrow> loadbalancers_Spec" where
  "lb_spec_named n = \<lparr>lbspec_Name = n, lbspec_BackendPoolName = [], lbspec_VnetName = [],
     lbspec_FrontendPort = 0, lbspec_BackendPort = 0, lbspec_Tags = []\<rparr>"

definition reconcileLoadBalancerServiceStatus :: "'w moc \<Rightarrow> ClusterScope \<Rightarrow>
    (('w, AzureStackHCILoadBalancer) rstate, goerror option) io" where
  "reconcileLoadBalancerServiceStatus M csc = bind (reads obj) (\<lambda>l.
     bind (on_world (loadbalancers_Get M (ClusterScope_GetResourceGroup (csc_before csc))
         (Some (lb_spec_named (om_Name (hlb_Meta l)))))) (\<lambda>r. case r of
       Inl err \<Rightarrow> return (Some err)
     | Inr lb \<Rightarrow> (case nlb_Properties lb of
         None \<Rightarrow> panic ''nil pointer dereference''
       | Some props \<Rightarrow>
           bind (if LBScope_Address l = []
             then (case lb_frontend_address props of
                 None \<Rightarrow> panic ''nil pointer dereference or index out of range''
               | Some a \<Rightarrow> upd_obj (LBScope_SetAddress a))
             else return ()) (\<lambda>_.
           bind (upd_obj (LBScope_SetReadyReplicas (word_of_int (lbp_ReplicationCount props)))) (\<lambda>_.
           return None)))))"

definition updateReplicaStatus :: "'w moc \<Rightarrow> ClusterScope \<Rightarrow> AzureStackHCIVirtualMachine list \<Rightarrow>
    (('w, AzureStackHCILoadBalancer) rstate, unit) io" where
  "updateReplicaStatus M csc vmList =
     (let (replicas, failedReplicas) = getMachineReplicaCounts vmList in
      bind (reconcileLoadBalancerServiceStatus M csc) (\<lambda>_.
      bind (upd_obj (LBScope_SetReplicas replicas)) (\<lambda>_.
      upd_obj (LBScope_SetFailedReplicas failedReplicas))))"

subsection \<open>Reconciling the replicas\<close>

text \<open>The first machine that is not running and says why.\<close>

fun failing_machine :: "lib \<Rightarrow> AzureStackHCIVirtualMachine list \<Rightarrow> Condition option" where
  "failing_machine L [] = None"
| "failing_machine L (vm # vms) =
     (if cond_IsFalse L (VM_GetConditions vm) VMRunningCondition
      then (case cond_Get L (VM_GetConditions vm) VMRunningCondition of
          None \<Rightarrow> failing_machine L vms
        | Some cond \<Rightarrow> if c_Reason cond \<noteq> [] then Some cond else failing_machine L vms)
      else failing_machine L vms)"

definition requeueAfter :: "nat \<Rightarrow> Result" where
  "requeueAfter n = \<lparr>Requeue = True, RequeueAfter = n\<rparr>"

definition set_replicas_condition :: "lib \<Rightarrow> string \<Rightarrow> string \<Rightarrow> AzureStackHCILoadBalancer \<Rightarrow>
    AzureStackHCILoadBalancer" where
  "set_replicas_condition L reason msg =
     LB_Set L (mkCondition LoadBalancerReplicasReadyCondition ConditionFalse reason msg)"

text \<open>From the scale-up check to the end of \<open>reconcileVirtualMachines\<close>.\<close>

definition scale_or_upgrade :: "lib \<Rightarrow> 'w sys \<Rightarrow> 'w kube \<Rightarrow> LoadBalancerScope \<Rightarrow> ClusterScope \<Rightarrow>
    AzureStackHCIVirtualMachine list \<Rightarrow>
    (('w, AzureStackHCILoadBalancer) rstate, Result \<times> goerror option) io" where
  "scale_or_upgrade L S K lsc csc vms = bind (reads obj) (\<lambda>lb.
     if isScaleUpRequired lb
     then bind (if \<not> replicasAreUpgrading L lb
         then upd_obj (set_replicas_condition L LoadBalancerReplicasScalingUpReason []) else return ()) (\<lambda>_.
       bind (scaleUpVirtualMachines L S K lsc csc) (\<lambda>e. case e of
         Some err \<Rightarrow> return (noResult, Some (Wrap ''failed to scale up loadbalancer'' err))
       | None \<Rightarrow> return (requeueAfter 60, None)))
     else if isScaleDownRequired lb
     then bind (if \<not> replicasAreUpgrading L lb
         then upd_obj (set_replicas_condition L LoadBalancerReplicasScalingDownReason []) else return ()) (\<lambda>_.
       bind (scaleDownVirtualMachines L K vms) (\<lambda>e. case e of
         Some err \<Rightarrow> return (noResult, Some (Wrap ''failed to scale down loadbalancer'' err))
       | None \<Rightarrow> return (requeueAfter 20, None)))
     else if isUpgradeRequired lb vms
     then bind (upd_obj (set_replicas_condition L LoadBalancerReplicasUpgradingReason [])) (\<lambda>_.
       bind (Eventf EventTypeNormal ''UpgradingLoadBalancer''
         (''Upgrading AzureStackHCILoadBalancer '' @ LBScope_Name lb)) (\<lambda>_.
       bind (upgrade_loop L S K lsc csc) (\<lambda>e. case e of
         Some err \<Rightarrow> return (noResult, Some err)
       | None \<Rightarrow> return (requeueAfter 60, None))))
     else if cond_IsFalse L (LB_GetConditions lb) LoadBalancerReplicasReadyCondition
     then bind (upd_obj (LB_Set L (mkCondition LoadBalancerReplicasReadyCondition ConditionTrue
           ''AllReplicasReady'' []))) (\<lambda>_.
       bind (Eventf EventTypeNormal ''LoadBalancerReplicasReady''
         (''All replicas for AzureStackHCILoadBalancer '' @ LBScope_Name lb @ '' are ready'')) (\<lambda>_.
       return (noResult, None)))
     else return (noResult, None))"

definition LB_reconcileVirtualMachines :: "lib \<Rightarrow> 'w sys \<Rightarrow> 'w moc \<Rightarrow> 'w kube \<Rightarrow> LoadBalancerScope \<Rightarrow>
    ClusterScope \<Rightarrow> (('w, AzureStackHCILoadBalancer) rstate, Result \<times> goerror option) io" where
  "LB_reconcileVirtualMachines L S M K lsc csc = bind (reads obj) (\<lambda>lb.
     bind (on_world (getVirtualMachinesForLoadBalancer K csc lb)) (\<lambda>r. case r of
       Inl err \<Rightarrow> return (noResult, Some (Wrap ''failed to get loadbalancer virtual machine list'' err))
     | Inr vms \<Rightarrow> (case failing_machine L vms of
         Some cond \<Rightarrow> bind (upd_obj (set_replicas_condition L (c_Reason cond) (c_Message cond))) (\<lambda>_.
           return (noResult, None))
       | None \<Rightarrow> bind (updateReplicaStatus M csc vms) (\<lambda>_. bind (reads obj) (\<lambda>lb.
           if sint (LBScope_GetReadyReplicas lb) < sint (LBScope_GetReplicas lb)
           then (if replicasAreUpgrading L lb \<or> replicasAreScalingUp L lb
             then return (requeueAfter 60, None)
             else if \<not> isScaleDownRequired lb
             then bind (upd_obj (set_replicas_condition L LoadBalancerWaitingForReplicasReadyReason [])) (\<lambda>_.
               return (requeueAfter 60, None))
             else scale_or_upgrade L S K lsc csc vms)
           else scale_or_upgrade L S K lsc csc vms)))))"

subsection \<open>Facts about the status\<close>

lemma set_replicas_condition_frame [simp]:
  "LBScope_GetReplicas (set_replicas_condition L r msg lb) = LBScope_GetReplicas lb"
  "LBScope_GetMaxReplicas (set_replicas_condition L r msg lb) = LBScope_GetMaxReplicas lb"
  "LBScope_GetDesiredReplicas (set_replicas_condition L r msg lb) = LBScope_GetDesiredReplicas lb"
  "hlb_Meta (set_replicas_condition L r msg lb) = hlb_Meta lb"
  "hlb_Spec (set_replicas_condition L r msg lb) = hlb_Spec lb"
  by (simp_all add: set_replicas_condition_def conditions_Set_def LB_SetConditions_def
      LBScope_GetReplicas_def LBScope_GetMaxReplicas_def LBScope_GetDesiredReplicas_def)

lemma LB_Set_counts [simp]:
  "LBScope_GetReplicas (LB_Set L c lb) = LBScope_GetReplicas lb"
  "LBScope_GetDesiredReplicas (LB_Set L c lb) = LBScope_GetDesiredReplicas lb"
  "hlb_Meta (LB_Set L c lb) = hlb_Meta lb" "hlb_Spec (LB_Set L c lb) = hlb_Spec lb"
  by (simp_all add: conditions_Set_def LB_SetConditions_def LBScope_GetReplicas_def
      LBScope_GetDesiredReplicas_def)

lemma RemoveReplica_desired [simp]:
  "LBScope_GetDesiredReplicas (LBScope_RemoveReplica lb) = LBScope_GetDesiredReplicas lb"
  by (simp add: LBScope_GetDesiredReplicas_def LBScope_RemoveReplica_def)

lemma RemoveReplica_le:
  "sint (LBScope_GetReplicas (LBScope_RemoveReplica lb)) \<le> sint (LBScope_GetReplicas lb)"
  by (simp add: LBScope_GetReplicas_def LBScope_RemoveReplica_def int32_pred)

text \<open>
  What reconciling the replicas keeps: any property of the load balancer that the setters it uses
  keep.
\<close>

locale lb_frame =
  fixes L :: lib and F :: "AzureStackHCILoadBalancer \<Rightarrow> bool"
  assumes F_Set: "F x \<Longrightarrow> F (LB_Set L c x)"
    and F_counts: "F x \<Longrightarrow> F (LBScope_AddReplica x)" "F x \<Longrightarrow> F (LBScope_RemoveReplica x)"
      "F x \<Longrightarrow> F (LBScope_SetReplicas n x)" "F x \<Longrightarrow> F (LBScope_SetFailedReplicas n x)"
      "F x \<Longrightarrow> F (LBScope_SetReadyReplicas n x)"
    and F_address: "F x \<Longrightarrow> F (LBScope_SetAddress a x)"
begin

lemma F_replicas_condition: "F x \<Longrightarrow> F (set_replicas_condition L r msg x)"
  by (simp add: set_replicas_condition_def F_Set)

lemmas F_setters = F_Set F_counts F_address F_replicas_condition

lemma scaleUp: "preserves (scaleUpVirtualMachines L S K lsc csc) (\<lambda>s. F (obj s))"
  unfolding hoare_def
  by (auto dest!: scaleUp_obj scaleUp_obj_Panics simp: F_setters split: res.split)

lemma scaleDown: "preserves (scaleDownVirtualMachines L K vms) (\<lambda>s. F (obj s))"
  unfolding scaleDownVirtualMachines_def hoare_def
  by (auto simp: bind_on_world F_setters split: prod.split res.split option.split sum.split)

lemma upgrade: "upgrade_loop L S K lsc csc s = (r, t) \<Longrightarrow> F (obj s) \<Longrightarrow> F (obj t)"
proof (induction L S K lsc csc s rule: upgrade_loop.induct)
  case (1 L' S K lsc csc s)
  then show ?case
    by (subst (asm) (2) upgrade_loop.simps)
      (auto split: if_splits prod.split_asm res.split_asm option.split_asm
        dest!: scaleUp_obj scaleUp_obj_Panics simp: F_setters)
qed

lemma serviceStatus: "preserves (reconcileLoadBalancerServiceStatus M csc) (\<lambda>s. F (obj s))"
  unfolding reconcileLoadBalancerServiceStatus_def hoare_def
  by (auto simp: bind_on_world F_setters split: prod.split res.split option.split sum.split)

lemma upgrade_preserves: "preserves (upgrade_loop L S K lsc csc) (\<lambda>s. F (obj s))"
  by (auto intro!: hoareI dest: upgrade)

lemma replicaStatus: "preserves (updateReplicaStatus M csc vms) (\<lambda>s. F (obj s))"
  unfolding updateReplicaStatus_def
  by (auto intro!: hoare_rules serviceStatus simp: F_setters)

lemma scale_or_upgrade: "preserves (scale_or_upgrade L S K lsc csc vms) (\<lambda>s. F (obj s))"
  unfolding scale_or_upgrade_def
  by (auto intro!: hoare_rules scaleUp scaleDown upgrade_preserves simp: F_setters)

lemma reconcileVirtualMachines:
  "preserves (LB_reconcileVirtualMachines L S M K lsc csc) (\<lambda>s. F (obj s))"
  unfolding LB_reconcileVirtualMachines_def
  by (auto intro!: hoare_rules replicaStatus scale_or_upgrade simp: F_setters)

end

interpretation lb_kept: lb_frame L "\<lambda>x. hlb_Meta x = om \<and> hlb_Spec x = sp \<and> lbst_Ready (hlb_Status x) = b"
  for L om sp b
  by unfold_locales (auto simp: LBScope_setters conditions_Set_def LB_SetConditions_def)

text \<open>What the loop leaves behind: the count it started from or the maximum, and the spec it had.\<close>

lemma upgrade_loop_result:
  "upgrade_loop L S K lsc csc s = (Ret e, t) \<Longrightarrow>
   hlb_Spec (obj t) = hlb_Spec (obj s) \<and>
   sint (LBScope_GetReplicas (obj s)) \<le> sint (LBScope_GetReplicas (obj t)) \<and>
   sint (LBScope_GetReplicas (obj t)) \<le>
     max (sint (LBScope_GetReplicas (obj s))) (sint (LBScope_GetMaxReplicas (obj s))) \<and>
   (e = None \<longrightarrow> sint (LBScope_GetReplicas (obj t)) =
     max (sint (LBScope_GetReplicas (obj s))) (sint (LBScope_GetMaxReplicas (obj s))))"
proof (induction L S K lsc csc s rule: upgrade_loop.induct)
  case (1 L S K lsc csc s)
  show ?case
  proof (cases "sint (LBScope_GetReplicas (obj s)) < sint (LBScope_GetMaxReplicas (obj s))")
    case False
    with 1(2) show ?thesis by (subst (asm) upgrade_loop.simps) auto
  next
    case True
    obtain r u where step: "scaleUpVirtualMachines L S K lsc csc s = (r, u)" by fastforce
    show ?thesis
    proof (cases r)
      case (Panics p)
      with 1(2) True step show ?thesis by (subst (asm) upgrade_loop.simps) simp
    next
      case (Ret e')
      have u: "obj u = (if e' = None then LBScope_AddReplica (obj s) else obj s)"
        using scaleUp_obj [of L S K lsc csc s e' u] step Ret by simp
      have succ: "sint (LBScope_GetReplicas (obj s) + 1) = sint (LBScope_GetReplicas (obj s)) + 1"
        using True int32_max [of "LBScope_GetMaxReplicas (obj s)"] by (intro int32_succ) linarith
      show ?thesis
      proof (cases e')
        case None
        then have run: "upgrade_loop L S K lsc csc u = (Ret e, t)"
          using 1(2) True step Ret by (subst (asm) upgrade_loop.simps) simp
        have "hlb_Spec (LBScope_AddReplica (obj s)) = hlb_Spec (obj s)"
          by (simp add: LBScope_AddReplica_def)
        with 1(1) [OF True step [symmetric] Ret None run] u None succ True show ?thesis by simp
      next
        case (Some err)
        then have "t = u" "e \<noteq> None"
          using 1(2) True step Ret by (subst (asm) upgrade_loop.simps, auto)+
        with u Some True show ?thesis by simp
      qed
    qed
  qed
qed

subsection \<open>The machine to remove, without sorting\<close>

text \<open>
  Scaling down removes the right replica: one of the list, and an outdated one if there is any.
  No outdated replica is older than the chosen one, and when all are up to date no replica at all
  is; the selection fails only on an empty list.
\<close>

lemma selectVirtualMachineForScaleDown_oldest:
  "case selectVirtualMachineForScaleDown lb vmList of
     Inl _ \<Rightarrow> vmList = []
   | Inr vm \<Rightarrow> vm \<in> set vmList \<and>
       (if filter (outdated lb) vmList = []
        then filter (\<lambda>v. VirtualMachines_Less v vm) vmList = []
        else outdated lb vm \<and>
          filter (\<lambda>v. outdated lb v \<and> VirtualMachines_Less v vm) vmList = [])"
proof (cases "vmList = []")
  case True
  then show ?thesis by (simp add: selectVirtualMachineForScaleDown_def)
next
  case False
  let ?vms = "sort_Sort VirtualMachines_Less vmList"
  have "?vms \<noteq> []" using False by (metis set_empty set_sort_Sort)
  then have hd: "?vms ! 0 = hd ?vms" "hd ?vms \<in> set vmList"
    by (simp_all add: hd_conv_nth, metis hd_conv_nth hd_in_set set_sort_Sort)
  show ?thesis
  proof (cases "find (outdated lb) ?vms")
    case None
    then have "filter (outdated lb) vmList = []"
      by (simp add: find_None_iff filter_empty_conv)
    with False None hd vm_order.hd_sort_Sort_least [of _ vmList] show ?thesis
      by (auto simp: selectVirtualMachineForScaleDown_def first_outdated_find filter_empty_conv)
  next
    case (Some vm)
    then have vm: "vm \<in> set vmList" "outdated lb vm"
      by (auto simp: find_Some_iff) (metis nth_mem set_sort_Sort)
    with Some False vm_order.find_sort_Sort_least [OF Some] show ?thesis
      by (auto simp: selectVirtualMachineForScaleDown_def first_outdated_find filter_empty_conv)
  qed
qed

text \<open>A reference definition: one pass that keeps the oldest machine seen so far.\<close>

fun oldest :: "(AzureStackHCIVirtualMachine \<Rightarrow> bool) \<Rightarrow> AzureStackHCIVirtualMachine list \<Rightarrow>
    AzureStackHCIVirtualMachine option" where
  "oldest P [] = None"
| "oldest P (vm # vms) =
     (if \<not> P vm then oldest P vms
      else case oldest P vms of
          None \<Rightarrow> Some vm
        | Some best \<Rightarrow> if VirtualMachines_Less best vm then Some best else Some vm)"

definition removal_choice :: "AzureStackHCILoadBalancer \<Rightarrow> AzureStackHCIVirtualMachine list \<Rightarrow>
    AzureStackHCIVirtualMachine option" where
  "removal_choice lb vms = (case oldest (outdated lb) vms of
      Some vm \<Rightarrow> Some vm
    | None \<Rightarrow> oldest (\<lambda>_. True) vms)"

text \<open>A machine with a property that no other machine with the property is older than.\<close>

definition least_of :: "(AzureStackHCIVirtualMachine \<Rightarrow> bool) \<Rightarrow> AzureStackHCIVirtualMachine list \<Rightarrow>
    AzureStackHCIVirtualMachine \<Rightarrow> bool" where
  "least_of P vms v \<longleftrightarrow> v \<in> set vms \<and> P v \<and> filter (\<lambda>x. P x \<and> VirtualMachines_Less x v) vms = []"

lemma oldest_None: "oldest P vms = None \<longleftrightarrow> filter P vms = []"
  by (induction vms) (auto split: option.splits)

lemma oldest_least: "oldest P vms = Some v \<Longrightarrow> least_of P vms v"
proof (induction vms arbitrary: v)
  case (Cons vm vms)
  show ?case
  proof (cases "P vm")
    case False
    then show ?thesis using Cons by (auto simp: least_of_def)
  next
    case True
    show ?thesis
    proof (cases "oldest P vms")
      case None
      then show ?thesis using Cons.prems True oldest_None [of P vms]
        by (auto simp: least_of_def filter_empty_conv)
    next
      case (Some best)
      note best = Cons.IH [OF Some]
      have "v = best \<and> VirtualMachines_Less best vm \<or> v = vm \<and> \<not> VirtualMachines_Less best vm"
        using Cons.prems True Some by (auto split: if_splits)
      then show ?thesis
        using best True vm_order.asym [of best vm] vm_order.ntrans [of best vm]
        by (auto simp: least_of_def filter_empty_conv)
    qed
  qed
qed simp

text \<open>Among machines with different names the least one is unique.\<close>

lemma least_unique:
  assumes "distinct (map (\<lambda>vm. om_Name (hvm_Meta vm)) vms)" "least_of P vms u" "least_of P vms v"
  shows "u = v"
proof (rule ccontr)
  assume "u \<noteq> v"
  then have "om_Name (hvm_Meta u) \<noteq> om_Name (hvm_Meta v)"
    using assms by (auto simp: least_of_def distinct_map dest: inj_onD)
  then show False
    using VirtualMachines_Less_total [of u v] assms(2,3) by (auto simp: least_of_def filter_empty_conv)
qed

lemma select_least:
  "selectVirtualMachineForScaleDown lb vms = Inr vm \<Longrightarrow>
   least_of (if filter (outdated lb) vms = [] then \<lambda>_. True else outdated lb) vms vm"
  using selectVirtualMachineForScaleDown_oldest [of vms lb] by (simp add: least_of_def split: if_splits)

lemma removal_choice_least:
  "removal_choice lb vms = Some vm \<Longrightarrow>
   least_of (if filter (outdated lb) vms = [] then \<lambda>_. True else outdated lb) vms vm"
  using oldest_None [of "outdated lb" vms]
  by (auto simp: removal_choice_def dest: oldest_least split: option.splits)

lemma least_of_mset: "mset xs = mset ys \<Longrightarrow> least_of P xs = least_of P ys"
  by (rule ext) (auto simp: least_of_def filter_empty_conv dest: mset_eq_setD)

lemma select_eq_choice:
  assumes "distinct (map (\<lambda>vm. om_Name (hvm_Meta vm)) vms)" "vms \<noteq> []"
  obtains vm where "selectVirtualMachineForScaleDown lb vms = Inr vm" "removal_choice lb vms = Some vm"
proof -
  obtain vm where vm: "selectVirtualMachineForScaleDown lb vms = Inr vm"
    using selectVirtualMachineForScaleDown_oldest [of vms lb] assms(2) by (auto split: sum.splits)
  obtain v where v: "removal_choice lb vms = Some v"
    using assms(2) oldest_None [of "\<lambda>_. True" vms]
    by (cases "oldest (outdated lb) vms") (auto simp: removal_choice_def)
  with vm least_unique [OF assms(1) select_least [OF vm] removal_choice_least [OF v]] that show ?thesis by blast
qed

subsection \<open>Properties\<close>

text \<open>
  C23: Scaling down removes the right replica, whatever order the API server lists the replicas in:
  sorting them and scanning for an outdated one selects the same machine as a reference definition
  that needs no order, the oldest outdated replica or, when there is none, the oldest replica.  It
  fails exactly when there is no replica.
\<close>

theorem selectVirtualMachineForScaleDown_reference:
  assumes "distinct (map (\<lambda>vm. om_Name (hvm_Meta vm)) vms)" "mset vms' = mset vms"
  shows "(case selectVirtualMachineForScaleDown lb vms' of Inl _ \<Rightarrow> None | Inr vm \<Rightarrow> Some vm) = removal_choice lb vms"
proof (cases "vms = []")
  case True
  then show ?thesis using assms(2)
    by (simp add: selectVirtualMachineForScaleDown_def removal_choice_def)
next
  case False
  have d: "distinct (map (\<lambda>vm. om_Name (hvm_Meta vm)) vms')"
    using assms by (metis mset_eq_imp_distinct_iff mset_map)
  have "vms' \<noteq> []" using False assms(2) by auto
  obtain vm where vm: "selectVirtualMachineForScaleDown lb vms' = Inr vm" by (rule select_eq_choice [OF d \<open>vms' \<noteq> []\<close>])
  obtain v where v: "removal_choice lb vms = Some v" by (rule select_eq_choice [OF assms(1) False])
  have "filter (outdated lb) vms' = [] \<longleftrightarrow> filter (outdated lb) vms = []"
    using assms(2) by (auto simp: filter_empty_conv dest: mset_eq_setD)
  with select_least [OF vm] have "least_of (if filter (outdated lb) vms = [] then \<lambda>_. True else outdated lb) vms vm"
    by (simp add: least_of_mset [OF assms(2)])
  from least_unique [OF assms(1) this removal_choice_least [OF v]] vm v show ?thesis by simp
qed

theorem selectVirtualMachineForScaleDown_reference_witness:
  "(case selectVirtualMachineForScaleDown (newLoadBalancer ''ns'' ''lb'')
       [newVirtualMachine ''ns'' ''b'', newVirtualMachine ''ns'' ''a''] of Inl _ \<Rightarrow> None | Inr vm \<Rightarrow> Some vm) =
   Some (newVirtualMachine ''ns'' ''a'')"
proof -
  have "removal_choice (newLoadBalancer ''ns'' ''lb'') [newVirtualMachine ''ns'' ''a'', newVirtualMachine ''ns'' ''b''] =
      Some (newVirtualMachine ''ns'' ''a'')" by code_simp
  then show ?thesis
    by (subst selectVirtualMachineForScaleDown_reference
        [of "[newVirtualMachine ''ns'' ''a'', newVirtualMachine ''ns'' ''b'']"])
      (simp_all add: newVirtualMachine_def newMeta_def)
qed

text \<open>
  The replica counts are exact: for fewer than \<open>2 ^ 31\<close> machines the reported number of replicas
  is the number of machines and the number of failed replicas is the number of machines whose
  state is \<open>Failed\<close>, without wrap-around.
\<close>

lemma getMachineReplicaCounts_exact:
  assumes "length vms < 2 ^ 31"
  shows "sint (fst (getMachineReplicaCounts vms)) = int (length vms) \<and>
    sint (snd (getMachineReplicaCounts vms)) =
      int (length (filter (\<lambda>vm. vmst_VMState (hvm_Status vm) = Some VMStateFailed) vms))"
proof -
  have word: "sint (word_of_nat n :: int32) = int n" if "n < 2 ^ 31" for n
    using that by (simp add: signed_of_nat signed_take_bit_int_eq_self)
  have "failed_count n vs = n + word_of_nat (length (filter
      (\<lambda>vm. vmst_VMState (hvm_Status vm) = Some VMStateFailed) vs))" for n vs
    by (induction vs arbitrary: n) (auto split: option.splits)
  moreover have "length (filter (\<lambda>vm. vmst_VMState (hvm_Status vm) = Some VMStateFailed) vms) < 2 ^ 31"
    using assms length_filter_le le_less_trans by blast
  ultimately show ?thesis using assms by (simp add: getMachineReplicaCounts_def word)
qed

text \<open>
  C22: Scaling and upgrading never overshoot: however the steps go, the replica count afterwards is
  at most the larger of the count before and the desired number plus \<open>MaxSurge\<close>.  The desired
  number and the rest of the spec are untouched.
\<close>

theorem scale_or_upgrade_surge:
  "hoare (\<lambda>s. obj s = lb) (scale_or_upgrade L S K lsc csc vms)
     (\<lambda>_ t. sint (LBScope_GetReplicas (obj t)) \<le>
          max (sint (LBScope_GetReplicas lb)) (sint (LBScope_GetDesiredReplicas lb) + sint MaxSurge) \<and>
        hlb_Spec (obj t) = hlb_Spec lb)
     (\<lambda>_. True)"
proof -
  let ?ok = "\<lambda>x. sint (LBScope_GetReplicas x) \<le>
      max (sint (LBScope_GetReplicas lb)) (sint (LBScope_GetDesiredReplicas lb) + 1) \<and>
      hlb_Spec x = hlb_Spec lb"
  have surge: "sint (LBScope_GetMaxReplicas lb) \<le> sint (LBScope_GetDesiredReplicas lb) + 1"
  proof (cases "sint (LBScope_GetDesiredReplicas lb) < 2 ^ 31 - 1")
    case True
    then show ?thesis by (simp add: LBScope_GetMaxReplicas_def MaxSurge_def int32_succ)
  next
    case False
    then show ?thesis using int32_max [of "LBScope_GetMaxReplicas lb"] by simp
  qed
  have up: "?ok (obj t)" if "scaleUpVirtualMachines L S K lsc csc s = (Ret e, t)" "isScaleUpRequired lb"
      "LBScope_GetReplicas (obj s) = LBScope_GetReplicas lb" "hlb_Spec (obj s) = hlb_Spec lb" for s e t
  proof -
    have "sint (LBScope_GetReplicas lb + 1) = sint (LBScope_GetReplicas lb) + 1"
      using that(2) int32_max [of "LBScope_GetDesiredReplicas lb"]
      by (intro int32_succ) (simp add: isScaleUpRequired_def)
    with scaleUp_obj [OF that(1)] that show ?thesis
      by (auto simp: isScaleUpRequired_def LBScope_AddReplica_def LBScope_GetReplicas_def)
  qed
  have down: "?ok (obj t)" if "scaleDownVirtualMachines L K vms s = (Ret e, t)"
      "LBScope_GetReplicas (obj s) = LBScope_GetReplicas lb" "hlb_Spec (obj s) = hlb_Spec lb" for s e t
    using that RemoveReplica_le [of "obj s"] unfolding scaleDownVirtualMachines_def
    by (auto simp: bind_on_world LBScope_RemoveReplica_def split: prod.split_asm res.split_asm
        option.split_asm sum.split_asm)
  have loop: "?ok (obj t)" if "upgrade_loop L S K lsc csc s = (Ret e, t)"
      "LBScope_GetReplicas (obj s) = LBScope_GetReplicas lb" "hlb_Spec (obj s) = hlb_Spec lb"
      "LBScope_GetMaxReplicas (obj s) = LBScope_GetMaxReplicas lb" for s e t
    using upgrade_loop_result [OF that(1)] that(2-4) surge by (auto simp: le_max_iff_disj)
  show ?thesis
    unfolding scale_or_upgrade_def
    by (rule hoareI) (auto simp: run_simps MaxSurge_def dest!: up down loop)
qed

text \<open>
  A machine that is not running blocks every change: as soon as one replica reports why it is
  not running, the reconcile of the replicas only copies that reason and message into the
  \<open>LoadBalancerReplicasReady\<close> condition.  No replica is created, deleted or counted, and the world
  is as the listing left it.
\<close>

lemma failing_machine_blocks:
  assumes "getVirtualMachinesForLoadBalancer K csc (obj s) (world s) = (Ret (Inr vms), w)"
    and "failing_machine L vms = Some cond"
  shows "LB_reconcileVirtualMachines L S M K lsc csc s = (Ret (noResult, None),
    s\<lparr>obj := LB_Set L (mkCondition LoadBalancerReplicasReadyCondition ConditionFalse
        (c_Reason cond) (c_Message cond)) (obj s), world := w\<rparr>)"
  using assms
  by (simp add: LB_reconcileVirtualMachines_def bind_on_world set_replicas_condition_def)

text \<open>
  A replica that was just made or updated is up to date: it carries the load balancer's label,
  so that the listing finds it, its version label agrees with the image of the load balancer, so
  that it asks for no upgrade, the load balancer owns it, and its image is the one selected for
  the load balancer.
\<close>

lemma lbvm_mutateFn_current:
  assumes "lib_ownerrefs L"
  shows "hoare (\<lambda>_. True) (lbvm_mutateFn L lsc csc lb vm)
    (\<lambda>(e, vm') _. case e of
        Some _ \<Rightarrow> True
      | None \<Rightarrow> map_get (om_Labels (hvm_Meta vm')) LoadBalancerLabel = LBScope_Name lb \<and>
          \<not> isUpgradeRequired lb [vm'] \<and>
          \<lparr>or_APIVersion = tm_APIVersion (hlb_TypeMeta lb), or_Kind = tm_Kind (hlb_TypeMeta lb),
            or_Name = om_Name (hlb_Meta lb), or_UID = om_UID (hlb_Meta lb)\<rparr>
            \<in> set (om_OwnerReferences (hvm_Meta vm')) \<and>
          (case vms_Image (hvm_Spec vm') of
             None \<Rightarrow> False
           | Some i \<Rightarrow> getVMImage L lsc lb = Some (Inr i)))
    (\<lambda>_. True)"
proof -
  have "LoadBalancerLabel \<noteq> OSVersionLabelName"
    by (simp add: LoadBalancerLabel_def OSVersionLabelName_def)
  with assms show ?thesis
    unfolding lbvm_mutateFn_def lbvm_mutate_def Let_def
    by (auto intro!: hoareI simp: run_simps outdated_def lib_ownerrefs_def)
qed

end
