(* ===== verification/MachineController.thy ===== *)
theory MachineController
  imports LBMachines
begin

text \<open>
  \<open>controllers/azurestackhcimachine_controller.go\<close> and the annotation helpers beside it: the
  reconcile loop of a machine object, which creates a virtual machine object, waits for it and
  takes its state and conditions over.
\<close>

subsection \<open>The virtual machine object of a machine\<close>

definition Machine_getVMImage :: "lib \<Rightarrow> MachineScope \<Rightarrow> AzureStackHCIMachine \<Rightarrow> goerror + Image" where
  "Machine_getVMImage L sc m =
     (let default = (\<lambda>osType. GetDefaultImage L osType (ma_Version (msc_Machine sc)))
      in case ms_Image (hm_Spec m) of
          None \<Rightarrow> default OSTypeLinux
        | Some i \<Rightarrow> (case img_Name i of
            None \<Rightarrow> default (img_OSType i)
          | Some n \<Rightarrow> if n \<noteq> [] then Inr i else default (img_OSType i)))"

text \<open>
  The mutate function of \<open>reconcileVirtualMachineNormal\<close>, in three steps: owner and cluster, the
  network of the machine's role, and the copied specification.
\<close>

definition machine_vm_owner :: "lib \<Rightarrow> MachineScope \<Rightarrow> ClusterScope \<Rightarrow> AzureStackHCIVirtualMachine \<Rightarrow>
    AzureStackHCIVirtualMachine" where
  "machine_vm_owner L sc csc vm =
     (let ma = msc_Machine sc; hc = csc_before csc; om = hvm_Meta vm in
      vm\<lparr>hvm_Meta := om\<lparr>om_OwnerReferences := lib_EnsureOwnerRef L (om_OwnerReferences om)
           \<lparr>or_APIVersion = tm_APIVersion (ma_TypeMeta ma), or_Kind = tm_Kind (ma_TypeMeta ma),
            or_Name = om_Name (ma_Meta ma), or_UID = om_UID (ma_Meta ma)\<rparr>\<rparr>,
         hvm_Spec := (hvm_Spec vm)
           \<lparr>vms_ResourceGroup := cs_ResourceGroup (hc_Spec hc),
            vms_VnetName := vnet_Name (net_Vnet (cs_NetworkSpec (hc_Spec hc))),
            vms_ClusterName := om_Name (hc_Meta hc)\<rparr>\<rparr>)"

definition machine_vm_network :: "lib \<Rightarrow> MachineScope \<Rightarrow> ClusterScope \<Rightarrow> AzureStackHCIMachine \<Rightarrow>
    AzureStackHCIVirtualMachine \<Rightarrow> goerror + AzureStackHCIVirtualMachine" where
  "machine_vm_network L sc csc m vm =
     (let role = MachineScope_Role L sc; name = ClusterScope_Name csc;
          hasLB = ClusterScope_AzureStackHCILoadBalancer (csc_before csc) \<noteq> None;
          finish = (\<lambda>subnet backendPoolNames. Inr (vm\<lparr>hvm_Spec := (hvm_Spec vm)
            \<lparr>vms_SubnetName := subnet,
             vms_BackendPoolNames :=
               (if hasLB then backendPoolNames @ [GenerateBackendPoolName name]
                else backendPoolNames)\<rparr>\<rparr>))
      in if role = Node then finish (GenerateNodeSubnetName name) []
         else if role = ControlPlane
         then finish (GenerateControlPlaneSubnetName name)
           (if hasLB then [GenerateControlPlaneBackendPoolName name] else [])
         else Inl (ErrorNew (''unknown value '' @ role @ '' for label `set` on machine '' @
           MachineScope_Name m @ '', unable to create virtual machine resource'')))"

definition machine_vm_spec :: "AzureStackHCIMachine \<Rightarrow> string \<Rightarrow> Image \<Rightarrow> AzureStackHCIVirtualMachine \<Rightarrow>
    AzureStackHCIVirtualMachine" where
  "machine_vm_spec m bootstrapData i vm =
     (let ms = hm_Spec m; vs = hvm_Spec vm in
      vm\<lparr>hvm_Spec := vs
           \<lparr>vms_Image := Some i, vms_VMSize := ms_VMSize ms, vms_GpuCount := ms_GpuCount ms,
            vms_AvailabilityZone := (case ms_AvailabilityZone ms of
               None \<Rightarrow> vms_AvailabilityZone vs | Some az \<Rightarrow> Some az),
            vms_OSDisk := (case ms_OSDisk ms of None \<Rightarrow> vms_OSDisk vs | Some d \<Rightarrow> Some d),
            vms_Location := ms_Location ms, vms_SSHPublicKey := ms_SSHPublicKey ms,
            vms_BootstrapData := Some bootstrapData, vms_AdditionalSSHKeys := ms_AdditionalSSHKeys ms,
            vms_StorageContainer := ms_StorageContainer ms,
            vms_AvailabilitySetName := ms_AvailabilitySetName ms,
            vms_PlacementGroupName := ms_PlacementGroupName ms,
            vms_NetworkInterfaces := ms_NetworkInterfaces ms\<rparr>,
         hvm_Meta := CopyCorrelationID (hm_Meta m) (hvm_Meta vm)\<rparr>)"

definition machine_vm_mutateFn :: "lib \<Rightarrow> 'w kube \<Rightarrow> MachineScope \<Rightarrow> ClusterScope \<Rightarrow> AzureStackHCIMachine \<Rightarrow>
    AzureStackHCIVirtualMachine \<Rightarrow> ('w, goerror option \<times> AzureStackHCIVirtualMachine) io" where
  "machine_vm_mutateFn L K sc csc m vm =
     (let vm = machine_vm_owner L sc csc vm in
      case machine_vm_network L sc csc m vm of
        Inl err \<Rightarrow> return (Some err, vm)
      | Inr vm \<Rightarrow> bind (MachineScope_GetBootstrapData K sc m) (\<lambda>r. case r of
          Inl err \<Rightarrow> return (Some (Wrap ''failed to retrieve bootstrap data'' err), vm)
        | Inr bootstrapData \<Rightarrow> (case Machine_getVMImage L sc m of
            Inl err \<Rightarrow> return (Some (Wrap ''failed to get VM image'' err), vm)
          | Inr i \<Rightarrow> return (None, machine_vm_spec m bootstrapData i vm))))"

definition reconcileVirtualMachineNormal :: "lib \<Rightarrow> 'w kube \<Rightarrow> MachineScope \<Rightarrow> ClusterScope \<Rightarrow>
    AzureStackHCIMachine \<Rightarrow> ('w, goerror + AzureStackHCIVirtualMachine) io" where
  "reconcileVirtualMachineNormal L K sc csc m =
     (let ns = ClusterScope_Namespace csc; name = MachineScope_Name m;
          get = k_Get_VM K (mkKey ns name)
      in bind (k_CreateOrUpdate_VM K (newVirtualMachine ns name) (machine_vm_mutateFn L K sc csc m))
        (\<lambda>(operationResult, e, vm). case e of
            None \<Rightarrow> get
          | Some err \<Rightarrow> if err_IsAlreadyExists L err then get
              else return (Inl (Wrap (''failed to CreateOrUpdate AzureStackHCIVirtualMachine '' @
                om_Name (hvm_Meta vm)) err))))"

definition reconcileVirtualMachineDelete :: "lib \<Rightarrow> 'w kube \<Rightarrow> ClusterScope \<Rightarrow> AzureStackHCIMachine \<Rightarrow>
    ('w, Result \<times> goerror option) io" where
  "reconcileVirtualMachineDelete L K csc m =
     (let ns = ClusterScope_Namespace csc; name = MachineScope_Name m; vmName = ns @ ''/'' @ name;
          wait = \<lparr>Requeue = False, RequeueAfter = 15\<rparr>
      in bind (k_Get_VM K (mkKey ns name)) (\<lambda>r. case r of
          Inl err \<Rightarrow> if \<not> err_IsNotFound L err
            then return (noResult, Some (Wrap (''failed to get AzureStackHCIVirtualMachine '' @ vmName) err))
            else return (noResult, None)
        | Inr vm \<Rightarrow> if \<not> DeletionTimestamp_IsZero (hvm_Meta vm) then return (wait, None)
            else bind (k_Update_VM K (vm\<lparr>hvm_Meta := CopyCorrelationID (hm_Meta m) (hvm_Meta vm)\<rparr>))
              (\<lambda>(e, vm). case e of
                Some err \<Rightarrow> return (noResult, Some (Wrap
                  (''failed to update AzureStackHCIVirtualMachine '' @ vmName) err))
              | None \<Rightarrow> bind (k_Delete_VM K vm) (\<lambda>e. case e of
                  None \<Rightarrow> return (wait, None)
                | Some err \<Rightarrow> if \<not> err_IsNotFound L err
                    then return (noResult, Some (Wrap
                      (''failed to delete AzureStackHCIVirtualMachine '' @ vmName) err))
                    else return (wait, None)))))"

subsection \<open>Reconciling a machine\<close>

definition Machine_addFinalizer :: "lib \<Rightarrow> AzureStackHCIMachine \<Rightarrow> AzureStackHCIMachine" where
  "Machine_addFinalizer L m = m\<lparr>hm_Meta := (hm_Meta m)\<lparr>om_Finalizers :=
     lib_AddFinalizer L (om_Finalizers (hm_Meta m)) MachineFinalizer\<rparr>\<rparr>"

definition Machine_removeFinalizer :: "lib \<Rightarrow> AzureStackHCIMachine \<Rightarrow> AzureStackHCIMachine" where
  "Machine_removeFinalizer L m = m\<lparr>hm_Meta := (hm_Meta m)\<lparr>om_Finalizers :=
     lib_RemoveFinalizer L (om_Finalizers (hm_Meta m)) MachineFinalizer\<rparr>\<rparr>"

definition Machine_validateUpdate :: "AzureStackHCIMachineSpec \<Rightarrow> AzureStackHCIVirtualMachine \<Rightarrow>
    goerror list" where
  "Machine_validateUpdate spec i = []"

text \<open>Does the cluster's infrastructure claim to be provisioned?\<close>

definition infrastructure_provisioned :: "AzureStackHCICluster \<Rightarrow> bool" where
  "infrastructure_provisioned hc = (case cst_Initialization (hc_Status hc) of
      None \<Rightarrow> False
    | Some i \<Rightarrow> (case ci_Provisioned i of None \<Rightarrow> False | Some b \<Rightarrow> b))"

text \<open>The loop that merges the conditions of the virtual machine.\<close>

fun merge_conditions :: "lib \<Rightarrow> Condition list \<Rightarrow> AzureStackHCIMachine \<Rightarrow> AzureStackHCIMachine" where
  "merge_conditions L [] m = m"
| "merge_conditions L (vmCond # cs) m = merge_conditions L cs (Machine_Set L vmCond m)"

text \<open>The switch on the state of the virtual machine.\<close>

definition machine_applyState :: "lib \<Rightarrow>
    (('w, AzureStackHCIMachine) rstate, Result \<times> goerror option) io" where
  "machine_applyState L = bind (reads obj) (\<lambda>m. case MachineScope_GetVMState m of
      None \<Rightarrow> panic ''nil pointer dereference''
    | Some st \<Rightarrow>
        if st = VMStateSucceeded
        then bind (upd_obj MachineScope_SetReady) (\<lambda>_.
          bind (upd_obj (Machine_Set L (mkCondition VMRunningCondition ConditionTrue ''VMRunning'' []))) (\<lambda>_.
          return (noResult, None)))
        else if st = VMStateUpdating
        then bind (upd_obj (Machine_Set L (mkCondition VMRunningCondition ConditionFalse ''VMUpdating'' [])))
          (\<lambda>_. return (noResult, None))
        else bind (upd_obj (Machine_Set L (mkCondition VMRunningCondition ConditionFalse
            VMProvisionFailedReason (''AzureStackHCI VM state '' @ quote st @ '' is unexpected''))))
          (\<lambda>_. return (noResult, None)))"

text \<open>From the validation to the end of \<open>reconcileNormal\<close>.\<close>

definition machine_applyVM :: "lib \<Rightarrow> AzureStackHCIVirtualMachine \<Rightarrow>
    (('w, AzureStackHCIMachine) rstate, Result \<times> goerror option) io" where
  "machine_applyVM L vm = bind (reads obj) (\<lambda>m.
     let errs = Machine_validateUpdate (hm_Spec m) vm in
     if length errs > 0
     then bind (Eventf EventTypeWarning ''InvalidUpdate'' (''Invalid update: '' @ err_Aggregate L errs)) (\<lambda>_.
       return (noResult, None))
     else bind (upd_obj (MachineScope_SetProviderID (''moc://'' @ om_Name (hvm_Meta vm)))) (\<lambda>_.
       bind (upd_obj (MachineScope_SetAnnotation ''cluster-api-provider-azurestackhci'' ''true'')) (\<lambda>_.
       bind (upd_obj (merge_conditions L (vmst_Conditions (hvm_Status vm)))) (\<lambda>_.
       case vmst_VMState (hvm_Status vm) of
         None \<Rightarrow> return (requeueAfter 60, None)
       | Some st \<Rightarrow> bind (MachineScope_SetVMState (Some st)) (\<lambda>_. machine_applyState L)))))"

definition Machine_reconcileNormal :: "lib \<Rightarrow> 'w kube \<Rightarrow> MachineScope \<Rightarrow> ClusterScope \<Rightarrow>
    (('w, AzureStackHCIMachine) rstate, Result \<times> goerror option) io" where
  "Machine_reconcileNormal L K sc csc = bind (upd_obj (Machine_addFinalizer L)) (\<lambda>_.
     bind (MachineScope_PatchObject K sc) (\<lambda>e. case e of
       Some err \<Rightarrow> return (noResult, Some err)
     | None \<Rightarrow>
         if \<not> infrastructure_provisioned (csc_before csc) then return (noResult, None)
         else (case ma_DataSecretName (msc_Machine sc) of
           None \<Rightarrow> return (noResult, None)
         | Some _ \<Rightarrow> bind (reads obj) (\<lambda>m.
             bind (on_world (reconcileVirtualMachineNormal L K sc csc m)) (\<lambda>r. case r of
               Inl err \<Rightarrow> return (noResult, Some err)
             | Inr vm \<Rightarrow> machine_applyVM L vm)))))"

definition Machine_reconcileDelete :: "lib \<Rightarrow> 'w kube \<Rightarrow> ClusterScope \<Rightarrow>
    (('w, AzureStackHCIMachine) rstate, Result \<times> goerror option) io" where
  "Machine_reconcileDelete L K csc = bind (reads obj) (\<lambda>m.
     bind (on_world (reconcileVirtualMachineDelete L K csc m)) (\<lambda>(result, e).
       if e \<noteq> None \<or> RequeueAfter result > 0 then return (result, e)
       else bind (upd_obj (Machine_removeFinalizer L)) (\<lambda>_. return (noResult, None))))"

definition Machine_Reconcile :: "lib \<Rightarrow> 'w sys \<Rightarrow> 'w kube \<Rightarrow> ObjectKey \<Rightarrow>
    (('w, unit) rstate, Result \<times> goerror option) io" where
  "Machine_Reconcile L S K req = bind (on_world (k_Get_HMachine K req)) (\<lambda>r. case r of
      Inl err \<Rightarrow> if err_IsNotFound L err then return (noResult, None)
        else return (noResult, Some err)
    | Inr m \<Rightarrow> bind (on_world (k_GetOwnerMachine K (hm_Meta m))) (\<lambda>r. case r of
        Inl err \<Rightarrow> return (noResult, Some err)
      | Inr None \<Rightarrow> return (noResult, None)
      | Inr (Some machine) \<Rightarrow> bind (on_world (k_GetClusterFromMetadata K (ma_Meta machine))) (\<lambda>r. case r of
          Inl _ \<Rightarrow> return (noResult, None)
        | Inr cluster \<Rightarrow> bind (on_world (k_Get_HCluster K
              (mkKey (om_Namespace (hm_Meta m)) (cl_InfrastructureRef_Name cluster)))) (\<lambda>r. case r of
            Inl _ \<Rightarrow> return (noResult, None)
          | Inr hcluster \<Rightarrow> bind (on_world (NewClusterScope L S K (Some cluster) (Some hcluster)))
              (\<lambda>r. case r of
              Inl err \<Rightarrow>
                bind (Eventf EventTypeWarning ''CreateClusterScopeFailed''
                  (err_Error L (Wrap ''failed to create cluster scope'' err))) (\<lambda>_.
                return (noResult, Some err))
            | Inr csc \<Rightarrow> bind (on_world (NewMachineScope K (Some machine) (Some cluster) (Some hcluster)
                  (Some m))) (\<lambda>r. case r of
                Inl err \<Rightarrow>
                  bind (Eventf EventTypeWarning ''FailureCreateMachineScope''
                    (err_Error L (Wrap ''failed to create machine scope'' err))) (\<lambda>_.
                  return (noResult, Some (ErrorNew (''failed to create scope: '' @ err_Plus L err))))
              | Inr sc \<Rightarrow> with_obj m (close_after (MachineScope_Close K sc)
                  (if \<not> DeletionTimestamp_IsZero (hm_Meta m)
                   then Machine_reconcileDelete L K csc
                   else Machine_reconcileNormal L K sc csc))))))))"

subsection \<open>Requests for the machines of a cluster\<close>

fun machine_requests :: "ObjectKey list \<Rightarrow> Machine list \<Rightarrow> ObjectKey list" where
  "machine_requests result [] = result"
| "machine_requests result (m # ms) =
     (if ma_InfrastructureRef_Name m = [] then machine_requests result ms
      else machine_requests (result @ [mkKey (om_Namespace (ma_Meta m)) (ma_InfrastructureRef_Name m)]) ms)"

text \<open>The argument is \<open>None\<close> for an object of another type; a nil slice is the empty list.\<close>

definition AzureStackHCIClusterToAzureStackHCIMachines :: "'w kube \<Rightarrow> AzureStackHCICluster option \<Rightarrow>
    ('w, ObjectKey list) io" where
  "AzureStackHCIClusterToAzureStackHCIMachines K c = (case c of
      None \<Rightarrow> return []
    | Some c \<Rightarrow> bind (k_GetOwnerCluster K (hc_Meta c)) (\<lambda>r. case r of
        Inl _ \<Rightarrow> return []
      | Inr None \<Rightarrow> return []
      | Inr (Some cluster) \<Rightarrow> bind (k_List_Machines K (om_Namespace (hc_Meta c))
            [(ClusterNameLabel, om_Name (cl_Meta cluster))]) (\<lambda>r. case r of
          Inl _ \<Rightarrow> return []
        | Inr items \<Rightarrow> return (machine_requests [] items))))"

subsection \<open>Annotations\<close>

text \<open>
  Writing to the annotations of a machine that has none is a write to a nil map, which panics.
  \<open>json.Marshal\<close> is the parameter \<open>marshal\<close>.
\<close>

definition updateMachineAnnotation :: "AzureStackHCIMachine \<Rightarrow> string \<Rightarrow> string \<Rightarrow>
    AzureStackHCIMachine res" where
  "updateMachineAnnotation m annotation content = (case om_Annotations (hm_Meta m) of
      None \<Rightarrow> Panics ''assignment to entry in nil map''
    | Some _ \<Rightarrow> Ret (m\<lparr>hm_Meta := (hm_Meta m)\<lparr>om_Annotations :=
        map_put (om_Annotations (hm_Meta m)) annotation content\<rparr>\<rparr>))"

definition updateMachineAnnotationJSON :: "('json \<Rightarrow> goerror + string) \<Rightarrow> AzureStackHCIMachine \<Rightarrow>
    string \<Rightarrow> 'json \<Rightarrow> (goerror + AzureStackHCIMachine) res" where
  "updateMachineAnnotationJSON marshal m annotation content = (case marshal content of
      Inl err \<Rightarrow> Ret (Inl err)
    | Inr b \<Rightarrow> (case updateMachineAnnotation m annotation b of
        Ret m \<Rightarrow> Ret (Inr m) | Panics p \<Rightarrow> Panics p))"

definition machineAnnotation :: "AzureStackHCIMachine \<Rightarrow> string \<Rightarrow> string" where
  "machineAnnotation m annotation = map_get (om_Annotations (hm_Meta m)) annotation"

definition machineAnnotationJSON :: "(string \<Rightarrow> goerror + 'json) \<Rightarrow> 'json \<Rightarrow> AzureStackHCIMachine \<Rightarrow>
    string \<Rightarrow> goerror + 'json" where
  "machineAnnotationJSON unmarshal out m annotation =
     (let jsonAnnotation = machineAnnotation m annotation in
      if length jsonAnnotation = 0 then Inr out
      else case unmarshal jsonAnnotation of Inl err \<Rightarrow> Inl err | Inr x \<Rightarrow> Inr x)"

subsection \<open>Facts about the status\<close>

lemma merge_conditions_fold: "merge_conditions L cs m = fold (Machine_Set L) cs m"
  by (induction cs arbitrary: m) auto

lemma Machine_Set_frame [simp]:
  "hm_Meta (Machine_Set L c m) = hm_Meta m" "hm_Spec (Machine_Set L c m) = hm_Spec m"
  "mst_Ready (hm_Status (Machine_Set L c m)) = mst_Ready (hm_Status m)"
  "mst_VMState (hm_Status (Machine_Set L c m)) = mst_VMState (hm_Status m)"
  "mst_Initialization (hm_Status (Machine_Set L c m)) = mst_Initialization (hm_Status m)"
  by (simp_all add: conditions_Set_def Machine_SetConditions_def)

lemma merge_conditions_frame [simp]:
  "hm_Meta (merge_conditions L cs m) = hm_Meta m" "hm_Spec (merge_conditions L cs m) = hm_Spec m"
  "mst_Ready (hm_Status (merge_conditions L cs m)) = mst_Ready (hm_Status m)"
  "mst_VMState (hm_Status (merge_conditions L cs m)) = mst_VMState (hm_Status m)"
  "mst_Initialization (hm_Status (merge_conditions L cs m)) = mst_Initialization (hm_Status m)"
  by (induction cs arbitrary: m) auto

lemma MachineScope_setters_conditions [simp]:
  "Machine_GetConditions (MachineScope_SetProviderID v m) = Machine_GetConditions m"
  "Machine_GetConditions (MachineScope_SetAnnotation k a m) = Machine_GetConditions m"
  "Machine_GetConditions (MachineScope_SetReady m) = Machine_GetConditions m"
  "Machine_GetConditions (m\<lparr>hm_Status := (hm_Status m)\<lparr>mst_VMState := st\<rparr>\<rparr>) = Machine_GetConditions m"
  by (simp_all add: Machine_GetConditions_def MachineScope_SetProviderID_def MachineScope_SetAnnotation_def
      MachineScope_SetReady_def Let_def)

lemma MachineScope_setters_frame [simp]:
  "hm_Spec (MachineScope_SetAnnotation k a m) = hm_Spec m"
  "hm_Status (MachineScope_SetAnnotation k a m) = hm_Status m"
  "hm_Status (MachineScope_SetProviderID v m) = hm_Status m"
  "ms_ProviderID (hm_Spec (MachineScope_SetProviderID v m)) = Some v"
  "hm_Spec (MachineScope_SetReady m) = hm_Spec m"
  "mst_VMState (hm_Status (MachineScope_SetReady m)) = mst_VMState (hm_Status m)"
  by (simp_all add: MachineScope_SetProviderID_def MachineScope_SetAnnotation_def
      MachineScope_SetReady_def Let_def)

text \<open>How the deletion of the virtual machine object ends: it goes on, it failed, or the object is gone.\<close>

lemma reconcileVirtualMachineDelete_outcome:
  assumes "reconcileVirtualMachineDelete L K csc m w0 = (Ret (res, e), w)"
  shows "case e of
      None \<Rightarrow> RequeueAfter res = 15 \<or> res = noResult \<and>
        (\<exists>err. k_Get_VM K (mkKey (ClusterScope_Namespace csc) (MachineScope_Name m)) w0 =
          (Ret (Inl err), w) \<and> err_IsNotFound L err)
    | Some _ \<Rightarrow> res = noResult"
  using assms unfolding reconcileVirtualMachineDelete_def Let_def
  by (auto simp: run_simps split: if_splits)

subsection \<open>Properties\<close>

text \<open>
  C29: A machine takes its state from its virtual machine, whatever its own conditions were before.
  It gets the provider id of the virtual machine; without a state of the virtual machine the
  request is queued again; otherwise the state is copied, the machine is ready afterwards exactly
  if it was ready before or the state is \<open>Succeeded\<close>, and \<open>VMRunning\<close> is true exactly for
  \<open>Succeeded\<close>.  No error and no panic is possible here.
\<close>

theorem machine_applyVM_state:
  assumes "lib_conditions L"
  shows "hoare (\<lambda>s. obj s = m) (machine_applyVM L vm)
    (\<lambda>(res, e) t. e = None \<and>
      ms_ProviderID (hm_Spec (obj t)) = Some (''moc://'' @ om_Name (hvm_Meta vm)) \<and>
      (case vmst_VMState (hvm_Status vm) of
         None \<Rightarrow> res = requeueAfter 60 \<and> mst_Ready (hm_Status (obj t)) = mst_Ready (hm_Status m)
       | Some st \<Rightarrow> res = noResult \<and> mst_VMState (hm_Status (obj t)) = Some st \<and>
           mst_Ready (hm_Status (obj t)) = (mst_Ready (hm_Status m) \<or> st = VMStateSucceeded) \<and>
           cond_IsFalse L (Machine_GetConditions (obj t)) VMRunningCondition = (st \<noteq> VMStateSucceeded)))
    (\<lambda>_. False)"
proof -
  have IsFalse: "cond_IsFalse L (cond_Set L cs (mkCondition VMRunningCondition st r msg)) VMRunningCondition =
      (st = ConditionFalse)" for cs st r msg
    using IsFalse_Set [OF assms, of cs "mkCondition VMRunningCondition st r msg"] by simp
  show ?thesis
    unfolding machine_applyVM_def machine_applyState_def MachineScope_SetVMState_def
      Machine_validateUpdate_def hoare_def
    by (auto simp: IsFalse MachineScope_GetVMState_def split: option.splits)
qed

theorem machine_applyVM_state_witness:
  "hoare (\<lambda>s. obj s = hmachine0) (machine_applyVM lib0 (newVirtualMachine ''ns'' ''m'') :: ((unit, _) rstate, _) io)
    (\<lambda>(res, e) t. e = None \<and> ms_ProviderID (hm_Spec (obj t)) = Some ''moc://m'' \<and> res = requeueAfter 60 \<and>
       \<not> mst_Ready (hm_Status (obj t)))
    (\<lambda>_. False)"
  by (rule hoare_weaken [OF machine_applyVM_state [OF lib0_conditions, of hmachine0
          "newVirtualMachine ''ns'' ''m''"]])
    (auto simp: newVirtualMachine_def newMeta_def hmachine0_def)

text \<open>
  Taking over the conditions of the virtual machine cannot make the conditions of the machine
  grow without bound: afterwards its condition types are the ones it had, the ones of the virtual
  machine, and at most \<open>VMRunning\<close>, each type once if that was so before; reconciling again with the
  same virtual machine adds no type.
\<close>

lemma machine_applyVM_conditions:
  assumes "lib_conditions L" "distinct (map c_Type (Machine_GetConditions m))"
  shows "hoare (\<lambda>s. obj s = m) (machine_applyVM L vm)
    (\<lambda>_ t. distinct (map c_Type (Machine_GetConditions (obj t))) \<and>
      c_Type ` set (Machine_GetConditions (obj t)) =
        c_Type ` set (Machine_GetConditions m) \<union> c_Type ` set (vmst_Conditions (hvm_Status vm)) \<union>
        (if vmst_VMState (hvm_Status vm) = None then {} else {VMRunningCondition}))
    (\<lambda>_. True)"
proof -
  let ?cs = "vmst_Conditions (hvm_Status vm)"
  have merged: "c_Type ` set (Machine_GetConditions (merge_conditions L ?cs x)) =
        c_Type ` set ?cs \<union> c_Type ` set (Machine_GetConditions x)"
      "distinct (map c_Type (Machine_GetConditions x)) \<Longrightarrow>
       distinct (map c_Type (Machine_GetConditions (merge_conditions L ?cs x)))" for x
    using assms(1) by (simp_all add: merge_conditions_fold machine_conditions.fold_Set_types
        machine_conditions.fold_Set_distinct)
  show ?thesis
    unfolding machine_applyVM_def machine_applyState_def MachineScope_SetVMState_def
      Machine_validateUpdate_def hoare_def
    using assms
    by (auto simp: merged types_Set [OF assms(1)] distinct_Set [OF assms(1)] MachineScope_GetVMState_def
        split: option.splits)
qed

text \<open>
  C13: The finalizer of a machine object is removed only when its virtual machine object is gone:
  the lookup by the cluster's namespace and the machine's name answered \<open>NotFound\<close>.  In every
  other case, whether the deletion was requested, is in progress or failed, the object is
  untouched, and without an error the request comes back after fifteen seconds.
\<close>

theorem Machine_reconcileDelete_finalizer:
  assumes "lib_finalizers L"
  shows "hoare (\<lambda>s. obj s = m \<and> world s = w0) (Machine_reconcileDelete L K csc)
    (\<lambda>(res, e) t.
      if e = None \<and> RequeueAfter res = 0
      then MachineFinalizer \<notin> set (om_Finalizers (hm_Meta (obj t))) \<and>
        (\<exists>err. k_Get_VM K (mkKey (ClusterScope_Namespace csc) (MachineScope_Name m)) w0 =
          (Ret (Inl err), world t) \<and> err_IsNotFound L err)
      else obj t = m \<and> (case e of None \<Rightarrow> RequeueAfter res = 15 | Some _ \<Rightarrow> res = noResult))
    (\<lambda>t. obj t = m)"
proof -
  have removed: "MachineFinalizer \<notin> set (om_Finalizers (hm_Meta (Machine_removeFinalizer L x)))" for x
    using assms by (simp add: Machine_removeFinalizer_def lib_finalizers_def)
  note vm = reconcileVirtualMachineDelete_outcome
  show ?thesis
    unfolding Machine_reconcileDelete_def hoare_def
    by (auto simp: bind_on_world removed noResult_def split: prod.splits res.splits option.splits dest!: vm)
qed

theorem Machine_reconcileDelete_finalizer_witness:
  "hoare (\<lambda>s. obj s = hmachine0 \<and> world s = ()) (Machine_reconcileDelete lib0 kube0 csc0)
    (\<lambda>(res, e) t.
      if e = None \<and> RequeueAfter res = 0
      then MachineFinalizer \<notin> set (om_Finalizers (hm_Meta (obj t)))
      else obj t = hmachine0)
    (\<lambda>t. obj t = hmachine0)"
  by (rule hoare_weaken [OF Machine_reconcileDelete_finalizer [OF lib0_finalizers, of hmachine0 "()"]])
    (auto split: if_splits)

text \<open>
  No virtual machine object is made too early: as long as the cluster's infrastructure is not
  provisioned, or the machine has no bootstrap secret, a reconcile registers the finalizer,
  persists it and stops, and the world is as that patch left it.
\<close>

lemma Machine_reconcileNormal_gate:
  assumes "\<not> infrastructure_provisioned (csc_before csc) \<or> ma_DataSecretName (msc_Machine sc) = None"
    and "k_Patch_HMachine K (msc_before sc) (Machine_addFinalizer L (obj s)) (world s) = (Ret None, w)"
  shows "Machine_reconcileNormal L K sc csc s =
    (Ret (noResult, None), s\<lparr>obj := Machine_addFinalizer L (obj s), world := w\<rparr>)"
  using assms
  by (auto simp: Machine_reconcileNormal_def MachineScope_PatchObject_def bind_def on_world_app upd_obj_def)

text \<open>
  C26: The network of a machine follows its role: the role is always known, the virtual machine
  joins the cluster's backend pool exactly if the cluster has a load balancer, the control plane
  pool exactly if it is a control plane machine besides, and each pool once; its subnet is the
  control plane's exactly for a control plane machine.
\<close>

theorem machine_vm_network_role:
  "case machine_vm_network L sc csc m vm of
     Inl _ \<Rightarrow> False
   | Inr vm' \<Rightarrow>
       distinct (vms_BackendPoolNames (hvm_Spec vm')) \<and>
       (GenerateBackendPoolName (ClusterScope_Name csc) \<in> set (vms_BackendPoolNames (hvm_Spec vm'))) =
         (cs_AzureStackHCILoadBalancer (hc_Spec (csc_before csc)) \<noteq> None) \<and>
       (GenerateControlPlaneBackendPoolName (ClusterScope_Name csc) \<in> set (vms_BackendPoolNames (hvm_Spec vm'))) =
         (cs_AzureStackHCILoadBalancer (hc_Spec (csc_before csc)) \<noteq> None \<and> MachineScope_IsControlPlane L sc) \<and>
       (vms_SubnetName (hvm_Spec vm') = GenerateControlPlaneSubnetName (ClusterScope_Name csc)) =
         MachineScope_IsControlPlane L sc"
  by (auto simp: machine_vm_network_def Let_def MachineScope_Role_def MachineScope_IsControlPlane_def
      ClusterScope_AzureStackHCILoadBalancer_def Node_def ControlPlane_def
      GenerateBackendPoolName_def GenerateControlPlaneBackendPoolName_def
      GenerateControlPlaneSubnetName_def GenerateNodeSubnetName_def)

end
