(* ===== verification/Lifecycle.thy ===== *)
theory Lifecycle
  imports Ownership VMController MachineController
begin

text \<open>
  The ownership discipline of the virtual machine controller: whatever it has in the cloud is
  accounted for by an object that the API server cannot let go.  The life of one virtual machine
  object is a sequence of complete reconciles, interleaved with steps of users, of the API server
  and of other controllers.
\<close>

subsection \<open>The API server and the cloud, as one object sees them\<close>

text \<open>The cloud resources of a machine \<open>n\<close> in the group \<open>g\<close>.\<close>

definition vm_resources :: "string \<Rightarrow> string \<Rightarrow> resource set" where
  "vm_resources g n = {(KVM, g, n), (KNIC, g, GenerateNICName n), (KDisk, g, GenerateOSDiskName n)}"

text \<open>What the resources of an object are found by.\<close>

definition vm_ident :: "AzureStackHCIVirtualMachine \<Rightarrow> string \<times> string" where
  "vm_ident m = (VMScope_GetResourceGroup m, VMScope_Name m)"

text \<open>
  The laws for the object under \<open>key\<close>: \<open>stored\<close> is what the API server keeps under it, \<open>present\<close> the
  resources that may exist in the cloud.
\<close>

definition vm_api :: "lib \<Rightarrow> 'w sys \<Rightarrow> 'w moc \<Rightarrow> 'w kube \<Rightarrow> ObjectKey \<Rightarrow>
    ('w \<Rightarrow> AzureStackHCIVirtualMachine option) \<Rightarrow> ('w \<Rightarrow> resource set) \<Rightarrow> bool" where
  "vm_api L S M K key stored present \<longleftrightarrow>
     (\<forall>v. access_only S K (\<lambda>w. (stored w, present w) = v)) \<and>
     (\<forall>v. reads_only S K (\<lambda>w. (stored w, present w) = v)) \<and> (\<forall>x. random_only S (\<lambda>w. stored w = x)) \<and>
     (\<forall>x. cloud_keeps M (\<lambda>w. stored w = x)) \<and>
     (\<forall>g n. deletes L present (KVM, g, n) (m_Delete_VM M g n)) \<and>
     (\<forall>g n. deletes L present (KNIC, g, n) (m_Delete_NIC M g n)) \<and>
     (\<forall>g c n. deletes L present (KDisk, g, n) (m_Delete_Disk M g c n)) \<and>
     (\<forall>v. preserves (m_GetVersion M) (\<lambda>w. (stored w, present w) = v)) \<and>
     (\<forall>v. preserves (k_Get_VM K key) (\<lambda>w. (stored w, present w) = v)) \<and>
     (\<forall>w m w'. k_Get_VM K key w = (Ret (Inr m), w') \<longrightarrow> stored w = Some m \<and> VMScope_Name m = key_Name key) \<and>
     (\<forall>w err w'. k_Get_VM K key w = (Ret (Inl err), w') \<and> err_IsNotFound L err \<longrightarrow> stored w = None) \<and>
     patches hvm_Meta vm_ident stored present (k_Patch_VM K)"

text \<open>Nothing of the machine is in the cloud unless its object is there and held by the finalizer.\<close>

abbreviation accounted :: "string \<Rightarrow> string \<Rightarrow> AzureStackHCIVirtualMachine option \<Rightarrow> resource set \<Rightarrow> bool" where
  "accounted g n \<equiv> covers hvm_Meta VirtualMachineFinalizer vm_ident (g, n) (vm_resources g n)"

text \<open>The life of a virtual machine object.\<close>

abbreviation vm_step :: "lib \<Rightarrow> 'w sys \<Rightarrow> 'w moc \<Rightarrow> 'w kube \<Rightarrow> ObjectKey \<Rightarrow> string \<Rightarrow>
    ('w \<Rightarrow> AzureStackHCIVirtualMachine option) \<Rightarrow> ('w \<Rightarrow> resource set) \<Rightarrow>
    ('w, unit) rstate \<Rightarrow> ('w, unit) rstate \<Rightarrow> bool" where
  "vm_step L S M K key g stored present \<equiv> life_step (VM_Reconcile L S M K key)
     (bystander hvm_Meta VirtualMachineFinalizer vm_ident (g, key_Name key) (vm_resources g (key_Name key)) stored present)"

subsection \<open>What the parts of a reconcile keep\<close>

lemma vm_api_laws:
  assumes "vm_api L S M K key stored present"
  shows "access_only S K (\<lambda>w. (stored w, present w) = v)" "preserves (m_GetVersion M) (\<lambda>w. (stored w, present w) = v)"
    "reads_only S K (\<lambda>w. (stored w, present w) = v)" "random_only S (\<lambda>w. stored w = x)" "cloud_keeps M (\<lambda>w. stored w = x)"
    "deletes L present (KVM, g, n) (m_Delete_VM M g n)" "deletes L present (KNIC, g, n) (m_Delete_NIC M g n)"
    "deletes L present (KDisk, g, n) (m_Delete_Disk M g c n)" "preserves (k_Get_VM K key) (\<lambda>w. (stored w, present w) = v)"
    "patches hvm_Meta vm_ident stored present (k_Patch_VM K)"
  using assms unfolding vm_api_def by (simp_all del: prod.inject split_paired_All)

lemma vm_api_Get:
  assumes "vm_api L S M K key stored present"
  shows "k_Get_VM K key w = (Ret (Inr m), w') \<Longrightarrow> stored w = Some m \<and> VMScope_Name m = key_Name key"
    "k_Get_VM K key w = (Ret (Inl err), w') \<Longrightarrow> err_IsNotFound L err \<Longrightarrow> stored w = None"
  using assms unfolding vm_api_def by blast+

lemma findVM_keeps: "cloud_keeps M I \<Longrightarrow> preserves (findVM M m) I"
  unfolding findVM_def vmsvc_VMIfExists_def virtualmachines_Get_def cloud_keeps_def
  by (auto intro!: hoare_rules split: vm_interface.split)

lemma cloud_create_quiet:
  assumes "cloud_keeps M I" "random_only S I"
  shows "preserves (findVM M m) I" "preserves (vmsvc_Create L S M m) I"
  by (rule findVM_keeps [OF assms(1)], rule vmsvc_Create_keeps [OF assms])

lemma vmsvc_Delete_absent:
  assumes "vm_api L S M K key stored present"
  shows "hoare (\<lambda>w. stored w = x \<and> present w \<inter> A = {}) (vmsvc_Delete L S M K m)
    (\<lambda>r w. stored w = x \<and> present w \<inter> A = {} \<and>
      (r = None \<longrightarrow> present w \<inter> vm_resources (VMScope_GetResourceGroup m) (VMScope_Name m) = {}))
    (\<lambda>w. stored w = x \<and> present w \<inter> A = {})"
proof -
  let ?g = "VMScope_GetResourceGroup m" and ?n = "VMScope_Name m"
  let ?vm = "(KVM, ?g, ?n)" and ?nic = "(KNIC, ?g, GenerateNICName ?n)" and ?disk = "(KDisk, ?g, GenerateOSDiskName ?n)"
  let ?I = "\<lambda>A w. stored w = x \<and> present w \<inter> A = {}"
  note laws = vm_api_laws [OF assms]
  note keep = laws(5) [of x] and dels = laws(6,7,8)
  note view = preserves_view [where f = "\<lambda>w. (stored w, present w)" and P = "\<lambda>(y, p). y = x \<and> p \<inter> A = {}" for A, unfolded prod.case]
  have log: "preserves (WriteMocInfoLog M) (?I A)" for A
    by (rule cloud_log [OF view [OF laws(2)]])
  have poll: "preserves (sys_PollImmediate S waitVolumeAttachmentsInterval waitVolumeAttachmentsTimeout
      (volumes_detached K m)) (?I A)" for A
    using laws(3) volumes_detached_quiet [OF laws(3)] by (intro view) (simp add: reads_only_def)
  note step = delete_step [where stored = stored and x = x]
  have vm: "hoare (?I A) (virtualmachines_Delete L M ?g (Some (namedSpec ?n)))
      (\<lambda>r w. ?I A w \<and> (r = None \<longrightarrow> ?vm \<notin> present w)) (?I A)" for A
    unfolding virtualmachines_Delete_def option.case
    by (rule hoare_bind [OF log], rule hoare_bind [OF step [OF dels(1)]])
      (use keep in \<open>auto intro!: hoare_rules simp: cloud_keeps_def gone_def namedSpec_def\<close>)
  have nic: "hoare (?I A) (networkinterfaces_Delete L M ?g (Some spec))
      (\<lambda>r w. ?I A w \<and> (r = None \<longrightarrow> ?nic \<notin> present w)) (?I A)"
    if "nic_Name spec = GenerateNICName ?n" for spec A
    by (rule nics.hoare_delete [OF log step [OF dels(2)]])
      (use keep that in \<open>auto simp: cloud_keeps_def gone_def split: option.splits if_splits\<close>)
  have disk: "hoare (?I A) (disks_Delete L M ?g (Some \<lparr>disk_Name = GenerateOSDiskName ?n, disk_Source = []\<rparr>))
      (\<lambda>r w. ?I A w \<and> (r = None \<longrightarrow> ?disk \<notin> present w)) (?I A)" for A
    by (rule disks.hoare_delete [OF log step [OF dels(3)]])
      (use keep in \<open>auto simp: cloud_keeps_def gone_def split: option.splits if_splits\<close>)
  show ?thesis
    unfolding vmsvc_Delete_def
    apply (rule hoare_bind [OF poll], rule hoare_bind [OF vm], rule hoare_case_option)
     apply (rule hoare_bind [where B = "\<lambda>r w. ?I A w \<and> (r = None \<longrightarrow> ?I (insert ?vm (insert ?nic A)) w)"])
      apply (rule hoare_weaken [OF nic [where A = "insert ?vm A"]], auto simp: nicNamed_def)[]
     apply (rule hoare_case_option)
      apply (rule hoare_bind [where B = "\<lambda>r w. ?I A w \<and> (r = None \<longrightarrow> present w \<inter> vm_resources ?g ?n = {})"])
       apply (rule hoare_weaken [OF disk [where A = "insert ?vm (insert ?nic A)"]], auto simp: vm_resources_def)[]
      apply (auto intro!: hoare_rules)
    done
qed

subsection \<open>What a reconcile keeps\<close>

lemma VM_setters_same [simp]:
  "vm_ident (VM_Set L c m) = vm_ident m" "vm_ident (VMScope_SetReady m) = vm_ident m"
  "vm_ident (VMScope_SetVMState v m) = vm_ident m" "vm_ident (VM_addFinalizer L m) = vm_ident m"
  "vm_ident (VM_removeFinalizer L m) = vm_ident m" "vm_ident (creation_failure L err m) = vm_ident m"
  by (simp_all add: vm_ident_def VMScope_GetResourceGroup_def VMScope_Name_def VMScope_SetReady_def VMScope_SetVMState_def
      VM_addFinalizer_def VM_removeFinalizer_def creation_failure_def setVMProvisionFailure_def Let_def)

interpretation vm_guard: finalizer_guard hvm_Meta VirtualMachineFinalizer vm_ident VM_addFinalizer VM_removeFinalizer
  by unfold_locales (simp add: VM_addFinalizer_def lib_finalizers_def, simp_all)

lemma create_kept:
  assumes "vm_api L S M K key stored present"
  shows "preserves (VM_getOrCreate L S M) (\<lambda>s. (stored (world s), om_Finalizers (hvm_Meta (obj s)), vm_ident (obj s)) = v)"
    "preserves (VM_applyState L vm) (\<lambda>s. (stored (world s), om_Finalizers (hvm_Meta (obj s)), vm_ident (obj s)) = v)"
proof -
  note quiet = cloud_create_quiet [OF vm_api_laws(5,4) [OF assms(1)]]
  have world: "preserves (on_world m) (\<lambda>s. (stored (world s), om_Finalizers (hvm_Meta (obj s)), vm_ident (obj s)) = v)"
    if "\<And>x. preserves m (\<lambda>w. stored w = x)" for m :: "('a, 'b) io"
    by (rule on_world_view [OF that, of "\<lambda>x m. (x, om_Finalizers (hvm_Meta m), vm_ident m) = v"])
  show "preserves (VM_applyState L vm) (\<lambda>s. (stored (world s), om_Finalizers (hvm_Meta (obj s)), vm_ident (obj s)) = v)"
    unfolding VM_applyState_def by (auto intro!: hoare_rules)
  show "preserves (VM_getOrCreate L S M) (\<lambda>s. (stored (world s), om_Finalizers (hvm_Meta (obj s)), vm_ident (obj s)) = v)"
    unfolding VM_getOrCreate_def by (auto intro!: hoare_rules world quiet)
qed

lemma VM_reconcileNormal_closable:
  assumes "vm_api L S M K key stored present" "lib_finalizers L"
  shows "preserves (VM_reconcileNormal L S M K sc) (vm_guard.closable stored present v R)"
proof -
  have "hoare (vm_guard.engaged stored v) (bind (VM_getOrCreate L S M) (\<lambda>r. case r of
      Inl err \<Rightarrow> return (noResult, Some err) | Inr vm \<Rightarrow> VM_applyState L vm))
      (\<lambda>_. vm_guard.closable stored present v R) (vm_guard.closable stored present v R)"
    by (rule vm_guard.engaged_work) (auto intro!: hoare_rules create_kept [OF assms(1)])
  note work = vm_guard.register [OF vm_api_laws(10) [OF assms(1)] assms(2) _ this]
  show ?thesis
    unfolding VM_reconcileNormal_def VMScope_PatchObject_def by (auto intro!: hoare_rules work)
qed

lemma VM_reconcileDelete_closable:
  assumes "vm_api L S M K key stored present"
  shows "preserves (VM_reconcileDelete L S M K) (vm_guard.closable stored present (g, n) (vm_resources g n))"
proof -
  let ?C = "vm_guard.closable stored present (g, n) (vm_resources g n)"
  have gone: "hoare (\<lambda>s. ?C s \<and> obj s = m) (on_world (vmsvc_Delete L S M K m))
      (\<lambda>r s. ?C s \<and> (r = None \<longrightarrow> present (world s) \<inter> vm_resources g n = {})) ?C" for m
  proof (cases "vm_ident m = (g, n)")
    case True
    with vmsvc_Delete_absent [OF assms, of _ _ m]
    have "clears stored present (vm_resources g n) (\<lambda>r. r = None) (vmsvc_Delete L S M K m)"
      by (intro clearsI) (simp add: vm_ident_def)
    from vm_guard.clears_closable [OF this] show ?thesis by (rule hoare_weaken) auto
  next
    case False
    then show ?thesis by (auto simp: hoare_def vm_guard.closable_def)
  qed
  have obj: "?C s \<Longrightarrow> ?C (s\<lparr>obj := VM_Set L c (obj s)\<rparr>)" for s c by (simp add: vm_guard.closable_obj)
  have released: "hoare (\<lambda>s. ?C s \<and> present (world s) \<inter> vm_resources g n = {})
      (bind (Eventf ty re ms) (\<lambda>_. bind (upd_obj (VM_removeFinalizer L)) (\<lambda>_. return r))) (\<lambda>_. ?C) ?C" for ty re ms and r :: "Result \<times> goerror option"
    by (rule hoare_bind [where B = "\<lambda>_ s. ?C s \<and> present (world s) \<inter> vm_resources g n = {}"], rule hoare_Eventf, simp,
        rule hoare_bind [OF vm_guard.release], rule hoare_return)
  show ?thesis
    unfolding VM_reconcileDelete_def
    apply (rule hoare_bind [where B = "\<lambda>_. ?C"], rule hoare_upd_obj, erule obj)
    apply (rule hoare_bind [where B = "\<lambda>m s. ?C s \<and> obj s = m"], rule hoare_reads, simp)
    apply (rule hoare_bind [OF gone], rule hoare_case_option)
     apply (rule hoare_weaken [OF released], simp_all)
    apply (rule hoare_weaken [where P' = ?C and Q' = "\<lambda>_. ?C" and R' = ?C])
       apply (auto intro!: hoare_rules simp: obj)
    done
qed

lemma VM_Reconcile_accounted:
  assumes api: "vm_api L S M K key stored present" and "lib_finalizers L"
  shows "preserves (VM_Reconcile L S M K key) (\<lambda>s. accounted g (key_Name key) (stored (world s)) (present (world s)))"
proof -
  let ?P = "accounted g (key_Name key)"
  let ?I = "\<lambda>s. ?P (stored (world s)) (present (world s))"
  have close: "preserves (VMScope_Close K sc) (vm_guard.closable stored present v R)" for sc v R
    unfolding VMScope_Close_def VMScope_PatchObject_def
    by (rule hoare_weaken [OF vm_guard.patch_closable [OF vm_api_laws(10) [OF api]]]) auto
  have body: "hoare (\<lambda>s. ?I s \<and> stored (world s) = Some m) (with_obj m (close_after (VMScope_Close K sc)
      (if \<not> DeletionTimestamp_IsZero (hvm_Meta m) then VM_reconcileDelete L S M K else VM_reconcileNormal L S M K sc)))
      (\<lambda>_. ?I) ?I" for m sc
    by (rule vm_guard.session [OF _ close])
      (auto intro: VM_reconcileDelete_closable [OF api] VM_reconcileNormal_closable [OF assms])
  note stop = hoare_stop [where P = "\<lambda>w. ?P (stored w) (present w)"]
  show ?thesis
    unfolding VM_Reconcile_def
    apply (rule hoare_fetch [where f = "\<lambda>w. (stored w, present w)" and P = "\<lambda>(x, p). ?P x p" and
          G = "\<lambda>m (x, p). x = Some m", unfolded prod.case, OF vm_api_laws(9) [OF api]])
       apply (simp add: vm_api_Get(1) [OF api])
      apply (rule hoare_if [OF stop(2) stop(2)])
     apply (rule hoare_lookup [where f = "\<lambda>w. (stored w, present w)" and P = "\<lambda>(x, p). ?P x p \<and> x = Some m" and Q = "\<lambda>_. True" for m,
           unfolded prod.case, OF access_quiet(1) [OF vm_api_laws(1) [OF api]]], simp)
      apply (rule hoare_case_sum [OF stop(3) body])
     apply (erule conjunct1)
    apply assumption
    done
qed

lemma vm_life_accounted:
  assumes "vm_api L S M K key stored present" "lib_finalizers L"
    and "(vm_step L S M K key g stored present)\<^sup>*\<^sup>* s t"
    and "accounted g (key_Name key) (stored (world s)) (present (world s))"
  shows "accounted g (key_Name key) (stored (world t)) (present (world t))"
  by (rule vm_guard.life_covers [OF VM_Reconcile_accounted [OF assms(1,2)] assms(3,4)])

subsection \<open>Releasing the machine\<close>

text \<open>The machine controller lets a machine go only when it does not find the virtual machine object.\<close>

lemma machine_released_gone:
  assumes "vm_api L S M K key stored present"
    and "key = mkKey (ClusterScope_Namespace csc) (MachineScope_Name (obj u))"
    and "Machine_reconcileDelete L K csc u = (r, v)"
    and "MachineFinalizer \<in> set (om_Finalizers (hm_Meta (obj u)))"
    and "MachineFinalizer \<notin> set (om_Finalizers (hm_Meta (obj v)))"
  shows "stored (world u) = None \<and> present (world v) = present (world u)"
proof -
  note quiet = vm_api_laws(9) [OF assms(1)]
  obtain err w where get: "k_Get_VM K key (world u) = (Ret (Inl err), w)" "err_IsNotFound L err" "world v = w"
    using assms(3,4,5) unfolding Machine_reconcileDelete_def assms(2)
    by (auto simp: bind_on_world noResult_def split: prod.splits res.splits option.splits if_splits
        dest!: reconcileVirtualMachineDelete_outcome)
  then show ?thesis
    using vm_api_Get(2) [OF assms(1) get(1,2)] hoareD_Ret [OF quiet refl get(1)] by simp
qed

subsection \<open>An API server and a cloud that keep the laws\<close>

text \<open>The world is the stored object with the set of resources; everything succeeds.\<close>

type_synonym vm_world = "AzureStackHCIVirtualMachine option \<times> resource set"

definition vm_kube :: "vm_world kube" where
  "vm_kube = kube0\<lparr>
     k_Get_VM := \<lambda>k w. (Ret (case fst w of None \<Rightarrow> Inl (External ''NotFound'')
       | Some m \<Rightarrow> if VMScope_Name m = key_Name k then Inr m else Inl (External ''Internal'')), w),
     k_Patch_VM := \<lambda>_ m w. (Ret None, (if om_Finalizers (hvm_Meta m) = [] then None else Some m, snd w))\<rparr>"

definition vm_moc :: "vm_world moc" where
  "vm_moc = moc0\<lparr>
     m_Create_VM := \<lambda>g n _ w. (Ret None, (fst w, insert (KVM, g, n) (snd w))),
     m_Create_NIC := \<lambda>g n _ w. (Ret None, (fst w, insert (KNIC, g, n) (snd w))),
     m_Delete_VM := \<lambda>g n w. (Ret None, (fst w, snd w - {(KVM, g, n)})),
     m_Delete_NIC := \<lambda>g n w. (Ret None, (fst w, snd w - {(KNIC, g, n)})),
     m_Delete_Disk := \<lambda>g _ n w. (Ret None, (fst w, snd w - {(KDisk, g, n)}))\<rparr>"

definition vm_key :: ObjectKey where "vm_key = mkKey ''ns'' ''m''"

lemma vm_world_api: "vm_api lib0 sys0 vm_moc vm_kube vm_key fst snd"
  unfolding vm_api_def
  by (auto simp: access_only_def reads_only_def random_only_def cloud_keeps_def deletes_def patches_def stored_as_def
      sys0_def vm_kube_def vm_moc_def kube0_def moc0_def lib0_def hoare_def bind_def
      split: option.splits if_splits res.splits prod.splits)

definition vm_start :: "(vm_world, unit) rstate" where
  "vm_start = \<lparr>world = (Some (newVirtualMachine ''ns'' ''m''), {}), obj = (), events = []\<rparr>"

definition vm_created :: "(vm_world, unit) rstate" where
  "vm_created = snd (VM_Reconcile lib0 sys0 vm_moc vm_kube vm_key vm_start)"

text \<open>The user asks for the deletion, and the controller carries it out.\<close>

definition vm_deleting :: "(vm_world, unit) rstate" where
  "vm_deleting = vm_created\<lparr>world := (map_option (\<lambda>m. m\<lparr>hvm_Meta := (hvm_Meta m)\<lparr>om_DeletionTimestamp := Some 1\<rparr>\<rparr>)
     (fst (world vm_created)), snd (world vm_created))\<rparr>"

definition vm_gone :: "(vm_world, unit) rstate" where
  "vm_gone = snd (VM_Reconcile lib0 sys0 vm_moc vm_kube vm_key vm_deleting)"

lemma vm_created_resources: "(KNIC, [], ''m-nic'') \<in> snd (world vm_created)"
  by code_simp

lemma vm_gone_world: "fst (world vm_gone) = None"
  by code_simp

lemma vm_life_steps:
  "vm_step lib0 sys0 vm_moc vm_kube vm_key [] fst snd vm_start vm_created"
  "vm_step lib0 sys0 vm_moc vm_kube vm_key [] fst snd vm_created vm_deleting"
  "vm_step lib0 sys0 vm_moc vm_kube vm_key [] fst snd vm_deleting vm_gone"
proof -
  show "vm_step lib0 sys0 vm_moc vm_kube vm_key [] fst snd vm_start vm_created"
      "vm_step lib0 sys0 vm_moc vm_kube vm_key [] fst snd vm_deleting vm_gone"
    by (rule life_step.reconcile [where r = "fst (VM_Reconcile lib0 sys0 vm_moc vm_kube vm_key vm_start)"], simp add: vm_created_def)
      (rule life_step.reconcile [where r = "fst (VM_Reconcile lib0 sys0 vm_moc vm_kube vm_key vm_deleting)"], simp add: vm_gone_def)
  have "map_option vm_ident (fst (world vm_created)) = Some ([], key_Name vm_key)" by code_simp
  then show "vm_step lib0 sys0 vm_moc vm_kube vm_key [] fst snd vm_created vm_deleting"
    unfolding vm_deleting_def
    by (intro life_step.other) (auto simp: bystander_def held_by_def vm_ident_def VMScope_GetResourceGroup_def VMScope_Name_def)
qed

lemma vm_life:
  "(vm_step lib0 sys0 vm_moc vm_kube vm_key [] fst snd)\<^sup>*\<^sup>* vm_start vm_created"
  "(vm_step lib0 sys0 vm_moc vm_kube vm_key [] fst snd)\<^sup>*\<^sup>* vm_start vm_gone"
proof -
  let ?r = "vm_step lib0 sys0 vm_moc vm_kube vm_key [] fst snd"
  show created: "?r\<^sup>*\<^sup>* vm_start vm_created" by (rule r_into_rtranclp [of ?r, OF vm_life_steps(1)])
  have "?r\<^sup>*\<^sup>* vm_start vm_deleting" by (rule rtranclp.rtrancl_into_rtrancl [of ?r, OF created vm_life_steps(2)])
  then show "?r\<^sup>*\<^sup>* vm_start vm_gone" by (rule rtranclp.rtrancl_into_rtrancl [of ?r, OF _ vm_life_steps(3)])
qed

lemma vm_start_accounted: "accounted [] (key_Name vm_key) (fst (world vm_start)) (snd (world vm_start))"
  by (simp add: covers_def vm_ident_def vm_start_def newVirtualMachine_def VMScope_GetResourceGroup_def VMScope_Name_def
      newMeta_def vm_key_def mkKey_def)

subsection \<open>Properties\<close>

text \<open>
  C5: No cloud resource is ever orphaned.  However reconciles of a virtual machine object, each with
  any outcome (success, error or panic, in the cloud, in a patch or in between), interleave with
  what users, the API server and other controllers do, at every time between them: if a machine,
  network interface or disk of the object is in the cloud, then the object is stored and carries
  the finalizer, so a later deletion has to come back for it.
\<close>

theorem vm_never_orphaned:
  assumes "vm_api L S M K key stored present" "lib_finalizers L"
    and "(vm_step L S M K key g stored present)\<^sup>*\<^sup>* s t"
    and "accounted g (key_Name key) (stored (world s)) (present (world s))"
    and "x \<in> present (world t)" "x \<in> vm_resources g (key_Name key)"
  shows "\<exists>m. stored (world t) = Some m \<and> VirtualMachineFinalizer \<in> set (om_Finalizers (hvm_Meta m))"
  using vm_life_accounted [OF assms(1-4)] assms(5,6) by (auto simp: covers_def held_by_def)

theorem vm_never_orphaned_witness:
  "(KNIC, [], ''m-nic'') \<in> snd (world vm_created) \<and>
   (\<exists>m. fst (world vm_created) = Some m \<and> VirtualMachineFinalizer \<in> set (om_Finalizers (hvm_Meta m)))"
proof (rule conjI [OF vm_created_resources])
  have "(KNIC, [], ''m-nic'') \<in> vm_resources [] (key_Name vm_key)" by code_simp
  from vm_never_orphaned [OF vm_world_api lib0_finalizers vm_life(1) vm_start_accounted vm_created_resources this]
  show "\<exists>m. fst (world vm_created) = Some m \<and> VirtualMachineFinalizer \<in> set (om_Finalizers (hvm_Meta m))" .
qed

text \<open>
  C6: When the machine controller lets a machine go, nothing of it is left in the cloud.  At the end of
  any such life, if the deletion of the machine object takes its finalizer off, then neither the
  machine, nor its network interface, nor its disk is in the cloud any more.
\<close>

theorem machine_released_clean:
  assumes "vm_api L S M K key stored present" "lib_finalizers L"
    and "(vm_step L S M K key g stored present)\<^sup>*\<^sup>* s t"
    and "accounted g (key_Name key) (stored (world s)) (present (world s))"
    and "Machine_reconcileDelete L K csc u = (r, v)" "world u = world t"
    and "key = mkKey (ClusterScope_Namespace csc) (MachineScope_Name (obj u))"
    and "MachineFinalizer \<in> set (om_Finalizers (hm_Meta (obj u)))"
    and "MachineFinalizer \<notin> set (om_Finalizers (hm_Meta (obj v)))"
  shows "present (world v) \<inter> vm_resources g (key_Name key) = {}"
  using vm_life_accounted [OF assms(1-4)] machine_released_gone [OF assms(1,7,5,8,9)] assms(6)
  by (auto simp: covers_def held_by_def)

theorem machine_released_clean_witness:
  "snd (world (snd (Machine_reconcileDelete lib0 vm_kube csc0
     \<lparr>world = world vm_gone, obj = Machine_addFinalizer lib0 hmachine0, events = []\<rparr>))) \<inter> vm_resources [] ''m'' = {}"
proof -
  let ?u = "\<lparr>world = world vm_gone, obj = Machine_addFinalizer lib0 hmachine0, events = []\<rparr>"
  have "vm_key = mkKey (ClusterScope_Namespace csc0) (MachineScope_Name (obj ?u))"
      "MachineFinalizer \<in> set (om_Finalizers (hm_Meta (obj ?u)))"
      "MachineFinalizer \<notin> set (om_Finalizers (hm_Meta (obj (snd (Machine_reconcileDelete lib0 vm_kube csc0 ?u)))))"
    by code_simp+
  from machine_released_clean [OF vm_world_api lib0_finalizers vm_life(2) vm_start_accounted, of csc0 ?u, OF _ _ this]
  show ?thesis by (simp add: vm_key_def mkKey_def prod_eq_iff)
qed

end
