(* ===== verification/Teardown.thy ===== *)
theory Teardown
  imports Lifecycle
begin

text \<open>
  Deletion comes to an end, as far as one controller is concerned.  \<open>Lifecycle\<close> shows that nothing is
  left behind when a machine is released; this theory shows that it is released: as soon as the API
  server and the cloud answer, one reconcile takes a deleted virtual machine object down, and the
  deletion of a machine reaches that object.  \<open>ChainTeardown\<close> puts the two controllers together.
\<close>

subsection \<open>A cloud that answers\<close>

text \<open>A patch, or an update, of an object that is stored is accepted.\<close>

definition accepts :: "('w \<Rightarrow> bool) \<Rightarrow> ('w \<Rightarrow> 'o option) \<Rightarrow> ('w, goerror option) io \<Rightarrow> bool" where
  "accepts ok stored m \<longleftrightarrow> (\<forall>w. ok w \<and> stored w \<noteq> None \<longrightarrow> (\<exists>w'. m w = (Ret None, w') \<and> ok w'))"

text \<open>
  The two variables that the scopes insist on are set, the file of the configuration path is
  there and there is a valid authorizer.
\<close>

definition access_up :: "'w sys \<Rightarrow> 'w kube \<Rightarrow> ('w \<Rightarrow> bool) \<Rightarrow> bool" where
  "access_up S K ok \<longleftrightarrow>
     up ok (sys_Getenv S ''AZURESTACKHCI_CLOUDAGENT_FQDN'') (\<lambda>v. v \<noteq> []) \<and>
     (\<exists>p. p \<noteq> [] \<and> up ok (sys_Getenv S ''WSSD_CONFIG_PATH'') (\<lambda>v. v = p) \<and> up ok (sys_Stat S p) (\<lambda>e. e = None)) \<and>
     up ok (sys_Getenv S ''WSSD_DEBUG_MODE'') (\<lambda>_. True) \<and>
     (\<forall>x. up ok (sys_NewAuthorizerFromEnvironment S x) (\<lambda>r. \<exists>a. r = Inr a)) \<and>
     (\<forall>m. up ok m (\<lambda>_. True) \<longrightarrow> up ok (sys_go S m) (\<lambda>_. True)) \<and>
     (\<forall>k. up ok (k_Get_Secret K k) (\<lambda>_. True)) \<and> (\<forall>c. up ok (sys_UpdateLoginConfig S c) (\<lambda>_. True)) \<and>
     up ok (k_NewHelper K) (\<lambda>e. e = None)"

text \<open>
  Besides, polls and reads return, deletions succeed or find nothing, and patches of the stored
  object under the key are accepted.
\<close>

definition vm_up :: "lib \<Rightarrow> 'w sys \<Rightarrow> 'w moc \<Rightarrow> 'w kube \<Rightarrow> ObjectKey \<Rightarrow> ('w \<Rightarrow> AzureStackHCIVirtualMachine option) \<Rightarrow>
    ('w \<Rightarrow> bool) \<Rightarrow> bool" where
  "vm_up L S M K key stored ok \<longleftrightarrow> access_up S K ok \<and>
     up ok (k_Get_VM K key) (\<lambda>r. \<forall>e. r = Inl e \<longrightarrow> err_IsNotFound L e) \<and>
     (\<forall>k. up ok (k_KubeconfigFromSecret K k) (\<lambda>_. True)) \<and> (\<forall>x. up ok (k_GetOwnerMachine K x) (\<lambda>_. True)) \<and>
     (\<forall>c. up ok (k_ListVolumeAttachments K c) (\<lambda>_. True)) \<and>
     (\<forall>i t f. up ok f (\<lambda>_. True) \<longrightarrow> up ok (sys_PollImmediate S i t f) (\<lambda>_. True)) \<and>
     up ok (m_GetVersion M) (\<lambda>_. True) \<and>
     (\<forall>g n. up ok (m_Delete_VM M g n) (gone L)) \<and> (\<forall>g n. up ok (m_Delete_NIC M g n) (gone L)) \<and>
     (\<forall>g c n. up ok (m_Delete_Disk M g c n) (gone L)) \<and>
     (\<forall>b m. VMScope_Name m = key_Name key \<longrightarrow> accepts ok stored (k_Patch_VM K b m))"

lemma access_upD:
  assumes "access_up S K ok"
  shows "up ok (sys_Getenv S ''AZURESTACKHCI_CLOUDAGENT_FQDN'') (\<lambda>v. v \<noteq> [])"
    "up ok (sys_Getenv S ''WSSD_DEBUG_MODE'') (\<lambda>_. True)"
    "up ok (sys_NewAuthorizerFromEnvironment S x) (\<lambda>r. \<exists>a. r = Inr a)"
    "up ok m (\<lambda>_. True) \<Longrightarrow> up ok (sys_go S m) (\<lambda>_. True)"
    "up ok (k_Get_Secret K k) (\<lambda>_. True)" "up ok (sys_UpdateLoginConfig S c) (\<lambda>_. True)" "up ok (k_NewHelper K) (\<lambda>e. e = None)"
  using assms unfolding access_up_def by simp_all

lemma vm_up_reads:
  assumes "vm_up L S M K key stored ok"
  shows "access_up S K ok" "up ok (k_Get_VM K key) (\<lambda>r. \<forall>e. r = Inl e \<longrightarrow> err_IsNotFound L e)"
    "up ok (k_KubeconfigFromSecret K k) (\<lambda>_. True)" "up ok (k_GetOwnerMachine K x) (\<lambda>_. True)"
    "up ok (k_ListVolumeAttachments K c) (\<lambda>_. True)" "up ok (m_GetVersion M) (\<lambda>_. True)"
    "up ok f (\<lambda>_. True) \<Longrightarrow> up ok (sys_PollImmediate S i t f) (\<lambda>_. True)"
  using assms unfolding vm_up_def by simp_all

lemma vm_up_writes:
  assumes "vm_up L S M K key stored ok"
  shows "up ok (m_Delete_VM M g n) (gone L)" "up ok (m_Delete_NIC M g n) (gone L)" "up ok (m_Delete_Disk M g c n) (gone L)"
    "VMScope_Name x = key_Name key \<Longrightarrow> accepts ok stored (k_Patch_VM K b x)"
  using assms unfolding vm_up_def by simp_all

lemma ReconcileAzureStackHCIAccess_up:
  assumes "access_up S K ok"
  shows "up ok (ReconcileAzureStackHCIAccess L S K f) (\<lambda>r. \<exists>a. r = Inr a)"
proof -
  note law = access_upD [OF assms]
  obtain p where p: "p \<noteq> []" "up ok (sys_Getenv S ''WSSD_CONFIG_PATH'') (\<lambda>v. v = p)" "up ok (sys_Stat S p) (\<lambda>e. e = None)"
    using assms unfolding access_up_def by blast
  have "up ok (UpdateLoginConfig S K) (\<lambda>_. True)"
    unfolding UpdateLoginConfig_def auth_GetSecret_def bind_assoc
    by (rule up_any [OF law(5)]) (auto intro!: up_rules law(6) split: sum.split)
  note go = law(4) [OF this]
  have auth: "up ok (authorize_or_login L S K f) (\<lambda>r. \<exists>a. r = Inr a)" for f
    unfolding authorize_or_login_def by (rule up_bind [OF law(3)]) (auto intro!: up_rules)
  have stat: "up ok (bind (sys_Stat S p) (\<lambda>e. case e of Some err \<Rightarrow> login L S K f
      | None \<Rightarrow> bind (sys_go S (UpdateLoginConfig S K)) (\<lambda>_. authorize_or_login L S K f))) (\<lambda>r. \<exists>a. r = Inr a)"
    by (rule up_bind [OF p(3)]) (simp add: up_any [OF go auth])
  show ?thesis
    unfolding ReconcileAzureStackHCIAccess_def
    by (rule up_bind [OF p(2)]) (auto simp: p(1) intro!: up_any [OF law(2)] up_if stat auth)
qed

lemma NewVirtualMachineScope_up:
  assumes "access_up S K ok"
  shows "up ok (NewVirtualMachineScope L S K (Some m)) (\<lambda>r. \<exists>sc. r = Inr sc)"
  unfolding NewVirtualMachineScope_def option.case
  by (rule up_bind [OF access_upD(1) [OF assms]], rule up_if, simp, rule up_bind [OF ReconcileAzureStackHCIAccess_up [OF assms]])
    (auto intro!: up_bind [OF access_upD(7) [OF assms]] up_rules)

lemma machine_scopes_up:
  assumes "access_up S K ok"
  shows "up ok (NewClusterScope L S K (Some c) (Some hc)) (\<lambda>r. \<exists>csc. r = Inr csc)"
    "up ok (NewMachineScope K (Some ma) (Some c) (Some hc) (Some m)) (\<lambda>r. \<exists>sc. r = Inr sc)"
  unfolding NewClusterScope_def NewMachineScope_def option.case
   apply (rule up_bind [OF access_upD(1) [OF assms]], rule up_if, simp, rule up_bind [OF access_upD(7) [OF assms]], simp)
   apply (rule up_bind [OF ReconcileAzureStackHCIAccess_up [OF assms]], auto intro!: up_rules)[]
  apply (rule up_bind [OF access_upD(7) [OF assms]], auto intro!: up_rules)
  done

lemma vmsvc_Delete_up:
  assumes "vm_up L S M K key stored ok"
  shows "up ok (vmsvc_Delete L S M K m) (\<lambda>e. e = None)"
proof -
  note law = vm_up_reads [OF assms] and del = vm_up_writes [OF assms]
  have log: "up ok (WriteMocInfoLog M) (\<lambda>_. True)"
    unfolding WriteMocInfoLog_def versions_Get_def bind_assoc
    by (rule up_any [OF law(6)], rule up_any) (auto intro!: up_rules)
  have "up ok (volumes_detached K m) (\<lambda>_. True)"
    unfolding volumes_detached_def vmsvc_ListVolumeAttachments_def NewTargetClusterClient_def NewTargetClusterConfig_def
      GetNodeName_def ListVolumeAttachmentOnNode_def Let_def
    by (auto intro!: up_rules up_any law)
  note poll = law(7) [OF this]
  have vm: "up ok (virtualmachines_Delete L M g (Some spec)) (\<lambda>e. e = None)" for g spec
    unfolding virtualmachines_Delete_def option.case
    by (rule up_any [OF log], rule up_bind [OF del(1)]) (auto intro!: up_rules simp: gone_def)
  have nic: "up ok (networkinterfaces_Delete L M g (Some spec)) (\<lambda>e. e = None)" for g spec
    unfolding networkinterfaces_Delete_def option.case
    by (rule up_any [OF log], rule up_bind [OF del(2)]) (auto intro!: up_rules simp: gone_def)
  have disk: "up ok (disks_Delete L M g (Some spec)) (\<lambda>e. e = None)" for g spec
    unfolding disks_Delete_def option.case
    by (rule up_any [OF log], rule up_bind [OF del(3)]) (auto intro!: up_rules simp: gone_def)
  show ?thesis
    unfolding vmsvc_Delete_def
    by (rule up_any [OF poll], rule up_bind [OF vm], simp, rule up_bind [OF nic], simp, rule up_bind [OF disk])
      (auto intro!: up_rules)
qed


subsection \<open>One reconcile takes a virtual machine down\<close>

lemma k_Get_VM_same:
  assumes "vm_api L S M K key stored present" "k_Get_VM K key w = (Ret r, w')"
  shows "stored w' = stored w" "present w' = present w"
proof -
  have "preserves (k_Get_VM K key) (\<lambda>v. (stored v, present v) = (stored w, present w))"
    by (rule vm_api_laws(9) [OF assms(1)])
  from hoareD_Ret [OF this _ assms(2)] show "stored w' = stored w" "present w' = present w" by simp_all
qed

lemma k_Get_VM_up:
  assumes "vm_api L S M K key stored present" "vm_up L S M K key stored ok" "ok w"
  shows "stored w = Some m \<Longrightarrow> \<exists>w'. k_Get_VM K key w = (Ret (Inr m), w') \<and> ok w'"
    "stored w = None \<Longrightarrow> \<exists>e w'. k_Get_VM K key w = (Ret (Inl e), w') \<and> err_IsNotFound L e \<and> ok w'"
proof -
  obtain r w' where get: "k_Get_VM K key w = (Ret r, w')" "ok w'" "\<And>e. r = Inl e \<Longrightarrow> err_IsNotFound L e"
    using upD [OF vm_up_reads(2) [OF assms(2)] assms(3)] by blast
  show "stored w = Some m \<Longrightarrow> \<exists>w'. k_Get_VM K key w = (Ret (Inr m), w') \<and> ok w'"
    using get vm_api_Get [OF assms(1), of w] by (cases r) auto
  show "stored w = None \<Longrightarrow> \<exists>e w'. k_Get_VM K key w = (Ret (Inl e), w') \<and> err_IsNotFound L e \<and> ok w'"
    using get vm_api_Get [OF assms(1), of w] by (cases r) auto
qed

lemma VM_Reconcile_deletes:
  assumes "vm_api L S M K key stored present" "vm_up L S M K key stored ok"
    and "ok (world t)" "stored (world t) = Some m" "\<not> DeletionTimestamp_IsZero (hvm_Meta m)"
  shows "\<exists>u x b w. VM_Reconcile L S M K key t = (Ret (noResult, None), u) \<and> ok (world u) \<and>
    k_Patch_VM K b x w = (Ret None, world u) \<and>
    hvm_Meta x = (hvm_Meta m)\<lparr>om_Finalizers := lib_RemoveFinalizer L (om_Finalizers (hvm_Meta m)) VirtualMachineFinalizer\<rparr>"
proof -
  obtain w1 where get: "k_Get_VM K key (world t) = (Ret (Inr m), w1)" "ok w1"
    using k_Get_VM_up(1) [OF assms(1,2,3,4)] by blast
  obtain sc w2 where scope: "NewVirtualMachineScope L S K (Some m) w1 = (Ret (Inr sc), w2)" "ok w2"
    using upD [OF NewVirtualMachineScope_up [OF vm_up_reads(1) [OF assms(2)]] get(2)] by blast
  define m1 where "m1 = VM_Set L (mkCondition VMRunningCondition ConditionFalse ''Deleting'' []) m"
  obtain w3 where del: "vmsvc_Delete L S M K m1 w2 = (Ret None, w3)" "ok w3"
    using upD [OF vmsvc_Delete_up [OF assms(2)] scope(2)] by blast
  have "stored w2 = Some m"
    using quiet_same [OF access_quiet(1) [OF vm_api_laws(1) [OF assms(1)]] scope(1)] k_Get_VM_same [OF assms(1) get(1)] assms(4) by simp
  then have "stored w3 \<noteq> None"
    using hoareD_Ret [OF vmsvc_Delete_absent [OF assms(1), where A = "{}"] _ del(1)] by simp
  moreover have "VMScope_Name (VM_removeFinalizer L m1) = key_Name key"
    using vm_api_Get(1) [OF assms(1) get(1)] by (simp add: VMScope_Name_def VM_removeFinalizer_def m1_def)
  ultimately obtain w4 where patch: "k_Patch_VM K (vsc_before sc) (VM_removeFinalizer L m1) w3 = (Ret None, w4)" "ok w4"
    using vm_up_writes(4) [OF assms(2)] del(2) unfolding accepts_def by blast
  obtain ev where body: "VM_reconcileDelete L S M K \<lparr>world = w2, obj = m, events = events t\<rparr> =
      (Ret (noResult, None), \<lparr>world = w3, obj = VM_removeFinalizer L m1, events = ev\<rparr>)"
    using del(1) by (simp add: VM_reconcileDelete_def bind_on_world m1_def [symmetric])
  have "VMScope_Close K sc \<lparr>world = w3, obj = VM_removeFinalizer L m1, events = ev\<rparr> =
      (Ret None, \<lparr>world = w4, obj = VM_removeFinalizer L m1, events = ev\<rparr>)"
    using patch(1) by (simp add: VMScope_Close_def VMScope_PatchObject_def on_world_app)
  from close_after_Ret [where m = "VM_reconcileDelete L S M K" and close = "VMScope_Close K sc", OF body this]
  have "VM_Reconcile L S M K key t = (Ret (noResult, None), \<lparr>world = w4, obj = (), events = ev\<rparr>)"
    using get(1) scope(1) assms(5) by (simp add: VM_Reconcile_def bind_on_world with_obj_def)
  moreover have "hvm_Meta (VM_removeFinalizer L m1) =
      (hvm_Meta m)\<lparr>om_Finalizers := lib_RemoveFinalizer L (om_Finalizers (hvm_Meta m)) VirtualMachineFinalizer\<rparr>"
    by (simp add: VM_removeFinalizer_def m1_def)
  ultimately show ?thesis using patch by fastforce
qed

subsection \<open>The machine controller asks for it\<close>

text \<open>
  What the machine controller relies on besides.  An accepted update leaves the object as it was
  sent; an accepted deletion marks an object that has finalizers and removes one that has none, and
  the API server removes a marked object with its last finalizer.
\<close>

definition marked :: "AzureStackHCIVirtualMachine option \<Rightarrow> AzureStackHCIVirtualMachine option \<Rightarrow> bool" where
  "marked x y = (case y of
      None \<Rightarrow> (case x of None \<Rightarrow> True | Some m \<Rightarrow> om_Finalizers (hvm_Meta m) = [])
    | Some m' \<Rightarrow> \<not> DeletionTimestamp_IsZero (hvm_Meta m') \<and> (\<exists>m. x = Some m \<and>
        om_Finalizers (hvm_Meta m') = om_Finalizers (hvm_Meta m) \<and> vm_ident m' = vm_ident m))"

abbreviation unfound :: "lib \<Rightarrow> goerror option \<Rightarrow> bool" where
  "unfound L e \<equiv> \<forall>err. e = Some err \<longrightarrow> err_IsNotFound L err"

definition vm_deletion_api :: "lib \<Rightarrow> 'w kube \<Rightarrow> ObjectKey \<Rightarrow> ('w \<Rightarrow> AzureStackHCIVirtualMachine option) \<Rightarrow> ('w \<Rightarrow> resource set) \<Rightarrow>
    ('w \<Rightarrow> bool) \<Rightarrow> bool" where
  "vm_deletion_api L K key stored present ok \<longleftrightarrow>
     (\<forall>m w. ok w \<and> stored w \<noteq> None \<and> VMScope_Name m = key_Name key \<longrightarrow>
        (\<exists>m' w'. k_Update_VM K m w = (Ret (None, m'), w') \<and> ok w' \<and> stored w' = Some m \<and> present w' = present w)) \<and>
     (\<forall>m. up ok (k_Delete_VM K m) (\<lambda>e. unfound L e)) \<and>
     (\<forall>m w e w'. k_Delete_VM K m w = (Ret e, w') \<and> unfound L e \<longrightarrow> marked (stored w) (stored w') \<and> present w' = present w) \<and>
     (\<forall>b m w w'. k_Patch_VM K b m w = (Ret None, w') \<and> \<not> DeletionTimestamp_IsZero (hvm_Meta m) \<and>
        om_Finalizers (hvm_Meta m) = [] \<longrightarrow> stored w' = None)"

lemma deletion_api_up:
  assumes "vm_deletion_api L K key stored present ok" "ok w"
  shows "VMScope_Name m = key_Name key \<Longrightarrow> stored w \<noteq> None \<Longrightarrow>
      \<exists>m' w'. k_Update_VM K m w = (Ret (None, m'), w') \<and> ok w' \<and> stored w' = Some m \<and> present w' = present w"
    "\<exists>e w'. k_Delete_VM K m w = (Ret e, w') \<and> unfound L e \<and> ok w' \<and> marked (stored w) (stored w') \<and> present w' = present w"
proof -
  show "VMScope_Name m = key_Name key \<Longrightarrow> stored w \<noteq> None \<Longrightarrow>
      \<exists>m' w'. k_Update_VM K m w = (Ret (None, m'), w') \<and> ok w' \<and> stored w' = Some m \<and> present w' = present w"
    using assms unfolding vm_deletion_api_def by blast
  have "up ok (k_Delete_VM K m) (\<lambda>e. unfound L e)"
    "\<And>w e w'. k_Delete_VM K m w = (Ret e, w') \<Longrightarrow> unfound L e \<Longrightarrow> marked (stored w) (stored w') \<and> present w' = present w"
    using assms(1) unfolding vm_deletion_api_def by blast+
  note law = this
  show "\<exists>e w'. k_Delete_VM K m w = (Ret e, w') \<and> unfound L e \<and> ok w' \<and> marked (stored w) (stored w') \<and> present w' = present w"
    using upD [OF law(1) assms(2)] law(2) by blast
qed

text \<open>A deletion that is asked for reaches the object, and nothing else happens.\<close>

lemma Machine_reconcileDelete_marks:
  assumes "vm_api L S M K key stored present" "vm_up L S M K key stored ok" "vm_deletion_api L K key stored present ok"
    and "ok (world s)" "key = mkKey (ClusterScope_Namespace csc) (MachineScope_Name (obj s))"
  shows "\<exists>r t. Machine_reconcileDelete L K csc s = (Ret (r, None), t) \<and> ok (world t) \<and>
    present (world t) = present (world s) \<and> marked (stored (world s)) (stored (world t)) \<and>
    (stored (world s) = None \<longrightarrow> r = noResult) \<and>
    obj t = (if stored (world s) = None then Machine_removeFinalizer L (obj s) else obj s)"
proof (cases "stored (world s)")
  case None
  then obtain e w where get: "k_Get_VM K key (world s) = (Ret (Inl e), w)" "err_IsNotFound L e" "ok w"
    using k_Get_VM_up(2) [OF assms(1,2,4)] by blast
  then have "reconcileVirtualMachineDelete L K csc (obj s) (world s) = (Ret (noResult, None), w)"
    unfolding assms(5) by (simp add: reconcileVirtualMachineDelete_def Let_def bind_def)
  with k_Get_VM_same [OF assms(1) get(1)] None get(3) show ?thesis
    by (simp add: Machine_reconcileDelete_def bind_on_world noResult_def marked_def)
next
  case (Some m)
  then obtain w where get: "k_Get_VM K key (world s) = (Ret (Inr m), w)" "ok w"
    using k_Get_VM_up(1) [OF assms(1,2,4)] by blast
  note same = k_Get_VM_same [OF assms(1) this(1)]
  let ?m = "m\<lparr>hvm_Meta := CopyCorrelationID (hm_Meta (obj s)) (hvm_Meta m)\<rparr>"
  have "VMScope_Name ?m = key_Name key"
    using vm_api_Get(1) [OF assms(1) get(1)] by (simp add: VMScope_Name_def CopyCorrelationID_def Let_def)
  then obtain m1 w1 where update: "k_Update_VM K ?m w = (Ret (None, m1), w1)" "ok w1" "stored w1 = Some ?m" "present w1 = present w"
    using deletion_api_up(1) [OF assms(3) get(2), of ?m] same(1) Some by auto
  obtain e w2 where del: "k_Delete_VM K m1 w1 = (Ret e, w2)" "unfound L e" "ok w2" "marked (stored w1) (stored w2)" "present w2 = present w1"
    using deletion_api_up(2) [OF assms(3) update(2)] by blast
  have sent: "marked (Some ?m) x = marked (Some m) x" for x
    by (simp add: marked_def vm_ident_def VMScope_GetResourceGroup_def VMScope_Name_def CopyCorrelationID_def Let_def
        split: option.splits)
  have "\<exists>v. reconcileVirtualMachineDelete L K csc (obj s) (world s) = (Ret (\<lparr>Requeue = False, RequeueAfter = 15\<rparr>, None), v) \<and>
      ok v \<and> present v = present (world s) \<and> marked (Some m) (stored v)"
  proof (cases "DeletionTimestamp_IsZero (hvm_Meta m)")
    case True
    then show ?thesis
      using get(1) update(1,3,4) del same sent unfolding assms(5)
      by (cases e) (simp_all add: reconcileVirtualMachineDelete_def Let_def bind_def)
  next
    case False
    then show ?thesis
      using get same Some unfolding assms(5) by (simp add: reconcileVirtualMachineDelete_def Let_def bind_def marked_def)
  qed
  with Some show ?thesis by (auto simp: Machine_reconcileDelete_def bind_on_world)
qed

lemma marked_accounted:
  "marked x x' \<Longrightarrow> accounted g n x p \<Longrightarrow> accounted g n x' p"
  by (auto simp: covers_def marked_def held_by_def split: option.splits)

lemma VM_Reconcile_ends:
  assumes "vm_api L S M K key stored present" "lib_finalizers L" "vm_up L S M K key stored ok" "vm_deletion_api L K key stored present ok"
    and "ok (world t)" "marked x (stored (world t))" "\<And>m. x = Some m \<Longrightarrow> set (om_Finalizers (hvm_Meta m)) \<subseteq> {VirtualMachineFinalizer}"
  shows "\<exists>u. VM_Reconcile L S M K key t = (Ret (noResult, None), u) \<and> ok (world u) \<and> stored (world u) = None"
proof (cases "stored (world t)")
  case None
  then obtain e w where get: "k_Get_VM K key (world t) = (Ret (Inl e), w)" "err_IsNotFound L e" "ok w"
    using k_Get_VM_up(2) [OF assms(1,3,5)] by blast
  then show ?thesis
    using k_Get_VM_same [OF assms(1) get(1)] None by (simp add: VM_Reconcile_def bind_on_world)
next
  case (Some m)
  then have del: "\<not> DeletionTimestamp_IsZero (hvm_Meta m)" and own: "set (om_Finalizers (hvm_Meta m)) \<subseteq> {VirtualMachineFinalizer}"
    using assms(6,7) by (auto simp: marked_def)
  obtain u y b w where run: "VM_Reconcile L S M K key t = (Ret (noResult, None), u)" "ok (world u)"
      and patch: "k_Patch_VM K b y w = (Ret None, world u)"
      and meta: "hvm_Meta y = (hvm_Meta m)\<lparr>om_Finalizers := lib_RemoveFinalizer L (om_Finalizers (hvm_Meta m)) VirtualMachineFinalizer\<rparr>"
    using VM_Reconcile_deletes [OF assms(1,3,5) Some del] by blast
  have "set (lib_RemoveFinalizer L (om_Finalizers (hvm_Meta m)) VirtualMachineFinalizer) = {}"
    using assms(2) own by (auto simp: lib_finalizers_def)
  then have "om_Finalizers (hvm_Meta y) = []" "\<not> DeletionTimestamp_IsZero (hvm_Meta y)"
    using del by (simp_all add: meta DeletionTimestamp_IsZero_def)
  then have "stored (world u) = None" using assms(4) patch unfolding vm_deletion_api_def by blast
  with run show ?thesis by blast
qed

end
