(* ===== verification/MachineOwnership.thy ===== *)
theory MachineOwnership
  imports Ownership MachineController
begin

text \<open>
  The ownership discipline of the machine controller.  What a machine owns is not in the cloud but
  in the API server: the virtual machine object under its own key.  Here \<open>present\<close> is the set of
  the keys under which there are virtual machine objects.
\<close>

subsection \<open>The API server, as a machine sees it\<close>

text \<open>Lookups.\<close>

definition machine_quiet :: "'w sys \<Rightarrow> 'w kube \<Rightarrow> ('w \<Rightarrow> bool) \<Rightarrow> bool" where
  "machine_quiet S K I \<longleftrightarrow> access_only S K I \<and> (\<forall>k. preserves (k_Get_HMachine K k) I) \<and>
     (\<forall>om. preserves (k_GetOwnerMachine K om) I) \<and> (\<forall>om. preserves (k_GetClusterFromMetadata K om) I) \<and>
     (\<forall>k. preserves (k_Get_HCluster K k) I) \<and> (\<forall>k. preserves (k_Get_VM K k) I)"

definition machine_ident :: "AzureStackHCIMachine \<Rightarrow> ObjectKey" where
  "machine_ident m = mkKey (om_Namespace (hm_Meta m)) (om_Name (hm_Meta m))"

text \<open>
  The laws for the machine under \<open>key\<close>: owner and cluster of an object are in its namespace, writing
  a virtual machine object leaves the machine alone, only \<open>CreateOrUpdate\<close> brings one into being,
  and one that is not found is not there.
\<close>

definition machine_api :: "lib \<Rightarrow> 'w sys \<Rightarrow> 'w kube \<Rightarrow> ObjectKey \<Rightarrow> ('w \<Rightarrow> AzureStackHCIMachine option) \<Rightarrow>
    ('w \<Rightarrow> ObjectKey set) \<Rightarrow> bool" where
  "machine_api L S K key stored present \<longleftrightarrow>
     (\<forall>v. machine_quiet S K (\<lambda>w. (stored w, present w) = v)) \<and>
     (\<forall>x y f. (\<forall>z. preserves (f z) (\<lambda>w. stored w = x)) \<longrightarrow> preserves (k_CreateOrUpdate_VM K y f) (\<lambda>w. stored w = x)) \<and>
     (\<forall>y. clears stored present {} (\<lambda>_. True) (k_Update_VM K y)) \<and>
     (\<forall>y. clears stored present {} (\<lambda>_. True) (k_Delete_VM K y)) \<and>
     (\<forall>w err w'. k_Get_VM K key w = (Ret (Inl err), w') \<and> err_IsNotFound L err \<longrightarrow> key \<notin> present w') \<and>
     (\<forall>w m w'. k_Get_HMachine K key w = (Ret (Inr m), w') \<longrightarrow> stored w = Some m) \<and>
     (\<forall>om w ma w'. k_GetOwnerMachine K om w = (Ret (Inr (Some ma)), w') \<longrightarrow> om_Namespace (ma_Meta ma) = om_Namespace om) \<and>
     (\<forall>om w c w'. k_GetClusterFromMetadata K om w = (Ret (Inr c), w') \<longrightarrow> om_Namespace (cl_Meta c) = om_Namespace om) \<and>
     patches hm_Meta machine_ident stored present (k_Patch_HMachine K)"

abbreviation machine_accounted :: "ObjectKey \<Rightarrow> AzureStackHCIMachine option \<Rightarrow> ObjectKey set \<Rightarrow> bool" where
  "machine_accounted key \<equiv> covers hm_Meta MachineFinalizer machine_ident key {key}"

lemma machine_api_laws:
  assumes "machine_api L S K key stored present"
  shows "machine_quiet S K (\<lambda>w. (stored w, present w) = v)"
    "(\<And>z. preserves (f z) (\<lambda>w. stored w = x)) \<Longrightarrow> preserves (k_CreateOrUpdate_VM K y f) (\<lambda>w. stored w = x)"
    "clears stored present {} (\<lambda>_. True) (k_Update_VM K y)" "clears stored present {} (\<lambda>_. True) (k_Delete_VM K y)"
    "patches hm_Meta machine_ident stored present (k_Patch_HMachine K)"
  using assms unfolding machine_api_def by (simp_all del: prod.inject split_paired_All)

lemma machine_api_reads:
  assumes "machine_api L S K key stored present"
  shows "k_Get_VM K key w = (Ret (Inl err), w') \<Longrightarrow> err_IsNotFound L err \<Longrightarrow> key \<notin> present w'"
    "k_Get_HMachine K key w = (Ret (Inr m), w') \<Longrightarrow> stored w = Some m"
    "k_GetOwnerMachine K om w = (Ret (Inr (Some ma)), w') \<Longrightarrow> om_Namespace (ma_Meta ma) = om_Namespace om"
    "k_GetClusterFromMetadata K om w = (Ret (Inr c), w') \<Longrightarrow> om_Namespace (cl_Meta c) = om_Namespace om"
  using assms unfolding machine_api_def by blast+

subsection \<open>What a reconcile keeps\<close>

lemma machine_setters_same [simp]:
  "machine_ident (Machine_addFinalizer L m) = machine_ident m" "machine_ident (Machine_removeFinalizer L m) = machine_ident m"
  "machine_ident (Machine_Set L c m) = machine_ident m" "machine_ident (MachineScope_SetReady m) = machine_ident m"
  "machine_ident (merge_conditions L cs m) = machine_ident m" "machine_ident (MachineScope_SetProviderID p m) = machine_ident m"
  "machine_ident (MachineScope_SetAnnotation k a m) = machine_ident m" "machine_ident (m\<lparr>hm_Status := st\<rparr>) = machine_ident m"
  "om_Finalizers (hm_Meta (MachineScope_SetAnnotation k a m)) = om_Finalizers (hm_Meta m)"
  "hm_Meta (MachineScope_SetProviderID p m) = hm_Meta m" "hm_Meta (MachineScope_SetReady m) = hm_Meta m"
  by (simp_all add: machine_ident_def Machine_addFinalizer_def Machine_removeFinalizer_def MachineScope_SetReady_def
      MachineScope_SetProviderID_def MachineScope_SetAnnotation_def Let_def)

interpretation machine_guard: finalizer_guard hm_Meta MachineFinalizer machine_ident Machine_addFinalizer Machine_removeFinalizer
  by unfold_locales (simp add: Machine_addFinalizer_def lib_finalizers_def, simp_all)

abbreviation machine_view :: "('w \<Rightarrow> AzureStackHCIMachine option) \<Rightarrow> ('w, AzureStackHCIMachine) rstate \<Rightarrow>
    AzureStackHCIMachine option \<times> string list \<times> ObjectKey" where
  "machine_view stored s \<equiv> (stored (world s), om_Finalizers (hm_Meta (obj s)), machine_ident (obj s))"

lemma Machine_reconcileNormal_closable:
  assumes "machine_api L S K key stored present" "lib_finalizers L"
  shows "preserves (Machine_reconcileNormal L K sc csc) (machine_guard.closable stored present v R)"
proof -
  have quiet: "preserves m (\<lambda>w. stored w = x)" if "\<And>z. preserves m (\<lambda>w. (stored w, present w) = z)"
    for m :: "('a, 'b) io" and x using preserves_view [OF that, of "\<lambda>(z, _). z = x"] by simp
  have "preserves (k_Get_Secret K k) (\<lambda>w. stored w = x)" "preserves (k_Get_VM K k) (\<lambda>w. stored w = x)" for k x
    using machine_api_laws(1) [OF assms(1)] by (auto intro!: quiet simp: machine_quiet_def access_only_def simp del: prod.inject split_paired_All)
  note gets = this
  have "preserves (machine_vm_mutateFn L K sc csc m vm) (\<lambda>w. stored w = x)" for m vm x
    unfolding machine_vm_mutateFn_def MachineScope_GetBootstrapData_def Let_def by (auto intro!: hoare_rules gets)
  note update = machine_api_laws(2) [OF assms(1) this]
  have "preserves (reconcileVirtualMachineNormal L K sc csc m) (\<lambda>w. stored w = x)" for m x
    unfolding reconcileVirtualMachineNormal_def Let_def by (auto intro!: hoare_rules update gets)
  note world = on_world_view [OF this, of "\<lambda>x m. (x, om_Finalizers (hm_Meta m), machine_ident m) = y" for y]
  have applied: "preserves (machine_applyVM L vm) (\<lambda>s. machine_view stored s = y)" for vm y
    unfolding machine_applyVM_def machine_applyState_def MachineScope_SetVMState_def Let_def by (auto intro!: hoare_rules)
  show ?thesis
    unfolding Machine_reconcileNormal_def MachineScope_PatchObject_def
    by (rule machine_guard.register [OF machine_api_laws(5) [OF assms(1)] assms(2)], rule hoare_return, assumption,
        rule machine_guard.engaged_work) (auto intro!: hoare_rules world applied)
qed

lemma machine_vm_clears:
  assumes "machine_api L S K key stored present" "mkKey (ClusterScope_Namespace csc) (MachineScope_Name m) = key"
  shows "clears stored present {key} (\<lambda>(res, e). e = None \<and> RequeueAfter res = 0) (reconcileVirtualMachineDelete L K csc m)"
proof (rule clearsI)
  fix x A
  let ?I = "\<lambda>w. stored w = x \<and> present w \<inter> A = {}"
  have "preserves (k_Get_VM K key) (\<lambda>w. (stored w, present w) = z)" for z
    using machine_api_laws(1) [OF assms(1)] unfolding machine_quiet_def by blast
  note same = quiet_same [OF this]
  have get: "hoare ?I (k_Get_VM K key) (\<lambda>r w. ?I w \<and> (\<forall>err. r = Inl err \<and> err_IsNotFound L err \<longrightarrow> key \<notin> present w)) ?I"
    by (rule hoareI) (use same machine_api_reads(1) [OF assms(1)] in \<open>fastforce+\<close>)
  note writes = clears_preserves [OF machine_api_laws(3) [OF assms(1)]] clears_preserves [OF machine_api_laws(4) [OF assms(1)]]
  let ?J = "\<lambda>r w. stored w = x \<and> present w \<inter> A = {} \<and> ((case r of (res, e) \<Rightarrow> e = None \<and> RequeueAfter res = 0) \<longrightarrow> present w \<inter> {key} = {})"
  show "hoare ?I (reconcileVirtualMachineDelete L K csc m) ?J ?I"
    unfolding reconcileVirtualMachineDelete_def Let_def assms(2)
    apply (rule hoare_bind [OF get], rule hoare_case_sum)
     apply (auto intro!: hoare_rules)[]
    apply (rule hoare_weaken [where P' = ?I and Q' = ?J and R' = ?I])
       apply (rule hoare_if, auto intro!: hoare_return)[]
       apply (rule hoare_bind [OF writes(1)], rule hoare_case_prod, rule hoare_case_option)
        apply (rule hoare_bind [OF writes(2)], auto intro!: hoare_rules)
    done
qed

lemma Machine_reconcileDelete_closable:
  assumes "machine_api L S K key stored present" "ClusterScope_Namespace csc = key_Namespace key"
  shows "preserves (Machine_reconcileDelete L K csc) (machine_guard.closable stored present key {key})"
proof -
  let ?C = "machine_guard.closable stored present key {key}" and ?E = "\<lambda>s. present (world s) \<inter> {key} = {}"
  let ?ok = "\<lambda>(res, e). e = None \<and> RequeueAfter res = 0"
  have delete: "hoare (\<lambda>s. ?C s \<and> obj s = m) (on_world (reconcileVirtualMachineDelete L K csc m))
      (\<lambda>r s. ?C s \<and> (?ok r \<longrightarrow> ?E s)) ?C" for m
  proof (cases "machine_ident m = key")
    case True
    with assms(2) have "mkKey (ClusterScope_Namespace csc) (MachineScope_Name m) = key"
      by (auto simp: machine_ident_def mkKey_def MachineScope_Name_def)
    from machine_guard.clears_closable [OF machine_vm_clears [OF assms(1) this]] show ?thesis by (rule hoare_weaken) auto
  next
    case False
    then show ?thesis by (auto simp: hoare_def machine_guard.closable_def)
  qed
  have released: "hoare (\<lambda>s. ?C s \<and> ?E s) (bind (upd_obj (Machine_removeFinalizer L)) (\<lambda>_. return x)) (\<lambda>_. ?C) ?C"
    for x :: "Result \<times> goerror option" by (rule hoare_bind [OF machine_guard.release], rule hoare_return)
  show ?thesis
    unfolding Machine_reconcileDelete_def
    apply (rule hoare_bind [where B = "\<lambda>m s. ?C s \<and> obj s = m"], rule hoare_reads, simp)
    apply (rule hoare_bind [OF delete], rule hoare_case_prod, rule hoare_if)
     apply (rule hoare_return, simp)
    apply (rule hoare_weaken [OF released], simp_all)
    done
qed

text \<open>
  From the request to the session: what holds of the world before a reconcile holds after it, if the
  session on the machine that was found keeps it.  The session knows how its scopes were found.
\<close>

abbreviation machine_session :: "lib \<Rightarrow> 'w kube \<Rightarrow> MachineScope \<Rightarrow> ClusterScope \<Rightarrow> AzureStackHCIMachine \<Rightarrow>
    (('w, unit) rstate, Result \<times> goerror option) io" where
  "machine_session L K sc csc m \<equiv> with_obj m (close_after (MachineScope_Close K sc)
     (if \<not> DeletionTimestamp_IsZero (hm_Meta m) then Machine_reconcileDelete L K csc else Machine_reconcileNormal L K sc csc))"

lemma Machine_Reconcile_session:
  assumes "\<And>v. machine_quiet S K (\<lambda>w. (stored w, view w) = v)"
    and "\<And>w m w'. k_Get_HMachine K key w = (Ret (Inr m), w') \<Longrightarrow> stored w = Some m"
    and "\<And>m ma c hc sc csc w1 w1' w2 w2' w3 w3'. stored w1 = Some m \<Longrightarrow> k_GetOwnerMachine K (hm_Meta m) w1 = (Ret (Inr (Some ma)), w1') \<Longrightarrow>
      k_GetClusterFromMetadata K (ma_Meta ma) w2 = (Ret (Inr c), w2') \<Longrightarrow>
      k_Get_HCluster K (mkKey (om_Namespace (hm_Meta m)) (cl_InfrastructureRef_Name c)) w3 = (Ret (Inr hc), w3') \<Longrightarrow>
      csc_before csc = hc \<Longrightarrow> csc_Cluster csc = c \<Longrightarrow>
      hoare (\<lambda>s. P (stored (world s)) (view (world s)) \<and> stored (world s) = Some m) (machine_session L K sc csc m)
        (\<lambda>_ s. P (stored (world s)) (view (world s))) (\<lambda>s. P (stored (world s)) (view (world s)))"
  shows "preserves (Machine_Reconcile L S K key) (\<lambda>s. P (stored (world s)) (view (world s)))"
proof -
  note quiet = assms(1) [unfolded machine_quiet_def]
  note scope = access_quiet(2,4) [OF conjunct1 [OF quiet]]
  note lookup = hoare_lookup [where f = "\<lambda>w. (stored w, view w)" and P = "\<lambda>(x, p). P x p \<and> x = Some m" for m, unfolded prod.case]
  note stop = hoare_stop [where P = "\<lambda>w. P (stored w) (view w)"]
  have session: "hoare (\<lambda>s. P (stored (world s)) (view (world s)) \<and> stored (world s) = Some m) (machine_session L K sc csc m)
      (\<lambda>_ s. P (stored (world s)) (view (world s))) (\<lambda>s. P (stored (world s)) (view (world s)))"
    if owner: "\<exists>w w'. stored w = Some m \<and> k_GetOwnerMachine K (hm_Meta m) w = (Ret (Inr (Some ma)), w')"
      and cluster: "\<exists>w w'. k_GetClusterFromMetadata K (ma_Meta ma) w = (Ret (Inr c), w')"
      and hcluster: "\<exists>w w'. k_Get_HCluster K (mkKey (om_Namespace (hm_Meta m)) (cl_InfrastructureRef_Name c)) w = (Ret (Inr hc), w')"
      and scope: "csc_before csc = hc \<and> csc_Cluster csc = c" for m ma c hc sc csc
    using owner cluster hcluster scope by (elim exE conjE) (erule (5) assms(3))
  show ?thesis
    unfolding Machine_Reconcile_def
    apply (rule hoare_fetch [where f = "\<lambda>w. (stored w, view w)" and P = "\<lambda>(x, p). P x p" and G = "\<lambda>m (x, p). x = Some m", unfolded prod.case])
        apply (use quiet in blast, erule assms(2))
      apply (rule hoare_if [OF stop(2) stop(2)])
    subgoal for m
      apply (rule lookup [where Q = "\<lambda>r. \<forall>ma. r = Inr (Some ma) \<longrightarrow>
          (\<exists>w w'. stored w = Some m \<and> k_GetOwnerMachine K (hm_Meta m) w = (Ret (Inr (Some ma)), w'))"])
         apply (use quiet in blast, blast)
       apply (rule hoare_case_sum, rule stop, rule hoare_case_option, rule stop)
      subgoal for r z ma
        apply (rule lookup [where Q = "\<lambda>r. \<forall>c. r = Inr c \<longrightarrow> (\<exists>w w'. k_GetClusterFromMetadata K (ma_Meta ma) w = (Ret (Inr c), w'))"])
           apply (use quiet in blast, blast)
         apply (rule hoare_case_sum, rule stop)
        subgoal for r' c
          apply (rule lookup [where Q = "\<lambda>r. \<forall>hc. r = Inr hc \<longrightarrow>
              (\<exists>w w'. k_Get_HCluster K (mkKey (om_Namespace (hm_Meta m)) (cl_InfrastructureRef_Name c)) w = (Ret (Inr hc), w'))"])
             apply (use quiet in blast, blast)
           apply (rule hoare_case_sum, rule stop)
          subgoal for r'' hc
            apply (rule lookup [where Q = "\<lambda>r. \<forall>csc. r = Inr csc \<longrightarrow> csc_before csc = hc \<and> csc_Cluster csc = c"], rule scope)
              apply (intro allI impI, hypsubst, drule NewClusterScope_fields, simp)
             apply (rule hoare_case_sum, rule stop, rule lookup [where Q = "\<lambda>_. True"], rule scope, simp, rule hoare_case_sum, rule stop)
              apply (rule session [of _ ma c], simp_all)[]
            by (erule conjunct1)+
          by (erule conjunct1)
        by (erule conjunct1)
      by (erule conjunct1)
    by assumption
qed

lemma Machine_session_accounted:
  assumes "machine_api L S K key stored present" "lib_finalizers L" "ClusterScope_Namespace csc = om_Namespace (hm_Meta m)"
  shows "hoare (\<lambda>s. machine_accounted key (stored (world s)) (present (world s)) \<and> stored (world s) = Some m)
    (machine_session L K sc csc m) (\<lambda>_ s. machine_accounted key (stored (world s)) (present (world s)))
    (\<lambda>s. machine_accounted key (stored (world s)) (present (world s)))"
proof (cases "machine_ident m = key")
  case True
  with assms(3) have "ClusterScope_Namespace csc = key_Namespace key" by (auto simp: machine_ident_def mkKey_def)
  moreover have "preserves (MachineScope_Close K sc) (machine_guard.closable stored present key {key})"
    unfolding MachineScope_Close_def MachineScope_PatchObject_def
    by (rule hoare_weaken [OF machine_guard.patch_closable [OF machine_api_laws(5) [OF assms(1)]]]) auto
  ultimately show ?thesis
    by (intro machine_guard.session)
      (simp_all add: Machine_reconcileDelete_closable [OF assms(1)] Machine_reconcileNormal_closable [OF assms(1,2)])
next
  case False
  then show ?thesis by (auto simp: hoare_def covers_def)
qed

text \<open>The cluster of a machine is looked up in the machine's namespace.\<close>

lemma machine_scope_namespace:
  assumes "machine_api L S K key stored present" "k_GetOwnerMachine K (hm_Meta m) w1 = (Ret (Inr (Some ma)), w1')"
    and "k_GetClusterFromMetadata K (ma_Meta ma) w2 = (Ret (Inr (csc_Cluster csc)), w2')"
  shows "ClusterScope_Namespace csc = om_Namespace (hm_Meta m)"
  using machine_api_reads(3,4) [OF assms(1)] assms(2,3) by (simp add: ClusterScope_Namespace_def)

lemma Machine_Reconcile_accounted:
  assumes "machine_api L S K key stored present" "lib_finalizers L"
  shows "preserves (Machine_Reconcile L S K key) (\<lambda>s. machine_accounted key (stored (world s)) (present (world s)))"
  by (rule Machine_Reconcile_session [where P = "machine_accounted key"], rule machine_api_laws(1) [OF assms(1)],
      erule machine_api_reads(2) [OF assms(1)], rule Machine_session_accounted [OF assms],
      rule machine_scope_namespace [OF assms(1)], assumption, simp)

end
