(* ===== verification/Chain.thy ===== *)
theory Chain
  imports Teardown MachineOwnership
begin

text \<open>
  Two controllers, one chain of ownership: a machine object owns the virtual machine object under
  its key, and that one owns machine, network interface and disk in the cloud.  \<open>Lifecycle\<close> and
  \<open>MachineOwnership\<close> follow one controller each and leave the other to the laws on bystanders; here
  both run against the same API server and the same cloud, and what each needs of the other is
  proved.
\<close>

subsection \<open>The virtual machine controller, as others see it\<close>

text \<open>Everything that a reconcile of a virtual machine calls keeps \<open>I\<close>.\<close>

definition vm_outside :: "'w sys \<Rightarrow> 'w moc \<Rightarrow> 'w kube \<Rightarrow> ObjectKey \<Rightarrow> ('w \<Rightarrow> bool) \<Rightarrow> bool" where
  "vm_outside S M K key I \<longleftrightarrow> access_only S K I \<and> reads_only S K I \<and> random_only S I \<and> cloud_keeps M I \<and>
     preserves (k_Get_VM K key) I \<and> (\<forall>b m. preserves (k_Patch_VM K b m) I)"

lemma vmsvc_Delete_frame:
  assumes "cloud_keeps M I" "reads_only S K I"
  shows "preserves (vmsvc_Delete L S M K m) I"
proof -
  note ops = assms(1) [unfolded cloud_keeps_def]
  have log: "preserves (WriteMocInfoLog M) I" using ops by (intro cloud_log) blast
  have poll: "preserves (sys_PollImmediate S i t (volumes_detached K m)) I" for i t
    using assms(2) volumes_detached_quiet [OF assms(2)] by (simp add: reads_only_def)
  have "preserves (virtualmachines_Delete L M g vs) I" "preserves (networkinterfaces_Delete L M g ns) I"
      "preserves (disks_Delete L M g ds) I" for g vs ns ds
    using ops unfolding virtualmachines_Delete_def networkinterfaces_Delete_def disks_Delete_def
    by (auto intro!: hoare_rules log)
  then show ?thesis unfolding vmsvc_Delete_def by (auto intro!: hoare_rules poll)
qed

lemma VM_Reconcile_frame:
  assumes "vm_outside S M K key I"
  shows "preserves (VM_Reconcile L S M K key) (\<lambda>s. I (world s))"
proof -
  note ops = assms [unfolded vm_outside_def]
  have out: "preserves (on_world m) (\<lambda>s. I (world s))" if "preserves m I" for m :: "('a, 'c) io"
    using on_world_conj [OF that, of "\<lambda>_. True"] by simp
  have create: "preserves (findVM M m) I" "preserves (vmsvc_Create L S M m) I" for m
    using ops by (auto intro: cloud_create_quiet)
  have delete: "preserves (vmsvc_Delete L S M K m) I" for m
    using ops by (auto intro: vmsvc_Delete_frame)
  have scope: "preserves (NewVirtualMachineScope L S K x) I" for x
    using ops by (auto intro: access_quiet)
  have patch: "preserves (VMScope_PatchObject K sc) (\<lambda>s. I (world s))" for sc
    using ops unfolding VMScope_PatchObject_def by (auto intro!: hoare_rules out)
  have "preserves (VM_applyState L vm) (\<lambda>s. I (world s))" "preserves (VM_getOrCreate L S M) (\<lambda>s. I (world s))" for vm
    unfolding VM_applyState_def VM_getOrCreate_def by (auto intro!: hoare_rules out create)
  then have body: "preserves (VM_reconcileDelete L S M K) (\<lambda>s. I (world s))" "preserves (VM_reconcileNormal L S M K sc) (\<lambda>s. I (world s))" for sc
    unfolding VM_reconcileDelete_def VM_reconcileNormal_def by (auto intro!: hoare_rules out delete patch)
  have "preserves (close_after (VMScope_Close K sc) (if b then VM_reconcileDelete L S M K else VM_reconcileNormal L S M K sc))
      (\<lambda>s. I (world s))" for sc b
    by (rule hoare_close_after) (auto intro: body simp: VMScope_Close_def patch)
  then have session: "preserves (with_obj m (close_after (VMScope_Close K sc) (if b then VM_reconcileDelete L S M K else VM_reconcileNormal L S M K sc)))
      (\<lambda>s. I (world s))" for m sc b
    by (rule hoare_with_obj) simp
  show ?thesis
    using ops unfolding VM_Reconcile_def by (auto intro!: hoare_rules out scope session)
qed

subsection \<open>The API server and the cloud, as both controllers see them\<close>

text \<open>Of the virtual machine objects, the machine under \<open>key\<close> owns the one under \<open>key\<close>.\<close>

abbreviation vm_objects :: "ObjectKey \<Rightarrow> ('w \<Rightarrow> AzureStackHCIVirtualMachine option) \<Rightarrow> 'w \<Rightarrow> ObjectKey set" where
  "vm_objects key vm w \<equiv> if vm w = None then {} else {key}"

text \<open>
  The laws, for the machine under \<open>key\<close> with the cluster label \<open>cn\<close>, whose infrastructure cluster is
  under \<open>ckey\<close> and has the group \<open>g\<close>; \<open>mach\<close> and \<open>vm\<close> are the two objects under \<open>key\<close>, \<open>cloud\<close> the
  resources.  Patching a virtual machine object does not bring one into being.  \<open>CreateOrUpdate\<close>
  stores what the mutate function made of the stored object, or of the given one if there is none,
  or changes nothing.  An update stores what it is given, and a deletion marks the object or removes
  one without finalizers; both may be refused.
\<close>

definition chain_frames :: "'w sys \<Rightarrow> 'w moc \<Rightarrow> 'w kube \<Rightarrow> ObjectKey \<Rightarrow> ('w \<Rightarrow> AzureStackHCIMachine option) \<Rightarrow>
    ('w \<Rightarrow> AzureStackHCIVirtualMachine option) \<Rightarrow> ('w \<Rightarrow> resource set) \<Rightarrow> bool" where
  "chain_frames S M K key mach vm cloud \<longleftrightarrow>
     (\<forall>x b. vm_outside S M K key (\<lambda>w. mach w = x \<and> (vm w = None \<or> b))) \<and>
     (\<forall>v. machine_quiet S K (\<lambda>w. (mach w, vm w, cloud w) = v)) \<and>
     (\<forall>b m v. preserves (k_Patch_HMachine K b m) (\<lambda>w. (vm w, cloud w) = v))"

definition vm_writes :: "'w kube \<Rightarrow> ('w \<Rightarrow> AzureStackHCIVirtualMachine option) \<Rightarrow> ('w \<Rightarrow> resource set) \<Rightarrow> bool" where
  "vm_writes K vm cloud \<longleftrightarrow>
     (\<forall>y f w r w'. (\<forall>z v. preserves (f z) (\<lambda>w. (vm w, cloud w) = v)) \<and> k_CreateOrUpdate_VM K y f w = (r, w') \<longrightarrow>
        cloud w' = cloud w \<and> (vm w' = vm w \<or> (\<exists>z u u'. f (case vm w of None \<Rightarrow> y | Some m \<Rightarrow> m) u = (Ret (None, z), u') \<and>
          stored_as hvm_Meta vm_ident z (vm w')))) \<and>
     (\<forall>m w r w'. k_Update_VM K m w = (r, w') \<longrightarrow>
        cloud w' = cloud w \<and> (vm w' = vm w \<or> stored_as hvm_Meta vm_ident m (vm w'))) \<and>
     (\<forall>m w r w'. k_Delete_VM K m w = (r, w') \<longrightarrow> cloud w' = cloud w \<and> (vm w' = vm w \<or> marked (vm w) (vm w')))"

definition machine_cluster :: "'w kube \<Rightarrow> ObjectKey \<Rightarrow> string \<Rightarrow> ObjectKey \<Rightarrow> string \<Rightarrow> ('w \<Rightarrow> AzureStackHCIMachine option) \<Rightarrow> bool" where
  "machine_cluster K key cn ckey g mach \<longleftrightarrow>
     (\<forall>w m ma w'. k_GetOwnerMachine K (hm_Meta m) w = (Ret (Inr (Some ma)), w') \<and> mach w = Some m \<longrightarrow>
        map_get (om_Labels (ma_Meta ma)) ClusterNameLabel = cn) \<and>
     (\<forall>om w c w'. k_GetClusterFromMetadata K om w = (Ret (Inr c), w') \<and> om_Namespace om = key_Namespace key \<and>
        map_get (om_Labels om) ClusterNameLabel = cn \<longrightarrow> mkKey (key_Namespace key) (cl_InfrastructureRef_Name c) = ckey) \<and>
     (\<forall>w hc w'. k_Get_HCluster K ckey w = (Ret (Inr hc), w') \<longrightarrow> ClusterScope_GetResourceGroup hc = g)"

definition chain_api :: "lib \<Rightarrow> 'w sys \<Rightarrow> 'w moc \<Rightarrow> 'w kube \<Rightarrow> ObjectKey \<Rightarrow> string \<Rightarrow> ObjectKey \<Rightarrow> string \<Rightarrow>
    ('w \<Rightarrow> AzureStackHCIMachine option) \<Rightarrow> ('w \<Rightarrow> AzureStackHCIVirtualMachine option) \<Rightarrow> ('w \<Rightarrow> resource set) \<Rightarrow> bool" where
  "chain_api L S M K key cn ckey g mach vm cloud \<longleftrightarrow>
     vm_api L S M K key vm cloud \<and> machine_api L S K key mach (vm_objects key vm) \<and>
     chain_frames S M K key mach vm cloud \<and> vm_writes K vm cloud \<and> machine_cluster K key cn ckey g mach"

text \<open>Both links of the chain hold.\<close>

definition chained :: "ObjectKey \<Rightarrow> string \<Rightarrow> ('w \<Rightarrow> AzureStackHCIMachine option) \<Rightarrow>
    ('w \<Rightarrow> AzureStackHCIVirtualMachine option) \<Rightarrow> ('w \<Rightarrow> resource set) \<Rightarrow> 'w \<Rightarrow> bool" where
  "chained key g mach vm cloud w \<longleftrightarrow> machine_accounted key (mach w) (vm_objects key vm w) \<and>
     accounted g (key_Name key) (vm w) (cloud w)"

text \<open>
  The two controllers, in any order and as often as they like, with others in between, who respect
  the rules for bystanders of both objects.
\<close>

inductive chain_step :: "lib \<Rightarrow> 'w sys \<Rightarrow> 'w moc \<Rightarrow> 'w kube \<Rightarrow> ObjectKey \<Rightarrow> string \<Rightarrow>
    ('w \<Rightarrow> AzureStackHCIMachine option) \<Rightarrow> ('w \<Rightarrow> AzureStackHCIVirtualMachine option) \<Rightarrow> ('w \<Rightarrow> resource set) \<Rightarrow>
    ('w, unit) rstate \<Rightarrow> ('w, unit) rstate \<Rightarrow> bool"
  for L S M K key g mach vm cloud where
  machine: "Machine_Reconcile L S K key s = (r, t) \<Longrightarrow> chain_step L S M K key g mach vm cloud s t"
| vm: "VM_Reconcile L S M K key s = (r, t) \<Longrightarrow> chain_step L S M K key g mach vm cloud s t"
| other: "bystander hm_Meta MachineFinalizer machine_ident key {key} mach (vm_objects key vm) (world s) w \<Longrightarrow>
    bystander hvm_Meta VirtualMachineFinalizer vm_ident (g, key_Name key) (vm_resources g (key_Name key)) vm cloud (world s) w \<Longrightarrow>
    chain_step L S M K key g mach vm cloud s (s\<lparr>world := w\<rparr>)"

lemma chain_frames_laws:
  assumes "chain_frames S M K key mach vm cloud"
  shows "vm_outside S M K key (\<lambda>w. mach w = x \<and> (vm w = None \<or> b))" "machine_quiet S K (\<lambda>w. (mach w, vm w, cloud w) = u)"
    "preserves (k_Patch_HMachine K hm hm') (\<lambda>w. (vm w, cloud w) = v)"
  using assms unfolding chain_frames_def by (simp_all del: prod.inject split_paired_All)

lemma vm_writes_laws:
  assumes "vm_writes K vm cloud"
  shows "(\<And>z v. preserves (f z) (\<lambda>w. (vm w, cloud w) = v)) \<Longrightarrow> k_CreateOrUpdate_VM K y f w = (r, w') \<Longrightarrow>
      cloud w' = cloud w \<and> (vm w' = vm w \<or> (\<exists>z u u'. f (case vm w of None \<Rightarrow> y | Some m \<Rightarrow> m) u = (Ret (None, z), u') \<and>
        stored_as hvm_Meta vm_ident z (vm w')))"
    "k_Update_VM K m w = (r', w') \<Longrightarrow> cloud w' = cloud w \<and> (vm w' = vm w \<or> stored_as hvm_Meta vm_ident m (vm w'))"
    "k_Delete_VM K m w = (r'', w') \<Longrightarrow> cloud w' = cloud w \<and> (vm w' = vm w \<or> marked (vm w) (vm w'))"
proof -
  note laws = assms [unfolded vm_writes_def]
  note update = conjunct1 [OF conjunct2 [OF laws], rule_format] and delete = conjunct2 [OF conjunct2 [OF laws], rule_format]
  show "cloud w' = cloud w \<and> (vm w' = vm w \<or> (\<exists>z u u'. f (case vm w of None \<Rightarrow> y | Some m \<Rightarrow> m) u = (Ret (None, z), u') \<and>
        stored_as hvm_Meta vm_ident z (vm w')))"
    if "\<And>z v. preserves (f z) (\<lambda>w. (vm w, cloud w) = v)" "k_CreateOrUpdate_VM K y f w = (r, w')"
    by (rule conjunct1 [OF laws, rule_format], rule conjI [OF allI [OF allI] that(2)], rule that(1))
  show "k_Update_VM K m w = (r', w') \<Longrightarrow> cloud w' = cloud w \<and> (vm w' = vm w \<or> stored_as hvm_Meta vm_ident m (vm w'))"
    "k_Delete_VM K m w = (r'', w') \<Longrightarrow> cloud w' = cloud w \<and> (vm w' = vm w \<or> marked (vm w) (vm w'))"
    by (erule update, erule delete)
qed

lemma machine_cluster_laws:
  assumes "machine_cluster K key cn ckey g mach"
  shows "k_GetOwnerMachine K (hm_Meta m) w = (Ret (Inr (Some ma)), w') \<Longrightarrow> mach w = Some m \<Longrightarrow>
      map_get (om_Labels (ma_Meta ma)) ClusterNameLabel = cn"
    "k_GetClusterFromMetadata K om w = (Ret (Inr c), w') \<Longrightarrow> om_Namespace om = key_Namespace key \<Longrightarrow>
      map_get (om_Labels om) ClusterNameLabel = cn \<Longrightarrow> mkKey (key_Namespace key) (cl_InfrastructureRef_Name c) = ckey"
    "k_Get_HCluster K ckey w = (Ret (Inr hc), w') \<Longrightarrow> ClusterScope_GetResourceGroup hc = g"
  using assms unfolding machine_cluster_def by blast+

subsection \<open>A reconcile of the virtual machine keeps the machine's link\<close>

lemma VM_Reconcile_machine_link:
  assumes "chain_frames S M K key mach vm cloud"
  shows "preserves (VM_Reconcile L S M K key) (\<lambda>s. machine_accounted key (mach (world s)) (vm_objects key vm (world s)))"
proof (rule hoareI)
  let ?J = "\<lambda>w. machine_accounted key (mach w) (vm_objects key vm w)"
  note frame = VM_Reconcile_frame [where L = L, OF chain_frames_laws(1) [OF assms]]
  have link: "?J w'" if "?J w" "mach w' = mach w \<and> (vm w' = None \<or> vm w \<noteq> None)" for w w'
    using that by (auto simp: covers_def)
  show "?J (world t)" if "?J (world s)" "VM_Reconcile L S M K key s = (Ret x, t)" for s x t
    by (rule link [OF that(1)], rule hoareD_Ret [OF frame _ that(2)], auto)
  show "?J (world t)" if "?J (world s)" "VM_Reconcile L S M K key s = (Panics p, t)" for s p t
    by (rule link [OF that(1)], rule hoareD_Panics [OF frame _ that(2)], auto)
qed

subsection \<open>A reconcile of the machine keeps the virtual machine's link\<close>

text \<open>The mutate function leaves the finalizers alone and gives the object its place in the cloud.\<close>

lemma machine_vm_mutateFn_ident:
  assumes "machine_vm_mutateFn L K sc csc m x w = (Ret (None, z), w')"
  shows "om_Finalizers (hvm_Meta z) = om_Finalizers (hvm_Meta x)"
    "vm_ident z = (ClusterScope_GetResourceGroup (csc_before csc), VMScope_Name x)"
  using assms
  by (auto simp: machine_vm_mutateFn_def machine_vm_network_def machine_vm_owner_def machine_vm_spec_def run_simps Let_def
      CopyCorrelationID_def vm_ident_def VMScope_GetResourceGroup_def VMScope_Name_def ClusterScope_GetResourceGroup_def
      split: sum.splits if_splits)

lemma stored_as_accounted:
  assumes "accounted g n x p" "stored_as hvm_Meta vm_ident z y" "vm_ident z = (g, n)"
    and "om_Finalizers (hvm_Meta z) = (case x of None \<Rightarrow> fs | Some m \<Rightarrow> om_Finalizers (hvm_Meta m))"
  shows "accounted g n y p"
  using assms by (auto simp: covers_def stored_as_def held_by_def split: option.splits)

text \<open>Lookups keep what the chain is made of.\<close>

lemma machine_quiet_vm:
  fixes K :: "'w kube"
  assumes "\<And>v. machine_quiet S K (\<lambda>w. (mach w, vm w, cloud w) = v)"
  shows "preserves (k_Get_Secret K k) (\<lambda>w. (vm w, cloud w) = v)" "preserves (k_Get_VM K k) (\<lambda>w. (vm w, cloud w) = v)"
proof -
  have "preserves m (\<lambda>w. (vm w, cloud w) = v)" if "\<And>u. preserves m (\<lambda>w. (mach w, vm w, cloud w) = u)" for m :: "('w, 'ret) io"
    using preserves_view [OF that, of "\<lambda>(_, p). p = v"] by simp
  note view = this
  show "preserves (k_Get_Secret K k) (\<lambda>w. (vm w, cloud w) = v)" "preserves (k_Get_VM K k) (\<lambda>w. (vm w, cloud w) = v)"
    by (rule view, use assms in \<open>simp add: machine_quiet_def access_only_def del: prod.inject split_paired_All\<close>)+
qed

lemma reconcileVirtualMachineNormal_vm_link:
  assumes "chain_frames S M K key mach vm cloud" "vm_writes K vm cloud"
    and "ClusterScope_GetResourceGroup (csc_before csc) = g" "MachineScope_Name m = n"
  shows "preserves (reconcileVirtualMachineNormal L K sc csc m) (\<lambda>w. accounted g n (vm w) (cloud w))"
proof -
  let ?I = "\<lambda>w. accounted g n (vm w) (cloud w)"
  note gets = machine_quiet_vm [OF chain_frames_laws(2) [OF assms(1)]]
  let ?f = "machine_vm_mutateFn L K sc csc m" and ?y = "newVirtualMachine (ClusterScope_Namespace csc) (MachineScope_Name m)"
  have "preserves (?f x) (\<lambda>w. (vm w, cloud w) = v)" for x v
    unfolding machine_vm_mutateFn_def MachineScope_GetBootstrapData_def Let_def by (auto intro!: hoare_rules gets)
  note create = vm_writes_laws(1) [OF assms(2) this]
  have kept: "?I w'" if I: "?I w" and run: "k_CreateOrUpdate_VM K ?y ?f w = (r, w')" for w r w'
  proof (cases "vm w' = vm w")
    case False
    with create [OF run] obtain z u u' where z: "?f (case vm w of None \<Rightarrow> ?y | Some m \<Rightarrow> m) u = (Ret (None, z), u')"
        "stored_as hvm_Meta vm_ident z (vm w')" "cloud w' = cloud w" by blast
    from I assms(4) have "VMScope_Name (case vm w of None \<Rightarrow> ?y | Some m \<Rightarrow> m) = n"
      by (auto simp: covers_def vm_ident_def newVirtualMachine_def newMeta_def VMScope_Name_def split: option.splits)
    with machine_vm_mutateFn_ident [OF z(1)] assms(3) show ?thesis
      unfolding z(3) by (intro stored_as_accounted [OF I z(2), where fs = "om_Finalizers (hvm_Meta ?y)"]) (simp_all split: option.splits)
  qed (use I create [OF run] in simp)
  have "preserves (k_CreateOrUpdate_VM K ?y ?f) ?I" by (rule hoareI) (erule (1) kept)+
  moreover have "preserves (k_Get_VM K k) ?I" for k using preserves_view [OF gets(2), of "\<lambda>(x, p). accounted g n x p"] by simp
  ultimately show ?thesis unfolding reconcileVirtualMachineNormal_def Let_def by (auto intro!: hoare_rules)
qed

lemma reconcileVirtualMachineDelete_vm_link:
  assumes "vm_api L S M K key vm cloud" "vm_writes K vm cloud"
    and "mkKey (ClusterScope_Namespace csc) (MachineScope_Name m) = key"
  shows "preserves (reconcileVirtualMachineDelete L K csc m) (\<lambda>w. accounted g n (vm w) (cloud w))"
proof -
  let ?I = "\<lambda>w. accounted g n (vm w) (cloud w)"
  have get: "hoare ?I (k_Get_VM K key) (\<lambda>r w. ?I w \<and> (\<forall>x. r = Inr x \<longrightarrow> vm w = Some x)) ?I"
    by (rule hoareI) (use quiet_same [OF vm_api_laws(9) [OF assms(1)]] vm_api_Get(1) [OF assms(1)] in \<open>fastforce+\<close>)
  have update: "hoare (\<lambda>w. ?I w \<and> vm w = Some x) (k_Update_VM K (x\<lparr>hvm_Meta := CopyCorrelationID om (hvm_Meta x)\<rparr>)) (\<lambda>_. ?I) ?I" for x om
  proof -
    let ?z = "x\<lparr>hvm_Meta := CopyCorrelationID om (hvm_Meta x)\<rparr>"
    have z: "vm_ident ?z = vm_ident x" "om_Finalizers (hvm_Meta ?z) = om_Finalizers (hvm_Meta x)"
      by (simp_all add: CopyCorrelationID_def Let_def vm_ident_def VMScope_GetResourceGroup_def VMScope_Name_def)
    have "?I w'" if w: "?I w \<and> vm w = Some x" and run: "k_Update_VM K ?z w = (r, w')" for w r w'
      using vm_writes_laws(2) [OF assms(2) run] w stored_as_accounted [of g n "vm w" "cloud w" ?z "vm w'"] z
      by (auto simp: covers_def)
    then show ?thesis by (auto intro!: hoareI)
  qed
  have delete: "preserves (k_Delete_VM K x) ?I" for x
    by (rule hoareI) (use vm_writes_laws(3) [OF assms(2)] marked_accounted in \<open>metis+\<close>)
  show ?thesis
    unfolding reconcileVirtualMachineDelete_def Let_def assms(3)
    apply (rule hoare_bind [OF get], rule hoare_case_sum)
     apply (auto intro!: hoare_rules)[]
    apply (rule hoare_if, rule hoare_return, erule conjunct1)
    apply (rule hoare_bind [where B = "\<lambda>_. ?I"], rule hoare_weaken [OF update], blast, assumption, assumption)
    apply (auto intro!: hoare_rules delete)
    done
qed

lemma machine_session_vm_link:
  assumes api: "vm_api L S M K key vm cloud" and frames: "chain_frames S M K key mach vm cloud" and writes: "vm_writes K vm cloud"
    and csc: "ClusterScope_GetResourceGroup (csc_before csc) = g" "ClusterScope_Namespace csc = key_Namespace key"
    and "machine_ident m = key"
  shows "preserves (machine_session L K sc csc m) (\<lambda>s. accounted g (key_Name key) (vm (world s)) (cloud (world s)))"
proof -
  let ?I = "\<lambda>w. accounted g (key_Name key) (vm w) (cloud w)"
  let ?C = "\<lambda>s. ?I (world s) \<and> machine_ident (obj s) = key"
  have links: "preserves (reconcileVirtualMachineNormal L K sc csc m) ?I" "preserves (reconcileVirtualMachineDelete L K csc m) ?I"
    if "machine_ident m = key" for m sc
    using that csc by (auto intro!: reconcileVirtualMachineNormal_vm_link [OF frames writes] reconcileVirtualMachineDelete_vm_link [OF api writes]
        simp: machine_ident_def MachineScope_Name_def mkKey_def)
  have calls: "hoare (\<lambda>s. ?C s \<and> obj s = m) (on_world f) (\<lambda>_. ?C) ?C" if "machine_ident m = key \<Longrightarrow> preserves f ?I"
    for f :: "('a, 'ret) io" and m
  proof (cases "machine_ident m = key")
    case True
    show ?thesis by (rule hoare_weaken [OF on_world_conj [OF that [OF True], of "\<lambda>x. machine_ident x = key"]]) auto
  qed (auto simp: hoare_def)
  have patch: "preserves (MachineScope_PatchObject K sc) ?C" for sc
    using on_world_view [OF chain_frames_laws(3) [OF frames], of "\<lambda>(x, p) o'. accounted g (key_Name key) x p \<and> machine_ident o' = key"]
    unfolding MachineScope_PatchObject_def by (intro preserves_bind) (auto intro: hoare_reads)
  have applied: "preserves (machine_applyVM L x) ?C" for x
    unfolding machine_applyVM_def machine_applyState_def MachineScope_SetVMState_def Let_def by (auto intro!: hoare_rules)
  note fetch = hoare_bind [where B = "\<lambda>m s. ?C s \<and> obj s = m", OF hoare_reads]
  have normal: "preserves (Machine_reconcileNormal L K sc csc) ?C"
    unfolding Machine_reconcileNormal_def
    by (auto intro!: hoare_rules patch fetch hoare_bind [OF calls [OF links(1)]] applied)
  have delete: "preserves (Machine_reconcileDelete L K csc) ?C"
    unfolding Machine_reconcileDelete_def
    by (rule fetch, simp, rule hoare_bind [OF calls [OF links(2)]]) (auto intro!: hoare_rules)
  show ?thesis
  proof (rule hoare_with_obj [where I = ?I and Q = ?C])
    show "hoare ?C (close_after (MachineScope_Close K sc) (if \<not> DeletionTimestamp_IsZero (hm_Meta m) then Machine_reconcileDelete L K csc
        else Machine_reconcileNormal L K sc csc)) (\<lambda>_ s. ?I (world s)) (\<lambda>s. ?I (world s))"
    proof (rule hoare_close_after [where C = ?C])
      show "hoare ?C (MachineScope_Close K sc) (\<lambda>_ s. ?I (world s)) (\<lambda>s. ?I (world s))"
        unfolding MachineScope_Close_def by (rule hoare_weaken [OF patch]) auto
    qed (use normal delete in simp)
  qed (use assms(6) in auto)
qed

lemma Machine_Reconcile_chained:
  assumes "chain_api L S M K key cn ckey g mach vm cloud" "lib_finalizers L"
  shows "preserves (Machine_Reconcile L S K key) (\<lambda>s. chained key g mach vm cloud (world s))"
proof -
  note laws = assms(1) [unfolded chain_api_def]
  have api: "vm_api L S M K key vm cloud" "machine_api L S K key mach (vm_objects key vm)"
      and frames: "chain_frames S M K key mach vm cloud" and writes: "vm_writes K vm cloud" and cluster: "machine_cluster K key cn ckey g mach"
    using laws by simp_all
  let ?P = "\<lambda>x (y, p). machine_accounted key x (if y = None then {} else {key}) \<and> accounted g (key_Name key) y p"
  have "preserves (Machine_Reconcile L S K key) (\<lambda>s. ?P (mach (world s)) (vm (world s), cloud (world s)))"
  proof (rule Machine_Reconcile_session [where P = ?P and view = "\<lambda>w. (vm w, cloud w)", OF chain_frames_laws(2) [OF frames]
        machine_api_reads(2) [OF api(2)]])
    fix m ma c hc sc w1 w1' w2 w2' w3 w3' and csc :: ClusterScope
    assume found: "mach w1 = Some m" "k_GetOwnerMachine K (hm_Meta m) w1 = (Ret (Inr (Some ma)), w1')"
      "k_GetClusterFromMetadata K (ma_Meta ma) w2 = (Ret (Inr c), w2')"
      "k_Get_HCluster K (mkKey (om_Namespace (hm_Meta m)) (cl_InfrastructureRef_Name c)) w3 = (Ret (Inr hc), w3')"
      and csc: "csc_before csc = hc" "csc_Cluster csc = c"
    have ns: "ClusterScope_Namespace csc = om_Namespace (hm_Meta m)"
      using machine_scope_namespace [OF api(2) found(2)] found(3) csc by simp
    let ?I = "\<lambda>s. ?P (mach (world s)) (vm (world s), cloud (world s))"
    show "hoare (\<lambda>s. ?I s \<and> mach (world s) = Some m) (machine_session L K sc csc m) (\<lambda>_. ?I) ?I"
    proof (cases "machine_ident m = key")
      case True
      then have key: "om_Namespace (hm_Meta m) = key_Namespace key" by (auto simp: machine_ident_def mkKey_def)
      have "mkKey (key_Namespace key) (cl_InfrastructureRef_Name c) = ckey"
        using machine_cluster_laws(1,2) [OF cluster] found machine_api_reads(3) [OF api(2) found(2)] key by simp
      with machine_cluster_laws(3) [OF cluster] found(4) csc key have "ClusterScope_GetResourceGroup (csc_before csc) = g" by simp
      from machine_session_vm_link [where L = L and sc = sc, OF api(1) frames writes this _ True] ns key
      have "preserves (machine_session L K sc csc m) (\<lambda>s. accounted g (key_Name key) (vm (world s)) (cloud (world s)))" by simp
      from hoare_conj [OF Machine_session_accounted [where sc = sc, OF api(2) assms(2) ns] this] show ?thesis
        by (rule hoare_weaken) auto
    next
      case False
      then show ?thesis by (auto simp: hoare_def covers_def)
    qed
  qed
  then show ?thesis by (simp add: chained_def [abs_def])
qed

subsection \<open>The chain holds\<close>

lemma VM_Reconcile_chained:
  assumes "chain_api L S M K key cn ckey g mach vm cloud" "lib_finalizers L"
  shows "preserves (VM_Reconcile L S M K key) (\<lambda>s. chained key g mach vm cloud (world s))"
proof -
  have "chain_frames S M K key mach vm cloud" "vm_api L S M K key vm cloud" using assms(1) by (simp_all add: chain_api_def)
  from hoare_conj [OF VM_Reconcile_machine_link [OF this(1)] VM_Reconcile_accounted [OF this(2) assms(2)]]
  show ?thesis by (simp add: chained_def [abs_def])
qed

lemma chain_step_chained:
  assumes "chain_api L S M K key cn ckey g mach vm cloud" "lib_finalizers L"
    and "chain_step L S M K key g mach vm cloud s t" "chained key g mach vm cloud (world s)"
  shows "chained key g mach vm cloud (world t)"
  using assms(3)
proof cases
  case (machine r)
  with Machine_Reconcile_chained [OF assms(1,2)] assms(4) show ?thesis by (cases r) (auto simp: hoare_def)
next
  case (vm r)
  with VM_Reconcile_chained [OF assms(1,2)] assms(4) show ?thesis by (cases r) (auto simp: hoare_def)
next
  case (other w)
  then show ?thesis
    using machine_guard.bystander_covers [OF other(2)] vm_guard.bystander_covers [OF other(3)] assms(4) by (simp add: chained_def)
qed

lemma chain_life_chained:
  assumes "chain_api L S M K key cn ckey g mach vm cloud" "lib_finalizers L"
    and "(chain_step L S M K key g mach vm cloud)\<^sup>*\<^sup>* s t" "chained key g mach vm cloud (world s)"
  shows "chained key g mach vm cloud (world t)"
  using assms(3,4) by (induction rule: rtranclp_induct) (auto intro: chain_step_chained [OF assms(1,2)])

subsection \<open>An API server and a cloud that keep the laws\<close>

text \<open>The world is the two stored objects with the set of resources; everything that makes sense succeeds.\<close>

type_synonym chain_world = "AzureStackHCIMachine option \<times> AzureStackHCIVirtualMachine option \<times> resource set"

definition chain_cluster :: AzureStackHCICluster where
  "chain_cluster = hcluster0\<lparr>hc_Status := (hc_Status hcluster0)\<lparr>cst_Initialization := Some \<lparr>ci_Provisioned = Some True\<rparr>\<rparr>\<rparr>"

definition chain_owner :: "string \<Rightarrow> Machine" where
  "chain_owner ns = machine0\<lparr>ma_Meta := (newMeta ns ''m'')\<lparr>om_Labels := Some [(ClusterNameLabel, ''c'')]\<rparr>, ma_DataSecretName := Some ''boot''\<rparr>"

definition chain_kube :: "chain_world kube" where
  "chain_kube = kube0\<lparr>
     k_Get_HMachine := \<lambda>_ w. (Ret (case fst w of None \<Rightarrow> Inl (External ''NotFound'') | Some m \<Rightarrow> Inr m), w),
     k_Get_VM := \<lambda>k w. (Ret (case fst (snd w) of None \<Rightarrow> Inl (External ''NotFound'')
       | Some m \<Rightarrow> if VMScope_Name m = key_Name k then Inr m else Inl (External ''Internal'')), w),
     k_GetOwnerMachine := \<lambda>om w. (Ret (Inr (Some (chain_owner (om_Namespace om)))), w),
     k_GetClusterFromMetadata := \<lambda>om w. (Ret (Inr (cluster0\<lparr>cl_Meta := newMeta (om_Namespace om) ''c''\<rparr>)), w),
     k_Get_HCluster := \<lambda>_ w. (Ret (Inr chain_cluster), w),
     k_Get_Secret := \<lambda>_ w. (Ret (Inr \<lparr>sec_Data = [(''value'', [])]\<rparr>), w),
     k_CreateOrUpdate_VM := \<lambda>y f. bind (reads (fst \<circ> snd)) (\<lambda>x.
       bind (f (case x of None \<Rightarrow> y | Some m \<Rightarrow> m)) (\<lambda>(e, z). case e of
         Some _ \<Rightarrow> return (OperationResultNone, e, z)
       | None \<Rightarrow> (\<lambda>w. (Ret (OperationResultCreated, None, z), (fst w, Some z, snd (snd w)))))),
     k_Update_VM := \<lambda>m w. (Ret (None, m), (fst w, map_option (\<lambda>_. m) (fst (snd w)), snd (snd w))),
     k_Delete_VM := \<lambda>_ w. (Ret None, (fst w, (case fst (snd w) of None \<Rightarrow> None
       | Some m \<Rightarrow> if om_Finalizers (hvm_Meta m) = [] then None
           else Some (m\<lparr>hvm_Meta := (hvm_Meta m)\<lparr>om_DeletionTimestamp := Some 1\<rparr>\<rparr>)), snd (snd w))),
     k_Patch_HMachine := \<lambda>_ m w. (Ret None, (if om_Finalizers (hm_Meta m) = [] then None else Some m, snd w)),
     k_Patch_VM := \<lambda>_ m w. (case fst (snd w) of None \<Rightarrow> (Ret (Some (External ''NotFound'')), w)
       | Some _ \<Rightarrow> (Ret None, (fst w, if om_Finalizers (hvm_Meta m) = [] then None else Some m, snd (snd w))))\<rparr>"

definition chain_moc :: "chain_world moc" where
  "chain_moc = moc0\<lparr>
     m_Create_VM := \<lambda>g n _ (a, b, p). (Ret None, (a, b, insert (KVM, g, n) p)),
     m_Create_NIC := \<lambda>g n _ (a, b, p). (Ret None, (a, b, insert (KNIC, g, n) p)),
     m_Delete_VM := \<lambda>g n (a, b, p). (Ret None, (a, b, p - {(KVM, g, n)})),
     m_Delete_NIC := \<lambda>g n (a, b, p). (Ret None, (a, b, p - {(KNIC, g, n)})),
     m_Delete_Disk := \<lambda>g _ n (a, b, p). (Ret None, (a, b, p - {(KDisk, g, n)}))\<rparr>"

abbreviation chain_vm :: "chain_world \<Rightarrow> AzureStackHCIVirtualMachine option" where "chain_vm w \<equiv> fst (snd w)"
abbreviation chain_cloud :: "chain_world \<Rightarrow> resource set" where "chain_cloud w \<equiv> snd (snd w)"

lemma chain_access:
  "access_only sys0 chain_kube I" "reads_only sys0 chain_kube I" "random_only sys0 I"
  by (auto simp: access_only_def reads_only_def random_only_def sys0_def chain_kube_def kube0_def hoare_def bind_def
      split: option.splits res.splits prod.splits)

lemma chain_machine_quiet: "machine_quiet sys0 chain_kube I"
  unfolding machine_quiet_def using chain_access(1)
  by (auto simp: chain_kube_def hoare_def split: option.splits)

definition chain_machine :: AzureStackHCIMachine where
  "chain_machine = hmachine0\<lparr>hm_Spec := (hm_Spec hmachine0)\<lparr>ms_Image := Some (zeroImage\<lparr>img_Name := Some ''image''\<rparr>)\<rparr>\<rparr>"

definition chain_start :: "(chain_world, unit) rstate" where
  "chain_start = \<lparr>world = (Some chain_machine, None, {}), obj = (), events = []\<rparr>"

text \<open>The scopes that the first reconcile of the machine finds, and what it leaves; then one of its virtual machine.\<close>

definition chain_csc :: ClusterScope where "chain_csc = csc0\<lparr>csc_before := chain_cluster\<rparr>"

definition chain_msc :: MachineScope where
  "chain_msc = \<lparr>msc_before = chain_machine, msc_Cluster = cluster0, msc_Machine = chain_owner ''ns'', msc_AzureStackHCICluster = chain_cluster\<rparr>"

definition chain_owned :: "(chain_world, unit) rstate" where
  "chain_owned = snd (with_obj chain_machine (close_after (MachineScope_Close chain_kube chain_msc)
     (Machine_reconcileNormal lib0 chain_kube chain_msc chain_csc)) chain_start)"

definition chain_created :: "(chain_world, unit) rstate" where
  "chain_created = snd (VM_Reconcile lib0 sys0 chain_moc chain_kube vm_key chain_owned)"

lemma chain_owned_reconcile: "chain_owned = snd (Machine_Reconcile lib0 sys0 chain_kube vm_key chain_start)"
proof -
  have "cluster0\<lparr>cl_Meta := newMeta ''ns'' ''c''\<rparr> = cluster0" by (simp add: cluster0_def)
  moreover have "NewClusterScope lib0 sys0 chain_kube (Some cluster0) (Some chain_cluster) w = (Ret (Inr chain_csc), w)" for w
    by (simp add: NewClusterScope_def ReconcileAzureStackHCIAccess_def authorize_or_login_def UpdateLoginConfig_def auth_GetSecret_def
        sys0_def chain_kube_def kube0_def bind_def chain_csc_def csc0_def)
  moreover have "NewMachineScope chain_kube (Some (chain_owner ''ns'')) (Some cluster0) (Some chain_cluster) (Some chain_machine) w =
      (Ret (Inr chain_msc), w)" for w
    by (simp add: NewMachineScope_def chain_kube_def kube0_def bind_def chain_msc_def)
  moreover have "om_Namespace (hm_Meta chain_machine) = ''ns''" "DeletionTimestamp_IsZero (hm_Meta chain_machine)"
      "om_Namespace (ma_Meta (chain_owner ''ns'')) = ''ns''"
    by code_simp+
  moreover have "k_Get_HMachine chain_kube k (world chain_start) = (Ret (Inr chain_machine), world chain_start)"
      "k_GetOwnerMachine chain_kube om w = (Ret (Inr (Some (chain_owner (om_Namespace om)))), w)"
      "k_GetClusterFromMetadata chain_kube om w = (Ret (Inr (cluster0\<lparr>cl_Meta := newMeta (om_Namespace om) ''c''\<rparr>)), w)"
      "k_Get_HCluster chain_kube k w = (Ret (Inr chain_cluster), w)" for k w om
    by (simp_all add: chain_kube_def chain_start_def)
  ultimately show ?thesis by (simp add: chain_owned_def Machine_Reconcile_def bind_on_world)
qed

lemma chain_created_resources: "(KNIC, ''rg'', ''m-nic'') \<in> chain_cloud (world chain_created)"
  by code_simp

lemma chain_put:
  "(\<And>z. preserves (f z) (\<lambda>w. fst w = x)) \<Longrightarrow> preserves (k_CreateOrUpdate_VM chain_kube y f) (\<lambda>w. fst w = x)"
  unfolding chain_kube_def by simp (intro hoare_rules; auto simp: hoare_def)

lemma chain_laws:
  "vm_api lib0 sys0 chain_moc chain_kube vm_key chain_vm chain_cloud"
  "machine_api lib0 sys0 chain_kube vm_key fst (vm_objects vm_key chain_vm)"
  "chain_frames sys0 chain_moc chain_kube vm_key fst chain_vm chain_cloud"
  "machine_cluster chain_kube vm_key ''c'' (mkKey ''ns'' ''c'') ''rg'' fst"
  subgoal
    unfolding vm_api_def
    by (intro conjI allI chain_access) (auto simp: cloud_keeps_def deletes_def patches_def stored_as_def
        chain_kube_def chain_moc_def kube0_def moc0_def lib0_def hoare_def split: option.splits if_splits)
  subgoal
    unfolding machine_api_def
    apply (intro conjI allI chain_machine_quiet)
          apply (intro impI chain_put, blast)
         apply (auto simp: clears_def patches_def stored_as_def chain_owner_def machine0_def newMeta_def cluster0_def
        chain_kube_def kube0_def lib0_def hoare_def split: option.splits if_splits res.splits prod.splits)
    done
  subgoal
    unfolding chain_frames_def vm_outside_def
    by (intro conjI allI chain_access chain_machine_quiet)
      (auto simp: cloud_keeps_def chain_kube_def chain_moc_def kube0_def moc0_def hoare_def split: option.splits)
  subgoal
    unfolding machine_cluster_def
    by (auto simp: chain_kube_def chain_owner_def map_get_def machine0_def newMeta_def cluster0_def mkKey_def vm_key_def chain_cluster_def
        hcluster0_def ClusterScope_GetResourceGroup_def)
  done

lemma chain_vm_writes: "vm_writes chain_kube chain_vm chain_cloud"
proof -
  have put: "chain_cloud w' = chain_cloud w \<and> (chain_vm w' = chain_vm w \<or>
      (\<exists>z u u'. f (case chain_vm w of None \<Rightarrow> y | Some m \<Rightarrow> m) u = (Ret (None, z), u') \<and> stored_as hvm_Meta vm_ident z (chain_vm w')))"
    if f: "\<And>z v. preserves (f z) (\<lambda>w. (chain_vm w, chain_cloud w) = v)" and run: "k_CreateOrUpdate_VM chain_kube y f w = (r, w')" for y f w r w'
  proof -
    obtain r1 w1 where call: "f (case chain_vm w of None \<Rightarrow> y | Some m \<Rightarrow> m) w = (r1, w1)"
      by (cases "f (case chain_vm w of None \<Rightarrow> y | Some m \<Rightarrow> m) w")
    from quiet_same [OF f call] run call show ?thesis
      by (cases r1; cases w; cases w1) (fastforce simp: chain_kube_def bind_def reads_def stored_as_def split: option.splits)+
  qed
  show ?thesis
    unfolding vm_writes_def
    by (intro conjI, use put in blast) (auto simp: stored_as_def marked_def DeletionTimestamp_IsZero_def vm_ident_def
        VMScope_GetResourceGroup_def VMScope_Name_def chain_kube_def split: option.splits)
qed

lemma chain_world_api: "chain_api lib0 sys0 chain_moc chain_kube vm_key ''c'' (mkKey ''ns'' ''c'') ''rg'' fst chain_vm chain_cloud"
  unfolding chain_api_def by (intro conjI chain_laws chain_vm_writes)

lemma chain_start_chained: "chained vm_key ''rg'' fst chain_vm chain_cloud (world chain_start)"
  by (simp add: chained_def covers_def chain_start_def machine_ident_def chain_machine_def hmachine0_def newMeta_def vm_key_def)

lemma chain_life:
  "(chain_step lib0 sys0 chain_moc chain_kube vm_key ''rg'' fst chain_vm chain_cloud)\<^sup>*\<^sup>* chain_start chain_created"
  (is "?step\<^sup>*\<^sup>* _ _")
proof -
  have "?step chain_start chain_owned"
    by (rule chain_step.machine [where r = "fst (Machine_Reconcile lib0 sys0 chain_kube vm_key chain_start)"]) (simp add: chain_owned_reconcile)
  moreover have "?step chain_owned chain_created"
    by (rule chain_step.vm [where r = "fst (VM_Reconcile lib0 sys0 chain_moc chain_kube vm_key chain_owned)"]) (simp add: chain_created_def)
  ultimately show ?thesis by (rule converse_rtranclp_into_rtranclp [OF _ r_into_rtranclp])
qed

subsection \<open>Properties\<close>

text \<open>
  C1: Nothing of a machine outlives it.  Let reconciles of a machine object and of its virtual machine
  object, each with any outcome (success, error or panic at any call), interleave in any order, with
  steps of users, of the API server and of other controllers in between.  At every time between
  them: if a machine, network interface or disk of the machine is in the cloud, then the virtual
  machine object is stored and held by its finalizer, and the machine object is stored and held by
  its own.
\<close>

theorem chain_never_orphaned:
  assumes "chain_api L S M K key cn ckey g mach vm cloud" "lib_finalizers L"
    and "(chain_step L S M K key g mach vm cloud)\<^sup>*\<^sup>* s t" "chained key g mach vm cloud (world s)"
    and "x \<in> cloud (world t)" "x \<in> vm_resources g (key_Name key)"
  shows "\<exists>v m. vm (world t) = Some v \<and> VirtualMachineFinalizer \<in> set (om_Finalizers (hvm_Meta v)) \<and>
    mach (world t) = Some m \<and> MachineFinalizer \<in> set (om_Finalizers (hm_Meta m))"
  using chain_life_chained [OF assms(1-4)] assms(5,6) by (auto simp: chained_def covers_def held_by_def)

theorem chain_never_orphaned_witness:
  "(KNIC, ''rg'', ''m-nic'') \<in> chain_cloud (world chain_created) \<and>
   (\<exists>v m. chain_vm (world chain_created) = Some v \<and> VirtualMachineFinalizer \<in> set (om_Finalizers (hvm_Meta v)) \<and>
     fst (world chain_created) = Some m \<and> MachineFinalizer \<in> set (om_Finalizers (hm_Meta m)))"
proof (rule conjI [OF chain_created_resources])
  have "(KNIC, ''rg'', ''m-nic'') \<in> vm_resources ''rg'' (key_Name vm_key)" by code_simp
  from chain_never_orphaned [OF chain_world_api lib0_finalizers chain_life chain_start_chained chain_created_resources this]
  show "\<exists>v m. chain_vm (world chain_created) = Some v \<and> VirtualMachineFinalizer \<in> set (om_Finalizers (hvm_Meta v)) \<and>
     fst (world chain_created) = Some m \<and> MachineFinalizer \<in> set (om_Finalizers (hm_Meta m))" .
qed

end
