(* ===== verification/ChainTeardown.thy ===== *)
theory ChainTeardown
  imports Chain
begin

text \<open>
  Deletion comes to an end, for both controllers together: a machine that is being deleted is
  released, with its virtual machine object and everything it has in the cloud, after a bounded
  number of rounds in which the API server and the cloud answer.
\<close>

subsection \<open>An API server that answers a machine\<close>

text \<open>
  The machine, its owner and its cluster are found, and patches of the stored machine are accepted;
  an accepted patch leaves the mark of a deletion in place, and the API server removes a marked
  object with its last finalizer.
\<close>

definition machine_up :: "lib \<Rightarrow> 'w kube \<Rightarrow> ObjectKey \<Rightarrow> string \<Rightarrow> ObjectKey \<Rightarrow> ('w \<Rightarrow> AzureStackHCIMachine option) \<Rightarrow>
    ('w \<Rightarrow> bool) \<Rightarrow> bool" where
  "machine_up L K key cn ckey mach ok \<longleftrightarrow>
     up ok (k_Get_HMachine K key) (\<lambda>r. \<forall>e. r = Inl e \<longrightarrow> err_IsNotFound L e) \<and>
     (\<forall>w e w'. k_Get_HMachine K key w = (Ret (Inl e), w') \<and> err_IsNotFound L e \<longrightarrow> mach w = None) \<and>
     (\<forall>m. machine_ident m = key \<longrightarrow> up ok (k_GetOwnerMachine K (hm_Meta m)) (\<lambda>r. \<exists>ma. r = Inr (Some ma))) \<and>
     (\<forall>om. om_Namespace om = key_Namespace key \<and> map_get (om_Labels om) ClusterNameLabel = cn \<longrightarrow>
        up ok (k_GetClusterFromMetadata K om) (\<lambda>r. \<exists>c. r = Inr c)) \<and>
     up ok (k_Get_HCluster K ckey) (\<lambda>r. \<exists>hc. r = Inr hc) \<and>
     (\<forall>b m. machine_ident m = key \<longrightarrow> accepts ok mach (k_Patch_HMachine K b m)) \<and>
     (\<forall>b m w w' m'. k_Patch_HMachine K b m w = (Ret None, w') \<and> mach w' = Some m' \<longrightarrow>
        DeletionTimestamp_IsZero (hm_Meta m') = DeletionTimestamp_IsZero (hm_Meta m)) \<and>
     (\<forall>b m w w'. k_Patch_HMachine K b m w = (Ret None, w') \<and> \<not> DeletionTimestamp_IsZero (hm_Meta m) \<and>
        om_Finalizers (hm_Meta m) = [] \<longrightarrow> mach w' = None)"

lemma machine_upD:
  assumes "machine_up L K key cn ckey mach ok"
  shows "up ok (k_Get_HMachine K key) (\<lambda>r. \<forall>e. r = Inl e \<longrightarrow> err_IsNotFound L e)"
    "k_Get_HMachine K key w = (Ret (Inl e), w') \<Longrightarrow> err_IsNotFound L e \<Longrightarrow> mach w = None"
    "machine_ident m = key \<Longrightarrow> up ok (k_GetOwnerMachine K (hm_Meta m)) (\<lambda>r. \<exists>ma. r = Inr (Some ma))"
    "om_Namespace om = key_Namespace key \<Longrightarrow> map_get (om_Labels om) ClusterNameLabel = cn \<Longrightarrow>
      up ok (k_GetClusterFromMetadata K om) (\<lambda>r. \<exists>c. r = Inr c)"
    "up ok (k_Get_HCluster K ckey) (\<lambda>r. \<exists>hc. r = Inr hc)"
    "machine_ident m = key \<Longrightarrow> accepts ok mach (k_Patch_HMachine K b m)"
    "k_Patch_HMachine K b m w = (Ret None, w') \<Longrightarrow> mach w' = Some m' \<Longrightarrow>
      DeletionTimestamp_IsZero (hm_Meta m') = DeletionTimestamp_IsZero (hm_Meta m)"
    "k_Patch_HMachine K b m w = (Ret None, w') \<Longrightarrow> \<not> DeletionTimestamp_IsZero (hm_Meta m) \<Longrightarrow>
      om_Finalizers (hm_Meta m) = [] \<Longrightarrow> mach w' = None"
  using assms unfolding machine_up_def by (elim conjE; blast)+

subsection \<open>A round of the machine controller\<close>

definition doomed :: "ObjectKey \<Rightarrow> AzureStackHCIMachine \<Rightarrow> bool" where
  "doomed key m \<longleftrightarrow> machine_ident m = key \<and> \<not> DeletionTimestamp_IsZero (hm_Meta m)"

text \<open>A lookup that goes through and changes nothing.\<close>

lemma lookup_step:
  assumes "up ok m Q" "\<And>v. preserves m (\<lambda>w. f w = v)" "ok w \<and> f w = x"
  shows "\<exists>y w'. m w = (Ret y, w') \<and> (ok w' \<and> f w' = x) \<and> Q y"
  using upD [OF assms(1) conjunct1 [OF assms(3)]] quiet_same [OF assms(2)] assms(3) by metis

lemma machine_quiet_lookups:
  assumes "machine_quiet S K I"
  shows "preserves (k_Get_HMachine K k) I" "preserves (k_GetOwnerMachine K om) I" "preserves (k_GetClusterFromMetadata K om) I"
    "preserves (k_Get_HCluster K k) I" "preserves (NewClusterScope L S K c hc) I" "preserves (NewMachineScope K ma c hc m) I"
proof -
  note ops = assms [unfolded machine_quiet_def]
  show "preserves (k_Get_HMachine K k) I" "preserves (k_GetOwnerMachine K om) I" "preserves (k_GetClusterFromMetadata K om) I"
      "preserves (k_Get_HCluster K k) I"
    using ops by blast+
  show "preserves (NewClusterScope L S K c hc) I" "preserves (NewMachineScope K ma c hc m) I"
    by (rule access_quiet(2) [OF conjunct1 [OF ops]], rule access_quiet(4) [OF conjunct1 [OF ops]])
qed

text \<open>What a round finds before it gets to the deletion; nothing has happened until then.\<close>

lemma Machine_Reconcile_scopes:
  assumes "chain_api L S M K key cn ckey g mach vm cloud" "access_up S K ok" "machine_up L K key cn ckey mach ok"
    and "ok (world s)" "mach (world s) = Some m" "doomed key m"
  defines "f \<equiv> \<lambda>w. (mach w, vm w, cloud w)"
  shows "\<exists>csc sc w. Machine_Reconcile L S K key s = with_obj m (close_after (MachineScope_Close K sc)
      (Machine_reconcileDelete L K csc)) (s\<lparr>world := w\<rparr>) \<and> (ok w \<and> f w = f (world s)) \<and> ClusterScope_Namespace csc = key_Namespace key"
proof -
  note up = machine_upD [OF assms(3)]
  have api: "machine_api L S K key mach (vm_objects key vm)" "chain_frames S M K key mach vm cloud" "machine_cluster K key cn ckey g mach"
    using assms(1) by (simp_all add: chain_api_def)
  note reads = machine_api_reads [OF api(1)] and found = machine_cluster_laws [OF api(3)]
  have "machine_quiet S K (\<lambda>w. f w = v)" for v unfolding f_def by (rule chain_frames_laws(2) [OF api(2)])
  note quiet = machine_quiet_lookups [OF this]
  have key: "om_Namespace (hm_Meta m) = key_Namespace key"
    using assms(6) by (auto simp: doomed_def machine_ident_def mkKey_def)
  obtain r w1 where "k_Get_HMachine K key (world s) = (Ret r, w1)" "ok w1 \<and> f w1 = f (world s)" "\<forall>e. r = Inl e \<longrightarrow> err_IsNotFound L e"
    using lookup_step [OF up(1) quiet(1)] assms(4) by blast
  then have get: "k_Get_HMachine K key (world s) = (Ret (Inr m), w1)" "ok w1 \<and> f w1 = f (world s)"
    using up(2) reads(2) assms(5) by (cases r; force)+
  obtain ma w2 where owner: "k_GetOwnerMachine K (hm_Meta m) w1 = (Ret (Inr (Some ma)), w2)" "ok w2 \<and> f w2 = f (world s)"
    using lookup_step [OF up(3) quiet(2) get(2), of m] assms(6) unfolding doomed_def by blast
  have ma: "om_Namespace (ma_Meta ma) = key_Namespace key" "map_get (om_Labels (ma_Meta ma)) ClusterNameLabel = cn"
    using reads(3) [OF owner(1)] found(1) [OF owner(1)] key get(2) assms(5) by (simp_all add: f_def)
  obtain c w3 where cluster: "k_GetClusterFromMetadata K (ma_Meta ma) w2 = (Ret (Inr c), w3)" "ok w3 \<and> f w3 = f (world s)"
    using lookup_step [OF up(4) [OF ma] quiet(3) owner(2)] by blast
  have ckey: "mkKey (om_Namespace (hm_Meta m)) (cl_InfrastructureRef_Name c) = ckey" "om_Namespace (cl_Meta c) = key_Namespace key"
    using found(2) [OF cluster(1) ma] reads(4) [OF cluster(1)] key ma(1) by simp_all
  obtain hc w4 where hcluster: "k_Get_HCluster K ckey w3 = (Ret (Inr hc), w4)" "ok w4 \<and> f w4 = f (world s)"
    using lookup_step [OF up(5) quiet(4) cluster(2)] by blast
  obtain csc w5 where csc: "NewClusterScope L S K (Some c) (Some hc) w4 = (Ret (Inr csc), w5)" "ok w5 \<and> f w5 = f (world s)"
    using lookup_step [OF machine_scopes_up(1) [OF assms(2)] quiet(5) hcluster(2)] by blast
  obtain sc w6 where sc: "NewMachineScope K (Some ma) (Some c) (Some hc) (Some m) w5 = (Ret (Inr sc), w6)" "ok w6 \<and> f w6 = f (world s)"
    using lookup_step [OF machine_scopes_up(2) [OF assms(2)] quiet(6) csc(2)] by blast
  have "Machine_Reconcile L S K key s = with_obj m (close_after (MachineScope_Close K sc) (Machine_reconcileDelete L K csc)) (s\<lparr>world := w6\<rparr>)"
    using get(1) owner(1) cluster(1) hcluster(1) csc(1) sc(1) ckey(1) assms(6)
    by (simp add: Machine_Reconcile_def bind_on_world doomed_def)
  moreover have "ClusterScope_Namespace csc = key_Namespace key"
    using NewClusterScope_fields [OF csc(1)] ckey(2) by (simp add: ClusterScope_Namespace_def)
  ultimately show ?thesis using sc(2) by blast
qed

text \<open>
  A whole round: the deletion reaches the virtual machine object, and when there is none, the
  finalizer of the machine is gone from the API server.
\<close>

definition left_finalizers :: "lib \<Rightarrow> AzureStackHCIVirtualMachine option \<Rightarrow> AzureStackHCIMachine \<Rightarrow> string list" where
  "left_finalizers L x m = (if x = None then lib_RemoveFinalizer L (om_Finalizers (hm_Meta m)) MachineFinalizer
     else om_Finalizers (hm_Meta m))"

lemma Machine_round:
  assumes "chain_api L S M K key cn ckey g mach vm cloud" "vm_up L S M K key vm ok" "machine_up L K key cn ckey mach ok"
    and "vm_deletion_api L K key vm cloud ok" "ok (world s)" "mach (world s) = Some m" "doomed key m"
  shows "\<exists>r u. Machine_Reconcile L S K key s = (Ret (r, None), u) \<and> ok (world u) \<and> cloud (world u) = cloud (world s) \<and>
    marked (vm (world s)) (vm (world u)) \<and> (vm (world s) = None \<longrightarrow> r = noResult) \<and>
    (left_finalizers L (vm (world s)) m = [] \<longrightarrow> mach (world u) = None) \<and>
    (\<forall>m'. mach (world u) = Some m' \<longrightarrow> doomed key m' \<and> om_Finalizers (hm_Meta m') = left_finalizers L (vm (world s)) m)"
proof -
  have api: "vm_api L S M K key vm cloud" "machine_api L S K key mach (vm_objects key vm)" "chain_frames S M K key mach vm cloud"
    using assms(1) by (simp_all add: chain_api_def)
  obtain csc sc w where scopes: "Machine_Reconcile L S K key s = with_obj m (close_after (MachineScope_Close K sc)
      (Machine_reconcileDelete L K csc)) (s\<lparr>world := w\<rparr>)" "ok w" "(mach w, vm w, cloud w) = (mach (world s), vm (world s), cloud (world s))"
      "ClusterScope_Namespace csc = key_Namespace key"
    using Machine_Reconcile_scopes [OF assms(1) vm_up_reads(1) [OF assms(2)] assms(3,5,6,7)] by blast
  let ?s = "\<lparr>world = w, obj = m, events = events s\<rparr>" and ?fs = "left_finalizers L (vm (world s)) m"
  have key: "key = mkKey (ClusterScope_Namespace csc) (MachineScope_Name (obj ?s))"
    using assms(7) scopes(4) by (auto simp: doomed_def machine_ident_def mkKey_def MachineScope_Name_def)
  obtain r t where del: "Machine_reconcileDelete L K csc ?s = (Ret (r, None), t)" "ok (world t)" "cloud (world t) = cloud w"
      "marked (vm w) (vm (world t))" "vm w = None \<longrightarrow> r = noResult" "obj t = (if vm w = None then Machine_removeFinalizer L m else m)"
    using Machine_reconcileDelete_marks [OF api(1) assms(2,4), of ?s csc] scopes(2) key by auto
  obtain r0 w0 where call: "reconcileVirtualMachineDelete L K csc m w = (r0, w0)" by fastforce
  then have "world t = w0"
    using del(1) by (cases r0) (auto simp: Machine_reconcileDelete_def bind_on_world split: if_splits)
  then have stored: "mach (world t) = Some m"
    using machine_vm_clears [OF api(2), of csc m] key call scopes(3) assms(6) unfolding clears_def by fastforce
  have obj: "machine_ident (obj t) = key" "\<not> DeletionTimestamp_IsZero (hm_Meta (obj t))" "om_Finalizers (hm_Meta (obj t)) = ?fs"
    using assms(7) scopes(3) del(6)
    by (auto simp: doomed_def machine_ident_def left_finalizers_def Machine_removeFinalizer_def DeletionTimestamp_IsZero_def)
  obtain w' where patch: "k_Patch_HMachine K (msc_before sc) (obj t) (world t) = (Ret None, w')" "ok w'"
    using machine_upD(6) [OF assms(3) obj(1)] del(2) stored unfolding accepts_def by blast
  have "MachineScope_Close K sc t = (Ret None, t\<lparr>world := w'\<rparr>)"
    using patch(1) by (simp add: MachineScope_Close_def MachineScope_PatchObject_def on_world_app)
  from close_after_Ret [where m = "Machine_reconcileDelete L K csc" and close = "MachineScope_Close K sc", OF del(1) this]
  have run: "Machine_Reconcile L S K key s = (Ret (r, None), \<lparr>world = w', obj = (), events = events t\<rparr>)"
    unfolding scopes(1) by (simp add: with_obj_def)
  have "preserves (k_Patch_HMachine K (msc_before sc) (obj t)) (\<lambda>w. (vm w, cloud w) = v)" for v
    by (rule chain_frames_laws(3) [OF api(3)])
  note kept = quiet_same [OF this patch(1)]
  have "doomed key m' \<and> om_Finalizers (hm_Meta m') = ?fs" if "mach w' = Some m'" for m'
    using machine_api_laws(5) [OF api(2)] patch(1) machine_upD(7) [OF assms(3) patch(1) that] obj that
    unfolding patches_def doomed_def by (fastforce simp: stored_as_def)
  moreover have "?fs = [] \<longrightarrow> mach w' = None" using machine_upD(8) [OF assms(3) patch(1)] obj by simp
  ultimately show ?thesis using run patch(2) kept del(3,4,5) scopes(3) by (intro exI [of _ r] exI [of _ "\<lparr>world = w', obj = (), events = events t\<rparr>"]) simp
qed

text \<open>The last round, when the virtual machine object is gone; the machine may be gone already, too.\<close>

lemma Machine_Reconcile_gone:
  assumes "chain_api L S M K key cn ckey g mach vm cloud" "machine_up L K key cn ckey mach ok" "ok (world s)" "mach (world s) = None"
  shows "\<exists>u. Machine_Reconcile L S K key s = (Ret (noResult, None), u) \<and>
    (mach (world u), vm (world u), cloud (world u)) = (None, vm (world s), cloud (world s))"
proof -
  let ?f = "\<lambda>w. (mach w, vm w, cloud w)"
  have api: "machine_api L S K key mach (vm_objects key vm)" "chain_frames S M K key mach vm cloud"
    using assms(1) by (simp_all add: chain_api_def)
  note quiet = machine_quiet_lookups(1) [OF chain_frames_laws(2) [OF api(2)]]
  obtain r w where "k_Get_HMachine K key (world s) = (Ret r, w)" "ok w \<and> ?f w = ?f (world s)" "\<forall>e. r = Inl e \<longrightarrow> err_IsNotFound L e"
    using lookup_step [OF machine_upD(1) [OF assms(2)] quiet] assms(3) by blast
  moreover from this obtain e where "r = Inl e"
    using machine_api_reads(2) [OF api(1)] assms(4) by (cases r) fastforce+
  ultimately show ?thesis using assms(4) by (simp add: Machine_Reconcile_def bind_on_world)
qed

lemma Machine_last_round:
  assumes "chain_api L S M K key cn ckey g mach vm cloud" "lib_finalizers L" "vm_up L S M K key vm ok" "machine_up L K key cn ckey mach ok"
    and "vm_deletion_api L K key vm cloud ok" "ok (world s)" "vm (world s) = None" "\<And>m. mach (world s) = Some m \<Longrightarrow> doomed key m"
  shows "\<exists>u. Machine_Reconcile L S K key s = (Ret (noResult, None), u) \<and> vm (world u) = None \<and> cloud (world u) = cloud (world s) \<and>
    (\<forall>m'. mach (world u) = Some m' \<longrightarrow> MachineFinalizer \<notin> set (om_Finalizers (hm_Meta m'))) \<and>
    ((\<forall>m. mach (world s) = Some m \<longrightarrow> set (om_Finalizers (hm_Meta m)) \<subseteq> {MachineFinalizer}) \<longrightarrow> mach (world u) = None)"
proof (cases "mach (world s)")
  case None
  then show ?thesis using Machine_Reconcile_gone [OF assms(1,4,6) None] assms(7) by auto
next
  case (Some m)
  have fs: "set (left_finalizers L None m) = set (om_Finalizers (hm_Meta m)) - {MachineFinalizer}"
    using assms(2) by (auto simp: left_finalizers_def lib_finalizers_def)
  then have "left_finalizers L None m = []" if "set (om_Finalizers (hm_Meta m)) \<subseteq> {MachineFinalizer}"
    using that by (metis Diff_eq_empty_iff set_empty)
  moreover have "x = None" if "marked None x" for x using that by (simp add: marked_def split: option.splits)
  ultimately show ?thesis
    using Machine_round [OF assms(1,3,4,5,6) Some assms(8) [OF Some]] Some fs unfolding assms(7) by fastforce
qed

subsection \<open>A world in which everything answers\<close>

text \<open>The world of \<open>Chain\<close>: a machine that was created, and whose deletion somebody has asked for.\<close>

definition chain_doomed :: "(chain_world, unit) rstate" where
  "chain_doomed = chain_created\<lparr>world := (map_option (\<lambda>m. m\<lparr>hm_Meta := (hm_Meta m)\<lparr>om_DeletionTimestamp := Some 1\<rparr>\<rparr>)
     (fst (world chain_created)), snd (world chain_created))\<rparr>"

abbreviation chain_named :: "chain_world \<Rightarrow> bool" where
  "chain_named w \<equiv> \<forall>m. chain_vm w = Some m \<longrightarrow> VMScope_Name m = key_Name vm_key"

lemma chain_created_machine: "map_option (\<lambda>m. om_Finalizers (hm_Meta m)) (fst (world chain_created)) = Some [MachineFinalizer]"
  by code_simp

lemma chain_created_vm:
  "map_option (\<lambda>v. (VMScope_Name v, om_Finalizers (hvm_Meta v))) (chain_vm (world chain_created)) = Some (key_Name vm_key, [VirtualMachineFinalizer])"
  by code_simp

lemma chain_machine_up: "machine_up lib0 chain_kube vm_key ''c'' (mkKey ''ns'' ''c'') fst chain_named"
  by (auto simp: machine_up_def up_def accepts_def chain_kube_def lib0_def split: option.splits if_splits)

lemma chain_deletion_api: "vm_deletion_api lib0 chain_kube vm_key chain_vm chain_cloud chain_named"
  by (auto simp: vm_deletion_api_def up_def chain_kube_def marked_def DeletionTimestamp_IsZero_def vm_ident_def
      VMScope_GetResourceGroup_def VMScope_Name_def split: option.splits if_splits)

lemma chain_vm_up: "vm_up lib0 sys0 chain_moc chain_kube vm_key chain_vm chain_named"
proof -
  have access: "access_up sys0 chain_kube chain_named"
    unfolding access_up_def by (auto simp: up_def sys0_def chain_kube_def kube0_def)
  have poll: "up ok (sys_PollImmediate sys0 i t f) (\<lambda>_. True)" if "up ok f (\<lambda>_. True)" for ok :: "chain_world \<Rightarrow> bool" and i t f
    unfolding sys0_def by (auto intro: up_any [OF that] up_return)
  show ?thesis
    unfolding vm_up_def
    by (intro conjI allI impI access; (erule poll | auto simp: up_def accepts_def gone_def chain_moc_def moc0_def chain_kube_def
      kube0_def lib0_def split: option.splits))
qed

subsection \<open>Properties\<close>

text \<open>
  C7: Deletion completes.  Let a machine object and its virtual machine object have had any life under
  their two controllers, and let the machine be marked for deletion.  Once the API server and the
  cloud answer, and unless a finalizer that is not this provider's holds the virtual machine object,
  three complete reconciles are enough: the one of the machine asks for the deletion of the virtual
  machine object, the one of the virtual machine carries it out, and the next one of the machine
  finds the object gone.  None of them fails; at the end the virtual machine object is gone, nothing
  of the machine is left in the cloud, the machine as the API server stores it has lost the
  finalizer, and if it had no other one, it is gone, too.
\<close>

theorem machine_teardown_completes:
  assumes "chain_api L S M K key cn ckey g mach vm cloud" "lib_finalizers L"
    and "vm_up L S M K key vm ok" "machine_up L K key cn ckey mach ok" "vm_deletion_api L K key vm cloud ok"
    and "(chain_step L S M K key g mach vm cloud)\<^sup>*\<^sup>* s t" "chained key g mach vm cloud (world s)"
    and "ok (world t)" "mach (world t) = Some m" "\<not> DeletionTimestamp_IsZero (hm_Meta m)"
    and "\<And>v. vm (world t) = Some v \<Longrightarrow> set (om_Finalizers (hvm_Meta v)) \<subseteq> {VirtualMachineFinalizer}"
  shows "\<exists>r1 u1 u2 u3. Machine_Reconcile L S K key t = (Ret (r1, None), u1) \<and>
    VM_Reconcile L S M K key u1 = (Ret (noResult, None), u2) \<and>
    Machine_Reconcile L S K key u2 = (Ret (noResult, None), u3) \<and>
    vm (world u3) = None \<and> cloud (world u3) \<inter> vm_resources g (key_Name key) = {} \<and>
    (\<forall>m'. mach (world u3) = Some m' \<longrightarrow> MachineFinalizer \<notin> set (om_Finalizers (hm_Meta m'))) \<and>
    (set (om_Finalizers (hm_Meta m)) \<subseteq> {MachineFinalizer} \<longrightarrow> mach (world u3) = None)"
proof -
  note rounds = Machine_round [OF assms(1,3,4,5)]
  have api: "vm_api L S M K key vm cloud" "chain_frames S M K key mach vm cloud" using assms(1) by (simp_all add: chain_api_def)
  have chained: "chained key g mach vm cloud (world t)" by (rule chain_life_chained [OF assms(1,2,6,7)])
  then have "doomed key m" using assms(9,10) by (simp add: doomed_def chained_def covers_def)
  then obtain r1 u1 where first: "Machine_Reconcile L S K key t = (Ret (r1, None), u1)" "ok (world u1)" "cloud (world u1) = cloud (world t)"
      "marked (vm (world t)) (vm (world u1))" "left_finalizers L (vm (world t)) m = [] \<longrightarrow> mach (world u1) = None"
      "\<And>m'. mach (world u1) = Some m' \<Longrightarrow> doomed key m' \<and> om_Finalizers (hm_Meta m') = left_finalizers L (vm (world t)) m"
    using rounds [OF assms(8,9)] by blast
  obtain u2 where second: "VM_Reconcile L S M K key u1 = (Ret (noResult, None), u2)" "ok (world u2)" "vm (world u2) = None"
    using VM_Reconcile_ends [OF api(1) assms(2,3,5) first(2,4) assms(11)] by blast
  have mach: "mach (world u2) = mach (world u1)"
    using hoareD_Ret [OF VM_Reconcile_frame [OF chain_frames_laws(1) [OF api(2), of "mach (world u1)" True]] _ second(1)] by simp
  have "accounted g (key_Name key) (vm (world t)) (cloud (world t))" using chained by (simp add: chained_def)
  then have "accounted g (key_Name key) (vm (world u1)) (cloud (world u1))"
    unfolding first(3) by (rule marked_accounted [OF first(4)])
  from hoareD_Ret [OF VM_Reconcile_accounted [OF api(1) assms(2)] this second(1)]
  have gone: "cloud (world u2) \<inter> vm_resources g (key_Name key) = {}"
    unfolding second(3) by (simp add: covers_def held_by_def)
  have "set (left_finalizers L (vm (world t)) m) \<subseteq> set (om_Finalizers (hm_Meta m))"
    using assms(2) by (auto simp: left_finalizers_def lib_finalizers_def)
  then have own: "set (om_Finalizers (hm_Meta m')) \<subseteq> {MachineFinalizer}"
    if "set (om_Finalizers (hm_Meta m)) \<subseteq> {MachineFinalizer}" "mach (world u2) = Some m'" for m'
    using that first(6) mach by auto
  have "doomed key m'" if "mach (world u2) = Some m'" for m' using first(6) that mach by simp
  from Machine_last_round [OF assms(1,2,3,4,5) second(2,3) this]
  obtain u3 where third: "Machine_Reconcile L S K key u2 = (Ret (noResult, None), u3)" "vm (world u3) = None"
      "cloud (world u3) = cloud (world u2)" "\<forall>m'. mach (world u3) = Some m' \<longrightarrow> MachineFinalizer \<notin> set (om_Finalizers (hm_Meta m'))"
      "(\<forall>m. mach (world u2) = Some m \<longrightarrow> set (om_Finalizers (hm_Meta m)) \<subseteq> {MachineFinalizer}) \<longrightarrow> mach (world u3) = None"
    by blast
  show ?thesis
    by (rule exI [of _ r1], rule exI [of _ u1], rule exI [of _ u2], rule exI [of _ u3]) (use first(1) second(1) third gone own in simp)
qed

theorem machine_teardown_completes_witness:
  "\<exists>r1 u1 u2 u3. Machine_Reconcile lib0 sys0 chain_kube vm_key chain_doomed = (Ret (r1, None), u1) \<and>
    VM_Reconcile lib0 sys0 chain_moc chain_kube vm_key u1 = (Ret (noResult, None), u2) \<and>
    Machine_Reconcile lib0 sys0 chain_kube vm_key u2 = (Ret (noResult, None), u3) \<and>
    chain_vm (world u3) = None \<and> chain_cloud (world u3) \<inter> vm_resources ''rg'' (key_Name vm_key) = {} \<and>
    fst (world u3) = None"
proof -
  obtain m where m: "fst (world chain_doomed) = Some m" "\<not> DeletionTimestamp_IsZero (hm_Meta m)" "om_Finalizers (hm_Meta m) = [MachineFinalizer]"
    using chain_created_machine by (auto simp: chain_doomed_def DeletionTimestamp_IsZero_def)
  obtain v where v: "chain_vm (world chain_doomed) = Some v" "VMScope_Name v = key_Name vm_key" "om_Finalizers (hvm_Meta v) = [VirtualMachineFinalizer]"
    using chain_created_vm by (auto simp: chain_doomed_def)
  have "chained vm_key ''rg'' fst chain_vm chain_cloud (world chain_created)"
    by (rule chain_life_chained [OF chain_world_api lib0_finalizers chain_life chain_start_chained])
  then have "chained vm_key ''rg'' fst chain_vm chain_cloud (world chain_doomed)"
    by (cases "fst (world chain_created)") (auto simp: chained_def covers_def held_by_def chain_doomed_def machine_ident_def)
  from machine_teardown_completes [OF chain_world_api lib0_finalizers chain_vm_up chain_machine_up chain_deletion_api
      rtranclp.rtrancl_refl this _ m(1,2)] v m(3)
  show ?thesis by auto
qed

end
