(* ===== verification/LBController.thy ===== *)
theory LBController
  imports LBMachines
begin

text \<open>
  \<open>controllers/azurestackhciloadbalancer_controller.go\<close>: the reconcile loop of a load balancer
  object.  The replicas are reconciled by \<open>LB_reconcileVirtualMachines\<close>; here are the load balancer
  service in the cloud, readiness, deletion and the phase.
\<close>

definition reconcileLoadBalancerService :: "'w moc \<Rightarrow> ClusterScope \<Rightarrow>
    (('w, AzureStackHCILoadBalancer) rstate, goerror option) io" where
  "reconcileLoadBalancerService M csc =
     bind (upd_obj (LBScope_SetPort (ClusterScope_APIServerPort csc))) (\<lambda>_.
     bind (reads obj) (\<lambda>lb.
     let hc = csc_before csc;
         lbSpec = \<lparr>lbspec_Name = om_Name (hlb_Meta lb),
           lbspec_BackendPoolName = GenerateControlPlaneBackendPoolName (ClusterScope_Name csc),
           lbspec_VnetName = vnet_Name (net_Vnet (cs_NetworkSpec (hc_Spec hc))),
           lbspec_FrontendPort = LBScope_GetPort lb,
           lbspec_BackendPort = ClusterScope_APIServerPort csc,
           lbspec_Tags = [(LBRoleTagName, Some LBRoleAksHciApiServer)]\<rparr>
     in bind (on_world (loadbalancers_Reconcile M (ClusterScope_GetResourceGroup hc) (Some lbSpec)))
       (\<lambda>e. case e of
           Some err \<Rightarrow> return (Some (Wrap (''failed to reconcile loadbalancer '' @
             om_Name (hlb_Meta lb)) err))
         | None \<Rightarrow> return None)))"

definition reconcileDeleteLoadBalancerService :: "lib \<Rightarrow> 'w moc \<Rightarrow> ClusterScope \<Rightarrow>
    AzureStackHCILoadBalancer \<Rightarrow> ('w, goerror option) io" where
  "reconcileDeleteLoadBalancerService L M csc lb =
     bind (loadbalancers_Delete L M (ClusterScope_GetResourceGroup (csc_before csc))
       (Some (lb_spec_named (om_Name (hlb_Meta lb))))) (\<lambda>e. case e of
         None \<Rightarrow> return None
       | Some err \<Rightarrow> if \<not> ResourceNotFound L err
           then return (Some (Wrap (''failed to delete loadbalancer '' @ om_Name (hlb_Meta lb)) err))
           else return None)"

definition LB_addFinalizer :: "lib \<Rightarrow> AzureStackHCILoadBalancer \<Rightarrow> AzureStackHCILoadBalancer" where
  "LB_addFinalizer L m = m\<lparr>hlb_Meta := (hlb_Meta m)\<lparr>om_Finalizers :=
     lib_AddFinalizer L (om_Finalizers (hlb_Meta m)) AzureStackHCILoadBalancerFinalizer\<rparr>\<rparr>"

definition LB_removeFinalizer :: "lib \<Rightarrow> AzureStackHCILoadBalancer \<Rightarrow> AzureStackHCILoadBalancer" where
  "LB_removeFinalizer L m = m\<lparr>hlb_Meta := (hlb_Meta m)\<lparr>om_Finalizers :=
     lib_RemoveFinalizer L (om_Finalizers (hlb_Meta m)) AzureStackHCILoadBalancerFinalizer\<rparr>\<rparr>"

definition lb_not_ready :: "lib \<Rightarrow> string \<Rightarrow> string \<Rightarrow> AzureStackHCILoadBalancer \<Rightarrow>
    AzureStackHCILoadBalancer" where
  "lb_not_ready L reason msg =
     LB_Set L (mkCondition LoadBalancerInfrastructureReadyCondition ConditionFalse reason msg)"

text \<open>The switch on the error code of a failed service reconcile.\<close>

definition lb_service_failure :: "lib \<Rightarrow> goerror \<Rightarrow> AzureStackHCILoadBalancer \<Rightarrow>
    AzureStackHCILoadBalancer" where
  "lb_service_failure L err =
     (let code = moc_GetErrorCode L err in
      if code = moc_OutOfMemory L then lb_not_ready L OutOfMemoryReason (err_Error L err)
      else if code = moc_OutOfCapacity L then lb_not_ready L OutOfCapacityReason (err_Error L err)
      else lb_not_ready L LoadBalancerServiceReconciliationFailedReason (err_Error L err))"

text \<open>From the check of the ready replicas to the end of \<open>reconcileNormal\<close>.\<close>

definition lb_readiness :: "lib \<Rightarrow> Result \<Rightarrow>
    (('w, AzureStackHCILoadBalancer) rstate, Result \<times> goerror option) io" where
  "lb_readiness L result = bind (reads obj) (\<lambda>lb.
     if LBScope_GetReplicas lb \<noteq> 0 \<and> sint (LBScope_GetReadyReplicas lb) < 1
     then bind (if LBScope_GetReady lb
         then Eventf EventTypeWarning ''FailureLBNoReadyReplicas''
           (''No replicas are ready for LoadBalancer '' @ LBScope_Name lb)
         else return ()) (\<lambda>_.
       bind (upd_obj (lb_not_ready L LoadBalancerNoReplicasReadyReason [])) (\<lambda>_.
       return (requeueAfter 20, None)))
     else bind (if cond_IsFalse L (LB_GetConditions lb) LoadBalancerInfrastructureReadyCondition
         then bind (upd_obj (LB_Set L (mkCondition LoadBalancerInfrastructureReadyCondition
             ConditionTrue InfrastructureReadyReason []))) (\<lambda>_.
           Eventf EventTypeNormal ''LoadBalancerReady''
             (''AzureStackHCILoadBalancer '' @ LBScope_Name lb @ '' infrastructure is ready''))
         else return ()) (\<lambda>_.
       bind (upd_obj LBScope_SetReady) (\<lambda>_.
       return (result, None))))"

text \<open>The address is asked for once; it may still be unavailable.\<close>

definition lb_address_readiness :: "lib \<Rightarrow> 'w moc \<Rightarrow> ClusterScope \<Rightarrow> Result \<Rightarrow>
    (('w, AzureStackHCILoadBalancer) rstate, Result \<times> goerror option) io" where
  "lb_address_readiness L M csc result = bind (reads obj) (\<lambda>lb.
     if LBScope_Address lb = []
     then bind (reconcileLoadBalancerServiceStatus M csc) (\<lambda>e. case e of
         Some err \<Rightarrow>
           bind (Eventf EventTypeWarning ''FailureReconcileLBStatus''
             (err_Error L (Wrap ''Failed to reconcile LoadBalancer service status'' err))) (\<lambda>_.
           bind (upd_obj (lb_not_ready L LoadBalancerServiceStatusFailedReason (err_Error L err))) (\<lambda>_.
           return (noResult, Some err)))
       | None \<Rightarrow> bind (reads obj) (\<lambda>lb.
           if LBScope_Address lb = []
           then bind (upd_obj (lb_not_ready L LoadBalancerAddressUnavailableReason [])) (\<lambda>_.
             return (requeueAfter 20, None))
           else lb_readiness L result))
     else lb_readiness L result)"

text \<open>The load balancer service, after the replicas.\<close>

definition lb_service_readiness :: "lib \<Rightarrow> 'w moc \<Rightarrow> ClusterScope \<Rightarrow> Result \<Rightarrow>
    (('w, AzureStackHCILoadBalancer) rstate, Result \<times> goerror option) io" where
  "lb_service_readiness L M csc result =
     bind (reconcileLoadBalancerService M csc) (\<lambda>e. case e of
       Some err \<Rightarrow>
         bind (upd_obj (lb_service_failure L err)) (\<lambda>_.
         bind (Eventf EventTypeWarning ''FailureReconcileLB''
           (err_Error L (Wrap ''Failed to reconcile LoadBalancer service'' err))) (\<lambda>_.
         return (noResult, Some err)))
     | None \<Rightarrow> lb_address_readiness L M csc result)"

definition LB_reconcileNormal :: "lib \<Rightarrow> 'w sys \<Rightarrow> 'w moc \<Rightarrow> 'w kube \<Rightarrow> LoadBalancerScope \<Rightarrow> ClusterScope \<Rightarrow>
    (('w, AzureStackHCILoadBalancer) rstate, Result \<times> goerror option) io" where
  "LB_reconcileNormal L S M K lsc csc = bind (upd_obj (LB_addFinalizer L)) (\<lambda>_.
     bind (LBScope_PatchObject K lsc) (\<lambda>e. case e of
       Some err \<Rightarrow> return (noResult, Some err)
     | None \<Rightarrow> bind (reads obj) (\<lambda>lb. case lbs_Replicas (hlb_Spec lb) of
         None \<Rightarrow>
           (let err = ErrorNew (''No replica count was specified for loadbalancer '' @ LBScope_Name lb) in
            bind (Eventf EventTypeWarning ''InvalidConfig'' (err_Error L err)) (\<lambda>_.
            return (noResult, Some err)))
       | Some _ \<Rightarrow> bind (LB_reconcileVirtualMachines L S M K lsc csc) (\<lambda>(result, e). case e of
           Some err \<Rightarrow>
             bind (Eventf EventTypeWarning ''FailureReconcileLBMachines''
               (err_Error L (Wrap ''Failed to reconcile LoadBalancer machines'' err))) (\<lambda>_.
             bind (upd_obj (lb_not_ready L LoadBalancerMachineReconciliationFailedReason
               (err_Error L err))) (\<lambda>_.
             return (noResult, Some err)))
         | None \<Rightarrow> lb_service_readiness L M csc result))))"

definition LB_reconcileDelete :: "lib \<Rightarrow> 'w moc \<Rightarrow> 'w kube \<Rightarrow> ClusterScope \<Rightarrow>
    (('w, AzureStackHCILoadBalancer) rstate, Result \<times> goerror option) io" where
  "LB_reconcileDelete L M K csc = bind (reads obj) (\<lambda>lb.
     bind (on_world (reconcileDeleteLoadBalancerService L M csc lb)) (\<lambda>e. case e of
       Some err \<Rightarrow>
         bind (Eventf EventTypeWarning ''FailureDeleteLoadBalancer'' (err_Error L
           (Wrap (''Error deleting AzureStackHCILoadBalancer '' @ LBScope_Name lb) err))) (\<lambda>_.
         bind (upd_obj (lb_not_ready L DeletionFailedReason (err_Error L err))) (\<lambda>_.
         return (noResult, Some err)))
     | None \<Rightarrow> bind (on_world (lb_reconcileDeleteVirtualMachines L K csc lb)) (\<lambda>e. case e of
         Some err \<Rightarrow>
           bind (Eventf EventTypeWarning ''FailureDeleteLoadBalancerMachines'' (err_Error L
             (Wrap (''Error deleting machines for AzureStackHCILoadBalancer '' @ LBScope_Name lb) err)))
             (\<lambda>_.
           bind (upd_obj (lb_not_ready L DeletionFailedReason (err_Error L err))) (\<lambda>_.
           return (noResult, Some err)))
       | None \<Rightarrow>
           bind (upd_obj (LB_removeFinalizer L)) (\<lambda>_.
           bind (upd_obj (lb_not_ready L LoadBalancerDeletingReason [])) (\<lambda>_.
           bind (Eventf EventTypeNormal ''SuccessfulDeleteLoadBalancer''
             (''Successfully deleted AzureStackHCILoadBalancer '' @ LBScope_Name lb)) (\<lambda>_.
           return (noResult, None)))))))"

definition LB_reconcileStatus :: "lib \<Rightarrow> AzureStackHCILoadBalancer \<Rightarrow> AzureStackHCILoadBalancer" where
  "LB_reconcileStatus L lb =
     (let lb = (if lbst_Selector (hlb_Status lb) = []
            then LBScope_SetSelector (LoadBalancerLabel @ ''='' @ LBScope_Name lb) lb else lb);
          phase = (\<lambda>p l. l\<lparr>hlb_Status := LB_SetTypedPhase p (hlb_Status l)\<rparr>)
      in if \<not> DeletionTimestamp_IsZero (hlb_Meta lb)
         then phase AzureStackHCILoadBalancerPhaseDeleting lb
         else if lbst_ErrorReason (hlb_Status lb) \<noteq> None
         then phase AzureStackHCILoadBalancerPhaseFailed lb
         else if lbst_Phase (hlb_Status lb) = []
         then phase AzureStackHCILoadBalancerPhasePending lb
         else if cond_IsFalse L (LB_GetConditions lb) LoadBalancerReplicasReadyCondition
         then (let lb = (case cond_Get L (LB_GetConditions lb) LoadBalancerReplicasReadyCondition of
                 None \<Rightarrow> lb
               | Some cond \<Rightarrow> if c_Reason cond = LoadBalancerReplicasFailedReason
                   then lb_not_ready L (c_Reason cond) (c_Message cond) lb else lb)
               in if cond_GetReason L (LB_GetConditions lb) LoadBalancerReplicasReadyCondition =
                   LoadBalancerReplicasUpgradingReason
                  then LBScope_SetPhase AzureStackHCILoadBalancerPhaseUpgrading lb
                  else LBScope_SetPhase AzureStackHCILoadBalancerPhaseProvisioning lb)
         else if cond_IsFalse L (LB_GetConditions lb) LoadBalancerInfrastructureReadyCondition
         then LBScope_SetPhase AzureStackHCILoadBalancerPhaseProvisioning lb
         else LBScope_SetPhase AzureStackHCILoadBalancerPhaseProvisioned lb)"

definition LB_Reconcile :: "lib \<Rightarrow> 'w sys \<Rightarrow> 'w moc \<Rightarrow> 'w kube \<Rightarrow> ObjectKey \<Rightarrow>
    (('w, unit) rstate, Result \<times> goerror option) io" where
  "LB_Reconcile L S M K req = bind (on_world (k_Get_LB K req)) (\<lambda>r. case r of
      Inl err \<Rightarrow> if err_IsNotFound L err then return (noResult, None)
        else return (noResult, Some err)
    | Inr lb \<Rightarrow> bind (on_world (k_GetOwnerCluster K (hlb_Meta lb))) (\<lambda>r. case r of
        Inl err \<Rightarrow> return (noResult, Some err)
      | Inr None \<Rightarrow> return (noResult, Some (ErrorNew
          (''expected Cluster OwnerRef is missing from AzureStackHCILoadBalancer '' @ key_Name req)))
      | Inr (Some cluster) \<Rightarrow> bind (on_world (k_Get_HCluster K
            (mkKey (om_Namespace (hlb_Meta lb)) (cl_InfrastructureRef_Name cluster)))) (\<lambda>r. case r of
          Inl _ \<Rightarrow> return (noResult, None)
        | Inr hcluster \<Rightarrow> bind (on_world (NewClusterScope L S K (Some cluster) (Some hcluster))) (\<lambda>r. case r of
            Inl err \<Rightarrow>
              bind (Eventf EventTypeWarning ''CreateClusterScopeFailed''
                (err_Error L (Wrap ''failed to create cluster scope'' err))) (\<lambda>_.
              return (noResult, Some err))
          | Inr csc \<Rightarrow> bind (on_world (NewLoadBalancerScope K (Some lb) (Some cluster) (Some hcluster)))
              (\<lambda>r. case r of
              Inl err \<Rightarrow>
                bind (Eventf EventTypeWarning ''CreateLoadBalancerScopeFailed''
                  (err_Error L (Wrap ''failed to create loadbalancer scope'' err))) (\<lambda>_.
                return (noResult, Some (ErrorNew (''failed to create scope: '' @ err_Plus L err))))
            | Inr lsc \<Rightarrow> with_obj lb (close_after
                (bind (upd_obj (LB_reconcileStatus L)) (\<lambda>_. LBScope_Close K lsc))
                (if \<not> DeletionTimestamp_IsZero (hlb_Meta lb)
                 then LB_reconcileDelete L M K csc
                 else LB_reconcileNormal L S M K lsc csc)))))))"

subsection \<open>Facts about the status\<close>

lemma LB_conditions_differ [simp]:
  "LoadBalancerReplicasReadyCondition \<noteq> LoadBalancerInfrastructureReadyCondition"
  "LoadBalancerInfrastructureReadyCondition \<noteq> LoadBalancerReplicasReadyCondition"
  by (simp_all add: condition_consts)

lemma lb_not_ready_frame [simp]:
  "hlb_Meta (lb_not_ready L r msg lb) = hlb_Meta lb"
  "hlb_Spec (lb_not_ready L r msg lb) = hlb_Spec lb"
  "lbst_Ready (hlb_Status (lb_not_ready L r msg lb)) = lbst_Ready (hlb_Status lb)"
  "lbst_Phase (hlb_Status (lb_not_ready L r msg lb)) = lbst_Phase (hlb_Status lb)"
  by (simp_all add: lb_not_ready_def conditions_Set_def LB_SetConditions_def)

lemma lb_not_ready_status [simp]:
  "LBScope_Address (lb_not_ready L r msg lb) = LBScope_Address lb"
  "LBScope_Address (LB_Set L c lb) = LBScope_Address lb"
  "LBScope_GetReadyReplicas (LB_Set L c lb) = LBScope_GetReadyReplicas lb"
  by (simp_all add: lb_not_ready_def conditions_Set_def LB_SetConditions_def LBScope_Address_def
      LBScope_GetReadyReplicas_def)

lemma LBScope_SetReady_status [simp]:
  "LBScope_Address (LBScope_SetReady lb) = LBScope_Address lb"
  "LBScope_GetReplicas (LBScope_SetReady lb) = LBScope_GetReplicas lb"
  "LBScope_GetReadyReplicas (LBScope_SetReady lb) = LBScope_GetReadyReplicas lb"
  "LB_GetConditions (LBScope_SetReady lb) = LB_GetConditions lb"
  "hlb_Meta (LBScope_SetReady lb) = hlb_Meta lb"
  "lbst_Ready (hlb_Status (LBScope_SetReady lb))"
  by (simp_all add: LBScope_SetReady_def LBScope_Address_def LBScope_GetReplicas_def
      LBScope_GetReadyReplicas_def LB_GetConditions_def)

lemma lb_not_ready_condition:
  assumes "lib_conditions L"
  shows "has_condition L (LB_GetConditions (lb_not_ready L r msg lb))
      (mkCondition LoadBalancerInfrastructureReadyCondition ConditionFalse r msg)"
    and "cond_IsFalse L (LB_GetConditions (lb_not_ready L r msg lb)) LoadBalancerInfrastructureReadyCondition"
  using assms IsFalse_Set [of L "LB_GetConditions lb"
      "mkCondition LoadBalancerInfrastructureReadyCondition ConditionFalse r msg"]
  by (simp_all add: lb_not_ready_def cond_lib)

text \<open>The load balancer is ready for use: it has an address, and a replica if it has replicas at all.\<close>

definition lb_usable :: "lib \<Rightarrow> AzureStackHCILoadBalancer \<Rightarrow> bool" where
  "lb_usable L lb \<longleftrightarrow> LBScope_Address lb \<noteq> [] \<and>
     (LBScope_GetReplicas lb = 0 \<or> 1 \<le> sint (LBScope_GetReadyReplicas lb)) \<and>
     \<not> cond_IsFalse L (LB_GetConditions lb) LoadBalancerInfrastructureReadyCondition"

definition lb_ready_is :: "bool \<Rightarrow> AzureStackHCILoadBalancer \<Rightarrow> bool" where
  "lb_ready_is b lb \<longleftrightarrow> lbst_Ready (hlb_Status lb) = b"

definition lb_outcome :: "lib \<Rightarrow> bool \<Rightarrow> Result \<times> goerror option \<Rightarrow> AzureStackHCILoadBalancer \<Rightarrow> bool" where
  "lb_outcome L b r lb = (case r of
      (res, Some err) \<Rightarrow> lb_ready_is b lb
    | (res, None) \<Rightarrow> lbst_Ready (hlb_Status lb) \<and> lb_usable L lb \<or>
        lb_ready_is b lb \<and> res = requeueAfter 20 \<and>
        cond_IsFalse L (LB_GetConditions lb) LoadBalancerInfrastructureReadyCondition)"

lemma lb_outcome_error [simp]: "lb_outcome L b (res, Some err) lb = lb_ready_is b lb"
  by (simp add: lb_outcome_def)

lemma lb_ready_is_setters [simp]:
  "lb_ready_is b (lb_not_ready L r msg lb) = lb_ready_is b lb"
  "lb_ready_is b (lb_service_failure L err lb) = lb_ready_is b lb"
  "lb_ready_is b (LBScope_SetPort p lb) = lb_ready_is b lb"
  "lb_ready_is b (LB_addFinalizer L lb) = lb_ready_is b lb"
  by (simp_all add: lb_ready_is_def lb_service_failure_def LBScope_SetPort_def LB_addFinalizer_def Let_def)

lemma lb_outcome_wait:
  "lib_conditions L \<Longrightarrow> lb_ready_is b lb \<Longrightarrow>
   lb_outcome L b (requeueAfter 20, None) (lb_not_ready L reason msg lb)"
  by (simp add: lb_outcome_def lb_not_ready_condition)

lemma lb_readiness_outcome:
  assumes "lib_conditions L"
  shows "hoare (\<lambda>s. lb_ready_is b (obj s) \<and> LBScope_Address (obj s) \<noteq> [])
    (lb_readiness L result) (\<lambda>r t. lb_outcome L b r (obj t)) (\<lambda>_. True)"
  using assms IsFalse_Set [OF assms, of _ "mkCondition LoadBalancerInfrastructureReadyCondition
      ConditionTrue InfrastructureReadyReason []"]
  unfolding lb_readiness_def lb_outcome_def lb_usable_def
  by (intro hoareI) (auto simp: run_simps lb_not_ready_condition)

text \<open>Before that, errors and waiting leave the readiness as it was.\<close>

interpretation lb_ready: lb_frame L "lb_ready_is b" for L b
  by unfold_locales
    (simp_all add: lb_ready_is_def LBScope_setters conditions_Set_def LB_SetConditions_def)

lemma reconcileLoadBalancerService_ready:
  "preserves (reconcileLoadBalancerService M csc) (\<lambda>s. lb_ready_is b (obj s))"
  unfolding reconcileLoadBalancerService_def
  by (auto intro!: hoare_rules)

lemma lb_address_readiness_outcome:
  assumes "lib_conditions L"
  shows "hoare (\<lambda>s. lb_ready_is b (obj s)) (lb_address_readiness L M csc result)
    (\<lambda>r t. lb_outcome L b r (obj t)) (\<lambda>_. True)"
proof (rule hoareI)
  fix s r t
  assume s: "lb_ready_is b (obj s)" and run: "lb_address_readiness L M csc result s = (Ret r, t)"
  have status: "lb_ready_is b (obj u)"
    if "reconcileLoadBalancerServiceStatus M csc s = (Ret e, u)" for e u
    using hoareD_Ret [OF lb_ready.serviceStatus s that] .
  have ready: "lb_outcome L b r (obj t)"
    if "lb_readiness L result u = (Ret r, t)" "lb_ready_is b (obj u)" "LBScope_Address (obj u) \<noteq> []" for u
    using hoareD_Ret [OF lb_readiness_outcome [OF assms]] that by blast
  show "lb_outcome L b r (obj t)"
    using run s assms unfolding lb_address_readiness_def
    by (auto simp: run_simps intro: ready intro!: lb_outcome_wait dest: status)
qed simp

lemma lb_service_readiness_outcome:
  assumes "lib_conditions L"
  shows "hoare (\<lambda>s. lb_ready_is b (obj s)) (lb_service_readiness L M csc result)
    (\<lambda>r t. lb_outcome L b r (obj t)) (\<lambda>_. True)"
  unfolding lb_service_readiness_def
  by (rule hoare_bind [OF hoare_True [OF reconcileLoadBalancerService_ready]])
    (auto intro!: hoare_case_option lb_address_readiness_outcome [OF assms] hoareI simp: run_simps
      dest: hoareD_Ret [OF lb_address_readiness_outcome [OF assms]])

lemma LB_reconcileNormal_outcome:
  assumes "lib_conditions L"
  shows "hoare (\<lambda>s. lb_ready_is b (obj s)) (LB_reconcileNormal L S M K lsc csc)
    (\<lambda>r t. lb_outcome L b r (obj t)) (\<lambda>_. True)"
  unfolding LB_reconcileNormal_def LBScope_PatchObject_def
  by (auto intro!: hoare_bind [where B = "\<lambda>_ s. lb_ready_is b (obj s)"] hoare_rules
      hoare_True [OF lb_ready.reconcileVirtualMachines] lb_service_readiness_outcome [OF assms]
      hoare_True [OF preserves_on_world])

subsection \<open>Properties\<close>

text \<open>
  C15: A load balancer is reported ready only when it is usable.  When a reconcile ends without an
  error, either the object is ready with a known address, at least one ready replica (or a status
  that counts no replicas, as when the network does the balancing) and an infrastructure condition
  that is not false; or its readiness is as before, the infrastructure condition is false, and the
  request is queued again after twenty seconds.  A reconcile that fails never makes it ready.
  (The code's comment speaks of the configured number of replicas; what it tests is the number in
  the status.)
\<close>

theorem LB_reconcileNormal_ready:
  assumes "lib_conditions L"
  shows "hoare (\<lambda>s. lbst_Ready (hlb_Status (obj s)) = b) (LB_reconcileNormal L S M K lsc csc)
    (\<lambda>(res, e) t. case e of
        Some _ \<Rightarrow> lbst_Ready (hlb_Status (obj t)) = b
      | None \<Rightarrow>
          lbst_Ready (hlb_Status (obj t)) \<and> LBScope_Address (obj t) \<noteq> [] \<and>
            (LBScope_GetReplicas (obj t) = 0 \<or> 1 \<le> sint (LBScope_GetReadyReplicas (obj t))) \<and>
            \<not> cond_IsFalse L (LB_GetConditions (obj t)) LoadBalancerInfrastructureReadyCondition \<or>
          lbst_Ready (hlb_Status (obj t)) = b \<and> res = requeueAfter 20 \<and>
            cond_IsFalse L (LB_GetConditions (obj t)) LoadBalancerInfrastructureReadyCondition)
    (\<lambda>_. True)"
  by (rule hoare_weaken [OF LB_reconcileNormal_outcome [OF assms, of b]])
    (auto simp: lb_outcome_def lb_usable_def lb_ready_is_def split: option.splits)

theorem LB_reconcileNormal_ready_witness:
  "hoare (\<lambda>s. lbst_Ready (hlb_Status (obj s)) = False)
    (LB_reconcileNormal lib0 sys0 (moc0 :: unit moc) kube0 lsc0 csc0)
    (\<lambda>(res, e) t. case e of
        Some _ \<Rightarrow> lbst_Ready (hlb_Status (obj t)) = False
      | None \<Rightarrow> lbst_Ready (hlb_Status (obj t)) \<and> LBScope_Address (obj t) \<noteq> [] \<or>
          lbst_Ready (hlb_Status (obj t)) = False \<and> res = requeueAfter 20)
    (\<lambda>_. True)"
  by (rule hoare_weaken [OF LB_reconcileNormal_ready [OF lib0_conditions, of False]])
    (auto split: option.splits)

text \<open>
  C12: The finalizer of a load balancer object is removed only after the cloud load balancer and the
  replicas' machine objects were both deleted, in that order: each deletion reported success and
  the second started in the world the first left.  When either fails the finalizers are
  untouched, the error is returned, and the infrastructure condition is false with reason
  \<open>DeletionFailed\<close> and the error as message; a panic leaves the finalizers untouched, too.
\<close>

theorem LB_reconcileDelete_finalizer:
  assumes "lib_conditions L" "lib_finalizers L"
  shows "hoare (\<lambda>s. obj s = lb \<and> world s = w0) (LB_reconcileDelete L M K csc)
    (\<lambda>(res, e) t. case e of
        None \<Rightarrow> AzureStackHCILoadBalancerFinalizer \<notin> set (om_Finalizers (hlb_Meta (obj t))) \<and>
          (\<exists>w. reconcileDeleteLoadBalancerService L M csc lb w0 = (Ret None, w) \<and>
            lb_reconcileDeleteVirtualMachines L K csc lb w = (Ret None, world t))
      | Some err \<Rightarrow> hlb_Meta (obj t) = hlb_Meta lb \<and>
          has_condition L (LB_GetConditions (obj t)) (mkCondition LoadBalancerInfrastructureReadyCondition
            ConditionFalse DeletionFailedReason (err_Error L err)))
    (\<lambda>t. hlb_Meta (obj t) = hlb_Meta lb)"
proof -
  have removed: "AzureStackHCILoadBalancerFinalizer \<notin> set (om_Finalizers (hlb_Meta (LB_removeFinalizer L x)))"
    for x using assms(2) by (simp add: LB_removeFinalizer_def lib_finalizers_def)
  show ?thesis
    unfolding LB_reconcileDelete_def hoare_def
    using assms(1)
    by (auto simp: bind_on_world removed lb_not_ready_condition
        split: prod.splits res.splits option.splits)
qed

theorem LB_reconcileDelete_finalizer_witness:
  "hoare (\<lambda>s. obj s = newLoadBalancer ''ns'' ''lb'' \<and> world s = ())
    (LB_reconcileDelete lib0 (moc0 :: unit moc) kube0 csc0)
    (\<lambda>(res, e) t. case e of
        None \<Rightarrow> AzureStackHCILoadBalancerFinalizer \<notin> set (om_Finalizers (hlb_Meta (obj t)))
      | Some err \<Rightarrow> hlb_Meta (obj t) = newMeta ''ns'' ''lb'')
    (\<lambda>t. hlb_Meta (obj t) = newMeta ''ns'' ''lb'')"
  by (rule hoare_weaken [OF LB_reconcileDelete_finalizer [OF lib0_conditions lib0_finalizers,
          of "newLoadBalancer ''ns'' ''lb''" "()"]])
    (auto simp: newLoadBalancer_def split: option.splits)

text \<open>
  The phase that every reconcile writes at its end is always one that \<open>GetTypedPhase\<close> reads
  back, and it is \<open>provisioned\<close> exactly for an object that is not being deleted, has no error
  reason, had a phase before, and on which neither the replicas condition nor the
  infrastructure condition is false.  The selector is set, and metadata and spec are untouched.
\<close>

lemma LB_reconcileStatus_phase:
  "LB_GetTypedPhase (hlb_Status (LB_reconcileStatus L lb)) = lbst_Phase (hlb_Status (LB_reconcileStatus L lb)) \<and>
   lbst_Phase (hlb_Status (LB_reconcileStatus L lb)) \<noteq> AzureStackHCILoadBalancerPhaseUnknown \<and>
   (lbst_Phase (hlb_Status (LB_reconcileStatus L lb)) = AzureStackHCILoadBalancerPhaseProvisioned) =
     (DeletionTimestamp_IsZero (hlb_Meta lb) \<and> lbst_ErrorReason (hlb_Status lb) = None \<and>
      lbst_Phase (hlb_Status lb) \<noteq> [] \<and>
      \<not> cond_IsFalse L (LB_GetConditions lb) LoadBalancerReplicasReadyCondition \<and>
      \<not> cond_IsFalse L (LB_GetConditions lb) LoadBalancerInfrastructureReadyCondition) \<and>
   lbst_Selector (hlb_Status (LB_reconcileStatus L lb)) \<noteq> [] \<and>
   hlb_Meta (LB_reconcileStatus L lb) = hlb_Meta lb \<and> hlb_Spec (LB_reconcileStatus L lb) = hlb_Spec lb"
proof -
  define lb' where "lb' = (if lbst_Selector (hlb_Status lb) = []
      then LBScope_SetSelector (LoadBalancerLabel @ ''='' @ LBScope_Name lb) lb else lb)"
  have lb': "hlb_Meta lb' = hlb_Meta lb" "hlb_Spec lb' = hlb_Spec lb"
      "LB_GetConditions lb' = LB_GetConditions lb" "lbst_Selector (hlb_Status lb') \<noteq> []"
      "lbst_Phase (hlb_Status lb') = lbst_Phase (hlb_Status lb)"
      "lbst_ErrorReason (hlb_Status lb') = lbst_ErrorReason (hlb_Status lb)"
    by (simp_all add: lb'_def LBScope_SetSelector_def LB_GetConditions_def)
  have sel: "lbst_Selector (hlb_Status (lb_not_ready L r msg x)) = lbst_Selector (hlb_Status x)" for r msg x
    by (simp add: lb_not_ready_def conditions_Set_def LB_SetConditions_def)
  show ?thesis
    unfolding LB_reconcileStatus_def lb'_def [symmetric] Let_def
    by (simp add: lb' sel LBScope_SetPhase_def LB_SetTypedPhase_def LB_GetTypedPhase_def Let_def
        AzureStackHCILoadBalancerPhase_defs split: option.split)
qed

text \<open>
  Whatever the reconcile of a load balancer came to, its result is persisted: once the scope
  exists, the object it left, with its phase and selector brought up to date, is patched against
  the one that was read, also after an error; the patch's own error is returned exactly if the
  reconcile had none.
\<close>

lemma LB_Reconcile_persists:
  assumes "k_Get_LB K req w = (Ret (Inr lb), w1)"
    and "k_GetOwnerCluster K (hlb_Meta lb) w1 = (Ret (Inr (Some cluster)), w2)"
    and "k_Get_HCluster K (mkKey (om_Namespace (hlb_Meta lb)) (cl_InfrastructureRef_Name cluster)) w2 =
      (Ret (Inr hc), w3)"
    and "NewClusterScope L S K (Some cluster) (Some hc) w3 = (Ret (Inr csc), w4)"
    and "NewLoadBalancerScope K (Some lb) (Some cluster) (Some hc) w4 = (Ret (Inr lsc), w5)"
    and "(if \<not> DeletionTimestamp_IsZero (hlb_Meta lb) then LB_reconcileDelete L M K csc
       else LB_reconcileNormal L S M K lsc csc) \<lparr>world = w5, obj = lb, events = ev\<rparr> = (Ret (res, e), t)"
    and "k_Patch_LB K lb (LB_reconcileStatus L (obj t)) (world t) = (Ret pe, w6)"
  shows "LB_Reconcile L S M K req \<lparr>world = w, obj = (), events = ev\<rparr> =
    (Ret (res, case e of None \<Rightarrow> pe | Some err \<Rightarrow> Some err), \<lparr>world = w6, obj = (), events = events t\<rparr>)"
proof -
  have lsc: "lsc_before lsc = lb"
    using assms(5) by (auto simp: NewLoadBalancerScope_def run_simps)
  have close: "bind (upd_obj (LB_reconcileStatus L)) (\<lambda>_. LBScope_Close K lsc) t =
      (Ret pe, t\<lparr>obj := LB_reconcileStatus L (obj t), world := w6\<rparr>)"
    using assms(7) by (simp add: LBScope_Close_def lsc on_world_app)
  show ?thesis
    using close_after_Ret [where m = "if \<not> DeletionTimestamp_IsZero (hlb_Meta lb) then LB_reconcileDelete L M K csc
       else LB_reconcileNormal L S M K lsc csc" and
        close = "bind (upd_obj (LB_reconcileStatus L)) (\<lambda>_. LBScope_Close K lsc)", OF assms(6) close] assms(1-5)
    by (simp add: LB_Reconcile_def bind_on_world with_obj_def)
qed

end
