(* ===== verification/LBOwnership.thy ===== *)
theory LBOwnership
  imports Ownership LBController
begin

text \<open>
  The ownership discipline of the load balancer controller: the load balancer service in the cloud
  is accounted for by a load balancer object that the API server cannot let go, however the
  replicas are scaled and upgraded meanwhile.
\<close>

subsection \<open>The API server and the cloud, as a load balancer sees them\<close>

text \<open>
  Calls that touch neither the stored load balancer nor the load balancer service: the lookups, the
  replicas' virtual machine objects, random names.
\<close>

definition lb_quiet :: "'w sys \<Rightarrow> 'w moc \<Rightarrow> 'w kube \<Rightarrow> ('w \<Rightarrow> bool) \<Rightarrow> bool" where
  "lb_quiet S M K I \<longleftrightarrow> access_only S K I \<and> (\<forall>n. preserves (sys_randInt S n) I) \<and>
     (\<forall>k. preserves (k_Get_LB K k) I) \<and> (\<forall>k. preserves (k_Get_HCluster K k) I) \<and>
     (\<forall>om. preserves (k_GetOwnerCluster K om) I) \<and> (\<forall>ns ls. preserves (k_List_VMs K ns ls) I) \<and>
     (\<forall>x f. (\<forall>y. preserves (f y) I) \<longrightarrow> preserves (k_CreateOrUpdate_VM K x f) I) \<and>
     (\<forall>x. preserves (k_Update_VM K x) I) \<and> (\<forall>x. preserves (k_Delete_VM K x) I) \<and>
     preserves (m_GetVersion M) I \<and> (\<forall>g n. preserves (m_Get_LB M g n) I)"

abbreviation lb_name :: "AzureStackHCILoadBalancer \<Rightarrow> string" where
  "lb_name m \<equiv> om_Name (hlb_Meta m)"

text \<open>
  The laws for the load balancer under \<open>key\<close>, whose cluster is the one under \<open>ckey\<close>, in the group
  \<open>g\<close>: \<open>stored\<close> is what the API server keeps under \<open>key\<close>, \<open>present\<close> the resources that may exist
  in the cloud.
\<close>

definition lb_api :: "lib \<Rightarrow> 'w sys \<Rightarrow> 'w moc \<Rightarrow> 'w kube \<Rightarrow> ObjectKey \<Rightarrow> ObjectKey \<Rightarrow> string \<Rightarrow>
    ('w \<Rightarrow> AzureStackHCILoadBalancer option) \<Rightarrow> ('w \<Rightarrow> resource set) \<Rightarrow> bool" where
  "lb_api L S M K key ckey g stored present \<longleftrightarrow>
     (\<forall>v. lb_quiet S M K (\<lambda>w. (stored w, present w) = v)) \<and>
     (\<forall>rg n x y. preserves (m_Create_LB M rg n y) (\<lambda>w. stored w = x)) \<and>
     (\<forall>rg n x. preserves (m_Delete_LB M rg n) (\<lambda>w. stored w = x)) \<and>
     (\<forall>rg n. deletes L present (KLB, rg, n) (m_Delete_LB M rg n)) \<and>
     (\<forall>w m w'. k_Get_LB K key w = (Ret (Inr m), w') \<longrightarrow> stored w = Some m \<and> lb_name m = key_Name key) \<and>
     (\<forall>w m c w'. k_GetOwnerCluster K (hlb_Meta m) w = (Ret (Inr (Some c)), w') \<and> stored w = Some m \<longrightarrow>
        mkKey (om_Namespace (hlb_Meta m)) (cl_InfrastructureRef_Name c) = ckey) \<and>
     (\<forall>w hc w'. k_Get_HCluster K ckey w = (Ret (Inr hc), w') \<longrightarrow> ClusterScope_GetResourceGroup hc = g) \<and>
     patches hlb_Meta lb_name stored present (k_Patch_LB K)"

abbreviation lb_resources :: "string \<Rightarrow> string \<Rightarrow> resource set" where
  "lb_resources g n \<equiv> {(KLB, g, n)}"

abbreviation lb_accounted :: "string \<Rightarrow> string \<Rightarrow> AzureStackHCILoadBalancer option \<Rightarrow> resource set \<Rightarrow> bool" where
  "lb_accounted g n \<equiv> covers hlb_Meta AzureStackHCILoadBalancerFinalizer lb_name n (lb_resources g n)"

abbreviation lb_step :: "lib \<Rightarrow> 'w sys \<Rightarrow> 'w moc \<Rightarrow> 'w kube \<Rightarrow> ObjectKey \<Rightarrow> string \<Rightarrow>
    ('w \<Rightarrow> AzureStackHCILoadBalancer option) \<Rightarrow> ('w \<Rightarrow> resource set) \<Rightarrow>
    ('w, unit) rstate \<Rightarrow> ('w, unit) rstate \<Rightarrow> bool" where
  "lb_step L S M K key g stored present \<equiv> life_step (LB_Reconcile L S M K key)
     (bystander hlb_Meta AzureStackHCILoadBalancerFinalizer lb_name (key_Name key)
       (lb_resources g (key_Name key)) stored present)"

lemma lb_api_laws:
  assumes "lb_api L S M K key ckey g stored present"
  shows "lb_quiet S M K (\<lambda>w. (stored w, present w) = v)"
    "preserves (m_Create_LB M rg n y) (\<lambda>w. stored w = x)" "preserves (m_Delete_LB M rg n) (\<lambda>w. stored w = x)"
    "deletes L present (KLB, rg, n) (m_Delete_LB M rg n)"
    "patches hlb_Meta lb_name stored present (k_Patch_LB K)"
  using assms unfolding lb_api_def by (simp_all del: prod.inject split_paired_All)

lemma lb_api_reads:
  assumes "lb_api L S M K key ckey g stored present"
  shows "k_Get_LB K key w = (Ret (Inr m), w') \<Longrightarrow> stored w = Some m \<and> lb_name m = key_Name key"
    "k_GetOwnerCluster K (hlb_Meta m) w = (Ret (Inr (Some c)), w') \<Longrightarrow> stored w = Some m \<Longrightarrow>
      mkKey (om_Namespace (hlb_Meta m)) (cl_InfrastructureRef_Name c) = ckey"
    "k_Get_HCluster K ckey w = (Ret (Inr hc), w') \<Longrightarrow> ClusterScope_GetResourceGroup hc = g"
  using assms unfolding lb_api_def by blast+

subsection \<open>What the parts of a reconcile keep\<close>

text \<open>The replicas are objects of their own.\<close>

lemma lb_quiet_replicas:
  assumes "lb_quiet S M K I"
  shows "preserves (getVirtualMachinesForLoadBalancer K csc lb) I"
    "preserves (lb_createOrUpdateVirtualMachine L S K lsc csc lb) I"
    "preserves (lb_deleteVirtualMachine L K lb vm) I"
    "preserves (lb_reconcileDeleteVirtualMachines L K csc lb) I"
    "preserves (loadbalancers_Get M rg spec) I" "preserves (WriteMocInfoLog M) I"
proof -
  note ops = assms [unfolded lb_quiet_def]
  show get: "preserves (getVirtualMachinesForLoadBalancer K csc lb) I"
    using ops unfolding getVirtualMachinesForLoadBalancer_def by (auto intro!: hoare_rules)
  have "preserves (RandomAlphaNumericString_loop S is res) I" for "is" res
    using ops by (induction "is" arbitrary: res) (auto intro!: hoare_rules)
  then have name: "preserves (GenerateAzureStackHCILoadBalancerMachineName S n) I" for n
    unfolding GenerateAzureStackHCILoadBalancerMachineName_def RandomAlphaNumericString_def by (auto intro!: hoare_rules)
  have "preserves (lbvm_mutateFn L lsc csc lb vm) I" for vm
    unfolding lbvm_mutateFn_def by (auto intro!: hoare_rules)
  then show "preserves (lb_createOrUpdateVirtualMachine L S K lsc csc lb) I"
    using ops unfolding lb_createOrUpdateVirtualMachine_def by (auto intro!: hoare_rules name)
  show del: "preserves (lb_deleteVirtualMachine L K lb vm) I" for vm
    using ops unfolding lb_deleteVirtualMachine_def by (auto intro!: hoare_rules)
  show "preserves (lb_reconcileDeleteVirtualMachines L K csc lb) I"
    unfolding lb_reconcileDeleteVirtualMachines_def by (auto intro!: hoare_rules get del)
  show "preserves (loadbalancers_Get M rg spec) I"
    using ops unfolding loadbalancers_Get_def by (auto intro!: hoare_rules)
  show "preserves (WriteMocInfoLog M) I" using ops by (intro cloud_log) blast
qed

text \<open>Scaling and upgrading keep what is stored, and the metadata at hand.\<close>

abbreviation lb_view :: "('w \<Rightarrow> AzureStackHCILoadBalancer option) \<Rightarrow> ('w, AzureStackHCILoadBalancer) rstate \<Rightarrow>
    AzureStackHCILoadBalancer option \<times> string list \<times> string" where
  "lb_view stored s \<equiv> (stored (world s), om_Finalizers (hlb_Meta (obj s)), lb_name (obj s))"

lemma lb_setters_view [simp]:
  "hlb_Meta (LBScope_AddReplica x) = hlb_Meta x" "hlb_Meta (LBScope_RemoveReplica x) = hlb_Meta x"
  "hlb_Meta (LBScope_SetReplicas n x) = hlb_Meta x" "hlb_Meta (LBScope_SetFailedReplicas n x) = hlb_Meta x"
  "hlb_Meta (LBScope_SetReadyReplicas n x) = hlb_Meta x" "hlb_Meta (LBScope_SetAddress a x) = hlb_Meta x"
  "hlb_Meta (LBScope_SetPort p x) = hlb_Meta x" "hlb_Meta (lb_service_failure L err x) = hlb_Meta x"
  "hlb_Meta (LB_reconcileStatus L x) = hlb_Meta x"
  by (simp_all add: LBScope_setters lb_service_failure_def LB_reconcileStatus_phase Let_def)

lemma lb_view_world:
  assumes "\<And>x. preserves m (\<lambda>w. stored w = x)"
  shows "preserves (on_world m) (\<lambda>s. lb_view stored s = v)"
  by (rule on_world_view [OF assms, of "\<lambda>x m. (x, om_Finalizers (hlb_Meta m), lb_name m) = v"])

lemma lb_replicas_kept:
  assumes "lb_api L S M K key ckey g stored present"
  shows "preserves (LB_reconcileVirtualMachines L S M K lsc csc) (\<lambda>s. lb_view stored s = v)"
    "preserves (reconcileLoadBalancerServiceStatus M csc) (\<lambda>s. lb_view stored s = v)"
proof -
  have quiet: "preserves m (\<lambda>w. stored w = x)" if "\<And>y. preserves m (\<lambda>w. (stored w, present w) = y)"
    for m :: "('a, 'b) io" and x using preserves_view [OF that, of "\<lambda>(y, _). y = x"] by simp
  note world = lb_view_world [OF quiet [OF lb_quiet_replicas(1) [OF lb_api_laws(1) [OF assms]]]]
    lb_view_world [OF quiet [OF lb_quiet_replicas(2) [OF lb_api_laws(1) [OF assms]]]]
    lb_view_world [OF quiet [OF lb_quiet_replicas(3) [OF lb_api_laws(1) [OF assms]]]]
    lb_view_world [OF quiet [OF lb_quiet_replicas(5) [OF lb_api_laws(1) [OF assms]]]]
  have up: "preserves (scaleUpVirtualMachines L S K lsc csc) (\<lambda>s. lb_view stored s = v)"
    unfolding scaleUpVirtualMachines_def by (auto intro!: hoare_rules world)
  have down: "preserves (scaleDownVirtualMachines L K vms) (\<lambda>s. lb_view stored s = v)" for vms
    unfolding scaleDownVirtualMachines_def by (auto intro!: hoare_rules world)
  have loop: "upgrade_loop L S K lsc csc s = (r, t) \<Longrightarrow> lb_view stored s = v \<Longrightarrow> lb_view stored t = v" for s r t
    using up
  proof (induction L S K lsc csc s rule: upgrade_loop.induct)
    case (1 L S K lsc csc s)
    show ?case
    proof (cases "sint (LBScope_GetReplicas (obj s)) < sint (LBScope_GetMaxReplicas (obj s))")
      case True
      obtain r' u where run: "scaleUpVirtualMachines L S K lsc csc s = (r', u)" by fastforce
      then have u: "lb_view stored u = v"
        using hoareD_Ret [OF "1.prems"(3,2)] hoareD_Panics [OF "1.prems"(3,2)] by (cases r') blast+
      show ?thesis
        using "1.prems" True run u "1.IH" [OF True run [symmetric]]
        by (subst (asm) upgrade_loop.simps) (auto split: res.splits option.splits)
    next
      case False
      with "1.prems" show ?thesis by (subst (asm) upgrade_loop.simps) auto
    qed
  qed
  then have upgrade: "preserves (upgrade_loop L S K lsc csc) (\<lambda>s. lb_view stored s = v)"
    by (auto intro!: hoareI)
  show status: "preserves (reconcileLoadBalancerServiceStatus M csc) (\<lambda>s. lb_view stored s = v)"
    unfolding reconcileLoadBalancerServiceStatus_def by (auto intro!: hoare_rules world)
  have scale: "preserves (scale_or_upgrade L S K lsc csc vms) (\<lambda>s. lb_view stored s = v)" for vms
    unfolding scale_or_upgrade_def by (auto intro!: hoare_rules up down upgrade)
  have replicas: "preserves (updateReplicaStatus M csc vms) (\<lambda>s. lb_view stored s = v)" for vms
    unfolding updateReplicaStatus_def by (auto intro!: hoare_rules status)
  show "preserves (LB_reconcileVirtualMachines L S M K lsc csc) (\<lambda>s. lb_view stored s = v)"
    unfolding LB_reconcileVirtualMachines_def by (auto intro!: hoare_rules world scale replicas)
qed

subsection \<open>What a reconcile keeps\<close>

interpretation lb_guard: finalizer_guard hlb_Meta AzureStackHCILoadBalancerFinalizer lb_name LB_addFinalizer LB_removeFinalizer
  by unfold_locales (simp_all add: LB_addFinalizer_def LB_removeFinalizer_def lib_finalizers_def)

lemma LB_reconcileNormal_closable:
  assumes "lb_api L S M K key ckey g stored present" "lib_finalizers L"
  shows "preserves (LB_reconcileNormal L S M K lsc csc) (lb_guard.closable stored present v R)"
proof -
  have log: "preserves (WriteMocInfoLog M) (\<lambda>w. stored w = x)" "preserves (loadbalancers_Get M rg spec) (\<lambda>w. stored w = x)" for x rg spec
    using preserves_view [OF lb_quiet_replicas(6) [OF lb_api_laws(1) [OF assms(1)]], of "\<lambda>(y, _). y = x"]
      preserves_view [OF lb_quiet_replicas(5) [OF lb_api_laws(1) [OF assms(1)]], of "\<lambda>(y, _). y = x"] by simp_all
  have "preserves (loadbalancers_Reconcile M rg spec) (\<lambda>w. stored w = x)" for rg spec x
    unfolding loadbalancers_Reconcile_def by (auto intro!: hoare_rules log lb_api_laws(2) [OF assms(1)])
  note world = lb_view_world [OF this]
  have service: "preserves (reconcileLoadBalancerService M csc) (\<lambda>s. lb_view stored s = v)" for v
    unfolding reconcileLoadBalancerService_def Let_def by (auto intro!: hoare_rules world)
  have ready: "preserves (lb_service_readiness L M csc result) (\<lambda>s. lb_view stored s = v)" for result v
    unfolding lb_service_readiness_def lb_address_readiness_def lb_readiness_def
    by (auto intro!: hoare_rules service lb_replicas_kept(2) [OF assms(1)])
  have work: "hoare (lb_guard.engaged stored v) (bind (reads obj) (\<lambda>lb. case lbs_Replicas (hlb_Spec lb) of
         None \<Rightarrow>
           (let err = ErrorNew (''No replica count was specified for loadbalancer '' @ LBScope_Name lb) in
            bind (Eventf EventTypeWarning ''InvalidConfig'' (err_Error L err)) (\<lambda>_.
            return (noResult, Some err)))
       | Some _ \<Rightarrow> bind (LB_reconcileVirtualMachines L S M K lsc csc) (\<lambda>(result, e). case e of
           Some err \<Rightarrow>
             bind (Eventf EventTypeWarning ''FailureReconcileLBMachines''
               (err_Error L (Wrap ''Failed to reconcile LoadBalancer machines'' err))) (\<lambda>_.
             bind (upd_obj (lb_not_ready L LoadBalancerMachineReconciliationFailedReason
               (err_Error L err))) (\<lambda>_.
             return (noResult, Some err)))
         | None \<Rightarrow> lb_service_readiness L M csc result)))
      (\<lambda>_. lb_guard.closable stored present v R) (lb_guard.closable stored present v R)"
    by (rule lb_guard.engaged_work) (auto intro!: hoare_rules lb_replicas_kept(1) [OF assms(1)] ready simp: Let_def)
  show ?thesis
    unfolding LB_reconcileNormal_def LBScope_PatchObject_def
    by (rule lb_guard.register [OF lb_api_laws(5) [OF assms(1)] assms(2) _ work]) (auto intro!: hoare_rules)
qed

lemma lb_service_clears:
  assumes "lb_api L S M K key ckey g stored present" "lib_wraps L"
    and "ClusterScope_GetResourceGroup (csc_before csc) = g" "lb_name lb = n"
  shows "clears stored present (lb_resources g n) (\<lambda>e. e = None) (reconcileDeleteLoadBalancerService L M csc lb)"
proof (rule clearsI)
  fix x A
  let ?I = "\<lambda>w. stored w = x \<and> present w \<inter> A = {}" and ?spec = "lb_spec_named n"
  have log: "preserves (WriteMocInfoLog M) ?I"
    using preserves_view [OF lb_quiet_replicas(6) [OF lb_api_laws(1) [OF assms(1)]], of "\<lambda>(y, p). y = x \<and> p \<inter> A = {}"] by simp
  have del: "hoare ?I (m_Delete_LB M g (lbspec_Name ?spec))
      (\<lambda>e w. ?I w \<and> (gone L e \<longrightarrow> (KLB, g, n) \<notin> present w)) ?I"
    using delete_step [OF lb_api_laws(4,3) [OF assms(1)]] by (simp add: lb_spec_named_def)
  have "hoare ?I (loadbalancers_Delete L M g (Some ?spec))
      (\<lambda>e w. ?I w \<and> ((\<forall>err. e = Some err \<longrightarrow> ResourceNotFound L err) \<longrightarrow> (KLB, g, n) \<notin> present w)) ?I"
    by (rule lbs.hoare_delete [OF log del], subst settled_gone [OF assms(2)])
  then show "hoare ?I (reconcileDeleteLoadBalancerService L M csc lb)
      (\<lambda>e w. stored w = x \<and> present w \<inter> A = {} \<and> (e = None \<longrightarrow> present w \<inter> lb_resources g n = {})) ?I"
    unfolding reconcileDeleteLoadBalancerService_def assms(3,4)
    by (rule hoare_bind) (auto intro!: hoare_rules)
qed

lemma LB_reconcileDelete_closable:
  assumes "lb_api L S M K key ckey g stored present" "lib_wraps L"
    and "ClusterScope_GetResourceGroup (csc_before csc) = g"
  shows "preserves (LB_reconcileDelete L M K csc) (lb_guard.closable stored present n (lb_resources g n))"
proof -
  let ?C = "lb_guard.closable stored present n (lb_resources g n)" and ?E = "\<lambda>s. present (world s) \<inter> lb_resources g n = {}"
  have service: "hoare (\<lambda>s. ?C s \<and> obj s = lb) (on_world (reconcileDeleteLoadBalancerService L M csc lb))
      (\<lambda>e s. ?C s \<and> (e = None \<longrightarrow> ?E s)) ?C" for lb
  proof (cases "lb_name lb = n")
    case True
    show ?thesis
      by (rule hoare_weaken [OF lb_guard.clears_closable [OF lb_service_clears [OF assms True]]]) auto
  next
    case False
    then show ?thesis by (auto simp: hoare_def lb_guard.closable_def)
  qed
  have machines: "preserves (on_world (lb_reconcileDeleteVirtualMachines L K csc lb)) (\<lambda>s. ?C s \<and> ?E s)" for lb
    using hoare_conj [OF lb_guard.closable_world [OF lb_quiet_replicas(4) [OF lb_api_laws(1) [OF assms(1)]]]
        on_world_view [OF lb_quiet_replicas(4) [OF lb_api_laws(1) [OF assms(1)]], of "\<lambda>(_, p) _. p \<inter> lb_resources g n = {}"],
        of n "lb_resources g n" L csc lb] by simp
  have failed: "?C s \<Longrightarrow> ?C (s\<lparr>obj := lb_not_ready L r msg (obj s)\<rparr>)" for s r msg by (simp add: lb_guard.closable_obj)
  have fail: "hoare P (bind (Eventf ty re ms) (\<lambda>_. bind (upd_obj (lb_not_ready L r msg)) (\<lambda>_. return x))) (\<lambda>_. ?C) ?C"
    if "\<And>s. P s \<Longrightarrow> ?C s" for P ty re ms r msg and x :: "Result \<times> goerror option"
  proof (rule hoare_weaken)
    show "preserves (bind (Eventf ty re ms) (\<lambda>_. bind (upd_obj (lb_not_ready L r msg)) (\<lambda>_. return x))) ?C"
      by (auto intro!: hoare_rules failed)
  qed (auto intro: that)
  have released: "hoare (\<lambda>s. ?C s \<and> ?E s) (bind (upd_obj (LB_removeFinalizer L)) (\<lambda>_.
      bind (upd_obj (lb_not_ready L r msg)) (\<lambda>_. bind (Eventf ty re ms) (\<lambda>_. return x)))) (\<lambda>_. ?C) ?C"
    for ty re ms r msg and x :: "Result \<times> goerror option"
    by (rule hoare_bind [OF lb_guard.release]) (auto intro!: hoare_rules failed)
  show ?thesis
    unfolding LB_reconcileDelete_def
    apply (rule hoare_bind [where B = "\<lambda>m s. ?C s \<and> obj s = m"], rule hoare_reads, simp)
    apply (rule hoare_bind [OF service], rule hoare_case_option)
     apply (rule hoare_bind [where B = "\<lambda>_ s. ?C s \<and> ?E s"])
      apply (rule hoare_weaken [OF machines], simp_all)[1]
     apply (rule hoare_case_option, rule released)
     apply (rule fail, simp)+
    done
qed

lemma LB_session_accounted:
  assumes "lb_api L S M K key ckey g stored present" "lib_finalizers L" "lib_wraps L"
    and "ClusterScope_GetResourceGroup (csc_before csc) = g"
  shows "hoare (\<lambda>s. lb_accounted g n (stored (world s)) (present (world s)) \<and> stored (world s) = Some lb)
    (with_obj lb (close_after (bind (upd_obj (LB_reconcileStatus L)) (\<lambda>_. LBScope_Close K lsc))
      (if \<not> DeletionTimestamp_IsZero (hlb_Meta lb) then LB_reconcileDelete L M K csc else LB_reconcileNormal L S M K lsc csc)))
    (\<lambda>_ s. lb_accounted g n (stored (world s)) (present (world s))) (\<lambda>s. lb_accounted g n (stored (world s)) (present (world s)))"
proof (rule lb_guard.session)
  let ?C = "lb_guard.closable stored present n (lb_resources g n)"
  show "preserves (if \<not> DeletionTimestamp_IsZero (hlb_Meta lb) then LB_reconcileDelete L M K csc
      else LB_reconcileNormal L S M K lsc csc) ?C"
    using LB_reconcileDelete_closable [OF assms(1,3,4)] LB_reconcileNormal_closable [OF assms(1,2)] by simp
  have "preserves (LBScope_Close K lsc) ?C"
    unfolding LBScope_Close_def by (rule hoare_weaken [OF lb_guard.patch_closable [OF lb_api_laws(5) [OF assms(1)]]]) auto
  then show "preserves (bind (upd_obj (LB_reconcileStatus L)) (\<lambda>_. LBScope_Close K lsc)) ?C"
    by (auto intro!: hoare_rules simp: lb_guard.closable_obj)
qed

lemma LB_Reconcile_accounted:
  assumes "lb_api L S M K key ckey g stored present" "lib_finalizers L" "lib_wraps L"
  shows "preserves (LB_Reconcile L S M K key)
    (\<lambda>s. lb_accounted g (key_Name key) (stored (world s)) (present (world s)))"
proof -
  let ?P = "lb_accounted g (key_Name key)"
  let ?I = "\<lambda>s. ?P (stored (world s)) (present (world s))"
  note quiet = lb_api_laws(1) [OF assms(1), unfolded lb_quiet_def]
  note reads = lb_api_reads [OF assms(1)]
  note scope = access_quiet [OF conjunct1 [OF quiet]]
  note lookup = hoare_lookup [where f = "\<lambda>w. (stored w, present w)" and P = "\<lambda>(x, p). ?P x p \<and> x = Some lb" for lb, unfolded prod.case]
  note stop = hoare_stop [where P = "\<lambda>w. ?P (stored w) (present w)"]
  show ?thesis
    unfolding LB_Reconcile_def
    apply (rule hoare_fetch [where f = "\<lambda>w. (stored w, present w)" and P = "\<lambda>(x, p). ?P x p" and G = "\<lambda>m (x, p). x = Some m", unfolded prod.case])
        apply (use quiet reads(1) in \<open>blast+\<close>)[2]
      apply (rule hoare_if [OF stop(2) stop(2)])
    subgoal for lb
      apply (rule lookup [where Q = "\<lambda>r. \<forall>c. r = Inr (Some c) \<longrightarrow>
          mkKey (om_Namespace (hlb_Meta lb)) (cl_InfrastructureRef_Name c) = ckey"])
         apply (use quiet in blast, use reads(2) in blast)
       apply (rule hoare_case_sum, rule stop, rule hoare_case_option, rule stop)
      subgoal for r z c
        apply (rule lookup [where Q = "\<lambda>r. \<forall>hc. r = Inr hc \<longrightarrow> ClusterScope_GetResourceGroup hc = g"])
           apply (use quiet in blast, use reads(3) in metis)
         apply (rule hoare_case_sum, rule stop)
        subgoal for r' hc
          apply (rule lookup [where Q = "\<lambda>r. \<forall>csc. r = Inr csc \<longrightarrow> csc_before csc = hc"], rule scope)
            apply (intro allI impI, hypsubst, drule NewClusterScope_fields, simp)
           apply (rule hoare_case_sum, rule stop)
          subgoal for r'' csc
            apply (rule lookup [where Q = "\<lambda>_. True"], rule scope, simp, rule hoare_case_sum, rule stop)
             apply (rule LB_session_accounted [OF assms], force, erule conjunct1)
            done
          by (erule conjunct1)
        by (erule conjunct1)
      by (erule conjunct1)
    by assumption
qed

subsection \<open>An API server and a cloud that keep the laws\<close>

text \<open>The world is the stored object with the set of resources; everything succeeds.\<close>

type_synonym lb_world = "AzureStackHCILoadBalancer option \<times> resource set"

definition lb_kube :: "lb_world kube" where
  "lb_kube = kube0\<lparr>
     k_Get_LB := \<lambda>k w. (Ret (case fst w of None \<Rightarrow> Inl (External ''NotFound'')
       | Some m \<Rightarrow> if lb_name m = key_Name k then Inr m else Inl (External ''Internal'')), w),
     k_GetOwnerCluster := \<lambda>om w. (Ret (Inr (if om_Namespace om = ''ns'' then Some cluster0 else None)), w),
     k_Get_HCluster := \<lambda>_ w. (Ret (Inr hcluster0), w),
     k_Patch_LB := \<lambda>_ m w. (Ret None, (if om_Finalizers (hlb_Meta m) = [] then None else Some m, snd w))\<rparr>"

definition lb_moc :: "lb_world moc" where
  "lb_moc = moc0\<lparr>
     m_Create_LB := \<lambda>g n _ w. (Ret None, (fst w, insert (KLB, g, n) (snd w))),
     m_Delete_LB := \<lambda>g n w. (Ret None, (fst w, snd w - {(KLB, g, n)}))\<rparr>"

definition lb_key :: ObjectKey where "lb_key = mkKey ''ns'' ''lb''"

lemma lb_world_api: "lb_api lib0 sys0 lb_moc lb_kube lb_key (mkKey ''ns'' ''c'') ''rg'' fst snd"
proof -
  have "preserves (k_CreateOrUpdate_VM lb_kube x f) I" if "\<forall>y. preserves (f y) I" for x f I
    using kube0_CreateOrUpdate(1) [OF spec [OF that]] by (simp add: lb_kube_def)
  then have "lb_quiet sys0 lb_moc lb_kube (\<lambda>w. (fst w, snd w) = v)" for v
    unfolding lb_quiet_def
    by (intro conjI allI impI)
      (assumption | simp add: access_only_def sys0_def lb_kube_def lb_moc_def kube0_def moc0_def hoare_def split: option.splits if_splits)+
  then show ?thesis
    unfolding lb_api_def
    by (intro conjI allI impI)
      (auto simp: deletes_def patches_def stored_as_def lb_kube_def lb_moc_def kube0_def moc0_def hoare_def cluster0_def
        hcluster0_def ClusterScope_GetResourceGroup_def mkKey_def lb_key_def split: option.splits if_splits)
qed

definition lb_start :: "(lb_world, unit) rstate" where
  "lb_start = \<lparr>world = (Some ((newLoadBalancer ''ns'' ''lb'')\<lparr>hlb_Spec := (hlb_Spec (newLoadBalancer ''ns'' ''lb''))
     \<lparr>lbs_Replicas := Some 0\<rparr>\<rparr>), {}), obj = (), events = []\<rparr>"

definition lb_created :: "(lb_world, unit) rstate" where
  "lb_created = snd (LB_Reconcile lib0 sys0 lb_moc lb_kube lb_key lb_start)"

lemma lb_created_resources: "(KLB, ''rg'', ''lb'') \<in> snd (world lb_created)"
  by code_simp

subsection \<open>Properties\<close>

text \<open>
  C2: No load balancer in the cloud is ever orphaned.  However reconciles of a load balancer object,
  each with any outcome (success, error or panic, while replicas are created, deleted or upgraded,
  in the cloud, in a patch or in between), interleave with what users, the API server and other
  controllers do, at every time between them: if its load balancer service is in the cloud, then the
  object is stored and carries the finalizer.
\<close>

theorem lb_never_orphaned:
  assumes "lb_api L S M K key ckey g stored present" "lib_finalizers L" "lib_wraps L"
    and "(lb_step L S M K key g stored present)\<^sup>*\<^sup>* s t"
    and "lb_accounted g (key_Name key) (stored (world s)) (present (world s))"
    and "(KLB, g, key_Name key) \<in> present (world t)"
  shows "\<exists>m. stored (world t) = Some m \<and> AzureStackHCILoadBalancerFinalizer \<in> set (om_Finalizers (hlb_Meta m))"
  using lb_guard.life_covers [OF LB_Reconcile_accounted [OF assms(1-3)] assms(4,5)] assms(6)
  by (auto simp: covers_def held_by_def)

theorem lb_never_orphaned_witness:
  "(KLB, ''rg'', ''lb'') \<in> snd (world lb_created) \<and> (\<exists>m. fst (world lb_created) = Some m \<and>
     AzureStackHCILoadBalancerFinalizer \<in> set (om_Finalizers (hlb_Meta m)))"
proof (rule conjI [OF lb_created_resources])
  have key: "key_Name lb_key = ''lb''" by (simp add: lb_key_def mkKey_def)
  have start: "lb_accounted ''rg'' (key_Name lb_key) (fst (world lb_start)) (snd (world lb_start))"
    by (simp add: covers_def lb_start_def newLoadBalancer_def newMeta_def key)
  have "lb_step lib0 sys0 lb_moc lb_kube lb_key ''rg'' fst snd lb_start lb_created"
    by (rule life_step.reconcile [where r = "fst (LB_Reconcile lib0 sys0 lb_moc lb_kube lb_key lb_start)"]) (simp add: lb_created_def)
  then have life: "(lb_step lib0 sys0 lb_moc lb_kube lb_key ''rg'' fst snd)\<^sup>*\<^sup>* lb_start lb_created" by (rule r_into_rtranclp)
  from lb_never_orphaned [OF lb_world_api lib0_finalizers lib0_wraps life start] lb_created_resources key
  show "\<exists>m. fst (world lb_created) = Some m \<and> AzureStackHCILoadBalancerFinalizer \<in> set (om_Finalizers (hlb_Meta m))" by simp
qed

end
