(* ===== verification/ClusterController.thy ===== *)
theory ClusterController
  imports LBMachines
begin

text \<open>
  \<open>controllers/azurestackhcicluster_controller.go\<close> and \<open>azurestackhcicluster_reconciler.go\<close>: the
  reconcile loop of a cluster object, which provides the virtual network, the group and the key
  vault in the cloud, creates the load balancer object, and tears everything down in order.
\<close>

subsection \<open>The cloud services of a cluster\<close>

text \<open>\<open>r.scope.Vnet()\<close> points into the cluster object, so the generated name is written there.\<close>

definition createOrUpdateVnetName :: "ClusterScope \<Rightarrow> AzureStackHCICluster \<Rightarrow> AzureStackHCICluster" where
  "createOrUpdateVnetName csc hc =
     (if vnet_Name (ClusterScope_Vnet hc) = []
      then hc\<lparr>hc_Spec := (hc_Spec hc)\<lparr>cs_NetworkSpec := (cs_NetworkSpec (hc_Spec hc))\<lparr>net_Vnet :=
        (ClusterScope_Vnet hc)\<lparr>vnet_Name := GenerateVnetName (ClusterScope_Name csc)\<rparr>\<rparr>\<rparr>\<rparr>
      else hc)"

definition cluster_vnetSpec :: "AzureStackHCICluster \<Rightarrow> virtualnetworks_Spec" where
  "cluster_vnetSpec hc = \<lparr>vnspec_Name = vnet_Name (ClusterScope_Vnet hc),
     vnspec_Group = (if vnet_Group (ClusterScope_Vnet hc) \<noteq> [] then vnet_Group (ClusterScope_Vnet hc)
       else ClusterScope_GetResourceGroup hc),
     vnspec_CIDR = DefaultVnetCIDR\<rparr>"

definition cluster_groupSpec :: "AzureStackHCICluster \<Rightarrow> groups_Spec" where
  "cluster_groupSpec hc = \<lparr>group_Name = ClusterScope_GetResourceGroup hc,
     group_Location = ClusterScope_Location hc\<rparr>"

definition clustersvc_Reconcile :: "'w moc \<Rightarrow> ClusterScope \<Rightarrow>
    (('w, AzureStackHCICluster) rstate, goerror option) io" where
  "clustersvc_Reconcile M csc =
     (let name = ClusterScope_Name csc in
      bind (upd_obj (createOrUpdateVnetName csc)) (\<lambda>_. bind (reads obj) (\<lambda>hc.
      bind (on_world (virtualnetworks_Reconcile M (Some (cluster_vnetSpec hc)))) (\<lambda>e. case e of
        Some err \<Rightarrow> return (Some (Wrap (''failed to reconcile virtual network for cluster '' @ name) err))
      | None \<Rightarrow> bind (on_world (groups_Reconcile M (Some (cluster_groupSpec hc)))) (\<lambda>e. case e of
          Some err \<Rightarrow> return (Some (Wrap (''failed to reconcile group for cluster '' @ name) err))
        | None \<Rightarrow> bind (on_world (keyvaults_Reconcile M (ClusterScope_GetResourceGroup hc)
              (Some \<lparr>vault_Name = name\<rparr>))) (\<lambda>e. case e of
            Some err \<Rightarrow> return (Some (Wrap (''failed to reconcile keyvault for cluster '' @ name) err))
          | None \<Rightarrow> return None))))))"

definition clustersvc_Delete :: "lib \<Rightarrow> 'w moc \<Rightarrow> ClusterScope \<Rightarrow> AzureStackHCICluster \<Rightarrow>
    ('w, goerror option) io" where
  "clustersvc_Delete L M csc hc =
     (let name = ClusterScope_Name csc;
          deleteGroup = bind (groups_Delete L M (Some (cluster_groupSpec hc))) (\<lambda>e. case e of
            Some err \<Rightarrow> return (Some (Wrap (''failed to delete group '' @
              ClusterScope_GetResourceGroup hc @ '' for cluster '' @ name) err))
          | None \<Rightarrow> return None);
          deleteVnet = bind (virtualnetworks_Delete L M (Some (cluster_vnetSpec hc))) (\<lambda>e. case e of
            None \<Rightarrow> deleteGroup
          | Some err \<Rightarrow> if \<not> ResourceNotFound L err
              then return (Some (Wrap (''failed to delete virtual network '' @
                vnet_Name (ClusterScope_Vnet hc) @ '' for cluster '' @ name) err))
              else deleteGroup)
      in bind (keyvaults_Delete L M (ClusterScope_GetResourceGroup hc) (Some \<lparr>vault_Name = name\<rparr>))
        (\<lambda>e. case e of
            None \<Rightarrow> deleteVnet
          | Some err \<Rightarrow> if \<not> ResourceNotFound L err
              then return (Some (Wrap (''failed to delete keyvault '' @ name @ '' for cluster '' @ name) err))
              else deleteVnet))"

subsection \<open>The load balancer object of a cluster\<close>

definition cluster_not_ready :: "lib \<Rightarrow> string \<Rightarrow> string \<Rightarrow> AzureStackHCICluster \<Rightarrow>
    AzureStackHCICluster" where
  "cluster_not_ready L reason msg =
     HCluster_Set L (mkCondition NetworkInfrastructureReadyCondition ConditionFalse reason msg)"

definition cluster_lb_mutate :: "lib \<Rightarrow> ClusterScope \<Rightarrow> AzureStackHCICluster \<Rightarrow>
    AzureStackHCILoadBalancerSpec \<Rightarrow> AzureStackHCILoadBalancer \<Rightarrow> AzureStackHCILoadBalancer" where
  "cluster_lb_mutate L csc hc sp lb =
     (let om = hlb_Meta lb;
          om = om\<lparr>om_OwnerReferences := lib_EnsureOwnerRef L (om_OwnerReferences om)
            \<lparr>or_APIVersion = ClusterScope_APIVersion csc, or_Kind = ClusterScope_Kind csc,
             or_Name = ClusterScope_Name csc, or_UID = ClusterScope_UID csc\<rparr>\<rparr>
      in lb\<lparr>hlb_Meta := CopyCorrelationID (hc_Meta hc) om,
            hlb_Spec := (hlb_Spec lb)
              \<lparr>lbs_Image := (case lbs_Image sp of None \<Rightarrow> lbs_Image (hlb_Spec lb) | Some i \<Rightarrow> Some i),
               lbs_SSHPublicKey := lbs_SSHPublicKey sp, lbs_VMSize := lbs_VMSize sp,
               lbs_Replicas := lbs_Replicas sp\<rparr>\<rparr>)"

definition reconcileAzureStackHCILoadBalancer :: "lib \<Rightarrow> 'w kube \<Rightarrow> ClusterScope \<Rightarrow>
    (('w, AzureStackHCICluster) rstate, bool \<times> goerror option) io" where
  "reconcileAzureStackHCILoadBalancer L K csc = bind (reads obj) (\<lambda>hc.
     case ClusterScope_AzureStackHCILoadBalancer hc of
       None \<Rightarrow> return (True, None)
     | Some sp \<Rightarrow> bind (on_world (k_CreateOrUpdate_LB K
           (newLoadBalancer (ClusterScope_Namespace csc)
             (GenerateAzureStackHCILoadBalancerName (ClusterScope_Name csc)))
           (\<lambda>lb. return (None, cluster_lb_mutate L csc hc sp lb)))) (\<lambda>(operationResult, e, lb).
         let checkReady =
           (if cond_IsFalse L (LB_GetConditions lb) LoadBalancerInfrastructureReadyCondition
            then (case cond_Get L (LB_GetConditions lb) LoadBalancerInfrastructureReadyCondition of
                None \<Rightarrow> panic ''nil pointer dereference''
              | Some cond \<Rightarrow> bind (upd_obj (cluster_not_ready L (c_Reason cond) (c_Message cond))) (\<lambda>_.
                  return (False, None)))
            else if lbst_Address (hlb_Status lb) \<noteq> []
            then bind (upd_obj (\<lambda>hc. hc\<lparr>hc_Spec := (hc_Spec hc)\<lparr>cs_ControlPlaneEndpoint :=
                \<lparr>ep_Host = lbst_Address (hlb_Status lb), ep_Port = ClusterScope_APIServerPort csc\<rparr>\<rparr>\<rparr>)) (\<lambda>_.
              return (True, None))
            else return (True, None))
         in case e of
             None \<Rightarrow> checkReady
           | Some err \<Rightarrow> if \<not> err_IsAlreadyExists L err
               then bind (upd_obj (cluster_not_ready L LoadBalancerProvisioningReason (err_Error L err))) (\<lambda>_.
                 return (False, Some err))
               else checkReady))"

definition reconcileDeleteAzureStackHCILoadBalancer :: "lib \<Rightarrow> 'w kube \<Rightarrow> ClusterScope \<Rightarrow>
    (('w, AzureStackHCICluster) rstate, goerror option) io" where
  "reconcileDeleteAzureStackHCILoadBalancer L K csc = bind (reads obj) (\<lambda>hc.
     case ClusterScope_AzureStackHCILoadBalancer hc of
       None \<Rightarrow> return None
     | Some _ \<Rightarrow>
         (let ns = ClusterScope_Namespace csc;
              name = GenerateAzureStackHCILoadBalancerName (ClusterScope_Name csc);
              nsName = ns @ ''/'' @ name
          in bind (on_world (k_Get_LB K (mkKey ns name))) (\<lambda>r. case r of
              Inl err \<Rightarrow> if \<not> err_IsNotFound L err
                then return (Some (Wrap (''Failed to get AzureStackHCILoadBalancer '' @ nsName) err))
                else return None
            | Inr lb \<Rightarrow>
                if DeletionTimestamp_IsZero (hlb_Meta lb)
                then bind (on_world (k_Update_LB K (lb\<lparr>hlb_Meta := CopyCorrelationID (hc_Meta hc) (hlb_Meta lb)\<rparr>)))
                  (\<lambda>(e, lb).
                    let delete = bind (on_world (k_Delete_LB K lb)) (\<lambda>e. case e of
                        None \<Rightarrow> return None
                      | Some err \<Rightarrow> if \<not> err_IsNotFound L err
                          then bind (upd_obj (cluster_not_ready L DeletionFailedReason (err_Error L err))) (\<lambda>_.
                            return (Some (Wrap (''Failed to delete AzureStackHCILoadBalancer '' @ nsName) err)))
                          else return None)
                    in case e of
                        None \<Rightarrow> delete
                      | Some err \<Rightarrow> if \<not> err_IsNotFound L err
                          then bind (upd_obj (cluster_not_ready L DeletionFailedReason (err_Error L err))) (\<lambda>_.
                            return (Some (Wrap (''Failed to update AzureStackHCILoadBalancer '' @ nsName) err)))
                          else delete)
                else return None)))"

subsection \<open>Orphaned machines\<close>

definition delete_if_orphaned :: "lib \<Rightarrow> 'w kube \<Rightarrow> AzureStackHCICluster \<Rightarrow> AzureStackHCIMachine \<Rightarrow>
    ('w, goerror option) io" where
  "delete_if_orphaned L K hc azhciMachine =
     bind (k_GetOwnerMachine K (hm_Meta azhciMachine)) (\<lambda>r. case r of
        Inl err \<Rightarrow> return (Some err)
      | Inr (Some _) \<Rightarrow> return None
      | Inr None \<Rightarrow> bind (k_Update_HMachine K (azhciMachine\<lparr>hm_Meta :=
            CopyCorrelationID (hc_Meta hc) (hm_Meta azhciMachine)\<rparr>)) (\<lambda>(e, azhciMachine).
          let delete = bind (k_Delete_HMachine K azhciMachine) (\<lambda>e. case e of
              None \<Rightarrow> return None
            | Some err \<Rightarrow> if \<not> err_IsNotFound L err
                then return (Some (Wrap (''Failed to delete AzureStackHCIMachine '' @
                  om_Name (hm_Meta azhciMachine)) err))
                else return None)
          in case e of
              None \<Rightarrow> delete
            | Some err \<Rightarrow> if \<not> err_IsNotFound L err
                then return (Some (Wrap (''Failed to update AzureStackHCIMachine '' @
                  om_Name (hm_Meta azhciMachine)) err))
                else delete))"

definition deleteOrphanedMachines :: "lib \<Rightarrow> 'w kube \<Rightarrow> AzureStackHCICluster \<Rightarrow>
    AzureStackHCIMachine list \<Rightarrow> ('w, goerror option) io" where
  "deleteOrphanedMachines L K hc azhciMachines = forEach azhciMachines (delete_if_orphaned L K hc)"

subsection \<open>Reconciling a cluster\<close>

definition HCluster_addFinalizer :: "lib \<Rightarrow> AzureStackHCICluster \<Rightarrow> AzureStackHCICluster" where
  "HCluster_addFinalizer L m = m\<lparr>hc_Meta := (hc_Meta m)\<lparr>om_Finalizers :=
     lib_AddFinalizer L (om_Finalizers (hc_Meta m)) ClusterFinalizer\<rparr>\<rparr>"

definition HCluster_removeFinalizer :: "lib \<Rightarrow> AzureStackHCICluster \<Rightarrow> AzureStackHCICluster" where
  "HCluster_removeFinalizer L m = m\<lparr>hc_Meta := (hc_Meta m)\<lparr>om_Finalizers :=
     lib_RemoveFinalizer L (om_Finalizers (hc_Meta m)) ClusterFinalizer\<rparr>\<rparr>"

definition cluster_service_failure :: "lib \<Rightarrow> goerror \<Rightarrow> AzureStackHCICluster \<Rightarrow> AzureStackHCICluster" where
  "cluster_service_failure L err =
     (let code = moc_GetErrorCode L err in
      if code = moc_OutOfMemory L then cluster_not_ready L OutOfMemoryReason (err_Error L err)
      else if code = moc_OutOfCapacity L then cluster_not_ready L OutOfCapacityReason (err_Error L err)
      else cluster_not_ready L ClusterReconciliationFailedReason (err_Error L err))"

definition cluster_set_provisioned :: "AzureStackHCICluster \<Rightarrow> AzureStackHCICluster" where
  "cluster_set_provisioned hc = hc\<lparr>hc_Status := (hc_Status hc)\<lparr>cst_Initialization :=
     Some ((case cst_Initialization (hc_Status hc) of None \<Rightarrow> \<lparr>ci_Provisioned = None\<rparr> | Some i \<Rightarrow> i)
       \<lparr>ci_Provisioned := Some True\<rparr>)\<rparr>\<rparr>"

definition Cluster_reconcileNormal :: "lib \<Rightarrow> 'w moc \<Rightarrow> 'w kube \<Rightarrow> ClusterScope \<Rightarrow>
    (('w, AzureStackHCICluster) rstate, Result \<times> goerror option) io" where
  "Cluster_reconcileNormal L M K csc = bind (upd_obj (HCluster_addFinalizer L)) (\<lambda>_.
     bind (ClusterScope_PatchObject K csc) (\<lambda>e. case e of
       Some err \<Rightarrow> return (noResult, Some err)
     | None \<Rightarrow> bind (clustersvc_Reconcile M csc) (\<lambda>e. case e of
         Some err \<Rightarrow>
           (let wrappedErr = Wrap ''failed to reconcile cluster services'' err in
            bind (upd_obj (cluster_service_failure L err)) (\<lambda>_.
            bind (Eventf EventTypeWarning ''ClusterReconcileFailed'' (err_Error L wrappedErr)) (\<lambda>_.
            return (noResult, Some wrappedErr))))
       | None \<Rightarrow> bind (reconcileAzureStackHCILoadBalancer L K csc) (\<lambda>(ready, e).
           if \<not> ready
           then (case e of
               Some err \<Rightarrow> return (noResult, Some err)
             | None \<Rightarrow> return (requeueAfter 20, None))
           else bind (upd_obj cluster_set_provisioned) (\<lambda>_.
             bind (upd_obj (HCluster_Set L (mkCondition NetworkInfrastructureReadyCondition
               ConditionTrue InfrastructureReadyReason []))) (\<lambda>_.
             bind (upd_obj (HCluster_Set L (mkCondition ReadyCondition
               ConditionTrue InfrastructureReadyReason []))) (\<lambda>_.
             return (noResult, None))))))))"

text \<open>From the lookup of the load balancer to the end of \<open>reconcileDelete\<close>.\<close>

definition cluster_delete_services :: "lib \<Rightarrow> 'w moc \<Rightarrow> 'w kube \<Rightarrow> ClusterScope \<Rightarrow>
    (('w, AzureStackHCICluster) rstate, Result \<times> goerror option) io" where
  "cluster_delete_services L M K csc = bind (reads obj) (\<lambda>hc.
     let nsName = om_Namespace (hc_Meta hc) @ ''/'' @ om_Name (hc_Meta hc) in
     bind (on_world (k_Get_LB K (mkKey (ClusterScope_Namespace csc)
       (GenerateAzureStackHCILoadBalancerName (ClusterScope_Name csc))))) (\<lambda>r. case r of
         Inr _ \<Rightarrow> bind (upd_obj (cluster_not_ready L LoadBalancerDeletingReason [])) (\<lambda>_.
           return (\<lparr>Requeue = False, RequeueAfter = 20\<rparr>, None))
       | Inl _ \<Rightarrow> bind (on_world (clustersvc_Delete L M csc hc)) (\<lambda>e. case e of
           Some err \<Rightarrow>
             (let wrappedErr = Wrap (''error deleting AzureStackHCICluster '' @ nsName) err in
              bind (Eventf EventTypeWarning ''FailureClusterDelete'' (err_Error L wrappedErr)) (\<lambda>_.
              bind (upd_obj (cluster_not_ready L DeletionFailedReason (err_Error L err))) (\<lambda>_.
              return (noResult, Some wrappedErr))))
         | None \<Rightarrow>
             bind (Eventf EventTypeNormal ''SuccessfulDeleteCluster''
               (''Successfully deleted AzureStackHCICluster '' @ nsName)) (\<lambda>_.
             bind (upd_obj (HCluster_removeFinalizer L)) (\<lambda>_.
             return (noResult, None))))))"

definition Cluster_reconcileDelete :: "lib \<Rightarrow> 'w moc \<Rightarrow> 'w kube \<Rightarrow> ClusterScope \<Rightarrow>
    (('w, AzureStackHCICluster) rstate, Result \<times> goerror option) io" where
  "Cluster_reconcileDelete L M K csc =
     bind (upd_obj (cluster_not_ready L ''Deleted'' [])) (\<lambda>_. bind (reads obj) (\<lambda>hc.
     let ns = om_Namespace (hc_Meta hc); name = om_Name (hc_Meta hc);
         fail = (\<lambda>msg err.
           let wrappedErr = Wrap (msg @ ns @ ''/'' @ name) err in
           bind (Eventf EventTypeWarning ''FailureListMachinesInCluster'' (err_Error L wrappedErr)) (\<lambda>_.
           bind (upd_obj (cluster_not_ready L DeletionFailedReason (err_Error L err))) (\<lambda>_.
           return (noResult, Some wrappedErr))))
     in bind (on_world (GetAzureStackHCIMachinesInCluster K ns name)) (\<lambda>r. case r of
         Inl err \<Rightarrow> fail ''unable to list AzureStackHCIMachines part of AzureStackHCIClusters '' err
       | Inr azhciMachines \<Rightarrow>
           if length azhciMachines > 0
           then bind (on_world (deleteOrphanedMachines L K hc azhciMachines)) (\<lambda>e. case e of
               Some err \<Rightarrow>
                 fail ''failed to delete orphaned AzureStackHCIMachines part of AzureStackHCIClusters '' err
             | None \<Rightarrow> bind (upd_obj (cluster_not_ready L AzureStackHCIMachinesDeletingReason [])) (\<lambda>_.
                 return (\<lparr>Requeue = False, RequeueAfter = 20\<rparr>, None)))
           else bind (reconcileDeleteAzureStackHCILoadBalancer L K csc) (\<lambda>e. case e of
               Some err \<Rightarrow> return (noResult, Some (Wrap
                 ''Failed to delete AzureStackHCICluster AzureStackHCILoadBalancer'' err))
             | None \<Rightarrow> cluster_delete_services L M K csc))))"

definition reconcilePhase :: "AzureStackHCICluster \<Rightarrow> AzureStackHCICluster" where
  "reconcilePhase hc =
     (let phase = (\<lambda>p x. x\<lparr>hc_Status := Cluster_SetTypedPhase p (hc_Status x)\<rparr>);
          hc = (if cst_Phase (hc_Status hc) = [] then phase AzureStackHCIClusterPhasePending hc else hc);
          hc = (case cst_Initialization (hc_Status hc) of
              None \<Rightarrow> phase AzureStackHCIClusterPhaseProvisioning hc
            | Some i \<Rightarrow> (case ci_Provisioned i of
                None \<Rightarrow> phase AzureStackHCIClusterPhaseProvisioning hc
              | Some b \<Rightarrow> if \<not> b then phase AzureStackHCIClusterPhaseProvisioning hc
                  else phase AzureStackHCIClusterPhaseProvisioned hc))
      in if \<not> DeletionTimestamp_IsZero (hc_Meta hc)
         then phase AzureStackHCIClusterPhaseDeleting hc else hc)"

definition Cluster_Reconcile :: "lib \<Rightarrow> 'w sys \<Rightarrow> 'w moc \<Rightarrow> 'w kube \<Rightarrow> ObjectKey \<Rightarrow>
    (('w, unit) rstate, Result \<times> goerror option) io" where
  "Cluster_Reconcile L S M K req = bind (on_world (k_Get_HCluster K req)) (\<lambda>r. case r of
      Inl err \<Rightarrow> if err_IsNotFound L err then return (noResult, None)
        else return (noResult, Some err)
    | Inr hc \<Rightarrow> bind (on_world (k_GetOwnerCluster K (hc_Meta hc))) (\<lambda>r. case r of
        Inl err \<Rightarrow> return (noResult, Some err)
      | Inr None \<Rightarrow> return (requeueAfter 60, None)
      | Inr (Some cluster) \<Rightarrow> bind (on_world (NewClusterScope L S K (Some cluster) (Some hc))) (\<lambda>r. case r of
          Inl err \<Rightarrow>
            bind (Eventf EventTypeWarning ''CreateClusterScopeFailed''
              (err_Error L (Wrap ''failed to create cluster scope'' err))) (\<lambda>_.
            return (noResult, Some (ErrorNew (''failed to create scope: '' @ err_Plus L err))))
        | Inr csc \<Rightarrow> with_obj hc (close_after
            (bind (upd_obj reconcilePhase) (\<lambda>_. ClusterScope_Close K csc))
            (if \<not> DeletionTimestamp_IsZero (hc_Meta hc)
             then Cluster_reconcileDelete L M K csc
             else Cluster_reconcileNormal L M K csc)))))"

subsection \<open>Facts about the status\<close>

lemma HCluster_Set_frame [simp]:
  "hc_Meta (HCluster_Set L c hc) = hc_Meta hc" "hc_Spec (HCluster_Set L c hc) = hc_Spec hc"
  "cst_Initialization (hc_Status (HCluster_Set L c hc)) = cst_Initialization (hc_Status hc)"
  by (simp_all add: conditions_Set_def Cluster_SetConditions_def)

lemma cluster_not_ready_frame [simp]:
  "hc_Meta (cluster_not_ready L r msg hc) = hc_Meta hc"
  "hc_Spec (cluster_not_ready L r msg hc) = hc_Spec hc"
  "cst_Initialization (hc_Status (cluster_not_ready L r msg hc)) = cst_Initialization (hc_Status hc)"
  by (simp_all add: cluster_not_ready_def)

lemma cluster_service_failure_frame [simp]:
  "hc_Meta (cluster_service_failure L err hc) = hc_Meta hc"
  "cst_Initialization (hc_Status (cluster_service_failure L err hc)) = cst_Initialization (hc_Status hc)"
  by (simp_all add: cluster_service_failure_def Let_def)

lemma cluster_conditions_differ [simp]:
  "ReadyCondition \<noteq> NetworkInfrastructureReadyCondition"
  "NetworkInfrastructureReadyCondition \<noteq> ReadyCondition"
  by (simp_all add: condition_consts)

lemma createOrUpdateVnetName_frame [simp]:
  "hc_Meta (createOrUpdateVnetName csc hc) = hc_Meta hc"
  "hc_Status (createOrUpdateVnetName csc hc) = hc_Status hc"
  by (simp_all add: createOrUpdateVnetName_def)

text \<open>What the steps before readiness keep.\<close>

abbreviation "cluster_kept om i \<equiv> (\<lambda>s. hc_Meta (obj s) = om \<and> cst_Initialization (hc_Status (obj s)) = i)"

lemma clustersvc_Reconcile_kept: "preserves (clustersvc_Reconcile M csc) (cluster_kept om i)"
  unfolding clustersvc_Reconcile_def Let_def by (auto intro!: hoare_rules)

lemma reconcileAzureStackHCILoadBalancer_kept:
  "preserves (reconcileAzureStackHCILoadBalancer L K csc) (cluster_kept om i)"
  unfolding reconcileAzureStackHCILoadBalancer_def Let_def by (auto intro!: hoare_rules)

lemma reconcileDeleteAzureStackHCILoadBalancer_kept:
  "preserves (reconcileDeleteAzureStackHCILoadBalancer L K csc) (cluster_kept om i)"
  unfolding reconcileDeleteAzureStackHCILoadBalancer_def Let_def by (auto intro!: hoare_rules)

text \<open>The last part of a deletion, and what it means that it is over.\<close>

definition waiting_or_failed :: "Result \<Rightarrow> goerror option \<Rightarrow> bool" where
  "waiting_or_failed res e = (case e of None \<Rightarrow> RequeueAfter res = 20 | Some _ \<Rightarrow> res = noResult)"

definition services_deleted :: "lib \<Rightarrow> 'w moc \<Rightarrow> 'w kube \<Rightarrow> ClusterScope \<Rightarrow> AzureStackHCICluster \<Rightarrow> 'w \<Rightarrow> 'w \<Rightarrow> bool" where
  "services_deleted L M K csc hc w w' \<longleftrightarrow> (\<exists>err v.
     k_Get_LB K (mkKey (ClusterScope_Namespace csc)
       (GenerateAzureStackHCILoadBalancerName (ClusterScope_Name csc))) w = (Ret (Inl err), v) \<and>
     clustersvc_Delete L M csc hc v = (Ret None, w'))"

lemma cluster_delete_services_steps:
  assumes "lib_finalizers L"
  shows "hoare (\<lambda>s. s = s0) (cluster_delete_services L M K csc)
    (\<lambda>(res, e) t.
      if e = None \<and> RequeueAfter res = 0
      then ClusterFinalizer \<notin> set (om_Finalizers (hc_Meta (obj t))) \<and>
        services_deleted L M K csc (obj s0) (world s0) (world t)
      else hc_Meta (obj t) = hc_Meta (obj s0) \<and> waiting_or_failed res e)
    (\<lambda>t. hc_Meta (obj t) = hc_Meta (obj s0))"
proof -
  have removed: "ClusterFinalizer \<notin> set (om_Finalizers (hc_Meta (HCluster_removeFinalizer L x)))" for x
    using assms by (simp add: HCluster_removeFinalizer_def lib_finalizers_def)
  show ?thesis
    unfolding cluster_delete_services_def hoare_def services_deleted_def waiting_or_failed_def
    by (auto simp: bind_on_world removed Let_def noResult_def
        split: prod.splits res.splits option.splits sum.splits)
qed

text \<open>What a reconcile leaves behind: the finalizer, and the provisioned mark with its conditions on success.\<close>

definition cluster_outcome :: "lib \<Rightarrow> AzureStackHCICluster \<Rightarrow> Result \<times> goerror option \<Rightarrow> AzureStackHCICluster \<Rightarrow> bool" where
  "cluster_outcome L hc = (\<lambda>(res, e) x. ClusterFinalizer \<in> set (om_Finalizers (hc_Meta x)) \<and>
     (if e = None \<and> res = noResult
      then map_option ci_Provisioned (cst_Initialization (hc_Status x)) = Some (Some True) \<and>
        has_condition L (Cluster_GetConditions x) (mkCondition NetworkInfrastructureReadyCondition
          ConditionTrue InfrastructureReadyReason []) \<and>
        has_condition L (Cluster_GetConditions x) (mkCondition ReadyCondition
          ConditionTrue InfrastructureReadyReason [])
      else cst_Initialization (hc_Status x) = cst_Initialization (hc_Status hc)))"

lemma Cluster_reconcileNormal_outcome:
  assumes "lib_conditions L" "lib_finalizers L"
  shows "hoare (\<lambda>s. obj s = hc) (Cluster_reconcileNormal L M K csc)
    (\<lambda>r t. cluster_outcome L hc r (obj t)) (\<lambda>_. True)"
  (is "hoare _ _ ?Q _")
proof -
  let ?om = "hc_Meta (HCluster_addFinalizer L hc)" and ?i = "cst_Initialization (hc_Status hc)"
  have fin: "ClusterFinalizer \<in> set (om_Finalizers ?om)"
    using assms(2) by (simp add: HCluster_addFinalizer_def lib_finalizers_def)
  have i: "cst_Initialization (hc_Status (HCluster_addFinalizer L hc)) = ?i"
    by (simp add: HCluster_addFinalizer_def)
  have patch: "hoare (\<lambda>s. obj s = HCluster_addFinalizer L hc) (ClusterScope_PatchObject K csc)
      (\<lambda>_. cluster_kept ?om ?i) (\<lambda>_. True)"
    by (auto simp: ClusterScope_PatchObject_def hoare_def on_world_app i split: prod.splits res.splits)
  have differ: "requeueAfter 20 \<noteq> noResult" by (simp add: requeueAfter_def noResult_def)
  have final: "hoare (cluster_kept ?om ?i)
      (bind (upd_obj cluster_set_provisioned) (\<lambda>_.
       bind (upd_obj (HCluster_Set L (mkCondition NetworkInfrastructureReadyCondition
         ConditionTrue InfrastructureReadyReason []))) (\<lambda>_.
       bind (upd_obj (HCluster_Set L (mkCondition ReadyCondition
         ConditionTrue InfrastructureReadyReason []))) (\<lambda>_. return (noResult, None))))) ?Q (\<lambda>_. True)"
    using assms(1) fin by (auto simp: hoare_def cluster_outcome_def cond_lib cluster_set_provisioned_def)
  show ?thesis
    unfolding Cluster_reconcileNormal_def
    apply (rule hoare_bind [where B = "\<lambda>_ s. obj s = HCluster_addFinalizer L hc"])
     apply (rule hoare_upd_obj, simp)
    apply (rule hoare_bind [OF patch], rule hoare_case_option)
     apply (rule hoare_bind [OF hoare_True [OF clustersvc_Reconcile_kept]], rule hoare_case_option)
      apply (rule hoare_bind [OF hoare_True [OF reconcileAzureStackHCILoadBalancer_kept]])
      apply (rule hoare_case_prod, rule hoare_if)
       apply (auto intro!: hoare_case_option hoare_return simp: cluster_outcome_def fin differ)[]
      apply (rule final)
     apply (auto simp: hoare_def cluster_outcome_def fin Let_def)
    done
qed

subsection \<open>Properties\<close>

text \<open>
  C16: A cluster is declared provisioned only by a reconcile that went through: when a reconcile ends
  with neither an error nor a request to come back, the object carries the finalizer, is provisioned, and \<open>NetworkInfrastructureReady\<close> and the
  contract condition \<open>Ready\<close> are both true.  In every other case the finalizer is there and
  the provisioned mark is what it was.
\<close>

theorem Cluster_reconcileNormal_ready:
  assumes "lib_conditions L" "lib_finalizers L"
  shows "hoare (\<lambda>s. obj s = hc) (Cluster_reconcileNormal L M K csc)
    (\<lambda>(res, e) t. ClusterFinalizer \<in> set (om_Finalizers (hc_Meta (obj t))) \<and>
      (if e = None \<and> res = noResult
       then map_option ci_Provisioned (cst_Initialization (hc_Status (obj t))) = Some (Some True) \<and>
         has_condition L (Cluster_GetConditions (obj t)) (mkCondition NetworkInfrastructureReadyCondition
           ConditionTrue InfrastructureReadyReason []) \<and>
         has_condition L (Cluster_GetConditions (obj t)) (mkCondition ReadyCondition
           ConditionTrue InfrastructureReadyReason [])
       else cst_Initialization (hc_Status (obj t)) = cst_Initialization (hc_Status hc)))
    (\<lambda>_. True)"
  by (rule hoare_weaken [OF Cluster_reconcileNormal_outcome [OF assms]]) (auto simp: cluster_outcome_def)

theorem Cluster_reconcileNormal_ready_witness:
  "hoare (\<lambda>s. obj s = hcluster0) (Cluster_reconcileNormal lib0 (moc0 :: unit moc) kube0 csc0)
    (\<lambda>(res, e) t. ClusterFinalizer \<in> set (om_Finalizers (hc_Meta (obj t))) \<and>
      (if e = None \<and> res = noResult
       then map_option ci_Provisioned (cst_Initialization (hc_Status (obj t))) = Some (Some True)
       else cst_Initialization (hc_Status (obj t)) = None))
    (\<lambda>_. True)"
  by (rule hoare_weaken [OF Cluster_reconcileNormal_ready [OF lib0_conditions lib0_finalizers,
          of hcluster0]])
    (auto simp: hcluster0_def split: if_splits)

text \<open>
  C11: The finalizer of a cluster object is removed only at the end of the whole teardown: the
  machine list was empty, the load balancer object was gone or its deletion was accepted, a further
  read of it returned an error, and the cloud services were deleted, each step starting in the world
  the previous one left.  (Any error of that read counts, a transient failure of the API server
  included, although the code's comment speaks of a load balancer that does not exist any more.)
  In every other case the metadata is untouched, and without an error the request comes back after
  twenty seconds.
\<close>

theorem Cluster_reconcileDelete_finalizer:
  assumes "lib_finalizers L"
  shows "hoare (\<lambda>s. obj s = hc \<and> world s = w0) (Cluster_reconcileDelete L M K csc)
    (\<lambda>(res, e) t.
      if e = None \<and> RequeueAfter res = 0
      then ClusterFinalizer \<notin> set (om_Finalizers (hc_Meta (obj t))) \<and>
        (\<exists>s1 s2. k_List_HMachines K (om_Namespace (hc_Meta hc)) [(ClusterNameLabel, om_Name (hc_Meta hc))] w0 =
            (Ret (Inr []), world s1) \<and>
          reconcileDeleteAzureStackHCILoadBalancer L K csc s1 = (Ret None, s2) \<and>
          (\<exists>err w. k_Get_LB K (mkKey (ClusterScope_Namespace csc)
              (GenerateAzureStackHCILoadBalancerName (ClusterScope_Name csc))) (world s2) = (Ret (Inl err), w) \<and>
            clustersvc_Delete L M csc (obj s2) w = (Ret None, world t)))
      else hc_Meta (obj t) = hc_Meta hc \<and>
        (case e of None \<Rightarrow> RequeueAfter res = 20 | Some _ \<Rightarrow> res = noResult))
    (\<lambda>t. hc_Meta (obj t) = hc_Meta hc)"
  (is "hoare ?P _ ?Q ?R")
proof -
  let ?list = "GetAzureStackHCIMachinesInCluster K (om_Namespace (hc_Meta hc)) (om_Name (hc_Meta hc))"
  let ?B = "\<lambda>e s2. hc_Meta (obj s2) = hc_Meta hc \<and> (\<exists>s1. ?list w0 = (Ret (Inr []), world s1) \<and>
      reconcileDeleteAzureStackHCILoadBalancer L K csc s1 = (Ret e, s2))"
  have lb: "hoare (\<lambda>s. hc_Meta (obj s) = hc_Meta hc \<and> ?list w0 = (Ret (Inr []), world s))
      (reconcileDeleteAzureStackHCILoadBalancer L K csc) ?B ?R"
    by (rule hoareI) (auto dest: hoareD_Ret [OF reconcileDeleteAzureStackHCILoadBalancer_kept, OF conjI]
        hoareD_Panics [OF reconcileDeleteAzureStackHCILoadBalancer_kept, OF conjI])
  have services: "hoare (?B None) (cluster_delete_services L M K csc) ?Q ?R"
    by (rule hoareI) (auto dest!: hoareD_Ret [OF cluster_delete_services_steps [OF assms] refl]
        hoareD_Panics [OF cluster_delete_services_steps [OF assms] refl]
        simp: services_deleted_def waiting_or_failed_def GetAzureStackHCIMachinesInCluster_def split: if_splits)
  have list: "hoare (\<lambda>s. hc_Meta (obj s) = hc_Meta hc \<and> world s = w0) (on_world ?list)
      (\<lambda>r s. hc_Meta (obj s) = hc_Meta hc \<and> ?list w0 = (Ret r, world s)) ?R"
    by (rule hoareI) (auto simp: on_world_app split: prod.splits)
  have rest: "hoare (\<lambda>s. hc_Meta (obj s) = hc_Meta hc \<and> ?list w0 = (Ret (Inr []), world s))
      (bind (reconcileDeleteAzureStackHCILoadBalancer L K csc) (\<lambda>e. case e of
         Some err \<Rightarrow> return (noResult, Some (Wrap
           ''Failed to delete AzureStackHCICluster AzureStackHCILoadBalancer'' err))
       | None \<Rightarrow> cluster_delete_services L M K csc)) ?Q ?R"
    apply (rule hoare_bind [OF lb], rule hoare_case_option)
     apply (simp only: services)
    apply (rule hoare_return, simp)
    done
  show ?thesis
    unfolding Cluster_reconcileDelete_def Let_def
    apply (rule hoare_bind [where B = "\<lambda>_ s. hc_Meta (obj s) = hc_Meta hc \<and> world s = w0"])
     apply (rule hoare_upd_obj, simp)
    apply (rule hoare_bind [where B = "\<lambda>x s. (hc_Meta (obj s) = hc_Meta hc \<and> world s = w0) \<and> hc_Meta x = hc_Meta hc"])
     apply (rule hoare_reads, simp)
    apply (rule hoare_pure, simp only:)
    apply (rule hoare_bind [OF list], rule hoare_case_sum)
     apply (auto simp: hoare_def)[]
    apply (rule hoare_if)
     apply (auto simp: hoare_def bind_on_world split: prod.splits res.splits option.splits)[]
    apply (rule hoare_weaken [OF rest], auto)
    done
qed

theorem Cluster_reconcileDelete_finalizer_witness:
  "hoare (\<lambda>s. obj s = hcluster0 \<and> world s = ()) (Cluster_reconcileDelete lib0 (moc0 :: unit moc) kube0 csc0)
    (\<lambda>(res, e) t.
      if e = None \<and> RequeueAfter res = 0
      then ClusterFinalizer \<notin> set (om_Finalizers (hc_Meta (obj t)))
      else hc_Meta (obj t) = newMeta ''ns'' ''c'')
    (\<lambda>t. hc_Meta (obj t) = newMeta ''ns'' ''c'')"
  by (rule hoare_weaken [OF Cluster_reconcileDelete_finalizer [OF lib0_finalizers, of hcluster0 "()"]])
    (auto simp: hcluster0_def split: if_splits)

text \<open>
  C30: What a teardown asks of the cloud: the first change is the deletion of the key vault, and the
  only other one is the deletion of the resource group, after it and only when the cloud reported
  the group with the tag of this provider.  The deletion of the virtual network is never asked for,
  although the teardown calls \<open>Delete\<close> of the virtual network service: contrary to the comment on
  that function, it never deletes a network, not even one that the provider made.
\<close>

theorem clustersvc_Delete_order:
  "hoare (\<lambda>s. changes s = tr) (clustersvc_Delete L (traced M) csc hc)
    (\<lambda>r t. \<exists>e. changes t = tr @ [CDelete KKeyVault (ClusterScope_GetResourceGroup hc) (ClusterScope_Name csc) e] \<or>
       (\<exists>e' w w' g gs. changes t = tr @
          [CDelete KKeyVault (ClusterScope_GetResourceGroup hc) (ClusterScope_Name csc) e,
           CDelete KGroup (ClusterScope_Location hc) (ClusterScope_GetResourceGroup hc) e'] \<and>
         (r = None \<longleftrightarrow> gone L e') \<and>
         m_Get_Group M (ClusterScope_Location hc) (ClusterScope_GetResourceGroup hc) w = (Ret (Inr (g # gs)), w') \<and>
         map_of (g_Tags g) TagKeyClusterGroup = Some (Some TagValClusterGroup)))
    (\<lambda>_. True)"
  (is "hoare _ _ ?Q _")
proof -
  let ?kv = "CDelete KKeyVault (ClusterScope_GetResourceGroup hc) (ClusterScope_Name csc)"
  let ?B = "\<lambda>s. \<exists>e. changes s = tr @ [?kv e]"
  have pre: "hoare ?B m Q (\<lambda>_. True)" if "\<And>e. hoare (\<lambda>s. changes s = tr @ [?kv e]) m Q (\<lambda>_. True)"
    for m :: "(_, goerror option) io" and Q
    by (rule hoareI) (auto dest: hoareD_Ret [OF that])
  have group: "hoare ?B (bind (groups_Delete L (traced M) (Some (cluster_groupSpec hc))) (\<lambda>e. case e of
        Some err \<Rightarrow> return (Some (Wrap (''failed to delete group '' @
          ClusterScope_GetResourceGroup hc @ '' for cluster '' @ ClusterScope_Name csc) err))
      | None \<Rightarrow> return None)) ?Q (\<lambda>_. True)"
    apply (rule pre)
    apply (rule hoare_bind [OF hoare_True [OF groups_Delete_trace]])
    apply (auto intro!: hoare_case_option hoare_return simp: cluster_groupSpec_def; blast)
    done
  have vnet: "hoare ?B (virtualnetworks_Delete L (traced M) spec) (\<lambda>_. ?B) (\<lambda>_. True)" for spec
    by (rule pre, rule hoare_weaken [OF virtualnetworks_Delete_quiet]) auto
  have kv: "hoare (\<lambda>s. changes s = tr) (keyvaults_Delete L (traced M) (ClusterScope_GetResourceGroup hc)
      (Some \<lparr>vault_Name = ClusterScope_Name csc\<rparr>)) (\<lambda>_. ?B) (\<lambda>_. True)"
    by (rule hoare_weaken [OF keyvaults_Delete_trace]) auto
  show ?thesis
    unfolding clustersvc_Delete_def Let_def
    apply (rule hoare_bind [OF kv], rule hoare_case_option)
     apply (rule hoare_bind [OF vnet], rule hoare_case_option, rule group, rule hoare_if)
      apply (rule hoare_return, blast)
     apply (rule group)
    apply (rule hoare_if, rule hoare_return, blast)
    apply (rule hoare_bind [OF vnet], rule hoare_case_option, rule group, rule hoare_if)
     apply (rule hoare_return, blast)
    apply (rule group)
    done
qed

text \<open>
  The step that is to wait for the load balancer does not wait for a load balancer that has no
  infrastructure condition yet, such as one created by this very call: it reports ready without
  an error, sets no condition and leaves the control plane endpoint as it is.
\<close>

lemma reconcileAzureStackHCILoadBalancer_fresh:
  assumes "lib_conditions L"
    and "ClusterScope_AzureStackHCILoadBalancer (obj s) = Some sp"
    and "k_CreateOrUpdate_LB K (newLoadBalancer (ClusterScope_Namespace csc)
        (GenerateAzureStackHCILoadBalancerName (ClusterScope_Name csc)))
      (\<lambda>lb. return (None, cluster_lb_mutate L csc (obj s) sp lb)) (world s) = (Ret (opres, None, lb), w)"
    and "cond_Get L (LB_GetConditions lb) LoadBalancerInfrastructureReadyCondition = None"
    and "lbst_Address (hlb_Status lb) = []"
  shows "reconcileAzureStackHCILoadBalancer L K csc s = (Ret (True, None), s\<lparr>world := w\<rparr>)"
  using assms by (simp add: reconcileAzureStackHCILoadBalancer_def bind_on_world IsFalse_Get Let_def)

text \<open>
  The phase written at the end of every reconcile is \<open>deleting\<close> for an object that is being
  deleted, else \<open>provisioned\<close> exactly if the infrastructure is marked provisioned, else
  \<open>provisioning\<close>; \<open>GetTypedPhase\<close> reads it back.  The phase \<open>pending\<close>, which is set first, never
  remains.
\<close>

lemma reconcilePhase_phase:
  "Cluster_GetTypedPhase (hc_Status (reconcilePhase hc)) =
     (if \<not> DeletionTimestamp_IsZero (hc_Meta hc) then AzureStackHCIClusterPhaseDeleting
      else if map_option ci_Provisioned (cst_Initialization (hc_Status hc)) = Some (Some True)
      then AzureStackHCIClusterPhaseProvisioned
      else AzureStackHCIClusterPhaseProvisioning) \<and>
   cst_Phase (hc_Status (reconcilePhase hc)) \<noteq> AzureStackHCIClusterPhasePending"
  by (simp add: reconcilePhase_def Let_def Cluster_SetTypedPhase_def Cluster_GetTypedPhase_def
      AzureStackHCIClusterPhasePending_def AzureStackHCIClusterPhaseProvisioning_def
      AzureStackHCIClusterPhaseProvisioned_def AzureStackHCIClusterPhaseDeleting_def
      AzureStackHCIClusterPhaseFailed_def split: option.split)

end
