(* ===== verification/ClusterOwnership.thy ===== *)
theory ClusterOwnership
  imports LBOwnership ClusterController
begin

text \<open>
  The ownership discipline of the cluster controller: the key vault and the resource group of a
  cluster are accounted for by a cluster object that the API server cannot let go.
\<close>

subsection \<open>The API server and the cloud, as a cluster sees them\<close>

text \<open>
  Calls that touch neither the stored cluster nor its resources in the cloud: the lookups, and
  everything that concerns the machines and the load balancer of the cluster.
\<close>

definition cluster_quiet :: "'w sys \<Rightarrow> 'w moc \<Rightarrow> 'w kube \<Rightarrow> ('w \<Rightarrow> bool) \<Rightarrow> bool" where
  "cluster_quiet S M K I \<longleftrightarrow> access_only S K I \<and> (\<forall>k. preserves (k_Get_HCluster K k) I) \<and>
     (\<forall>om. preserves (k_GetOwnerCluster K om) I) \<and> (\<forall>ns ls. preserves (k_List_HMachines K ns ls) I) \<and>
     (\<forall>om. preserves (k_GetOwnerMachine K om) I) \<and> (\<forall>x. preserves (k_Update_HMachine K x) I) \<and>
     (\<forall>x. preserves (k_Delete_HMachine K x) I) \<and> (\<forall>k. preserves (k_Get_LB K k) I) \<and>
     (\<forall>x. preserves (k_Update_LB K x) I) \<and> (\<forall>x. preserves (k_Delete_LB K x) I) \<and>
     (\<forall>x f. (\<forall>y. preserves (f y) I) \<longrightarrow> preserves (k_CreateOrUpdate_LB K x f) I) \<and>
     preserves (m_GetVersion M) I \<and> (\<forall>rg n. preserves (m_Get_VNet M rg n) I) \<and>
     (\<forall>l n. preserves (m_Get_Group M l n) I) \<and> (\<forall>rg n. preserves (m_Get_KeyVault M rg n) I)"

text \<open>Calls that create and delete in the cloud do not touch the API server.\<close>

definition cluster_keeps :: "'w moc \<Rightarrow> ('w \<Rightarrow> bool) \<Rightarrow> bool" where
  "cluster_keeps M I \<longleftrightarrow> (\<forall>rg n x. preserves (m_Create_VNet M rg n x) I) \<and>
     (\<forall>l n x. preserves (m_Create_Group M l n x) I) \<and> (\<forall>rg n x. preserves (m_Create_KeyVault M rg n x) I) \<and>
     (\<forall>l n. preserves (m_Delete_Group M l n) I) \<and> (\<forall>rg n. preserves (m_Delete_KeyVault M rg n) I)"

text \<open>What the resources of a cluster are found by: group and location.\<close>

definition cluster_ident :: "AzureStackHCICluster \<Rightarrow> string \<times> string" where
  "cluster_ident hc = (ClusterScope_GetResourceGroup hc, ClusterScope_Location hc)"

definition cluster_resources :: "string \<Rightarrow> string \<times> string \<Rightarrow> resource set" where
  "cluster_resources c v = {(KKeyVault, fst v, c), (KGroup, snd v, fst v)}"

text \<open>
  The tags of the resource groups, by location and name: whether a group carries the tag of this
  provider, and what a step may do that neither makes a group nor takes a tag off one.
\<close>

type_synonym group_tags = "string \<times> string \<Rightarrow> tags"

definition tagged :: "tags \<Rightarrow> bool" where
  "tagged ts \<longleftrightarrow> map_of ts TagKeyClusterGroup = Some (Some TagValClusterGroup)"

definition groups_kept :: "('w \<Rightarrow> resource set) \<Rightarrow> ('w \<Rightarrow> group_tags) \<Rightarrow> 'w \<Rightarrow> 'w \<Rightarrow> bool" where
  "groups_kept present tags w w' \<longleftrightarrow>
     (\<forall>l n. (KGroup, l, n) \<in> present w' \<longrightarrow> (KGroup, l, n) \<in> present w \<and> tags w' (l, n) = tags w (l, n))"

definition labelled :: "resource set \<Rightarrow> group_tags \<Rightarrow> bool" where
  "labelled p t \<longleftrightarrow> (\<forall>l n. (KGroup, l, n) \<in> p \<longrightarrow> tagged (t (l, n)))"

text \<open>
  The laws for the cluster object under \<open>key\<close>, whose owner is named \<open>c\<close>.  \<open>present\<close> holds what was
  created on the cluster's behalf: a group that somebody else made is not among it, until a
  \<open>CreateOrUpdate\<close> of the provider goes through.  That call either changes nothing or leaves the
  group with the tags it was given, no other call of the provider makes a group or changes its
  tags, and a group that is found is found with its tags.
\<close>

definition group_api :: "lib \<Rightarrow> 'w moc \<Rightarrow> 'w kube \<Rightarrow> string \<times> string \<Rightarrow> ('w \<Rightarrow> resource set) \<Rightarrow> ('w \<Rightarrow> group_tags) \<Rightarrow> bool" where
  "group_api L M K v present tags \<longleftrightarrow>
     (\<forall>rg n x w r w'. m_Create_VNet M rg n x w = (r, w') \<longrightarrow> groups_kept present tags w w') \<and>
     (\<forall>rg n x w r w'. m_Create_KeyVault M rg n x w = (r, w') \<longrightarrow> groups_kept present tags w w') \<and>
     (\<forall>rg n w r w'. m_Delete_KeyVault M rg n w = (r, w') \<longrightarrow> groups_kept present tags w w') \<and>
     (\<forall>l n w r w'. m_Delete_Group M l n w = (r, w') \<longrightarrow> groups_kept present tags w w') \<and>
     (\<forall>b m w r w'. k_Patch_HCluster K b m w = (r, w') \<longrightarrow> groups_kept present tags w w') \<and>
     (\<forall>l n y w r w'. m_Create_Group M l n y w = (r, w') \<longrightarrow> present w' = present w \<and> tags w' = tags w \<or>
        present w' = insert (KGroup, l, n) (present w) \<and> tags w' = (tags w)((l, n) := g_Tags y)) \<and>
     (\<forall>w err w'. m_Get_Group M (snd v) (fst v) w = (Ret (Inl err), w') \<and> ResourceNotFound L err \<longrightarrow>
        (KGroup, snd v, fst v) \<notin> present w) \<and>
     (\<forall>w x xs w'. m_Get_Group M (snd v) (fst v) w = (Ret (Inr (x # xs)), w') \<and> (KGroup, snd v, fst v) \<in> present w \<longrightarrow>
        g_Tags x = tags w (snd v, fst v))"

definition cluster_api :: "lib \<Rightarrow> 'w sys \<Rightarrow> 'w moc \<Rightarrow> 'w kube \<Rightarrow> ObjectKey \<Rightarrow> string \<Rightarrow> string \<times> string \<Rightarrow>
    ('w \<Rightarrow> AzureStackHCICluster option) \<Rightarrow> ('w \<Rightarrow> resource set) \<Rightarrow> ('w \<Rightarrow> group_tags) \<Rightarrow> bool" where
  "cluster_api L S M K key c v stored present tags \<longleftrightarrow>
     (\<forall>P. cluster_quiet S M K (\<lambda>w. P (stored w, present w, tags w))) \<and> (\<forall>x. cluster_keeps M (\<lambda>w. stored w = x)) \<and>
     group_api L M K v present tags \<and>
     (\<forall>rg n. deletes L present (KKeyVault, rg, n) (m_Delete_KeyVault M rg n)) \<and>
     (\<forall>l n. deletes L present (KGroup, l, n) (m_Delete_Group M l n)) \<and>
     (\<forall>w m w'. k_Get_HCluster K key w = (Ret (Inr m), w') \<longrightarrow> stored w = Some m) \<and>
     (\<forall>w m x w'. k_GetOwnerCluster K (hc_Meta m) w = (Ret (Inr (Some x)), w') \<and> stored w = Some m \<longrightarrow>
        om_Name (cl_Meta x) = c) \<and>
     patches hc_Meta cluster_ident stored present (k_Patch_HCluster K)"

text \<open>
  The discipline is proved for what the provider can recognize as its own, the resources less the
  groups without its tag; the last section shows that there are no such groups.
\<close>

definition owned :: "resource set \<Rightarrow> group_tags \<Rightarrow> resource set" where
  "owned p t = {(k, g, n) \<in> p. k = KGroup \<longrightarrow> tagged (t (g, n))}"

definition cluster_laws :: "lib \<Rightarrow> 'w sys \<Rightarrow> 'w moc \<Rightarrow> 'w kube \<Rightarrow> ObjectKey \<Rightarrow> string \<Rightarrow> string \<times> string \<Rightarrow>
    ('w \<Rightarrow> AzureStackHCICluster option) \<Rightarrow> ('w \<Rightarrow> resource set) \<Rightarrow> bool" where
  "cluster_laws L S M K key c v stored present \<longleftrightarrow>
     (\<forall>y. cluster_quiet S M K (\<lambda>w. (stored w, present w) = y)) \<and> (\<forall>x. cluster_keeps M (\<lambda>w. stored w = x)) \<and>
     (\<forall>rg n. deletes L present (KKeyVault, rg, n) (m_Delete_KeyVault M rg n)) \<and>
     (\<forall>l n. deletes L present (KGroup, l, n) (m_Delete_Group M l n)) \<and>
     (\<forall>w err w'. m_Get_Group M (snd v) (fst v) w = (Ret (Inl err), w') \<and> ResourceNotFound L err \<longrightarrow>
        (KGroup, snd v, fst v) \<notin> present w) \<and>
     (\<forall>w x xs w'. m_Get_Group M (snd v) (fst v) w = (Ret (Inr (x # xs)), w') \<and> \<not> tagged (g_Tags x) \<longrightarrow>
        (KGroup, snd v, fst v) \<notin> present w) \<and>
     (\<forall>w m w'. k_Get_HCluster K key w = (Ret (Inr m), w') \<longrightarrow> stored w = Some m) \<and>
     (\<forall>w m x w'. k_GetOwnerCluster K (hc_Meta m) w = (Ret (Inr (Some x)), w') \<and> stored w = Some m \<longrightarrow>
        om_Name (cl_Meta x) = c) \<and>
     patches hc_Meta cluster_ident stored present (k_Patch_HCluster K)"

abbreviation cluster_accounted :: "string \<Rightarrow> string \<times> string \<Rightarrow> AzureStackHCICluster option \<Rightarrow> resource set \<Rightarrow> bool" where
  "cluster_accounted c v \<equiv> covers hc_Meta ClusterFinalizer cluster_ident v (cluster_resources c v)"

text \<open>Others keep the rules for bystanders, and nobody makes the group for the cluster or takes the tag off it.\<close>

abbreviation cluster_step :: "lib \<Rightarrow> 'w sys \<Rightarrow> 'w moc \<Rightarrow> 'w kube \<Rightarrow> ObjectKey \<Rightarrow> string \<Rightarrow> string \<times> string \<Rightarrow>
    ('w \<Rightarrow> AzureStackHCICluster option) \<Rightarrow> ('w \<Rightarrow> resource set) \<Rightarrow> ('w \<Rightarrow> group_tags) \<Rightarrow> ('w, unit) rstate \<Rightarrow> ('w, unit) rstate \<Rightarrow> bool" where
  "cluster_step L S M K key c v stored present tags \<equiv> life_step (Cluster_Reconcile L S M K key)
     (\<lambda>w w'. bystander hc_Meta ClusterFinalizer cluster_ident v (cluster_resources c v) stored present w w' \<and>
        groups_kept present tags w w')"

lemma cluster_api_laws:
  assumes "cluster_laws L S M K key c v stored present"
  shows "cluster_quiet S M K (\<lambda>w. (stored w, present w) = y)" "cluster_keeps M (\<lambda>w. stored w = x)"
    "deletes L present (KKeyVault, rg, n) (m_Delete_KeyVault M rg n)" "deletes L present (KGroup, l, n) (m_Delete_Group M l n)"
    "patches hc_Meta cluster_ident stored present (k_Patch_HCluster K)"
  using assms unfolding cluster_laws_def by (simp_all del: prod.inject split_paired_All)

lemma cluster_api_reads:
  assumes "cluster_laws L S M K key c v stored present"
  shows "k_Get_HCluster K key w = (Ret (Inr m), w') \<Longrightarrow> stored w = Some m"
    "k_GetOwnerCluster K (hc_Meta m) w = (Ret (Inr (Some x)), w') \<Longrightarrow> stored w = Some m \<Longrightarrow> om_Name (cl_Meta x) = c"
    "m_Get_Group M (snd v) (fst v) w = (Ret (Inl err), w') \<Longrightarrow> ResourceNotFound L err \<Longrightarrow> (KGroup, snd v, fst v) \<notin> present w"
    "m_Get_Group M (snd v) (fst v) w = (Ret (Inr (g # gs)), w') \<Longrightarrow> \<not> tagged (g_Tags g) \<Longrightarrow> (KGroup, snd v, fst v) \<notin> present w"
  using assms unfolding cluster_laws_def by blast+

lemma cluster_quiet_lb:
  "cluster_quiet S M K I \<Longrightarrow> (\<And>y. preserves (f y) I) \<Longrightarrow> preserves (k_CreateOrUpdate_LB K x f) I"
  by (simp add: cluster_quiet_def)

subsection \<open>What the parts of a reconcile keep\<close>

abbreviation cluster_view :: "('w \<Rightarrow> AzureStackHCICluster option) \<Rightarrow> ('w, AzureStackHCICluster) rstate \<Rightarrow>
    AzureStackHCICluster option \<times> string list \<times> string \<times> string" where
  "cluster_view stored s \<equiv> (stored (world s), om_Finalizers (hc_Meta (obj s)), cluster_ident (obj s))"

lemma cluster_setters_ident [simp]:
  "cluster_ident (HCluster_Set L c hc) = cluster_ident hc" "cluster_ident (cluster_not_ready L r msg hc) = cluster_ident hc"
  "cluster_ident (cluster_service_failure L err hc) = cluster_ident hc" "cluster_ident (createOrUpdateVnetName csc hc) = cluster_ident hc"
  "cluster_ident (HCluster_addFinalizer L hc) = cluster_ident hc" "cluster_ident (HCluster_removeFinalizer L hc) = cluster_ident hc"
  "cluster_ident (cluster_set_provisioned hc) = cluster_ident hc" "cluster_ident (reconcilePhase hc) = cluster_ident hc"
  "cluster_ident (hc\<lparr>hc_Spec := (hc_Spec hc)\<lparr>cs_ControlPlaneEndpoint := e\<rparr>\<rparr>) = cluster_ident hc"
  by (simp_all add: cluster_ident_def ClusterScope_GetResourceGroup_def ClusterScope_Location_def cluster_service_failure_def
      createOrUpdateVnetName_def HCluster_addFinalizer_def HCluster_removeFinalizer_def cluster_set_provisioned_def
      reconcilePhase_def Let_def split: option.split)

lemma cluster_setters_meta [simp]:
  "hc_Meta (cluster_set_provisioned hc) = hc_Meta hc" "hc_Meta (reconcilePhase hc) = hc_Meta hc"
  by (simp_all add: cluster_set_provisioned_def reconcilePhase_def Let_def split: option.split)

lemma cluster_view_world:
  assumes "\<And>x. preserves m (\<lambda>w. stored w = x)"
  shows "preserves (on_world m) (\<lambda>s. cluster_view stored s = y)"
  by (rule on_world_view [OF assms, of "\<lambda>x m. (x, om_Finalizers (hc_Meta m), cluster_ident m) = y"])

lemma cluster_services_kept:
  assumes "cluster_laws L S M K key c v stored present"
  shows "preserves (clustersvc_Reconcile M csc) (\<lambda>s. cluster_view stored s = y)"
    "preserves (reconcileAzureStackHCILoadBalancer L K csc) (\<lambda>s. cluster_view stored s = y)"
proof -
  have quiet: "preserves m (\<lambda>w. stored w = x)" if "\<And>z. preserves m (\<lambda>w. (stored w, present w) = z)"
    for m :: "('a, 'b) io" and x using preserves_view [OF that, of "\<lambda>(z, _). z = x"] by simp
  note ops = cluster_api_laws(1) [OF assms, unfolded cluster_quiet_def]
    and keep = cluster_api_laws(2) [OF assms, unfolded cluster_keeps_def]
  have log: "preserves (WriteMocInfoLog M) (\<lambda>w. stored w = x)" for x
    by (rule quiet, rule cloud_log) (use ops in blast)
  have gets: "preserves (m_Get_VNet M rg n) (\<lambda>w. stored w = x)" "preserves (m_Get_Group M rg n) (\<lambda>w. stored w = x)"
      "preserves (m_Get_KeyVault M rg n) (\<lambda>w. stored w = x)" for rg n x
    by (rule quiet; use ops in blast)+
  have "preserves (virtualnetworks_Reconcile M sp) (\<lambda>w. stored w = x)" for sp x
    using keep unfolding virtualnetworks_Reconcile_def virtualnetworks_Get_def by (auto intro!: hoare_rules log gets)
  note vnet = cluster_view_world [OF this]
  have "preserves (groups_Reconcile M sp) (\<lambda>w. stored w = x)" for sp x
    using keep unfolding groups_Reconcile_def groups_Get_def groups_Create_def by (auto intro!: hoare_rules log gets)
  note group = cluster_view_world [OF this]
  have "preserves (keyvaults_Reconcile M rg sp) (\<lambda>w. stored w = x)" for rg sp x
    using keep unfolding keyvaults_Reconcile_def keyvaults_Get_def by (auto intro!: hoare_rules log gets)
  note vault = cluster_view_world [OF this]
  show "preserves (clustersvc_Reconcile M csc) (\<lambda>s. cluster_view stored s = y)"
    unfolding clustersvc_Reconcile_def Let_def by (auto intro!: hoare_rules vnet group vault)
  have "preserves (k_CreateOrUpdate_LB K x (\<lambda>lb. return (f lb))) (\<lambda>w. stored w = z)" for x f z
    by (rule quiet, rule cluster_quiet_lb [OF cluster_api_laws(1) [OF assms]], rule hoare_return)
  note lb = cluster_view_world [OF this]
  show "preserves (reconcileAzureStackHCILoadBalancer L K csc) (\<lambda>s. cluster_view stored s = y)"
    unfolding reconcileAzureStackHCILoadBalancer_def Let_def by (auto intro!: hoare_rules lb)
qed

text \<open>Deleting the services: the key vault, then the group.\<close>

lemma keyvault_absent:
  assumes "cluster_laws L S M K key c v stored present" "lib_wraps L"
  defines "I \<equiv> \<lambda>x A w. stored w = x \<and> present w \<inter> A = {}"
  shows "preserves (WriteMocInfoLog M) (I x A)"
    "hoare (I x A) (keyvaults_Delete L M (fst v) (Some \<lparr>vault_Name = c\<rparr>)) (\<lambda>e w. I x A w \<and>
      ((\<forall>err. e = Some err \<longrightarrow> ResourceNotFound L err) \<longrightarrow> (KKeyVault, fst v, c) \<notin> present w)) (I x A)"
proof -
  have "preserves (m_GetVersion M) (\<lambda>w. (stored w, present w) = z)" for z
    using cluster_api_laws(1) [OF assms(1)] unfolding cluster_quiet_def by blast
  from preserves_view [OF cloud_log [OF this], of "\<lambda>(y, p). y = x \<and> p \<inter> A = {}"]
  show log: "preserves (WriteMocInfoLog M) (I x A)" by (simp add: I_def)
  have keep: "preserves (m_Delete_KeyVault M rg n) (\<lambda>w. stored w = x)" for rg n
    using cluster_api_laws(2) [OF assms(1)] unfolding cluster_keeps_def by blast
  have "hoare (I x A) (m_Delete_KeyVault M (fst v) (vault_Name \<lparr>vault_Name = c\<rparr>))
      (\<lambda>e w. I x A w \<and> (gone L e \<longrightarrow> (KKeyVault, fst v, c) \<notin> present w)) (I x A)"
    using delete_step [OF cluster_api_laws(3) [OF assms(1)] keep] by (simp add: I_def conj_assoc)
  then show "hoare (I x A) (keyvaults_Delete L M (fst v) (Some \<lparr>vault_Name = c\<rparr>)) (\<lambda>e w. I x A w \<and>
      ((\<forall>err. e = Some err \<longrightarrow> ResourceNotFound L err) \<longrightarrow> (KKeyVault, fst v, c) \<notin> present w)) (I x A)"
    by (rule keyvaults.hoare_delete [OF log], subst settled_gone [OF assms(2)])
qed

lemma group_absent:
  assumes "cluster_laws L S M K key c v stored present" "cluster_ident hc = v"
  defines "I \<equiv> \<lambda>x A w. stored w = x \<and> present w \<inter> A = {}"
  assumes log: "preserves (WriteMocInfoLog M) (I x A)"
  shows "hoare (I x A) (groups_Delete L M (Some (cluster_groupSpec hc)))
    (\<lambda>e w. I x A w \<and> (e = None \<longrightarrow> (KGroup, snd v, fst v) \<notin> present w)) (I x A)"
proof -
  let ?J = "\<lambda>e w. I x A w \<and> (e = None \<longrightarrow> (KGroup, snd v, fst v) \<notin> present w)"
  have v: "ClusterScope_GetResourceGroup hc = fst v" "ClusterScope_Location hc = snd v" using assms(2) by (auto simp: cluster_ident_def)
  have "preserves (m_Get_Group M (snd v) (fst v)) (\<lambda>w. (stored w, present w) = z)" for z
    using cluster_api_laws(1) [OF assms(1)] unfolding cluster_quiet_def by blast
  note same = quiet_same [OF this]
  have found: "hoare (I x A) (m_Get_Group M (snd v) (fst v)) (\<lambda>r w. I x A w \<and>
      (\<forall>err. r = Inl err \<and> ResourceNotFound L err \<longrightarrow> (KGroup, snd v, fst v) \<notin> present w) \<and>
      (\<forall>y ys. r = Inr (y # ys) \<and> \<not> tagged (g_Tags y) \<longrightarrow> (KGroup, snd v, fst v) \<notin> present w)) (I x A)"
    by (rule hoareI) (use same cluster_api_reads(3,4) [OF assms(1)] in \<open>unfold I_def, fastforce+\<close>)
  have keep: "preserves (m_Delete_Group M l n) (\<lambda>w. stored w = x)" for l n
    using cluster_api_laws(2) [OF assms(1)] unfolding cluster_keeps_def by blast
  have del: "hoare (I x A) (m_Delete_Group M (snd v) (fst v))
      (\<lambda>e w. I x A w \<and> (gone L e \<longrightarrow> (KGroup, snd v, fst v) \<notin> present w)) (I x A)"
    using delete_step [OF cluster_api_laws(4) [OF assms(1)] keep] by (simp add: I_def conj_assoc)
  have delete: "hoare (\<lambda>w. I x A w \<and> (\<not> b \<longrightarrow> (KGroup, snd v, fst v) \<notin> present w)) (if b then bind (m_Delete_Group M (snd v) (fst v)) (\<lambda>e. case e of
        None \<Rightarrow> return None | Some err \<Rightarrow> if ResourceNotFound L err then return None else return (Some (f err)))
      else return None) ?J (I x A)" for b f
  proof (cases b)
    case True
    have "hoare (I x A) (bind (m_Delete_Group M (snd v) (fst v)) (\<lambda>e. case e of
        None \<Rightarrow> return None | Some err \<Rightarrow> if ResourceNotFound L err then return None else return (Some (f err)))) ?J (I x A)"
      by (rule hoare_bind [OF del]) (auto intro!: hoare_rules simp: gone_def)
    with True show ?thesis by (auto elim: hoare_weaken)
  qed (simp add: hoare_def)
  show ?thesis
    unfolding groups_Delete_def option.case cluster_groupSpec_def groups_Spec.simps v
    apply (rule hoare_bind [OF log], rule hoare_bind [OF found], rule hoare_case_sum)
     apply (rule hoare_if; rule hoare_return, blast)
    apply (rule hoare_case_list, rule hoare_panic, blast)
    apply (rule hoare_weaken [OF delete], auto simp: tagged_def)
    done
qed

lemma clustersvc_Delete_clears:
  assumes "cluster_laws L S M K key c v stored present" "lib_wraps L"
    and "ClusterScope_Name csc = c" "cluster_ident hc = v"
  shows "clears stored present (cluster_resources c v) (\<lambda>e. e = None) (clustersvc_Delete L M csc hc)"
proof (rule clearsI)
  fix x A
  let ?I = "\<lambda>A w. stored w = x \<and> present w \<inter> A = {}" and ?A = "insert (KKeyVault, fst v, c) A"
  let ?J = "\<lambda>e w. stored w = x \<and> present w \<inter> A = {} \<and> (e = None \<longrightarrow> present w \<inter> cluster_resources c v = {})"
  have v: "ClusterScope_GetResourceGroup hc = fst v" using assms(4) by (auto simp: cluster_ident_def)
  note vault = keyvault_absent [OF assms(1,2)]
  have vnet: "preserves (virtualnetworks_Delete L M sp) (?I ?A)" for sp
  proof (rule virtualnetworks_Delete_reads [OF vault(1)])
    have "preserves (m_Get_VNet M g n) (\<lambda>w. (stored w, present w) = z)" for g n z
      using cluster_api_laws(1) [OF assms(1)] unfolding cluster_quiet_def by blast
    from preserves_view [OF this, of "\<lambda>(y, p). y = x \<and> p \<inter> ?A = {}"] show "preserves (m_Get_VNet M g n) (?I ?A)" for g n by simp
  qed
  let ?group = "\<lambda>f. bind (groups_Delete L M (Some (cluster_groupSpec hc))) (\<lambda>e. case e of None \<Rightarrow> return None | Some err \<Rightarrow> return (Some (f err)))"
  have group: "hoare (?I ?A) (?group f) ?J (?I A)" for f
  proof (rule hoare_bind)
    show "hoare (?I ?A) (groups_Delete L M (Some (cluster_groupSpec hc)))
        (\<lambda>e w. ?I ?A w \<and> (e = None \<longrightarrow> (KGroup, snd v, fst v) \<notin> present w)) (?I A)"
      by (rule hoare_weaken [OF group_absent [OF assms(1,4) vault(1), where A = ?A]]) auto
  qed (auto intro!: hoare_rules simp: cluster_resources_def)
  have rest: "hoare (?I ?A) (bind (virtualnetworks_Delete L M sp) (\<lambda>e. case e of None \<Rightarrow> ?group f
      | Some err \<Rightarrow> if \<not> ResourceNotFound L err then return (Some (h err)) else ?group f)) ?J (?I A)" for sp f h
  proof (rule hoare_bind)
    show "hoare (?I ?A) (virtualnetworks_Delete L M sp) (\<lambda>_. ?I ?A) (?I A)"
      by (rule hoare_weaken [OF vnet]) auto
  qed (rule hoare_case_option [OF group], rule hoare_if [OF hoare_return group], auto)
  show "hoare (?I A) (clustersvc_Delete L M csc hc) ?J (?I A)"
    unfolding clustersvc_Delete_def Let_def assms(3) v
    apply (rule hoare_bind [OF vault(2)], rule hoare_case_option)
     apply (rule hoare_weaken [OF rest], auto)[]
    apply (rule hoare_if, rule hoare_return, blast, rule hoare_weaken [OF rest], auto)
    done
qed

subsection \<open>What a reconcile keeps\<close>

interpretation cluster_guard: finalizer_guard hc_Meta ClusterFinalizer cluster_ident HCluster_addFinalizer HCluster_removeFinalizer
  by unfold_locales (simp add: HCluster_addFinalizer_def lib_finalizers_def, simp_all)

lemma Cluster_reconcileNormal_closable:
  assumes "cluster_laws L S M K key c v stored present" "lib_finalizers L"
  shows "preserves (Cluster_reconcileNormal L M K csc) (cluster_guard.closable stored present v R)"
proof -
  let ?C = "cluster_guard.closable stored present v R"
  show ?thesis
    unfolding Cluster_reconcileNormal_def ClusterScope_PatchObject_def
    by (rule cluster_guard.register [OF cluster_api_laws(5) [OF assms(1)] assms(2)], rule hoare_return, assumption,
        rule cluster_guard.engaged_work)
      (auto intro!: hoare_rules cluster_services_kept [OF assms(1)] simp: Let_def)
qed

text \<open>Taking the machines and the load balancer down does not concern the cluster's own resources.\<close>

lemma cluster_quiet_delete:
  assumes "cluster_quiet S M K I"
  shows "preserves (GetAzureStackHCIMachinesInCluster K ns n) I" "preserves (deleteOrphanedMachines L K hc ms) I"
    "preserves (k_Get_LB K k) I" "preserves (k_Update_LB K lb) I" "preserves (k_Delete_LB K lb) I"
proof -
  note ops = assms [unfolded cluster_quiet_def]
  show "preserves (GetAzureStackHCIMachinesInCluster K ns n) I" "preserves (k_Get_LB K k) I" "preserves (k_Update_LB K lb) I"
      "preserves (k_Delete_LB K lb) I"
    using ops unfolding GetAzureStackHCIMachinesInCluster_def by blast+
  show "preserves (deleteOrphanedMachines L K hc ms) I"
    using ops unfolding deleteOrphanedMachines_def delete_if_orphaned_def Let_def by (auto intro!: hoare_rules)
qed

lemma cluster_delete_services_closable:
  assumes "cluster_laws L S M K key c v stored present" "lib_wraps L" "ClusterScope_Name csc = c"
  shows "preserves (cluster_delete_services L M K csc) (cluster_guard.closable stored present v (cluster_resources c v))"
proof -
  let ?C = "cluster_guard.closable stored present v (cluster_resources c v)" and ?E = "\<lambda>s. present (world s) \<inter> cluster_resources c v = {}"
  have services: "hoare (\<lambda>s. ?C s \<and> obj s = hc) (on_world (clustersvc_Delete L M csc hc)) (\<lambda>e s. ?C s \<and> (e = None \<longrightarrow> ?E s)) ?C" for hc
  proof (cases "cluster_ident hc = v")
    case True
    show ?thesis
      by (rule hoare_weaken [OF cluster_guard.clears_closable [OF clustersvc_Delete_clears [OF assms True]]]) auto
  next
    case False
    then show ?thesis by (auto simp: hoare_def cluster_guard.closable_def)
  qed
  have get: "preserves (on_world (k_Get_LB K k)) (\<lambda>s. ?C s \<and> obj s = hc)" for k hc
    using hoare_conj [OF cluster_guard.closable_world [OF cluster_quiet_delete(3) [OF cluster_api_laws(1) [OF assms(1)]]]
        preserves_on_world [where I = "\<lambda>s. obj s = hc"]] by simp
  have obj: "?C s \<Longrightarrow> ?C (s\<lparr>obj := cluster_not_ready L r msg (obj s)\<rparr>)" for s r msg by (simp add: cluster_guard.closable_obj)
  have wait: "preserves (bind (upd_obj (cluster_not_ready L r msg)) (\<lambda>_. return x)) ?C"
    and fail: "preserves (bind (Eventf ty re ms) (\<lambda>_. bind (upd_obj (cluster_not_ready L r msg)) (\<lambda>_. return x))) ?C"
    for ty re ms r msg and x :: "Result \<times> goerror option" by (auto intro!: hoare_rules obj)
  have released: "hoare (\<lambda>s. ?C s \<and> ?E s) (bind (Eventf ty re ms) (\<lambda>_. bind (upd_obj (HCluster_removeFinalizer L)) (\<lambda>_. return x))) (\<lambda>_. ?C) ?C"
    for ty re ms and x :: "Result \<times> goerror option"
    by (rule hoare_bind [where B = "\<lambda>_ s. ?C s \<and> ?E s"], rule hoare_Eventf, simp, rule hoare_bind [OF cluster_guard.release], rule hoare_return)
  show ?thesis
    unfolding cluster_delete_services_def Let_def
    apply (rule hoare_bind [where B = "\<lambda>m s. ?C s \<and> obj s = m"], rule hoare_reads, simp)
    apply (rule hoare_bind [OF hoare_weaken [OF get]], assumption, assumption, simp, rule hoare_case_sum)
     apply (rule hoare_bind [OF services], rule hoare_case_option)
      apply (rule hoare_weaken [OF released], simp_all)[]
     apply (rule hoare_weaken [OF fail], simp_all)[]
    apply (rule hoare_weaken [OF wait], simp_all)
    done
qed

lemma Cluster_reconcileDelete_closable:
  assumes "cluster_laws L S M K key c v stored present" "lib_wraps L" "ClusterScope_Name csc = c"
  shows "preserves (Cluster_reconcileDelete L M K csc) (cluster_guard.closable stored present v (cluster_resources c v))"
proof -
  let ?C = "cluster_guard.closable stored present v (cluster_resources c v)"
  note quiet = cluster_quiet_delete [OF cluster_api_laws(1) [OF assms(1)]]
  note world = quiet [THEN cluster_guard.closable_world]
  have obj: "?C s \<Longrightarrow> ?C (s\<lparr>obj := cluster_not_ready L r msg (obj s)\<rparr>)" for s r msg by (simp add: cluster_guard.closable_obj)
  have lb: "preserves (reconcileDeleteAzureStackHCILoadBalancer L K csc) ?C"
    unfolding reconcileDeleteAzureStackHCILoadBalancer_def Let_def by (auto intro!: hoare_rules world obj)
  show ?thesis
    unfolding Cluster_reconcileDelete_def Let_def
    by (auto intro!: hoare_rules world obj lb cluster_delete_services_closable [OF assms])
qed

lemma Cluster_Reconcile_accounted:
  assumes "cluster_laws L S M K key c v stored present" "lib_finalizers L" "lib_wraps L"
  shows "preserves (Cluster_Reconcile L S M K key) (\<lambda>s. cluster_accounted c v (stored (world s)) (present (world s)))"
proof -
  let ?P = "cluster_accounted c v"
  let ?I = "\<lambda>s. ?P (stored (world s)) (present (world s))" and ?C = "cluster_guard.closable stored present v (cluster_resources c v)"
  note quiet = cluster_api_laws(1) [OF assms(1), unfolded cluster_quiet_def] and reads = cluster_api_reads [OF assms(1)]
  note scope = access_quiet(2) [OF conjunct1 [OF quiet]]
  note lookup = hoare_lookup [where f = "\<lambda>w. (stored w, present w)" and P = "\<lambda>(x, p). ?P x p \<and> x = Some hc" for hc, unfolded prod.case]
  note stop = hoare_stop [where P = "\<lambda>w. ?P (stored w) (present w)"]
  have "preserves (ClusterScope_Close K csc) ?C" for csc
    unfolding ClusterScope_Close_def ClusterScope_PatchObject_def
    by (rule hoare_weaken [OF cluster_guard.patch_closable [OF cluster_api_laws(5) [OF assms(1)]]]) auto
  then have close: "preserves (bind (upd_obj reconcilePhase) (\<lambda>_. ClusterScope_Close K csc)) ?C" for csc
    by (auto intro!: hoare_rules simp: cluster_guard.closable_obj)
  show ?thesis
    unfolding Cluster_Reconcile_def
    apply (rule hoare_fetch [where f = "\<lambda>w. (stored w, present w)" and P = "\<lambda>(x, p). ?P x p" and G = "\<lambda>m (x, p). x = Some m", unfolded prod.case])
        apply (use quiet in blast, erule reads(1))
      apply (rule hoare_if [OF stop(2) stop(2)])
    subgoal for hc
      apply (rule lookup [where Q = "\<lambda>r. \<forall>x. r = Inr (Some x) \<longrightarrow> om_Name (cl_Meta x) = c"])
         apply (use quiet in blast, use reads(2) in blast)
       apply (rule hoare_case_sum, rule stop, rule hoare_case_option, rule stop)
      subgoal for r z x
        apply (rule lookup [where Q = "\<lambda>r. \<forall>csc. r = Inr csc \<longrightarrow> csc_Cluster csc = x"], rule scope)
          apply (intro allI impI, hypsubst, drule NewClusterScope_fields, simp)
         apply (rule hoare_case_sum, rule stop, rule cluster_guard.session [OF _ close])
         apply (simp add: Cluster_reconcileDelete_closable [OF assms(1,3)] Cluster_reconcileNormal_closable [OF assms(1,2)] ClusterScope_Name_def)
        by (erule conjunct1)
      by (erule conjunct1)
    by assumption
qed

subsection \<open>Every group of a cluster carries the tag\<close>

abbreviation owned_view :: "('w \<Rightarrow> resource set) \<Rightarrow> ('w \<Rightarrow> group_tags) \<Rightarrow> 'w \<Rightarrow> resource set" where
  "owned_view present tags \<equiv> \<lambda>w. owned (present w) (tags w)"

lemma labelled_owned: "labelled p t \<Longrightarrow> owned p t = p"
  by (auto simp: owned_def labelled_def)

lemma owned_subset: "owned p t \<subseteq> p"
  by (auto simp: owned_def)

lemma owned_other [simp]: "k \<noteq> KGroup \<Longrightarrow> (k, g, n) \<in> owned p t \<longleftrightarrow> (k, g, n) \<in> p"
  by (simp add: owned_def)

lemma groups_kept_owned:
  "groups_kept present tags w w' \<Longrightarrow> present w' \<inter> R \<subseteq> present w \<Longrightarrow>
   owned (present w') (tags w') \<inter> R \<subseteq> owned (present w) (tags w)"
  by (auto simp: groups_kept_def owned_def)

lemma groups_kept_labelled:
  "groups_kept present tags w w' \<Longrightarrow> labelled (present w) (tags w) \<Longrightarrow> labelled (present w') (tags w')"
  by (simp add: groups_kept_def labelled_def)

lemma deletes_owned:
  assumes "deletes L present x m" "\<And>w r w'. m w = (r, w') \<Longrightarrow> groups_kept present tags w w'"
  shows "deletes L (owned_view present tags) x m"
  using assms(1) groups_kept_owned [OF assms(2), where R = UNIV] owned_subset unfolding deletes_def by fastforce

lemma patches_owned:
  assumes "patches meta ident stored present f" "\<And>b m w r w'. f b m w = (r, w') \<Longrightarrow> groups_kept present tags w w'"
  shows "patches meta ident stored (owned_view present tags) f"
proof -
  have "owned (present w') (tags w') = owned (present w) (tags w)" if "f b m w = (r, w')" for b m w r w'
    using assms(1) assms(2) [OF that] that by (fastforce simp: patches_def groups_kept_def owned_def)
  with assms(1) show ?thesis unfolding patches_def by metis
qed

lemma cluster_api_parts:
  assumes "cluster_api L S M K key c v stored present tags"
  shows "cluster_quiet S M K (\<lambda>w. P (stored w, present w, tags w))" "cluster_keeps M (\<lambda>w. stored w = x)"
    "deletes L present (KKeyVault, rg, n) (m_Delete_KeyVault M rg n)" "deletes L present (KGroup, l, n) (m_Delete_Group M l n)"
    "patches hc_Meta cluster_ident stored present (k_Patch_HCluster K)" "group_api L M K v present tags"
  using assms unfolding cluster_api_def by (simp_all del: prod.inject split_paired_All)

lemma group_api_kept:
  assumes "group_api L M K v present tags"
  shows "m_Create_VNet M rg n vn w = (r, w') \<Longrightarrow> groups_kept present tags w w'"
    "m_Create_KeyVault M rg n kv w = (r, w') \<Longrightarrow> groups_kept present tags w w'"
    "m_Delete_KeyVault M rg n w = (r, w') \<Longrightarrow> groups_kept present tags w w'"
    "m_Delete_Group M l n w = (r, w') \<Longrightarrow> groups_kept present tags w w'"
    "k_Patch_HCluster K b m w = (r, w') \<Longrightarrow> groups_kept present tags w w'"
    "m_Create_Group M l n y w = (r, w') \<Longrightarrow> present w' = present w \<and> tags w' = tags w \<or>
        present w' = insert (KGroup, l, n) (present w) \<and> tags w' = (tags w)((l, n) := g_Tags y)"
    "m_Get_Group M (snd v) (fst v) w = (Ret (Inl err), w') \<Longrightarrow> ResourceNotFound L err \<Longrightarrow> (KGroup, snd v, fst v) \<notin> present w"
    "m_Get_Group M (snd v) (fst v) w = (Ret (Inr (g # gs)), w') \<Longrightarrow> (KGroup, snd v, fst v) \<in> present w \<Longrightarrow>
      g_Tags g = tags w (snd v, fst v)"
  using assms unfolding group_api_def by (elim conjE; metis)+

lemmas cluster_api_kept = group_api_kept [OF cluster_api_parts(6)]

lemma cluster_api_owned:
  assumes "cluster_api L S M K key c v stored present tags"
  shows "cluster_laws L S M K key c v stored (owned_view present tags)"
proof -
  note parts = cluster_api_parts [OF assms] and kept = cluster_api_kept [OF assms]
  have "cluster_quiet S M K (\<lambda>w. (stored w, owned (present w) (tags w)) = y)" for y
    using parts(1) [of "\<lambda>(x, p, t). (x, owned p t) = y"] by simp
  moreover have "(KGroup, snd v, fst v) \<notin> owned (present w) (tags w)"
    if "m_Get_Group M (snd v) (fst v) w = (Ret (Inl err), w') \<and> ResourceNotFound L err \<or>
      m_Get_Group M (snd v) (fst v) w = (Ret (Inr (x # xs)), w') \<and> \<not> tagged (g_Tags x)" for w err w' x xs
    using that kept(7,8) by (auto simp: owned_def)
  moreover note parts(2) deletes_owned [OF parts(3) kept(3)] deletes_owned [OF parts(4) kept(4)] patches_owned [OF parts(5) kept(5)]
  ultimately show ?thesis
    using assms unfolding cluster_laws_def cluster_api_def by (intro conjI allI impI) (assumption | blast)+
qed

text \<open>Whatever a reconcile of a cluster does, it leaves every group that it made with the tag.\<close>

lemma groups_Create_labelled:
  assumes "cluster_api L S M K key c v stored present tags"
  shows "preserves (groups_Create M sp) (\<lambda>w. labelled (present w) (tags w))"
  unfolding groups_Create_def
  by (rule hoareI; drule cluster_api_kept(6) [OF assms]) (auto simp: labelled_def tagged_def)

lemma cluster_kept_labelled:
  assumes "cluster_api L S M K key c v stored present tags"
  shows "preserves (m_Create_VNet M rg n vn) (\<lambda>w. labelled (present w) (tags w))"
    "preserves (m_Create_KeyVault M rg n kv) (\<lambda>w. labelled (present w) (tags w))"
    "preserves (m_Delete_KeyVault M rg n) (\<lambda>w. labelled (present w) (tags w))"
    "preserves (m_Delete_Group M rg n) (\<lambda>w. labelled (present w) (tags w))"
    "preserves (k_Patch_HCluster K b m) (\<lambda>w. labelled (present w) (tags w))"
  by (rule hoareI; drule cluster_api_kept [OF assms]; erule (1) groups_kept_labelled)+

lemma cluster_services_labelled:
  assumes "cluster_api L S M K key c v stored present tags"
  defines "I \<equiv> \<lambda>w. labelled (present w) (tags w)"
  shows "preserves (virtualnetworks_Reconcile M vs) I" "preserves (groups_Reconcile M gs) I" "preserves (keyvaults_Reconcile M rg ks) I"
    "preserves (clustersvc_Delete L M csc hc) I"
proof -
  note kept = cluster_kept_labelled [OF assms(1), folded I_def] groups_Create_labelled [OF assms(1), folded I_def]
  have ops: "cluster_quiet S M K I" using cluster_api_parts(1) [OF assms(1), of "\<lambda>(x, p, t). labelled p t"] by (simp add: I_def)
  then have log: "preserves (WriteMocInfoLog M) I" unfolding cluster_quiet_def by (intro cloud_log) blast
  have gets: "preserves (m_Get_VNet M g n) I" "preserves (m_Get_Group M g n) I" "preserves (m_Get_KeyVault M g n) I" for g n
    using ops unfolding cluster_quiet_def by blast+
  show "preserves (virtualnetworks_Reconcile M vs) I"
    unfolding virtualnetworks_Reconcile_def virtualnetworks_Get_def by (auto intro!: hoare_rules log gets kept)
  show "preserves (groups_Reconcile M gs) I"
    unfolding groups_Reconcile_def groups_Get_def by (auto intro!: hoare_rules log gets kept)
  show "preserves (keyvaults_Reconcile M rg ks) I"
    unfolding keyvaults_Reconcile_def keyvaults_Get_def by (auto intro!: hoare_rules log gets kept)
  have "preserves (groups_Delete L M sp) I" "preserves (keyvaults_Delete L M rg kp) I" for sp rg kp
    unfolding groups_Delete_def keyvaults_Delete_def by (auto intro!: hoare_rules log gets kept)
  moreover have "preserves (virtualnetworks_Delete L M vp) I" for vp by (rule virtualnetworks_Delete_reads [OF log gets(1)])
  ultimately show "preserves (clustersvc_Delete L M csc hc) I"
    unfolding clustersvc_Delete_def Let_def by (auto intro!: hoare_rules)
qed

lemma Cluster_bodies_labelled:
  assumes "cluster_api L S M K key c v stored present tags"
  defines "I \<equiv> \<lambda>w. labelled (present w) (tags w)"
  shows "preserves (Cluster_reconcileDelete L M K csc) (\<lambda>s. I (world s))" "preserves (Cluster_reconcileNormal L M K csc) (\<lambda>s. I (world s))"
    "preserves (ClusterScope_Close K csc) (\<lambda>s. I (world s))"
proof -
  have out: "preserves (on_world m) (\<lambda>s. I (world s))" if "preserves m I" for m :: "('a, 'c) io"
    using on_world_conj [OF that, of "\<lambda>_. True"] by simp
  have ops: "cluster_quiet S M K I" using cluster_api_parts(1) [OF assms(1), of "\<lambda>(x, p, t). labelled p t"] by (simp add: I_def)
  note quiet = cluster_quiet_delete [OF ops, THEN out] and services = cluster_services_labelled [OF assms(1), folded I_def, THEN out]
  have patch: "preserves (ClusterScope_PatchObject K csc) (\<lambda>s. I (world s))" for csc
    unfolding ClusterScope_PatchObject_def using cluster_kept_labelled(5) [OF assms(1), folded I_def] by (auto intro!: hoare_rules out)
  then show "preserves (ClusterScope_Close K csc) (\<lambda>s. I (world s))" by (simp add: ClusterScope_Close_def)
  have "preserves (k_CreateOrUpdate_LB K x (\<lambda>lb. return (f lb))) I" for x f
    by (rule cluster_quiet_lb [OF ops], rule hoare_return)
  note lb = out [OF this]
  have "preserves (cluster_delete_services L M K csc) (\<lambda>s. I (world s))"
      "preserves (reconcileDeleteAzureStackHCILoadBalancer L K csc) (\<lambda>s. I (world s))"
    unfolding cluster_delete_services_def reconcileDeleteAzureStackHCILoadBalancer_def Let_def
    by (auto intro!: hoare_rules quiet services)
  then show "preserves (Cluster_reconcileDelete L M K csc) (\<lambda>s. I (world s))"
    unfolding Cluster_reconcileDelete_def Let_def by (auto intro!: hoare_rules quiet)
  have "preserves (clustersvc_Reconcile M csc) (\<lambda>s. I (world s))" "preserves (reconcileAzureStackHCILoadBalancer L K csc) (\<lambda>s. I (world s))"
    unfolding clustersvc_Reconcile_def reconcileAzureStackHCILoadBalancer_def Let_def by (auto intro!: hoare_rules services lb)
  then show "preserves (Cluster_reconcileNormal L M K csc) (\<lambda>s. I (world s))"
    unfolding Cluster_reconcileNormal_def Let_def by (auto intro!: hoare_rules patch)
qed

lemma Cluster_Reconcile_labelled:
  assumes "cluster_api L S M K key c v stored present tags"
  shows "preserves (Cluster_Reconcile L S M K key) (\<lambda>s. labelled (present (world s)) (tags (world s)))"
proof -
  let ?I = "\<lambda>w. labelled (present w) (tags w)"
  note bodies = Cluster_bodies_labelled [OF assms]
  have out: "preserves (on_world m) (\<lambda>s. ?I (world s))" if "preserves m ?I" for m :: "('a, 'c) io"
    using on_world_conj [OF that, of "\<lambda>_. True"] by simp
  have ops: "cluster_quiet S M K ?I" using cluster_api_parts(1) [OF assms, of "\<lambda>(x, p, t). labelled p t"] by simp
  have reads: "preserves (k_Get_HCluster K k) ?I" "preserves (k_GetOwnerCluster K om) ?I" "preserves (NewClusterScope L S K x y) ?I" for k om x y
    using ops unfolding cluster_quiet_def by (blast intro: access_quiet(2))+
  have close: "preserves (bind (upd_obj reconcilePhase) (\<lambda>_. ClusterScope_Close K csc)) (\<lambda>s. ?I (world s))" for csc
    by (rule hoare_bind [OF _ bodies(3)], rule hoare_upd_obj) simp
  have "preserves (close_after (bind (upd_obj reconcilePhase) (\<lambda>_. ClusterScope_Close K csc))
      (if b then Cluster_reconcileDelete L M K csc else Cluster_reconcileNormal L M K csc)) (\<lambda>s. ?I (world s))" for b csc
    by (rule hoare_close_after [OF _ close]) (simp add: bodies)
  then have "preserves (with_obj hc (close_after (bind (upd_obj reconcilePhase) (\<lambda>_. ClusterScope_Close K csc))
      (if b then Cluster_reconcileDelete L M K csc else Cluster_reconcileNormal L M K csc))) (\<lambda>s. ?I (world s))" for hc b csc
    by (rule hoare_with_obj) simp
  then show ?thesis
    unfolding Cluster_Reconcile_def by (auto intro!: hoare_rules out reads)
qed

text \<open>A whole life, seen through what the provider recognizes as its own.\<close>

lemma cluster_life_labelled:
  assumes "cluster_api L S M K key c v stored present tags"
    and "(cluster_step L S M K key c v stored present tags)\<^sup>*\<^sup>* s t" "labelled (present (world s)) (tags (world s))"
  shows "labelled (present (world t)) (tags (world t))"
  using assms(2,3)
proof (induction rule: rtranclp_induct)
  case (step u t)
  from step.hyps(2) show ?case
  proof (rule life_stepE)
    fix r assume "Cluster_Reconcile L S M K key u = (r, t)"
    then show ?case
      using hoareD_Ret [OF Cluster_Reconcile_labelled [OF assms(1)]] hoareD_Panics [OF Cluster_Reconcile_labelled [OF assms(1)]]
        step.IH [OF step.prems] by (cases r) blast+
  qed (use step.IH [OF step.prems] in \<open>auto intro: groups_kept_labelled\<close>)
qed

lemma cluster_life_owned:
  assumes "(cluster_step L S M K key c v stored present tags)\<^sup>*\<^sup>* s t"
  shows "(life_step (Cluster_Reconcile L S M K key) (bystander hc_Meta ClusterFinalizer cluster_ident v (cluster_resources c v)
    stored (owned_view present tags)))\<^sup>*\<^sup>* s t"
  using assms
proof (rule rtranclp_mono [THEN predicate2D, rotated])
  show "cluster_step L S M K key c v stored present tags \<le> life_step (Cluster_Reconcile L S M K key)
      (bystander hc_Meta ClusterFinalizer cluster_ident v (cluster_resources c v) stored (owned_view present tags))"
    by (auto elim!: life_stepE intro: life_step.reconcile intro!: life_step.other simp: bystander_def dest: groups_kept_owned)
qed

lemma cluster_life_accounted:
  assumes "cluster_api L S M K key c v stored present tags" "lib_finalizers L" "lib_wraps L"
    and "(cluster_step L S M K key c v stored present tags)\<^sup>*\<^sup>* s t"
    and "cluster_accounted c v (stored (world s)) (present (world s))" "labelled (present (world s)) (tags (world s))"
  shows "cluster_accounted c v (stored (world t)) (present (world t))"
proof -
  have "cluster_accounted c v (stored (world s)) (owned (present (world s)) (tags (world s)))"
    using assms(5) by (simp add: labelled_owned [OF assms(6)])
  from cluster_guard.life_covers [OF Cluster_Reconcile_accounted [OF cluster_api_owned [OF assms(1)] assms(2,3)]
      cluster_life_owned [OF assms(4)] this]
  show ?thesis by (simp add: labelled_owned [OF cluster_life_labelled [OF assms(1,4,6)]])
qed

subsection \<open>The load balancer of a cluster that is released\<close>

text \<open>
  What the teardown of a cluster relies on, where its load balancer object under \<open>key\<close> is concerned:
  the calls of the cluster controller respect the finalizer of that object, and a lookup that
  does not return the object is not mistaken.
\<close>

definition cluster_lb_api :: "'w sys \<Rightarrow> 'w moc \<Rightarrow> 'w kube \<Rightarrow> ObjectKey \<Rightarrow> string \<Rightarrow>
    ('w \<Rightarrow> AzureStackHCILoadBalancer option) \<Rightarrow> ('w \<Rightarrow> resource set) \<Rightarrow> bool" where
  "cluster_lb_api S M K key g stored present \<longleftrightarrow>
     cluster_quiet S M K (\<lambda>w. lb_accounted g (key_Name key) (stored w) (present w)) \<and>
     (\<forall>w err w'. k_Get_LB K key w = (Ret (Inl err), w') \<longrightarrow> stored w' = None)"

abbreviation cluster_finalized :: "('w, AzureStackHCICluster) rstate \<Rightarrow> bool" where
  "cluster_finalized s \<equiv> ClusterFinalizer \<in> set (om_Finalizers (hc_Meta (obj s)))"

lemma cluster_delete_services_lb:
  assumes "cluster_laws L S M K key c v stored present" "lib_finalizers L" "lib_wraps L" "ClusterScope_Name csc = c"
    and "cluster_lb_api S M K lbkey (fst v) lbstored present"
    and "lbkey = mkKey (ClusterScope_Namespace csc) (GenerateAzureStackHCILoadBalancerName c)"
    and "lb_accounted (fst v) (key_Name lbkey) (lbstored (world s)) (present (world s))" "cluster_finalized s" "cluster_ident (obj s) = v"
    and "cluster_delete_services L M K csc s = (r, t)"
  shows "cluster_finalized t \<or> (KLB, fst v, key_Name lbkey) \<notin> present (world t)"
proof -
  have kept: ?thesis if "hc_Meta (obj t) = hc_Meta (obj s)" using that assms(8) by simp
  have deleted: ?thesis if "services_deleted L M K csc (obj s) (world s) (world t)"
  proof -
    from that obtain err w where get: "k_Get_LB K lbkey (world s) = (Ret (Inl err), w)"
        and del: "clustersvc_Delete L M csc (obj s) w = (Ret None, world t)"
      unfolding services_deleted_def assms(4,6) by blast
    have "preserves (k_Get_LB K lbkey) (\<lambda>w. lb_accounted (fst v) (key_Name lbkey) (lbstored w) (present w))"
      using assms(5) unfolding cluster_lb_api_def cluster_quiet_def by blast
    from hoareD_Ret [OF this assms(7) get] assms(5) get have "(KLB, fst v, key_Name lbkey) \<notin> present w"
      by (auto simp: cluster_lb_api_def covers_def held_by_def)
    moreover have "present (world t) \<subseteq> present w"
      using clustersvc_Delete_clears [OF assms(1,3,4,9)] del unfolding clears_def by blast
    ultimately show ?thesis by blast
  qed
  note steps = cluster_delete_services_steps [OF assms(2)]
  show ?thesis
  proof (cases r)
    case (Ret x)
    then show ?thesis
      using hoareD_Ret [OF steps refl assms(10) [unfolded Ret]] kept deleted by (cases x) (simp split: if_splits)
  next
    case (Panics p)
    then show ?thesis using hoareD_Panics [OF steps refl assms(10) [unfolded Panics]] kept by simp
  qed
qed

lemma Cluster_reconcileDelete_lb:
  assumes "cluster_laws L S M K key c v stored present" "lib_finalizers L" "lib_wraps L" "ClusterScope_Name csc = c"
    and "cluster_lb_api S M K lbkey (fst v) lbstored present"
    and "lbkey = mkKey (ClusterScope_Namespace csc) (GenerateAzureStackHCILoadBalancerName c)"
  defines "N \<equiv> \<lambda>s. lb_accounted (fst v) (key_Name lbkey) (lbstored (world s)) (present (world s)) \<and> cluster_finalized s \<and> cluster_ident (obj s) = v"
    and "Q \<equiv> \<lambda>s. cluster_finalized s \<or> (KLB, fst v, key_Name lbkey) \<notin> present (world s)"
  shows "hoare N (Cluster_reconcileDelete L M K csc) (\<lambda>_. Q) Q"
proof -
  have lbq: "cluster_quiet S M K (\<lambda>w. lb_accounted (fst v) (key_Name lbkey) (lbstored w) (present w))"
    using assms(5) by (simp add: cluster_lb_api_def)
  have world: "preserves (on_world m) N" if "preserves m (\<lambda>w. lb_accounted (fst v) (key_Name lbkey) (lbstored w) (present w))"
    for m :: "('a, 'b) io"
    unfolding N_def by (rule on_world_conj [OF that])
  note calls = cluster_quiet_delete [OF lbq, THEN world]
  have obj: "N s \<Longrightarrow> N (s\<lparr>obj := cluster_not_ready L r msg (obj s)\<rparr>)" for s r msg by (simp add: N_def)
  have events: "N s \<Longrightarrow> N (s\<lparr>events := es\<rparr>)" for s es by (simp add: N_def)
  have lb: "preserves (reconcileDeleteAzureStackHCILoadBalancer L K csc) N"
    unfolding reconcileDeleteAzureStackHCILoadBalancer_def Let_def by (auto intro!: hoare_rules calls obj)
  have weak: "hoare N m (\<lambda>_. Q) Q" if "preserves m N" for m :: "(('a, AzureStackHCICluster) rstate, 'b) io"
    by (rule hoare_weaken [OF that]) (auto simp: N_def Q_def)
  have services: "hoare N (cluster_delete_services L M K csc) (\<lambda>_. Q) Q"
    unfolding N_def Q_def by (rule hoareI; elim conjE; rule cluster_delete_services_lb [OF assms(1-6)])
  have last: "hoare N (bind (reconcileDeleteAzureStackHCILoadBalancer L K csc) (\<lambda>e. case e of
      Some err \<Rightarrow> return (noResult, Some (Wrap ''Failed to delete AzureStackHCICluster AzureStackHCILoadBalancer'' err))
    | None \<Rightarrow> cluster_delete_services L M K csc)) (\<lambda>_. Q) Q"
    by (rule hoare_bind [OF hoare_weaken [OF lb]], assumption, assumption, simp add: N_def Q_def, rule hoare_case_option [OF services])
      (auto intro!: hoare_return simp: N_def Q_def)
  show ?thesis
    unfolding Cluster_reconcileDelete_def Let_def
    apply (rule hoare_bind [where B = "\<lambda>_. N"], rule hoare_upd_obj, erule obj)
    apply (rule hoare_bind [where B = "\<lambda>_. N"], rule hoare_reads, assumption)
    apply (rule hoare_bind [where B = "\<lambda>_. N", OF hoare_weaken [OF calls(1)]], assumption, assumption, simp add: N_def Q_def)
    apply (rule hoare_case_sum, rule weak)
     apply (auto intro!: hoare_rules obj events)[]
    apply (rule hoare_if [OF weak last])
    apply (auto intro!: hoare_rules calls obj events)
    done
qed

text \<open>Load balancers are no groups: what holds of the resources holds of what is recognized.\<close>

lemma cluster_lb_owned:
  assumes "cluster_lb_api S M K lbkey g lbstored present"
  shows "cluster_lb_api S M K lbkey g lbstored (owned_view present tags)"
proof -
  have "owned p t \<inter> {(KLB, g, n)} = p \<inter> {(KLB, g, n)}" for p t n
    by (auto simp: owned_def)
  with assms show ?thesis by (simp add: cluster_lb_api_def covers_def)
qed

subsection \<open>An API server and a cloud that keep the laws\<close>

text \<open>
  The world is the stored cluster, its load balancer object, the set of resources and the tags of
  the groups; everything succeeds.
\<close>

record cluster_world =
  cw_cluster :: "AzureStackHCICluster option"
  cw_lb :: "AzureStackHCILoadBalancer option"
  cw_resources :: "resource set"
  cw_labels :: "((string \<times> string) \<times> tags) list"

definition cw_tags :: "cluster_world \<Rightarrow> group_tags" where
  "cw_tags w = (\<lambda>g. case map_of (cw_labels w) g of None \<Rightarrow> [] | Some ts \<Rightarrow> ts)"

definition cluster_kube :: "cluster_world kube" where
  "cluster_kube = kube0\<lparr>
     k_Get_HCluster := \<lambda>_ w. (Ret (case cw_cluster w of None \<Rightarrow> Inl (External ''NotFound'') | Some m \<Rightarrow> Inr m), w),
     k_Get_LB := \<lambda>_ w. (Ret (case cw_lb w of None \<Rightarrow> Inl (External ''NotFound'') | Some m \<Rightarrow> Inr m), w),
     k_GetOwnerCluster := \<lambda>_ w. (Ret (Inr (Some cluster0)), w),
     k_Patch_HCluster := \<lambda>_ m w. (Ret None, w\<lparr>cw_cluster := if om_Finalizers (hc_Meta m) = [] then None else Some m\<rparr>)\<rparr>"

definition cluster_moc :: "cluster_world moc" where
  "cluster_moc = moc0\<lparr>
     m_Get_Group := \<lambda>l n w. (Ret (if (KGroup, l, n) \<in> cw_resources w then Inr [\<lparr>g_Name = Some n, g_Location = Some l,
       g_Tags = cw_tags w (l, n)\<rparr>] else Inl (External ''NotFound'')), w),
     m_Create_Group := \<lambda>l n y w. (Ret None, w\<lparr>cw_resources := insert (KGroup, l, n) (cw_resources w),
       cw_labels := ((l, n), g_Tags y) # cw_labels w\<rparr>),
     m_Create_KeyVault := \<lambda>g n _ w. (Ret None, w\<lparr>cw_resources := insert (KKeyVault, g, n) (cw_resources w)\<rparr>),
     m_Delete_Group := \<lambda>l n w. (Ret None, w\<lparr>cw_resources := cw_resources w - {(KGroup, l, n)}\<rparr>),
     m_Delete_KeyVault := \<lambda>g n w. (Ret None, w\<lparr>cw_resources := cw_resources w - {(KKeyVault, g, n)}\<rparr>)\<rparr>"

definition cluster_key :: ObjectKey where "cluster_key = mkKey ''ns'' ''c''"

lemma cluster_world_quiet: "cluster_quiet sys0 cluster_moc cluster_kube I"
proof -
  have "preserves (k_CreateOrUpdate_LB cluster_kube x f) I" if "\<forall>y. preserves (f y) I" for x f
    using kube0_CreateOrUpdate(2) [OF spec [OF that]] by (simp add: cluster_kube_def)
  then show ?thesis
    unfolding cluster_quiet_def
    by (intro conjI allI impI)
      (assumption | simp add: access_only_def sys0_def cluster_kube_def cluster_moc_def kube0_def moc0_def hoare_def)+
qed

lemma cluster_world_groups: "group_api lib0 cluster_moc cluster_kube v cw_resources cw_tags"
  unfolding group_api_def
  by (intro conjI allI impI) (auto simp: groups_kept_def cw_tags_def fun_upd_def cluster_kube_def cluster_moc_def kube0_def moc0_def split: if_splits)

lemma cluster_world_api:
  "cluster_api lib0 sys0 cluster_moc cluster_kube cluster_key ''c'' (''rg'', ''loc'') cw_cluster cw_resources cw_tags"
  unfolding cluster_api_def
  by (intro conjI allI impI cluster_world_quiet cluster_world_groups)
    (auto simp: cluster_keeps_def deletes_def patches_def stored_as_def cluster_kube_def cluster_moc_def
      kube0_def moc0_def hoare_def cluster0_def newMeta_def split: option.splits if_splits)

definition cluster_start :: "(cluster_world, unit) rstate" where
  "cluster_start = \<lparr>world = \<lparr>cw_cluster = Some hcluster0, cw_lb = None, cw_resources = {}, cw_labels = []\<rparr>, obj = (), events = []\<rparr>"

definition cluster_created :: "(cluster_world, unit) rstate" where
  "cluster_created = snd (Cluster_Reconcile lib0 sys0 cluster_moc cluster_kube cluster_key cluster_start)"

lemma cluster_created_world:
  "cw_resources (world cluster_created) = {(KGroup, ''loc'', ''rg''), (KKeyVault, ''rg'', ''c'')}" "cw_lb (world cluster_created) = None"
  by code_simp+

lemma cluster_start_accounted:
  "cluster_accounted ''c'' (''rg'', ''loc'') (cw_cluster (world cluster_start)) (cw_resources (world cluster_start))"
  "labelled (cw_resources (world cluster_start)) (cw_tags (world cluster_start))"
  by (simp_all add: covers_def cluster_start_def cluster_ident_def hcluster0_def ClusterScope_GetResourceGroup_def
      ClusterScope_Location_def labelled_def)

lemma cluster_life:
  "(cluster_step lib0 sys0 cluster_moc cluster_kube cluster_key ''c'' (''rg'', ''loc'') cw_cluster cw_resources cw_tags)\<^sup>*\<^sup>*
     cluster_start cluster_created"
  by (rule r_into_rtranclp, rule life_step.reconcile
      [where r = "fst (Cluster_Reconcile lib0 sys0 cluster_moc cluster_kube cluster_key cluster_start)"]) (simp add: cluster_created_def)

text \<open>The stored cluster when its deletion starts.\<close>

definition cluster_doomed :: "(cluster_world, AzureStackHCICluster) rstate" where
  "cluster_doomed = \<lparr>world = world cluster_created, obj = the (cw_cluster (world cluster_created)), events = []\<rparr>"

lemma cluster_created_stored: "cw_cluster (world cluster_created) \<noteq> None"
  by code_simp

lemma cluster_doomed_finalized: "cluster_finalized cluster_doomed"
  by code_simp

lemma cluster_doomed_released: "\<not> cluster_finalized (snd (Cluster_reconcileDelete lib0 cluster_moc cluster_kube csc0 cluster_doomed))"
  by code_simp

subsection \<open>Properties\<close>

text \<open>
  C3: Neither the key vault nor the resource group of a cluster is ever orphaned.  However reconciles
  of a cluster object, each with any outcome, interleave with what users, the API server and other
  controllers do, at every time between them: if the key vault or the group that was made for the
  cluster is in the cloud, then the cluster object is stored and carries the finalizer, and the
  group carries the tag by which its deletion recognizes it.
\<close>

theorem cluster_never_orphaned:
  assumes "cluster_api L S M K key c v stored present tags" "lib_finalizers L" "lib_wraps L"
    and "(cluster_step L S M K key c v stored present tags)\<^sup>*\<^sup>* s t"
    and "cluster_accounted c v (stored (world s)) (present (world s))" "labelled (present (world s)) (tags (world s))"
    and "x \<in> present (world t)" "x \<in> cluster_resources c v"
  shows "(\<exists>m. stored (world t) = Some m \<and> ClusterFinalizer \<in> set (om_Finalizers (hc_Meta m))) \<and>
    (x = (KGroup, snd v, fst v) \<longrightarrow> map_of (tags (world t) (snd v, fst v)) TagKeyClusterGroup = Some (Some TagValClusterGroup))"
  using cluster_life_accounted [OF assms(1-6)] cluster_life_labelled [OF assms(1,4,6)] assms(7,8)
  by (auto simp: covers_def held_by_def labelled_def tagged_def)

theorem cluster_never_orphaned_witness:
  "(KGroup, ''loc'', ''rg'') \<in> cw_resources (world cluster_created) \<and>
   (\<exists>m. cw_cluster (world cluster_created) = Some m \<and> ClusterFinalizer \<in> set (om_Finalizers (hc_Meta m))) \<and>
   map_of (cw_tags (world cluster_created) (''loc'', ''rg'')) TagKeyClusterGroup = Some (Some TagValClusterGroup)"
proof -
  have res: "(KGroup, ''loc'', ''rg'') \<in> cw_resources (world cluster_created)"
      "(KGroup, ''loc'', ''rg'') \<in> cluster_resources ''c'' (''rg'', ''loc'')"
    by (simp_all add: cluster_created_world cluster_resources_def)
  from cluster_never_orphaned [OF cluster_world_api lib0_finalizers lib0_wraps cluster_life cluster_start_accounted res] res(1)
  show ?thesis by simp
qed

text \<open>
  C4: When the cluster controller lets a cluster go, nothing that was made for it is left in the
  cloud.  At the end of any such life, if the deletion of the cluster object takes its finalizer
  off while the API server answers lookups of the load balancer object truthfully, then neither the
  key vault, nor the resource group, nor the load balancer of the cluster is in the cloud any more.
  (The controller takes every error of that lookup for the absence of the object, so the proviso is
  needed.  A group that somebody else made was never the cluster's, and stays.)
\<close>

theorem cluster_released_clean:
  assumes "cluster_api L S M K key c v stored present tags" "lib_finalizers L" "lib_wraps L"
    and "(cluster_step L S M K key c v stored present tags)\<^sup>*\<^sup>* s t"
    and "cluster_accounted c v (stored (world s)) (present (world s))" "labelled (present (world s)) (tags (world s))"
    and "cluster_lb_api S M K lbkey (fst v) lbstored present"
    and "lb_accounted (fst v) (key_Name lbkey) (lbstored (world t)) (present (world t))"
    and "ClusterScope_Name csc = c" "lbkey = mkKey (ClusterScope_Namespace csc) (GenerateAzureStackHCILoadBalancerName c)"
    and "Cluster_reconcileDelete L M K csc u = (r, z)" "world u = world t" "stored (world t) = Some (obj u)"
    and "ClusterFinalizer \<in> set (om_Finalizers (hc_Meta (obj u)))" "ClusterFinalizer \<notin> set (om_Finalizers (hc_Meta (obj z)))"
  shows "present (world z) \<inter> (cluster_resources c v \<union> lb_resources (fst v) (key_Name lbkey)) = {}"
proof -
  let ?own = "owned_view present tags" and ?R = "cluster_resources c v"
  note laws = cluster_api_owned [OF assms(1)]
  have label: "labelled (present (world u)) (tags (world u))"
    using cluster_life_labelled [OF assms(1,4,6)] assms(12) by simp
  have "labelled (present (world z)) (tags (world z))"
    using hoareD_Ret [OF Cluster_bodies_labelled(1) [OF assms(1)] label] hoareD_Panics [OF Cluster_bodies_labelled(1) [OF assms(1)] label]
      assms(11) by (cases r) blast+
  then have own: "?own (world z) = present (world z)" by (rule labelled_owned)
  have acc: "cluster_accounted c v (stored (world u)) (?own (world u))"
    using cluster_life_accounted [OF assms(1-6)] assms(12) labelled_owned [OF label] by simp
  then have id: "cluster_ident (obj u) = v" using assms(12,13) by (simp add: covers_def)
  with acc have "cluster_guard.closable stored ?own v ?R u" using assms(14) by (simp add: cluster_guard.closable_def)
  then have "cluster_guard.closable stored ?own v ?R z"
    using hoareD_Ret [OF Cluster_reconcileDelete_closable [OF laws assms(3,9)]]
      hoareD_Panics [OF Cluster_reconcileDelete_closable [OF laws assms(3,9)]] assms(11) by (cases r) blast+
  then have "present (world z) \<inter> ?R = {}" using assms(15) own by (simp add: cluster_guard.closable_def)
  moreover have "(KLB, fst v, key_Name lbkey) \<notin> present (world z)"
  proof -
    note lb = Cluster_reconcileDelete_lb [OF laws assms(2,3,9) cluster_lb_owned [OF assms(7)] assms(10)]
    have "lb_accounted (fst v) (key_Name lbkey) (lbstored (world u)) (?own (world u)) \<and> cluster_finalized u \<and> cluster_ident (obj u) = v"
      using assms(8,12,14) id labelled_owned [OF label] by simp
    then show ?thesis using hoareD_Ret [OF lb] hoareD_Panics [OF lb] assms(11,15) own by (cases r) blast+
  qed
  ultimately show ?thesis by auto
qed

theorem cluster_released_clean_witness:
  "cw_resources (world (snd (Cluster_reconcileDelete lib0 cluster_moc cluster_kube csc0 cluster_doomed))) \<inter>
   (cluster_resources ''c'' (''rg'', ''loc'') \<union> lb_resources ''rg'' ''c-load-balancer'') = {}"
proof -
  let ?r = "Cluster_reconcileDelete lib0 cluster_moc cluster_kube csc0 cluster_doomed" and ?key = "mkKey ''ns'' ''c-load-balancer''"
  have lb: "cluster_lb_api sys0 cluster_moc cluster_kube ?key (fst (''rg'', ''loc'')) cw_lb cw_resources"
    unfolding cluster_lb_api_def by (intro conjI cluster_world_quiet) (simp add: cluster_kube_def split: option.splits)
  have acc: "lb_accounted (fst (''rg'', ''loc'')) (key_Name ?key) (cw_lb (world cluster_created)) (cw_resources (world cluster_created))"
    by (simp add: covers_def cluster_created_world)
  have name: "ClusterScope_Name csc0 = ''c''" "?key = mkKey (ClusterScope_Namespace csc0) (GenerateAzureStackHCILoadBalancerName ''c'')"
    by code_simp+
  have u: "world cluster_doomed = world cluster_created" "cw_cluster (world cluster_created) = Some (obj cluster_doomed)"
    using cluster_created_stored by (auto simp: cluster_doomed_def)
  from cluster_released_clean [OF cluster_world_api lib0_finalizers lib0_wraps cluster_life cluster_start_accounted lb acc name,
      of cluster_doomed "fst ?r" "snd ?r"] u cluster_doomed_finalized cluster_doomed_released
  show ?thesis by (simp add: mkKey_def)
qed

end
