(* ===== verification/WorkQueue.thy ===== *)
theory WorkQueue
  imports VMController LBController MachineController ClusterController
begin

text \<open>
  A controller works off a queue of requests: an event about an object puts its request in, a
  reconcile takes it out, and controller-runtime puts it back after an error, a panic or a result
  that asks for it.  So a reconcile that returns without an error and without asking to come back
  says that there is nothing left to do until something happens to the object.  This theory states
  for the four controllers what \<open>nothing left to do\<close> means and that they say so only when it is true.
\<close>

subsection \<open>The queue\<close>

text \<open>Does controller-runtime put the request back?\<close>

definition again :: "(Result \<times> goerror option) res \<Rightarrow> bool" where
  "again r \<longleftrightarrow> r \<noteq> Ret (noResult, None)"

text \<open>
  The state is the world with two flags: is the request queued, and was the last reconcile blind,
  that is, did it give up because it could not see what it depends on?  A reconcile runs when the
  request is queued.  In between anything may happen to the world, but a change of the stored
  object is an event.
\<close>

inductive queue_step :: "(('w, unit) rstate, Result \<times> goerror option) io \<Rightarrow> ('w \<Rightarrow> 'o option) \<Rightarrow> ('w \<Rightarrow> bool) \<Rightarrow>
    ('w, unit) rstate \<times> bool \<times> bool \<Rightarrow> ('w, unit) rstate \<times> bool \<times> bool \<Rightarrow> bool"
  for reconcile stored blind where
  process: "reconcile s = (r, t) \<Longrightarrow> queue_step reconcile stored blind (s, True, b) (t, again r, blind (world s))"
| event: "queue_step reconcile stored blind (s, q, b) (s\<lparr>world := w\<rparr>, q \<or> stored w \<noteq> stored (world s), b)"

inductive_cases queue_stepE: "queue_step reconcile stored blind a b"



subsection \<open>The API server\<close>



text \<open>
  An object is settled when it is gone, when it is on its way out and lets the API server remove
  it, or when it is wanted and where its controller is to bring it.
\<close>

definition settled :: "string \<Rightarrow> ('o \<Rightarrow> ObjectMeta) \<Rightarrow> (string list \<Rightarrow> 's \<Rightarrow> bool) \<Rightarrow> ('o \<Rightarrow> 's) \<Rightarrow> 'o option \<Rightarrow> bool" where
  "settled fin meta goal status x \<longleftrightarrow> (\<forall>m. x = Some m \<longrightarrow>
     (if DeletionTimestamp_IsZero (meta m) then goal (om_Finalizers (meta m)) (status m)
      else fin \<notin> set (om_Finalizers (meta m))))"

lemma settled_None [simp]: "settled fin meta goal status None"
  by (simp add: settled_def)


lemma with_obj_eq_Ret [run_simps]:
  "with_obj x m s = (Ret y, t) \<longleftrightarrow>
     (\<exists>u. m \<lparr>world = world s, obj = x, events = events s\<rparr> = (Ret y, u) \<and> t = \<lparr>world = world u, obj = (), events = events u\<rparr>)"
  by (auto simp: with_obj_def split: prod.splits)


lemma on_world_eq_Ret [run_simps]:
  "on_world m s = (Ret x, t) \<longleftrightarrow> (\<exists>w. m (world s) = (Ret x, w) \<and> t = s\<lparr>world := w\<rparr>)"
  by (auto simp: on_world_app split: prod.splits)

lemma reads_eq_Ret [run_simps]: "reads f s = (Ret x, t) \<longleftrightarrow> x = f s \<and> t = s"
  by auto

lemma return_eq_Ret [run_simps]: "return y s = (Ret x, t) \<longleftrightarrow> x = y \<and> t = s"
  by auto


subsection \<open>The four controllers\<close>



text \<open>Virtual machines: the machine runs, or a failure that is final was reported.\<close>

definition vm_goal :: "string list \<Rightarrow> AzureStackHCIVirtualMachineStatus \<Rightarrow> bool" where
  "vm_goal fs st \<longleftrightarrow> vmst_FailureReason st \<noteq> None \<or> vmst_FailureMessage st \<noteq> None \<or>
     VirtualMachineFinalizer \<in> set fs \<and> vmst_Ready st \<and> vmst_VMState st = Some VMStateSucceeded"

abbreviation "vm_settled \<equiv> settled VirtualMachineFinalizer hvm_Meta vm_goal hvm_Status"




text \<open>Machines: the finalizer is registered; whether to go on depends on others.\<close>

definition machine_goal :: "string list \<Rightarrow> AzureStackHCIMachineStatus \<Rightarrow> bool" where
  "machine_goal fs st \<longleftrightarrow> MachineFinalizer \<in> set fs"

abbreviation "machine_settled \<equiv> settled MachineFinalizer hm_Meta machine_goal hm_Status"

text \<open>Load balancers: the service is ready, on a known address.\<close>

definition lb_goal :: "string list \<Rightarrow> AzureStackHCILoadBalancerStatus \<Rightarrow> bool" where
  "lb_goal fs st \<longleftrightarrow> AzureStackHCILoadBalancerFinalizer \<in> set fs \<and> lbst_Ready st \<and> lbst_Address st \<noteq> []"

abbreviation "lb_settled \<equiv> settled AzureStackHCILoadBalancerFinalizer hlb_Meta lb_goal hlb_Status"

text \<open>Clusters: the infrastructure is marked as provisioned.\<close>

definition cluster_goal :: "string list \<Rightarrow> AzureStackHCIClusterStatus \<Rightarrow> bool" where
  "cluster_goal fs st \<longleftrightarrow> ClusterFinalizer \<in> set fs \<and> (\<exists>i. cst_Initialization st = Some i \<and> ci_Provisioned i = Some True)"

abbreviation "cluster_settled \<equiv> settled ClusterFinalizer hc_Meta cluster_goal hc_Status"











text \<open>
  The controllers of machines and load balancers look up the cluster and its infrastructure first,
  and they return quietly when the lookup fails, whatever the error is.  From \<open>w\<close>, the lookups of a
  machine or of a load balancer end in \<open>w'\<close> with such an error.
\<close>

definition machine_unread :: "'w kube \<Rightarrow> ObjectKey \<Rightarrow> 'w \<Rightarrow> 'w \<Rightarrow> bool" where
  "machine_unread K key w w' \<longleftrightarrow> (\<exists>m w1 machine w2 err. k_Get_HMachine K key w = (Ret (Inr m), w1) \<and>
     k_GetOwnerMachine K (hm_Meta m) w1 = (Ret (Inr (Some machine)), w2) \<and>
     (k_GetClusterFromMetadata K (ma_Meta machine) w2 = (Ret (Inl err), w') \<or>
      (\<exists>c w3. k_GetClusterFromMetadata K (ma_Meta machine) w2 = (Ret (Inr c), w3) \<and>
        k_Get_HCluster K (mkKey (om_Namespace (hm_Meta m)) (cl_InfrastructureRef_Name c)) w3 = (Ret (Inl err), w'))))"

definition lb_unread :: "'w kube \<Rightarrow> ObjectKey \<Rightarrow> 'w \<Rightarrow> 'w \<Rightarrow> bool" where
  "lb_unread K key w w' \<longleftrightarrow> (\<exists>lb w1 cluster w2 err. k_Get_LB K key w = (Ret (Inr lb), w1) \<and>
     k_GetOwnerCluster K (hlb_Meta lb) w1 = (Ret (Inr (Some cluster)), w2) \<and>
     k_Get_HCluster K (mkKey (om_Namespace (hlb_Meta lb)) (cl_InfrastructureRef_Name cluster)) w2 = (Ret (Inl err), w'))"

text \<open>A machine also waits, quietly, for its owner to be set.\<close>

definition machine_blind :: "'w kube \<Rightarrow> ObjectKey \<Rightarrow> 'w \<Rightarrow> bool" where
  "machine_blind K key w \<longleftrightarrow> (\<exists>w'. machine_unread K key w w') \<or>
     (\<exists>m w1 w2. k_Get_HMachine K key w = (Ret (Inr m), w1) \<and> k_GetOwnerMachine K (hm_Meta m) w1 = (Ret (Inr None), w2))"

definition lb_blind :: "'w kube \<Rightarrow> ObjectKey \<Rightarrow> 'w \<Rightarrow> bool" where
  "lb_blind K key w \<longleftrightarrow> (\<exists>w'. lb_unread K key w w')"





subsection \<open>Properties\<close>








text \<open>
  C28: Where work is dropped.  Whatever the error is, a transient one of the API server included: a
  machine whose cluster or cluster infrastructure cannot be read, and a load balancer whose cluster
  infrastructure cannot be read, are left as they are, and their requests leave the queue as if
  there were nothing to do.  The read of a load balancer's owner cluster is different: its error is
  returned, and the request stays.
\<close>

theorem lookup_failure_drops_request:
  "(machine_unread K mkey (world s) w \<longrightarrow>
     queue_step (Machine_Reconcile L S K mkey) stored (machine_blind K mkey) (s, True, b) (s\<lparr>world := w\<rparr>, False, True)) \<and>
   (lb_unread K lkey (world t) v \<longrightarrow>
     queue_step (LB_Reconcile L S M K lkey) stored' (lb_blind K lkey) (t, True, b') (t\<lparr>world := v\<rparr>, False, True)) \<and>
   (\<forall>lb err u1 u2. k_Get_LB K lkey (world u) = (Ret (Inr lb), u1) \<and> k_GetOwnerCluster K (hlb_Meta lb) u1 = (Ret (Inl err), u2) \<longrightarrow>
     queue_step (LB_Reconcile L S M K lkey) stored' (lb_blind K lkey) (u, True, b'') (u\<lparr>world := u2\<rparr>, True, False))"
proof (intro conjI impI allI)
  assume w: "machine_unread K mkey (world s) w"
  then have "Machine_Reconcile L S K mkey s = (Ret (noResult, None), s\<lparr>world := w\<rparr>)"
    by (auto simp: machine_unread_def Machine_Reconcile_def bind_on_world)
  moreover have "machine_blind K mkey (world s)" using w by (auto simp: machine_blind_def)
  ultimately
  show "queue_step (Machine_Reconcile L S K mkey) stored (machine_blind K mkey) (s, True, b) (s\<lparr>world := w\<rparr>, False, True)"
    using queue_step.process [of "Machine_Reconcile L S K mkey" s _ _ stored "machine_blind K mkey" b] by (fastforce simp: again_def)
next
  assume v: "lb_unread K lkey (world t) v"
  then have "LB_Reconcile L S M K lkey t = (Ret (noResult, None), t\<lparr>world := v\<rparr>)"
    by (auto simp: lb_unread_def LB_Reconcile_def bind_on_world)
  moreover have "lb_blind K lkey (world t)" using v by (auto simp: lb_blind_def)
  ultimately
  show "queue_step (LB_Reconcile L S M K lkey) stored' (lb_blind K lkey) (t, True, b') (t\<lparr>world := v\<rparr>, False, True)"
    using queue_step.process [of "LB_Reconcile L S M K lkey" t _ _ stored' "lb_blind K lkey" b'] by (fastforce simp: again_def)
next
  fix lb err u1 u2
  assume u: "k_Get_LB K lkey (world u) = (Ret (Inr lb), u1) \<and> k_GetOwnerCluster K (hlb_Meta lb) u1 = (Ret (Inl err), u2)"
  then have "LB_Reconcile L S M K lkey u = (Ret (noResult, Some err), u\<lparr>world := u2\<rparr>)" "\<not> lb_blind K lkey (world u)"
    by (auto simp: LB_Reconcile_def bind_on_world lb_blind_def lb_unread_def)
  then show "queue_step (LB_Reconcile L S M K lkey) stored' (lb_blind K lkey) (u, True, b'') (u\<lparr>world := u2\<rparr>, True, False)"
    using queue_step.process [of "LB_Reconcile L S M K lkey" u _ _ stored' "lb_blind K lkey" b''] by (fastforce simp: again_def)
qed

text \<open>An API server that times out on the cluster's infrastructure.\<close>

definition timeout_kube :: "unit kube" where
  "timeout_kube = kube0\<lparr>k_Get_HMachine := \<lambda>_. return (Inr hmachine0), k_GetOwnerMachine := \<lambda>_. return (Inr (Some machine0)),
     k_GetClusterFromMetadata := \<lambda>_. return (Inr cluster0), k_Get_LB := \<lambda>_. return (Inr (newLoadBalancer ''ns'' ''l'')),
     k_GetOwnerCluster := \<lambda>_. return (Inr (Some cluster0)), k_Get_HCluster := \<lambda>_. return (Inl (External ''Timeout''))\<rparr>"

theorem lookup_failure_drops_request_witness:
  "queue_step (Machine_Reconcile lib0 sys0 timeout_kube (mkKey ''ns'' ''m'')) (\<lambda>_. Some hmachine0) (machine_blind timeout_kube (mkKey ''ns'' ''m''))
     (\<lparr>world = (), obj = (), events = []\<rparr>, True, False) (\<lparr>world = (), obj = (), events = []\<rparr>, False, True) \<and>
   queue_step (LB_Reconcile lib0 sys0 moc0 timeout_kube (mkKey ''ns'' ''l'')) (\<lambda>_. Some (newLoadBalancer ''ns'' ''l''))
     (lb_blind timeout_kube (mkKey ''ns'' ''l''))
     (\<lparr>world = (), obj = (), events = []\<rparr>, True, False) (\<lparr>world = (), obj = (), events = []\<rparr>, False, True)"
proof -
  have "machine_unread timeout_kube (mkKey ''ns'' ''m'') () ()" "lb_unread timeout_kube (mkKey ''ns'' ''l'') () ()"
    by (simp_all add: machine_unread_def lb_unread_def timeout_kube_def)
  with lookup_failure_drops_request [of timeout_kube "mkKey ''ns'' ''m''" "\<lparr>world = (), obj = (), events = []\<rparr>" "()" lib0 sys0
      "\<lambda>_. Some hmachine0" False "mkKey ''ns'' ''l''" "\<lparr>world = (), obj = (), events = []\<rparr>" "()" moc0
      "\<lambda>_. Some (newLoadBalancer ''ns'' ''l'')" False]
  show ?thesis by simp
qed

end
