(* ===== verification/Convergence.thy ===== *)
theory Convergence
  imports VMController LBController ClusterController
begin

text \<open>
  A reconcile that succeeded has nothing more to do in the cloud: the next one finds what the first
  one made and changes nothing, whatever happened in between, as long as the resources are there.
\<close>

subsection \<open>A cloud that finds what is there\<close>

type_synonym cloud_resource = "kind \<times> string \<times> string"

text \<open>
  A query keeps what exists; it succeeds on what exists, and when it succeeds it returns something
  that exists.  A creation that succeeds makes its resource exist.
\<close>

definition finds :: "('w \<Rightarrow> cloud_resource set) \<Rightarrow> cloud_resource \<Rightarrow> ('w, goerror + 'r list) io \<Rightarrow> bool" where
  "finds existing x get \<longleftrightarrow> (\<forall>w r w'. get w = (r, w') \<longrightarrow> existing w \<subseteq> existing w' \<and>
     (x \<in> existing w \<longrightarrow> (\<exists>vs. r = Ret (Inr vs))) \<and> (\<forall>vs. r = Ret (Inr vs) \<longrightarrow> vs \<noteq> [] \<and> x \<in> existing w'))"

definition makes :: "('w \<Rightarrow> cloud_resource set) \<Rightarrow> cloud_resource \<Rightarrow> ('w, goerror option) io \<Rightarrow> bool" where
  "makes existing x create \<longleftrightarrow> (\<forall>w r w'. create w = (r, w') \<longrightarrow> existing w \<subseteq> existing w' \<and>
     (r = Ret None \<longrightarrow> x \<in> existing w'))"

definition cloud_finds :: "'w moc \<Rightarrow> ('w \<Rightarrow> cloud_resource set) \<Rightarrow> bool" where
  "cloud_finds M existing \<longleftrightarrow>
     (\<forall>l n. finds existing (KGroup, l, n) (m_Get_Group M l n)) \<and> (\<forall>l n x. makes existing (KGroup, l, n) (m_Create_Group M l n x)) \<and>
     (\<forall>l n. finds existing (KKeyVault, l, n) (m_Get_KeyVault M l n)) \<and>
     (\<forall>l n x. makes existing (KKeyVault, l, n) (m_Create_KeyVault M l n x)) \<and>
     (\<forall>l n. finds existing (KVNet, l, n) (m_Get_VNet M l n)) \<and> (\<forall>l n x. makes existing (KVNet, l, n) (m_Create_VNet M l n x)) \<and>
     (\<forall>l n. finds existing (KLB, l, n) (m_Get_LB M l n)) \<and> (\<forall>l n x. makes existing (KLB, l, n) (m_Create_LB M l n x)) \<and>
     (\<forall>l n. finds existing (KVM, l, n) (m_Get_VM M l n)) \<and>
     (\<forall>w. \<exists>r w'. m_GetVersion M w = (Ret r, w') \<and> existing w \<subseteq> existing w')"

text \<open>Recording the calls of such a cloud keeps it one.\<close>

lemma finds_traced: "finds existing x get \<Longrightarrow> finds (\<lambda>s. existing (fst s)) x (record_call get c)"
  unfolding finds_def record_call_def by (fastforce split: prod.splits res.splits)

lemma makes_traced: "makes existing x create \<Longrightarrow> makes (\<lambda>s. existing (fst s)) x (record_call create c)"
  unfolding makes_def record_call_def by (fastforce split: prod.splits res.splits)

lemma cloud_finds_Get:
  assumes "cloud_finds M existing"
  shows "finds existing (KGroup, l, n) (m_Get_Group M l n)" "finds existing (KKeyVault, l, n) (m_Get_KeyVault M l n)"
    "finds existing (KVNet, l, n) (m_Get_VNet M l n)" "finds existing (KLB, l, n) (m_Get_LB M l n)"
    "finds existing (KVM, l, n) (m_Get_VM M l n)"
  using assms by (simp_all add: cloud_finds_def)

lemma cloud_finds_Create:
  assumes "cloud_finds M existing"
  shows "makes existing (KGroup, l, n) (m_Create_Group M l n g)" "makes existing (KKeyVault, l, n) (m_Create_KeyVault M l n k)"
    "makes existing (KVNet, l, n) (m_Create_VNet M l n v)" "makes existing (KLB, l, n) (m_Create_LB M l n b)"
  using assms by (simp_all add: cloud_finds_def)

lemma cloud_finds_log: "cloud_finds M existing \<Longrightarrow> \<exists>r w'. m_GetVersion M w = (Ret r, w') \<and> existing w \<subseteq> existing w'"
  by (simp add: cloud_finds_def)

lemma cloud_finds_traced:
  assumes "cloud_finds M existing"
  shows "cloud_finds (traced M) (\<lambda>s. existing (fst s))"
proof -
  have "\<exists>r s'. m_GetVersion (traced M) s = (Ret r, s') \<and> existing (fst s) \<subseteq> existing (fst s')" for s
    using cloud_finds_log [OF assms, of "fst s"] by (cases s) (auto simp: traced_def record_call_def)
  then show ?thesis
    using finds_traced [OF cloud_finds_Get(1) [OF assms]] finds_traced [OF cloud_finds_Get(2) [OF assms]]
      finds_traced [OF cloud_finds_Get(3) [OF assms]] finds_traced [OF cloud_finds_Get(4) [OF assms]]
      finds_traced [OF cloud_finds_Get(5) [OF assms]]
      makes_traced [OF cloud_finds_Create(1) [OF assms]] makes_traced [OF cloud_finds_Create(2) [OF assms]]
      makes_traced [OF cloud_finds_Create(3) [OF assms]] makes_traced [OF cloud_finds_Create(4) [OF assms]]
    by (simp add: cloud_finds_def traced_def)
qed

subsection \<open>The services\<close>

text \<open>Nothing changes in a world where the resources \<open>X\<close> exist.\<close>

definition steady :: "('w \<Rightarrow> cloud_resource set) \<Rightarrow> cloud_resource set \<Rightarrow> moc_call list \<Rightarrow> 'w \<times> moc_call list \<Rightarrow> bool" where
  "steady existing X tr s \<longleftrightarrow> X \<subseteq> existing (fst s) \<and> changes s = tr"

lemma steady_Get:
  assumes "finds existing x get" "x \<in> X" "\<And>r. \<not> is_change (c r)"
  shows "up (steady existing X tr) (record_call get c) (\<lambda>r. \<exists>vs. r = Inr vs \<and> vs \<noteq> [])"
  unfolding up_def steady_def
proof (intro allI impI)
  fix s assume s: "X \<subseteq> existing (fst s) \<and> changes s = tr"
  obtain r w where run: "get (fst s) = (r, w)" by fastforce
  with assms(1,2) s obtain vs where "r = Ret (Inr vs)" "vs \<noteq> []" "existing (fst s) \<subseteq> existing w"
    unfolding finds_def by blast
  with run s assms(3) show "\<exists>y s'. record_call get c s = (Ret y, s') \<and> (X \<subseteq> existing (fst s') \<and> changes s' = tr) \<and> (\<exists>vs. y = Inr vs \<and> vs \<noteq> [])"
    by (cases s) (auto simp: record_call_def)
qed

lemma steady_log:
  assumes "cloud_finds M existing"
  shows "up (steady existing X tr) (WriteMocInfoLog (traced M)) (\<lambda>_. True)"
proof -
  have "up (steady existing X tr) (m_GetVersion (traced M)) (\<lambda>_. True)"
    unfolding up_def steady_def
  proof (intro allI impI)
    fix s assume s: "X \<subseteq> existing (fst s) \<and> changes s = tr"
    obtain r w where "m_GetVersion M (fst s) = (Ret r, w)" "existing (fst s) \<subseteq> existing w"
      using cloud_finds_log [OF assms, of "fst s"] by blast
    with s show "\<exists>y s'. m_GetVersion (traced M) s = (Ret y, s') \<and> (X \<subseteq> existing (fst s') \<and> changes s' = tr) \<and> True"
      by (cases s) (auto simp: traced_def record_call_def)
  qed
  then show ?thesis
    unfolding WriteMocInfoLog_def versions_Get_def bind_assoc
    by (rule up_any, intro up_any) (auto intro!: up_rules)
qed

text \<open>
  Every \<open>Reconcile\<close> of a service logs, looks the resource up and creates it if the lookup fails.
\<close>

abbreviation ensure :: "'w moc \<Rightarrow> ('w, goerror + 'r) io \<Rightarrow> ('w, goerror option) io \<Rightarrow> ('w, goerror option) io" where
  "ensure M lookup create \<equiv> bind (WriteMocInfoLog M) (\<lambda>_. bind lookup (\<lambda>r. case r of Inr _ \<Rightarrow> return None | Inl _ \<Rightarrow> bind create return))"

lemma service_shapes:
  "virtualnetworks_Reconcile M (Some v) = ensure M (virtualnetworks_Get M (Some v)) (m_Create_VNet M (vnspec_Group v) (vnspec_Name v)
     \<lparr>vn_Name = Some (vnspec_Name v), vn_Type = Some ''Transparent'', vn_AddressPrefixes = [vnspec_CIDR v], vn_Tags = [(OWNER, Some CAPH)]\<rparr>)"
  "groups_Reconcile M (Some g) = ensure M (groups_Get M (Some g)) (groups_Create M g)"
  "keyvaults_Reconcile M rg (Some k) = ensure M (keyvaults_Get M rg (Some k)) (m_Create_KeyVault M rg (vault_Name k) \<lparr>kv_Name = Some (vault_Name k)\<rparr>)"
  "loadbalancers_Reconcile M rg (Some b) = ensure M (loadbalancers_Get M rg (Some b)) (m_Create_LB M rg (lbspec_Name b) (lb_networkLB b))"
  by (simp_all add: virtualnetworks_Reconcile_def groups_Reconcile_def keyvaults_Reconcile_def loadbalancers_Reconcile_def cong: sum.case_cong)

lemma ensure_steady:
  assumes "cloud_finds M existing" "up (steady existing X tr) lookup (\<lambda>r. \<exists>y. r = Inr y)"
  shows "up (steady existing X tr) (ensure (traced M) lookup create) (\<lambda>e. e = None)"
  by (rule up_any [OF steady_log [OF assms(1)]], rule up_bind [OF assms(2)]) (auto intro!: up_rules)

lemma services_steady:
  assumes "cloud_finds M existing"
  shows "(KVNet, vnspec_Group v, vnspec_Name v) \<in> X \<Longrightarrow> up (steady existing X tr) (virtualnetworks_Reconcile (traced M) (Some v)) (\<lambda>e. e = None)"
    "(KGroup, group_Location g, group_Name g) \<in> X \<Longrightarrow> up (steady existing X tr) (groups_Reconcile (traced M) (Some g)) (\<lambda>e. e = None)"
    "(KKeyVault, rg, vault_Name k) \<in> X \<Longrightarrow> up (steady existing X tr) (keyvaults_Reconcile (traced M) rg (Some k)) (\<lambda>e. e = None)"
    "(KLB, rg, lbspec_Name b) \<in> X \<Longrightarrow> up (steady existing X tr) (loadbalancers_Reconcile (traced M) rg (Some b)) (\<lambda>e. e = None)"
proof -
  note get = steady_Get [OF cloud_finds_Get(1) [OF assms]] steady_Get [OF cloud_finds_Get(2) [OF assms]]
    steady_Get [OF cloud_finds_Get(3) [OF assms]] steady_Get [OF cloud_finds_Get(4) [OF assms]]
  show "up (steady existing X tr) (virtualnetworks_Reconcile (traced M) (Some v)) (\<lambda>e. e = None)" if "(KVNet, vnspec_Group v, vnspec_Name v) \<in> X"
    unfolding service_shapes
    by (rule ensure_steady [OF assms]) (auto simp: virtualnetworks_Get_def traced_def intro!: up_rules up_bind [OF get(3)] that)
  show "up (steady existing X tr) (groups_Reconcile (traced M) (Some g)) (\<lambda>e. e = None)" if "(KGroup, group_Location g, group_Name g) \<in> X"
    unfolding service_shapes
    by (rule ensure_steady [OF assms]) (auto simp: groups_Get_def traced_def intro!: up_rules up_bind [OF get(1)] that split: list.split)
  show "up (steady existing X tr) (keyvaults_Reconcile (traced M) rg (Some k)) (\<lambda>e. e = None)" if "(KKeyVault, rg, vault_Name k) \<in> X"
    unfolding service_shapes
    by (rule ensure_steady [OF assms]) (auto simp: keyvaults_Get_def traced_def intro!: up_rules up_bind [OF get(2)] that split: list.split)
  show "up (steady existing X tr) (loadbalancers_Reconcile (traced M) rg (Some b)) (\<lambda>e. e = None)" if "(KLB, rg, lbspec_Name b) \<in> X"
    unfolding service_shapes
    by (rule ensure_steady [OF assms]) (auto simp: loadbalancers_Get_def traced_def intro!: up_rules up_bind [OF get(4)] that split: list.split)
qed

text \<open>The lookup of a service fails exactly if the query does.\<close>

definition looks_up :: "('w, goerror + 'r list) io \<Rightarrow> ('w, goerror + 'y) io \<Rightarrow> bool" where
  "looks_up get lookup \<longleftrightarrow> (\<forall>w r w'. lookup w = (Ret r, w') \<longrightarrow> (\<exists>q. get w = (Ret q, w') \<and> isl q = isl r))"

lemma service_lookups:
  "looks_up (m_Get_VNet M (vnspec_Group v) (vnspec_Name v)) (virtualnetworks_Get M (Some v))"
  "looks_up (m_Get_Group M (group_Location g) (group_Name g)) (groups_Get M (Some g))"
  "looks_up (m_Get_KeyVault M rg (vault_Name k)) (keyvaults_Get M rg (Some k))"
  "looks_up (m_Get_LB M rg (lbspec_Name b)) (loadbalancers_Get M rg (Some b))"
  by (auto simp: looks_up_def virtualnetworks_Get_def groups_Get_def keyvaults_Get_def loadbalancers_Get_def run_simps)

lemma ensure_made:
  assumes "cloud_finds M existing" "finds existing x get" "makes existing x create" "looks_up get lookup"
    and "ensure M lookup create w = (Ret None, w')"
  shows "insert x (existing w) \<subseteq> existing w'"
proof -
  obtain l u r v where log: "WriteMocInfoLog M w = (Ret l, u)" and lookup: "lookup u = (Ret r, v)"
      and rest: "isl r \<Longrightarrow> create v = (Ret None, w')" "\<not> isl r \<Longrightarrow> w' = v"
    using assms(5) by (fastforce simp: run_simps)
  have "existing w \<subseteq> existing u"
    using log cloud_finds_log [OF assms(1), of w] by (auto simp: WriteMocInfoLog_def versions_Get_def run_simps)
  moreover obtain q where "get u = (Ret q, v)" "isl q = isl r" using assms(4) lookup unfolding looks_up_def by blast
  then have "existing u \<subseteq> existing v" "\<not> isl r \<Longrightarrow> x \<in> existing v"
    using assms(2) by (cases q; fastforce simp: finds_def)+
  moreover have "isl r \<Longrightarrow> existing v \<subseteq> existing w' \<and> x \<in> existing w'"
    using assms(3) rest(1) unfolding makes_def by blast
  ultimately show ?thesis using rest(2) by (cases "isl r") auto
qed

lemma services_made:
  assumes "cloud_finds M existing"
  shows "virtualnetworks_Reconcile M (Some v) w = (Ret None, w') \<Longrightarrow> insert (KVNet, vnspec_Group v, vnspec_Name v) (existing w) \<subseteq> existing w'"
    "groups_Reconcile M (Some g) w = (Ret None, w') \<Longrightarrow> insert (KGroup, group_Location g, group_Name g) (existing w) \<subseteq> existing w'"
    "keyvaults_Reconcile M rg (Some k) w = (Ret None, w') \<Longrightarrow> insert (KKeyVault, rg, vault_Name k) (existing w) \<subseteq> existing w'"
    "loadbalancers_Reconcile M rg (Some b) w = (Ret None, w') \<Longrightarrow> insert (KLB, rg, lbspec_Name b) (existing w) \<subseteq> existing w'"
  unfolding service_shapes groups_Create_def
  by (fact ensure_made [OF assms cloud_finds_Get(3) [OF assms] cloud_finds_Create(3) [OF assms] service_lookups(1)]
      ensure_made [OF assms cloud_finds_Get(1) [OF assms] cloud_finds_Create(1) [OF assms] service_lookups(2)]
      ensure_made [OF assms cloud_finds_Get(2) [OF assms] cloud_finds_Create(2) [OF assms] service_lookups(3)]
      ensure_made [OF assms cloud_finds_Get(4) [OF assms] cloud_finds_Create(4) [OF assms] service_lookups(4)])+

subsection \<open>The controllers\<close>

definition cluster_resources :: "ClusterScope \<Rightarrow> AzureStackHCICluster \<Rightarrow> cloud_resource set" where
  "cluster_resources csc hc = {(KVNet, vnspec_Group (cluster_vnetSpec hc), vnspec_Name (cluster_vnetSpec hc)),
     (KGroup, ClusterScope_Location hc, ClusterScope_GetResourceGroup hc),
     (KKeyVault, ClusterScope_GetResourceGroup hc, ClusterScope_Name csc)}"

lemma createOrUpdateVnetName_idem: "createOrUpdateVnetName csc (createOrUpdateVnetName csc hc) = createOrUpdateVnetName csc hc"
  by (simp add: createOrUpdateVnetName_def ClusterScope_Vnet_def GenerateVnetName_def)

lemma clustersvc_made:
  assumes "cloud_finds M existing" "clustersvc_Reconcile M csc s = (Ret None, t)"
  shows "obj t = createOrUpdateVnetName csc (obj s)" "cluster_resources csc (obj t) \<subseteq> existing (world t)"
proof -
  let ?hc = "createOrUpdateVnetName csc (obj s)"
  obtain w1 w2 w3 where run: "virtualnetworks_Reconcile M (Some (cluster_vnetSpec ?hc)) (world s) = (Ret None, w1)"
      "groups_Reconcile M (Some (cluster_groupSpec ?hc)) w1 = (Ret None, w2)"
      "keyvaults_Reconcile M (ClusterScope_GetResourceGroup ?hc) (Some \<lparr>vault_Name = ClusterScope_Name csc\<rparr>) w2 = (Ret None, w3)"
      and t: "t = s\<lparr>obj := ?hc, world := w3\<rparr>"
    using assms(2) unfolding clustersvc_Reconcile_def Let_def
    by (auto simp: bind_on_world run_simps split: prod.splits res.splits option.splits)
  show "obj t = ?hc" using t by simp
  show "cluster_resources csc (obj t) \<subseteq> existing (world t)"
    using services_made(1) [OF assms(1) run(1)] services_made(2) [OF assms(1) run(2)] services_made(3) [OF assms(1) run(3)] t
    by (auto simp: cluster_resources_def cluster_groupSpec_def)
qed

lemma clustersvc_steady:
  assumes "cloud_finds M existing" "cluster_resources csc (createOrUpdateVnetName csc (obj s)) \<subseteq> existing (fst (world s))"
  shows "\<exists>u. clustersvc_Reconcile (traced M) csc s = (Ret None, u) \<and> changes (world u) = changes (world s)"
proof -
  let ?hc = "createOrUpdateVnetName csc (obj s)"
  let ?ok = "steady existing (cluster_resources csc ?hc) (changes (world s))"
  have mem: "(KVNet, vnspec_Group (cluster_vnetSpec ?hc), vnspec_Name (cluster_vnetSpec ?hc)) \<in> cluster_resources csc ?hc"
      "(KGroup, group_Location (cluster_groupSpec ?hc), group_Name (cluster_groupSpec ?hc)) \<in> cluster_resources csc ?hc"
      "(KKeyVault, ClusterScope_GetResourceGroup ?hc, vault_Name \<lparr>vault_Name = ClusterScope_Name csc\<rparr>) \<in> cluster_resources csc ?hc"
    by (simp_all add: cluster_resources_def cluster_groupSpec_def)
  have ok: "?ok (world s)" using assms(2) by (simp add: steady_def)
  obtain w1 where one: "virtualnetworks_Reconcile (traced M) (Some (cluster_vnetSpec ?hc)) (world s) = (Ret None, w1)" "?ok w1"
    using upD [OF services_steady(1) [OF assms(1) mem(1)] ok] by blast
  obtain w2 where two: "groups_Reconcile (traced M) (Some (cluster_groupSpec ?hc)) w1 = (Ret None, w2)" "?ok w2"
    using upD [OF services_steady(2) [OF assms(1) mem(2)] one(2)] by blast
  obtain w3 where three: "keyvaults_Reconcile (traced M) (ClusterScope_GetResourceGroup ?hc) (Some \<lparr>vault_Name = ClusterScope_Name csc\<rparr>) w2 = (Ret None, w3)" "?ok w3"
    using upD [OF services_steady(3) [OF assms(1) mem(3)] two(2)] by blast
  show ?thesis
    using one(1) two(1) three unfolding clustersvc_Reconcile_def Let_def
    by (simp add: bind_on_world bind_upd_obj bind_reads steady_def)
qed

lemma reconcileLoadBalancerService_made:
  assumes "cloud_finds M existing" "reconcileLoadBalancerService M csc s = (Ret None, t)"
  shows "om_Name (hlb_Meta (obj t)) = om_Name (hlb_Meta (obj s))"
    "(KLB, ClusterScope_GetResourceGroup (csc_before csc), om_Name (hlb_Meta (obj t))) \<in> existing (world t)"
  using assms(2) unfolding reconcileLoadBalancerService_def Let_def
  by (auto simp: run_simps on_world_app LBScope_SetPort_def lb_status_def dest!: services_made(4) [OF assms(1)] split: prod.splits)

lemma reconcileLoadBalancerService_steady:
  assumes "cloud_finds M existing"
    and "(KLB, ClusterScope_GetResourceGroup (csc_before csc), om_Name (hlb_Meta (obj s))) \<in> existing (fst (world s))"
  shows "\<exists>u. reconcileLoadBalancerService (traced M) csc s = (Ret None, u) \<and> changes (world u) = changes (world s)"
proof -
  let ?x = "(KLB, ClusterScope_GetResourceGroup (csc_before csc), om_Name (hlb_Meta (obj s)))"
  have ok: "steady existing {?x} (changes (world s)) (world s)"
    using assms(2) by (simp add: steady_def)
  let ?b = "\<lparr>lbspec_Name = om_Name (hlb_Meta (obj s)),
     lbspec_BackendPoolName = GenerateControlPlaneBackendPoolName (ClusterScope_Name csc),
     lbspec_VnetName = vnet_Name (net_Vnet (cs_NetworkSpec (hc_Spec (csc_before csc)))),
     lbspec_FrontendPort = LBScope_GetPort (LBScope_SetPort (ClusterScope_APIServerPort csc) (obj s)),
     lbspec_BackendPort = ClusterScope_APIServerPort csc, lbspec_Tags = [(LBRoleTagName, Some LBRoleAksHciApiServer)]\<rparr>"
  have "(KLB, ClusterScope_GetResourceGroup (csc_before csc), lbspec_Name ?b) \<in> {?x}" by simp
  from upD [OF services_steady(4) [OF assms(1) this] ok]
  obtain w where "loadbalancers_Reconcile (traced M) (ClusterScope_GetResourceGroup (csc_before csc)) (Some ?b) (world s) = (Ret None, w)"
      "changes w = changes (world s)" unfolding steady_def by blast
  moreover have "hlb_Meta (LBScope_SetPort p lb) = hlb_Meta lb" for p lb by (simp add: LBScope_SetPort_def lb_status_def)
  ultimately show ?thesis
    unfolding reconcileLoadBalancerService_def Let_def by (simp add: bind_on_world)
qed

lemma VM_getOrCreate_made:
  assumes "cloud_finds M existing" "VM_getOrCreate L S M s = (Ret (Inr vm), t)"
  shows "obj t = obj s" "(KVM, VMScope_GetResourceGroup (obj t), VMScope_Name (obj t)) \<in> existing (world t)"
proof -
  note finds = cloud_finds_Get(5) [OF assms(1), unfolded finds_def]
  show "obj t = obj s"
    using assms(2) unfolding VM_getOrCreate_def by (auto simp: run_simps on_world_app split: prod.splits)
  have got: "(KVM, rg, vmspec_Name spec) \<in> existing w'" if "virtualmachines_Get M rg (Some spec) w = (Ret (Some (VMPtr v), None), w')" for rg spec w v w'
    using that finds unfolding virtualmachines_Get_def by (fastforce simp: run_simps wrapf_def)
  have check: "(KVM, VMScope_GetResourceGroup m, vmspec_Name spec) \<in> existing w'" if "check_newVM L M m spec w = (Ret (Inr v), w')" for m spec w v w'
    using that unfolding check_newVM_def by (auto simp: run_simps dest!: got split: vm_interface.splits option.splits)
  have find: "(KVM, VMScope_GetResourceGroup m, VMScope_Name m) \<in> existing w'" if "findVM M m w = (Ret (Inr (Some v)), w')" for m w v w'
    using that unfolding findVM_def vmsvc_VMIfExists_def by (auto simp: run_simps namedSpec_def dest!: got split: vm_interface.splits option.splits)
  have make: "(KVM, VMScope_GetResourceGroup m, VMScope_Name m) \<in> existing w'" if "vmsvc_Create L S M m w = (Ret (Inr v), w')" for m w v w'
    using that unfolding vmsvc_Create_def createVirtualMachine_def Let_def
    by (auto simp: run_simps namedSpec_def vm_createSpec_def dest!: check split: option.splits)
  show "(KVM, VMScope_GetResourceGroup (obj t), VMScope_Name (obj t)) \<in> existing (world t)"
    using assms(2) unfolding VM_getOrCreate_def
    by (auto simp: run_simps on_world_app dest!: find make split: prod.splits)
qed

lemma VM_getOrCreate_steady:
  assumes "cloud_finds M existing" "(KVM, VMScope_GetResourceGroup (obj s), VMScope_Name (obj s)) \<in> existing (fst (world s))"
  shows "\<exists>vm u. VM_getOrCreate L S (traced M) s = (Ret (Inr vm), u) \<and> changes (world u) = changes (world s)"
proof -
  let ?x = "(KVM, VMScope_GetResourceGroup (obj s), VMScope_Name (obj s))"
  have ok: "steady existing {?x} (changes (world s)) (world s)" using assms(2) by (simp add: steady_def)
  note get = steady_Get [OF cloud_finds_Get(5) [OF assms(1)]]
  have "up (steady existing {?x} tr) (findVM (traced M) (obj s)) (\<lambda>r. \<exists>vm. r = Inr (Some vm))" for tr
    unfolding findVM_def vmsvc_VMIfExists_def virtualmachines_Get_def SDKToVM_def
    by (auto simp: traced_def namedSpec_def bind_assoc intro!: up_rules up_bind [OF get] split: list.split)
  from upD [OF this ok] show ?thesis
    unfolding VM_getOrCreate_def by (auto simp: bind_on_world steady_def)
qed

subsection \<open>Properties\<close>

text \<open>
  A run converges if, after it went well, running it again goes well and calls nothing that changes
  the cloud, from every later state that has the same object and has lost no resource.
\<close>

definition converges :: "('w \<Rightarrow> cloud_resource set) \<Rightarrow> (('w \<times> moc_call list, 'o) rstate, 'a) io \<Rightarrow> ('a \<Rightarrow> bool) \<Rightarrow> bool" where
  "converges existing run good \<longleftrightarrow> (\<forall>s r t t'. run s = (Ret r, t) \<and> good r \<and> obj t' = obj t \<and>
      existing (fst (world t)) \<subseteq> existing (fst (world t')) \<longrightarrow>
    (\<exists>r' u. run t' = (Ret r', u) \<and> good r' \<and> changes (world u) = changes (world t')))"

lemma convergesI:
  fixes run :: "(('w \<times> moc_call list, 'o) rstate, 'a) io"
  assumes "\<And>s r t. run s = (Ret r, t) \<Longrightarrow> good r \<Longrightarrow> needs (obj t) \<subseteq> existing (fst (world t))"
    and "\<And>s. needs (obj s) \<subseteq> existing (fst (world s)) \<Longrightarrow>
      \<exists>r u. run s = (Ret r, u) \<and> good r \<and> changes (world u) = changes (world s)"
  shows "converges existing run good"
  unfolding converges_def
proof (intro allI impI, elim conjE)
  fix s r t and t' :: "('w \<times> moc_call list, 'o) rstate"
  assume "run s = (Ret r, t)" "good r" "obj t' = obj t" "existing (fst (world t)) \<subseteq> existing (fst (world t'))"
  with assms(1) [of s r t] have "needs (obj t') \<subseteq> existing (fst (world t'))" by auto
  then show "\<exists>r u. run t' = (Ret r, u) \<and> good r \<and> changes (world u) = changes (world t')" by (rule assms(2))
qed

text \<open>
  C27: Reconciling converges.  Once the network, group and key vault of a cluster, the load balancer
  service or a virtual machine have been reconciled successfully, reconciling them again succeeds
  and neither creates nor deletes anything, as long as the cloud finds what is there.
\<close>

theorem reconciles_converge:
  assumes "cloud_finds M existing"
  shows "converges existing (clustersvc_Reconcile (traced M) csc) (\<lambda>e. e = None) \<and>
    converges existing (reconcileLoadBalancerService (traced M) csc) (\<lambda>e. e = None) \<and>
    converges existing (VM_getOrCreate L S (traced M)) (\<lambda>r. \<not> isl r)"
proof (intro conjI)
  note traced = cloud_finds_traced [OF assms]
  show "converges existing (clustersvc_Reconcile (traced M) csc) (\<lambda>e. e = None)"
  proof (rule convergesI [where needs = "\<lambda>hc. cluster_resources csc (createOrUpdateVnetName csc hc)"])
    show "cluster_resources csc (createOrUpdateVnetName csc (obj t)) \<subseteq> existing (fst (world t))"
      if "clustersvc_Reconcile (traced M) csc s = (Ret r, t)" "r = None" for s r t
      using clustersvc_made [OF traced that(1) [unfolded that(2)]] by (simp add: createOrUpdateVnetName_idem)
  qed (use clustersvc_steady [OF assms] in blast)
  show "converges existing (reconcileLoadBalancerService (traced M) csc) (\<lambda>e. e = None)"
    by (rule convergesI [where needs = "\<lambda>lb. {(KLB, ClusterScope_GetResourceGroup (csc_before csc), om_Name (hlb_Meta lb))}"])
      (use reconcileLoadBalancerService_made(2) [OF traced] reconcileLoadBalancerService_steady [OF assms] in auto)
  show "converges existing (VM_getOrCreate L S (traced M)) (\<lambda>r. \<not> isl r)"
  proof (rule convergesI [where needs = "\<lambda>m. {(KVM, VMScope_GetResourceGroup m, VMScope_Name m)}"])
    show "{(KVM, VMScope_GetResourceGroup (obj t), VMScope_Name (obj t))} \<subseteq> existing (fst (world t))"
      if "VM_getOrCreate L S (traced M) s = (Ret r, t)" "\<not> isl r" for s r t
      using that VM_getOrCreate_made(2) [OF traced] by (cases r) auto
  qed (use VM_getOrCreate_steady [OF assms] in fastforce)
qed

text \<open>A cloud that keeps the set of its resources.\<close>

definition set_moc :: "cloud_resource set moc" where
  "set_moc = (let create = (\<lambda>k l n w. (Ret None, insert (k, l, n) w))
     in moc0\<lparr>
       m_Get_Group := \<lambda>l n w. (Ret (if (KGroup, l, n) \<in> w then Inr [\<lparr>g_Name = Some n, g_Location = Some l, g_Tags = []\<rparr>] else Inl (External ''NotFound'')), w),
       m_Create_Group := \<lambda>l n _. create KGroup l n,
       m_Get_KeyVault := \<lambda>l n w. (Ret (if (KKeyVault, l, n) \<in> w then Inr [\<lparr>kv_Name = Some n\<rparr>] else Inl (External ''NotFound'')), w),
       m_Create_KeyVault := \<lambda>l n _. create KKeyVault l n,
       m_Get_VNet := \<lambda>l n w. (Ret (if (KVNet, l, n) \<in> w then Inr [zeroVirtualNetwork] else Inl (External ''NotFound'')), w),
       m_Create_VNet := \<lambda>l n _. create KVNet l n,
       m_Get_LB := \<lambda>l n w. (Ret (if (KLB, l, n) \<in> w then Inr [\<lparr>nlb_Name = Some n, nlb_Properties = None, nlb_Tags = []\<rparr>] else Inl (External ''NotFound'')), w),
       m_Create_LB := \<lambda>l n _. create KLB l n,
       m_Get_VM := \<lambda>l n w. (Ret (if (KVM, l, n) \<in> w then Inr [\<lparr>sdk_ID = None, sdk_Name = Some n, sdk_Properties = None\<rparr>]
         else Inl (External ''NotFound'')), w),
       m_Create_VM := \<lambda>l n _. create KVM l n\<rparr>)"

lemma set_moc_finds: "cloud_finds set_moc (\<lambda>w. w)"
  by (auto simp: cloud_finds_def finds_def makes_def set_moc_def Let_def moc0_def)

text \<open>The cluster after its first reconcile, which made three resources.\<close>

definition cluster_once :: "(cloud_resource set \<times> moc_call list, AzureStackHCICluster) rstate" where
  "cluster_once = snd (clustersvc_Reconcile (traced set_moc) csc0 \<lparr>world = ({}, []), obj = hcluster0, events = []\<rparr>)"

theorem reconciles_converge_witness:
  "length (changes (world cluster_once)) = 3 \<and>
   (\<exists>r u. clustersvc_Reconcile (traced set_moc) csc0 cluster_once = (Ret r, u) \<and> r = None \<and>
     changes (world u) = changes (world cluster_once))"
proof
  show "length (changes (world cluster_once)) = 3" by code_simp
  have first: "clustersvc_Reconcile (traced set_moc) csc0 \<lparr>world = ({}, []), obj = hcluster0, events = []\<rparr> = (Ret None, cluster_once)"
    unfolding cluster_once_def prod_eq_iff by (simp, code_simp)
  from reconciles_converge [OF set_moc_finds, of csc0 lib0 sys0]
  have "converges (\<lambda>w. w) (clustersvc_Reconcile (traced set_moc) csc0) (\<lambda>e. e = None)" by blast
  with first show "\<exists>r u. clustersvc_Reconcile (traced set_moc) csc0 cluster_once = (Ret r, u) \<and> r = None \<and>
     changes (world u) = changes (world cluster_once)"
    unfolding converges_def by blast
qed

end
