(* ===== verification/LBReplicas.thy ===== *)
theory LBReplicas
  imports LBMachines
begin

text \<open>
  The replicas of a load balancer under one reconcile: an abstract policy on the numbers of outdated
  and current replicas, what the policy needs of the API server, the cloud and the random names
  (\<open>replica_env\<close>), and the proof that one run of \<open>LB_reconcileVirtualMachines\<close> carries out one step
  of the policy.
\<close>

subsection \<open>The policy\<close>

record rollout =
  ro_old :: nat
  ro_new :: nat
  ro_want :: nat

definition ro_finished :: "rollout \<Rightarrow> bool" where
  "ro_finished r \<longleftrightarrow> ro_old r = 0 \<and> ro_new r = ro_want r"

text \<open>
  Too few replicas: add one.  Too many: remove one, an outdated one if there is any.  The right
  number, but outdated ones among them: add one more, so that the next step can remove one.
\<close>

definition ro_step :: "rollout \<Rightarrow> rollout" where
  "ro_step r = (let n = ro_old r + ro_new r in
     if n < ro_want r then r\<lparr>ro_new := ro_new r + 1\<rparr>
     else if n > ro_want r
     then (if ro_old r > 0 then r\<lparr>ro_old := ro_old r - 1\<rparr> else r\<lparr>ro_new := ro_new r - 1\<rparr>)
     else if ro_old r > 0 then r\<lparr>ro_new := ro_new r + 1\<rparr>
     else r)"

text \<open>How many steps are left, at most.\<close>

definition ro_left :: "rollout \<Rightarrow> nat" where
  "ro_left r = (let n = ro_old r + ro_new r in
     if n > ro_want r then 2 * ro_old r + (n - ro_want r)
     else 2 * ro_old r + (if ro_old r > 0 then 2 else 0) + (ro_want r - n))"

lemma ro_step_want [simp]: "ro_want (ro_step r) = ro_want r"
  by (simp add: ro_step_def Let_def)

lemma ro_step_less: "\<not> ro_finished r \<Longrightarrow> ro_left (ro_step r) < ro_left r"
  by (auto simp: ro_step_def ro_left_def ro_finished_def Let_def)

lemma ro_step_finished: "ro_finished r \<Longrightarrow> ro_step r = r"
  by (simp add: ro_step_def ro_finished_def Let_def)

lemma ro_steps_finished: "ro_left r \<le> n \<Longrightarrow> ro_finished ((ro_step ^^ n) r)"
proof (induction n arbitrary: r)
  case 0
  then show ?case using ro_step_less [of r] by auto
next
  case (Suc n)
  have "ro_left (ro_step r) \<le> n \<or> ro_finished r" using Suc.prems ro_step_less [of r] by auto
  moreover have "(ro_step ^^ m) r = r" if "ro_finished r" for m
    using that by (induction m) (simp_all add: ro_step_finished)
  ultimately show ?case using Suc.IH [of "ro_step r"] by (auto simp: funpow_swap1 simp del: funpow.simps)
      (simp add: funpow_swap1 [symmetric])
qed

text \<open>At no time are there fewer replicas than before or than wanted, whichever is less.\<close>

lemma ro_step_total:
  "min (ro_old r + ro_new r) (ro_want r) \<le> ro_old (ro_step r) + ro_new (ro_step r)"
  "ro_old (ro_step r) + ro_new (ro_step r) \<le> max (ro_old r + ro_new r) (ro_want r + 1)"
  by (auto simp: ro_step_def Let_def)

subsection \<open>The environment of a rollout\<close>

abbreviation vm_name :: "AzureStackHCIVirtualMachine \<Rightarrow> string" where
  "vm_name vm \<equiv> om_Name (hvm_Meta vm)"

text \<open>
  What a rollout needs of the API server, the cloud and the random names.  \<open>machines\<close> are the
  machines of the load balancer that are not being deleted.  Listing finds them, creating an object
  under a new name adds it, updating replaces the object of that name, deleting takes it out, and below
  \<open>cap\<close> machines the next random name is a new one.  The cloud may fail to find the load balancer
  service, or report any number of ready replicas; a service that it finds has a frontend address.
\<close>

definition replica_env :: "'w sys \<Rightarrow> 'w moc \<Rightarrow> 'w kube \<Rightarrow> ClusterScope \<Rightarrow> string \<Rightarrow>
    ('w \<Rightarrow> AzureStackHCIVirtualMachine list) \<Rightarrow> nat \<Rightarrow> bool" where
  "replica_env S M K csc lbname machines cap \<longleftrightarrow>
     (\<forall>w. \<exists>items w'. k_List_VMs K (ClusterScope_Namespace csc) [(LoadBalancerLabel, lbname)] w = (Ret (Inr items), w') \<and>
        not_deleted [] items = machines w \<and> machines w' = machines w \<and>
        fst (m_Get_LB M (ClusterScope_GetResourceGroup (csc_before csc)) lbname w') =
          fst (m_Get_LB M (ClusterScope_GetResourceGroup (csc_before csc)) lbname w)) \<and>
     (\<forall>w. length (machines w) < cap \<longrightarrow> (\<exists>n w'. GenerateAzureStackHCILoadBalancerMachineName S lbname w = (Ret (n, None), w') \<and>
        machines w' = machines w \<and> n \<notin> vm_name ` set (machines w))) \<and>
     (\<forall>vm f w vm'. om_Namespace (hvm_Meta vm) = ClusterScope_Namespace csc \<and>
        vm_name vm \<notin> vm_name ` set (machines w) \<and> f vm w = (Ret (None, vm'), w) \<and>
        map_get (om_Labels (hvm_Meta vm')) LoadBalancerLabel = lbname \<and> DeletionTimestamp_IsZero (hvm_Meta vm') \<longrightarrow>
        (\<exists>r w'. k_CreateOrUpdate_VM K vm f w = (Ret (r, None, vm'), w') \<and>
          mset (machines w') = add_mset vm' (mset (machines w)))) \<and>
     (\<forall>vm w. vm_name vm \<in> vm_name ` set (machines w) \<and> DeletionTimestamp_IsZero (hvm_Meta vm) \<longrightarrow>
        (\<exists>w'. k_Update_VM K vm w = (Ret (None, vm), w') \<and>
        mset (machines w') = image_mset (\<lambda>x. if vm_name x = vm_name vm then vm else x) (mset (machines w)))) \<and>
     (\<forall>vm w. vm_name vm \<in> vm_name ` set (machines w) \<longrightarrow> (\<exists>w'. k_Delete_VM K vm w = (Ret None, w') \<and>
        mset (machines w') = filter_mset (\<lambda>x. vm_name x \<noteq> vm_name vm) (mset (machines w)))) \<and>
     (\<forall>w. \<exists>r w'. m_Get_LB M (ClusterScope_GetResourceGroup (csc_before csc)) lbname w = (Ret r, w') \<and>
        machines w' = machines w \<and> (\<forall>lbs. r = Inr lbs \<longrightarrow> (\<exists>lb rest p a. lbs = lb # rest \<and>
          nlb_Properties lb = Some p \<and> lb_frontend_address p = Some a)))"

text \<open>The number of ready replicas that a reconcile goes by: what the cloud reports, or what was known before.\<close>

definition ready_replicas :: "'w moc \<Rightarrow> ClusterScope \<Rightarrow> AzureStackHCILoadBalancer \<Rightarrow> 'w \<Rightarrow> int" where
  "ready_replicas M csc lb w = (case fst (m_Get_LB M (ClusterScope_GetResourceGroup (csc_before csc)) (LBScope_Name lb) w) of
      Ret (Inr (l # _)) \<Rightarrow> (case nlb_Properties l of
         Some p \<Rightarrow> sint (word_of_int (lbp_ReplicationCount p) :: int32)
       | None \<Rightarrow> sint (LBScope_GetReadyReplicas lb))
    | _ \<Rightarrow> sint (LBScope_GetReadyReplicas lb))"

text \<open>
  When a round has to wait: some replica is not ready, and it is one that an upgrade or a scale-up is
  waiting for, or there are no more replicas than desired.
\<close>

definition waits :: "lib \<Rightarrow> 'w moc \<Rightarrow> ClusterScope \<Rightarrow> ('w \<Rightarrow> AzureStackHCIVirtualMachine list) \<Rightarrow>
    ('w, AzureStackHCILoadBalancer) rstate \<Rightarrow> bool" where
  "waits L M csc machines s \<longleftrightarrow> ready_replicas M csc (obj s) (world s) < int (length (machines (world s))) \<and>
     (replicasAreUpgrading L (obj s) \<or> replicasAreScalingUp L (obj s) \<or>
      int (length (machines (world s))) \<le> sint (LBScope_GetDesiredReplicas (obj s)))"

lemma env_List:
  "replica_env S M K csc n machines cap \<Longrightarrow>
   \<exists>items w'. k_List_VMs K (ClusterScope_Namespace csc) [(LoadBalancerLabel, n)] w = (Ret (Inr items), w') \<and>
     not_deleted [] items = machines w \<and> machines w' = machines w \<and>
     fst (m_Get_LB M (ClusterScope_GetResourceGroup (csc_before csc)) n w') =
       fst (m_Get_LB M (ClusterScope_GetResourceGroup (csc_before csc)) n w)"
  unfolding replica_env_def by (elim conjE) (erule allE)

lemma env_Name:
  "replica_env S M K csc n machines cap \<Longrightarrow> length (machines w) < cap \<Longrightarrow>
   \<exists>x w'. GenerateAzureStackHCILoadBalancerMachineName S n w = (Ret (x, None), w') \<and>
     machines w' = machines w \<and> x \<notin> vm_name ` set (machines w)"
  unfolding replica_env_def by (elim conjE) simp

lemma env_Create:
  "replica_env S M K csc n machines cap \<Longrightarrow> om_Namespace (hvm_Meta vm) = ClusterScope_Namespace csc \<Longrightarrow>
   vm_name vm \<notin> vm_name ` set (machines w) \<Longrightarrow> f vm w = (Ret (None, vm'), w) \<Longrightarrow>
   map_get (om_Labels (hvm_Meta vm')) LoadBalancerLabel = n \<Longrightarrow> DeletionTimestamp_IsZero (hvm_Meta vm') \<Longrightarrow>
   \<exists>r w'. k_CreateOrUpdate_VM K vm f w = (Ret (r, None, vm'), w') \<and>
     mset (machines w') = add_mset vm' (mset (machines w))"
  unfolding replica_env_def by (elim conjE) simp

lemma env_Update:
  "replica_env S M K csc n machines cap \<Longrightarrow> vm_name vm \<in> vm_name ` set (machines w) \<Longrightarrow>
   DeletionTimestamp_IsZero (hvm_Meta vm) \<Longrightarrow>
   \<exists>w'. k_Update_VM K vm w = (Ret (None, vm), w') \<and>
     mset (machines w') = image_mset (\<lambda>x. if vm_name x = vm_name vm then vm else x) (mset (machines w))"
  unfolding replica_env_def by (elim conjE) simp

lemma env_Delete:
  "replica_env S M K csc n machines cap \<Longrightarrow> vm_name vm \<in> vm_name ` set (machines w) \<Longrightarrow>
   \<exists>w'. k_Delete_VM K vm w = (Ret None, w') \<and>
     mset (machines w') = filter_mset (\<lambda>x. vm_name x \<noteq> vm_name vm) (mset (machines w))"
  unfolding replica_env_def by (elim conjE) simp

lemma env_LB:
  "replica_env S M K csc n machines cap \<Longrightarrow>
   \<exists>r w'. m_Get_LB M (ClusterScope_GetResourceGroup (csc_before csc)) n w = (Ret r, w') \<and>
     machines w' = machines w \<and> (\<forall>lbs. r = Inr lbs \<longrightarrow> (\<exists>lb rest p a. lbs = lb # rest \<and>
       nlb_Properties lb = Some p \<and> lb_frontend_address p = Some a))"
  unfolding replica_env_def by (elim conjE) simp

text \<open>The view the policy has of a load balancer and its machines.\<close>

definition lb_view :: "AzureStackHCILoadBalancer \<Rightarrow> AzureStackHCIVirtualMachine list \<Rightarrow> rollout" where
  "lb_view lb vms = \<lparr>ro_old = length (filter (outdated lb) vms),
     ro_new = length (filter (\<lambda>vm. \<not> outdated lb vm) vms), ro_want = nat (sint (LBScope_GetDesiredReplicas lb))\<rparr>"

text \<open>Machines have names of their own and none reports that it is not running; the numbers fit.\<close>

definition healthy :: "lib \<Rightarrow> AzureStackHCIVirtualMachine list \<Rightarrow> bool" where
  "healthy L vms \<longleftrightarrow> (\<forall>vm \<in> set vms. \<not> cond_IsFalse L (VM_GetConditions vm) VMRunningCondition)"

definition rollout_ok :: "lib \<Rightarrow> LoadBalancerScope \<Rightarrow> nat \<Rightarrow> AzureStackHCILoadBalancer \<Rightarrow>
    AzureStackHCIVirtualMachine list \<Rightarrow> bool" where
  "rollout_ok L lsc cap lb vms \<longleftrightarrow> distinct (map vm_name vms) \<and> healthy L vms \<and>
     (\<exists>i. getVMImage L lsc lb = Some (Inr i)) \<and> 0 \<le> sint (LBScope_GetDesiredReplicas lb) \<and>
     length vms < cap \<and> sint (LBScope_GetDesiredReplicas lb) + 1 < int cap \<and> cap < 2 ^ 31"

lemma failing_machine_healthy: "healthy L vms \<Longrightarrow> failing_machine L vms = None"
  by (induction vms) (auto simp: healthy_def)

lemma sint_word_of_nat: "n < 2 ^ 31 \<Longrightarrow> sint (word_of_nat n :: int32) = int n"
  by (simp add: signed_of_nat signed_take_bit_int_eq_self)

lemma sint_word_of_int: "0 \<le> i \<Longrightarrow> i < 2 ^ 31 \<Longrightarrow> sint (word_of_int i :: int32) = i"
  by (simp add: signed_of_int signed_take_bit_int_eq_self)

subsection \<open>The steps of a round\<close>

lemma env_listing:
  assumes "replica_env S M K csc (LBScope_Name lb) machines cap"
  shows "\<exists>w'. getVirtualMachinesForLoadBalancer K csc lb w = (Ret (Inr (machines w)), w') \<and> machines w' = machines w \<and>
    (\<forall>x. LBScope_Name x = LBScope_Name lb \<longrightarrow> ready_replicas M csc x w' = ready_replicas M csc x w)"
  using env_List [OF assms, of w] by (auto simp: getVirtualMachinesForLoadBalancer_def bind_def ready_replicas_def)

lemma env_not_deleted:
  assumes "replica_env S M K csc n machines cap" "vm \<in> set (machines w)"
  shows "DeletionTimestamp_IsZero (hvm_Meta vm)"
proof -
  obtain items where "not_deleted [] items = machines w" using env_List [OF assms(1), of w] by blast
  then have "vm \<in> set (filter (\<lambda>vm. DeletionTimestamp_IsZero (hvm_Meta vm)) items)"
    using assms(2) by (simp add: not_deleted_eq)
  then show ?thesis by simp
qed

lemma replicaStatus_run:
  assumes "replica_env S M K csc (LBScope_Name (obj s)) machines cap" "length (machines (world s)) < 2 ^ 31"
  shows "\<exists>t. updateReplicaStatus M csc (machines (world s)) s = (Ret (), t) \<and>
    machines (world t) = machines (world s) \<and> hlb_Spec (obj t) = hlb_Spec (obj s) \<and>
    hlb_Meta (obj t) = hlb_Meta (obj s) \<and> LB_GetConditions (obj t) = LB_GetConditions (obj s) \<and>
    sint (LBScope_GetReplicas (obj t)) = int (length (machines (world s))) \<and>
    sint (LBScope_GetReadyReplicas (obj t)) = ready_replicas M csc (obj s) (world s)"
proof -
  obtain r w' where run: "m_Get_LB M (ClusterScope_GetResourceGroup (csc_before csc)) (LBScope_Name (obj s)) (world s) = (Ret r, w')"
      "machines w' = machines (world s)"
    and found: "\<And>lbs. r = Inr lbs \<Longrightarrow> \<exists>lb rest p a. lbs = lb # rest \<and> nlb_Properties lb = Some p \<and> lb_frontend_address p = Some a"
    using env_LB [OF assms(1)] by blast
  note defs = updateReplicaStatus_def getMachineReplicaCounts_def reconcileLoadBalancerServiceStatus_def
    loadbalancers_Get_def lb_spec_named_def bind_on_world bind_def on_world_app LBScope_Name_def ready_replicas_def
    upd_obj_def LBScope_setters LBScope_GetReplicas_def LBScope_GetReadyReplicas_def LB_GetConditions_def sint_word_of_nat
  show ?thesis
  proof (cases r)
    case (Inl e)
    with run assms(2) show ?thesis by (simp add: defs)
  next
    case (Inr lbs)
    with found obtain lb rest p a where "lbs = lb # rest" "nlb_Properties lb = Some p" "lb_frontend_address p = Some a" by blast
    with run Inr assms(2) show ?thesis by (simp add: defs)
  qed
qed

lemma CopyCorrelationID_DeletionTimestamp [simp]:
  "om_DeletionTimestamp (CopyCorrelationID src om) = om_DeletionTimestamp om"
  by (simp add: CopyCorrelationID_def Let_def)

text \<open>A replica that is created counts as current and as running.\<close>

lemma mutateFn_new:
  assumes "getVMImage L lsc lb = Some (Inr i)"
  obtains vm where "lbvm_mutateFn L lsc csc lb (newVirtualMachine ns n) w = (Ret (None, vm), w)"
    "vm_name vm = n" "\<not> outdated lb vm" "VM_GetConditions vm = []"
    "map_get (om_Labels (hvm_Meta vm)) LoadBalancerLabel = LBScope_Name lb" "DeletionTimestamp_IsZero (hvm_Meta vm)"
proof -
  have "LoadBalancerLabel \<noteq> OSVersionLabelName"
    by (simp add: LoadBalancerLabel_def OSVersionLabelName_def)
  with assms show ?thesis
    by (intro that) (auto simp: lbvm_mutateFn_def lbvm_mutate_def Let_def newVirtualMachine_def newMeta_def
        outdated_def VM_GetConditions_def DeletionTimestamp_IsZero_def)
qed

lemma scaleUp_run:
  assumes env: "replica_env S M K csc (LBScope_Name (obj s)) machines cap" and "length (machines (world s)) < cap"
    and image: "getVMImage L lsc (obj s) = Some (Inr i)"
  obtains t vm where "scaleUpVirtualMachines L S K lsc csc s = (Ret None, t)" "obj t = LBScope_AddReplica (obj s)"
    "mset (machines (world t)) = add_mset vm (mset (machines (world s)))"
    "vm_name vm \<notin> vm_name ` set (machines (world s))" "\<not> outdated (obj s) vm" "VM_GetConditions vm = []"
proof -
  obtain n w1 where name: "GenerateAzureStackHCILoadBalancerMachineName S (LBScope_Name (obj s)) (world s) = (Ret (n, None), w1)"
      "machines w1 = machines (world s)" "n \<notin> vm_name ` set (machines (world s))"
    using env_Name [OF env assms(2)] by blast
  obtain vm where vm: "lbvm_mutateFn L lsc csc (obj s) (newVirtualMachine (ClusterScope_Namespace csc) n) w1 = (Ret (None, vm), w1)"
      "vm_name vm = n" "\<not> outdated (obj s) vm" "VM_GetConditions vm = []"
      "map_get (om_Labels (hvm_Meta vm)) LoadBalancerLabel = LBScope_Name (obj s)" "DeletionTimestamp_IsZero (hvm_Meta vm)"
    by (rule mutateFn_new [OF image])
  have "om_Namespace (hvm_Meta (newVirtualMachine (ClusterScope_Namespace csc) n)) = ClusterScope_Namespace csc"
      "vm_name (newVirtualMachine (ClusterScope_Namespace csc) n) \<notin> vm_name ` set (machines w1)"
    using name by (simp_all add: newVirtualMachine_def newMeta_def)
  then obtain r w2 where create: "k_CreateOrUpdate_VM K (newVirtualMachine (ClusterScope_Namespace csc) n)
        (lbvm_mutateFn L lsc csc (obj s)) w1 = (Ret (r, None, vm), w2)"
      "mset (machines w2) = add_mset vm (mset (machines w1))"
    using env_Create [OF env, of "newVirtualMachine (ClusterScope_Namespace csc) n" w1
        "lbvm_mutateFn L lsc csc (obj s)" vm] vm(1,5,6) by blast
  have "lb_createOrUpdateVirtualMachine L S K lsc csc (obj s) (world s) = (Ret (Inr vm), w2)"
    by (simp add: lb_createOrUpdateVirtualMachine_def bind_def name(1) create(1))
  then have "\<exists>t. scaleUpVirtualMachines L S K lsc csc s = (Ret None, t) \<and> obj t = LBScope_AddReplica (obj s) \<and> world t = w2"
    by (simp add: scaleUpVirtualMachines_def bind_on_world)
  then show ?thesis using that create(2) name(2,3) vm(2-4) by metis
qed

lemma select_member:
  assumes "vms \<noteq> []"
  obtains vm where "selectVirtualMachineForScaleDown lb vms = Inr vm" "vm \<in> set vms"
    "outdated lb vm \<or> filter (outdated lb) vms = []"
proof -
  let ?vms = "sort_Sort VirtualMachines_Less vms"
  have ne: "?vms \<noteq> []" using assms by (metis set_empty set_sort_Sort)
  show ?thesis
  proof (cases "find (outdated lb) ?vms")
    case None
    then have "filter (outdated lb) vms = []" by (simp add: find_None_iff filter_empty_conv)
    moreover have "?vms ! 0 \<in> set vms" using ne by (metis length_greater_0_conv nth_mem set_sort_Sort)
    ultimately show ?thesis using assms None
      by (intro that [of "?vms ! 0"]) (auto simp: selectVirtualMachineForScaleDown_def first_outdated_find)
  next
    case (Some vm)
    then have "vm \<in> set vms" "outdated lb vm"
      by (auto simp: find_Some_iff) (metis nth_mem set_sort_Sort)
    with Some assms show ?thesis
      by (intro that [of vm]) (auto simp: selectVirtualMachineForScaleDown_def first_outdated_find)
  qed
qed

lemma filter_mset_replaced:
  "f v = a \<Longrightarrow> filter_mset (\<lambda>x. f x \<noteq> a) (image_mset (\<lambda>x. if f x = a then v else x) A) =
     filter_mset (\<lambda>x. f x \<noteq> a) A"
  by (induction A) auto

lemma scaleDown_run:
  assumes env: "replica_env S M K csc n machines cap" and "machines (world s) \<noteq> []"
  obtains t vm where "scaleDownVirtualMachines L K (machines (world s)) s = (Ret None, t)"
    "obj t = LBScope_RemoveReplica (obj s)" "vm \<in> set (machines (world s))"
    "outdated (obj s) vm \<or> filter (outdated (obj s)) (machines (world s)) = []"
    "mset (machines (world t)) = filter_mset (\<lambda>x. vm_name x \<noteq> vm_name vm) (mset (machines (world s)))"
proof -
  obtain vm where vm: "selectVirtualMachineForScaleDown (obj s) (machines (world s)) = Inr vm"
      "vm \<in> set (machines (world s))" "outdated (obj s) vm \<or> filter (outdated (obj s)) (machines (world s)) = []"
    by (rule select_member [OF assms(2)])
  define vm' where "vm' = vm\<lparr>hvm_Meta := CopyCorrelationID (hlb_Meta (obj s)) (hvm_Meta vm)\<rparr>"
  have same: "vm_name vm' = vm_name vm" by (simp add: vm'_def)
  have live: "DeletionTimestamp_IsZero (hvm_Meta vm)" using env_not_deleted [OF env vm(2)] .
  have "vm_name vm' \<in> vm_name ` set (machines (world s))" unfolding same using vm(2) by (rule imageI)
  moreover have "DeletionTimestamp_IsZero (hvm_Meta vm')"
    using live by (simp add: vm'_def DeletionTimestamp_IsZero_def)
  ultimately obtain w1 where upd: "k_Update_VM K vm' (world s) = (Ret (None, vm'), w1)" "mset (machines w1) =
      image_mset (\<lambda>x. if vm_name x = vm_name vm' then vm' else x) (mset (machines (world s)))"
    using env_Update [OF env] by blast
  have "set (machines w1) = (\<lambda>x. if vm_name x = vm_name vm' then vm' else x) ` set (machines (world s))"
    using arg_cong [OF upd(2), of set_mset] by simp
  then have "vm' \<in> set (machines w1)" using vm(2) same by (metis (lifting) image_eqI)
  then have "vm_name vm' \<in> vm_name ` set (machines w1)" by (rule imageI)
  then obtain w2 where del: "k_Delete_VM K vm' w1 = (Ret None, w2)"
      "mset (machines w2) = filter_mset (\<lambda>x. vm_name x \<noteq> vm_name vm') (mset (machines w1))"
    using env_Delete [OF env] by blast
  have "mset (machines w2) = filter_mset (\<lambda>x. vm_name x \<noteq> vm_name vm) (mset (machines (world s)))"
    unfolding del(2) upd(2) same by (rule filter_mset_replaced [where f = "\<lambda>x. vm_name x", OF same])
  moreover have "lb_deleteVirtualMachine L K (obj s) vm (world s) = (Ret None, w2)"
    using live by (simp add: lb_deleteVirtualMachine_def Let_def vm'_def [symmetric] bind_def upd(1) del(1))
  then have "\<exists>t. scaleDownVirtualMachines L K (machines (world s)) s = (Ret None, t) \<and>
      obj t = LBScope_RemoveReplica (obj s) \<and> world t = w2"
    by (simp add: scaleDownVirtualMachines_def bind_on_world vm(1))
  ultimately show ?thesis using that vm(2,3) by metis
qed

subsection \<open>What a step does to the view\<close>

text \<open>Everything the policy looks at depends on the specification and the metadata only.\<close>

lemma spec_frame:
  assumes "hlb_Spec lb' = hlb_Spec lb"
  shows "getVMImage L lsc lb' = getVMImage L lsc lb" "outdated lb' = outdated lb"
    "LBScope_GetDesiredReplicas lb' = LBScope_GetDesiredReplicas lb" "lb_view lb' vms = lb_view lb vms"
    "rollout_ok L lsc cap lb' vms = rollout_ok L lsc cap lb vms"
proof -
  show *: "getVMImage L lsc lb' = getVMImage L lsc lb" "outdated lb' = outdated lb"
    "LBScope_GetDesiredReplicas lb' = LBScope_GetDesiredReplicas lb"
    using assms by (simp_all add: getVMImage_def outdated_def [abs_def] LBScope_OSVersion_def LBScope_GetDesiredReplicas_def)
  then show "lb_view lb' vms = lb_view lb vms" "rollout_ok L lsc cap lb' vms = rollout_ok L lsc cap lb vms"
    by (simp_all add: lb_view_def rollout_ok_def)
qed

lemma length_filter_mset: "length (filter P xs) = size (filter_mset P (mset xs))"
  by (simp flip: mset_filter)

lemma view_more:
  assumes "mset ys = mset (vm # xs)"
  shows "lb_view lb ys = (if outdated lb vm then (lb_view lb xs)\<lparr>ro_old := ro_old (lb_view lb xs) + 1\<rparr>
    else (lb_view lb xs)\<lparr>ro_new := ro_new (lb_view lb xs) + 1\<rparr>)"
  using assms by (simp add: lb_view_def length_filter_mset)

lemma view_total: "ro_old (lb_view lb vms) + ro_new (lb_view lb vms) = length vms"
  by (simp add: lb_view_def sum_length_filter_compl)

lemma mset_remove_named:
  assumes "distinct (map f xs)" "x \<in> set xs" "mset ys = filter_mset (\<lambda>y. f y \<noteq> f x) (mset xs)"
  shows "mset xs = mset (x # ys)"
proof -
  obtain us vs where xs: "xs = us @ x # vs" using assms(2) by (meson split_list)
  have "f x \<notin> f ` set us" "f x \<notin> f ` set vs" using assms(1) by (simp_all add: xs)
  then have "filter (\<lambda>y. f y \<noteq> f x) us = us" "filter (\<lambda>y. f y \<noteq> f x) vs = vs"
    by (intro filter_True ballI, metis imageI)+
  then have "mset ys = mset (us @ vs)" using assms(3) xs by (simp flip: mset_filter)
  then show ?thesis using xs by simp
qed

lemma ok_more:
  assumes "mset ys = mset (vm # xs)" "rollout_ok L lsc cap lb xs" "vm_name vm \<notin> vm_name ` set xs"
    and "\<not> cond_IsFalse L (VM_GetConditions vm) VMRunningCondition" "length xs + 1 < cap"
  shows "rollout_ok L lsc cap lb ys"
proof -
  have "mset (map vm_name ys) = mset (map vm_name (vm # xs))" using arg_cong [OF assms(1), of "image_mset (\<lambda>x. vm_name x)"] by simp
  then have "distinct (map vm_name ys)"
    using assms(2,3) mset_eq_imp_distinct_iff [of "map vm_name ys" "map vm_name (vm # xs)"]
    by (auto simp: rollout_ok_def)
  moreover have "set ys = set (vm # xs)" "length ys = length (vm # xs)"
    using assms(1) mset_eq_setD mset_eq_length by blast+
  ultimately show ?thesis using assms(2,4,5) by (auto simp: rollout_ok_def healthy_def)
qed

lemma ok_less:
  assumes "mset xs = mset (vm # ys)" "rollout_ok L lsc cap lb xs"
  shows "rollout_ok L lsc cap lb ys"
proof -
  have "mset (map vm_name xs) = mset (map vm_name (vm # ys))" using arg_cong [OF assms(1), of "image_mset (\<lambda>x. vm_name x)"] by simp
  then have "distinct (map vm_name ys)"
    using assms(2) mset_eq_imp_distinct_iff [of "map vm_name xs" "map vm_name (vm # ys)"]
    by (auto simp: rollout_ok_def)
  moreover have "set xs = set (vm # ys)" "length xs = length (vm # ys)"
    using assms(1) mset_eq_setD mset_eq_length by blast+
  ultimately show ?thesis using assms(2) by (auto simp: rollout_ok_def healthy_def)
qed

subsection \<open>A round\<close>

lemma round_reduces:
  assumes env: "replica_env S M K csc (LBScope_Name (obj s)) machines cap"
    and ok: "rollout_ok L lsc cap (obj s) (machines (world s))"
  obtains u where "machines (world u) = machines (world s)" "hlb_Spec (obj u) = hlb_Spec (obj s)"
    "hlb_Meta (obj u) = hlb_Meta (obj s)" "sint (LBScope_GetReplicas (obj u)) = int (length (machines (world s)))"
    "\<not> waits L M csc machines s \<Longrightarrow>
       LB_reconcileVirtualMachines L S M K lsc csc s = scale_or_upgrade L S K lsc csc (machines (world s)) u"
    "waits L M csc machines s \<Longrightarrow> \<exists>t. LB_reconcileVirtualMachines L S M K lsc csc s = (Ret (requeueAfter 60, None), t) \<and>
       world t = world u \<and> hlb_Spec (obj t) = hlb_Spec (obj u) \<and> hlb_Meta (obj t) = hlb_Meta (obj u)"
proof -
  obtain w where w: "getVirtualMachinesForLoadBalancer K csc (obj s) (world s) = (Ret (Inr (machines (world s))), w)"
      "machines w = machines (world s)" "ready_replicas M csc (obj s) w = ready_replicas M csc (obj s) (world s)"
    using env_listing [OF env] by blast
  have "length (machines (world (s\<lparr>world := w\<rparr>))) < 2 ^ 31"
    using ok w(2) by (simp add: rollout_ok_def)
  then obtain u where u: "updateReplicaStatus M csc (machines (world s)) (s\<lparr>world := w\<rparr>) = (Ret (), u)"
      "machines (world u) = machines (world s)" "hlb_Spec (obj u) = hlb_Spec (obj s)"
      "hlb_Meta (obj u) = hlb_Meta (obj s)" "LB_GetConditions (obj u) = LB_GetConditions (obj s)"
      "sint (LBScope_GetReplicas (obj u)) = int (length (machines (world s)))"
      "sint (LBScope_GetReadyReplicas (obj u)) = ready_replicas M csc (obj s) (world s)"
    using replicaStatus_run [of S M K csc "s\<lparr>world := w\<rparr>" machines cap] env w(2,3) by auto
  have none: "failing_machine L (machines (world s)) = None"
    using ok failing_machine_healthy by (simp add: rollout_ok_def)
  note status = bind_Ret [where m = "updateReplicaStatus M csc (machines (world s))" and s = "s\<lparr>world := w\<rparr>", OF u(1)]
  have guard: "waits L M csc machines s \<longleftrightarrow> sint (LBScope_GetReadyReplicas (obj u)) < sint (LBScope_GetReplicas (obj u)) \<and>
      (replicasAreUpgrading L (obj u) \<or> replicasAreScalingUp L (obj u) \<or> \<not> isScaleDownRequired (obj u))"
    by (auto simp: waits_def u(5-7) replicasAreUpgrading_def replicasAreScalingUp_def isScaleDownRequired_def spec_frame(3) [OF u(3)])
  show ?thesis
  proof (rule that [OF u(2-4,6)])
    show "LB_reconcileVirtualMachines L S M K lsc csc s = scale_or_upgrade L S K lsc csc (machines (world s)) u"
      if "\<not> waits L M csc machines s"
      using that unfolding guard
      by (auto simp: LB_reconcileVirtualMachines_def bind_on_world w(1) none status)
    show "\<exists>t. LB_reconcileVirtualMachines L S M K lsc csc s = (Ret (requeueAfter 60, None), t) \<and>
        world t = world u \<and> hlb_Spec (obj t) = hlb_Spec (obj u) \<and> hlb_Meta (obj t) = hlb_Meta (obj u)"
      if "waits L M csc machines s"
      using that unfolding guard
      by (cases "replicasAreUpgrading L (obj u) \<or> replicasAreScalingUp L (obj u)")
        (auto simp: LB_reconcileVirtualMachines_def bind_on_world w(1) none status)
  qed
qed

text \<open>The three kinds of action, each from the state after the counts were refreshed.\<close>

lemma act_up:
  assumes "isScaleUpRequired (obj u)"
  obtains u' where "world u' = world u" "hlb_Spec (obj u') = hlb_Spec (obj u)" "hlb_Meta (obj u') = hlb_Meta (obj u)"
    "\<And>t. scaleUpVirtualMachines L S K lsc csc u' = (Ret None, t) \<Longrightarrow>
       scale_or_upgrade L S K lsc csc vms u = (Ret (requeueAfter 60, None), t)"
  using assms
  by (intro that [of "if replicasAreUpgrading L (obj u) then u
        else u\<lparr>obj := set_replicas_condition L LoadBalancerReplicasScalingUpReason [] (obj u)\<rparr>"])
    (auto simp: scale_or_upgrade_def bind_def upd_obj_def)

lemma act_down:
  assumes "\<not> isScaleUpRequired (obj u)" "isScaleDownRequired (obj u)"
  obtains u' where "world u' = world u" "hlb_Spec (obj u') = hlb_Spec (obj u)" "hlb_Meta (obj u') = hlb_Meta (obj u)"
    "\<And>t. scaleDownVirtualMachines L K vms u' = (Ret None, t) \<Longrightarrow>
       scale_or_upgrade L S K lsc csc vms u = (Ret (requeueAfter 20, None), t)"
  using assms
  by (intro that [of "if replicasAreUpgrading L (obj u) then u
        else u\<lparr>obj := set_replicas_condition L LoadBalancerReplicasScalingDownReason [] (obj u)\<rparr>"])
    (auto simp: scale_or_upgrade_def bind_def upd_obj_def)

lemma act_upgrade:
  assumes "\<not> isScaleUpRequired (obj u)" "\<not> isScaleDownRequired (obj u)" "isUpgradeRequired (obj u) vms"
  obtains u' where "world u' = world u" "hlb_Spec (obj u') = hlb_Spec (obj u)" "hlb_Meta (obj u') = hlb_Meta (obj u)"
    "LBScope_GetReplicas (obj u') = LBScope_GetReplicas (obj u)"
    "\<And>t. upgrade_loop L S K lsc csc u' = (Ret None, t) \<Longrightarrow>
       scale_or_upgrade L S K lsc csc vms u = (Ret (requeueAfter 60, None), t)"
proof -
  obtain u' where u': "bind (upd_obj (set_replicas_condition L LoadBalancerReplicasUpgradingReason []))
      (\<lambda>_. Eventf EventTypeNormal ''UpgradingLoadBalancer''
        (''Upgrading AzureStackHCILoadBalancer '' @ LBScope_Name (obj u))) u = (Ret (), u')"
    by (simp add: Eventf_def)
  have "scale_or_upgrade L S K lsc csc vms u = (Ret (requeueAfter 60, None), t)"
    if "upgrade_loop L S K lsc csc u' = (Ret None, t)" for t
    using assms that u' by (auto simp: scale_or_upgrade_def bind_def upd_obj_def Eventf_def)
  then show ?thesis using u' by (intro that [of u']) (auto simp: Eventf_def)
qed

lemma isUpgradeRequired_filter: "isUpgradeRequired lb vms \<longleftrightarrow> filter (outdated lb) vms \<noteq> []"
  by (induction vms) auto

lemma act_none:
  assumes "\<not> isScaleUpRequired (obj u)" "\<not> isScaleDownRequired (obj u)" "\<not> isUpgradeRequired (obj u) vms"
  obtains t where "scale_or_upgrade L S K lsc csc vms u = (Ret (noResult, None), t)" "world t = world u"
    "hlb_Spec (obj t) = hlb_Spec (obj u)" "hlb_Meta (obj t) = hlb_Meta (obj u)"
  using assms by (cases "cond_IsFalse L (LB_GetConditions (obj u)) LoadBalancerReplicasReadyCondition")
    (auto simp: scale_or_upgrade_def)

text \<open>From the desired number on, the loop of an upgrade adds exactly one replica.\<close>

lemma upgrade_loop_once:
  assumes up: "scaleUpVirtualMachines L S K lsc csc u = (Ret None, t)"
    and eq: "sint (LBScope_GetReplicas (obj u)) = sint (LBScope_GetDesiredReplicas (obj u))"
    and max: "sint (LBScope_GetDesiredReplicas (obj u)) < 2 ^ 31 - 1"
  shows "upgrade_loop L S K lsc csc u = (Ret None, t)"
proof -
  have t: "obj t = LBScope_AddReplica (obj u)" using scaleUp_obj [OF up] by simp
  have s1: "sint (LBScope_GetMaxReplicas (obj u)) = sint (LBScope_GetDesiredReplicas (obj u)) + 1"
    using max by (simp add: LBScope_GetMaxReplicas_def MaxSurge_def int32_succ)
  have s2: "sint (LBScope_GetReplicas (obj u) + 1) = sint (LBScope_GetReplicas (obj u)) + 1"
    using max eq by (intro int32_succ) simp
  have "upgrade_loop L S K lsc csc t = (Ret None, t)"
    by (subst upgrade_loop.simps) (simp add: t s1 s2 eq)
  then show ?thesis
    using up by (subst upgrade_loop.simps) (simp add: s1 eq)
qed

text \<open>Creating and removing a replica, seen from the policy.\<close>

lemma IsFalse_Nil [simp]: "lib_conditions L \<Longrightarrow> \<not> cond_IsFalse L [] t"
  using Get_member [of L "[]" t] by (cases "cond_Get L [] t") (auto simp: IsFalse_Get)

lemma grow:
  assumes lib: "lib_conditions L" and env: "replica_env S M K csc (LBScope_Name (obj u)) machines cap"
    and ok: "rollout_ok L lsc cap lb (machines (world u))" and spec: "hlb_Spec (obj u) = hlb_Spec lb"
    and room: "length (machines (world u)) + 1 < cap"
  obtains t where "scaleUpVirtualMachines L S K lsc csc u = (Ret None, t)" "hlb_Spec (obj t) = hlb_Spec lb"
    "hlb_Meta (obj t) = hlb_Meta (obj u)" "rollout_ok L lsc cap lb (machines (world t))"
    "lb_view lb (machines (world t)) = (lb_view lb (machines (world u)))\<lparr>ro_new := ro_new (lb_view lb (machines (world u))) + 1\<rparr>"
proof -
  obtain i where i: "getVMImage L lsc (obj u) = Some (Inr i)"
    using ok spec_frame(1) [OF spec] by (auto simp: rollout_ok_def)
  have "length (machines (world u)) < cap" using room by simp
  then obtain t vm where run: "scaleUpVirtualMachines L S K lsc csc u = (Ret None, t)" "obj t = LBScope_AddReplica (obj u)"
      "mset (machines (world t)) = add_mset vm (mset (machines (world u)))"
      "vm_name vm \<notin> vm_name ` set (machines (world u))" "\<not> outdated (obj u) vm" "VM_GetConditions vm = []"
    by (rule scaleUp_run [OF env _ i])
  have m: "mset (machines (world t)) = mset (vm # machines (world u))" using run(3) by simp
  show ?thesis
  proof (rule that [OF run(1)])
    show "hlb_Spec (obj t) = hlb_Spec lb" "hlb_Meta (obj t) = hlb_Meta (obj u)"
      using spec by (simp_all add: run(2) LBScope_AddReplica_def)
    show "rollout_ok L lsc cap lb (machines (world t))"
      using lib run(6) by (intro ok_more [OF m ok run(4) _ room]) simp
    show "lb_view lb (machines (world t)) = (lb_view lb (machines (world u)))\<lparr>ro_new := ro_new (lb_view lb (machines (world u))) + 1\<rparr>"
      using view_more [OF m, of lb] run(5) spec_frame(2) [OF spec] by simp
  qed
qed

lemma shrink:
  assumes env: "replica_env S M K csc n machines cap"
    and ok: "rollout_ok L lsc cap lb (machines (world u))" and spec: "hlb_Spec (obj u) = hlb_Spec lb"
    and some: "machines (world u) \<noteq> []"
  obtains t where "scaleDownVirtualMachines L K (machines (world u)) u = (Ret None, t)" "hlb_Spec (obj t) = hlb_Spec lb"
    "hlb_Meta (obj t) = hlb_Meta (obj u)" "rollout_ok L lsc cap lb (machines (world t))"
    "lb_view lb (machines (world t)) = (let v = lb_view lb (machines (world u)) in
       if ro_old v > 0 then v\<lparr>ro_old := ro_old v - 1\<rparr> else v\<lparr>ro_new := ro_new v - 1\<rparr>)"
proof -
  obtain t vm where run: "scaleDownVirtualMachines L K (machines (world u)) u = (Ret None, t)"
      "obj t = LBScope_RemoveReplica (obj u)" "vm \<in> set (machines (world u))"
      "outdated (obj u) vm \<or> filter (outdated (obj u)) (machines (world u)) = []"
      "mset (machines (world t)) = filter_mset (\<lambda>x. vm_name x \<noteq> vm_name vm) (mset (machines (world u)))"
    by (rule scaleDown_run [OF env some])
  have m: "mset (machines (world u)) = mset (vm # machines (world t))"
    using ok by (intro mset_remove_named [OF _ run(3,5)]) (simp add: rollout_ok_def)
  have old: "outdated lb vm \<longleftrightarrow> ro_old (lb_view lb (machines (world u))) > 0"
    using run(3,4) spec_frame(2) [OF spec] by (auto simp: lb_view_def filter_empty_conv)
  show ?thesis
  proof (rule that [OF run(1)])
    show "hlb_Spec (obj t) = hlb_Spec lb" "hlb_Meta (obj t) = hlb_Meta (obj u)"
      using spec by (simp_all add: run(2) LBScope_RemoveReplica_def)
    show "rollout_ok L lsc cap lb (machines (world t))" by (rule ok_less [OF m ok])
    show "lb_view lb (machines (world t)) = (let v = lb_view lb (machines (world u)) in
       if ro_old v > 0 then v\<lparr>ro_old := ro_old v - 1\<rparr> else v\<lparr>ro_new := ro_new v - 1\<rparr>)"
      using view_more [OF m, of lb] old by (auto simp: Let_def)
  qed
qed

text \<open>
  The state after the counts were refreshed, and what a round has to achieve: the same load balancer,
  one step of the policy, the numbers in range, and a request to come back unless all is done.
\<close>

definition refreshed :: "('w \<Rightarrow> AzureStackHCIVirtualMachine list) \<Rightarrow> ('w, AzureStackHCILoadBalancer) rstate \<Rightarrow>
    ('w, AzureStackHCILoadBalancer) rstate \<Rightarrow> bool" where
  "refreshed machines s u \<longleftrightarrow> machines (world u) = machines (world s) \<and> hlb_Spec (obj u) = hlb_Spec (obj s) \<and>
     hlb_Meta (obj u) = hlb_Meta (obj s) \<and> sint (LBScope_GetReplicas (obj u)) = int (length (machines (world s)))"

definition stepped :: "lib \<Rightarrow> LoadBalancerScope \<Rightarrow> nat \<Rightarrow> ('w \<Rightarrow> AzureStackHCIVirtualMachine list) \<Rightarrow>
    ('w, AzureStackHCILoadBalancer) rstate \<Rightarrow> Result \<Rightarrow> ('w, AzureStackHCILoadBalancer) rstate \<Rightarrow> bool" where
  "stepped L lsc cap machines s res t \<longleftrightarrow> hlb_Spec (obj t) = hlb_Spec (obj s) \<and> hlb_Meta (obj t) = hlb_Meta (obj s) \<and>
     lb_view (obj s) (machines (world t)) = ro_step (lb_view (obj s) (machines (world s))) \<and>
     rollout_ok L lsc cap (obj s) (machines (world t)) \<and>
     (res = noResult \<longleftrightarrow> ro_finished (lb_view (obj s) (machines (world s))))"

lemma later [simp]: "requeueAfter 60 \<noteq> noResult" "requeueAfter 20 \<noteq> noResult"
  by (simp_all add: requeueAfter_def noResult_def)

lemma refreshed_guards:
  assumes "refreshed machines s u" "rollout_ok L lsc cap (obj s) (machines (world s))"
  defines "v \<equiv> lb_view (obj s) (machines (world s))"
  shows "isScaleUpRequired (obj u) \<longleftrightarrow> ro_old v + ro_new v < ro_want v"
    "isScaleDownRequired (obj u) \<longleftrightarrow> ro_want v < ro_old v + ro_new v"
    "isUpgradeRequired (obj u) (machines (world s)) \<longleftrightarrow> ro_old v > 0"
    "length (machines (world s)) = ro_old v + ro_new v"
    "ro_want v + 1 < cap" "sint (LBScope_GetDesiredReplicas (obj u)) = int (ro_want v)" "cap < 2 ^ 31"
proof -
  have spec: "hlb_Spec (obj u) = hlb_Spec (obj s)" and n: "sint (LBScope_GetReplicas (obj u)) = int (length (machines (world s)))"
    using assms(1) by (simp_all add: refreshed_def)
  note frame = spec_frame [OF spec]
  have want: "sint (LBScope_GetDesiredReplicas (obj s)) = int (ro_want v)"
      and c: "sint (LBScope_GetDesiredReplicas (obj s)) + 1 < int cap"
    using assms(2) by (simp_all add: v_def lb_view_def rollout_ok_def)
  show total: "length (machines (world s)) = ro_old v + ro_new v" by (simp add: v_def view_total)
  show "isScaleUpRequired (obj u) \<longleftrightarrow> ro_old v + ro_new v < ro_want v"
    "isScaleDownRequired (obj u) \<longleftrightarrow> ro_want v < ro_old v + ro_new v"
    unfolding isScaleUpRequired_def isScaleDownRequired_def frame n want total by linarith+
  show "isUpgradeRequired (obj u) (machines (world s)) \<longleftrightarrow> ro_old v > 0"
    by (simp add: isUpgradeRequired_filter frame v_def lb_view_def)
  show "ro_want v + 1 < cap" using want c by linarith
  show "sint (LBScope_GetDesiredReplicas (obj u)) = int (ro_want v)" using want by (simp add: frame)
  show "cap < 2 ^ 31" using assms(2) by (simp add: rollout_ok_def)
qed

lemma LBScope_Name_meta: "hlb_Meta x = hlb_Meta y \<Longrightarrow> LBScope_Name x = LBScope_Name y"
  by (simp add: LBScope_Name_def)

text \<open>Adding a replica, when scaling up or as the surge of an upgrade.\<close>

lemma step_grow:
  assumes lib: "lib_conditions L" and env: "replica_env S M K csc (LBScope_Name (obj s)) machines cap"
    and ok: "rollout_ok L lsc cap (obj s) (machines (world s))" and ref: "refreshed machines s u"
    and u': "world u' = world u" "hlb_Spec (obj u') = hlb_Spec (obj u)" "hlb_Meta (obj u') = hlb_Meta (obj u)"
    and small: "ro_old (lb_view (obj s) (machines (world s))) + ro_new (lb_view (obj s) (machines (world s))) \<le>
      ro_want (lb_view (obj s) (machines (world s)))" "\<not> ro_finished (lb_view (obj s) (machines (world s)))"
  obtains t where "scaleUpVirtualMachines L S K lsc csc u' = (Ret None, t)" "stepped L lsc cap machines s (requeueAfter 60) t"
proof -
  let ?v = "lb_view (obj s) (machines (world s))"
  have facts: "machines (world u') = machines (world s)" "hlb_Spec (obj u') = hlb_Spec (obj s)"
      "hlb_Meta (obj u') = hlb_Meta (obj s)"
    using ref u' by (simp_all add: refreshed_def)
  have room: "length (machines (world u')) + 1 < cap"
    using refreshed_guards [OF ref ok] small(1) facts(1) by simp
  have step: "ro_step ?v = ?v\<lparr>ro_new := ro_new ?v + 1\<rparr>"
    using small by (auto simp: ro_step_def ro_finished_def Let_def)
  show ?thesis
    using grow [of L S M K csc u' machines cap lsc "obj s"] that lib env ok room facts small(2) step
      LBScope_Name_meta [OF facts(3)] by (auto simp: stepped_def)
qed

lemma round_up:
  assumes "lib_conditions L" "replica_env S M K csc (LBScope_Name (obj s)) machines cap"
    and ok: "rollout_ok L lsc cap (obj s) (machines (world s))" and ref: "refreshed machines s u"
    and up: "isScaleUpRequired (obj u)"
  shows "\<exists>res t. scale_or_upgrade L S K lsc csc (machines (world s)) u = (Ret (res, None), t) \<and>
    stepped L lsc cap machines s res t"
proof -
  obtain u' where u': "world u' = world u" "hlb_Spec (obj u') = hlb_Spec (obj u)" "hlb_Meta (obj u') = hlb_Meta (obj u)"
      "\<And>t. scaleUpVirtualMachines L S K lsc csc u' = (Ret None, t) \<Longrightarrow>
         scale_or_upgrade L S K lsc csc (machines (world s)) u = (Ret (requeueAfter 60, None), t)"
    using act_up [OF up, of L S K lsc csc "machines (world s)"] by blast
  show ?thesis
    using step_grow [OF assms(1,2) ok ref u'(1-3)] u'(4) up refreshed_guards(1) [OF ref ok]
    by (metis ro_finished_def add_0 less_imp_le less_irrefl)
qed

lemma round_upgrade:
  assumes "lib_conditions L" "replica_env S M K csc (LBScope_Name (obj s)) machines cap"
    and ok: "rollout_ok L lsc cap (obj s) (machines (world s))" and ref: "refreshed machines s u"
    and no: "\<not> isScaleUpRequired (obj u)" "\<not> isScaleDownRequired (obj u)"
    and up: "isUpgradeRequired (obj u) (machines (world s))"
  shows "\<exists>res t. scale_or_upgrade L S K lsc csc (machines (world s)) u = (Ret (res, None), t) \<and>
    stepped L lsc cap machines s res t"
proof -
  note guards = refreshed_guards [OF ref ok]
  obtain u' where u': "world u' = world u" "hlb_Spec (obj u') = hlb_Spec (obj u)" "hlb_Meta (obj u') = hlb_Meta (obj u)"
      "LBScope_GetReplicas (obj u') = LBScope_GetReplicas (obj u)"
      "\<And>t. upgrade_loop L S K lsc csc u' = (Ret None, t) \<Longrightarrow>
         scale_or_upgrade L S K lsc csc (machines (world s)) u = (Ret (requeueAfter 60, None), t)"
    using act_upgrade [OF no up, of L S K lsc csc] by blast
  have eq: "ro_old (lb_view (obj s) (machines (world s))) + ro_new (lb_view (obj s) (machines (world s))) =
      ro_want (lb_view (obj s) (machines (world s)))" "ro_old (lb_view (obj s) (machines (world s))) > 0"
    using no up guards(1-3) by simp_all
  then obtain t where t: "scaleUpVirtualMachines L S K lsc csc u' = (Ret None, t)" "stepped L lsc cap machines s (requeueAfter 60) t"
    using step_grow [OF assms(1,2) ok ref u'(1-3)] by (auto simp: ro_finished_def)
  have "upgrade_loop L S K lsc csc u' = (Ret None, t)"
    using ref guards(4-7) eq u'(4) spec_frame(3) [OF u'(2)]
    by (intro upgrade_loop_once [OF t(1)]) (simp_all add: refreshed_def)
  then show ?thesis using u'(5) t(2) by blast
qed

lemma round_down:
  assumes "replica_env S M K csc n machines cap"
    and ok: "rollout_ok L lsc cap (obj s) (machines (world s))" and ref: "refreshed machines s u"
    and no: "\<not> isScaleUpRequired (obj u)" and down: "isScaleDownRequired (obj u)"
  shows "\<exists>res t. scale_or_upgrade L S K lsc csc (machines (world s)) u = (Ret (res, None), t) \<and>
    stepped L lsc cap machines s res t"
proof -
  let ?v = "lb_view (obj s) (machines (world s))"
  note guards = refreshed_guards [OF ref ok]
  obtain u' where u': "world u' = world u" "hlb_Spec (obj u') = hlb_Spec (obj u)" "hlb_Meta (obj u') = hlb_Meta (obj u)"
      "\<And>t. scaleDownVirtualMachines L K (machines (world s)) u' = (Ret None, t) \<Longrightarrow>
         scale_or_upgrade L S K lsc csc (machines (world s)) u = (Ret (requeueAfter 20, None), t)"
    using act_down [OF no down, of L K "machines (world s)" S lsc csc] by blast
  have facts: "machines (world u') = machines (world s)" "hlb_Spec (obj u') = hlb_Spec (obj s)"
      "hlb_Meta (obj u') = hlb_Meta (obj s)"
    using ref u' by (simp_all add: refreshed_def)
  have step: "ro_step ?v = (if ro_old ?v > 0 then ?v\<lparr>ro_old := ro_old ?v - 1\<rparr> else ?v\<lparr>ro_new := ro_new ?v - 1\<rparr>)"
      and more: "\<not> ro_finished ?v" "machines (world u') \<noteq> []"
    using down guards(2,4) facts(1) by (auto simp: ro_step_def ro_finished_def Let_def)
  obtain t where "scaleDownVirtualMachines L K (machines (world s)) u' = (Ret None, t)"
      "stepped L lsc cap machines s (requeueAfter 20) t"
    using shrink [OF assms(1), of L lsc "obj s" u'] ok facts more step by (auto simp: stepped_def Let_def)
  then show ?thesis using u'(4) by blast
qed

lemma round_steady:
  assumes ok: "rollout_ok L lsc cap (obj s) (machines (world s))" and ref: "refreshed machines s u"
    and no: "\<not> isScaleUpRequired (obj u)" "\<not> isScaleDownRequired (obj u)"
      "\<not> isUpgradeRequired (obj u) (machines (world s))"
  shows "\<exists>res t. scale_or_upgrade L S K lsc csc (machines (world s)) u = (Ret (res, None), t) \<and>
    stepped L lsc cap machines s res t"
proof -
  obtain t where t: "scale_or_upgrade L S K lsc csc (machines (world s)) u = (Ret (noResult, None), t)" "world t = world u"
      "hlb_Spec (obj t) = hlb_Spec (obj u)" "hlb_Meta (obj t) = hlb_Meta (obj u)"
    by (rule act_none [OF no])
  have "ro_finished (lb_view (obj s) (machines (world s)))"
    using no refreshed_guards(1-3) [OF ref ok] by (simp add: ro_finished_def)
  with t ok ref have "stepped L lsc cap machines s noResult t"
    by (simp add: stepped_def refreshed_def ro_step_finished)
  with t(1) show ?thesis by blast
qed

text \<open>
  One reconcile of the replicas, without an error: it waits and leaves the machines alone, or it is
  one step of the policy.
\<close>

definition waited :: "('w \<Rightarrow> AzureStackHCIVirtualMachine list) \<Rightarrow> ('w, AzureStackHCILoadBalancer) rstate \<Rightarrow> Result \<Rightarrow>
    ('w, AzureStackHCILoadBalancer) rstate \<Rightarrow> bool" where
  "waited machines s res t \<longleftrightarrow> hlb_Spec (obj t) = hlb_Spec (obj s) \<and> hlb_Meta (obj t) = hlb_Meta (obj s) \<and>
     machines (world t) = machines (world s) \<and> res = requeueAfter 60"

lemma round_step:
  assumes "lib_conditions L" and env: "replica_env S M K csc (LBScope_Name (obj s)) machines cap"
    and ok: "rollout_ok L lsc cap (obj s) (machines (world s))"
  shows "\<exists>res t. LB_reconcileVirtualMachines L S M K lsc csc s = (Ret (res, None), t) \<and>
    (if waits L M csc machines s then waited machines s res t else stepped L lsc cap machines s res t)"
proof -
  obtain u where u: "machines (world u) = machines (world s)" "hlb_Spec (obj u) = hlb_Spec (obj s)"
      "hlb_Meta (obj u) = hlb_Meta (obj s)" "sint (LBScope_GetReplicas (obj u)) = int (length (machines (world s)))"
    and work: "\<not> waits L M csc machines s \<Longrightarrow>
       LB_reconcileVirtualMachines L S M K lsc csc s = scale_or_upgrade L S K lsc csc (machines (world s)) u"
    and wait: "waits L M csc machines s \<Longrightarrow> \<exists>t. LB_reconcileVirtualMachines L S M K lsc csc s = (Ret (requeueAfter 60, None), t) \<and>
       world t = world u \<and> hlb_Spec (obj t) = hlb_Spec (obj u) \<and> hlb_Meta (obj t) = hlb_Meta (obj u)"
    using round_reduces [OF env ok] by blast
  then have ref: "refreshed machines s u" by (simp add: refreshed_def)
  have "\<exists>res t. scale_or_upgrade L S K lsc csc (machines (world s)) u = (Ret (res, None), t) \<and> stepped L lsc cap machines s res t"
    using round_up [OF assms(1) env ok ref] round_down [OF env ok ref]
      round_upgrade [OF assms(1) env ok ref] round_steady [OF ok ref] by blast
  with work wait u show ?thesis by (cases "waits L M csc machines s") (auto simp: waited_def)
qed

end
