(* ===== verification/LBRollout.thy ===== *)
theory LBRollout
  imports LBReplicas
begin

text \<open>
  Rolling out a load balancer: repeated reconciles reach the desired number of replicas with the
  current image and stay there, while other controllers go on updating the machines between two
  rounds.  A store of machines that keeps the laws of \<open>replica_env\<close> shows that they can hold.
\<close>

subsection \<open>Repeated rounds\<close>

text \<open>
  Between two rounds other controllers may update the machines; they keep names and labels and do
  not make a machine fail.
\<close>

definition same_replicas :: "lib \<Rightarrow> AzureStackHCIVirtualMachine list \<Rightarrow> AzureStackHCIVirtualMachine list \<Rightarrow> bool" where
  "same_replicas L xs ys \<longleftrightarrow> healthy L ys \<and>
     map (\<lambda>vm. (vm_name vm, om_Labels (hvm_Meta vm))) ys = map (\<lambda>vm. (vm_name vm, om_Labels (hvm_Meta vm))) xs"

text \<open>A round waits or works; \<open>lb_rounds\<close> counts the ones that work.\<close>

inductive lb_round :: "lib \<Rightarrow> 'w sys \<Rightarrow> 'w moc \<Rightarrow> 'w kube \<Rightarrow> LoadBalancerScope \<Rightarrow> ClusterScope \<Rightarrow>
    ('w \<Rightarrow> AzureStackHCIVirtualMachine list) \<Rightarrow> bool \<Rightarrow> ('w, AzureStackHCILoadBalancer) rstate \<Rightarrow>
    ('w, AzureStackHCILoadBalancer) rstate \<Rightarrow> bool"
  for L S M K lsc csc machines where
  round: "LB_reconcileVirtualMachines L S M K lsc csc s = (Ret (res, None), t) \<Longrightarrow>
    same_replicas L (machines (world t)) (machines w) \<Longrightarrow>
    lb_round L S M K lsc csc machines (\<not> waits L M csc machines s) s (t\<lparr>world := w\<rparr>)"

inductive_cases lb_roundE: "lb_round L S M K lsc csc machines b s t"

inductive lb_rounds :: "lib \<Rightarrow> 'w sys \<Rightarrow> 'w moc \<Rightarrow> 'w kube \<Rightarrow> LoadBalancerScope \<Rightarrow> ClusterScope \<Rightarrow>
    ('w \<Rightarrow> AzureStackHCIVirtualMachine list) \<Rightarrow> nat \<Rightarrow> ('w, AzureStackHCILoadBalancer) rstate \<Rightarrow>
    ('w, AzureStackHCILoadBalancer) rstate \<Rightarrow> bool"
  for L S M K lsc csc machines where
  start: "lb_rounds L S M K lsc csc machines 0 s s"
| more: "lb_rounds L S M K lsc csc machines k s t \<Longrightarrow> lb_round L S M K lsc csc machines b t u \<Longrightarrow>
    lb_rounds L S M K lsc csc machines (if b then k + 1 else k) s u"

lemma same_replicas_view: "same_replicas L xs ys \<Longrightarrow> lb_view lb ys = lb_view lb xs"
proof -
  assume "same_replicas L xs ys"
  then have eq: "map (\<lambda>vm. om_Labels (hvm_Meta vm)) ys = map (\<lambda>vm. om_Labels (hvm_Meta vm)) xs"
    unfolding same_replicas_def by (metis (mono_tags, lifting) map_eq_conv list.map_comp comp_def snd_conv)
  have count: "length (filter (\<lambda>vm. P (om_Labels (hvm_Meta vm))) ys) =
      length (filter (\<lambda>vm. P (om_Labels (hvm_Meta vm))) xs)" for P
    using arg_cong [OF eq, of "\<lambda>ls. length (filter P ls)"] by (simp add: filter_map comp_def)
  show ?thesis
    unfolding lb_view_def outdated_def
    using count [of "\<lambda>l. map_get l OSVersionLabelName \<noteq> LBScope_OSVersion lb"]
      count [of "\<lambda>l. \<not> map_get l OSVersionLabelName \<noteq> LBScope_OSVersion lb"] by simp
qed

lemma same_replicas_ok:
  assumes "same_replicas L xs ys" "rollout_ok L lsc cap lb xs"
  shows "rollout_ok L lsc cap lb ys"
proof -
  have "map fst (map (\<lambda>vm. (vm_name vm, om_Labels (hvm_Meta vm))) ys) =
      map fst (map (\<lambda>vm. (vm_name vm, om_Labels (hvm_Meta vm))) xs)"
    using assms(1) by (simp only: same_replicas_def)
  then have names: "map vm_name ys = map vm_name xs" by (simp add: comp_def)
  then have "length ys = length xs" by (metis length_map)
  with names assms show ?thesis by (simp add: rollout_ok_def same_replicas_def)
qed

text \<open>Rounds keep the load balancer and the numbers in range, and each that works is a step of the policy.\<close>

lemma round_view:
  assumes "lib_conditions L" "replica_env S M K csc (LBScope_Name (obj s)) machines cap"
    and "rollout_ok L lsc cap (obj s) (machines (world s))" and "lb_round L S M K lsc csc machines b s t"
  shows "hlb_Spec (obj t) = hlb_Spec (obj s) \<and> hlb_Meta (obj t) = hlb_Meta (obj s) \<and>
    rollout_ok L lsc cap (obj s) (machines (world t)) \<and> b = (\<not> waits L M csc machines s) \<and>
    lb_view (obj s) (machines (world t)) = (if b then ro_step (lb_view (obj s) (machines (world s))) else lb_view (obj s) (machines (world s)))"
proof -
  from assms(4) obtain res x w where run: "LB_reconcileVirtualMachines L S M K lsc csc s = (Ret (res, None), x)"
    and t: "t = x\<lparr>world := w\<rparr>" "same_replicas L (machines (world x)) (machines w)" "b = (\<not> waits L M csc machines s)"
    by (elim lb_roundE) blast
  have step: "if waits L M csc machines s then waited machines s res x else stepped L lsc cap machines s res x"
    using round_step [OF assms(1-3)] run by auto
  have "hlb_Spec (obj x) = hlb_Spec (obj s) \<and> hlb_Meta (obj x) = hlb_Meta (obj s) \<and> rollout_ok L lsc cap (obj s) (machines (world x))"
    using step assms(3) by (auto simp: waited_def stepped_def split: if_splits)
  with t step show ?thesis
    using same_replicas_view [OF t(2)] same_replicas_ok [OF t(2)] by (auto simp: waited_def stepped_def)
qed

text \<open>The load balancer and its environment, at any time of a run.\<close>

lemma rounds_steps:
  assumes "lib_conditions L" and "lb_rounds L S M K lsc csc machines k s t"
    and "replica_env S M K csc (LBScope_Name (obj s)) machines cap"
    and "rollout_ok L lsc cap (obj s) (machines (world s))"
  shows "hlb_Spec (obj t) = hlb_Spec (obj s) \<and> hlb_Meta (obj t) = hlb_Meta (obj s) \<and>
    rollout_ok L lsc cap (obj s) (machines (world t)) \<and>
    lb_view (obj s) (machines (world t)) = (ro_step ^^ k) (lb_view (obj s) (machines (world s)))"
  using assms(2,3,4)
proof (induction rule: lb_rounds.induct)
  case (start s)
  then show ?case by simp
next
  case (more k s t b u)
  note IH = more.IH [OF more.prems]
  have spec: "hlb_Spec (obj t) = hlb_Spec (obj s)" using IH by simp
  have "replica_env S M K csc (LBScope_Name (obj t)) machines cap" "rollout_ok L lsc cap (obj t) (machines (world t))"
    using IH more.prems LBScope_Name_meta [of "obj t" "obj s"] spec_frame(5) [OF spec] by simp_all
  from round_view [OF assms(1) this more.hyps(2)] IH show ?case
    using spec_frame(4,5) [OF spec] by simp
qed

lemma rounds_env:
  assumes "lib_conditions L" and "lb_rounds L S M K lsc csc machines k s t"
    and "replica_env S M K csc (LBScope_Name (obj s)) machines cap"
    and "rollout_ok L lsc cap (obj s) (machines (world s))"
  shows "replica_env S M K csc (LBScope_Name (obj t)) machines cap" "rollout_ok L lsc cap (obj t) (machines (world t))"
  using rounds_steps [OF assms] assms(3) LBScope_Name_meta [of "obj t" "obj s"] spec_frame(5) [of "obj t" "obj s"] by simp_all

lemma round_exists:
  assumes "lib_conditions L" and "replica_env S M K csc (LBScope_Name (obj s)) machines cap"
    and "rollout_ok L lsc cap (obj s) (machines (world s))"
  shows "\<exists>t. lb_round L S M K lsc csc machines (\<not> waits L M csc machines s) s t"
proof -
  from round_step [OF assms] obtain res x where x: "LB_reconcileVirtualMachines L S M K lsc csc s = (Ret (res, None), x)"
      "if waits L M csc machines s then waited machines s res x else stepped L lsc cap machines s res x" by blast
  have "same_replicas L (machines (world x)) (machines (world x))"
    using x(2) assms(3) by (auto simp: same_replicas_def waited_def stepped_def rollout_ok_def split: if_splits)
  then have "lb_round L S M K lsc csc machines (\<not> waits L M csc machines s) s (x\<lparr>world := world x\<rparr>)" by (rule lb_round.round [OF x(1)])
  then show ?thesis by blast
qed

subsection \<open>An environment that keeps the laws\<close>

text \<open>
  An API server whose world is the list of the stored machines, a source of names that picks the
  first unused letter or digit five times, and a cloud that reports every machine as ready.
\<close>

definition live :: "AzureStackHCIVirtualMachine list \<Rightarrow> AzureStackHCIVirtualMachine list" where
  "live ms = filter (\<lambda>vm. DeletionTimestamp_IsZero (hvm_Meta vm)) ms"

definition store_kube :: "AzureStackHCIVirtualMachine list kube" where
  "store_kube = kube0\<lparr>k_List_VMs := \<lambda>_ _ ms. (Ret (Inr ms), ms),
     k_CreateOrUpdate_VM := \<lambda>vm f ms. (case f vm ms of
         (Ret (e, vm'), ms') \<Rightarrow> (Ret (OperationResultCreated, e, vm'), if e = None then ms' @ [vm'] else ms')
       | (Panics p, ms') \<Rightarrow> (Panics p, ms')),
     k_Update_VM := \<lambda>vm ms. (Ret (None, vm), map (\<lambda>x. if DeletionTimestamp_IsZero (hvm_Meta x) \<and>
         vm_name x = vm_name vm then vm else x) ms),
     k_Delete_VM := \<lambda>vm ms. (Ret None, filter (\<lambda>x. \<not> (DeletionTimestamp_IsZero (hvm_Meta x) \<and> vm_name x = vm_name vm)) ms)\<rparr>"

definition letter_name :: "string \<Rightarrow> nat \<Rightarrow> string" where
  "letter_name lbname d = lbname @ ''-'' @ replicate 5 (charSet ! d)"

definition fresh_letter :: "string \<Rightarrow> AzureStackHCIVirtualMachine list \<Rightarrow> nat" where
  "fresh_letter lbname ms = (case find (\<lambda>d. letter_name lbname d \<notin> vm_name ` set (live ms)) [0..<length charSet] of
     Some d \<Rightarrow> d | None \<Rightarrow> 0)"

definition store_sys :: "string \<Rightarrow> AzureStackHCIVirtualMachine list sys" where
  "store_sys lbname = sys0\<lparr>sys_randInt := \<lambda>_ ms. (Ret (Inr (fresh_letter lbname ms)), ms)\<rparr>"

definition store_moc :: "AzureStackHCIVirtualMachine list moc" where
  "store_moc = moc0\<lparr>m_Get_LB := \<lambda>_ _ ms. (Ret (Inr [\<lparr>nlb_Name = Some ''lb'', nlb_Properties = Some
     \<lparr>lbp_BackendAddressPools = [], lbp_FrontendIPConfigurations =
        Some [Some \<lparr>fip_SubnetID = None, fip_IPAddress = Some ''10.0.0.1''\<rparr>],
      lbp_LoadBalancingRules = [], lbp_ReplicationCount = int (length (live ms))\<rparr>, nlb_Tags = []\<rparr>]), ms)\<rparr>"

lemma length_charSet: "length charSet = 36" and distinct_charSet: "distinct charSet"
  by (simp_all add: charSet_def)

lemma fresh_letter:
  assumes "length (live ms) < 36"
  shows "fresh_letter n ms < length charSet" "letter_name n (fresh_letter n ms) \<notin> vm_name ` set (live ms)"
proof -
  have inj: "inj_on (letter_name n) {..<36}"
    using distinct_charSet length_charSet by (auto simp: inj_on_def letter_name_def nth_eq_iff_index_eq)
  have "\<not> letter_name n ` {..<36} \<subseteq> vm_name ` set (live ms)"
  proof
    assume "letter_name n ` {..<36} \<subseteq> vm_name ` set (live ms)"
    then have "card (letter_name n ` {..<36}) \<le> card (vm_name ` set (live ms))" by (simp add: card_mono)
    also have "\<dots> \<le> length (live ms)" by (metis card_image_le card_length finite_set le_trans)
    finally show False using assms card_image [OF inj] by simp
  qed
  then obtain d where d: "find (\<lambda>d. letter_name n d \<notin> vm_name ` set (live ms)) [0..<length charSet] = Some d"
    by (cases "find (\<lambda>d. letter_name n d \<notin> vm_name ` set (live ms)) [0..<length charSet]")
      (auto simp: find_None_iff length_charSet)
  then have "d < length charSet" "letter_name n d \<notin> vm_name ` set (live ms)"
    by (auto simp: find_Some_iff)
  then show "fresh_letter n ms < length charSet" "letter_name n (fresh_letter n ms) \<notin> vm_name ` set (live ms)"
    by (simp_all add: fresh_letter_def d)
qed

lemma store_name:
  assumes "length (live ms) < 36"
  shows "GenerateAzureStackHCILoadBalancerMachineName (store_sys n) n ms =
    (Ret (letter_name n (fresh_letter n ms), None), ms)"
proof -
  have upt: "[0..<5] = [0, 1, 2, 3, 4::nat]" by (simp add: upt_rec)
  show ?thesis
    using fresh_letter(1) [OF assms, of n]
    by (simp add: GenerateAzureStackHCILoadBalancerMachineName_def RandomAlphaNumericString_def upt store_sys_def
        bind_def letter_name_def numeral_eq_Suc)
qed

lemma live_update:
  assumes "DeletionTimestamp_IsZero (hvm_Meta vm)"
  shows "live (map (\<lambda>x. if DeletionTimestamp_IsZero (hvm_Meta x) \<and> vm_name x = vm_name vm then vm else x) ms) =
    map (\<lambda>x. if vm_name x = vm_name vm then vm else x) (live ms)"
  using assms by (induction ms) (auto simp: live_def)

lemma live_delete:
  "live (filter (\<lambda>x. DeletionTimestamp_IsZero (hvm_Meta x) \<longrightarrow> vm_name x \<noteq> vm_name vm) ms) =
   filter (\<lambda>x. vm_name x \<noteq> vm_name vm) (live ms)"
  by (induction ms) (auto simp: live_def)

lemma store_env: "replica_env (store_sys n) store_moc store_kube csc n live 36"
  unfolding replica_env_def
proof (intro conjI allI impI)
  show "\<exists>items w'. k_List_VMs store_kube (ClusterScope_Namespace csc) [(LoadBalancerLabel, n)] w = (Ret (Inr items), w') \<and>
      not_deleted [] items = live w \<and> live w' = live w \<and>
      fst (m_Get_LB store_moc (ClusterScope_GetResourceGroup (csc_before csc)) n w') =
        fst (m_Get_LB store_moc (ClusterScope_GetResourceGroup (csc_before csc)) n w)" for w
    by (simp add: store_kube_def not_deleted_eq live_def)
  show "\<exists>na w'. GenerateAzureStackHCILoadBalancerMachineName (store_sys n) n w = (Ret (na, None), w') \<and>
      live w' = live w \<and> na \<notin> vm_name ` set (live w)" if "length (live w) < 36" for w
    using that by (simp add: store_name fresh_letter)
  show "\<exists>r w'. k_CreateOrUpdate_VM store_kube vm f w = (Ret (r, None, vm'), w') \<and>
      mset (live w') = add_mset vm' (mset (live w))"
    if "om_Namespace (hvm_Meta vm) = ClusterScope_Namespace csc \<and> vm_name vm \<notin> vm_name ` set (live w) \<and>
      f vm w = (Ret (None, vm'), w) \<and> map_get (om_Labels (hvm_Meta vm')) LoadBalancerLabel = n \<and>
      DeletionTimestamp_IsZero (hvm_Meta vm')" for vm f w vm'
    using that by (simp add: store_kube_def live_def)
  show "\<exists>w'. k_Update_VM store_kube vm w = (Ret (None, vm), w') \<and>
      mset (live w') = image_mset (\<lambda>x. if vm_name x = vm_name vm then vm else x) (mset (live w))"
    if "vm_name vm \<in> vm_name ` set (live w) \<and> DeletionTimestamp_IsZero (hvm_Meta vm)" for vm w
    using that by (simp add: store_kube_def live_update)
  show "\<exists>w'. k_Delete_VM store_kube vm w = (Ret None, w') \<and>
      mset (live w') = filter_mset (\<lambda>x. vm_name x \<noteq> vm_name vm) (mset (live w))" for vm w
    by (simp add: store_kube_def live_delete)
  show "\<exists>r w'. m_Get_LB store_moc (ClusterScope_GetResourceGroup (csc_before csc)) n w = (Ret r, w') \<and>
      live w' = live w \<and> (\<forall>lbs. r = Inr lbs \<longrightarrow> (\<exists>lb rest p a. lbs = lb # rest \<and>
        nlb_Properties lb = Some p \<and> lb_frontend_address p = Some a))" for w
    by (simp add: store_moc_def lb_frontend_address_def)
qed

text \<open>A load balancer that wants two replicas, with one outdated machine.\<close>

definition lb_two :: AzureStackHCILoadBalancer where
  "lb_two = (newLoadBalancer ''ns'' ''lb'')\<lparr>hlb_Spec := (hlb_Spec (newLoadBalancer ''ns'' ''lb''))
     \<lparr>lbs_Replicas := Some 2, lbs_Image := Some (zeroImage\<lparr>img_Name := Some ''image'', img_Version := Some ''2''\<rparr>)\<rparr>\<rparr>"

definition old_vm :: AzureStackHCIVirtualMachine where
  "old_vm = (newVirtualMachine ''ns'' ''lb-old'')\<lparr>hvm_Meta := (newMeta ''ns'' ''lb-old'')
     \<lparr>om_Labels := Some [(OSVersionLabelName, ''1''), (LoadBalancerLabel, ''lb'')]\<rparr>\<rparr>"

definition rollout_state :: "(AzureStackHCIVirtualMachine list, AzureStackHCILoadBalancer) rstate" where
  "rollout_state = \<lparr>world = [old_vm], obj = lb_two, events = []\<rparr>"

lemma rollout_state_env: "replica_env (store_sys ''lb'') store_moc store_kube csc0 (LBScope_Name (obj rollout_state)) live 36"
  using store_env [of "''lb''"] by (simp add: rollout_state_def LBScope_Name_def lb_two_def newLoadBalancer_def newMeta_def)

lemma rollout_state_view:
  "lb_view (obj rollout_state) (live (world rollout_state)) = \<lparr>ro_old = 1, ro_new = 0, ro_want = 2\<rparr>"
  by code_simp

lemma rollout_state_ok: "rollout_ok lib0 lsc0 36 (obj rollout_state) (live (world rollout_state))"
proof -
  have "live (world rollout_state) = [old_vm]" "VM_GetConditions old_vm = []"
      "sint (LBScope_GetDesiredReplicas (obj rollout_state)) = 2"
      "getVMImage lib0 lsc0 (obj rollout_state) = Some (Inr (zeroImage\<lparr>img_Name := Some ''image'', img_Version := Some ''2''\<rparr>))"
    by code_simp+
  then show ?thesis by (simp add: rollout_ok_def healthy_def lib0_conditions)
qed

text \<open>In this cloud a round with few machines never waits.\<close>

lemma store_ready:
  "length (live (world s)) < 2 ^ 31 \<Longrightarrow> \<not> waits L store_moc csc live s"
  by (simp add: waits_def ready_replicas_def store_moc_def sint_word_of_nat)

lemma store_round:
  assumes "lb_rounds lib0 (store_sys ''lb'') store_moc store_kube lsc0 csc0 live k rollout_state s"
  shows "\<exists>t. lb_round lib0 (store_sys ''lb'') store_moc store_kube lsc0 csc0 live True s t"
proof -
  note env = rounds_env [OF lib0_conditions assms rollout_state_env rollout_state_ok]
  then have "length (live (world s)) < 2 ^ 31" by (simp add: rollout_ok_def)
  with round_exists [OF lib0_conditions env] store_ready show ?thesis by simp
qed

lemma store_rounds: "\<exists>t. lb_rounds lib0 (store_sys ''lb'') store_moc store_kube lsc0 csc0 live k rollout_state t"
proof (induction k)
  case 0
  show ?case by (blast intro: lb_rounds.start)
next
  case (Suc k)
  then obtain s t where "lb_rounds lib0 (store_sys ''lb'') store_moc store_kube lsc0 csc0 live k rollout_state s"
      "lb_round lib0 (store_sys ''lb'') store_moc store_kube lsc0 csc0 live True s t"
    using store_round by blast
  from lb_rounds.more [OF this] show ?case by auto
qed

subsection \<open>Properties\<close>

text \<open>
  C17: Reconciling the replicas carries out the rollout policy.  When every request to the API server
  succeeds, names are new, the numbers fit and no machine reports that it is not running, one call
  ends without an error and leaves the specification alone.  If fewer replicas are ready than there
  are, and an upgrade or scale-up is under way or no replica is superfluous, it waits: it changes no
  machine and asks to come back in a minute.  Otherwise it does exactly one step of the policy: with
  too few replicas it adds one, with too many it removes one, an outdated one first, and with the
  right number of which some are outdated it adds one more; and it asks to come back exactly when
  replicas are missing, superfluous or outdated.
\<close>

theorem LB_reconcileVirtualMachines_refines:
  assumes "lib_conditions L" "replica_env S M K csc (LBScope_Name (obj s)) machines cap"
    and "rollout_ok L lsc cap (obj s) (machines (world s))"
  shows "\<exists>res t. LB_reconcileVirtualMachines L S M K lsc csc s = (Ret (res, None), t) \<and>
    (if ready_replicas M csc (obj s) (world s) < int (length (machines (world s))) \<and>
        (replicasAreUpgrading L (obj s) \<or> replicasAreScalingUp L (obj s) \<or>
         int (length (machines (world s))) \<le> sint (LBScope_GetDesiredReplicas (obj s)))
     then machines (world t) = machines (world s) \<and> res = requeueAfter 60
     else lb_view (obj t) (machines (world t)) = ro_step (lb_view (obj s) (machines (world s))) \<and>
       (res = noResult \<longleftrightarrow> ro_finished (lb_view (obj s) (machines (world s))))) \<and>
    rollout_ok L lsc cap (obj t) (machines (world t)) \<and> hlb_Spec (obj t) = hlb_Spec (obj s)"
proof -
  obtain res t where t: "LB_reconcileVirtualMachines L S M K lsc csc s = (Ret (res, None), t)"
      "if waits L M csc machines s then waited machines s res t else stepped L lsc cap machines s res t"
    using round_step [OF assms] by blast
  then have spec: "hlb_Spec (obj t) = hlb_Spec (obj s)" by (simp add: stepped_def waited_def split: if_splits)
  with t assms(3) show ?thesis
    unfolding waits_def [symmetric]
    using spec_frame(4,5) [OF spec] by (intro exI [of _ res] exI [of _ t]) (auto simp: stepped_def waited_def split: if_splits)
qed

theorem LB_reconcileVirtualMachines_refines_witness:
  "\<exists>res t. LB_reconcileVirtualMachines lib0 (store_sys ''lb'') store_moc store_kube lsc0 csc0 rollout_state = (Ret (res, None), t) \<and>
    lb_view (obj t) (live (world t)) = \<lparr>ro_old = 1, ro_new = 1, ro_want = 2\<rparr> \<and> res \<noteq> noResult"
proof -
  have "ro_step \<lparr>ro_old = 1, ro_new = 0, ro_want = 2\<rparr> = \<lparr>ro_old = 1, ro_new = 1, ro_want = 2\<rparr>"
      "\<not> ro_finished \<lparr>ro_old = 1, ro_new = 0, ro_want = 2\<rparr>"
    by (simp_all add: ro_step_def ro_finished_def)
  moreover have "\<not> waits lib0 store_moc csc0 live rollout_state"
    using rollout_state_ok by (intro store_ready) (simp add: rollout_ok_def)
  ultimately show ?thesis
    using LB_reconcileVirtualMachines_refines [OF lib0_conditions rollout_state_env rollout_state_ok]
    unfolding rollout_state_view waits_def by auto
qed

text \<open>
  C18: A rollout terminates, if its replicas get ready.  However other controllers update the machines
  between two reconciles, as long as names and labels stay and no machine fails: reconciling can
  always go on, a round that finds all replicas ready works (it does not wait), and after
  \<open>ro_left\<close> rounds that work (two per outdated machine, two more, and one per missing or
  superfluous machine), whatever waits were in between, there are exactly as many machines as
  desired and none is outdated; from then on nothing changes.
\<close>

theorem LB_rollout_terminates:
  assumes "lib_conditions L" "replica_env S M K csc (LBScope_Name (obj s)) machines cap"
    and "rollout_ok L lsc cap (obj s) (machines (world s))"
    and "lb_rounds L S M K lsc csc machines k s t"
  shows "(\<exists>b u. lb_round L S M K lsc csc machines b t u \<and>
      (int (length (machines (world t))) \<le> ready_replicas M csc (obj t) (world t) \<longrightarrow> b)) \<and>
    (ro_left (lb_view (obj s) (machines (world s))) \<le> k \<longrightarrow>
      int (length (machines (world t))) = sint (LBScope_GetDesiredReplicas (obj t)) \<and>
      filter (outdated (obj t)) (machines (world t)) = [] \<and> hlb_Spec (obj t) = hlb_Spec (obj s))"
proof (intro conjI impI)
  show "\<exists>b u. lb_round L S M K lsc csc machines b t u \<and>
      (int (length (machines (world t))) \<le> ready_replicas M csc (obj t) (world t) \<longrightarrow> b)"
    using round_exists [OF assms(1) rounds_env [OF assms(1,4,2,3)]] by (fastforce simp: waits_def)
next
  assume k: "ro_left (lb_view (obj s) (machines (world s))) \<le> k"
  note steps = rounds_steps [OF assms(1,4,2,3)]
  show spec: "hlb_Spec (obj t) = hlb_Spec (obj s)" using steps by simp
  have fin: "ro_finished (lb_view (obj t) (machines (world t)))"
    using ro_steps_finished [OF k] steps spec_frame(4) [OF spec] by simp
  then show "filter (outdated (obj t)) (machines (world t)) = []" by (simp add: ro_finished_def lb_view_def)
  have "0 \<le> sint (LBScope_GetDesiredReplicas (obj t))"
    using assms(3) spec_frame(3) [OF spec] by (simp add: rollout_ok_def)
  then show "int (length (machines (world t))) = sint (LBScope_GetDesiredReplicas (obj t))"
    using fin view_total [of "obj t" "machines (world t)"] by (simp add: ro_finished_def) (simp add: lb_view_def)
qed

theorem LB_rollout_terminates_witness:
  "\<exists>t. lb_rounds lib0 (store_sys ''lb'') store_moc store_kube lsc0 csc0 live 5 rollout_state t \<and>
    int (length (live (world t))) = sint (LBScope_GetDesiredReplicas (obj t)) \<and>
    filter (outdated (obj t)) (live (world t)) = []"
proof -
  obtain t where t: "lb_rounds lib0 (store_sys ''lb'') store_moc store_kube lsc0 csc0 live 5 rollout_state t"
    using store_rounds by blast
  have "ro_left \<lparr>ro_old = 1, ro_new = 0, ro_want = 2\<rparr> \<le> 5" by (simp add: ro_left_def)
  with t show ?thesis
    using LB_rollout_terminates [OF lib0_conditions rollout_state_env rollout_state_ok t]
    unfolding rollout_state_view by blast
qed

text \<open>
  C19: A rollout keeps the service available.  When every request to the API server succeeds and no
  machine fails, at any time during a rollout, however many rounds wait, there are at least as many
  machines as at its beginning or as desired, whichever is less, and at most as many as at its
  beginning or \<open>MaxSurge\<close> more than desired, whichever is more.  And the next round changes the
  number of machines only if all of them are ready, or to remove one of too many while no upgrade
  and no scale-up is under way.
\<close>

theorem LB_rollout_available:
  assumes "lib_conditions L" "replica_env S M K csc (LBScope_Name (obj s)) machines cap"
    and "rollout_ok L lsc cap (obj s) (machines (world s))"
    and "lb_rounds L S M K lsc csc machines k s t"
  shows "min (int (length (machines (world s)))) (sint (LBScope_GetDesiredReplicas (obj s))) \<le> int (length (machines (world t))) \<and>
    int (length (machines (world t))) \<le>
      max (int (length (machines (world s)))) (sint (LBScope_GetDesiredReplicas (obj s)) + sint MaxSurge) \<and>
    (\<forall>b u. lb_round L S M K lsc csc machines b t u \<and> length (machines (world u)) \<noteq> length (machines (world t)) \<longrightarrow>
      int (length (machines (world t))) \<le> ready_replicas M csc (obj t) (world t) \<or>
      length (machines (world u)) < length (machines (world t)) \<and>
      sint (LBScope_GetDesiredReplicas (obj t)) < int (length (machines (world t))) \<and>
      \<not> replicasAreUpgrading L (obj t) \<and> \<not> replicasAreScalingUp L (obj t))"
proof (intro conjI allI impI)
  let ?v = "lb_view (obj s) (machines (world s))"
  have bounds: "min (ro_old r + ro_new r) (ro_want r) \<le> ro_old ((ro_step ^^ n) r) + ro_new ((ro_step ^^ n) r) \<and>
      ro_old ((ro_step ^^ n) r) + ro_new ((ro_step ^^ n) r) \<le> max (ro_old r + ro_new r) (ro_want r + 1) \<and>
      ro_want ((ro_step ^^ n) r) = ro_want r" for r n
  proof (induction n)
    case (Suc n)
    then show ?case using ro_step_total [of "(ro_step ^^ n) r"] by auto
  qed simp
  have view: "(ro_step ^^ k) ?v = lb_view (obj s) (machines (world t))"
    using rounds_steps [OF assms(1,4,2,3)] by simp
  have want: "int (ro_want ?v) = sint (LBScope_GetDesiredReplicas (obj s))"
    using assms(3) by (simp add: lb_view_def rollout_ok_def)
  show "min (int (length (machines (world s)))) (sint (LBScope_GetDesiredReplicas (obj s))) \<le> int (length (machines (world t)))"
    "int (length (machines (world t))) \<le>
      max (int (length (machines (world s)))) (sint (LBScope_GetDesiredReplicas (obj s)) + sint MaxSurge)"
    using bounds [of ?v k] view want view_total [of "obj s"] by (simp_all add: MaxSurge_def) linarith+
  fix b u assume u: "lb_round L S M K lsc csc machines b t u \<and> length (machines (world u)) \<noteq> length (machines (world t))"
  note env = rounds_env [OF assms(1,4,2,3)]
  note round = round_view [OF assms(1) env conjunct1 [OF u]]
  let ?t = "lb_view (obj t) (machines (world t))"
  have b: b using round u view_total [of "obj t"] by (metis (full_types))
  have "0 \<le> sint (LBScope_GetDesiredReplicas (obj t))" using env(2) by (simp add: rollout_ok_def)
  then have "int (ro_want ?t) = sint (LBScope_GetDesiredReplicas (obj t))" by (simp add: lb_view_def)
  moreover have "length (machines (world u)) = ro_old (ro_step ?t) + ro_new (ro_step ?t)" "length (machines (world t)) = ro_old ?t + ro_new ?t"
    using round b view_total [of "obj t" "machines (world u)"] view_total [of "obj t" "machines (world t)"] by simp_all
  moreover have "ro_old (ro_step ?t) + ro_new (ro_step ?t) < ro_old ?t + ro_new ?t" if "ro_want ?t < ro_old ?t + ro_new ?t"
    using that by (auto simp: ro_step_def Let_def)
  ultimately show "int (length (machines (world t))) \<le> ready_replicas M csc (obj t) (world t) \<or>
      length (machines (world u)) < length (machines (world t)) \<and>
      sint (LBScope_GetDesiredReplicas (obj t)) < int (length (machines (world t))) \<and>
      \<not> replicasAreUpgrading L (obj t) \<and> \<not> replicasAreScalingUp L (obj t)"
    using b round unfolding waits_def by linarith
qed

theorem LB_rollout_available_witness:
  "\<exists>t. lb_rounds lib0 (store_sys ''lb'') store_moc store_kube lsc0 csc0 live 3 rollout_state t \<and>
    1 \<le> length (live (world t)) \<and> length (live (world t)) \<le> 3"
proof -
  obtain t where t: "lb_rounds lib0 (store_sys ''lb'') store_moc store_kube lsc0 csc0 live 3 rollout_state t"
    using store_rounds by blast
  have "length (live (world rollout_state)) = 1" "sint (LBScope_GetDesiredReplicas (obj rollout_state)) = 2"
      "sint MaxSurge = 1" by code_simp+
  with t show ?thesis
    using LB_rollout_available [OF lib0_conditions rollout_state_env rollout_state_ok t] by auto
qed

end
