(* ===== verification/ApiV1beta1.thy ===== *)
theory ApiV1beta1
  imports ApiConsts
begin

text \<open>
  The structs of \<open>api/v1beta1\<close> that differ from their namesakes of \<open>api/v1beta2\<close>: images, disks and
  zones by value instead of by pointer, the conditions of the older Cluster API contract, and the
  status fields \<open>Ready\<close>, \<open>FailureReason\<close> and \<open>FailureMessage\<close>.  Structs with the same fields in both
  versions (\<open>Image\<close>, \<open>AvailabilityZone\<close>, \<open>ManagedDisk\<close>, the network types) share one record, under a
  name of their own here.  The templates and the list types of both versions, which no controller
  reads, are here as well, with the accessors of the older objects.
\<close>

text \<open>Two small types of \<open>types.go\<close> that only the conversions use.\<close>

record AzureStackHCIResourceReference =
  rr_ID :: "string option"

record AzureStackHCIMachineProviderCondition =
  pc_Type :: string
  pc_Status :: string
  pc_LastProbeTime :: int
  pc_LastTransitionTime :: int
  pc_Reason :: string
  pc_Message :: string

text \<open>Structs with the same fields in both versions.\<close>

type_synonym AzureStackHCIResourceReference_v1beta1 = AzureStackHCIResourceReference
type_synonym AzureStackHCIMachineProviderCondition_v1beta1 = AzureStackHCIMachineProviderCondition
type_synonym NetworkSpec_v1beta1 = NetworkSpec
type_synonym VnetSpec_v1beta1 = VnetSpec
type_synonym SubnetSpec_v1beta1 = SubnetSpec
type_synonym IpConfigurationSpec_v1beta1 = IpConfigurationSpec
type_synonym NetworkInterfaceSpec_v1beta1 = NetworkInterfaceSpec
type_synonym Image_v1beta1 = Image
type_synonym AvailabilityZone_v1beta1 = AvailabilityZone
type_synonym ManagedDisk_v1beta1 = ManagedDisk

text \<open>The condition type of Cluster API v1beta1.\<close>

record Condition_v1beta1 =
  c1_Type :: string
  c1_Status :: string
  c1_Severity :: string
  c1_LastTransitionTime :: int
  c1_Reason :: string
  c1_Message :: string

record OSDisk_v1beta1 =
  osd1_Name :: string
  osd1_Source :: string
  osd1_OSType :: string
  osd1_DiskSizeGB :: int32
  osd1_ManagedDisk :: ManagedDisk

record VM_v1beta1 =
  vm1_ID :: string
  vm1_Name :: string
  vm1_AvailabilityZone :: string
  vm1_VMSize :: string
  vm1_Image :: Image
  vm1_OSDisk :: OSDisk_v1beta1
  vm1_BootstrapData :: string
  vm1_State :: string
  vm1_Identity :: string

record AzureStackHCIVirtualMachineSpec_v1beta1 =
  vms1_VMSize :: string
  vms1_AvailabilityZone :: AvailabilityZone
  vms1_Image :: Image
  vms1_OSDisk :: OSDisk_v1beta1
  vms1_BootstrapData :: "string option"
  vms1_Identity :: string
  vms1_Location :: string
  vms1_SSHPublicKey :: string
  vms1_StorageContainer :: string
  vms1_GpuCount :: int32
  vms1_ResourceGroup :: string
  vms1_VnetName :: string
  vms1_ClusterName :: string
  vms1_SubnetName :: string
  vms1_BackendPoolNames :: "string list"
  vms1_AdditionalSSHKeys :: "string list"
  vms1_NetworkInterfaces :: NetworkInterfaces
  vms1_AvailabilitySetName :: string
  vms1_PlacementGroupName :: string

record AzureStackHCIVirtualMachineStatus_v1beta1 =
  vmst1_Ready :: bool
  vmst1_Addresses :: "string list"
  vmst1_VMState :: "string option"
  vmst1_FailureReason :: "string option"
  vmst1_FailureMessage :: "string option"
  vmst1_Conditions :: "Condition_v1beta1 list"

record AzureStackHCIMachineSpec_v1beta1 =
  ms1_ProviderID :: "string option"
  ms1_VMSize :: string
  ms1_AvailabilityZone :: AvailabilityZone
  ms1_Image :: Image
  ms1_OSDisk :: OSDisk_v1beta1
  ms1_Location :: string
  ms1_SSHPublicKey :: string
  ms1_StorageContainer :: string
  ms1_GpuCount :: int32
  ms1_AllocatePublicIP :: bool
  ms1_AdditionalSSHKeys :: "string list"
  ms1_NetworkInterfaces :: NetworkInterfaces
  ms1_AvailabilitySetName :: string
  ms1_PlacementGroupName :: string

record AzureStackHCIMachineStatus_v1beta1 =
  mst1_Ready :: bool
  mst1_Addresses :: "string list"
  mst1_VMState :: "string option"
  mst1_Conditions :: "Condition_v1beta1 list"
  mst1_FailureReason :: "string option"
  mst1_FailureMessage :: "string option"

record AzureStackHCILoadBalancerSpec_v1beta1 =
  lbs1_SSHPublicKey :: string
  lbs1_Image :: Image
  lbs1_VMSize :: string
  lbs1_StorageContainer :: string
  lbs1_Replicas :: "int32 option"

record AzureStackHCILoadBalancerStatus_v1beta1 =
  lbst1_Ready :: bool
  lbst1_Replicas :: int32
  lbst1_ReadyReplicas :: int32
  lbst1_FailedReplicas :: int32
  lbst1_Address :: string
  lbst1_Port :: int32
  lbst1_Phase :: string
  lbst1_Conditions :: "Condition_v1beta1 list"
  lbst1_ErrorReason :: "string option"
  lbst1_ErrorMessage :: "string option"
  lbst1_Selector :: string

record AzureStackHCIClusterSpec_v1beta1 =
  cs1_NetworkSpec :: NetworkSpec
  cs1_ResourceGroup :: string
  cs1_Location :: string
  cs1_AzureStackHCILoadBalancer :: "AzureStackHCILoadBalancerSpec_v1beta1 option"
  cs1_ControlPlaneEndpoint :: APIEndpoint
  cs1_Version :: "string option"
  cs1_Management :: bool

record AzureStackHCIClusterStatus_v1beta1 =
  cst1_Bastion :: VM_v1beta1
  cst1_Ready :: bool
  cst1_Phase :: string
  cst1_Conditions :: "Condition_v1beta1 list"

record AzureStackHCICluster_v1beta1 =
  hc1_TypeMeta :: TypeMeta
  hc1_Meta :: ObjectMeta
  hc1_Spec :: AzureStackHCIClusterSpec_v1beta1
  hc1_Status :: AzureStackHCIClusterStatus_v1beta1

record AzureStackHCILoadBalancer_v1beta1 =
  hlb1_TypeMeta :: TypeMeta
  hlb1_Meta :: ObjectMeta
  hlb1_Spec :: AzureStackHCILoadBalancerSpec_v1beta1
  hlb1_Status :: AzureStackHCILoadBalancerStatus_v1beta1

record AzureStackHCIMachine_v1beta1 =
  hm1_TypeMeta :: TypeMeta
  hm1_Meta :: ObjectMeta
  hm1_Spec :: AzureStackHCIMachineSpec_v1beta1
  hm1_Status :: AzureStackHCIMachineStatus_v1beta1

record AzureStackHCIVirtualMachine_v1beta1 =
  hvm1_TypeMeta :: TypeMeta
  hvm1_Meta :: ObjectMeta
  hvm1_Spec :: AzureStackHCIVirtualMachineSpec_v1beta1
  hvm1_Status :: AzureStackHCIVirtualMachineStatus_v1beta1

text \<open>Zero values of the struct types that are embedded by value.\<close>

definition zeroOSDisk_v1beta1 :: OSDisk_v1beta1 where
  "zeroOSDisk_v1beta1 = \<lparr>osd1_Name = [], osd1_Source = [], osd1_OSType = [], osd1_DiskSizeGB = 0,
     osd1_ManagedDisk = \<lparr>md_StorageAccountType = []\<rparr>\<rparr>"

definition zeroAvailabilityZone :: AvailabilityZone where
  "zeroAvailabilityZone = \<lparr>az_ID = None, az_Enabled = None\<rparr>"

subsection \<open>Lists and templates of both versions\<close>

text \<open>The list metadata of the library, known by the fields that page a listing.\<close>

record ListMeta =
  lm_ResourceVersion :: string
  lm_Continue :: string

record 'a ObjectList =
  ol_TypeMeta :: TypeMeta
  ol_Meta :: ListMeta
  ol_Items :: "'a list"

type_synonym AzureStackHCIClusterList = "AzureStackHCICluster ObjectList"
type_synonym AzureStackHCILoadBalancerList = "AzureStackHCILoadBalancer ObjectList"
type_synonym AzureStackHCIMachineList = "AzureStackHCIMachine ObjectList"
type_synonym AzureStackHCIVirtualMachineList = "AzureStackHCIVirtualMachine ObjectList"
type_synonym AzureStackHCIClusterList_v1beta1 = "AzureStackHCICluster_v1beta1 ObjectList"
type_synonym AzureStackHCILoadBalancerList_v1beta1 = "AzureStackHCILoadBalancer_v1beta1 ObjectList"
type_synonym AzureStackHCIMachineList_v1beta1 = "AzureStackHCIMachine_v1beta1 ObjectList"
type_synonym AzureStackHCIVirtualMachineList_v1beta1 = "AzureStackHCIVirtualMachine_v1beta1 ObjectList"

record AzureStackHCIClusterTemplateResource =
  ctr_Spec :: AzureStackHCIClusterSpec

record AzureStackHCIClusterTemplateSpec =
  cts_Template :: AzureStackHCIClusterTemplateResource

record AzureStackHCIClusterTemplate =
  ct_TypeMeta :: TypeMeta
  ct_Meta :: ObjectMeta
  ct_Spec :: AzureStackHCIClusterTemplateSpec

type_synonym AzureStackHCIClusterTemplateList = "AzureStackHCIClusterTemplate ObjectList"

record AzureStackHCIClusterTemplateResource_v1beta1 =
  ctr1_Spec :: AzureStackHCIClusterSpec_v1beta1

record AzureStackHCIClusterTemplateSpec_v1beta1 =
  cts1_Template :: AzureStackHCIClusterTemplateResource_v1beta1

record AzureStackHCIClusterTemplate_v1beta1 =
  ct1_TypeMeta :: TypeMeta
  ct1_Meta :: ObjectMeta
  ct1_Spec :: AzureStackHCIClusterTemplateSpec_v1beta1

type_synonym AzureStackHCIClusterTemplateList_v1beta1 = "AzureStackHCIClusterTemplate_v1beta1 ObjectList"

record AzureStackHCIMachineTemplateResource =
  mtr_Spec :: AzureStackHCIMachineSpec

record AzureStackHCIMachineTemplateSpec =
  mts_Template :: AzureStackHCIMachineTemplateResource

record AzureStackHCIMachineTemplate =
  mt_TypeMeta :: TypeMeta
  mt_Meta :: ObjectMeta
  mt_Spec :: AzureStackHCIMachineTemplateSpec

type_synonym AzureStackHCIMachineTemplateList = "AzureStackHCIMachineTemplate ObjectList"

record AzureStackHCIMachineTemplateResource_v1beta1 =
  mtr1_Spec :: AzureStackHCIMachineSpec_v1beta1

record AzureStackHCIMachineTemplateSpec_v1beta1 =
  mts1_Template :: AzureStackHCIMachineTemplateResource_v1beta1

record AzureStackHCIMachineTemplate_v1beta1 =
  mt1_TypeMeta :: TypeMeta
  mt1_Meta :: ObjectMeta
  mt1_Spec :: AzureStackHCIMachineTemplateSpec_v1beta1

type_synonym AzureStackHCIMachineTemplateList_v1beta1 = "AzureStackHCIMachineTemplate_v1beta1 ObjectList"

subsection \<open>Accessors of the older objects\<close>

definition Cluster_GetConditions_v1beta1 :: "AzureStackHCICluster_v1beta1 \<Rightarrow> Condition_v1beta1 list" where
  "Cluster_GetConditions_v1beta1 x = cst1_Conditions (hc1_Status x)"

definition Cluster_SetConditions_v1beta1 :: "Condition_v1beta1 list \<Rightarrow> AzureStackHCICluster_v1beta1 \<Rightarrow>
    AzureStackHCICluster_v1beta1" where
  "Cluster_SetConditions_v1beta1 cs x = x\<lparr>hc1_Status := (hc1_Status x)\<lparr>cst1_Conditions := cs\<rparr>\<rparr>"

definition LB_GetConditions_v1beta1 :: "AzureStackHCILoadBalancer_v1beta1 \<Rightarrow> Condition_v1beta1 list" where
  "LB_GetConditions_v1beta1 x = lbst1_Conditions (hlb1_Status x)"

definition LB_SetConditions_v1beta1 :: "Condition_v1beta1 list \<Rightarrow> AzureStackHCILoadBalancer_v1beta1 \<Rightarrow>
    AzureStackHCILoadBalancer_v1beta1" where
  "LB_SetConditions_v1beta1 cs x = x\<lparr>hlb1_Status := (hlb1_Status x)\<lparr>lbst1_Conditions := cs\<rparr>\<rparr>"

definition Machine_GetConditions_v1beta1 :: "AzureStackHCIMachine_v1beta1 \<Rightarrow> Condition_v1beta1 list" where
  "Machine_GetConditions_v1beta1 x = mst1_Conditions (hm1_Status x)"

definition Machine_SetConditions_v1beta1 :: "Condition_v1beta1 list \<Rightarrow> AzureStackHCIMachine_v1beta1 \<Rightarrow>
    AzureStackHCIMachine_v1beta1" where
  "Machine_SetConditions_v1beta1 cs x = x\<lparr>hm1_Status := (hm1_Status x)\<lparr>mst1_Conditions := cs\<rparr>\<rparr>"

definition VM_GetConditions_v1beta1 :: "AzureStackHCIVirtualMachine_v1beta1 \<Rightarrow> Condition_v1beta1 list" where
  "VM_GetConditions_v1beta1 x = vmst1_Conditions (hvm1_Status x)"

definition VM_SetConditions_v1beta1 :: "Condition_v1beta1 list \<Rightarrow> AzureStackHCIVirtualMachine_v1beta1 \<Rightarrow>
    AzureStackHCIVirtualMachine_v1beta1" where
  "VM_SetConditions_v1beta1 cs x = x\<lparr>hvm1_Status := (hvm1_Status x)\<lparr>vmst1_Conditions := cs\<rparr>\<rparr>"

definition Cluster_SetTypedPhase_v1beta1 :: "string \<Rightarrow> AzureStackHCIClusterStatus_v1beta1 \<Rightarrow>
    AzureStackHCIClusterStatus_v1beta1" where
  "Cluster_SetTypedPhase_v1beta1 p c = c\<lparr>cst1_Phase := p\<rparr>"

definition Cluster_GetTypedPhase_v1beta1 :: "AzureStackHCIClusterStatus_v1beta1 \<Rightarrow> string" where
  "Cluster_GetTypedPhase_v1beta1 c = (let phase = cst1_Phase c in
     if phase = AzureStackHCIClusterPhasePending \<or>
        phase = AzureStackHCIClusterPhaseProvisioning \<or>
        phase = AzureStackHCIClusterPhaseProvisioned \<or>
        phase = AzureStackHCIClusterPhaseDeleting \<or>
        phase = AzureStackHCIClusterPhaseFailed
     then phase else AzureStackHCIClusterPhaseUnknown)"

definition LB_SetTypedPhase_v1beta1 :: "string \<Rightarrow> AzureStackHCILoadBalancerStatus_v1beta1 \<Rightarrow>
    AzureStackHCILoadBalancerStatus_v1beta1" where
  "LB_SetTypedPhase_v1beta1 p c = c\<lparr>lbst1_Phase := p\<rparr>"

definition LB_GetTypedPhase_v1beta1 :: "AzureStackHCILoadBalancerStatus_v1beta1 \<Rightarrow> string" where
  "LB_GetTypedPhase_v1beta1 c = (let phase = lbst1_Phase c in
     if phase = AzureStackHCILoadBalancerPhasePending \<or>
        phase = AzureStackHCILoadBalancerPhaseProvisioning \<or>
        phase = AzureStackHCILoadBalancerPhaseProvisioned \<or>
        phase = AzureStackHCILoadBalancerPhaseScaling \<or>
        phase = AzureStackHCILoadBalancerPhaseUpgrading \<or>
        phase = AzureStackHCILoadBalancerPhaseDeleting \<or>
        phase = AzureStackHCILoadBalancerPhaseFailed
     then phase else AzureStackHCILoadBalancerPhaseUnknown)"

definition VirtualMachines_Less_v1beta1 :: "AzureStackHCIVirtualMachine_v1beta1 \<Rightarrow>
    AzureStackHCIVirtualMachine_v1beta1 \<Rightarrow> bool" where
  "VirtualMachines_Less_v1beta1 a b =
     (if om_CreationTimestamp (hvm1_Meta a) = om_CreationTimestamp (hvm1_Meta b)
      then string_less (om_Name (hvm1_Meta a)) (om_Name (hvm1_Meta b))
      else om_CreationTimestamp (hvm1_Meta a) < om_CreationTimestamp (hvm1_Meta b))"

text \<open>The typed phases of the older version keep the contract of the newer ones.\<close>

interpretation cluster_phase1: typed_phase Cluster_parsed_phases Cluster_SetTypedPhase_v1beta1
    Cluster_GetTypedPhase_v1beta1
  by unfold_locales
    (auto simp: Cluster_parsed_phases_def Cluster_SetTypedPhase_v1beta1_def
      Cluster_GetTypedPhase_v1beta1_def AzureStackHCIClusterPhaseUnknown_def Let_def)

interpretation lb_phase1: typed_phase LB_parsed_phases LB_SetTypedPhase_v1beta1 LB_GetTypedPhase_v1beta1
  by unfold_locales
    (auto simp: LB_parsed_phases_def LB_SetTypedPhase_v1beta1_def LB_GetTypedPhase_v1beta1_def
      AzureStackHCILoadBalancerPhaseUnknown_def Let_def)

end
