(* ===== verification/Conversion.thy ===== *)
theory Conversion
  imports ApiV1beta1 Externals
begin

text \<open>
  \<open>api/v1beta1/conversion.go\<close> and the parts of the generated \<open>zz_generated.conversion.go\<close> it relies
  on: the conversion of every object between the two API versions, into a fresh target object as
  the conversion webhook does it.  No conversion can fail.  The type \<open>metav1.Condition\<close> is known by
  the fields the program uses.
\<close>

subsection \<open>Conditions\<close>

definition Convert_v1_Condition_To_v1beta1_Condition :: "Condition \<Rightarrow>
    Condition_v1beta1" where
  "Convert_v1_Condition_To_v1beta1_Condition x =
     \<lparr>c1_Type = c_Type x, c1_Status = c_Status x, c1_Severity = [],
      c1_LastTransitionTime = c_LastTransitionTime x, c1_Reason = c_Reason x, c1_Message = c_Message x\<rparr>"

definition Convert_v1beta1_Condition_To_v1_Condition :: "Condition_v1beta1 \<Rightarrow>
    Condition" where
  "Convert_v1beta1_Condition_To_v1_Condition x =
     \<lparr>c_Type = c1_Type x, c_Status = c1_Status x, c_ObservedGeneration = 0,
      c_LastTransitionTime = c1_LastTransitionTime x,
      c_Reason = (if c1_Reason x = [] then ''Unknown'' else c1_Reason x),
      c_Message = (if c1_Message x = [] then ''Unknown'' else c1_Message x)\<rparr>"

text \<open>The loops over the conditions of an object, with and without pointers.\<close>

abbreviation conditions_down :: "Condition list \<Rightarrow> Condition_v1beta1 list" where
  "conditions_down \<equiv> map Convert_v1_Condition_To_v1beta1_Condition"

abbreviation conditions_up :: "Condition_v1beta1 list \<Rightarrow> Condition list" where
  "conditions_up \<equiv> map Convert_v1beta1_Condition_To_v1_Condition"

definition Convert_Slice_v1_Condition_To_Slice_Pointer_v1beta1_Condition :: "Condition list \<Rightarrow>
    Condition_v1beta1 option list" where
  "Convert_Slice_v1_Condition_To_Slice_Pointer_v1beta1_Condition =
     map (Some \<circ> Convert_v1_Condition_To_v1beta1_Condition)"

definition zeroCondition :: Condition where
  "zeroCondition = \<lparr>c_Type = [], c_Status = [], c_ObservedGeneration = 0, c_LastTransitionTime = 0, c_Reason = [], c_Message = []\<rparr>"

definition Convert_Slice_Pointer_v1beta1_Condition_To_Slice_v1_Condition :: "Condition_v1beta1 option list \<Rightarrow>
    Condition list" where
  "Convert_Slice_Pointer_v1beta1_Condition_To_Slice_v1_Condition =
     map (\<lambda>c. case c of None \<Rightarrow> zeroCondition | Some c \<Rightarrow> Convert_v1beta1_Condition_To_v1_Condition c)"

subsection \<open>Parts of the specifications\<close>

definition Convert_v1beta1_APIEndpoint_To_v1beta2_APIEndpoint :: "APIEndpoint \<Rightarrow>
    APIEndpoint" where
  "Convert_v1beta1_APIEndpoint_To_v1beta2_APIEndpoint x =
     \<lparr>ep_Host = ep_Host x, ep_Port = ep_Port x\<rparr>"

definition Convert_v1beta2_APIEndpoint_To_v1beta1_APIEndpoint :: "APIEndpoint \<Rightarrow>
    APIEndpoint" where
  "Convert_v1beta2_APIEndpoint_To_v1beta1_APIEndpoint x =
     \<lparr>ep_Host = ep_Host x, ep_Port = ep_Port x\<rparr>"

definition Convert_v1beta1_Image_To_v1beta2_Image :: "Image \<Rightarrow>
    Image" where
  "Convert_v1beta1_Image_To_v1beta2_Image x =
     \<lparr>img_Publisher = img_Publisher x, img_Offer = img_Offer x, img_SKU = img_SKU x,
      img_ID = img_ID x, img_SubscriptionID = img_SubscriptionID x,
      img_ResourceGroup = img_ResourceGroup x, img_Gallery = img_Gallery x,
      img_Name = img_Name x, img_Version = img_Version x, img_OSType = img_OSType x\<rparr>"

definition Convert_v1beta2_Image_To_v1beta1_Image :: "Image \<Rightarrow>
    Image" where
  "Convert_v1beta2_Image_To_v1beta1_Image x =
     \<lparr>img_Publisher = img_Publisher x, img_Offer = img_Offer x, img_SKU = img_SKU x,
      img_ID = img_ID x, img_SubscriptionID = img_SubscriptionID x,
      img_ResourceGroup = img_ResourceGroup x, img_Gallery = img_Gallery x,
      img_Name = img_Name x, img_Version = img_Version x, img_OSType = img_OSType x\<rparr>"

definition Convert_v1beta1_AvailabilityZone_To_v1beta2_AvailabilityZone :: "AvailabilityZone \<Rightarrow>
    AvailabilityZone" where
  "Convert_v1beta1_AvailabilityZone_To_v1beta2_AvailabilityZone x =
     \<lparr>az_ID = az_ID x, az_Enabled = az_Enabled x\<rparr>"

definition Convert_v1beta2_AvailabilityZone_To_v1beta1_AvailabilityZone :: "AvailabilityZone \<Rightarrow>
    AvailabilityZone" where
  "Convert_v1beta2_AvailabilityZone_To_v1beta1_AvailabilityZone x =
     \<lparr>az_ID = az_ID x, az_Enabled = az_Enabled x\<rparr>"

definition Convert_v1beta1_OSDisk_To_v1beta2_OSDisk :: "OSDisk_v1beta1 \<Rightarrow>
    OSDisk" where
  "Convert_v1beta1_OSDisk_To_v1beta2_OSDisk x =
     \<lparr>osd_Name = osd1_Name x, osd_Source = osd1_Source x, osd_OSType = osd1_OSType x,
      osd_DiskSizeGB = osd1_DiskSizeGB x,
      osd_ManagedDisk = Some \<lparr>md_StorageAccountType = md_StorageAccountType (osd1_ManagedDisk x)\<rparr>\<rparr>"

definition Convert_v1beta2_OSDisk_To_v1beta1_OSDisk :: "OSDisk \<Rightarrow>
    OSDisk_v1beta1" where
  "Convert_v1beta2_OSDisk_To_v1beta1_OSDisk x =
     \<lparr>osd1_Name = osd_Name x, osd1_Source = osd_Source x, osd1_OSType = osd_OSType x,
      osd1_DiskSizeGB = osd_DiskSizeGB x,
      osd1_ManagedDisk = (case osd_ManagedDisk x of
         None \<Rightarrow> \<lparr>md_StorageAccountType = []\<rparr>
       | Some d \<Rightarrow> \<lparr>md_StorageAccountType = md_StorageAccountType d\<rparr>)\<rparr>"

text \<open>Generated conversions of small structs; a slice that is reinterpreted through an unsafe pointer is the same slice.\<close>

definition Convert_v1beta2_AzureStackHCIResourceReference_To_v1beta1_AzureStackHCIResourceReference :: "AzureStackHCIResourceReference \<Rightarrow>
    AzureStackHCIResourceReference_v1beta1" where
  "Convert_v1beta2_AzureStackHCIResourceReference_To_v1beta1_AzureStackHCIResourceReference x =
     \<lparr>rr_ID = rr_ID x\<rparr>"

definition Convert_v1beta1_AzureStackHCIResourceReference_To_v1beta2_AzureStackHCIResourceReference :: "AzureStackHCIResourceReference_v1beta1 \<Rightarrow>
    AzureStackHCIResourceReference" where
  "Convert_v1beta1_AzureStackHCIResourceReference_To_v1beta2_AzureStackHCIResourceReference x =
     \<lparr>rr_ID = rr_ID x\<rparr>"

definition Convert_v1beta2_AzureStackHCIMachineProviderCondition_To_v1beta1_AzureStackHCIMachineProviderCondition :: "AzureStackHCIMachineProviderCondition \<Rightarrow>
    AzureStackHCIMachineProviderCondition_v1beta1" where
  "Convert_v1beta2_AzureStackHCIMachineProviderCondition_To_v1beta1_AzureStackHCIMachineProviderCondition x =
     \<lparr>pc_Type = pc_Type x, pc_Status = pc_Status x, pc_LastProbeTime = pc_LastProbeTime x, pc_LastTransitionTime = pc_LastTransitionTime x, pc_Reason = pc_Reason x, pc_Message = pc_Message x\<rparr>"

definition Convert_v1beta1_AzureStackHCIMachineProviderCondition_To_v1beta2_AzureStackHCIMachineProviderCondition :: "AzureStackHCIMachineProviderCondition_v1beta1 \<Rightarrow>
    AzureStackHCIMachineProviderCondition" where
  "Convert_v1beta1_AzureStackHCIMachineProviderCondition_To_v1beta2_AzureStackHCIMachineProviderCondition x =
     \<lparr>pc_Type = pc_Type x, pc_Status = pc_Status x, pc_LastProbeTime = pc_LastProbeTime x, pc_LastTransitionTime = pc_LastTransitionTime x, pc_Reason = pc_Reason x, pc_Message = pc_Message x\<rparr>"

definition Convert_v1beta2_IpConfigurationSpec_To_v1beta1_IpConfigurationSpec :: "IpConfigurationSpec \<Rightarrow>
    IpConfigurationSpec_v1beta1" where
  "Convert_v1beta2_IpConfigurationSpec_To_v1beta1_IpConfigurationSpec x =
     \<lparr>ip_Name = ip_Name x, ip_Primary = ip_Primary x, ip_Allocation = ip_Allocation x, ip_IpAddress = ip_IpAddress x, ip_PrefixLength = ip_PrefixLength x, ip_SubnetId = ip_SubnetId x, ip_Gateway = ip_Gateway x\<rparr>"

definition Convert_v1beta1_IpConfigurationSpec_To_v1beta2_IpConfigurationSpec :: "IpConfigurationSpec_v1beta1 \<Rightarrow>
    IpConfigurationSpec" where
  "Convert_v1beta1_IpConfigurationSpec_To_v1beta2_IpConfigurationSpec x =
     \<lparr>ip_Name = ip_Name x, ip_Primary = ip_Primary x, ip_Allocation = ip_Allocation x, ip_IpAddress = ip_IpAddress x, ip_PrefixLength = ip_PrefixLength x, ip_SubnetId = ip_SubnetId x, ip_Gateway = ip_Gateway x\<rparr>"

definition Convert_v1beta2_NetworkInterfaceSpec_To_v1beta1_NetworkInterfaceSpec :: "NetworkInterfaceSpec \<Rightarrow>
    NetworkInterfaceSpec_v1beta1" where
  "Convert_v1beta2_NetworkInterfaceSpec_To_v1beta1_NetworkInterfaceSpec x =
     \<lparr>ni_Name = ni_Name x, ni_IPConfigurations = ni_IPConfigurations x\<rparr>"

definition Convert_v1beta1_NetworkInterfaceSpec_To_v1beta2_NetworkInterfaceSpec :: "NetworkInterfaceSpec_v1beta1 \<Rightarrow>
    NetworkInterfaceSpec" where
  "Convert_v1beta1_NetworkInterfaceSpec_To_v1beta2_NetworkInterfaceSpec x =
     \<lparr>ni_Name = ni_Name x, ni_IPConfigurations = ni_IPConfigurations x\<rparr>"

definition Convert_v1beta2_ManagedDisk_To_v1beta1_ManagedDisk :: "ManagedDisk \<Rightarrow>
    ManagedDisk_v1beta1" where
  "Convert_v1beta2_ManagedDisk_To_v1beta1_ManagedDisk x =
     \<lparr>md_StorageAccountType = md_StorageAccountType x\<rparr>"

definition Convert_v1beta1_ManagedDisk_To_v1beta2_ManagedDisk :: "ManagedDisk_v1beta1 \<Rightarrow>
    ManagedDisk" where
  "Convert_v1beta1_ManagedDisk_To_v1beta2_ManagedDisk x =
     \<lparr>md_StorageAccountType = md_StorageAccountType x\<rparr>"

definition Convert_v1beta2_SubnetSpec_To_v1beta1_SubnetSpec :: "SubnetSpec \<Rightarrow>
    SubnetSpec_v1beta1" where
  "Convert_v1beta2_SubnetSpec_To_v1beta1_SubnetSpec x =
     \<lparr>sn_ID = sn_ID x, sn_Name = sn_Name x, sn_VnetID = sn_VnetID x, sn_CidrBlock = sn_CidrBlock x\<rparr>"

definition Convert_v1beta1_SubnetSpec_To_v1beta2_SubnetSpec :: "SubnetSpec_v1beta1 \<Rightarrow>
    SubnetSpec" where
  "Convert_v1beta1_SubnetSpec_To_v1beta2_SubnetSpec x =
     \<lparr>sn_ID = sn_ID x, sn_Name = sn_Name x, sn_VnetID = sn_VnetID x, sn_CidrBlock = sn_CidrBlock x\<rparr>"

text \<open>The nested loops over network interfaces and their IP configurations; nil elements stay nil.\<close>

definition convert_IpConfiguration :: "IpConfigurationSpec \<Rightarrow> IpConfigurationSpec" where
  "convert_IpConfiguration x = \<lparr>ip_Name = ip_Name x, ip_Primary = ip_Primary x, ip_Allocation = ip_Allocation x,
      ip_IpAddress = ip_IpAddress x, ip_PrefixLength = ip_PrefixLength x,
      ip_SubnetId = ip_SubnetId x, ip_Gateway = ip_Gateway x\<rparr>"

definition convert_NetworkInterfaces :: "NetworkInterfaces \<Rightarrow> NetworkInterfaces" where
  "convert_NetworkInterfaces = map (map_option (\<lambda>nic. \<lparr>ni_Name = ni_Name nic,
     ni_IPConfigurations = map (map_option convert_IpConfiguration) (ni_IPConfigurations nic)\<rparr>))"

definition convert_AvailabilityZone :: "AvailabilityZone \<Rightarrow> AvailabilityZone option" where
  "convert_AvailabilityZone az = (if az_ID az \<noteq> None \<or> az_Enabled az \<noteq> None
     then Some \<lparr>az_ID = az_ID az, az_Enabled = az_Enabled az\<rparr> else None)"

definition value_AvailabilityZone :: "AvailabilityZone option \<Rightarrow> AvailabilityZone" where
  "value_AvailabilityZone az = (case az of None \<Rightarrow> zeroAvailabilityZone
     | Some z \<Rightarrow> \<lparr>az_ID = az_ID z, az_Enabled = az_Enabled z\<rparr>)"

definition convert_OSDisk :: "OSDisk_v1beta1 \<Rightarrow> OSDisk option" where
  "convert_OSDisk d = (if osd1_Name d \<noteq> [] \<or> osd1_DiskSizeGB d \<noteq> 0
     then Some (Convert_v1beta1_OSDisk_To_v1beta2_OSDisk d) else None)"

definition value_OSDisk :: "OSDisk option \<Rightarrow> OSDisk_v1beta1" where
  "value_OSDisk d = (case d of None \<Rightarrow> zeroOSDisk_v1beta1 | Some d \<Rightarrow> Convert_v1beta2_OSDisk_To_v1beta1_OSDisk d)"

definition value_Image :: "Image option \<Rightarrow> Image" where
  "value_Image i = (case i of None \<Rightarrow> zeroImage | Some i \<Rightarrow> Convert_v1beta2_Image_To_v1beta1_Image i)"

subsection \<open>Specifications\<close>

definition Convert_v1beta1_AzureStackHCIMachineSpec_To_v1beta2_AzureStackHCIMachineSpec :: "AzureStackHCIMachineSpec_v1beta1 \<Rightarrow>
    AzureStackHCIMachineSpec" where
  "Convert_v1beta1_AzureStackHCIMachineSpec_To_v1beta2_AzureStackHCIMachineSpec x =
     \<lparr>ms_ProviderID = ms1_ProviderID x, ms_VMSize = ms1_VMSize x,
      ms_AvailabilityZone = convert_AvailabilityZone (ms1_AvailabilityZone x),
      ms_Image = (let i = ms1_Image x in
        if img_OSType i \<noteq> [] \<or> img_ID i \<noteq> None \<or> img_Publisher i \<noteq> None
        then Some (Convert_v1beta1_Image_To_v1beta2_Image i) else None),
      ms_OSDisk = convert_OSDisk (ms1_OSDisk x), ms_Location = ms1_Location x,
      ms_SSHPublicKey = ms1_SSHPublicKey x, ms_StorageContainer = ms1_StorageContainer x,
      ms_GpuCount = ms1_GpuCount x, ms_AllocatePublicIP = ms1_AllocatePublicIP x,
      ms_AdditionalSSHKeys = ms1_AdditionalSSHKeys x,
      ms_NetworkInterfaces = convert_NetworkInterfaces (ms1_NetworkInterfaces x),
      ms_AvailabilitySetName = ms1_AvailabilitySetName x,
      ms_PlacementGroupName = ms1_PlacementGroupName x\<rparr>"

definition Convert_v1beta2_AzureStackHCIMachineSpec_To_v1beta1_AzureStackHCIMachineSpec :: "AzureStackHCIMachineSpec \<Rightarrow>
    AzureStackHCIMachineSpec_v1beta1" where
  "Convert_v1beta2_AzureStackHCIMachineSpec_To_v1beta1_AzureStackHCIMachineSpec x =
     \<lparr>ms1_ProviderID = ms_ProviderID x, ms1_VMSize = ms_VMSize x,
      ms1_AvailabilityZone = value_AvailabilityZone (ms_AvailabilityZone x),
      ms1_Image = value_Image (ms_Image x), ms1_OSDisk = value_OSDisk (ms_OSDisk x),
      ms1_Location = ms_Location x, ms1_SSHPublicKey = ms_SSHPublicKey x,
      ms1_StorageContainer = ms_StorageContainer x, ms1_GpuCount = ms_GpuCount x,
      ms1_AllocatePublicIP = ms_AllocatePublicIP x,
      ms1_AdditionalSSHKeys = ms_AdditionalSSHKeys x,
      ms1_NetworkInterfaces = convert_NetworkInterfaces (ms_NetworkInterfaces x),
      ms1_AvailabilitySetName = ms_AvailabilitySetName x,
      ms1_PlacementGroupName = ms_PlacementGroupName x\<rparr>"

definition Convert_v1beta1_AzureStackHCIVirtualMachineSpec_To_v1beta2_AzureStackHCIVirtualMachineSpec :: "AzureStackHCIVirtualMachineSpec_v1beta1 \<Rightarrow>
    AzureStackHCIVirtualMachineSpec" where
  "Convert_v1beta1_AzureStackHCIVirtualMachineSpec_To_v1beta2_AzureStackHCIVirtualMachineSpec x =
     \<lparr>vms_VMSize = vms1_VMSize x,
      vms_AvailabilityZone = convert_AvailabilityZone (vms1_AvailabilityZone x),
      vms_Image = Some (Convert_v1beta1_Image_To_v1beta2_Image (vms1_Image x)),
      vms_OSDisk = convert_OSDisk (vms1_OSDisk x),
      vms_BootstrapData = vms1_BootstrapData x, vms_Identity = vms1_Identity x,
      vms_Location = vms1_Location x, vms_SSHPublicKey = vms1_SSHPublicKey x,
      vms_StorageContainer = vms1_StorageContainer x, vms_GpuCount = vms1_GpuCount x,
      vms_ResourceGroup = vms1_ResourceGroup x, vms_VnetName = vms1_VnetName x,
      vms_ClusterName = vms1_ClusterName x, vms_SubnetName = vms1_SubnetName x,
      vms_BackendPoolNames = vms1_BackendPoolNames x,
      vms_AdditionalSSHKeys = vms1_AdditionalSSHKeys x,
      vms_NetworkInterfaces = convert_NetworkInterfaces (vms1_NetworkInterfaces x),
      vms_AvailabilitySetName = vms1_AvailabilitySetName x,
      vms_PlacementGroupName = vms1_PlacementGroupName x\<rparr>"

definition Convert_v1beta2_AzureStackHCIVirtualMachineSpec_To_v1beta1_AzureStackHCIVirtualMachineSpec :: "AzureStackHCIVirtualMachineSpec \<Rightarrow>
    AzureStackHCIVirtualMachineSpec_v1beta1" where
  "Convert_v1beta2_AzureStackHCIVirtualMachineSpec_To_v1beta1_AzureStackHCIVirtualMachineSpec x =
     \<lparr>vms1_VMSize = vms_VMSize x,
      vms1_AvailabilityZone = value_AvailabilityZone (vms_AvailabilityZone x),
      vms1_Image = value_Image (vms_Image x), vms1_OSDisk = value_OSDisk (vms_OSDisk x),
      vms1_BootstrapData = vms_BootstrapData x, vms1_Identity = vms_Identity x,
      vms1_Location = vms_Location x, vms1_SSHPublicKey = vms_SSHPublicKey x,
      vms1_StorageContainer = vms_StorageContainer x, vms1_GpuCount = vms_GpuCount x,
      vms1_ResourceGroup = vms_ResourceGroup x, vms1_VnetName = vms_VnetName x,
      vms1_ClusterName = vms_ClusterName x, vms1_SubnetName = vms_SubnetName x,
      vms1_BackendPoolNames = vms_BackendPoolNames x,
      vms1_AdditionalSSHKeys = vms_AdditionalSSHKeys x,
      vms1_NetworkInterfaces = convert_NetworkInterfaces (vms_NetworkInterfaces x),
      vms1_AvailabilitySetName = vms_AvailabilitySetName x,
      vms1_PlacementGroupName = vms_PlacementGroupName x\<rparr>"

definition Convert_v1beta1_AzureStackHCILoadBalancerSpec_To_v1beta2_AzureStackHCILoadBalancerSpec :: "AzureStackHCILoadBalancerSpec_v1beta1 \<Rightarrow>
    AzureStackHCILoadBalancerSpec" where
  "Convert_v1beta1_AzureStackHCILoadBalancerSpec_To_v1beta2_AzureStackHCILoadBalancerSpec x =
     \<lparr>lbs_SSHPublicKey = lbs1_SSHPublicKey x,
      lbs_Image = Some (Convert_v1beta1_Image_To_v1beta2_Image (lbs1_Image x)),
      lbs_VMSize = lbs1_VMSize x, lbs_StorageContainer = lbs1_StorageContainer x,
      lbs_Replicas = lbs1_Replicas x\<rparr>"

definition Convert_v1beta2_AzureStackHCILoadBalancerSpec_To_v1beta1_AzureStackHCILoadBalancerSpec :: "AzureStackHCILoadBalancerSpec \<Rightarrow>
    AzureStackHCILoadBalancerSpec_v1beta1" where
  "Convert_v1beta2_AzureStackHCILoadBalancerSpec_To_v1beta1_AzureStackHCILoadBalancerSpec x =
     \<lparr>lbs1_SSHPublicKey = lbs_SSHPublicKey x, lbs1_Image = value_Image (lbs_Image x),
      lbs1_VMSize = lbs_VMSize x, lbs1_StorageContainer = lbs_StorageContainer x,
      lbs1_Replicas = lbs_Replicas x\<rparr>"

definition Convert_v1beta1_VnetSpec_To_v1beta2_VnetSpec :: "VnetSpec \<Rightarrow>
    VnetSpec" where
  "Convert_v1beta1_VnetSpec_To_v1beta2_VnetSpec x =
     \<lparr>vnet_ID = vnet_ID x, vnet_Name = vnet_Name x, vnet_CidrBlock = vnet_CidrBlock x,
      vnet_Group = vnet_Group x\<rparr>"

definition Convert_v1beta2_VnetSpec_To_v1beta1_VnetSpec :: "VnetSpec \<Rightarrow>
    VnetSpec" where
  "Convert_v1beta2_VnetSpec_To_v1beta1_VnetSpec x =
     \<lparr>vnet_ID = vnet_ID x, vnet_Name = vnet_Name x, vnet_CidrBlock = vnet_CidrBlock x,
      vnet_Group = vnet_Group x\<rparr>"

definition Convert_v1beta1_NetworkSpec_To_v1beta2_NetworkSpec :: "NetworkSpec \<Rightarrow>
    NetworkSpec" where
  "Convert_v1beta1_NetworkSpec_To_v1beta2_NetworkSpec x =
     \<lparr>net_Vnet = Convert_v1beta1_VnetSpec_To_v1beta2_VnetSpec (net_Vnet x), net_Subnets = net_Subnets x\<rparr>"

definition Convert_v1beta2_NetworkSpec_To_v1beta1_NetworkSpec :: "NetworkSpec \<Rightarrow>
    NetworkSpec" where
  "Convert_v1beta2_NetworkSpec_To_v1beta1_NetworkSpec x =
     \<lparr>net_Vnet = Convert_v1beta2_VnetSpec_To_v1beta1_VnetSpec (net_Vnet x), net_Subnets = net_Subnets x\<rparr>"

definition Convert_v1beta1_AzureStackHCIClusterSpec_To_v1beta2_AzureStackHCIClusterSpec :: "AzureStackHCIClusterSpec_v1beta1 \<Rightarrow>
    AzureStackHCIClusterSpec" where
  "Convert_v1beta1_AzureStackHCIClusterSpec_To_v1beta2_AzureStackHCIClusterSpec x =
     \<lparr>
      cs_NetworkSpec = Convert_v1beta1_NetworkSpec_To_v1beta2_NetworkSpec (cs1_NetworkSpec x),
      cs_ResourceGroup = cs1_ResourceGroup x, cs_Location = cs1_Location x,
      cs_AzureStackHCILoadBalancer = map_option Convert_v1beta1_AzureStackHCILoadBalancerSpec_To_v1beta2_AzureStackHCILoadBalancerSpec
        (cs1_AzureStackHCILoadBalancer x),
      cs_ControlPlaneEndpoint = Convert_v1beta1_APIEndpoint_To_v1beta2_APIEndpoint (cs1_ControlPlaneEndpoint x),
      cs_Version = cs1_Version x, cs_Management = cs1_Management x\<rparr>"

definition Convert_v1beta2_AzureStackHCIClusterSpec_To_v1beta1_AzureStackHCIClusterSpec :: "AzureStackHCIClusterSpec \<Rightarrow>
    AzureStackHCIClusterSpec_v1beta1" where
  "Convert_v1beta2_AzureStackHCIClusterSpec_To_v1beta1_AzureStackHCIClusterSpec x =
     \<lparr>
      cs1_NetworkSpec = Convert_v1beta2_NetworkSpec_To_v1beta1_NetworkSpec (cs_NetworkSpec x),
      cs1_ResourceGroup = cs_ResourceGroup x, cs1_Location = cs_Location x,
      cs1_AzureStackHCILoadBalancer = map_option Convert_v1beta2_AzureStackHCILoadBalancerSpec_To_v1beta1_AzureStackHCILoadBalancerSpec
        (cs_AzureStackHCILoadBalancer x),
      cs1_ControlPlaneEndpoint = Convert_v1beta2_APIEndpoint_To_v1beta1_APIEndpoint (cs_ControlPlaneEndpoint x),
      cs1_Version = cs_Version x, cs1_Management = cs_Management x\<rparr>"

subsection \<open>Status\<close>

definition Convert_v1beta1_VM_To_v1beta2_VM :: "VM_v1beta1 \<Rightarrow>
    VM" where
  "Convert_v1beta1_VM_To_v1beta2_VM x =
     \<lparr>vm_ID = vm1_ID x, vm_Name = vm1_Name x, vm_AvailabilityZone = vm1_AvailabilityZone x,
      vm_VMSize = vm1_VMSize x,
      vm_Image = Convert_v1beta1_Image_To_v1beta2_Image (vm1_Image x),
      vm_OSDisk = Convert_v1beta1_OSDisk_To_v1beta2_OSDisk (vm1_OSDisk x),
      vm_BootstrapData = vm1_BootstrapData x, vm_State = vm1_State x,
      vm_Identity = vm1_Identity x\<rparr>"

definition Convert_v1beta2_VM_To_v1beta1_VM :: "VM \<Rightarrow>
    VM_v1beta1" where
  "Convert_v1beta2_VM_To_v1beta1_VM x =
     \<lparr>vm1_ID = vm_ID x, vm1_Name = vm_Name x, vm1_AvailabilityZone = vm_AvailabilityZone x,
      vm1_VMSize = vm_VMSize x,
      vm1_Image = Convert_v1beta2_Image_To_v1beta1_Image (vm_Image x),
      vm1_OSDisk = Convert_v1beta2_OSDisk_To_v1beta1_OSDisk (vm_OSDisk x),
      vm1_BootstrapData = vm_BootstrapData x, vm1_State = vm_State x,
      vm1_Identity = vm_Identity x\<rparr>"

definition autoConvert_v1beta1_AzureStackHCIClusterStatus_To_v1beta2_AzureStackHCIClusterStatus :: "AzureStackHCIClusterStatus_v1beta1 \<Rightarrow>
    AzureStackHCIClusterStatus" where
  "autoConvert_v1beta1_AzureStackHCIClusterStatus_To_v1beta2_AzureStackHCIClusterStatus x =
     \<lparr>cst_Bastion = Convert_v1beta1_VM_To_v1beta2_VM (cst1_Bastion x), cst_Phase = cst1_Phase x,
      cst_Conditions = conditions_up (cst1_Conditions x), cst_Initialization = None\<rparr>"

definition Convert_v1beta1_AzureStackHCIClusterStatus_To_v1beta2_AzureStackHCIClusterStatus :: "AzureStackHCIClusterStatus_v1beta1 \<Rightarrow>
    AzureStackHCIClusterStatus" where
  "Convert_v1beta1_AzureStackHCIClusterStatus_To_v1beta2_AzureStackHCIClusterStatus x =
     (let out = autoConvert_v1beta1_AzureStackHCIClusterStatus_To_v1beta2_AzureStackHCIClusterStatus x in
      if cst1_Ready x then out\<lparr>cst_Initialization := Some \<lparr>ci_Provisioned = Some True\<rparr>\<rparr> else out)"

text \<open>The loop that looks for a true \<open>Ready\<close> condition.\<close>

fun ready_true :: "Condition list \<Rightarrow> bool" where
  "ready_true [] = False"
| "ready_true (c # cs) = (if c_Type c = ''Ready'' \<and> c_Status c = ConditionTrue then True else ready_true cs)"

definition autoConvert_v1beta2_AzureStackHCIClusterStatus_To_v1beta1_AzureStackHCIClusterStatus :: "AzureStackHCIClusterStatus \<Rightarrow>
    AzureStackHCIClusterStatus_v1beta1" where
  "autoConvert_v1beta2_AzureStackHCIClusterStatus_To_v1beta1_AzureStackHCIClusterStatus x =
     \<lparr>cst1_Bastion = Convert_v1beta2_VM_To_v1beta1_VM (cst_Bastion x), cst1_Ready = False,
      cst1_Phase = cst_Phase x, cst1_Conditions = conditions_down (cst_Conditions x)\<rparr>"

definition Convert_v1beta2_AzureStackHCIClusterStatus_To_v1beta1_AzureStackHCIClusterStatus :: "AzureStackHCIClusterStatus \<Rightarrow>
    AzureStackHCIClusterStatus_v1beta1" where
  "Convert_v1beta2_AzureStackHCIClusterStatus_To_v1beta1_AzureStackHCIClusterStatus x =
     (let out = autoConvert_v1beta2_AzureStackHCIClusterStatus_To_v1beta1_AzureStackHCIClusterStatus x in
      out\<lparr>cst1_Ready := ready_true (cst_Conditions x)\<rparr>)"

definition autoConvert_v1beta1_AzureStackHCIMachineStatus_To_v1beta2_AzureStackHCIMachineStatus :: "AzureStackHCIMachineStatus_v1beta1 \<Rightarrow>
    AzureStackHCIMachineStatus" where
  "autoConvert_v1beta1_AzureStackHCIMachineStatus_To_v1beta2_AzureStackHCIMachineStatus x =
     \<lparr>mst_Ready = mst1_Ready x, mst_Addresses = mst1_Addresses x, mst_VMState = mst1_VMState x,
      mst_Conditions = conditions_up (mst1_Conditions x), mst_Initialization = None\<rparr>"

definition Convert_v1beta1_AzureStackHCIMachineStatus_To_v1beta2_AzureStackHCIMachineStatus :: "AzureStackHCIMachineStatus_v1beta1 \<Rightarrow>
    AzureStackHCIMachineStatus" where
  "Convert_v1beta1_AzureStackHCIMachineStatus_To_v1beta2_AzureStackHCIMachineStatus x =
     (let out = autoConvert_v1beta1_AzureStackHCIMachineStatus_To_v1beta2_AzureStackHCIMachineStatus x in
      if mst1_Ready x then out\<lparr>mst_Initialization := Some \<lparr>mi_Provisioned = Some True\<rparr>\<rparr> else out)"

definition autoConvert_v1beta2_AzureStackHCIMachineStatus_To_v1beta1_AzureStackHCIMachineStatus :: "AzureStackHCIMachineStatus \<Rightarrow>
    AzureStackHCIMachineStatus_v1beta1" where
  "autoConvert_v1beta2_AzureStackHCIMachineStatus_To_v1beta1_AzureStackHCIMachineStatus x =
     \<lparr>mst1_Ready = mst_Ready x, mst1_Addresses = mst_Addresses x, mst1_VMState = mst_VMState x,
      mst1_Conditions = conditions_down (mst_Conditions x), mst1_FailureReason = None,
      mst1_FailureMessage = None\<rparr>"

definition Convert_v1beta2_AzureStackHCIMachineStatus_To_v1beta1_AzureStackHCIMachineStatus :: "AzureStackHCIMachineStatus \<Rightarrow>
    AzureStackHCIMachineStatus_v1beta1" where
  "Convert_v1beta2_AzureStackHCIMachineStatus_To_v1beta1_AzureStackHCIMachineStatus x =
     autoConvert_v1beta2_AzureStackHCIMachineStatus_To_v1beta1_AzureStackHCIMachineStatus x"

definition Convert_v1beta1_AzureStackHCILoadBalancerStatus_To_v1beta2_AzureStackHCILoadBalancerStatus :: "AzureStackHCILoadBalancerStatus_v1beta1 \<Rightarrow>
    AzureStackHCILoadBalancerStatus" where
  "Convert_v1beta1_AzureStackHCILoadBalancerStatus_To_v1beta2_AzureStackHCILoadBalancerStatus x =
     \<lparr>lbst_Ready = lbst1_Ready x, lbst_Replicas = lbst1_Replicas x,
      lbst_ReadyReplicas = lbst1_ReadyReplicas x,
      lbst_FailedReplicas = lbst1_FailedReplicas x, lbst_Address = lbst1_Address x,
      lbst_Port = lbst1_Port x, lbst_Phase = lbst1_Phase x,
      lbst_Conditions = conditions_up (lbst1_Conditions x),
      lbst_ErrorReason = lbst1_ErrorReason x, lbst_ErrorMessage = lbst1_ErrorMessage x,
      lbst_Selector = lbst1_Selector x\<rparr>"

definition Convert_v1beta2_AzureStackHCILoadBalancerStatus_To_v1beta1_AzureStackHCILoadBalancerStatus :: "AzureStackHCILoadBalancerStatus \<Rightarrow>
    AzureStackHCILoadBalancerStatus_v1beta1" where
  "Convert_v1beta2_AzureStackHCILoadBalancerStatus_To_v1beta1_AzureStackHCILoadBalancerStatus x =
     \<lparr>lbst1_Ready = lbst_Ready x, lbst1_Replicas = lbst_Replicas x,
      lbst1_ReadyReplicas = lbst_ReadyReplicas x,
      lbst1_FailedReplicas = lbst_FailedReplicas x, lbst1_Address = lbst_Address x,
      lbst1_Port = lbst_Port x, lbst1_Phase = lbst_Phase x,
      lbst1_Conditions = conditions_down (lbst_Conditions x),
      lbst1_ErrorReason = lbst_ErrorReason x, lbst1_ErrorMessage = lbst_ErrorMessage x,
      lbst1_Selector = lbst_Selector x\<rparr>"

definition Convert_v1beta1_AzureStackHCIVirtualMachineStatus_To_v1beta2_AzureStackHCIVirtualMachineStatus :: "AzureStackHCIVirtualMachineStatus_v1beta1 \<Rightarrow>
    AzureStackHCIVirtualMachineStatus" where
  "Convert_v1beta1_AzureStackHCIVirtualMachineStatus_To_v1beta2_AzureStackHCIVirtualMachineStatus x =
     \<lparr>vmst_Ready = vmst1_Ready x, vmst_Addresses = vmst1_Addresses x,
      vmst_VMState = vmst1_VMState x, vmst_FailureReason = vmst1_FailureReason x,
      vmst_FailureMessage = vmst1_FailureMessage x,
      vmst_Conditions = conditions_up (vmst1_Conditions x)\<rparr>"

definition Convert_v1beta2_AzureStackHCIVirtualMachineStatus_To_v1beta1_AzureStackHCIVirtualMachineStatus :: "AzureStackHCIVirtualMachineStatus \<Rightarrow>
    AzureStackHCIVirtualMachineStatus_v1beta1" where
  "Convert_v1beta2_AzureStackHCIVirtualMachineStatus_To_v1beta1_AzureStackHCIVirtualMachineStatus x =
     \<lparr>vmst1_Ready = vmst_Ready x, vmst1_Addresses = vmst_Addresses x,
      vmst1_VMState = vmst_VMState x, vmst1_FailureReason = vmst_FailureReason x,
      vmst1_FailureMessage = vmst_FailureMessage x,
      vmst1_Conditions = conditions_down (vmst_Conditions x)\<rparr>"

subsection \<open>Round trips\<close>

text \<open>
  The contract of a pair of conversions: the older version survives the way up and back exactly on
  the values \<open>keeps\<close> accepts.  On those values the newer version tells two inputs apart, and the
  element-wise loop over a slice has the same contract.
\<close>

locale spoke_conversion =
  fixes up :: "'a \<Rightarrow> 'b" and down :: "'b \<Rightarrow> 'a" and keeps :: "'a \<Rightarrow> bool"
  assumes round_trip: "down (up x) = x \<longleftrightarrow> keeps x"
begin

lemma round_trip_keeps: "keeps x \<Longrightarrow> down (up x) = x"
  by (simp add: round_trip)

lemma up_inj_on: "inj_on up {x. keeps x}"
  by (rule inj_on_inverseI [where g = down]) (simp add: round_trip)

lemma slice_round_trip: "map down (map up xs) = xs \<longleftrightarrow> list_all keeps xs"
  by (induction xs) (simp_all add: round_trip)

lemma pointer_round_trip: "map_option down (map_option up p) = p \<longleftrightarrow> pred_option keeps p"
  by (cases p) (simp_all add: round_trip)

end

definition keeps_all :: "'a \<Rightarrow> bool" where
  "keeps_all x = True"

declare keeps_all_def [simp]

lemma convert_IpConfiguration_id [simp]: "convert_IpConfiguration x = x"
  by (simp add: convert_IpConfiguration_def)

lemma convert_NetworkInterfaces_id [simp]: "convert_NetworkInterfaces nics = nics"
proof -
  have ip: "convert_IpConfiguration = id" by (rule ext) simp
  have "(\<lambda>nic. \<lparr>ni_Name = ni_Name nic, ni_IPConfigurations = ni_IPConfigurations nic\<rparr>) = id"
    by (rule ext) simp
  then show ?thesis
    by (simp add: convert_NetworkInterfaces_def ip option.map_id0)
qed

lemma Image_up_id [simp]: "Convert_v1beta1_Image_To_v1beta2_Image i = i"
  by (simp add: Convert_v1beta1_Image_To_v1beta2_Image_def)

lemma Image_down_id [simp]: "Convert_v1beta2_Image_To_v1beta1_Image i = i"
  by (simp add: Convert_v1beta2_Image_To_v1beta1_Image_def)

lemma value_Image_simps [simp]: "value_Image None = zeroImage" "value_Image (Some i) = i"
  by (simp_all add: value_Image_def)

text \<open>Which by-value disks, images and zones the conversions to pointers recognise as set.\<close>

definition disk_set :: "OSDisk_v1beta1 \<Rightarrow> bool" where
  "disk_set d \<longleftrightarrow> osd1_Name d \<noteq> [] \<or> osd1_DiskSizeGB d \<noteq> 0"

definition image_set :: "Image \<Rightarrow> bool" where
  "image_set i \<longleftrightarrow> img_OSType i \<noteq> [] \<or> img_ID i \<noteq> None \<or> img_Publisher i \<noteq> None"

lemma OSDisk_up_down [simp]:
  "Convert_v1beta2_OSDisk_To_v1beta1_OSDisk (Convert_v1beta1_OSDisk_To_v1beta2_OSDisk d) = d"
  by (simp add: Convert_v1beta2_OSDisk_To_v1beta1_OSDisk_def Convert_v1beta1_OSDisk_To_v1beta2_OSDisk_def)

lemma OSDisk_down_up:
  "Convert_v1beta1_OSDisk_To_v1beta2_OSDisk (Convert_v1beta2_OSDisk_To_v1beta1_OSDisk d) = d
     \<longleftrightarrow> osd_ManagedDisk d \<noteq> None"
  by (cases d) (auto simp: Convert_v1beta2_OSDisk_To_v1beta1_OSDisk_def
      Convert_v1beta1_OSDisk_To_v1beta2_OSDisk_def split: option.split)

lemma OSDisk_down_sel:
  "osd1_Name (Convert_v1beta2_OSDisk_To_v1beta1_OSDisk d) = osd_Name d"
  "osd1_DiskSizeGB (Convert_v1beta2_OSDisk_To_v1beta1_OSDisk d) = osd_DiskSizeGB d"
  by (simp_all add: Convert_v1beta2_OSDisk_To_v1beta1_OSDisk_def)

lemma value_convert_OSDisk: "value_OSDisk (convert_OSDisk d) = d \<longleftrightarrow> disk_set d \<or> d = zeroOSDisk_v1beta1"
  by (auto simp: value_OSDisk_def convert_OSDisk_def disk_set_def)

definition disk_complete :: "OSDisk \<Rightarrow> bool" where
  "disk_complete d \<longleftrightarrow> (osd_Name d \<noteq> [] \<or> osd_DiskSizeGB d \<noteq> 0) \<and> osd_ManagedDisk d \<noteq> None"

lemma convert_value_OSDisk: "convert_OSDisk (value_OSDisk p) = p \<longleftrightarrow> pred_option disk_complete p"
proof (cases p)
  case None
  then show ?thesis by (simp add: value_OSDisk_def convert_OSDisk_def zeroOSDisk_v1beta1_def)
next
  case (Some d)
  then show ?thesis
    by (auto simp: value_OSDisk_def convert_OSDisk_def disk_complete_def OSDisk_down_up OSDisk_down_sel)
qed

lemma value_convert_AvailabilityZone [simp]: "value_AvailabilityZone (convert_AvailabilityZone az) = az"
  by (cases az) (simp add: value_AvailabilityZone_def convert_AvailabilityZone_def zeroAvailabilityZone_def)

lemma convert_value_AvailabilityZone:
  "convert_AvailabilityZone (value_AvailabilityZone p) = p \<longleftrightarrow> p \<noteq> Some zeroAvailabilityZone"
  by (cases p) (auto simp: value_AvailabilityZone_def convert_AvailabilityZone_def zeroAvailabilityZone_def)

lemma convert_Image_round_trip:
  "value_Image (if image_set i then Some i else None) = i \<longleftrightarrow> image_set i \<or> i = zeroImage"
  by auto

interpretation osdisk: spoke_conversion convert_OSDisk value_OSDisk "\<lambda>d. disk_set d \<or> d = zeroOSDisk_v1beta1"
  by unfold_locales (rule value_convert_OSDisk)

interpretation az: spoke_conversion convert_AvailabilityZone value_AvailabilityZone keeps_all
  by unfold_locales simp

text \<open>
  A condition of the older contract survives when it has no severity and both texts, one of the
  newer contract when it has both texts and no observed generation.
\<close>

definition condition_complete :: "Condition \<Rightarrow> bool" where
  "condition_complete c \<longleftrightarrow> c_ObservedGeneration c = 0 \<and> c_Reason c \<noteq> [] \<and> c_Message c \<noteq> []"

interpretation cond: spoke_conversion Convert_v1beta1_Condition_To_v1_Condition Convert_v1_Condition_To_v1beta1_Condition
  "\<lambda>c. c1_Severity c = [] \<and> c1_Reason c \<noteq> [] \<and> c1_Message c \<noteq> []"
proof
  show "Convert_v1_Condition_To_v1beta1_Condition (Convert_v1beta1_Condition_To_v1_Condition x) = x \<longleftrightarrow>
      c1_Severity x = [] \<and> c1_Reason x \<noteq> [] \<and> c1_Message x \<noteq> []" for x
    by (cases x) (auto simp: Convert_v1beta1_Condition_To_v1_Condition_def
        Convert_v1_Condition_To_v1beta1_Condition_def)
qed

lemma Condition_down_up:
  "Convert_v1beta1_Condition_To_v1_Condition (Convert_v1_Condition_To_v1beta1_Condition c) = c
     \<longleftrightarrow> condition_complete c"
  by (cases c) (auto simp: Convert_v1beta1_Condition_To_v1_Condition_def condition_complete_def
      Convert_v1_Condition_To_v1beta1_Condition_def)

lemma Condition_up_complete: "condition_complete (Convert_v1beta1_Condition_To_v1_Condition c)"
  by (simp add: Convert_v1beta1_Condition_To_v1_Condition_def condition_complete_def)

text \<open>The loop over the conditions finds a true \<open>Ready\<close> condition wherever it is.\<close>

lemma ready_true_iff: "ready_true cs \<longleftrightarrow> (\<exists>c \<in> set cs. c_Type c = ''Ready'' \<and> c_Status c = ConditionTrue)"
  by (induction cs) auto

definition machine_spec_keeps :: "AzureStackHCIMachineSpec_v1beta1 \<Rightarrow> bool" where
  "machine_spec_keeps x \<longleftrightarrow> (image_set (ms1_Image x) \<or> ms1_Image x = zeroImage) \<and>
     (disk_set (ms1_OSDisk x) \<or> ms1_OSDisk x = zeroOSDisk_v1beta1)"

interpretation machine_spec: spoke_conversion Convert_v1beta1_AzureStackHCIMachineSpec_To_v1beta2_AzureStackHCIMachineSpec
  Convert_v1beta2_AzureStackHCIMachineSpec_To_v1beta1_AzureStackHCIMachineSpec machine_spec_keeps
proof
  show "Convert_v1beta2_AzureStackHCIMachineSpec_To_v1beta1_AzureStackHCIMachineSpec
      (Convert_v1beta1_AzureStackHCIMachineSpec_To_v1beta2_AzureStackHCIMachineSpec x) = x \<longleftrightarrow> machine_spec_keeps x" for x
    unfolding machine_spec_keeps_def osdisk.round_trip [symmetric] convert_Image_round_trip [symmetric]
    by (cases x) (simp add: Convert_v1beta2_AzureStackHCIMachineSpec_To_v1beta1_AzureStackHCIMachineSpec_def
        Convert_v1beta1_AzureStackHCIMachineSpec_To_v1beta2_AzureStackHCIMachineSpec_def image_set_def Let_def
        del: value_Image_simps)
qed

interpretation vm_spec: spoke_conversion Convert_v1beta1_AzureStackHCIVirtualMachineSpec_To_v1beta2_AzureStackHCIVirtualMachineSpec
  Convert_v1beta2_AzureStackHCIVirtualMachineSpec_To_v1beta1_AzureStackHCIVirtualMachineSpec
  "\<lambda>x. disk_set (vms1_OSDisk x) \<or> vms1_OSDisk x = zeroOSDisk_v1beta1"
proof
  show "Convert_v1beta2_AzureStackHCIVirtualMachineSpec_To_v1beta1_AzureStackHCIVirtualMachineSpec
      (Convert_v1beta1_AzureStackHCIVirtualMachineSpec_To_v1beta2_AzureStackHCIVirtualMachineSpec x) = x \<longleftrightarrow>
      disk_set (vms1_OSDisk x) \<or> vms1_OSDisk x = zeroOSDisk_v1beta1" for x
    unfolding osdisk.round_trip [symmetric]
    by (cases x) (simp add: Convert_v1beta2_AzureStackHCIVirtualMachineSpec_To_v1beta1_AzureStackHCIVirtualMachineSpec_def
        Convert_v1beta1_AzureStackHCIVirtualMachineSpec_To_v1beta2_AzureStackHCIVirtualMachineSpec_def)
qed

interpretation lb_spec: spoke_conversion Convert_v1beta1_AzureStackHCILoadBalancerSpec_To_v1beta2_AzureStackHCILoadBalancerSpec
  Convert_v1beta2_AzureStackHCILoadBalancerSpec_To_v1beta1_AzureStackHCILoadBalancerSpec keeps_all
  by unfold_locales (simp add: Convert_v1beta2_AzureStackHCILoadBalancerSpec_To_v1beta1_AzureStackHCILoadBalancerSpec_def
      Convert_v1beta1_AzureStackHCILoadBalancerSpec_To_v1beta2_AzureStackHCILoadBalancerSpec_def)

lemma cluster_lb_round_trip [simp]:
  "map_option (Convert_v1beta2_AzureStackHCILoadBalancerSpec_To_v1beta1_AzureStackHCILoadBalancerSpec \<circ>
     Convert_v1beta1_AzureStackHCILoadBalancerSpec_To_v1beta2_AzureStackHCILoadBalancerSpec) p = p"
  using lb_spec.pointer_round_trip [of p] by (cases p) (simp_all add: option.map_comp)

interpretation cluster_spec: spoke_conversion Convert_v1beta1_AzureStackHCIClusterSpec_To_v1beta2_AzureStackHCIClusterSpec
  Convert_v1beta2_AzureStackHCIClusterSpec_To_v1beta1_AzureStackHCIClusterSpec keeps_all
  by unfold_locales (simp add: Convert_v1beta2_AzureStackHCIClusterSpec_To_v1beta1_AzureStackHCIClusterSpec_def
      Convert_v1beta1_AzureStackHCIClusterSpec_To_v1beta2_AzureStackHCIClusterSpec_def
      Convert_v1beta1_NetworkSpec_To_v1beta2_NetworkSpec_def Convert_v1beta2_NetworkSpec_To_v1beta1_NetworkSpec_def
      Convert_v1beta1_VnetSpec_To_v1beta2_VnetSpec_def Convert_v1beta2_VnetSpec_To_v1beta1_VnetSpec_def
      Convert_v1beta1_APIEndpoint_To_v1beta2_APIEndpoint_def
      Convert_v1beta2_APIEndpoint_To_v1beta1_APIEndpoint_def option.map_comp)

text \<open>Whole lists of conditions, and the bastion machine of a cluster.\<close>

definition conditions_keep :: "Condition_v1beta1 list \<Rightarrow> bool" where
  "conditions_keep = list_all (\<lambda>c. c1_Severity c = [] \<and> c1_Reason c \<noteq> [] \<and> c1_Message c \<noteq> [])"

lemma conditions_round_trip: "conditions_down (conditions_up cs) = cs \<longleftrightarrow> conditions_keep cs"
  unfolding conditions_keep_def by (rule cond.slice_round_trip)

lemma Bastion_round_trip [simp]: "Convert_v1beta2_VM_To_v1beta1_VM (Convert_v1beta1_VM_To_v1beta2_VM x) = x"
  by (simp add: Convert_v1beta2_VM_To_v1beta1_VM_def Convert_v1beta1_VM_To_v1beta2_VM_def)

lemma ready_true_up:
  "ready_true (conditions_up cs) \<longleftrightarrow> (\<exists>c \<in> set cs. c1_Type c = ''Ready'' \<and> c1_Status c = ConditionTrue)"
  by (auto simp: ready_true_iff Convert_v1beta1_Condition_To_v1_Condition_def)

end
