(* ===== verification/ConversionObjects.thy ===== *)
theory ConversionObjects
  imports Conversion
begin

text \<open>
  Whole objects, templates and lists: the generated conversions of \<open>zz_generated.conversion.go\<close> and
  the methods \<open>ConvertTo\<close> and \<open>ConvertFrom\<close> of the files \<open>*_conversion.go\<close> that the conversion webhook
  calls.  The target is a fresh object; the argument \<open>tm\<close> is its type metadata, which the webhook
  fills in and the conversions leave alone.  The items of a list are fresh, too, so they have none.
\<close>

subsection \<open>Objects\<close>

definition Convert_v1beta1_AzureStackHCICluster_To_v1beta2_AzureStackHCICluster :: "TypeMeta \<Rightarrow> AzureStackHCICluster_v1beta1 \<Rightarrow>
    AzureStackHCICluster" where
  "Convert_v1beta1_AzureStackHCICluster_To_v1beta2_AzureStackHCICluster tm x =
     \<lparr>hc_TypeMeta = tm,
      hc_Meta = hc1_Meta x,
      hc_Spec = Convert_v1beta1_AzureStackHCIClusterSpec_To_v1beta2_AzureStackHCIClusterSpec (hc1_Spec x),
      hc_Status = Convert_v1beta1_AzureStackHCIClusterStatus_To_v1beta2_AzureStackHCIClusterStatus (hc1_Status x)\<rparr>"

definition Convert_v1beta2_AzureStackHCICluster_To_v1beta1_AzureStackHCICluster :: "TypeMeta \<Rightarrow> AzureStackHCICluster \<Rightarrow>
    AzureStackHCICluster_v1beta1" where
  "Convert_v1beta2_AzureStackHCICluster_To_v1beta1_AzureStackHCICluster tm x =
     \<lparr>hc1_TypeMeta = tm,
      hc1_Meta = hc_Meta x,
      hc1_Spec = Convert_v1beta2_AzureStackHCIClusterSpec_To_v1beta1_AzureStackHCIClusterSpec (hc_Spec x),
      hc1_Status = Convert_v1beta2_AzureStackHCIClusterStatus_To_v1beta1_AzureStackHCIClusterStatus (hc_Status x)\<rparr>"

definition Cluster_ConvertTo :: "TypeMeta \<Rightarrow> AzureStackHCICluster_v1beta1 \<Rightarrow> AzureStackHCICluster" where
  "Cluster_ConvertTo tm src = Convert_v1beta1_AzureStackHCICluster_To_v1beta2_AzureStackHCICluster tm src"

definition Cluster_ConvertFrom :: "TypeMeta \<Rightarrow> AzureStackHCICluster \<Rightarrow> AzureStackHCICluster_v1beta1" where
  "Cluster_ConvertFrom tm src = Convert_v1beta2_AzureStackHCICluster_To_v1beta1_AzureStackHCICluster tm src"

definition Convert_v1beta1_AzureStackHCILoadBalancer_To_v1beta2_AzureStackHCILoadBalancer :: "TypeMeta \<Rightarrow> AzureStackHCILoadBalancer_v1beta1 \<Rightarrow>
    AzureStackHCILoadBalancer" where
  "Convert_v1beta1_AzureStackHCILoadBalancer_To_v1beta2_AzureStackHCILoadBalancer tm x =
     \<lparr>hlb_TypeMeta = tm,
      hlb_Meta = hlb1_Meta x,
      hlb_Spec = Convert_v1beta1_AzureStackHCILoadBalancerSpec_To_v1beta2_AzureStackHCILoadBalancerSpec (hlb1_Spec x),
      hlb_Status = Convert_v1beta1_AzureStackHCILoadBalancerStatus_To_v1beta2_AzureStackHCILoadBalancerStatus (hlb1_Status x)\<rparr>"

definition Convert_v1beta2_AzureStackHCILoadBalancer_To_v1beta1_AzureStackHCILoadBalancer :: "TypeMeta \<Rightarrow> AzureStackHCILoadBalancer \<Rightarrow>
    AzureStackHCILoadBalancer_v1beta1" where
  "Convert_v1beta2_AzureStackHCILoadBalancer_To_v1beta1_AzureStackHCILoadBalancer tm x =
     \<lparr>hlb1_TypeMeta = tm,
      hlb1_Meta = hlb_Meta x,
      hlb1_Spec = Convert_v1beta2_AzureStackHCILoadBalancerSpec_To_v1beta1_AzureStackHCILoadBalancerSpec (hlb_Spec x),
      hlb1_Status = Convert_v1beta2_AzureStackHCILoadBalancerStatus_To_v1beta1_AzureStackHCILoadBalancerStatus (hlb_Status x)\<rparr>"

definition LoadBalancer_ConvertTo :: "TypeMeta \<Rightarrow> AzureStackHCILoadBalancer_v1beta1 \<Rightarrow> AzureStackHCILoadBalancer" where
  "LoadBalancer_ConvertTo tm src = Convert_v1beta1_AzureStackHCILoadBalancer_To_v1beta2_AzureStackHCILoadBalancer tm src"

definition LoadBalancer_ConvertFrom :: "TypeMeta \<Rightarrow> AzureStackHCILoadBalancer \<Rightarrow> AzureStackHCILoadBalancer_v1beta1" where
  "LoadBalancer_ConvertFrom tm src = Convert_v1beta2_AzureStackHCILoadBalancer_To_v1beta1_AzureStackHCILoadBalancer tm src"

definition Convert_v1beta1_AzureStackHCIMachine_To_v1beta2_AzureStackHCIMachine :: "TypeMeta \<Rightarrow> AzureStackHCIMachine_v1beta1 \<Rightarrow>
    AzureStackHCIMachine" where
  "Convert_v1beta1_AzureStackHCIMachine_To_v1beta2_AzureStackHCIMachine tm x =
     \<lparr>hm_TypeMeta = tm,
      hm_Meta = hm1_Meta x,
      hm_Spec = Convert_v1beta1_AzureStackHCIMachineSpec_To_v1beta2_AzureStackHCIMachineSpec (hm1_Spec x),
      hm_Status = Convert_v1beta1_AzureStackHCIMachineStatus_To_v1beta2_AzureStackHCIMachineStatus (hm1_Status x)\<rparr>"

definition Convert_v1beta2_AzureStackHCIMachine_To_v1beta1_AzureStackHCIMachine :: "TypeMeta \<Rightarrow> AzureStackHCIMachine \<Rightarrow>
    AzureStackHCIMachine_v1beta1" where
  "Convert_v1beta2_AzureStackHCIMachine_To_v1beta1_AzureStackHCIMachine tm x =
     \<lparr>hm1_TypeMeta = tm,
      hm1_Meta = hm_Meta x,
      hm1_Spec = Convert_v1beta2_AzureStackHCIMachineSpec_To_v1beta1_AzureStackHCIMachineSpec (hm_Spec x),
      hm1_Status = Convert_v1beta2_AzureStackHCIMachineStatus_To_v1beta1_AzureStackHCIMachineStatus (hm_Status x)\<rparr>"

definition Machine_ConvertTo :: "TypeMeta \<Rightarrow> AzureStackHCIMachine_v1beta1 \<Rightarrow> AzureStackHCIMachine" where
  "Machine_ConvertTo tm src = Convert_v1beta1_AzureStackHCIMachine_To_v1beta2_AzureStackHCIMachine tm src"

definition Machine_ConvertFrom :: "TypeMeta \<Rightarrow> AzureStackHCIMachine \<Rightarrow> AzureStackHCIMachine_v1beta1" where
  "Machine_ConvertFrom tm src = Convert_v1beta2_AzureStackHCIMachine_To_v1beta1_AzureStackHCIMachine tm src"

definition Convert_v1beta1_AzureStackHCIVirtualMachine_To_v1beta2_AzureStackHCIVirtualMachine :: "TypeMeta \<Rightarrow> AzureStackHCIVirtualMachine_v1beta1 \<Rightarrow>
    AzureStackHCIVirtualMachine" where
  "Convert_v1beta1_AzureStackHCIVirtualMachine_To_v1beta2_AzureStackHCIVirtualMachine tm x =
     \<lparr>hvm_TypeMeta = tm,
      hvm_Meta = hvm1_Meta x,
      hvm_Spec = Convert_v1beta1_AzureStackHCIVirtualMachineSpec_To_v1beta2_AzureStackHCIVirtualMachineSpec (hvm1_Spec x),
      hvm_Status = Convert_v1beta1_AzureStackHCIVirtualMachineStatus_To_v1beta2_AzureStackHCIVirtualMachineStatus (hvm1_Status x)\<rparr>"

definition Convert_v1beta2_AzureStackHCIVirtualMachine_To_v1beta1_AzureStackHCIVirtualMachine :: "TypeMeta \<Rightarrow> AzureStackHCIVirtualMachine \<Rightarrow>
    AzureStackHCIVirtualMachine_v1beta1" where
  "Convert_v1beta2_AzureStackHCIVirtualMachine_To_v1beta1_AzureStackHCIVirtualMachine tm x =
     \<lparr>hvm1_TypeMeta = tm,
      hvm1_Meta = hvm_Meta x,
      hvm1_Spec = Convert_v1beta2_AzureStackHCIVirtualMachineSpec_To_v1beta1_AzureStackHCIVirtualMachineSpec (hvm_Spec x),
      hvm1_Status = Convert_v1beta2_AzureStackHCIVirtualMachineStatus_To_v1beta1_AzureStackHCIVirtualMachineStatus (hvm_Status x)\<rparr>"

definition VirtualMachine_ConvertTo :: "TypeMeta \<Rightarrow> AzureStackHCIVirtualMachine_v1beta1 \<Rightarrow> AzureStackHCIVirtualMachine" where
  "VirtualMachine_ConvertTo tm src = Convert_v1beta1_AzureStackHCIVirtualMachine_To_v1beta2_AzureStackHCIVirtualMachine tm src"

definition VirtualMachine_ConvertFrom :: "TypeMeta \<Rightarrow> AzureStackHCIVirtualMachine \<Rightarrow> AzureStackHCIVirtualMachine_v1beta1" where
  "VirtualMachine_ConvertFrom tm src = Convert_v1beta2_AzureStackHCIVirtualMachine_To_v1beta1_AzureStackHCIVirtualMachine tm src"

subsection \<open>Templates\<close>

definition Convert_v1beta1_AzureStackHCIClusterTemplateResource_To_v1beta2_AzureStackHCIClusterTemplateResource :: "AzureStackHCIClusterTemplateResource_v1beta1 \<Rightarrow>
    AzureStackHCIClusterTemplateResource" where
  "Convert_v1beta1_AzureStackHCIClusterTemplateResource_To_v1beta2_AzureStackHCIClusterTemplateResource x =
     \<lparr>ctr_Spec = Convert_v1beta1_AzureStackHCIClusterSpec_To_v1beta2_AzureStackHCIClusterSpec (ctr1_Spec x)\<rparr>"

definition Convert_v1beta1_AzureStackHCIClusterTemplateSpec_To_v1beta2_AzureStackHCIClusterTemplateSpec :: "AzureStackHCIClusterTemplateSpec_v1beta1 \<Rightarrow>
    AzureStackHCIClusterTemplateSpec" where
  "Convert_v1beta1_AzureStackHCIClusterTemplateSpec_To_v1beta2_AzureStackHCIClusterTemplateSpec x =
     \<lparr>cts_Template = Convert_v1beta1_AzureStackHCIClusterTemplateResource_To_v1beta2_AzureStackHCIClusterTemplateResource (cts1_Template x)\<rparr>"

definition Convert_v1beta2_AzureStackHCIClusterTemplateResource_To_v1beta1_AzureStackHCIClusterTemplateResource :: "AzureStackHCIClusterTemplateResource \<Rightarrow>
    AzureStackHCIClusterTemplateResource_v1beta1" where
  "Convert_v1beta2_AzureStackHCIClusterTemplateResource_To_v1beta1_AzureStackHCIClusterTemplateResource x =
     \<lparr>ctr1_Spec = Convert_v1beta2_AzureStackHCIClusterSpec_To_v1beta1_AzureStackHCIClusterSpec (ctr_Spec x)\<rparr>"

definition Convert_v1beta2_AzureStackHCIClusterTemplateSpec_To_v1beta1_AzureStackHCIClusterTemplateSpec :: "AzureStackHCIClusterTemplateSpec \<Rightarrow>
    AzureStackHCIClusterTemplateSpec_v1beta1" where
  "Convert_v1beta2_AzureStackHCIClusterTemplateSpec_To_v1beta1_AzureStackHCIClusterTemplateSpec x =
     \<lparr>cts1_Template = Convert_v1beta2_AzureStackHCIClusterTemplateResource_To_v1beta1_AzureStackHCIClusterTemplateResource (cts_Template x)\<rparr>"

definition Convert_v1beta1_AzureStackHCIClusterTemplate_To_v1beta2_AzureStackHCIClusterTemplate :: "TypeMeta \<Rightarrow> AzureStackHCIClusterTemplate_v1beta1 \<Rightarrow>
    AzureStackHCIClusterTemplate" where
  "Convert_v1beta1_AzureStackHCIClusterTemplate_To_v1beta2_AzureStackHCIClusterTemplate tm x =
     \<lparr>ct_TypeMeta = tm,
      ct_Meta = ct1_Meta x,
      ct_Spec = Convert_v1beta1_AzureStackHCIClusterTemplateSpec_To_v1beta2_AzureStackHCIClusterTemplateSpec (ct1_Spec x)\<rparr>"

definition Convert_v1beta2_AzureStackHCIClusterTemplate_To_v1beta1_AzureStackHCIClusterTemplate :: "TypeMeta \<Rightarrow> AzureStackHCIClusterTemplate \<Rightarrow>
    AzureStackHCIClusterTemplate_v1beta1" where
  "Convert_v1beta2_AzureStackHCIClusterTemplate_To_v1beta1_AzureStackHCIClusterTemplate tm x =
     \<lparr>ct1_TypeMeta = tm,
      ct1_Meta = ct_Meta x,
      ct1_Spec = Convert_v1beta2_AzureStackHCIClusterTemplateSpec_To_v1beta1_AzureStackHCIClusterTemplateSpec (ct_Spec x)\<rparr>"

definition Convert_v1beta1_AzureStackHCIMachineTemplateResource_To_v1beta2_AzureStackHCIMachineTemplateResource :: "AzureStackHCIMachineTemplateResource_v1beta1 \<Rightarrow>
    AzureStackHCIMachineTemplateResource" where
  "Convert_v1beta1_AzureStackHCIMachineTemplateResource_To_v1beta2_AzureStackHCIMachineTemplateResource x =
     \<lparr>mtr_Spec = Convert_v1beta1_AzureStackHCIMachineSpec_To_v1beta2_AzureStackHCIMachineSpec (mtr1_Spec x)\<rparr>"

definition Convert_v1beta1_AzureStackHCIMachineTemplateSpec_To_v1beta2_AzureStackHCIMachineTemplateSpec :: "AzureStackHCIMachineTemplateSpec_v1beta1 \<Rightarrow>
    AzureStackHCIMachineTemplateSpec" where
  "Convert_v1beta1_AzureStackHCIMachineTemplateSpec_To_v1beta2_AzureStackHCIMachineTemplateSpec x =
     \<lparr>mts_Template = Convert_v1beta1_AzureStackHCIMachineTemplateResource_To_v1beta2_AzureStackHCIMachineTemplateResource (mts1_Template x)\<rparr>"

definition Convert_v1beta2_AzureStackHCIMachineTemplateResource_To_v1beta1_AzureStackHCIMachineTemplateResource :: "AzureStackHCIMachineTemplateResource \<Rightarrow>
    AzureStackHCIMachineTemplateResource_v1beta1" where
  "Convert_v1beta2_AzureStackHCIMachineTemplateResource_To_v1beta1_AzureStackHCIMachineTemplateResource x =
     \<lparr>mtr1_Spec = Convert_v1beta2_AzureStackHCIMachineSpec_To_v1beta1_AzureStackHCIMachineSpec (mtr_Spec x)\<rparr>"

definition Convert_v1beta2_AzureStackHCIMachineTemplateSpec_To_v1beta1_AzureStackHCIMachineTemplateSpec :: "AzureStackHCIMachineTemplateSpec \<Rightarrow>
    AzureStackHCIMachineTemplateSpec_v1beta1" where
  "Convert_v1beta2_AzureStackHCIMachineTemplateSpec_To_v1beta1_AzureStackHCIMachineTemplateSpec x =
     \<lparr>mts1_Template = Convert_v1beta2_AzureStackHCIMachineTemplateResource_To_v1beta1_AzureStackHCIMachineTemplateResource (mts_Template x)\<rparr>"

definition Convert_v1beta1_AzureStackHCIMachineTemplate_To_v1beta2_AzureStackHCIMachineTemplate :: "TypeMeta \<Rightarrow> AzureStackHCIMachineTemplate_v1beta1 \<Rightarrow>
    AzureStackHCIMachineTemplate" where
  "Convert_v1beta1_AzureStackHCIMachineTemplate_To_v1beta2_AzureStackHCIMachineTemplate tm x =
     \<lparr>mt_TypeMeta = tm,
      mt_Meta = mt1_Meta x,
      mt_Spec = Convert_v1beta1_AzureStackHCIMachineTemplateSpec_To_v1beta2_AzureStackHCIMachineTemplateSpec (mt1_Spec x)\<rparr>"

definition Convert_v1beta2_AzureStackHCIMachineTemplate_To_v1beta1_AzureStackHCIMachineTemplate :: "TypeMeta \<Rightarrow> AzureStackHCIMachineTemplate \<Rightarrow>
    AzureStackHCIMachineTemplate_v1beta1" where
  "Convert_v1beta2_AzureStackHCIMachineTemplate_To_v1beta1_AzureStackHCIMachineTemplate tm x =
     \<lparr>mt1_TypeMeta = tm,
      mt1_Meta = mt_Meta x,
      mt1_Spec = Convert_v1beta2_AzureStackHCIMachineTemplateSpec_To_v1beta1_AzureStackHCIMachineTemplateSpec (mt_Spec x)\<rparr>"

definition MachineTemplate_ConvertTo :: "TypeMeta \<Rightarrow> AzureStackHCIMachineTemplate_v1beta1 \<Rightarrow> AzureStackHCIMachineTemplate" where
  "MachineTemplate_ConvertTo tm src = Convert_v1beta1_AzureStackHCIMachineTemplate_To_v1beta2_AzureStackHCIMachineTemplate tm src"

definition MachineTemplate_ConvertFrom :: "TypeMeta \<Rightarrow> AzureStackHCIMachineTemplate \<Rightarrow> AzureStackHCIMachineTemplate_v1beta1" where
  "MachineTemplate_ConvertFrom tm src = Convert_v1beta2_AzureStackHCIMachineTemplate_To_v1beta1_AzureStackHCIMachineTemplate tm src"

subsection \<open>Lists\<close>

text \<open>The loops over the items; a nil slice and an empty one are the same list.\<close>

definition Convert_v1beta1_AzureStackHCIClusterList_To_v1beta2_AzureStackHCIClusterList :: "TypeMeta \<Rightarrow> AzureStackHCIClusterList_v1beta1 \<Rightarrow>
    AzureStackHCIClusterList" where
  "Convert_v1beta1_AzureStackHCIClusterList_To_v1beta2_AzureStackHCIClusterList tm x =
     \<lparr>ol_TypeMeta = tm, ol_Meta = ol_Meta x,
      ol_Items = map (Convert_v1beta1_AzureStackHCICluster_To_v1beta2_AzureStackHCICluster zeroTypeMeta) (ol_Items x)\<rparr>"

definition Convert_v1beta2_AzureStackHCIClusterList_To_v1beta1_AzureStackHCIClusterList :: "TypeMeta \<Rightarrow> AzureStackHCIClusterList \<Rightarrow>
    AzureStackHCIClusterList_v1beta1" where
  "Convert_v1beta2_AzureStackHCIClusterList_To_v1beta1_AzureStackHCIClusterList tm x =
     \<lparr>ol_TypeMeta = tm, ol_Meta = ol_Meta x,
      ol_Items = map (Convert_v1beta2_AzureStackHCICluster_To_v1beta1_AzureStackHCICluster zeroTypeMeta) (ol_Items x)\<rparr>"

definition ClusterList_ConvertTo :: "TypeMeta \<Rightarrow> AzureStackHCIClusterList_v1beta1 \<Rightarrow> AzureStackHCIClusterList" where
  "ClusterList_ConvertTo tm src = Convert_v1beta1_AzureStackHCIClusterList_To_v1beta2_AzureStackHCIClusterList tm src"

definition ClusterList_ConvertFrom :: "TypeMeta \<Rightarrow> AzureStackHCIClusterList \<Rightarrow> AzureStackHCIClusterList_v1beta1" where
  "ClusterList_ConvertFrom tm src = Convert_v1beta2_AzureStackHCIClusterList_To_v1beta1_AzureStackHCIClusterList tm src"

definition Convert_v1beta1_AzureStackHCILoadBalancerList_To_v1beta2_AzureStackHCILoadBalancerList :: "TypeMeta \<Rightarrow> AzureStackHCILoadBalancerList_v1beta1 \<Rightarrow>
    AzureStackHCILoadBalancerList" where
  "Convert_v1beta1_AzureStackHCILoadBalancerList_To_v1beta2_AzureStackHCILoadBalancerList tm x =
     \<lparr>ol_TypeMeta = tm, ol_Meta = ol_Meta x,
      ol_Items = map (Convert_v1beta1_AzureStackHCILoadBalancer_To_v1beta2_AzureStackHCILoadBalancer zeroTypeMeta) (ol_Items x)\<rparr>"

definition Convert_v1beta2_AzureStackHCILoadBalancerList_To_v1beta1_AzureStackHCILoadBalancerList :: "TypeMeta \<Rightarrow> AzureStackHCILoadBalancerList \<Rightarrow>
    AzureStackHCILoadBalancerList_v1beta1" where
  "Convert_v1beta2_AzureStackHCILoadBalancerList_To_v1beta1_AzureStackHCILoadBalancerList tm x =
     \<lparr>ol_TypeMeta = tm, ol_Meta = ol_Meta x,
      ol_Items = map (Convert_v1beta2_AzureStackHCILoadBalancer_To_v1beta1_AzureStackHCILoadBalancer zeroTypeMeta) (ol_Items x)\<rparr>"

definition LoadBalancerList_ConvertTo :: "TypeMeta \<Rightarrow> AzureStackHCILoadBalancerList_v1beta1 \<Rightarrow> AzureStackHCILoadBalancerList" where
  "LoadBalancerList_ConvertTo tm src = Convert_v1beta1_AzureStackHCILoadBalancerList_To_v1beta2_AzureStackHCILoadBalancerList tm src"

definition LoadBalancerList_ConvertFrom :: "TypeMeta \<Rightarrow> AzureStackHCILoadBalancerList \<Rightarrow> AzureStackHCILoadBalancerList_v1beta1" where
  "LoadBalancerList_ConvertFrom tm src = Convert_v1beta2_AzureStackHCILoadBalancerList_To_v1beta1_AzureStackHCILoadBalancerList tm src"

definition Convert_v1beta1_AzureStackHCIMachineList_To_v1beta2_AzureStackHCIMachineList :: "TypeMeta \<Rightarrow> AzureStackHCIMachineList_v1beta1 \<Rightarrow>
    AzureStackHCIMachineList" where
  "Convert_v1beta1_AzureStackHCIMachineList_To_v1beta2_AzureStackHCIMachineList tm x =
     \<lparr>ol_TypeMeta = tm, ol_Meta = ol_Meta x,
      ol_Items = map (Convert_v1beta1_AzureStackHCIMachine_To_v1beta2_AzureStackHCIMachine zeroTypeMeta) (ol_Items x)\<rparr>"

definition Convert_v1beta2_AzureStackHCIMachineList_To_v1beta1_AzureStackHCIMachineList :: "TypeMeta \<Rightarrow> AzureStackHCIMachineList \<Rightarrow>
    AzureStackHCIMachineList_v1beta1" where
  "Convert_v1beta2_AzureStackHCIMachineList_To_v1beta1_AzureStackHCIMachineList tm x =
     \<lparr>ol_TypeMeta = tm, ol_Meta = ol_Meta x,
      ol_Items = map (Convert_v1beta2_AzureStackHCIMachine_To_v1beta1_AzureStackHCIMachine zeroTypeMeta) (ol_Items x)\<rparr>"

definition MachineList_ConvertTo :: "TypeMeta \<Rightarrow> AzureStackHCIMachineList_v1beta1 \<Rightarrow> AzureStackHCIMachineList" where
  "MachineList_ConvertTo tm src = Convert_v1beta1_AzureStackHCIMachineList_To_v1beta2_AzureStackHCIMachineList tm src"

definition MachineList_ConvertFrom :: "TypeMeta \<Rightarrow> AzureStackHCIMachineList \<Rightarrow> AzureStackHCIMachineList_v1beta1" where
  "MachineList_ConvertFrom tm src = Convert_v1beta2_AzureStackHCIMachineList_To_v1beta1_AzureStackHCIMachineList tm src"

definition Convert_v1beta1_AzureStackHCIVirtualMachineList_To_v1beta2_AzureStackHCIVirtualMachineList :: "TypeMeta \<Rightarrow> AzureStackHCIVirtualMachineList_v1beta1 \<Rightarrow>
    AzureStackHCIVirtualMachineList" where
  "Convert_v1beta1_AzureStackHCIVirtualMachineList_To_v1beta2_AzureStackHCIVirtualMachineList tm x =
     \<lparr>ol_TypeMeta = tm, ol_Meta = ol_Meta x,
      ol_Items = map (Convert_v1beta1_AzureStackHCIVirtualMachine_To_v1beta2_AzureStackHCIVirtualMachine zeroTypeMeta) (ol_Items x)\<rparr>"

definition Convert_v1beta2_AzureStackHCIVirtualMachineList_To_v1beta1_AzureStackHCIVirtualMachineList :: "TypeMeta \<Rightarrow> AzureStackHCIVirtualMachineList \<Rightarrow>
    AzureStackHCIVirtualMachineList_v1beta1" where
  "Convert_v1beta2_AzureStackHCIVirtualMachineList_To_v1beta1_AzureStackHCIVirtualMachineList tm x =
     \<lparr>ol_TypeMeta = tm, ol_Meta = ol_Meta x,
      ol_Items = map (Convert_v1beta2_AzureStackHCIVirtualMachine_To_v1beta1_AzureStackHCIVirtualMachine zeroTypeMeta) (ol_Items x)\<rparr>"

definition VirtualMachineList_ConvertTo :: "TypeMeta \<Rightarrow> AzureStackHCIVirtualMachineList_v1beta1 \<Rightarrow> AzureStackHCIVirtualMachineList" where
  "VirtualMachineList_ConvertTo tm src = Convert_v1beta1_AzureStackHCIVirtualMachineList_To_v1beta2_AzureStackHCIVirtualMachineList tm src"

definition VirtualMachineList_ConvertFrom :: "TypeMeta \<Rightarrow> AzureStackHCIVirtualMachineList \<Rightarrow> AzureStackHCIVirtualMachineList_v1beta1" where
  "VirtualMachineList_ConvertFrom tm src = Convert_v1beta2_AzureStackHCIVirtualMachineList_To_v1beta1_AzureStackHCIVirtualMachineList tm src"

definition Convert_v1beta1_AzureStackHCIClusterTemplateList_To_v1beta2_AzureStackHCIClusterTemplateList :: "TypeMeta \<Rightarrow> AzureStackHCIClusterTemplateList_v1beta1 \<Rightarrow>
    AzureStackHCIClusterTemplateList" where
  "Convert_v1beta1_AzureStackHCIClusterTemplateList_To_v1beta2_AzureStackHCIClusterTemplateList tm x =
     \<lparr>ol_TypeMeta = tm, ol_Meta = ol_Meta x,
      ol_Items = map (Convert_v1beta1_AzureStackHCIClusterTemplate_To_v1beta2_AzureStackHCIClusterTemplate zeroTypeMeta) (ol_Items x)\<rparr>"

definition Convert_v1beta2_AzureStackHCIClusterTemplateList_To_v1beta1_AzureStackHCIClusterTemplateList :: "TypeMeta \<Rightarrow> AzureStackHCIClusterTemplateList \<Rightarrow>
    AzureStackHCIClusterTemplateList_v1beta1" where
  "Convert_v1beta2_AzureStackHCIClusterTemplateList_To_v1beta1_AzureStackHCIClusterTemplateList tm x =
     \<lparr>ol_TypeMeta = tm, ol_Meta = ol_Meta x,
      ol_Items = map (Convert_v1beta2_AzureStackHCIClusterTemplate_To_v1beta1_AzureStackHCIClusterTemplate zeroTypeMeta) (ol_Items x)\<rparr>"

definition Convert_v1beta1_AzureStackHCIMachineTemplateList_To_v1beta2_AzureStackHCIMachineTemplateList :: "TypeMeta \<Rightarrow> AzureStackHCIMachineTemplateList_v1beta1 \<Rightarrow>
    AzureStackHCIMachineTemplateList" where
  "Convert_v1beta1_AzureStackHCIMachineTemplateList_To_v1beta2_AzureStackHCIMachineTemplateList tm x =
     \<lparr>ol_TypeMeta = tm, ol_Meta = ol_Meta x,
      ol_Items = map (Convert_v1beta1_AzureStackHCIMachineTemplate_To_v1beta2_AzureStackHCIMachineTemplate zeroTypeMeta) (ol_Items x)\<rparr>"

definition Convert_v1beta2_AzureStackHCIMachineTemplateList_To_v1beta1_AzureStackHCIMachineTemplateList :: "TypeMeta \<Rightarrow> AzureStackHCIMachineTemplateList \<Rightarrow>
    AzureStackHCIMachineTemplateList_v1beta1" where
  "Convert_v1beta2_AzureStackHCIMachineTemplateList_To_v1beta1_AzureStackHCIMachineTemplateList tm x =
     \<lparr>ol_TypeMeta = tm, ol_Meta = ol_Meta x,
      ol_Items = map (Convert_v1beta2_AzureStackHCIMachineTemplate_To_v1beta1_AzureStackHCIMachineTemplate zeroTypeMeta) (ol_Items x)\<rparr>"

definition MachineTemplateList_ConvertTo :: "TypeMeta \<Rightarrow> AzureStackHCIMachineTemplateList_v1beta1 \<Rightarrow> AzureStackHCIMachineTemplateList" where
  "MachineTemplateList_ConvertTo tm src = Convert_v1beta1_AzureStackHCIMachineTemplateList_To_v1beta2_AzureStackHCIMachineTemplateList tm src"

definition MachineTemplateList_ConvertFrom :: "TypeMeta \<Rightarrow> AzureStackHCIMachineTemplateList \<Rightarrow> AzureStackHCIMachineTemplateList_v1beta1" where
  "MachineTemplateList_ConvertFrom tm src = Convert_v1beta2_AzureStackHCIMachineTemplateList_To_v1beta1_AzureStackHCIMachineTemplateList tm src"

subsection \<open>Round trips of the status\<close>

lemma Machine_status_round_trip:
  "Convert_v1beta2_AzureStackHCIMachineStatus_To_v1beta1_AzureStackHCIMachineStatus
     (Convert_v1beta1_AzureStackHCIMachineStatus_To_v1beta2_AzureStackHCIMachineStatus st) = st \<longleftrightarrow>
   conditions_keep (mst1_Conditions st) \<and> mst1_FailureReason st = None \<and> mst1_FailureMessage st = None"
  unfolding conditions_round_trip [symmetric]
  by (cases st) (auto simp: Convert_v1beta2_AzureStackHCIMachineStatus_To_v1beta1_AzureStackHCIMachineStatus_def
      autoConvert_v1beta2_AzureStackHCIMachineStatus_To_v1beta1_AzureStackHCIMachineStatus_def
      autoConvert_v1beta1_AzureStackHCIMachineStatus_To_v1beta2_AzureStackHCIMachineStatus_def
      Convert_v1beta1_AzureStackHCIMachineStatus_To_v1beta2_AzureStackHCIMachineStatus_def Let_def)

lemma Cluster_status_round_trip:
  "Convert_v1beta2_AzureStackHCIClusterStatus_To_v1beta1_AzureStackHCIClusterStatus
     (Convert_v1beta1_AzureStackHCIClusterStatus_To_v1beta2_AzureStackHCIClusterStatus st) = st \<longleftrightarrow>
   conditions_keep (cst1_Conditions st) \<and> ready_true (conditions_up (cst1_Conditions st)) = cst1_Ready st"
  unfolding conditions_round_trip [symmetric]
  by (cases st) (auto simp: Convert_v1beta2_AzureStackHCIClusterStatus_To_v1beta1_AzureStackHCIClusterStatus_def
      autoConvert_v1beta2_AzureStackHCIClusterStatus_To_v1beta1_AzureStackHCIClusterStatus_def
      autoConvert_v1beta1_AzureStackHCIClusterStatus_To_v1beta2_AzureStackHCIClusterStatus_def
      Convert_v1beta1_AzureStackHCIClusterStatus_To_v1beta2_AzureStackHCIClusterStatus_def Let_def)

lemma LoadBalancer_status_round_trip:
  "Convert_v1beta2_AzureStackHCILoadBalancerStatus_To_v1beta1_AzureStackHCILoadBalancerStatus
     (Convert_v1beta1_AzureStackHCILoadBalancerStatus_To_v1beta2_AzureStackHCILoadBalancerStatus st) = st \<longleftrightarrow>
   conditions_keep (lbst1_Conditions st)"
  unfolding conditions_round_trip [symmetric]
  by (cases st) (auto simp: Convert_v1beta2_AzureStackHCILoadBalancerStatus_To_v1beta1_AzureStackHCILoadBalancerStatus_def
      Convert_v1beta1_AzureStackHCILoadBalancerStatus_To_v1beta2_AzureStackHCILoadBalancerStatus_def)

lemma VirtualMachine_status_round_trip:
  "Convert_v1beta2_AzureStackHCIVirtualMachineStatus_To_v1beta1_AzureStackHCIVirtualMachineStatus
     (Convert_v1beta1_AzureStackHCIVirtualMachineStatus_To_v1beta2_AzureStackHCIVirtualMachineStatus st) = st \<longleftrightarrow>
   conditions_keep (vmst1_Conditions st)"
  unfolding conditions_round_trip [symmetric]
  by (cases st) (auto simp: Convert_v1beta2_AzureStackHCIVirtualMachineStatus_To_v1beta1_AzureStackHCIVirtualMachineStatus_def
      Convert_v1beta1_AzureStackHCIVirtualMachineStatus_To_v1beta2_AzureStackHCIVirtualMachineStatus_def)

subsection \<open>Round trips of objects and templates\<close>

text \<open>Which objects of the older version come back unchanged.\<close>

definition machine_keeps :: "AzureStackHCIMachine_v1beta1 \<Rightarrow> bool" where
  "machine_keeps x \<longleftrightarrow> machine_spec_keeps (hm1_Spec x) \<and> conditions_keep (mst1_Conditions (hm1_Status x)) \<and>
     mst1_FailureReason (hm1_Status x) = None \<and> mst1_FailureMessage (hm1_Status x) = None"

definition cluster_keeps :: "AzureStackHCICluster_v1beta1 \<Rightarrow> bool" where
  "cluster_keeps x \<longleftrightarrow> conditions_keep (cst1_Conditions (hc1_Status x)) \<and>
     ready_true (conditions_up (cst1_Conditions (hc1_Status x))) = cst1_Ready (hc1_Status x)"

definition virtualmachine_keeps :: "AzureStackHCIVirtualMachine_v1beta1 \<Rightarrow> bool" where
  "virtualmachine_keeps x \<longleftrightarrow>
     (disk_set (vms1_OSDisk (hvm1_Spec x)) \<or> vms1_OSDisk (hvm1_Spec x) = zeroOSDisk_v1beta1) \<and>
     conditions_keep (vmst1_Conditions (hvm1_Status x))"

text \<open>
  The contract of a pair of conversions of objects with type metadata: with the type metadata it
  had, an object the predicate accepts comes back unchanged, and no other does.  The lists inherit
  it item by item when their items carry no type metadata, as in a list the API server sends.
\<close>

locale object_conversion =
  fixes up :: "TypeMeta \<Rightarrow> 'a \<Rightarrow> 'b" and down :: "TypeMeta \<Rightarrow> 'b \<Rightarrow> 'a"
    and typeMeta :: "'a \<Rightarrow> TypeMeta" and keeps :: "'a \<Rightarrow> bool"
  assumes typed: "typeMeta (down tm y) = tm"
    and object_round_trip: "down (typeMeta x) (up tm x) = x \<longleftrightarrow> keeps x"
begin

lemma item_round_trip:
  "down zeroTypeMeta (up zeroTypeMeta x) = x \<longleftrightarrow> typeMeta x = zeroTypeMeta \<and> keeps x"
  by (metis object_round_trip typed)

lemma items_round_trip:
  "map (down zeroTypeMeta) (map (up zeroTypeMeta) xs) = xs \<longleftrightarrow>
     list_all (\<lambda>x. typeMeta x = zeroTypeMeta \<and> keeps x) xs"
  by (induction xs) (simp_all add: item_round_trip)

end

interpretation machine_obj: object_conversion Machine_ConvertTo Machine_ConvertFrom hm1_TypeMeta machine_keeps
proof
  show "hm1_TypeMeta (Machine_ConvertFrom tm y) = tm" for tm y
    by (simp add: Machine_ConvertFrom_def Convert_v1beta2_AzureStackHCIMachine_To_v1beta1_AzureStackHCIMachine_def)
  show "Machine_ConvertFrom (hm1_TypeMeta x) (Machine_ConvertTo tm x) = x \<longleftrightarrow> machine_keeps x" for tm x
    by (cases x) (auto simp: Machine_ConvertFrom_def Machine_ConvertTo_def machine_keeps_def
        Convert_v1beta2_AzureStackHCIMachine_To_v1beta1_AzureStackHCIMachine_def
        Convert_v1beta1_AzureStackHCIMachine_To_v1beta2_AzureStackHCIMachine_def
        machine_spec.round_trip Machine_status_round_trip)
qed

interpretation cluster_obj: object_conversion Cluster_ConvertTo Cluster_ConvertFrom hc1_TypeMeta cluster_keeps
proof
  show "hc1_TypeMeta (Cluster_ConvertFrom tm y) = tm" for tm y
    by (simp add: Cluster_ConvertFrom_def Convert_v1beta2_AzureStackHCICluster_To_v1beta1_AzureStackHCICluster_def)
  show "Cluster_ConvertFrom (hc1_TypeMeta x) (Cluster_ConvertTo tm x) = x \<longleftrightarrow> cluster_keeps x" for tm x
    by (cases x) (auto simp: Cluster_ConvertFrom_def Cluster_ConvertTo_def cluster_keeps_def
        Convert_v1beta2_AzureStackHCICluster_To_v1beta1_AzureStackHCICluster_def
        Convert_v1beta1_AzureStackHCICluster_To_v1beta2_AzureStackHCICluster_def
        cluster_spec.round_trip Cluster_status_round_trip)
qed

interpretation lb_obj: object_conversion LoadBalancer_ConvertTo LoadBalancer_ConvertFrom hlb1_TypeMeta
  "\<lambda>x. conditions_keep (lbst1_Conditions (hlb1_Status x))"
proof
  show "hlb1_TypeMeta (LoadBalancer_ConvertFrom tm y) = tm" for tm y
    by (simp add: LoadBalancer_ConvertFrom_def
        Convert_v1beta2_AzureStackHCILoadBalancer_To_v1beta1_AzureStackHCILoadBalancer_def)
  show "LoadBalancer_ConvertFrom (hlb1_TypeMeta x) (LoadBalancer_ConvertTo tm x) = x \<longleftrightarrow>
      conditions_keep (lbst1_Conditions (hlb1_Status x))" for tm x
    by (cases x) (auto simp: LoadBalancer_ConvertFrom_def LoadBalancer_ConvertTo_def
        Convert_v1beta2_AzureStackHCILoadBalancer_To_v1beta1_AzureStackHCILoadBalancer_def
        Convert_v1beta1_AzureStackHCILoadBalancer_To_v1beta2_AzureStackHCILoadBalancer_def
        lb_spec.round_trip LoadBalancer_status_round_trip)
qed

interpretation vm_obj: object_conversion VirtualMachine_ConvertTo VirtualMachine_ConvertFrom hvm1_TypeMeta
  virtualmachine_keeps
proof
  show "hvm1_TypeMeta (VirtualMachine_ConvertFrom tm y) = tm" for tm y
    by (simp add: VirtualMachine_ConvertFrom_def
        Convert_v1beta2_AzureStackHCIVirtualMachine_To_v1beta1_AzureStackHCIVirtualMachine_def)
  show "VirtualMachine_ConvertFrom (hvm1_TypeMeta x) (VirtualMachine_ConvertTo tm x) = x \<longleftrightarrow>
      virtualmachine_keeps x" for tm x
    by (cases x) (auto simp: VirtualMachine_ConvertFrom_def VirtualMachine_ConvertTo_def
        Convert_v1beta2_AzureStackHCIVirtualMachine_To_v1beta1_AzureStackHCIVirtualMachine_def
        Convert_v1beta1_AzureStackHCIVirtualMachine_To_v1beta2_AzureStackHCIVirtualMachine_def
        vm_spec.round_trip VirtualMachine_status_round_trip virtualmachine_keeps_def)
qed

lemmas template_defs =
  Convert_v1beta1_AzureStackHCIMachineTemplate_To_v1beta2_AzureStackHCIMachineTemplate_def
  Convert_v1beta2_AzureStackHCIMachineTemplate_To_v1beta1_AzureStackHCIMachineTemplate_def
  Convert_v1beta1_AzureStackHCIMachineTemplateSpec_To_v1beta2_AzureStackHCIMachineTemplateSpec_def
  Convert_v1beta2_AzureStackHCIMachineTemplateSpec_To_v1beta1_AzureStackHCIMachineTemplateSpec_def
  Convert_v1beta1_AzureStackHCIMachineTemplateResource_To_v1beta2_AzureStackHCIMachineTemplateResource_def
  Convert_v1beta2_AzureStackHCIMachineTemplateResource_To_v1beta1_AzureStackHCIMachineTemplateResource_def
  Convert_v1beta1_AzureStackHCIClusterTemplate_To_v1beta2_AzureStackHCIClusterTemplate_def
  Convert_v1beta2_AzureStackHCIClusterTemplate_To_v1beta1_AzureStackHCIClusterTemplate_def
  Convert_v1beta1_AzureStackHCIClusterTemplateSpec_To_v1beta2_AzureStackHCIClusterTemplateSpec_def
  Convert_v1beta2_AzureStackHCIClusterTemplateSpec_To_v1beta1_AzureStackHCIClusterTemplateSpec_def
  Convert_v1beta1_AzureStackHCIClusterTemplateResource_To_v1beta2_AzureStackHCIClusterTemplateResource_def
  Convert_v1beta2_AzureStackHCIClusterTemplateResource_To_v1beta1_AzureStackHCIClusterTemplateResource_def

definition machine_template_keeps :: "AzureStackHCIMachineTemplate_v1beta1 \<Rightarrow> bool" where
  "machine_template_keeps x \<longleftrightarrow> machine_spec_keeps (mtr1_Spec (mts1_Template (mt1_Spec x)))"

interpretation machine_template_obj: object_conversion MachineTemplate_ConvertTo MachineTemplate_ConvertFrom
  mt1_TypeMeta machine_template_keeps
proof
  show "mt1_TypeMeta (MachineTemplate_ConvertFrom tm y) = tm" for tm y
    by (simp add: MachineTemplate_ConvertFrom_def template_defs)
  show "MachineTemplate_ConvertFrom (mt1_TypeMeta x) (MachineTemplate_ConvertTo tm x) = x \<longleftrightarrow>
      machine_template_keeps x" for tm x
  proof (cases x)
    case (fields a b c)
    obtain d where c: "c = \<lparr>mts1_Template = \<lparr>mtr1_Spec = d\<rparr>\<rparr>"
      by (metis AzureStackHCIMachineTemplateResource_v1beta1.cases AzureStackHCIMachineTemplateSpec_v1beta1.cases)
    show ?thesis
      by (simp add: fields c MachineTemplate_ConvertFrom_def MachineTemplate_ConvertTo_def template_defs
          machine_template_keeps_def machine_spec.round_trip)
  qed
qed

interpretation cluster_template_obj: object_conversion
  Convert_v1beta1_AzureStackHCIClusterTemplate_To_v1beta2_AzureStackHCIClusterTemplate
  Convert_v1beta2_AzureStackHCIClusterTemplate_To_v1beta1_AzureStackHCIClusterTemplate ct1_TypeMeta keeps_all
proof
  show "ct1_TypeMeta (Convert_v1beta2_AzureStackHCIClusterTemplate_To_v1beta1_AzureStackHCIClusterTemplate tm y) = tm"
    for tm y by (simp add: template_defs)
  show "Convert_v1beta2_AzureStackHCIClusterTemplate_To_v1beta1_AzureStackHCIClusterTemplate (ct1_TypeMeta x)
      (Convert_v1beta1_AzureStackHCIClusterTemplate_To_v1beta2_AzureStackHCIClusterTemplate tm x) = x \<longleftrightarrow>
      keeps_all x" for tm x
    using cluster_spec.round_trip by (simp add: template_defs)
qed

subsection \<open>The other way\<close>

lemma conditions_hub: "conditions_up (conditions_down cs) = cs \<longleftrightarrow> list_all condition_complete cs"
  by (induction cs) (simp_all add: Condition_down_up)

lemma VirtualMachine_status_hub:
  "Convert_v1beta1_AzureStackHCIVirtualMachineStatus_To_v1beta2_AzureStackHCIVirtualMachineStatus
     (Convert_v1beta2_AzureStackHCIVirtualMachineStatus_To_v1beta1_AzureStackHCIVirtualMachineStatus st) = st \<longleftrightarrow>
   list_all condition_complete (vmst_Conditions st)"
  unfolding conditions_hub [symmetric]
  by (cases st) (simp add: Convert_v1beta1_AzureStackHCIVirtualMachineStatus_To_v1beta2_AzureStackHCIVirtualMachineStatus_def
      Convert_v1beta2_AzureStackHCIVirtualMachineStatus_To_v1beta1_AzureStackHCIVirtualMachineStatus_def)

lemma VirtualMachine_spec_hub:
  "Convert_v1beta1_AzureStackHCIVirtualMachineSpec_To_v1beta2_AzureStackHCIVirtualMachineSpec
     (Convert_v1beta2_AzureStackHCIVirtualMachineSpec_To_v1beta1_AzureStackHCIVirtualMachineSpec sp) = sp \<longleftrightarrow>
   vms_Image sp \<noteq> None \<and> vms_AvailabilityZone sp \<noteq> Some zeroAvailabilityZone \<and>
   pred_option disk_complete (vms_OSDisk sp)"
proof -
  have image: "Some (value_Image p) = p \<longleftrightarrow> p \<noteq> None" for p by (cases p) simp_all
  show ?thesis
    unfolding convert_value_OSDisk [symmetric] convert_value_AvailabilityZone [symmetric] image [symmetric]
    by (cases sp) (auto simp: Convert_v1beta1_AzureStackHCIVirtualMachineSpec_To_v1beta2_AzureStackHCIVirtualMachineSpec_def
        Convert_v1beta2_AzureStackHCIVirtualMachineSpec_To_v1beta1_AzureStackHCIVirtualMachineSpec_def)
qed

text \<open>
  The mark that the machine controller waits for comes back from the older version exactly when the
  object has a true \<open>Ready\<close> condition; specification and metadata of the endpoint come back as they were.
\<close>

lemma Cluster_hub:
  "map_option ci_Provisioned (cst_Initialization (hc_Status (Cluster_ConvertTo tm (Cluster_ConvertFrom tm' x)))) =
     (if ready_true (cst_Conditions (hc_Status x)) then Some (Some True) else None)"
  "hc_Meta (Cluster_ConvertTo tm (Cluster_ConvertFrom tm' x)) = hc_Meta x"
  "cs_ControlPlaneEndpoint (hc_Spec (Cluster_ConvertTo tm (Cluster_ConvertFrom tm' x))) =
     cs_ControlPlaneEndpoint (hc_Spec x)"
  by (simp_all add: Cluster_ConvertFrom_def Cluster_ConvertTo_def Let_def
      Convert_v1beta1_AzureStackHCICluster_To_v1beta2_AzureStackHCICluster_def
      Convert_v1beta2_AzureStackHCICluster_To_v1beta1_AzureStackHCICluster_def
      Convert_v1beta2_AzureStackHCIClusterStatus_To_v1beta1_AzureStackHCIClusterStatus_def
      Convert_v1beta1_AzureStackHCIClusterStatus_To_v1beta2_AzureStackHCIClusterStatus_def
      autoConvert_v1beta2_AzureStackHCIClusterStatus_To_v1beta1_AzureStackHCIClusterStatus_def
      autoConvert_v1beta1_AzureStackHCIClusterStatus_To_v1beta2_AzureStackHCIClusterStatus_def
      Convert_v1beta2_AzureStackHCIClusterSpec_To_v1beta1_AzureStackHCIClusterSpec_def
      Convert_v1beta1_AzureStackHCIClusterSpec_To_v1beta2_AzureStackHCIClusterSpec_def
      Convert_v1beta1_APIEndpoint_To_v1beta2_APIEndpoint_def Convert_v1beta2_APIEndpoint_To_v1beta1_APIEndpoint_def)

subsection \<open>Properties\<close>

text \<open>
  C40: What survives when a client writes a list of machines in the older version and reads it back.
  The list comes back unchanged exactly when its items carry no type metadata of their own and in
  each of them the image has an OS type, an ID or a publisher (or is empty altogether), the disk has
  a name or a size (or is empty altogether), no condition has a severity or lacks a reason or a
  message, and no failure is recorded.
\<close>

theorem MachineList_spoke_round_trip:
  "MachineList_ConvertFrom (ol_TypeMeta src) (MachineList_ConvertTo tm src) = src \<longleftrightarrow>
     list_all (\<lambda>m. hm1_TypeMeta m = zeroTypeMeta \<and>
       (image_set (ms1_Image (hm1_Spec m)) \<or> ms1_Image (hm1_Spec m) = zeroImage) \<and>
       (disk_set (ms1_OSDisk (hm1_Spec m)) \<or> ms1_OSDisk (hm1_Spec m) = zeroOSDisk_v1beta1) \<and>
       list_all (\<lambda>c. c1_Severity c = [] \<and> c1_Reason c \<noteq> [] \<and> c1_Message c \<noteq> []) (mst1_Conditions (hm1_Status m)) \<and>
       mst1_FailureReason (hm1_Status m) = None \<and> mst1_FailureMessage (hm1_Status m) = None) (ol_Items src)"
  using machine_obj.items_round_trip [of "ol_Items src"]
  by (cases src) (auto simp: MachineList_ConvertFrom_def MachineList_ConvertTo_def
      Convert_v1beta1_AzureStackHCIMachineList_To_v1beta2_AzureStackHCIMachineList_def
      Convert_v1beta2_AzureStackHCIMachineList_To_v1beta1_AzureStackHCIMachineList_def
      Machine_ConvertTo_def [abs_def] Machine_ConvertFrom_def [abs_def] machine_keeps_def machine_spec_keeps_def
      conditions_keep_def list_all_iff)

text \<open>
  C38: What survives when a stored virtual machine is served in the older version and written back
  unchanged: the object comes back exactly when an image is given, the zone is not an empty struct,
  the disk (if any) has a name or a size and a managed disk, and every condition has a reason and a
  message and no observed generation, a field that the older version does not have.
\<close>

theorem VirtualMachine_hub_round_trip:
  "VirtualMachine_ConvertTo (hvm_TypeMeta src) (VirtualMachine_ConvertFrom tm src) = src \<longleftrightarrow>
     vms_Image (hvm_Spec src) \<noteq> None \<and> vms_AvailabilityZone (hvm_Spec src) \<noteq> Some zeroAvailabilityZone \<and>
     pred_option (\<lambda>d. (osd_Name d \<noteq> [] \<or> osd_DiskSizeGB d \<noteq> 0) \<and> osd_ManagedDisk d \<noteq> None) (vms_OSDisk (hvm_Spec src)) \<and>
     list_all (\<lambda>c. c_ObservedGeneration c = 0 \<and> c_Reason c \<noteq> [] \<and> c_Message c \<noteq> []) (vmst_Conditions (hvm_Status src))"
proof -
  have "VirtualMachine_ConvertTo (hvm_TypeMeta src) (VirtualMachine_ConvertFrom tm src) = src \<longleftrightarrow>
      (vms_Image (hvm_Spec src) \<noteq> None \<and> vms_AvailabilityZone (hvm_Spec src) \<noteq> Some zeroAvailabilityZone \<and>
       pred_option disk_complete (vms_OSDisk (hvm_Spec src))) \<and>
      list_all condition_complete (vmst_Conditions (hvm_Status src))"
    unfolding VirtualMachine_spec_hub [symmetric] VirtualMachine_status_hub [symmetric]
    by (cases src) (simp add: VirtualMachine_ConvertFrom_def VirtualMachine_ConvertTo_def
        Convert_v1beta2_AzureStackHCIVirtualMachine_To_v1beta1_AzureStackHCIVirtualMachine_def
        Convert_v1beta1_AzureStackHCIVirtualMachine_To_v1beta2_AzureStackHCIVirtualMachine_def)
  then show ?thesis
    by (simp add: disk_complete_def [abs_def] condition_complete_def [abs_def])
qed

theorem VirtualMachine_hub_round_trip_witness:
  "VirtualMachine_ConvertTo zeroTypeMeta (VirtualMachine_ConvertFrom zeroTypeMeta
     ((newVirtualMachine ''ns'' ''n'')\<lparr>hvm_Spec := (hvm_Spec (newVirtualMachine ''ns'' ''n''))\<lparr>vms_Image := Some zeroImage\<rparr>\<rparr>)) =
   (newVirtualMachine ''ns'' ''n'')\<lparr>hvm_Spec := (hvm_Spec (newVirtualMachine ''ns'' ''n''))\<lparr>vms_Image := Some zeroImage\<rparr>\<rparr>"
  using VirtualMachine_hub_round_trip [of "(newVirtualMachine ''ns'' ''n'')\<lparr>hvm_Spec :=
      (hvm_Spec (newVirtualMachine ''ns'' ''n''))\<lparr>vms_Image := Some zeroImage\<rparr>\<rparr>" zeroTypeMeta]
  by (simp add: newVirtualMachine_def)

text \<open>
  C39: What survives when a client writes a cluster in the older version and reads it back.  The
  specification always survives; the cluster comes back unchanged exactly when every condition has
  an empty severity, a reason and a message, and the \<open>Ready\<close> field agrees with the conditions, that
  is, it is set if and only if some condition \<open>Ready\<close> is true.
\<close>

theorem Cluster_spoke_round_trip:
  "Cluster_ConvertFrom (hc1_TypeMeta src) (Cluster_ConvertTo tm src) = src \<longleftrightarrow>
     list_all (\<lambda>c. c1_Severity c = [] \<and> c1_Reason c \<noteq> [] \<and> c1_Message c \<noteq> []) (cst1_Conditions (hc1_Status src)) \<and>
     (cst1_Ready (hc1_Status src) \<longleftrightarrow>
       list_ex (\<lambda>c. c1_Type c = ''Ready'' \<and> c1_Status c = ConditionTrue) (cst1_Conditions (hc1_Status src)))"
  unfolding cluster_obj.object_round_trip
  by (auto simp: cluster_keeps_def conditions_keep_def ready_true_up list_ex_iff)

end
