(* ===== verification/AutoConversion.thy ===== *)
theory AutoConversion
  imports Conversion
begin

text \<open>
  The conversions of \<open>api/v1beta1/zz_generated.conversion.go\<close> that \<open>api/v1beta1/conversion.go\<close> replaces by
  hand because some field changed its type.  A generated function writes the fields that it can
  convert into \<open>out\<close> and leaves the others alone; a slice or pointer that is reinterpreted through an
  unsafe pointer is the same slice or pointer.
\<close>

subsection \<open>The generated functions\<close>

definition autoConvert_v1beta1_AvailabilityZone_To_v1beta2_AvailabilityZone :: "AvailabilityZone \<Rightarrow>
    AvailabilityZone \<Rightarrow> AvailabilityZone" where
  "autoConvert_v1beta1_AvailabilityZone_To_v1beta2_AvailabilityZone x out = out\<lparr>
     az_ID := az_ID x, az_Enabled := az_Enabled x\<rparr>"

definition autoConvert_v1beta2_AvailabilityZone_To_v1beta1_AvailabilityZone :: "AvailabilityZone \<Rightarrow>
    AvailabilityZone \<Rightarrow> AvailabilityZone" where
  "autoConvert_v1beta2_AvailabilityZone_To_v1beta1_AvailabilityZone x out = out\<lparr>
     az_ID := az_ID x, az_Enabled := az_Enabled x\<rparr>"

definition autoConvert_v1beta1_AzureStackHCILoadBalancerSpec_To_v1beta2_AzureStackHCILoadBalancerSpec :: "AzureStackHCILoadBalancerSpec_v1beta1 \<Rightarrow>
    AzureStackHCILoadBalancerSpec \<Rightarrow> AzureStackHCILoadBalancerSpec" where
  "autoConvert_v1beta1_AzureStackHCILoadBalancerSpec_To_v1beta2_AzureStackHCILoadBalancerSpec x out = out\<lparr>
     lbs_SSHPublicKey := lbs1_SSHPublicKey x, lbs_VMSize := lbs1_VMSize x,
     lbs_StorageContainer := lbs1_StorageContainer x, lbs_Replicas := lbs1_Replicas x\<rparr>"

definition autoConvert_v1beta2_AzureStackHCILoadBalancerSpec_To_v1beta1_AzureStackHCILoadBalancerSpec :: "AzureStackHCILoadBalancerSpec \<Rightarrow>
    AzureStackHCILoadBalancerSpec_v1beta1 \<Rightarrow> AzureStackHCILoadBalancerSpec_v1beta1" where
  "autoConvert_v1beta2_AzureStackHCILoadBalancerSpec_To_v1beta1_AzureStackHCILoadBalancerSpec x out = out\<lparr>
     lbs1_SSHPublicKey := lbs_SSHPublicKey x, lbs1_VMSize := lbs_VMSize x,
     lbs1_StorageContainer := lbs_StorageContainer x, lbs1_Replicas := lbs_Replicas x\<rparr>"

definition autoConvert_v1beta1_AzureStackHCIMachineSpec_To_v1beta2_AzureStackHCIMachineSpec :: "AzureStackHCIMachineSpec_v1beta1 \<Rightarrow>
    AzureStackHCIMachineSpec \<Rightarrow> AzureStackHCIMachineSpec" where
  "autoConvert_v1beta1_AzureStackHCIMachineSpec_To_v1beta2_AzureStackHCIMachineSpec x out = out\<lparr>
     ms_ProviderID := ms1_ProviderID x, ms_VMSize := ms1_VMSize x, ms_Location := ms1_Location x,
     ms_SSHPublicKey := ms1_SSHPublicKey x, ms_StorageContainer := ms1_StorageContainer x,
     ms_GpuCount := ms1_GpuCount x, ms_AllocatePublicIP := ms1_AllocatePublicIP x,
     ms_AdditionalSSHKeys := ms1_AdditionalSSHKeys x, ms_NetworkInterfaces := ms1_NetworkInterfaces x,
     ms_AvailabilitySetName := ms1_AvailabilitySetName x, ms_PlacementGroupName := ms1_PlacementGroupName x\<rparr>"

definition autoConvert_v1beta2_AzureStackHCIMachineSpec_To_v1beta1_AzureStackHCIMachineSpec :: "AzureStackHCIMachineSpec \<Rightarrow>
    AzureStackHCIMachineSpec_v1beta1 \<Rightarrow> AzureStackHCIMachineSpec_v1beta1" where
  "autoConvert_v1beta2_AzureStackHCIMachineSpec_To_v1beta1_AzureStackHCIMachineSpec x out = out\<lparr>
     ms1_ProviderID := ms_ProviderID x, ms1_VMSize := ms_VMSize x, ms1_Location := ms_Location x,
     ms1_SSHPublicKey := ms_SSHPublicKey x, ms1_StorageContainer := ms_StorageContainer x,
     ms1_GpuCount := ms_GpuCount x, ms1_AllocatePublicIP := ms_AllocatePublicIP x,
     ms1_AdditionalSSHKeys := ms_AdditionalSSHKeys x, ms1_NetworkInterfaces := ms_NetworkInterfaces x,
     ms1_AvailabilitySetName := ms_AvailabilitySetName x, ms1_PlacementGroupName := ms_PlacementGroupName x\<rparr>"

definition autoConvert_v1beta1_AzureStackHCIVirtualMachineSpec_To_v1beta2_AzureStackHCIVirtualMachineSpec :: "AzureStackHCIVirtualMachineSpec_v1beta1 \<Rightarrow>
    AzureStackHCIVirtualMachineSpec \<Rightarrow> AzureStackHCIVirtualMachineSpec" where
  "autoConvert_v1beta1_AzureStackHCIVirtualMachineSpec_To_v1beta2_AzureStackHCIVirtualMachineSpec x out = out\<lparr>
     vms_VMSize := vms1_VMSize x, vms_BootstrapData := vms1_BootstrapData x, vms_Identity := vms1_Identity x,
     vms_Location := vms1_Location x, vms_SSHPublicKey := vms1_SSHPublicKey x,
     vms_StorageContainer := vms1_StorageContainer x, vms_GpuCount := vms1_GpuCount x,
     vms_ResourceGroup := vms1_ResourceGroup x, vms_VnetName := vms1_VnetName x,
     vms_ClusterName := vms1_ClusterName x, vms_SubnetName := vms1_SubnetName x,
     vms_BackendPoolNames := vms1_BackendPoolNames x, vms_AdditionalSSHKeys := vms1_AdditionalSSHKeys x,
     vms_NetworkInterfaces := vms1_NetworkInterfaces x, vms_AvailabilitySetName := vms1_AvailabilitySetName x,
     vms_PlacementGroupName := vms1_PlacementGroupName x\<rparr>"

definition autoConvert_v1beta2_AzureStackHCIVirtualMachineSpec_To_v1beta1_AzureStackHCIVirtualMachineSpec :: "AzureStackHCIVirtualMachineSpec \<Rightarrow>
    AzureStackHCIVirtualMachineSpec_v1beta1 \<Rightarrow> AzureStackHCIVirtualMachineSpec_v1beta1" where
  "autoConvert_v1beta2_AzureStackHCIVirtualMachineSpec_To_v1beta1_AzureStackHCIVirtualMachineSpec x out = out\<lparr>
     vms1_VMSize := vms_VMSize x, vms1_BootstrapData := vms_BootstrapData x, vms1_Identity := vms_Identity x,
     vms1_Location := vms_Location x, vms1_SSHPublicKey := vms_SSHPublicKey x,
     vms1_StorageContainer := vms_StorageContainer x, vms1_GpuCount := vms_GpuCount x,
     vms1_ResourceGroup := vms_ResourceGroup x, vms1_VnetName := vms_VnetName x,
     vms1_ClusterName := vms_ClusterName x, vms1_SubnetName := vms_SubnetName x,
     vms1_BackendPoolNames := vms_BackendPoolNames x, vms1_AdditionalSSHKeys := vms_AdditionalSSHKeys x,
     vms1_NetworkInterfaces := vms_NetworkInterfaces x, vms1_AvailabilitySetName := vms_AvailabilitySetName x,
     vms1_PlacementGroupName := vms_PlacementGroupName x\<rparr>"

definition autoConvert_v1beta1_Image_To_v1beta2_Image :: "Image \<Rightarrow>
    Image \<Rightarrow> Image" where
  "autoConvert_v1beta1_Image_To_v1beta2_Image x out = out\<lparr>
     img_Publisher := img_Publisher x, img_Offer := img_Offer x, img_SKU := img_SKU x, img_ID := img_ID x,
     img_SubscriptionID := img_SubscriptionID x, img_ResourceGroup := img_ResourceGroup x,
     img_Gallery := img_Gallery x, img_Name := img_Name x, img_Version := img_Version x, img_OSType := img_OSType x\<rparr>"

definition autoConvert_v1beta2_Image_To_v1beta1_Image :: "Image \<Rightarrow>
    Image \<Rightarrow> Image" where
  "autoConvert_v1beta2_Image_To_v1beta1_Image x out = out\<lparr>
     img_Publisher := img_Publisher x, img_Offer := img_Offer x, img_SKU := img_SKU x, img_ID := img_ID x,
     img_SubscriptionID := img_SubscriptionID x, img_ResourceGroup := img_ResourceGroup x,
     img_Gallery := img_Gallery x, img_Name := img_Name x, img_Version := img_Version x, img_OSType := img_OSType x\<rparr>"

definition autoConvert_v1beta1_OSDisk_To_v1beta2_OSDisk :: "OSDisk_v1beta1 \<Rightarrow>
    OSDisk \<Rightarrow> OSDisk" where
  "autoConvert_v1beta1_OSDisk_To_v1beta2_OSDisk x out = out\<lparr>
     osd_Name := osd1_Name x, osd_Source := osd1_Source x, osd_OSType := osd1_OSType x,
     osd_DiskSizeGB := osd1_DiskSizeGB x\<rparr>"

definition autoConvert_v1beta2_OSDisk_To_v1beta1_OSDisk :: "OSDisk \<Rightarrow>
    OSDisk_v1beta1 \<Rightarrow> OSDisk_v1beta1" where
  "autoConvert_v1beta2_OSDisk_To_v1beta1_OSDisk x out = out\<lparr>
     osd1_Name := osd_Name x, osd1_Source := osd_Source x, osd1_OSType := osd_OSType x,
     osd1_DiskSizeGB := osd_DiskSizeGB x\<rparr>"

lemmas autoConvert_defs = autoConvert_v1beta1_AvailabilityZone_To_v1beta2_AvailabilityZone_def
  autoConvert_v1beta2_AvailabilityZone_To_v1beta1_AvailabilityZone_def
  autoConvert_v1beta1_AzureStackHCILoadBalancerSpec_To_v1beta2_AzureStackHCILoadBalancerSpec_def
  autoConvert_v1beta2_AzureStackHCILoadBalancerSpec_To_v1beta1_AzureStackHCILoadBalancerSpec_def
  autoConvert_v1beta1_AzureStackHCIMachineSpec_To_v1beta2_AzureStackHCIMachineSpec_def
  autoConvert_v1beta2_AzureStackHCIMachineSpec_To_v1beta1_AzureStackHCIMachineSpec_def
  autoConvert_v1beta1_AzureStackHCIVirtualMachineSpec_To_v1beta2_AzureStackHCIVirtualMachineSpec_def
  autoConvert_v1beta2_AzureStackHCIVirtualMachineSpec_To_v1beta1_AzureStackHCIVirtualMachineSpec_def
  autoConvert_v1beta1_Image_To_v1beta2_Image_def
  autoConvert_v1beta2_Image_To_v1beta1_Image_def
  autoConvert_v1beta1_OSDisk_To_v1beta2_OSDisk_def
  autoConvert_v1beta2_OSDisk_To_v1beta1_OSDisk_def

lemmas replaced_defs = Convert_v1beta1_AvailabilityZone_To_v1beta2_AvailabilityZone_def
  Convert_v1beta2_AvailabilityZone_To_v1beta1_AvailabilityZone_def
  Convert_v1beta1_AzureStackHCILoadBalancerSpec_To_v1beta2_AzureStackHCILoadBalancerSpec_def
  Convert_v1beta2_AzureStackHCILoadBalancerSpec_To_v1beta1_AzureStackHCILoadBalancerSpec_def
  Convert_v1beta1_AzureStackHCIMachineSpec_To_v1beta2_AzureStackHCIMachineSpec_def
  Convert_v1beta2_AzureStackHCIMachineSpec_To_v1beta1_AzureStackHCIMachineSpec_def
  Convert_v1beta1_AzureStackHCIVirtualMachineSpec_To_v1beta2_AzureStackHCIVirtualMachineSpec_def
  Convert_v1beta2_AzureStackHCIVirtualMachineSpec_To_v1beta1_AzureStackHCIVirtualMachineSpec_def
  Convert_v1beta1_Image_To_v1beta2_Image_def
  Convert_v1beta2_Image_To_v1beta1_Image_def
  Convert_v1beta1_OSDisk_To_v1beta2_OSDisk_def
  Convert_v1beta2_OSDisk_To_v1beta1_OSDisk_def

subsection \<open>Properties\<close>

text \<open>
  C35: The conversions written by hand forget nothing that the generator could have converted: where a
  generated function writes a field, the function that replaces it has written the same value
  there already, in both directions, so that they differ at most in the fields that the generator
  leaves to them.
\<close>

theorem manual_conversions_extend_generated:
  "autoConvert_v1beta1_AvailabilityZone_To_v1beta2_AvailabilityZone a
      (Convert_v1beta1_AvailabilityZone_To_v1beta2_AvailabilityZone a) =
    Convert_v1beta1_AvailabilityZone_To_v1beta2_AvailabilityZone a \<and>
   autoConvert_v1beta2_AvailabilityZone_To_v1beta1_AvailabilityZone a'
      (Convert_v1beta2_AvailabilityZone_To_v1beta1_AvailabilityZone a') =
    Convert_v1beta2_AvailabilityZone_To_v1beta1_AvailabilityZone a' \<and>
   autoConvert_v1beta1_AzureStackHCILoadBalancerSpec_To_v1beta2_AzureStackHCILoadBalancerSpec l
      (Convert_v1beta1_AzureStackHCILoadBalancerSpec_To_v1beta2_AzureStackHCILoadBalancerSpec l) =
    Convert_v1beta1_AzureStackHCILoadBalancerSpec_To_v1beta2_AzureStackHCILoadBalancerSpec l \<and>
   autoConvert_v1beta2_AzureStackHCILoadBalancerSpec_To_v1beta1_AzureStackHCILoadBalancerSpec l'
      (Convert_v1beta2_AzureStackHCILoadBalancerSpec_To_v1beta1_AzureStackHCILoadBalancerSpec l') =
    Convert_v1beta2_AzureStackHCILoadBalancerSpec_To_v1beta1_AzureStackHCILoadBalancerSpec l' \<and>
   autoConvert_v1beta1_AzureStackHCIMachineSpec_To_v1beta2_AzureStackHCIMachineSpec m
      (Convert_v1beta1_AzureStackHCIMachineSpec_To_v1beta2_AzureStackHCIMachineSpec m) =
    Convert_v1beta1_AzureStackHCIMachineSpec_To_v1beta2_AzureStackHCIMachineSpec m \<and>
   autoConvert_v1beta2_AzureStackHCIMachineSpec_To_v1beta1_AzureStackHCIMachineSpec m'
      (Convert_v1beta2_AzureStackHCIMachineSpec_To_v1beta1_AzureStackHCIMachineSpec m') =
    Convert_v1beta2_AzureStackHCIMachineSpec_To_v1beta1_AzureStackHCIMachineSpec m' \<and>
   autoConvert_v1beta1_AzureStackHCIVirtualMachineSpec_To_v1beta2_AzureStackHCIVirtualMachineSpec v
      (Convert_v1beta1_AzureStackHCIVirtualMachineSpec_To_v1beta2_AzureStackHCIVirtualMachineSpec v) =
    Convert_v1beta1_AzureStackHCIVirtualMachineSpec_To_v1beta2_AzureStackHCIVirtualMachineSpec v \<and>
   autoConvert_v1beta2_AzureStackHCIVirtualMachineSpec_To_v1beta1_AzureStackHCIVirtualMachineSpec v'
      (Convert_v1beta2_AzureStackHCIVirtualMachineSpec_To_v1beta1_AzureStackHCIVirtualMachineSpec v') =
    Convert_v1beta2_AzureStackHCIVirtualMachineSpec_To_v1beta1_AzureStackHCIVirtualMachineSpec v' \<and>
   autoConvert_v1beta1_Image_To_v1beta2_Image i
      (Convert_v1beta1_Image_To_v1beta2_Image i) =
    Convert_v1beta1_Image_To_v1beta2_Image i \<and>
   autoConvert_v1beta2_Image_To_v1beta1_Image i'
      (Convert_v1beta2_Image_To_v1beta1_Image i') =
    Convert_v1beta2_Image_To_v1beta1_Image i' \<and>
   autoConvert_v1beta1_OSDisk_To_v1beta2_OSDisk d
      (Convert_v1beta1_OSDisk_To_v1beta2_OSDisk d) =
    Convert_v1beta1_OSDisk_To_v1beta2_OSDisk d \<and>
   autoConvert_v1beta2_OSDisk_To_v1beta1_OSDisk d'
      (Convert_v1beta2_OSDisk_To_v1beta1_OSDisk d') =
    Convert_v1beta2_OSDisk_To_v1beta1_OSDisk d'"
  by (simp add: autoConvert_defs replaced_defs)

end
