(* ===== verification/Memory.thy ===== *)
theory Memory
  imports Prelude
begin

text \<open>
  Go memory, as far as the generated deep copies use it: values with pointers and slices, cells that
  are allocated and never moved, the statements that the generator emits, and what it means for a
  copy to be deep: the same tree of values, built from new cells only.
\<close>

subsection \<open>Values and cells\<close>

text \<open>
  \<open>Lit\<close> is a value without pointers (a string, a number, a truth value, a time), \<open>Ref\<close> a pointer, or
  a slice by its backing array, \<open>NilV\<close> nil.  A cell holds the value pointed to, or the elements of an
  array.
\<close>

datatype gv = Lit string | NilV | Ref nat | Struct "(string \<times> gv) list" | Arr "gv list"

type_synonym mem = "gv list"

type_synonym copier = "gv \<Rightarrow> (mem, gv) io"

definition deref :: "nat \<Rightarrow> (mem, gv) io" where
  "deref a = (\<lambda>m. if a < length m then (Ret (m ! a), m) else (Panics ''invalid memory address'', m))"

definition alloc :: "gv \<Rightarrow> (mem, gv) io" where
  "alloc v = (\<lambda>m. (Ret (Ref (length m)), m @ [v]))"

fun mapIO :: "('a \<Rightarrow> ('s, 'b) io) \<Rightarrow> 'a list \<Rightarrow> ('s, 'b list) io" where
  "mapIO f [] = return []"
| "mapIO f (x # xs) = bind (f x) (\<lambda>y. bind (mapIO f xs) (\<lambda>ys. return (y # ys)))"

subsection \<open>The statements of a generated copy\<close>

text \<open>\<open>**out = **in\<close>, \<open>*out = *in\<close> and the element step of \<open>copy(*out, *in)\<close>\<close>

definition plain :: copier where "plain v = return v"

text \<open>\<open>if in.X != nil { *out = new(T); (*in).DeepCopyInto(*out) }\<close>; the cell is entered with its contents complete.\<close>

definition new_copy :: "copier \<Rightarrow> copier" where
  "new_copy c v = (case v of
      NilV \<Rightarrow> return NilV
    | Ref a \<Rightarrow> bind (deref a) (\<lambda>x. bind (c x) alloc)
    | _ \<Rightarrow> panic ''not a pointer'')"

text \<open>\<open>*out = make([]T, len(*in))\<close> and the loop over the elements, for a slice that is not nil\<close>

definition copy_elements :: "copier \<Rightarrow> gv \<Rightarrow> (mem, gv) io" where
  "copy_elements c x = (case x of
      Arr vs \<Rightarrow> bind (mapIO c vs) (\<lambda>ys. alloc (Arr ys))
    | _ \<Rightarrow> panic ''not an array'')"

definition make_copy :: "copier \<Rightarrow> copier" where
  "make_copy c v = (case v of
      NilV \<Rightarrow> return NilV
    | Ref a \<Rightarrow> bind (deref a) (copy_elements c)
    | _ \<Rightarrow> panic ''not a slice'')"

text \<open>The same without the test for nil, which \<open>make\<close> turns into an empty slice.\<close>

definition make_always :: "copier \<Rightarrow> copier" where
  "make_always c v = (case v of
      NilV \<Rightarrow> copy_elements c (Arr [])
    | Ref a \<Rightarrow> bind (deref a) (copy_elements c)
    | _ \<Rightarrow> panic ''not a slice'')"

text \<open>\<open>*out = *in\<close> for a struct, then the statements for the fields that need one, in order\<close>

definition copy_field :: "(string \<times> copier) list \<Rightarrow> string \<times> gv \<Rightarrow> (mem, string \<times> gv) io" where
  "copy_field fs x = (case map_of fs (fst x) of
      None \<Rightarrow> return x
    | Some c \<Rightarrow> bind (c (snd x)) (\<lambda>v. return (fst x, v)))"

definition struct_copy :: "(string \<times> copier) list \<Rightarrow> copier" where
  "struct_copy fs v = (case v of
      Struct xs \<Rightarrow> bind (mapIO (copy_field fs) xs) (\<lambda>ys. return (Struct ys))
    | _ \<Rightarrow> panic ''not a struct'')"

text \<open>\<open>if in == nil { return nil }\<close>, and a new slice variable that the copy is written to and read from\<close>

definition copy_slice :: "copier \<Rightarrow> copier" where
  "copy_slice c v = (if v = NilV then return NilV else c v)"

text \<open>\<open>if c := in.DeepCopy(); c != nil { return c }; return nil\<close>\<close>

definition copy_object :: "copier \<Rightarrow> copier" where
  "copy_object copy v = bind (copy v) (\<lambda>c. if c \<noteq> NilV then return c else return NilV)"

subsection \<open>Trees of values\<close>

datatype tree = TLit string | TNil | TPtr tree | TStruct "(string \<times> tree) list" | TArr "tree list"

text \<open>In memory \<open>m\<close> the value stands for the tree, and all its cells have addresses from \<open>n\<close> on.\<close>

inductive built :: "nat \<Rightarrow> mem \<Rightarrow> gv \<Rightarrow> tree \<Rightarrow> bool" for n m where
  lit: "built n m (Lit s) (TLit s)"
| nil: "built n m NilV TNil"
| ptr: "n \<le> a \<Longrightarrow> a < length m \<Longrightarrow> built n m (m ! a) t \<Longrightarrow> built n m (Ref a) (TPtr t)"
| struct: "map fst vs = map fst ts \<Longrightarrow> list_all2 (built n m) (map snd vs) (map snd ts) \<Longrightarrow>
    built n m (Struct vs) (TStruct ts)"
| arr: "list_all2 (built n m) vs ts \<Longrightarrow> built n m (Arr vs) (TArr ts)"

inductive_cases built_TPtr: "built n m v (TPtr t)"
inductive_cases built_TStruct: "built n m v (TStruct ts)"
inductive_cases built_TArr: "built n m v (TArr ts)"

inductive_simps built_simps [simp]:
  "built n m v (TLit s)" "built n m v TNil"

lemma built_extend: "built n m v t \<Longrightarrow> k \<le> n \<Longrightarrow> built k (m @ ms) v t"
proof (induction rule: built.induct)
  case (ptr a t)
  then show ?case by (intro built.ptr) (auto simp: nth_append)
next
  case (struct vs ts)
  then show ?case by (intro built.struct) (auto elim: list_all2_mono)
next
  case (arr vs ts)
  then show ?case by (intro built.arr) (auto elim: list_all2_mono)
qed simp_all

text \<open>Writing to cells that came later does not change what an older value stands for.\<close>

lemma built_write: "built n m v t \<Longrightarrow> length m \<le> a \<Longrightarrow> built n ((m @ ms)[a := x]) v t"
  using built_extend [of n m v t n "ms[a - length m := x]"] by (simp add: list_update_append)

fun flat :: "tree \<Rightarrow> bool" where
  "flat (TLit s) = True"
| "flat TNil = True"
| "flat (TPtr t) = False"
| "flat (TStruct ts) = list_all (\<lambda>x. flat (snd x)) ts"
| "flat (TArr ts) = list_all flat ts"

lemma built_flat: "built n m v t \<Longrightarrow> flat t \<Longrightarrow> built k m' v t"
proof (induction rule: built.induct)
  case (struct vs ts)
  then show ?case
    by (intro built.struct) (auto simp: list_all2_conv_all_nth list_all_length)
next
  case (arr vs ts)
  then show ?case
    by (intro built.arr) (auto simp: list_all2_conv_all_nth list_all_length)
qed simp_all

subsection \<open>Shapes: the trees of a Go type\<close>

definition lit :: "tree \<Rightarrow> bool" where "lit t \<longleftrightarrow> (\<exists>s. t = TLit s)"

definition ptr_to :: "(tree \<Rightarrow> bool) \<Rightarrow> tree \<Rightarrow> bool" where
  "ptr_to T t \<longleftrightarrow> t = TNil \<or> (\<exists>u. t = TPtr u \<and> T u)"

definition slice_of :: "(tree \<Rightarrow> bool) \<Rightarrow> tree \<Rightarrow> bool" where
  "slice_of T t \<longleftrightarrow> t = TNil \<or> (\<exists>us. t = TPtr (TArr us) \<and> list_all T us)"

definition struct_of :: "(string \<times> (tree \<Rightarrow> bool)) list \<Rightarrow> tree \<Rightarrow> bool" where
  "struct_of lay t \<longleftrightarrow> (\<exists>ts. t = TStruct ts \<and> map fst ts = map fst lay \<and>
     list_all2 (\<lambda>T u. T u) (map snd lay) (map snd ts))"

definition pointer_free :: "(tree \<Rightarrow> bool) \<Rightarrow> bool" where
  "pointer_free T \<longleftrightarrow> (\<forall>t. T t \<longrightarrow> flat t)"

text \<open>
  A copier is deep for a shape: it returns, leaves all old cells as they are, and what it returns
  stands for the same tree in new cells.
\<close>

definition deep :: "copier \<Rightarrow> (tree \<Rightarrow> bool) \<Rightarrow> bool" where
  "deep c T \<longleftrightarrow> (\<forall>m v t. built 0 m v t \<longrightarrow> T t \<longrightarrow>
     (\<exists>v' ms. c v m = (Ret v', m @ ms) \<and> built (length m) (m @ ms) v' t))"

lemma deepD: "deep c T \<Longrightarrow> built 0 m v t \<Longrightarrow> T t \<Longrightarrow>
   \<exists>v' ms. c v m = (Ret v', m @ ms) \<and> built (length m) (m @ ms) v' t"
  by (simp add: deep_def)

named_theorems deep_rules \<open>how deep copies are composed\<close>

lemma pointer_free_lit [deep_rules]: "pointer_free lit"
  by (auto simp: pointer_free_def lit_def)

lemma pointer_free_struct [deep_rules]:
  "list_all (\<lambda>x. pointer_free (snd x)) lay \<Longrightarrow> pointer_free (struct_of lay)"
  by (auto simp: pointer_free_def struct_of_def list_all_length list_all2_conv_all_nth)

lemma deep_plain [deep_rules]: "pointer_free T \<Longrightarrow> deep plain T"
  unfolding deep_def plain_def
proof (intro allI impI)
  fix m v t assume "pointer_free T" "built 0 m v t" "T t"
  then have "built (length m) (m @ []) v t" by (auto simp: pointer_free_def intro: built_flat)
  then show "\<exists>v' ms. return v m = (Ret v', m @ ms) \<and> built (length m) (m @ ms) v' t" by force
qed

lemma deep_new_copy [deep_rules]:
  assumes "deep c T"
  shows "deep (new_copy c) (ptr_to T)"
  unfolding deep_def
proof (intro allI impI)
  fix m v t assume v: "built 0 m v t" and t: "ptr_to T t"
  show "\<exists>v' ms. new_copy c v m = (Ret v', m @ ms) \<and> built (length m) (m @ ms) v' t"
  proof (cases "t = TNil")
    case True
    then show ?thesis using v by (simp add: new_copy_def)
  next
    case False
    then obtain u where u: "t = TPtr u" "T u" using t by (auto simp: ptr_to_def)
    then obtain a where a: "v = Ref a" "a < length m" "built 0 m (m ! a) u" using v by (auto elim: built_TPtr)
    obtain v' ms where c: "c (m ! a) m = (Ret v', m @ ms)" "built (length m) (m @ ms) v' u"
      using deepD [OF assms a(3) u(2)] by blast
    have "built (length m) ((m @ ms) @ [v']) (Ref (length (m @ ms))) (TPtr u)"
      using built_extend [OF c(2) le_refl, of "[v']"] by (intro built.ptr) (simp_all add: nth_append)
    with a c show ?thesis
      by (simp add: u new_copy_def bind_def deref_def alloc_def)
  qed
qed

text \<open>Copying one value after the other: later copies add cells and keep the earlier ones.\<close>

lemma deep_mapIO:
  assumes "list_all2 (\<lambda>x t. \<forall>ns. \<exists>y ms. f x (m @ ns) = (Ret y, (m @ ns) @ ms) \<and> ok x y \<and>
      built (length (m @ ns)) ((m @ ns) @ ms) (val y) t) xs ts"
  shows "\<exists>ys ms. mapIO f xs m = (Ret ys, m @ ms) \<and> list_all2 ok xs ys \<and>
    list_all2 (\<lambda>y t. built (length m) (m @ ms) (val y) t) ys ts"
  using assms
proof (induction xs arbitrary: m ts)
  case (Cons x xs)
  from Cons.prems obtain u us where ts: "ts = u # us"
    and x: "\<exists>y ms. f x (m @ []) = (Ret y, (m @ []) @ ms) \<and> ok x y \<and> built (length (m @ [])) ((m @ []) @ ms) (val y) u"
    and rest: "list_all2 (\<lambda>x t. \<forall>ns. \<exists>y ms. f x (m @ ns) = (Ret y, (m @ ns) @ ms) \<and> ok x y \<and>
      built (length (m @ ns)) ((m @ ns) @ ms) (val y) t) xs us"
    by (subst (asm) list_all2_Cons1) blast
  from x obtain y ms where y: "f x m = (Ret y, m @ ms)" "ok x y" "built (length m) (m @ ms) (val y) u" by auto
  have "list_all2 (\<lambda>x t. \<forall>ns. \<exists>y ms'. f x ((m @ ms) @ ns) = (Ret y, ((m @ ms) @ ns) @ ms') \<and> ok x y \<and>
      built (length ((m @ ms) @ ns)) (((m @ ms) @ ns) @ ms') (val y) t) xs us"
    using rest by (rule list_all2_mono) (rule allI, drule_tac x = "ms @ ns" in spec, simp)
  from Cons.IH [OF this] obtain ys ms' where ys: "mapIO f xs (m @ ms) = (Ret ys, (m @ ms) @ ms')" "list_all2 ok xs ys"
    "list_all2 (\<lambda>y t. built (length (m @ ms)) ((m @ ms) @ ms') (val y) t) ys us" by blast
  have "list_all2 (\<lambda>y t. built (length m) ((m @ ms) @ ms') (val y) t) ys us"
    using ys(3) by (rule list_all2_mono) (use built_extend [where ms = "[]"] in \<open>simp\<close>)
  moreover have "built (length m) ((m @ ms) @ ms') (val y) u" by (rule built_extend [OF y(3)]) simp
  moreover have "mapIO f (x # xs) m = (Ret (y # ys), m @ (ms @ ms'))"
    using y(1) ys(1) by (simp add: bind_def)
  ultimately show ?case
    using y(2) ys(2) unfolding ts
    by (intro exI [of _ "y # ys"] exI [of _ "ms @ ms'"]) (simp del: mapIO.simps)
qed simp

lemma deep_elements:
  assumes "deep c T" "list_all T ts" "list_all2 (built 0 m) vs ts"
  shows "\<exists>v' ms. copy_elements c (Arr vs) m = (Ret v', m @ ms) \<and> built (length m) (m @ ms) v' (TPtr (TArr ts))"
proof -
  have "list_all2 (\<lambda>x t. \<forall>ns. \<exists>y ms. c x (m @ ns) = (Ret y, (m @ ns) @ ms) \<and> True \<and>
      built (length (m @ ns)) ((m @ ns) @ ms) y t) vs ts"
    using assms(2,3) deepD [OF assms(1) built_extend] by (auto simp: list_all2_conv_all_nth list_all_length)
  from deep_mapIO [where ok = "\<lambda>_ _. True" and val = "\<lambda>y. y", OF this]
  obtain ys ms where ys: "mapIO c vs m = (Ret ys, m @ ms)" "list_all2 (built (length m) (m @ ms)) ys ts" by blast
  have "list_all2 (built (length m) ((m @ ms) @ [Arr ys])) ys ts"
    using ys(2) by (rule list_all2_mono) (erule built_extend, rule le_refl)
  then have "built (length m) ((m @ ms) @ [Arr ys]) (Ref (length (m @ ms))) (TPtr (TArr ts))"
    by (intro built.ptr) (simp_all add: nth_append built.arr)
  moreover have "copy_elements c (Arr vs) m = (Ret (Ref (length (m @ ms))), m @ (ms @ [Arr ys]))"
    using ys(1) by (simp add: copy_elements_def bind_def alloc_def)
  ultimately show ?thesis by (metis append_assoc)
qed

lemma deep_slice:
  assumes "deep c T" "slice_of T t" "built 0 m v t"
  shows "t = TNil \<and> v = NilV \<or> (\<exists>a v' ms. v = Ref a \<and>
    bind (deref a) (copy_elements c) m = (Ret v', m @ ms) \<and> built (length m) (m @ ms) v' t)"
proof (cases "t = TNil")
  case False
  then obtain us where us: "t = TPtr (TArr us)" "list_all T us" using assms(2) by (auto simp: slice_of_def)
  then obtain a vs where a: "v = Ref a" "a < length m" "m ! a = Arr vs" "list_all2 (built 0 m) vs us"
    using assms(3) by (auto elim!: built_TPtr built_TArr)
  then show ?thesis
    using deep_elements [OF assms(1) us(2) a(4)] by (auto simp: us(1) bind_def deref_def)
qed (use assms(3) in simp)

lemma deep_make_copy [deep_rules]: "deep c T \<Longrightarrow> deep (make_copy c) (slice_of T)"
  unfolding deep_def [of "make_copy c"]
proof (intro allI impI)
  fix m v t assume c: "deep c T" and v: "built 0 m v t" "slice_of T t"
  from deep_slice [OF c v(2,1)]
  show "\<exists>v' ms. make_copy c v m = (Ret v', m @ ms) \<and> built (length m) (m @ ms) v' t"
    by (auto simp: make_copy_def)
qed

text \<open>A slice that is not nil is also copied without the test.\<close>

lemma deep_make_always [deep_rules]:
  "deep c T \<Longrightarrow> deep (make_always c) (\<lambda>t. slice_of T t \<and> t \<noteq> TNil)"
  unfolding deep_def [of "make_always c"]
proof (intro allI impI)
  fix m v t assume c: "deep c T" and v: "built 0 m v t" "slice_of T t \<and> t \<noteq> TNil"
  from deep_slice [OF c conjunct1 [OF v(2)] v(1)] v(2)
  show "\<exists>v' ms. make_always c v m = (Ret v', m @ ms) \<and> built (length m) (m @ ms) v' t"
    by (auto simp: make_always_def)
qed

lemma deep_copy_slice [deep_rules]:
  "deep c (\<lambda>t. slice_of T t \<and> t \<noteq> TNil) \<Longrightarrow> deep (copy_slice c) (slice_of T)"
  unfolding deep_def [of "copy_slice c"]
proof (intro allI impI)
  fix m v t assume c: "deep c (\<lambda>t. slice_of T t \<and> t \<noteq> TNil)" and v: "built 0 m v t" "slice_of T t"
  show "\<exists>v' ms. copy_slice c v m = (Ret v', m @ ms) \<and> built (length m) (m @ ms) v' t"
  proof (cases "t = TNil")
    case True
    then show ?thesis using v by (simp add: copy_slice_def)
  next
    case False
    then have "v \<noteq> NilV" using v by (auto elim: built.cases)
    then show ?thesis using deepD [OF c v(1)] v(2) False by (simp add: copy_slice_def)
  qed
qed

text \<open>A field is copied by its own rule, or taken over as it is when no pointer is in it.\<close>

lemma copy_field_deep:
  assumes rule: "case map_of fs (fst x) of None \<Rightarrow> pointer_free T | Some c \<Rightarrow> deep c T"
    and b: "built 0 m (snd x) t" and T: "T t"
  shows "\<exists>y ms. copy_field fs x (m @ ns) = (Ret y, (m @ ns) @ ms) \<and> fst y = fst x \<and>
    built (length (m @ ns)) ((m @ ns) @ ms) (snd y) t"
proof (cases "map_of fs (fst x)")
  case None
  then have "built (length (m @ ns)) ((m @ ns) @ []) (snd x) t"
    using rule T built_flat [OF b] by (simp add: pointer_free_def)
  with None show ?thesis by (cases x) (force simp: copy_field_def)
next
  case (Some c)
  with rule have "deep c T" by simp
  from deepD [OF this built_extend [OF b order_refl] T, of ns] Some show ?thesis
    by (cases x) (auto simp: copy_field_def bind_def)
qed

lemma deep_struct_copy [deep_rules]:
  assumes "list_all (\<lambda>(f, T). case map_of fs f of None \<Rightarrow> pointer_free T | Some c \<Rightarrow> deep c T) lay"
  shows "deep (struct_copy fs) (struct_of lay)"
  unfolding deep_def
proof (intro allI impI)
  fix m v t assume v: "built 0 m v t" and t: "struct_of lay t"
  then obtain ts where ts: "t = TStruct ts" "map fst ts = map fst lay" "list_all2 (\<lambda>T u. T u) (map snd lay) (map snd ts)"
    by (auto simp: struct_of_def)
  with v obtain vs where vs: "v = Struct vs" "map fst vs = map fst ts" "list_all2 (built 0 m) (map snd vs) (map snd ts)"
    by (auto elim: built_TStruct)
  have len: "length vs = length lay" "length ts = length lay" using ts(2) vs(2) by (metis length_map)+
  have field: "\<exists>y ms. copy_field fs (vs ! i) (m @ ns) = (Ret y, (m @ ns) @ ms) \<and> fst y = fst (vs ! i) \<and>
      built (length (m @ ns)) ((m @ ns) @ ms) (snd y) (snd (ts ! i))" if i: "i < length lay" for i ns
  proof (rule copy_field_deep [where T = "snd (lay ! i)"])
    have "fst (vs ! i) = fst (lay ! i)"
      using nth_map [of i vs fst] nth_map [of i lay fst] i ts(2) vs(2) by (simp add: len)
    then show "case map_of fs (fst (vs ! i)) of None \<Rightarrow> pointer_free (snd (lay ! i)) | Some c \<Rightarrow> deep c (snd (lay ! i))"
      using assms i by (auto simp: list_all_length case_prod_unfold)
    show "built 0 m (snd (vs ! i)) (snd (ts ! i))" using list_all2_nthD [OF vs(3), of i] i by (simp add: len)
    show "snd (lay ! i) (snd (ts ! i))" using list_all2_nthD [OF ts(3), of i] i by (simp add: len)
  qed
  then have "list_all2 (\<lambda>x t. \<forall>ns. \<exists>y ms. copy_field fs x (m @ ns) = (Ret y, (m @ ns) @ ms) \<and> fst y = fst x \<and>
      built (length (m @ ns)) ((m @ ns) @ ms) (snd y) t) vs (map snd ts)"
    by (auto simp: list_all2_conv_all_nth len)
  from deep_mapIO [where ok = "\<lambda>x y. fst y = fst x" and val = snd, OF this]
  obtain ys ms where ys: "mapIO (copy_field fs) vs m = (Ret ys, m @ ms)" "list_all2 (\<lambda>x y. fst y = fst x) vs ys"
    "list_all2 (\<lambda>y t. built (length m) (m @ ms) (snd y) t) ys (map snd ts)" by blast
  have "map fst ys = map fst vs"
    using ys(2) by (intro nth_equalityI) (auto simp: list_all2_conv_all_nth)
  then have "built (length m) (m @ ms) (Struct ys) (TStruct ts)"
    using ys(3) vs(2) by (intro built.struct) (simp_all add: list_all2_map1)
  then show "\<exists>v' ms. struct_copy fs v m = (Ret v', m @ ms) \<and> built (length m) (m @ ms) v' t"
    using ys(1) by (auto simp: struct_copy_def vs(1) ts(1) bind_def)
qed

lemma deep_copy_object [deep_rules]: "deep copy T \<Longrightarrow> deep (copy_object copy) T"
  unfolding deep_def copy_object_def by (fastforce simp: bind_def)

text \<open>What deep copies are for: the copy may be changed, and the original keeps its value.\<close>

lemma deep_independent:
  assumes "deep c T" "built 0 m v t" "T t"
  shows "\<exists>v' m'. c v m = (Ret v', m') \<and> built (length m) m' v' t \<and>
    (\<forall>a x. length m \<le> a \<longrightarrow> built 0 (m'[a := x]) v t)"
  using deepD [OF assms] built_write [OF assms(2)] by blast

subsection \<open>Library types\<close>

text \<open>
  Structs of the Kubernetes libraries: those without pointers by their fields, those that bring
  their own deep copy as parameters, each a copy with its shape.
\<close>

definition TypeMeta_shape :: "tree \<Rightarrow> bool" where
  "TypeMeta_shape = struct_of [(''Kind'', lit), (''APIVersion'', lit)]"

definition APIEndpoint_shape :: "tree \<Rightarrow> bool" where
  "APIEndpoint_shape = struct_of [(''Host'', lit), (''Port'', lit)]"

definition NodeAddress_shape :: "tree \<Rightarrow> bool" where
  "NodeAddress_shape = struct_of [(''Type'', lit), (''Address'', lit)]"

lemma library_flat [deep_rules]:
  "pointer_free TypeMeta_shape" "pointer_free APIEndpoint_shape" "pointer_free NodeAddress_shape"
  unfolding TypeMeta_shape_def APIEndpoint_shape_def NodeAddress_shape_def by (auto intro!: deep_rules)

record ext_copies =
  x_ObjectMeta :: copier
  x_ListMeta :: copier
  x_Condition :: copier
  x_ClusterCondition :: copier
  x_Time :: copier
  s_ObjectMeta :: "tree \<Rightarrow> bool"
  s_ListMeta :: "tree \<Rightarrow> bool"
  s_Condition :: "tree \<Rightarrow> bool"
  s_ClusterCondition :: "tree \<Rightarrow> bool"
  s_Time :: "tree \<Rightarrow> bool"

definition ext_deep :: "ext_copies \<Rightarrow> bool" where
  "ext_deep X \<longleftrightarrow> deep (x_ObjectMeta X) (s_ObjectMeta X) \<and> deep (x_ListMeta X) (s_ListMeta X) \<and>
     deep (x_Condition X) (s_Condition X) \<and> deep (x_ClusterCondition X) (s_ClusterCondition X) \<and>
     deep (x_Time X) (s_Time X)"

lemma ext_deep_rules [deep_rules]:
  assumes "ext_deep X"
  shows "deep (x_ObjectMeta X) (s_ObjectMeta X)" "deep (x_ListMeta X) (s_ListMeta X)"
    "deep (x_Condition X) (s_Condition X)" "deep (x_ClusterCondition X) (s_ClusterCondition X)"
    "deep (x_Time X) (s_Time X)"
  using assms by (simp_all add: ext_deep_def)

end
