(* ===== verification/DeepCopy.thy ===== *)
theory DeepCopy
  imports Memory
begin

text \<open>
  \<open>api/v1beta2/zz_generated.deepcopy.go\<close>: the generated deep copies.  Every struct and slice type of
  the API has a shape, which is its declaration in Go, and the copies that were generated for it; a field
  that a copy does not mention is copied with the struct.  A lemma per type says that the copy is
  deep for the shape, so a pointer field that the generated code forgot would be noticed.
\<close>

definition AvailabilityZone_shape :: "tree \<Rightarrow> bool" where
  "AvailabilityZone_shape = struct_of
     [(''ID'', ptr_to lit), (''Enabled'', ptr_to lit)]"

definition AvailabilityZone_DeepCopyInto :: "copier" where
  "AvailabilityZone_DeepCopyInto = struct_copy
     [(''ID'', new_copy plain), (''Enabled'', new_copy plain)]"

definition AvailabilityZone_DeepCopy :: "copier" where
  "AvailabilityZone_DeepCopy = new_copy AvailabilityZone_DeepCopyInto"

definition VnetSpec_shape :: "tree \<Rightarrow> bool" where
  "VnetSpec_shape = struct_of
     [(''ID'', lit), (''Name'', lit), (''CidrBlock'', lit), (''Group'', lit)]"

definition VnetSpec_DeepCopyInto :: "copier" where
  "VnetSpec_DeepCopyInto = struct_copy []"

definition VnetSpec_DeepCopy :: "copier" where
  "VnetSpec_DeepCopy = new_copy VnetSpec_DeepCopyInto"

definition SubnetSpec_shape :: "tree \<Rightarrow> bool" where
  "SubnetSpec_shape = struct_of
     [(''ID'', lit), (''Name'', lit), (''VnetID'', lit), (''CidrBlock'', lit)]"

definition SubnetSpec_DeepCopyInto :: "copier" where
  "SubnetSpec_DeepCopyInto = struct_copy []"

definition SubnetSpec_DeepCopy :: "copier" where
  "SubnetSpec_DeepCopy = new_copy SubnetSpec_DeepCopyInto"

definition Subnets_shape :: "tree \<Rightarrow> bool" where
  "Subnets_shape = slice_of (ptr_to SubnetSpec_shape)"

definition Subnets_DeepCopyInto :: "copier" where
  "Subnets_DeepCopyInto = make_always (new_copy plain)"

definition Subnets_DeepCopy :: "copier" where
  "Subnets_DeepCopy = copy_slice Subnets_DeepCopyInto"

definition NetworkSpec_shape :: "tree \<Rightarrow> bool" where
  "NetworkSpec_shape = struct_of
     [(''Vnet'', VnetSpec_shape), (''Subnets'', Subnets_shape)]"

definition NetworkSpec_DeepCopyInto :: "copier" where
  "NetworkSpec_DeepCopyInto = struct_copy
     [(''Vnet'', plain), (''Subnets'', make_copy (new_copy plain))]"

definition NetworkSpec_DeepCopy :: "copier" where
  "NetworkSpec_DeepCopy = new_copy NetworkSpec_DeepCopyInto"

definition Image_shape :: "tree \<Rightarrow> bool" where
  "Image_shape = struct_of
     [(''Publisher'', ptr_to lit), (''Offer'', ptr_to lit), (''SKU'', ptr_to lit), (''ID'', ptr_to lit),
      (''SubscriptionID'', ptr_to lit), (''ResourceGroup'', ptr_to lit), (''Gallery'', ptr_to lit),
      (''Name'', ptr_to lit), (''Version'', ptr_to lit), (''OSType'', lit)]"

definition Image_DeepCopyInto :: "copier" where
  "Image_DeepCopyInto = struct_copy
     [(''Publisher'', new_copy plain), (''Offer'', new_copy plain), (''SKU'', new_copy plain),
      (''ID'', new_copy plain), (''SubscriptionID'', new_copy plain), (''ResourceGroup'', new_copy plain),
      (''Gallery'', new_copy plain), (''Name'', new_copy plain), (''Version'', new_copy plain)]"

definition Image_DeepCopy :: "copier" where
  "Image_DeepCopy = new_copy Image_DeepCopyInto"

definition AzureStackHCILoadBalancerSpec_shape :: "tree \<Rightarrow> bool" where
  "AzureStackHCILoadBalancerSpec_shape = struct_of
     [(''SSHPublicKey'', lit), (''Image'', ptr_to Image_shape), (''VMSize'', lit),
      (''StorageContainer'', lit), (''Replicas'', ptr_to lit)]"

definition AzureStackHCILoadBalancerSpec_DeepCopyInto :: "copier" where
  "AzureStackHCILoadBalancerSpec_DeepCopyInto = struct_copy
     [(''Image'', new_copy Image_DeepCopyInto), (''Replicas'', new_copy plain)]"

definition AzureStackHCILoadBalancerSpec_DeepCopy :: "copier" where
  "AzureStackHCILoadBalancerSpec_DeepCopy = new_copy AzureStackHCILoadBalancerSpec_DeepCopyInto"

definition AzureStackHCIClusterSpec_shape :: "tree \<Rightarrow> bool" where
  "AzureStackHCIClusterSpec_shape = struct_of
     [(''NetworkSpec'', NetworkSpec_shape), (''ResourceGroup'', lit), (''Location'', lit),
      (''AzureStackHCILoadBalancer'', ptr_to AzureStackHCILoadBalancerSpec_shape),
      (''ControlPlaneEndpoint'', APIEndpoint_shape), (''Version'', ptr_to lit), (''Management'', lit)]"

definition AzureStackHCIClusterSpec_DeepCopyInto :: "copier" where
  "AzureStackHCIClusterSpec_DeepCopyInto = struct_copy
     [(''NetworkSpec'', NetworkSpec_DeepCopyInto),
      (''AzureStackHCILoadBalancer'', new_copy AzureStackHCILoadBalancerSpec_DeepCopyInto),
      (''ControlPlaneEndpoint'', plain), (''Version'', new_copy plain)]"

definition AzureStackHCIClusterSpec_DeepCopy :: "copier" where
  "AzureStackHCIClusterSpec_DeepCopy = new_copy AzureStackHCIClusterSpec_DeepCopyInto"

definition ManagedDisk_shape :: "tree \<Rightarrow> bool" where
  "ManagedDisk_shape = struct_of
     [(''StorageAccountType'', lit)]"

definition ManagedDisk_DeepCopyInto :: "copier" where
  "ManagedDisk_DeepCopyInto = struct_copy []"

definition ManagedDisk_DeepCopy :: "copier" where
  "ManagedDisk_DeepCopy = new_copy ManagedDisk_DeepCopyInto"

definition OSDisk_shape :: "tree \<Rightarrow> bool" where
  "OSDisk_shape = struct_of
     [(''Name'', lit), (''Source'', lit), (''OSType'', lit), (''DiskSizeGB'', lit),
      (''ManagedDisk'', ptr_to ManagedDisk_shape)]"

definition OSDisk_DeepCopyInto :: "copier" where
  "OSDisk_DeepCopyInto = struct_copy
     [(''ManagedDisk'', new_copy plain)]"

definition OSDisk_DeepCopy :: "copier" where
  "OSDisk_DeepCopy = new_copy OSDisk_DeepCopyInto"

definition VM_shape :: "tree \<Rightarrow> bool" where
  "VM_shape = struct_of
     [(''ID'', lit), (''Name'', lit), (''AvailabilityZone'', lit), (''VMSize'', lit),
      (''Image'', Image_shape), (''OSDisk'', OSDisk_shape), (''BootstrapData'', lit), (''State'', lit),
      (''Identity'', lit)]"

definition VM_DeepCopyInto :: "copier" where
  "VM_DeepCopyInto = struct_copy
     [(''Image'', Image_DeepCopyInto), (''OSDisk'', OSDisk_DeepCopyInto)]"

definition VM_DeepCopy :: "copier" where
  "VM_DeepCopy = new_copy VM_DeepCopyInto"

definition AzureStackHCIClusterInitializationStatus_shape :: "tree \<Rightarrow> bool" where
  "AzureStackHCIClusterInitializationStatus_shape = struct_of
     [(''Provisioned'', ptr_to lit)]"

definition AzureStackHCIClusterInitializationStatus_DeepCopyInto :: "copier" where
  "AzureStackHCIClusterInitializationStatus_DeepCopyInto = struct_copy
     [(''Provisioned'', new_copy plain)]"

definition AzureStackHCIClusterInitializationStatus_DeepCopy :: "copier" where
  "AzureStackHCIClusterInitializationStatus_DeepCopy = new_copy AzureStackHCIClusterInitializationStatus_DeepCopyInto"

definition AzureStackHCIClusterStatus_shape :: "ext_copies \<Rightarrow> tree \<Rightarrow> bool" where
  "AzureStackHCIClusterStatus_shape X = struct_of
     [(''Bastion'', VM_shape), (''Phase'', lit), (''Conditions'', slice_of (s_Condition X)),
      (''Initialization'', ptr_to AzureStackHCIClusterInitializationStatus_shape)]"

definition AzureStackHCIClusterStatus_DeepCopyInto :: "ext_copies \<Rightarrow> copier" where
  "AzureStackHCIClusterStatus_DeepCopyInto X = struct_copy
     [(''Bastion'', VM_DeepCopyInto), (''Conditions'', make_copy (x_Condition X)),
      (''Initialization'', new_copy AzureStackHCIClusterInitializationStatus_DeepCopyInto)]"

definition AzureStackHCIClusterStatus_DeepCopy :: "ext_copies \<Rightarrow> copier" where
  "AzureStackHCIClusterStatus_DeepCopy X = new_copy (AzureStackHCIClusterStatus_DeepCopyInto X)"

definition AzureStackHCICluster_shape :: "ext_copies \<Rightarrow> tree \<Rightarrow> bool" where
  "AzureStackHCICluster_shape X = struct_of
     [(''TypeMeta'', TypeMeta_shape), (''ObjectMeta'', s_ObjectMeta X),
      (''Spec'', AzureStackHCIClusterSpec_shape), (''Status'', AzureStackHCIClusterStatus_shape X)]"

definition AzureStackHCICluster_DeepCopyInto :: "ext_copies \<Rightarrow> copier" where
  "AzureStackHCICluster_DeepCopyInto X = struct_copy
     [(''TypeMeta'', plain), (''ObjectMeta'', x_ObjectMeta X),
      (''Spec'', AzureStackHCIClusterSpec_DeepCopyInto),
      (''Status'', AzureStackHCIClusterStatus_DeepCopyInto X)]"

definition AzureStackHCICluster_DeepCopy :: "ext_copies \<Rightarrow> copier" where
  "AzureStackHCICluster_DeepCopy X = new_copy (AzureStackHCICluster_DeepCopyInto X)"

definition AzureStackHCICluster_DeepCopyObject :: "ext_copies \<Rightarrow> copier" where
  "AzureStackHCICluster_DeepCopyObject X = copy_object (AzureStackHCICluster_DeepCopy X)"

definition AzureStackHCIClusterList_shape :: "ext_copies \<Rightarrow> tree \<Rightarrow> bool" where
  "AzureStackHCIClusterList_shape X = struct_of
     [(''TypeMeta'', TypeMeta_shape), (''ListMeta'', s_ListMeta X),
      (''Items'', slice_of (AzureStackHCICluster_shape X))]"

definition AzureStackHCIClusterList_DeepCopyInto :: "ext_copies \<Rightarrow> copier" where
  "AzureStackHCIClusterList_DeepCopyInto X = struct_copy
     [(''TypeMeta'', plain), (''ListMeta'', x_ListMeta X),
      (''Items'', make_copy (AzureStackHCICluster_DeepCopyInto X))]"

definition AzureStackHCIClusterList_DeepCopy :: "ext_copies \<Rightarrow> copier" where
  "AzureStackHCIClusterList_DeepCopy X = new_copy (AzureStackHCIClusterList_DeepCopyInto X)"

definition AzureStackHCIClusterList_DeepCopyObject :: "ext_copies \<Rightarrow> copier" where
  "AzureStackHCIClusterList_DeepCopyObject X = copy_object (AzureStackHCIClusterList_DeepCopy X)"

definition AzureStackHCIClusterTemplateResource_shape :: "tree \<Rightarrow> bool" where
  "AzureStackHCIClusterTemplateResource_shape = struct_of
     [(''Spec'', AzureStackHCIClusterSpec_shape)]"

definition AzureStackHCIClusterTemplateResource_DeepCopyInto :: "copier" where
  "AzureStackHCIClusterTemplateResource_DeepCopyInto = struct_copy
     [(''Spec'', AzureStackHCIClusterSpec_DeepCopyInto)]"

definition AzureStackHCIClusterTemplateResource_DeepCopy :: "copier" where
  "AzureStackHCIClusterTemplateResource_DeepCopy = new_copy AzureStackHCIClusterTemplateResource_DeepCopyInto"

definition AzureStackHCIClusterTemplateSpec_shape :: "tree \<Rightarrow> bool" where
  "AzureStackHCIClusterTemplateSpec_shape = struct_of
     [(''Template'', AzureStackHCIClusterTemplateResource_shape)]"

definition AzureStackHCIClusterTemplateSpec_DeepCopyInto :: "copier" where
  "AzureStackHCIClusterTemplateSpec_DeepCopyInto = struct_copy
     [(''Template'', AzureStackHCIClusterTemplateResource_DeepCopyInto)]"

definition AzureStackHCIClusterTemplateSpec_DeepCopy :: "copier" where
  "AzureStackHCIClusterTemplateSpec_DeepCopy = new_copy AzureStackHCIClusterTemplateSpec_DeepCopyInto"

definition AzureStackHCIClusterTemplate_shape :: "ext_copies \<Rightarrow> tree \<Rightarrow> bool" where
  "AzureStackHCIClusterTemplate_shape X = struct_of
     [(''TypeMeta'', TypeMeta_shape), (''ObjectMeta'', s_ObjectMeta X),
      (''Spec'', AzureStackHCIClusterTemplateSpec_shape)]"

definition AzureStackHCIClusterTemplate_DeepCopyInto :: "ext_copies \<Rightarrow> copier" where
  "AzureStackHCIClusterTemplate_DeepCopyInto X = struct_copy
     [(''TypeMeta'', plain), (''ObjectMeta'', x_ObjectMeta X),
      (''Spec'', AzureStackHCIClusterTemplateSpec_DeepCopyInto)]"

definition AzureStackHCIClusterTemplate_DeepCopy :: "ext_copies \<Rightarrow> copier" where
  "AzureStackHCIClusterTemplate_DeepCopy X = new_copy (AzureStackHCIClusterTemplate_DeepCopyInto X)"

definition AzureStackHCIClusterTemplate_DeepCopyObject :: "ext_copies \<Rightarrow> copier" where
  "AzureStackHCIClusterTemplate_DeepCopyObject X = copy_object (AzureStackHCIClusterTemplate_DeepCopy X)"

definition AzureStackHCIClusterTemplateList_shape :: "ext_copies \<Rightarrow> tree \<Rightarrow> bool" where
  "AzureStackHCIClusterTemplateList_shape X = struct_of
     [(''TypeMeta'', TypeMeta_shape), (''ListMeta'', s_ListMeta X),
      (''Items'', slice_of (AzureStackHCIClusterTemplate_shape X))]"

definition AzureStackHCIClusterTemplateList_DeepCopyInto :: "ext_copies \<Rightarrow> copier" where
  "AzureStackHCIClusterTemplateList_DeepCopyInto X = struct_copy
     [(''TypeMeta'', plain), (''ListMeta'', x_ListMeta X),
      (''Items'', make_copy (AzureStackHCIClusterTemplate_DeepCopyInto X))]"

definition AzureStackHCIClusterTemplateList_DeepCopy :: "ext_copies \<Rightarrow> copier" where
  "AzureStackHCIClusterTemplateList_DeepCopy X = new_copy (AzureStackHCIClusterTemplateList_DeepCopyInto X)"

definition AzureStackHCIClusterTemplateList_DeepCopyObject :: "ext_copies \<Rightarrow> copier" where
  "AzureStackHCIClusterTemplateList_DeepCopyObject X = copy_object (AzureStackHCIClusterTemplateList_DeepCopy X)"

definition AzureStackHCILoadBalancerStatus_shape :: "ext_copies \<Rightarrow> tree \<Rightarrow> bool" where
  "AzureStackHCILoadBalancerStatus_shape X = struct_of
     [(''Ready'', lit), (''Replicas'', lit), (''ReadyReplicas'', lit), (''FailedReplicas'', lit),
      (''Address'', lit), (''Port'', lit), (''Phase'', lit), (''Conditions'', slice_of (s_Condition X)),
      (''ErrorReason'', ptr_to lit), (''ErrorMessage'', ptr_to lit), (''Selector'', lit)]"

definition AzureStackHCILoadBalancerStatus_DeepCopyInto :: "ext_copies \<Rightarrow> copier" where
  "AzureStackHCILoadBalancerStatus_DeepCopyInto X = struct_copy
     [(''Conditions'', make_copy (x_Condition X)), (''ErrorReason'', new_copy plain),
      (''ErrorMessage'', new_copy plain)]"

definition AzureStackHCILoadBalancerStatus_DeepCopy :: "ext_copies \<Rightarrow> copier" where
  "AzureStackHCILoadBalancerStatus_DeepCopy X = new_copy (AzureStackHCILoadBalancerStatus_DeepCopyInto X)"

definition AzureStackHCILoadBalancer_shape :: "ext_copies \<Rightarrow> tree \<Rightarrow> bool" where
  "AzureStackHCILoadBalancer_shape X = struct_of
     [(''TypeMeta'', TypeMeta_shape), (''ObjectMeta'', s_ObjectMeta X),
      (''Spec'', AzureStackHCILoadBalancerSpec_shape), (''Status'', AzureStackHCILoadBalancerStatus_shape X)]"

definition AzureStackHCILoadBalancer_DeepCopyInto :: "ext_copies \<Rightarrow> copier" where
  "AzureStackHCILoadBalancer_DeepCopyInto X = struct_copy
     [(''TypeMeta'', plain), (''ObjectMeta'', x_ObjectMeta X),
      (''Spec'', AzureStackHCILoadBalancerSpec_DeepCopyInto),
      (''Status'', AzureStackHCILoadBalancerStatus_DeepCopyInto X)]"

definition AzureStackHCILoadBalancer_DeepCopy :: "ext_copies \<Rightarrow> copier" where
  "AzureStackHCILoadBalancer_DeepCopy X = new_copy (AzureStackHCILoadBalancer_DeepCopyInto X)"

definition AzureStackHCILoadBalancer_DeepCopyObject :: "ext_copies \<Rightarrow> copier" where
  "AzureStackHCILoadBalancer_DeepCopyObject X = copy_object (AzureStackHCILoadBalancer_DeepCopy X)"

definition AzureStackHCILoadBalancerList_shape :: "ext_copies \<Rightarrow> tree \<Rightarrow> bool" where
  "AzureStackHCILoadBalancerList_shape X = struct_of
     [(''TypeMeta'', TypeMeta_shape), (''ListMeta'', s_ListMeta X),
      (''Items'', slice_of (AzureStackHCILoadBalancer_shape X))]"

definition AzureStackHCILoadBalancerList_DeepCopyInto :: "ext_copies \<Rightarrow> copier" where
  "AzureStackHCILoadBalancerList_DeepCopyInto X = struct_copy
     [(''TypeMeta'', plain), (''ListMeta'', x_ListMeta X),
      (''Items'', make_copy (AzureStackHCILoadBalancer_DeepCopyInto X))]"

definition AzureStackHCILoadBalancerList_DeepCopy :: "ext_copies \<Rightarrow> copier" where
  "AzureStackHCILoadBalancerList_DeepCopy X = new_copy (AzureStackHCILoadBalancerList_DeepCopyInto X)"

definition AzureStackHCILoadBalancerList_DeepCopyObject :: "ext_copies \<Rightarrow> copier" where
  "AzureStackHCILoadBalancerList_DeepCopyObject X = copy_object (AzureStackHCILoadBalancerList_DeepCopy X)"

definition IpConfigurationSpec_shape :: "tree \<Rightarrow> bool" where
  "IpConfigurationSpec_shape = struct_of
     [(''Name'', lit), (''Primary'', lit), (''Allocation'', lit), (''IpAddress'', lit),
      (''PrefixLength'', lit), (''SubnetId'', lit), (''Gateway'', lit)]"

definition IpConfigurationSpec_DeepCopyInto :: "copier" where
  "IpConfigurationSpec_DeepCopyInto = struct_copy []"

definition IpConfigurationSpec_DeepCopy :: "copier" where
  "IpConfigurationSpec_DeepCopy = new_copy IpConfigurationSpec_DeepCopyInto"

definition IpConfigurations_shape :: "tree \<Rightarrow> bool" where
  "IpConfigurations_shape = slice_of (ptr_to IpConfigurationSpec_shape)"

definition IpConfigurations_DeepCopyInto :: "copier" where
  "IpConfigurations_DeepCopyInto = make_always (new_copy plain)"

definition IpConfigurations_DeepCopy :: "copier" where
  "IpConfigurations_DeepCopy = copy_slice IpConfigurations_DeepCopyInto"

definition NetworkInterfaceSpec_shape :: "tree \<Rightarrow> bool" where
  "NetworkInterfaceSpec_shape = struct_of
     [(''Name'', lit), (''IPConfigurations'', IpConfigurations_shape)]"

definition NetworkInterfaceSpec_DeepCopyInto :: "copier" where
  "NetworkInterfaceSpec_DeepCopyInto = struct_copy
     [(''IPConfigurations'', make_copy (new_copy plain))]"

definition NetworkInterfaceSpec_DeepCopy :: "copier" where
  "NetworkInterfaceSpec_DeepCopy = new_copy NetworkInterfaceSpec_DeepCopyInto"

definition NetworkInterfaces_shape :: "tree \<Rightarrow> bool" where
  "NetworkInterfaces_shape = slice_of (ptr_to NetworkInterfaceSpec_shape)"

definition NetworkInterfaces_DeepCopyInto :: "copier" where
  "NetworkInterfaces_DeepCopyInto = make_always (new_copy NetworkInterfaceSpec_DeepCopyInto)"

definition NetworkInterfaces_DeepCopy :: "copier" where
  "NetworkInterfaces_DeepCopy = copy_slice NetworkInterfaces_DeepCopyInto"

definition AzureStackHCIMachineSpec_shape :: "tree \<Rightarrow> bool" where
  "AzureStackHCIMachineSpec_shape = struct_of
     [(''ProviderID'', ptr_to lit), (''VMSize'', lit),
      (''AvailabilityZone'', ptr_to AvailabilityZone_shape), (''Image'', ptr_to Image_shape),
      (''OSDisk'', ptr_to OSDisk_shape), (''Location'', lit), (''SSHPublicKey'', lit),
      (''StorageContainer'', lit), (''GpuCount'', lit), (''AllocatePublicIP'', lit),
      (''AdditionalSSHKeys'', slice_of lit), (''NetworkInterfaces'', NetworkInterfaces_shape),
      (''AvailabilitySetName'', lit), (''PlacementGroupName'', lit)]"

definition AzureStackHCIMachineSpec_DeepCopyInto :: "copier" where
  "AzureStackHCIMachineSpec_DeepCopyInto = struct_copy
     [(''ProviderID'', new_copy plain), (''AvailabilityZone'', new_copy AvailabilityZone_DeepCopyInto),
      (''Image'', new_copy Image_DeepCopyInto), (''OSDisk'', new_copy OSDisk_DeepCopyInto),
      (''AdditionalSSHKeys'', make_copy plain),
      (''NetworkInterfaces'', make_copy (new_copy NetworkInterfaceSpec_DeepCopyInto))]"

definition AzureStackHCIMachineSpec_DeepCopy :: "copier" where
  "AzureStackHCIMachineSpec_DeepCopy = new_copy AzureStackHCIMachineSpec_DeepCopyInto"

definition AzureStackHCIMachineInitializationStatus_shape :: "tree \<Rightarrow> bool" where
  "AzureStackHCIMachineInitializationStatus_shape = struct_of
     [(''Provisioned'', ptr_to lit)]"

definition AzureStackHCIMachineInitializationStatus_DeepCopyInto :: "copier" where
  "AzureStackHCIMachineInitializationStatus_DeepCopyInto = struct_copy
     [(''Provisioned'', new_copy plain)]"

definition AzureStackHCIMachineInitializationStatus_DeepCopy :: "copier" where
  "AzureStackHCIMachineInitializationStatus_DeepCopy = new_copy AzureStackHCIMachineInitializationStatus_DeepCopyInto"

definition AzureStackHCIMachineStatus_shape :: "ext_copies \<Rightarrow> tree \<Rightarrow> bool" where
  "AzureStackHCIMachineStatus_shape X = struct_of
     [(''Ready'', lit), (''Addresses'', slice_of NodeAddress_shape), (''VMState'', ptr_to lit),
      (''Conditions'', slice_of (s_Condition X)),
      (''Initialization'', ptr_to AzureStackHCIMachineInitializationStatus_shape)]"

definition AzureStackHCIMachineStatus_DeepCopyInto :: "ext_copies \<Rightarrow> copier" where
  "AzureStackHCIMachineStatus_DeepCopyInto X = struct_copy
     [(''Addresses'', make_copy plain), (''VMState'', new_copy plain),
      (''Conditions'', make_copy (x_Condition X)),
      (''Initialization'', new_copy AzureStackHCIMachineInitializationStatus_DeepCopyInto)]"

definition AzureStackHCIMachineStatus_DeepCopy :: "ext_copies \<Rightarrow> copier" where
  "AzureStackHCIMachineStatus_DeepCopy X = new_copy (AzureStackHCIMachineStatus_DeepCopyInto X)"

definition AzureStackHCIMachine_shape :: "ext_copies \<Rightarrow> tree \<Rightarrow> bool" where
  "AzureStackHCIMachine_shape X = struct_of
     [(''TypeMeta'', TypeMeta_shape), (''ObjectMeta'', s_ObjectMeta X),
      (''Spec'', AzureStackHCIMachineSpec_shape), (''Status'', AzureStackHCIMachineStatus_shape X)]"

definition AzureStackHCIMachine_DeepCopyInto :: "ext_copies \<Rightarrow> copier" where
  "AzureStackHCIMachine_DeepCopyInto X = struct_copy
     [(''TypeMeta'', plain), (''ObjectMeta'', x_ObjectMeta X),
      (''Spec'', AzureStackHCIMachineSpec_DeepCopyInto),
      (''Status'', AzureStackHCIMachineStatus_DeepCopyInto X)]"

definition AzureStackHCIMachine_DeepCopy :: "ext_copies \<Rightarrow> copier" where
  "AzureStackHCIMachine_DeepCopy X = new_copy (AzureStackHCIMachine_DeepCopyInto X)"

definition AzureStackHCIMachine_DeepCopyObject :: "ext_copies \<Rightarrow> copier" where
  "AzureStackHCIMachine_DeepCopyObject X = copy_object (AzureStackHCIMachine_DeepCopy X)"

definition AzureStackHCIMachineList_shape :: "ext_copies \<Rightarrow> tree \<Rightarrow> bool" where
  "AzureStackHCIMachineList_shape X = struct_of
     [(''TypeMeta'', TypeMeta_shape), (''ListMeta'', s_ListMeta X),
      (''Items'', slice_of (AzureStackHCIMachine_shape X))]"

definition AzureStackHCIMachineList_DeepCopyInto :: "ext_copies \<Rightarrow> copier" where
  "AzureStackHCIMachineList_DeepCopyInto X = struct_copy
     [(''TypeMeta'', plain), (''ListMeta'', x_ListMeta X),
      (''Items'', make_copy (AzureStackHCIMachine_DeepCopyInto X))]"

definition AzureStackHCIMachineList_DeepCopy :: "ext_copies \<Rightarrow> copier" where
  "AzureStackHCIMachineList_DeepCopy X = new_copy (AzureStackHCIMachineList_DeepCopyInto X)"

definition AzureStackHCIMachineList_DeepCopyObject :: "ext_copies \<Rightarrow> copier" where
  "AzureStackHCIMachineList_DeepCopyObject X = copy_object (AzureStackHCIMachineList_DeepCopy X)"

definition AzureStackHCIMachineProviderCondition_shape :: "ext_copies \<Rightarrow> tree \<Rightarrow> bool" where
  "AzureStackHCIMachineProviderCondition_shape X = struct_of
     [(''Type'', lit), (''Status'', lit), (''LastProbeTime'', s_Time X), (''LastTransitionTime'', s_Time X),
      (''Reason'', lit), (''Message'', lit)]"

definition AzureStackHCIMachineProviderCondition_DeepCopyInto :: "ext_copies \<Rightarrow> copier" where
  "AzureStackHCIMachineProviderCondition_DeepCopyInto X = struct_copy
     [(''LastProbeTime'', x_Time X), (''LastTransitionTime'', x_Time X)]"

definition AzureStackHCIMachineProviderCondition_DeepCopy :: "ext_copies \<Rightarrow> copier" where
  "AzureStackHCIMachineProviderCondition_DeepCopy X = new_copy (AzureStackHCIMachineProviderCondition_DeepCopyInto X)"

definition AzureStackHCIMachineTemplateResource_shape :: "tree \<Rightarrow> bool" where
  "AzureStackHCIMachineTemplateResource_shape = struct_of
     [(''Spec'', AzureStackHCIMachineSpec_shape)]"

definition AzureStackHCIMachineTemplateResource_DeepCopyInto :: "copier" where
  "AzureStackHCIMachineTemplateResource_DeepCopyInto = struct_copy
     [(''Spec'', AzureStackHCIMachineSpec_DeepCopyInto)]"

definition AzureStackHCIMachineTemplateResource_DeepCopy :: "copier" where
  "AzureStackHCIMachineTemplateResource_DeepCopy = new_copy AzureStackHCIMachineTemplateResource_DeepCopyInto"

definition AzureStackHCIMachineTemplateSpec_shape :: "tree \<Rightarrow> bool" where
  "AzureStackHCIMachineTemplateSpec_shape = struct_of
     [(''Template'', AzureStackHCIMachineTemplateResource_shape)]"

definition AzureStackHCIMachineTemplateSpec_DeepCopyInto :: "copier" where
  "AzureStackHCIMachineTemplateSpec_DeepCopyInto = struct_copy
     [(''Template'', AzureStackHCIMachineTemplateResource_DeepCopyInto)]"

definition AzureStackHCIMachineTemplateSpec_DeepCopy :: "copier" where
  "AzureStackHCIMachineTemplateSpec_DeepCopy = new_copy AzureStackHCIMachineTemplateSpec_DeepCopyInto"

definition AzureStackHCIMachineTemplate_shape :: "ext_copies \<Rightarrow> tree \<Rightarrow> bool" where
  "AzureStackHCIMachineTemplate_shape X = struct_of
     [(''TypeMeta'', TypeMeta_shape), (''ObjectMeta'', s_ObjectMeta X),
      (''Spec'', AzureStackHCIMachineTemplateSpec_shape)]"

definition AzureStackHCIMachineTemplate_DeepCopyInto :: "ext_copies \<Rightarrow> copier" where
  "AzureStackHCIMachineTemplate_DeepCopyInto X = struct_copy
     [(''TypeMeta'', plain), (''ObjectMeta'', x_ObjectMeta X),
      (''Spec'', AzureStackHCIMachineTemplateSpec_DeepCopyInto)]"

definition AzureStackHCIMachineTemplate_DeepCopy :: "ext_copies \<Rightarrow> copier" where
  "AzureStackHCIMachineTemplate_DeepCopy X = new_copy (AzureStackHCIMachineTemplate_DeepCopyInto X)"

definition AzureStackHCIMachineTemplate_DeepCopyObject :: "ext_copies \<Rightarrow> copier" where
  "AzureStackHCIMachineTemplate_DeepCopyObject X = copy_object (AzureStackHCIMachineTemplate_DeepCopy X)"

definition AzureStackHCIMachineTemplateList_shape :: "ext_copies \<Rightarrow> tree \<Rightarrow> bool" where
  "AzureStackHCIMachineTemplateList_shape X = struct_of
     [(''TypeMeta'', TypeMeta_shape), (''ListMeta'', s_ListMeta X),
      (''Items'', slice_of (AzureStackHCIMachineTemplate_shape X))]"

definition AzureStackHCIMachineTemplateList_DeepCopyInto :: "ext_copies \<Rightarrow> copier" where
  "AzureStackHCIMachineTemplateList_DeepCopyInto X = struct_copy
     [(''TypeMeta'', plain), (''ListMeta'', x_ListMeta X),
      (''Items'', make_copy (AzureStackHCIMachineTemplate_DeepCopyInto X))]"

definition AzureStackHCIMachineTemplateList_DeepCopy :: "ext_copies \<Rightarrow> copier" where
  "AzureStackHCIMachineTemplateList_DeepCopy X = new_copy (AzureStackHCIMachineTemplateList_DeepCopyInto X)"

definition AzureStackHCIMachineTemplateList_DeepCopyObject :: "ext_copies \<Rightarrow> copier" where
  "AzureStackHCIMachineTemplateList_DeepCopyObject X = copy_object (AzureStackHCIMachineTemplateList_DeepCopy X)"

definition AzureStackHCIResourceReference_shape :: "tree \<Rightarrow> bool" where
  "AzureStackHCIResourceReference_shape = struct_of
     [(''ID'', ptr_to lit)]"

definition AzureStackHCIResourceReference_DeepCopyInto :: "copier" where
  "AzureStackHCIResourceReference_DeepCopyInto = struct_copy
     [(''ID'', new_copy plain)]"

definition AzureStackHCIResourceReference_DeepCopy :: "copier" where
  "AzureStackHCIResourceReference_DeepCopy = new_copy AzureStackHCIResourceReference_DeepCopyInto"

definition AzureStackHCIVirtualMachineSpec_shape :: "tree \<Rightarrow> bool" where
  "AzureStackHCIVirtualMachineSpec_shape = struct_of
     [(''VMSize'', lit), (''AvailabilityZone'', ptr_to AvailabilityZone_shape),
      (''Image'', ptr_to Image_shape), (''OSDisk'', ptr_to OSDisk_shape), (''BootstrapData'', ptr_to lit),
      (''Identity'', lit), (''Location'', lit), (''SSHPublicKey'', lit), (''StorageContainer'', lit),
      (''GpuCount'', lit), (''ResourceGroup'', lit), (''VnetName'', lit), (''ClusterName'', lit),
      (''SubnetName'', lit), (''BackendPoolNames'', slice_of lit), (''AdditionalSSHKeys'', slice_of lit),
      (''NetworkInterfaces'', NetworkInterfaces_shape), (''AvailabilitySetName'', lit),
      (''PlacementGroupName'', lit)]"

definition AzureStackHCIVirtualMachineSpec_DeepCopyInto :: "copier" where
  "AzureStackHCIVirtualMachineSpec_DeepCopyInto = struct_copy
     [(''AvailabilityZone'', new_copy AvailabilityZone_DeepCopyInto),
      (''Image'', new_copy Image_DeepCopyInto), (''OSDisk'', new_copy OSDisk_DeepCopyInto),
      (''BootstrapData'', new_copy plain), (''BackendPoolNames'', make_copy plain),
      (''AdditionalSSHKeys'', make_copy plain),
      (''NetworkInterfaces'', make_copy (new_copy NetworkInterfaceSpec_DeepCopyInto))]"

definition AzureStackHCIVirtualMachineSpec_DeepCopy :: "copier" where
  "AzureStackHCIVirtualMachineSpec_DeepCopy = new_copy AzureStackHCIVirtualMachineSpec_DeepCopyInto"

definition AzureStackHCIVirtualMachineStatus_shape :: "ext_copies \<Rightarrow> tree \<Rightarrow> bool" where
  "AzureStackHCIVirtualMachineStatus_shape X = struct_of
     [(''Ready'', lit), (''Addresses'', slice_of NodeAddress_shape), (''VMState'', ptr_to lit),
      (''FailureReason'', ptr_to lit), (''FailureMessage'', ptr_to lit),
      (''Conditions'', slice_of (s_Condition X))]"

definition AzureStackHCIVirtualMachineStatus_DeepCopyInto :: "ext_copies \<Rightarrow> copier" where
  "AzureStackHCIVirtualMachineStatus_DeepCopyInto X = struct_copy
     [(''Addresses'', make_copy plain), (''VMState'', new_copy plain), (''FailureReason'', new_copy plain),
      (''FailureMessage'', new_copy plain), (''Conditions'', make_copy (x_Condition X))]"

definition AzureStackHCIVirtualMachineStatus_DeepCopy :: "ext_copies \<Rightarrow> copier" where
  "AzureStackHCIVirtualMachineStatus_DeepCopy X = new_copy (AzureStackHCIVirtualMachineStatus_DeepCopyInto X)"

definition AzureStackHCIVirtualMachine_shape :: "ext_copies \<Rightarrow> tree \<Rightarrow> bool" where
  "AzureStackHCIVirtualMachine_shape X = struct_of
     [(''TypeMeta'', TypeMeta_shape), (''ObjectMeta'', s_ObjectMeta X),
      (''Spec'', AzureStackHCIVirtualMachineSpec_shape),
      (''Status'', AzureStackHCIVirtualMachineStatus_shape X)]"

definition AzureStackHCIVirtualMachine_DeepCopyInto :: "ext_copies \<Rightarrow> copier" where
  "AzureStackHCIVirtualMachine_DeepCopyInto X = struct_copy
     [(''TypeMeta'', plain), (''ObjectMeta'', x_ObjectMeta X),
      (''Spec'', AzureStackHCIVirtualMachineSpec_DeepCopyInto),
      (''Status'', AzureStackHCIVirtualMachineStatus_DeepCopyInto X)]"

definition AzureStackHCIVirtualMachine_DeepCopy :: "ext_copies \<Rightarrow> copier" where
  "AzureStackHCIVirtualMachine_DeepCopy X = new_copy (AzureStackHCIVirtualMachine_DeepCopyInto X)"

definition AzureStackHCIVirtualMachine_DeepCopyObject :: "ext_copies \<Rightarrow> copier" where
  "AzureStackHCIVirtualMachine_DeepCopyObject X = copy_object (AzureStackHCIVirtualMachine_DeepCopy X)"

definition AzureStackHCIVirtualMachineList_shape :: "ext_copies \<Rightarrow> tree \<Rightarrow> bool" where
  "AzureStackHCIVirtualMachineList_shape X = struct_of
     [(''TypeMeta'', TypeMeta_shape), (''ListMeta'', s_ListMeta X),
      (''Items'', slice_of (AzureStackHCIVirtualMachine_shape X))]"

definition AzureStackHCIVirtualMachineList_DeepCopyInto :: "ext_copies \<Rightarrow> copier" where
  "AzureStackHCIVirtualMachineList_DeepCopyInto X = struct_copy
     [(''TypeMeta'', plain), (''ListMeta'', x_ListMeta X),
      (''Items'', make_copy (AzureStackHCIVirtualMachine_DeepCopyInto X))]"

definition AzureStackHCIVirtualMachineList_DeepCopy :: "ext_copies \<Rightarrow> copier" where
  "AzureStackHCIVirtualMachineList_DeepCopy X = new_copy (AzureStackHCIVirtualMachineList_DeepCopyInto X)"

definition AzureStackHCIVirtualMachineList_DeepCopyObject :: "ext_copies \<Rightarrow> copier" where
  "AzureStackHCIVirtualMachineList_DeepCopyObject X = copy_object (AzureStackHCIVirtualMachineList_DeepCopy X)"

definition VirtualMachinesByCreationTimestamp_shape :: "ext_copies \<Rightarrow> tree \<Rightarrow> bool" where
  "VirtualMachinesByCreationTimestamp_shape X = slice_of (ptr_to (AzureStackHCIVirtualMachine_shape X))"

definition VirtualMachinesByCreationTimestamp_DeepCopyInto :: "ext_copies \<Rightarrow> copier" where
  "VirtualMachinesByCreationTimestamp_DeepCopyInto X = make_always (new_copy (AzureStackHCIVirtualMachine_DeepCopyInto X))"

definition VirtualMachinesByCreationTimestamp_DeepCopy :: "ext_copies \<Rightarrow> copier" where
  "VirtualMachinesByCreationTimestamp_DeepCopy X = copy_slice (VirtualMachinesByCreationTimestamp_DeepCopyInto X)"

subsection \<open>The copies are deep\<close>

lemmas slice_shapes = Subnets_shape_def IpConfigurations_shape_def NetworkInterfaces_shape_def VirtualMachinesByCreationTimestamp_shape_def

lemma AvailabilityZone_deep [deep_rules]: "deep AvailabilityZone_DeepCopyInto AvailabilityZone_shape"
  unfolding AvailabilityZone_DeepCopyInto_def AvailabilityZone_shape_def by (auto intro!: deep_rules simp: slice_shapes)

lemma VnetSpec_flat [deep_rules]: "pointer_free VnetSpec_shape"
  unfolding VnetSpec_shape_def by (auto intro!: deep_rules)

lemma VnetSpec_deep [deep_rules]: "deep VnetSpec_DeepCopyInto VnetSpec_shape"
  unfolding VnetSpec_DeepCopyInto_def VnetSpec_shape_def by (auto intro!: deep_rules simp: slice_shapes)

lemma SubnetSpec_flat [deep_rules]: "pointer_free SubnetSpec_shape"
  unfolding SubnetSpec_shape_def by (auto intro!: deep_rules)

lemma SubnetSpec_deep [deep_rules]: "deep SubnetSpec_DeepCopyInto SubnetSpec_shape"
  unfolding SubnetSpec_DeepCopyInto_def SubnetSpec_shape_def by (auto intro!: deep_rules simp: slice_shapes)

lemma Subnets_deep [deep_rules]: "deep Subnets_DeepCopyInto (\<lambda>t. Subnets_shape t \<and> t \<noteq> TNil)"
  unfolding Subnets_DeepCopyInto_def Subnets_shape_def by (auto intro!: deep_rules)

lemma NetworkSpec_deep [deep_rules]: "deep NetworkSpec_DeepCopyInto NetworkSpec_shape"
  unfolding NetworkSpec_DeepCopyInto_def NetworkSpec_shape_def by (auto intro!: deep_rules simp: slice_shapes)

lemma Image_deep [deep_rules]: "deep Image_DeepCopyInto Image_shape"
  unfolding Image_DeepCopyInto_def Image_shape_def by (auto intro!: deep_rules simp: slice_shapes)

lemma AzureStackHCILoadBalancerSpec_deep [deep_rules]: "deep AzureStackHCILoadBalancerSpec_DeepCopyInto AzureStackHCILoadBalancerSpec_shape"
  unfolding AzureStackHCILoadBalancerSpec_DeepCopyInto_def AzureStackHCILoadBalancerSpec_shape_def by (auto intro!: deep_rules simp: slice_shapes)

lemma AzureStackHCIClusterSpec_deep [deep_rules]: "deep AzureStackHCIClusterSpec_DeepCopyInto AzureStackHCIClusterSpec_shape"
  unfolding AzureStackHCIClusterSpec_DeepCopyInto_def AzureStackHCIClusterSpec_shape_def by (auto intro!: deep_rules simp: slice_shapes)

lemma ManagedDisk_flat [deep_rules]: "pointer_free ManagedDisk_shape"
  unfolding ManagedDisk_shape_def by (auto intro!: deep_rules)

lemma ManagedDisk_deep [deep_rules]: "deep ManagedDisk_DeepCopyInto ManagedDisk_shape"
  unfolding ManagedDisk_DeepCopyInto_def ManagedDisk_shape_def by (auto intro!: deep_rules simp: slice_shapes)

lemma OSDisk_deep [deep_rules]: "deep OSDisk_DeepCopyInto OSDisk_shape"
  unfolding OSDisk_DeepCopyInto_def OSDisk_shape_def by (auto intro!: deep_rules simp: slice_shapes)

lemma VM_deep [deep_rules]: "deep VM_DeepCopyInto VM_shape"
  unfolding VM_DeepCopyInto_def VM_shape_def by (auto intro!: deep_rules simp: slice_shapes)

lemma AzureStackHCIClusterInitializationStatus_deep [deep_rules]: "deep AzureStackHCIClusterInitializationStatus_DeepCopyInto AzureStackHCIClusterInitializationStatus_shape"
  unfolding AzureStackHCIClusterInitializationStatus_DeepCopyInto_def AzureStackHCIClusterInitializationStatus_shape_def by (auto intro!: deep_rules simp: slice_shapes)

lemma AzureStackHCIClusterStatus_deep [deep_rules]: "ext_deep X \<Longrightarrow> deep (AzureStackHCIClusterStatus_DeepCopyInto X) (AzureStackHCIClusterStatus_shape X)"
  unfolding AzureStackHCIClusterStatus_DeepCopyInto_def AzureStackHCIClusterStatus_shape_def by (auto intro!: deep_rules simp: slice_shapes)

lemma AzureStackHCICluster_deep [deep_rules]: "ext_deep X \<Longrightarrow> deep (AzureStackHCICluster_DeepCopyInto X) (AzureStackHCICluster_shape X)"
  unfolding AzureStackHCICluster_DeepCopyInto_def AzureStackHCICluster_shape_def by (auto intro!: deep_rules simp: slice_shapes)

lemma AzureStackHCIClusterList_deep [deep_rules]: "ext_deep X \<Longrightarrow> deep (AzureStackHCIClusterList_DeepCopyInto X) (AzureStackHCIClusterList_shape X)"
  unfolding AzureStackHCIClusterList_DeepCopyInto_def AzureStackHCIClusterList_shape_def by (auto intro!: deep_rules simp: slice_shapes)

lemma AzureStackHCIClusterTemplateResource_deep [deep_rules]: "deep AzureStackHCIClusterTemplateResource_DeepCopyInto AzureStackHCIClusterTemplateResource_shape"
  unfolding AzureStackHCIClusterTemplateResource_DeepCopyInto_def AzureStackHCIClusterTemplateResource_shape_def by (auto intro!: deep_rules simp: slice_shapes)

lemma AzureStackHCIClusterTemplateSpec_deep [deep_rules]: "deep AzureStackHCIClusterTemplateSpec_DeepCopyInto AzureStackHCIClusterTemplateSpec_shape"
  unfolding AzureStackHCIClusterTemplateSpec_DeepCopyInto_def AzureStackHCIClusterTemplateSpec_shape_def by (auto intro!: deep_rules simp: slice_shapes)

lemma AzureStackHCIClusterTemplate_deep [deep_rules]: "ext_deep X \<Longrightarrow> deep (AzureStackHCIClusterTemplate_DeepCopyInto X) (AzureStackHCIClusterTemplate_shape X)"
  unfolding AzureStackHCIClusterTemplate_DeepCopyInto_def AzureStackHCIClusterTemplate_shape_def by (auto intro!: deep_rules simp: slice_shapes)

lemma AzureStackHCIClusterTemplateList_deep [deep_rules]: "ext_deep X \<Longrightarrow> deep (AzureStackHCIClusterTemplateList_DeepCopyInto X) (AzureStackHCIClusterTemplateList_shape X)"
  unfolding AzureStackHCIClusterTemplateList_DeepCopyInto_def AzureStackHCIClusterTemplateList_shape_def by (auto intro!: deep_rules simp: slice_shapes)

lemma AzureStackHCILoadBalancerStatus_deep [deep_rules]: "ext_deep X \<Longrightarrow> deep (AzureStackHCILoadBalancerStatus_DeepCopyInto X) (AzureStackHCILoadBalancerStatus_shape X)"
  unfolding AzureStackHCILoadBalancerStatus_DeepCopyInto_def AzureStackHCILoadBalancerStatus_shape_def by (auto intro!: deep_rules simp: slice_shapes)

lemma AzureStackHCILoadBalancer_deep [deep_rules]: "ext_deep X \<Longrightarrow> deep (AzureStackHCILoadBalancer_DeepCopyInto X) (AzureStackHCILoadBalancer_shape X)"
  unfolding AzureStackHCILoadBalancer_DeepCopyInto_def AzureStackHCILoadBalancer_shape_def by (auto intro!: deep_rules simp: slice_shapes)

lemma AzureStackHCILoadBalancerList_deep [deep_rules]: "ext_deep X \<Longrightarrow> deep (AzureStackHCILoadBalancerList_DeepCopyInto X) (AzureStackHCILoadBalancerList_shape X)"
  unfolding AzureStackHCILoadBalancerList_DeepCopyInto_def AzureStackHCILoadBalancerList_shape_def by (auto intro!: deep_rules simp: slice_shapes)

lemma IpConfigurationSpec_flat [deep_rules]: "pointer_free IpConfigurationSpec_shape"
  unfolding IpConfigurationSpec_shape_def by (auto intro!: deep_rules)

lemma IpConfigurationSpec_deep [deep_rules]: "deep IpConfigurationSpec_DeepCopyInto IpConfigurationSpec_shape"
  unfolding IpConfigurationSpec_DeepCopyInto_def IpConfigurationSpec_shape_def by (auto intro!: deep_rules simp: slice_shapes)

lemma IpConfigurations_deep [deep_rules]: "deep IpConfigurations_DeepCopyInto (\<lambda>t. IpConfigurations_shape t \<and> t \<noteq> TNil)"
  unfolding IpConfigurations_DeepCopyInto_def IpConfigurations_shape_def by (auto intro!: deep_rules)

lemma NetworkInterfaceSpec_deep [deep_rules]: "deep NetworkInterfaceSpec_DeepCopyInto NetworkInterfaceSpec_shape"
  unfolding NetworkInterfaceSpec_DeepCopyInto_def NetworkInterfaceSpec_shape_def by (auto intro!: deep_rules simp: slice_shapes)

lemma NetworkInterfaces_deep [deep_rules]: "deep NetworkInterfaces_DeepCopyInto (\<lambda>t. NetworkInterfaces_shape t \<and> t \<noteq> TNil)"
  unfolding NetworkInterfaces_DeepCopyInto_def NetworkInterfaces_shape_def by (auto intro!: deep_rules)

lemma AzureStackHCIMachineSpec_deep [deep_rules]: "deep AzureStackHCIMachineSpec_DeepCopyInto AzureStackHCIMachineSpec_shape"
  unfolding AzureStackHCIMachineSpec_DeepCopyInto_def AzureStackHCIMachineSpec_shape_def by (auto intro!: deep_rules simp: slice_shapes)

lemma AzureStackHCIMachineInitializationStatus_deep [deep_rules]: "deep AzureStackHCIMachineInitializationStatus_DeepCopyInto AzureStackHCIMachineInitializationStatus_shape"
  unfolding AzureStackHCIMachineInitializationStatus_DeepCopyInto_def AzureStackHCIMachineInitializationStatus_shape_def by (auto intro!: deep_rules simp: slice_shapes)

lemma AzureStackHCIMachineStatus_deep [deep_rules]: "ext_deep X \<Longrightarrow> deep (AzureStackHCIMachineStatus_DeepCopyInto X) (AzureStackHCIMachineStatus_shape X)"
  unfolding AzureStackHCIMachineStatus_DeepCopyInto_def AzureStackHCIMachineStatus_shape_def by (auto intro!: deep_rules simp: slice_shapes)

lemma AzureStackHCIMachine_deep [deep_rules]: "ext_deep X \<Longrightarrow> deep (AzureStackHCIMachine_DeepCopyInto X) (AzureStackHCIMachine_shape X)"
  unfolding AzureStackHCIMachine_DeepCopyInto_def AzureStackHCIMachine_shape_def by (auto intro!: deep_rules simp: slice_shapes)

lemma AzureStackHCIMachineList_deep [deep_rules]: "ext_deep X \<Longrightarrow> deep (AzureStackHCIMachineList_DeepCopyInto X) (AzureStackHCIMachineList_shape X)"
  unfolding AzureStackHCIMachineList_DeepCopyInto_def AzureStackHCIMachineList_shape_def by (auto intro!: deep_rules simp: slice_shapes)

lemma AzureStackHCIMachineProviderCondition_deep [deep_rules]: "ext_deep X \<Longrightarrow> deep (AzureStackHCIMachineProviderCondition_DeepCopyInto X) (AzureStackHCIMachineProviderCondition_shape X)"
  unfolding AzureStackHCIMachineProviderCondition_DeepCopyInto_def AzureStackHCIMachineProviderCondition_shape_def by (auto intro!: deep_rules simp: slice_shapes)

lemma AzureStackHCIMachineTemplateResource_deep [deep_rules]: "deep AzureStackHCIMachineTemplateResource_DeepCopyInto AzureStackHCIMachineTemplateResource_shape"
  unfolding AzureStackHCIMachineTemplateResource_DeepCopyInto_def AzureStackHCIMachineTemplateResource_shape_def by (auto intro!: deep_rules simp: slice_shapes)

lemma AzureStackHCIMachineTemplateSpec_deep [deep_rules]: "deep AzureStackHCIMachineTemplateSpec_DeepCopyInto AzureStackHCIMachineTemplateSpec_shape"
  unfolding AzureStackHCIMachineTemplateSpec_DeepCopyInto_def AzureStackHCIMachineTemplateSpec_shape_def by (auto intro!: deep_rules simp: slice_shapes)

lemma AzureStackHCIMachineTemplate_deep [deep_rules]: "ext_deep X \<Longrightarrow> deep (AzureStackHCIMachineTemplate_DeepCopyInto X) (AzureStackHCIMachineTemplate_shape X)"
  unfolding AzureStackHCIMachineTemplate_DeepCopyInto_def AzureStackHCIMachineTemplate_shape_def by (auto intro!: deep_rules simp: slice_shapes)

lemma AzureStackHCIMachineTemplateList_deep [deep_rules]: "ext_deep X \<Longrightarrow> deep (AzureStackHCIMachineTemplateList_DeepCopyInto X) (AzureStackHCIMachineTemplateList_shape X)"
  unfolding AzureStackHCIMachineTemplateList_DeepCopyInto_def AzureStackHCIMachineTemplateList_shape_def by (auto intro!: deep_rules simp: slice_shapes)

lemma AzureStackHCIResourceReference_deep [deep_rules]: "deep AzureStackHCIResourceReference_DeepCopyInto AzureStackHCIResourceReference_shape"
  unfolding AzureStackHCIResourceReference_DeepCopyInto_def AzureStackHCIResourceReference_shape_def by (auto intro!: deep_rules simp: slice_shapes)

lemma AzureStackHCIVirtualMachineSpec_deep [deep_rules]: "deep AzureStackHCIVirtualMachineSpec_DeepCopyInto AzureStackHCIVirtualMachineSpec_shape"
  unfolding AzureStackHCIVirtualMachineSpec_DeepCopyInto_def AzureStackHCIVirtualMachineSpec_shape_def by (auto intro!: deep_rules simp: slice_shapes)

lemma AzureStackHCIVirtualMachineStatus_deep [deep_rules]: "ext_deep X \<Longrightarrow> deep (AzureStackHCIVirtualMachineStatus_DeepCopyInto X) (AzureStackHCIVirtualMachineStatus_shape X)"
  unfolding AzureStackHCIVirtualMachineStatus_DeepCopyInto_def AzureStackHCIVirtualMachineStatus_shape_def by (auto intro!: deep_rules simp: slice_shapes)

lemma AzureStackHCIVirtualMachine_deep [deep_rules]: "ext_deep X \<Longrightarrow> deep (AzureStackHCIVirtualMachine_DeepCopyInto X) (AzureStackHCIVirtualMachine_shape X)"
  unfolding AzureStackHCIVirtualMachine_DeepCopyInto_def AzureStackHCIVirtualMachine_shape_def by (auto intro!: deep_rules simp: slice_shapes)

lemma AzureStackHCIVirtualMachineList_deep [deep_rules]: "ext_deep X \<Longrightarrow> deep (AzureStackHCIVirtualMachineList_DeepCopyInto X) (AzureStackHCIVirtualMachineList_shape X)"
  unfolding AzureStackHCIVirtualMachineList_DeepCopyInto_def AzureStackHCIVirtualMachineList_shape_def by (auto intro!: deep_rules simp: slice_shapes)

lemma VirtualMachinesByCreationTimestamp_deep [deep_rules]: "ext_deep X \<Longrightarrow> deep (VirtualMachinesByCreationTimestamp_DeepCopyInto X) (\<lambda>t. VirtualMachinesByCreationTimestamp_shape X t \<and> t \<noteq> TNil)"
  unfolding VirtualMachinesByCreationTimestamp_DeepCopyInto_def VirtualMachinesByCreationTimestamp_shape_def by (auto intro!: deep_rules)

end
