(* ===== verification/DeepCopyV1beta1.thy ===== *)
theory DeepCopyV1beta1
  imports DeepCopy
begin

text \<open>
  \<open>api/v1beta1/zz_generated.deepcopy.go\<close>: the same for the older version of the API, and what the
  deep copies of both versions are for.
\<close>

definition AvailabilityZone_shape_v1beta1 :: "tree \<Rightarrow> bool" where
  "AvailabilityZone_shape_v1beta1 = struct_of
     [(''ID'', ptr_to lit), (''Enabled'', ptr_to lit)]"

definition AvailabilityZone_DeepCopyInto_v1beta1 :: "copier" where
  "AvailabilityZone_DeepCopyInto_v1beta1 = struct_copy
     [(''ID'', new_copy plain), (''Enabled'', new_copy plain)]"

definition AvailabilityZone_DeepCopy_v1beta1 :: "copier" where
  "AvailabilityZone_DeepCopy_v1beta1 = new_copy AvailabilityZone_DeepCopyInto_v1beta1"

definition VnetSpec_shape_v1beta1 :: "tree \<Rightarrow> bool" where
  "VnetSpec_shape_v1beta1 = struct_of
     [(''ID'', lit), (''Name'', lit), (''CidrBlock'', lit), (''Group'', lit)]"

definition VnetSpec_DeepCopyInto_v1beta1 :: "copier" where
  "VnetSpec_DeepCopyInto_v1beta1 = struct_copy []"

definition VnetSpec_DeepCopy_v1beta1 :: "copier" where
  "VnetSpec_DeepCopy_v1beta1 = new_copy VnetSpec_DeepCopyInto_v1beta1"

definition SubnetSpec_shape_v1beta1 :: "tree \<Rightarrow> bool" where
  "SubnetSpec_shape_v1beta1 = struct_of
     [(''ID'', lit), (''Name'', lit), (''VnetID'', lit), (''CidrBlock'', lit)]"

definition SubnetSpec_DeepCopyInto_v1beta1 :: "copier" where
  "SubnetSpec_DeepCopyInto_v1beta1 = struct_copy []"

definition SubnetSpec_DeepCopy_v1beta1 :: "copier" where
  "SubnetSpec_DeepCopy_v1beta1 = new_copy SubnetSpec_DeepCopyInto_v1beta1"

definition Subnets_shape_v1beta1 :: "tree \<Rightarrow> bool" where
  "Subnets_shape_v1beta1 = slice_of (ptr_to SubnetSpec_shape_v1beta1)"

definition Subnets_DeepCopyInto_v1beta1 :: "copier" where
  "Subnets_DeepCopyInto_v1beta1 = make_always (new_copy plain)"

definition Subnets_DeepCopy_v1beta1 :: "copier" where
  "Subnets_DeepCopy_v1beta1 = copy_slice Subnets_DeepCopyInto_v1beta1"

definition NetworkSpec_shape_v1beta1 :: "tree \<Rightarrow> bool" where
  "NetworkSpec_shape_v1beta1 = struct_of
     [(''Vnet'', VnetSpec_shape_v1beta1), (''Subnets'', Subnets_shape_v1beta1)]"

definition NetworkSpec_DeepCopyInto_v1beta1 :: "copier" where
  "NetworkSpec_DeepCopyInto_v1beta1 = struct_copy
     [(''Vnet'', plain), (''Subnets'', make_copy (new_copy plain))]"

definition NetworkSpec_DeepCopy_v1beta1 :: "copier" where
  "NetworkSpec_DeepCopy_v1beta1 = new_copy NetworkSpec_DeepCopyInto_v1beta1"

definition Image_shape_v1beta1 :: "tree \<Rightarrow> bool" where
  "Image_shape_v1beta1 = struct_of
     [(''Publisher'', ptr_to lit), (''Offer'', ptr_to lit), (''SKU'', ptr_to lit), (''ID'', ptr_to lit),
      (''SubscriptionID'', ptr_to lit), (''ResourceGroup'', ptr_to lit), (''Gallery'', ptr_to lit),
      (''Name'', ptr_to lit), (''Version'', ptr_to lit), (''OSType'', lit)]"

definition Image_DeepCopyInto_v1beta1 :: "copier" where
  "Image_DeepCopyInto_v1beta1 = struct_copy
     [(''Publisher'', new_copy plain), (''Offer'', new_copy plain), (''SKU'', new_copy plain),
      (''ID'', new_copy plain), (''SubscriptionID'', new_copy plain), (''ResourceGroup'', new_copy plain),
      (''Gallery'', new_copy plain), (''Name'', new_copy plain), (''Version'', new_copy plain)]"

definition Image_DeepCopy_v1beta1 :: "copier" where
  "Image_DeepCopy_v1beta1 = new_copy Image_DeepCopyInto_v1beta1"

definition AzureStackHCILoadBalancerSpec_shape_v1beta1 :: "tree \<Rightarrow> bool" where
  "AzureStackHCILoadBalancerSpec_shape_v1beta1 = struct_of
     [(''SSHPublicKey'', lit), (''Image'', Image_shape_v1beta1), (''VMSize'', lit),
      (''StorageContainer'', lit), (''Replicas'', ptr_to lit)]"

definition AzureStackHCILoadBalancerSpec_DeepCopyInto_v1beta1 :: "copier" where
  "AzureStackHCILoadBalancerSpec_DeepCopyInto_v1beta1 = struct_copy
     [(''Image'', Image_DeepCopyInto_v1beta1), (''Replicas'', new_copy plain)]"

definition AzureStackHCILoadBalancerSpec_DeepCopy_v1beta1 :: "copier" where
  "AzureStackHCILoadBalancerSpec_DeepCopy_v1beta1 = new_copy AzureStackHCILoadBalancerSpec_DeepCopyInto_v1beta1"

definition AzureStackHCIClusterSpec_shape_v1beta1 :: "tree \<Rightarrow> bool" where
  "AzureStackHCIClusterSpec_shape_v1beta1 = struct_of
     [(''NetworkSpec'', NetworkSpec_shape_v1beta1), (''ResourceGroup'', lit), (''Location'', lit),
      (''AzureStackHCILoadBalancer'', ptr_to AzureStackHCILoadBalancerSpec_shape_v1beta1),
      (''ControlPlaneEndpoint'', APIEndpoint_shape), (''Version'', ptr_to lit), (''Management'', lit)]"

definition AzureStackHCIClusterSpec_DeepCopyInto_v1beta1 :: "copier" where
  "AzureStackHCIClusterSpec_DeepCopyInto_v1beta1 = struct_copy
     [(''NetworkSpec'', NetworkSpec_DeepCopyInto_v1beta1),
      (''AzureStackHCILoadBalancer'', new_copy AzureStackHCILoadBalancerSpec_DeepCopyInto_v1beta1),
      (''ControlPlaneEndpoint'', plain), (''Version'', new_copy plain)]"

definition AzureStackHCIClusterSpec_DeepCopy_v1beta1 :: "copier" where
  "AzureStackHCIClusterSpec_DeepCopy_v1beta1 = new_copy AzureStackHCIClusterSpec_DeepCopyInto_v1beta1"

definition ManagedDisk_shape_v1beta1 :: "tree \<Rightarrow> bool" where
  "ManagedDisk_shape_v1beta1 = struct_of
     [(''StorageAccountType'', lit)]"

definition ManagedDisk_DeepCopyInto_v1beta1 :: "copier" where
  "ManagedDisk_DeepCopyInto_v1beta1 = struct_copy []"

definition ManagedDisk_DeepCopy_v1beta1 :: "copier" where
  "ManagedDisk_DeepCopy_v1beta1 = new_copy ManagedDisk_DeepCopyInto_v1beta1"

definition OSDisk_shape_v1beta1 :: "tree \<Rightarrow> bool" where
  "OSDisk_shape_v1beta1 = struct_of
     [(''Name'', lit), (''Source'', lit), (''OSType'', lit), (''DiskSizeGB'', lit),
      (''ManagedDisk'', ManagedDisk_shape_v1beta1)]"

definition OSDisk_DeepCopyInto_v1beta1 :: "copier" where
  "OSDisk_DeepCopyInto_v1beta1 = struct_copy
     [(''ManagedDisk'', plain)]"

definition OSDisk_DeepCopy_v1beta1 :: "copier" where
  "OSDisk_DeepCopy_v1beta1 = new_copy OSDisk_DeepCopyInto_v1beta1"

definition VM_shape_v1beta1 :: "tree \<Rightarrow> bool" where
  "VM_shape_v1beta1 = struct_of
     [(''ID'', lit), (''Name'', lit), (''AvailabilityZone'', lit), (''VMSize'', lit),
      (''Image'', Image_shape_v1beta1), (''OSDisk'', OSDisk_shape_v1beta1), (''BootstrapData'', lit),
      (''State'', lit), (''Identity'', lit)]"

definition VM_DeepCopyInto_v1beta1 :: "copier" where
  "VM_DeepCopyInto_v1beta1 = struct_copy
     [(''Image'', Image_DeepCopyInto_v1beta1), (''OSDisk'', plain)]"

definition VM_DeepCopy_v1beta1 :: "copier" where
  "VM_DeepCopy_v1beta1 = new_copy VM_DeepCopyInto_v1beta1"

definition AzureStackHCIClusterStatus_shape_v1beta1 :: "ext_copies \<Rightarrow> tree \<Rightarrow> bool" where
  "AzureStackHCIClusterStatus_shape_v1beta1 X = struct_of
     [(''Bastion'', VM_shape_v1beta1), (''Ready'', lit), (''Phase'', lit),
      (''Conditions'', slice_of (s_ClusterCondition X))]"

definition AzureStackHCIClusterStatus_DeepCopyInto_v1beta1 :: "ext_copies \<Rightarrow> copier" where
  "AzureStackHCIClusterStatus_DeepCopyInto_v1beta1 X = struct_copy
     [(''Bastion'', VM_DeepCopyInto_v1beta1), (''Conditions'', make_copy (x_ClusterCondition X))]"

definition AzureStackHCIClusterStatus_DeepCopy_v1beta1 :: "ext_copies \<Rightarrow> copier" where
  "AzureStackHCIClusterStatus_DeepCopy_v1beta1 X = new_copy (AzureStackHCIClusterStatus_DeepCopyInto_v1beta1 X)"

definition AzureStackHCICluster_shape_v1beta1 :: "ext_copies \<Rightarrow> tree \<Rightarrow> bool" where
  "AzureStackHCICluster_shape_v1beta1 X = struct_of
     [(''TypeMeta'', TypeMeta_shape), (''ObjectMeta'', s_ObjectMeta X),
      (''Spec'', AzureStackHCIClusterSpec_shape_v1beta1),
      (''Status'', AzureStackHCIClusterStatus_shape_v1beta1 X)]"

definition AzureStackHCICluster_DeepCopyInto_v1beta1 :: "ext_copies \<Rightarrow> copier" where
  "AzureStackHCICluster_DeepCopyInto_v1beta1 X = struct_copy
     [(''TypeMeta'', plain), (''ObjectMeta'', x_ObjectMeta X),
      (''Spec'', AzureStackHCIClusterSpec_DeepCopyInto_v1beta1),
      (''Status'', AzureStackHCIClusterStatus_DeepCopyInto_v1beta1 X)]"

definition AzureStackHCICluster_DeepCopy_v1beta1 :: "ext_copies \<Rightarrow> copier" where
  "AzureStackHCICluster_DeepCopy_v1beta1 X = new_copy (AzureStackHCICluster_DeepCopyInto_v1beta1 X)"

definition AzureStackHCICluster_DeepCopyObject_v1beta1 :: "ext_copies \<Rightarrow> copier" where
  "AzureStackHCICluster_DeepCopyObject_v1beta1 X = copy_object (AzureStackHCICluster_DeepCopy_v1beta1 X)"

definition AzureStackHCIClusterList_shape_v1beta1 :: "ext_copies \<Rightarrow> tree \<Rightarrow> bool" where
  "AzureStackHCIClusterList_shape_v1beta1 X = struct_of
     [(''TypeMeta'', TypeMeta_shape), (''ListMeta'', s_ListMeta X),
      (''Items'', slice_of (AzureStackHCICluster_shape_v1beta1 X))]"

definition AzureStackHCIClusterList_DeepCopyInto_v1beta1 :: "ext_copies \<Rightarrow> copier" where
  "AzureStackHCIClusterList_DeepCopyInto_v1beta1 X = struct_copy
     [(''TypeMeta'', plain), (''ListMeta'', x_ListMeta X),
      (''Items'', make_copy (AzureStackHCICluster_DeepCopyInto_v1beta1 X))]"

definition AzureStackHCIClusterList_DeepCopy_v1beta1 :: "ext_copies \<Rightarrow> copier" where
  "AzureStackHCIClusterList_DeepCopy_v1beta1 X = new_copy (AzureStackHCIClusterList_DeepCopyInto_v1beta1 X)"

definition AzureStackHCIClusterList_DeepCopyObject_v1beta1 :: "ext_copies \<Rightarrow> copier" where
  "AzureStackHCIClusterList_DeepCopyObject_v1beta1 X = copy_object (AzureStackHCIClusterList_DeepCopy_v1beta1 X)"

definition AzureStackHCIClusterTemplateResource_shape_v1beta1 :: "tree \<Rightarrow> bool" where
  "AzureStackHCIClusterTemplateResource_shape_v1beta1 = struct_of
     [(''Spec'', AzureStackHCIClusterSpec_shape_v1beta1)]"

definition AzureStackHCIClusterTemplateResource_DeepCopyInto_v1beta1 :: "copier" where
  "AzureStackHCIClusterTemplateResource_DeepCopyInto_v1beta1 = struct_copy
     [(''Spec'', AzureStackHCIClusterSpec_DeepCopyInto_v1beta1)]"

definition AzureStackHCIClusterTemplateResource_DeepCopy_v1beta1 :: "copier" where
  "AzureStackHCIClusterTemplateResource_DeepCopy_v1beta1 = new_copy AzureStackHCIClusterTemplateResource_DeepCopyInto_v1beta1"

definition AzureStackHCIClusterTemplateSpec_shape_v1beta1 :: "tree \<Rightarrow> bool" where
  "AzureStackHCIClusterTemplateSpec_shape_v1beta1 = struct_of
     [(''Template'', AzureStackHCIClusterTemplateResource_shape_v1beta1)]"

definition AzureStackHCIClusterTemplateSpec_DeepCopyInto_v1beta1 :: "copier" where
  "AzureStackHCIClusterTemplateSpec_DeepCopyInto_v1beta1 = struct_copy
     [(''Template'', AzureStackHCIClusterTemplateResource_DeepCopyInto_v1beta1)]"

definition AzureStackHCIClusterTemplateSpec_DeepCopy_v1beta1 :: "copier" where
  "AzureStackHCIClusterTemplateSpec_DeepCopy_v1beta1 = new_copy AzureStackHCIClusterTemplateSpec_DeepCopyInto_v1beta1"

definition AzureStackHCIClusterTemplate_shape_v1beta1 :: "ext_copies \<Rightarrow> tree \<Rightarrow> bool" where
  "AzureStackHCIClusterTemplate_shape_v1beta1 X = struct_of
     [(''TypeMeta'', TypeMeta_shape), (''ObjectMeta'', s_ObjectMeta X),
      (''Spec'', AzureStackHCIClusterTemplateSpec_shape_v1beta1)]"

definition AzureStackHCIClusterTemplate_DeepCopyInto_v1beta1 :: "ext_copies \<Rightarrow> copier" where
  "AzureStackHCIClusterTemplate_DeepCopyInto_v1beta1 X = struct_copy
     [(''TypeMeta'', plain), (''ObjectMeta'', x_ObjectMeta X),
      (''Spec'', AzureStackHCIClusterTemplateSpec_DeepCopyInto_v1beta1)]"

definition AzureStackHCIClusterTemplate_DeepCopy_v1beta1 :: "ext_copies \<Rightarrow> copier" where
  "AzureStackHCIClusterTemplate_DeepCopy_v1beta1 X = new_copy (AzureStackHCIClusterTemplate_DeepCopyInto_v1beta1 X)"

definition AzureStackHCIClusterTemplate_DeepCopyObject_v1beta1 :: "ext_copies \<Rightarrow> copier" where
  "AzureStackHCIClusterTemplate_DeepCopyObject_v1beta1 X = copy_object (AzureStackHCIClusterTemplate_DeepCopy_v1beta1 X)"

definition AzureStackHCIClusterTemplateList_shape_v1beta1 :: "ext_copies \<Rightarrow> tree \<Rightarrow> bool" where
  "AzureStackHCIClusterTemplateList_shape_v1beta1 X = struct_of
     [(''TypeMeta'', TypeMeta_shape), (''ListMeta'', s_ListMeta X),
      (''Items'', slice_of (AzureStackHCIClusterTemplate_shape_v1beta1 X))]"

definition AzureStackHCIClusterTemplateList_DeepCopyInto_v1beta1 :: "ext_copies \<Rightarrow> copier" where
  "AzureStackHCIClusterTemplateList_DeepCopyInto_v1beta1 X = struct_copy
     [(''TypeMeta'', plain), (''ListMeta'', x_ListMeta X),
      (''Items'', make_copy (AzureStackHCIClusterTemplate_DeepCopyInto_v1beta1 X))]"

definition AzureStackHCIClusterTemplateList_DeepCopy_v1beta1 :: "ext_copies \<Rightarrow> copier" where
  "AzureStackHCIClusterTemplateList_DeepCopy_v1beta1 X = new_copy (AzureStackHCIClusterTemplateList_DeepCopyInto_v1beta1 X)"

definition AzureStackHCIClusterTemplateList_DeepCopyObject_v1beta1 :: "ext_copies \<Rightarrow> copier" where
  "AzureStackHCIClusterTemplateList_DeepCopyObject_v1beta1 X = copy_object (AzureStackHCIClusterTemplateList_DeepCopy_v1beta1 X)"

definition AzureStackHCILoadBalancerStatus_shape_v1beta1 :: "ext_copies \<Rightarrow> tree \<Rightarrow> bool" where
  "AzureStackHCILoadBalancerStatus_shape_v1beta1 X = struct_of
     [(''Ready'', lit), (''Replicas'', lit), (''ReadyReplicas'', lit), (''FailedReplicas'', lit),
      (''Address'', lit), (''Port'', lit), (''Phase'', lit),
      (''Conditions'', slice_of (s_ClusterCondition X)), (''ErrorReason'', ptr_to lit),
      (''ErrorMessage'', ptr_to lit), (''Selector'', lit)]"

definition AzureStackHCILoadBalancerStatus_DeepCopyInto_v1beta1 :: "ext_copies \<Rightarrow> copier" where
  "AzureStackHCILoadBalancerStatus_DeepCopyInto_v1beta1 X = struct_copy
     [(''Conditions'', make_copy (x_ClusterCondition X)), (''ErrorReason'', new_copy plain),
      (''ErrorMessage'', new_copy plain)]"

definition AzureStackHCILoadBalancerStatus_DeepCopy_v1beta1 :: "ext_copies \<Rightarrow> copier" where
  "AzureStackHCILoadBalancerStatus_DeepCopy_v1beta1 X = new_copy (AzureStackHCILoadBalancerStatus_DeepCopyInto_v1beta1 X)"

definition AzureStackHCILoadBalancer_shape_v1beta1 :: "ext_copies \<Rightarrow> tree \<Rightarrow> bool" where
  "AzureStackHCILoadBalancer_shape_v1beta1 X = struct_of
     [(''TypeMeta'', TypeMeta_shape), (''ObjectMeta'', s_ObjectMeta X),
      (''Spec'', AzureStackHCILoadBalancerSpec_shape_v1beta1),
      (''Status'', AzureStackHCILoadBalancerStatus_shape_v1beta1 X)]"

definition AzureStackHCILoadBalancer_DeepCopyInto_v1beta1 :: "ext_copies \<Rightarrow> copier" where
  "AzureStackHCILoadBalancer_DeepCopyInto_v1beta1 X = struct_copy
     [(''TypeMeta'', plain), (''ObjectMeta'', x_ObjectMeta X),
      (''Spec'', AzureStackHCILoadBalancerSpec_DeepCopyInto_v1beta1),
      (''Status'', AzureStackHCILoadBalancerStatus_DeepCopyInto_v1beta1 X)]"

definition AzureStackHCILoadBalancer_DeepCopy_v1beta1 :: "ext_copies \<Rightarrow> copier" where
  "AzureStackHCILoadBalancer_DeepCopy_v1beta1 X = new_copy (AzureStackHCILoadBalancer_DeepCopyInto_v1beta1 X)"

definition AzureStackHCILoadBalancer_DeepCopyObject_v1beta1 :: "ext_copies \<Rightarrow> copier" where
  "AzureStackHCILoadBalancer_DeepCopyObject_v1beta1 X = copy_object (AzureStackHCILoadBalancer_DeepCopy_v1beta1 X)"

definition AzureStackHCILoadBalancerList_shape_v1beta1 :: "ext_copies \<Rightarrow> tree \<Rightarrow> bool" where
  "AzureStackHCILoadBalancerList_shape_v1beta1 X = struct_of
     [(''TypeMeta'', TypeMeta_shape), (''ListMeta'', s_ListMeta X),
      (''Items'', slice_of (AzureStackHCILoadBalancer_shape_v1beta1 X))]"

definition AzureStackHCILoadBalancerList_DeepCopyInto_v1beta1 :: "ext_copies \<Rightarrow> copier" where
  "AzureStackHCILoadBalancerList_DeepCopyInto_v1beta1 X = struct_copy
     [(''TypeMeta'', plain), (''ListMeta'', x_ListMeta X),
      (''Items'', make_copy (AzureStackHCILoadBalancer_DeepCopyInto_v1beta1 X))]"

definition AzureStackHCILoadBalancerList_DeepCopy_v1beta1 :: "ext_copies \<Rightarrow> copier" where
  "AzureStackHCILoadBalancerList_DeepCopy_v1beta1 X = new_copy (AzureStackHCILoadBalancerList_DeepCopyInto_v1beta1 X)"

definition AzureStackHCILoadBalancerList_DeepCopyObject_v1beta1 :: "ext_copies \<Rightarrow> copier" where
  "AzureStackHCILoadBalancerList_DeepCopyObject_v1beta1 X = copy_object (AzureStackHCILoadBalancerList_DeepCopy_v1beta1 X)"

definition IpConfigurationSpec_shape_v1beta1 :: "tree \<Rightarrow> bool" where
  "IpConfigurationSpec_shape_v1beta1 = struct_of
     [(''Name'', lit), (''Primary'', lit), (''Allocation'', lit), (''IpAddress'', lit),
      (''PrefixLength'', lit), (''SubnetId'', lit), (''Gateway'', lit)]"

definition IpConfigurationSpec_DeepCopyInto_v1beta1 :: "copier" where
  "IpConfigurationSpec_DeepCopyInto_v1beta1 = struct_copy []"

definition IpConfigurationSpec_DeepCopy_v1beta1 :: "copier" where
  "IpConfigurationSpec_DeepCopy_v1beta1 = new_copy IpConfigurationSpec_DeepCopyInto_v1beta1"

definition IpConfigurations_shape_v1beta1 :: "tree \<Rightarrow> bool" where
  "IpConfigurations_shape_v1beta1 = slice_of (ptr_to IpConfigurationSpec_shape_v1beta1)"

definition IpConfigurations_DeepCopyInto_v1beta1 :: "copier" where
  "IpConfigurations_DeepCopyInto_v1beta1 = make_always (new_copy plain)"

definition IpConfigurations_DeepCopy_v1beta1 :: "copier" where
  "IpConfigurations_DeepCopy_v1beta1 = copy_slice IpConfigurations_DeepCopyInto_v1beta1"

definition NetworkInterfaceSpec_shape_v1beta1 :: "tree \<Rightarrow> bool" where
  "NetworkInterfaceSpec_shape_v1beta1 = struct_of
     [(''Name'', lit), (''IPConfigurations'', IpConfigurations_shape_v1beta1)]"

definition NetworkInterfaceSpec_DeepCopyInto_v1beta1 :: "copier" where
  "NetworkInterfaceSpec_DeepCopyInto_v1beta1 = struct_copy
     [(''IPConfigurations'', make_copy (new_copy plain))]"

definition NetworkInterfaceSpec_DeepCopy_v1beta1 :: "copier" where
  "NetworkInterfaceSpec_DeepCopy_v1beta1 = new_copy NetworkInterfaceSpec_DeepCopyInto_v1beta1"

definition NetworkInterfaces_shape_v1beta1 :: "tree \<Rightarrow> bool" where
  "NetworkInterfaces_shape_v1beta1 = slice_of (ptr_to NetworkInterfaceSpec_shape_v1beta1)"

definition NetworkInterfaces_DeepCopyInto_v1beta1 :: "copier" where
  "NetworkInterfaces_DeepCopyInto_v1beta1 = make_always (new_copy NetworkInterfaceSpec_DeepCopyInto_v1beta1)"

definition NetworkInterfaces_DeepCopy_v1beta1 :: "copier" where
  "NetworkInterfaces_DeepCopy_v1beta1 = copy_slice NetworkInterfaces_DeepCopyInto_v1beta1"

definition AzureStackHCIMachineSpec_shape_v1beta1 :: "tree \<Rightarrow> bool" where
  "AzureStackHCIMachineSpec_shape_v1beta1 = struct_of
     [(''ProviderID'', ptr_to lit), (''VMSize'', lit),
      (''AvailabilityZone'', AvailabilityZone_shape_v1beta1), (''Image'', Image_shape_v1beta1),
      (''OSDisk'', OSDisk_shape_v1beta1), (''Location'', lit), (''SSHPublicKey'', lit),
      (''StorageContainer'', lit), (''GpuCount'', lit), (''AllocatePublicIP'', lit),
      (''AdditionalSSHKeys'', slice_of lit), (''NetworkInterfaces'', NetworkInterfaces_shape_v1beta1),
      (''AvailabilitySetName'', lit), (''PlacementGroupName'', lit)]"

definition AzureStackHCIMachineSpec_DeepCopyInto_v1beta1 :: "copier" where
  "AzureStackHCIMachineSpec_DeepCopyInto_v1beta1 = struct_copy
     [(''ProviderID'', new_copy plain), (''AvailabilityZone'', AvailabilityZone_DeepCopyInto_v1beta1),
      (''Image'', Image_DeepCopyInto_v1beta1), (''OSDisk'', plain),
      (''AdditionalSSHKeys'', make_copy plain),
      (''NetworkInterfaces'', make_copy (new_copy NetworkInterfaceSpec_DeepCopyInto_v1beta1))]"

definition AzureStackHCIMachineSpec_DeepCopy_v1beta1 :: "copier" where
  "AzureStackHCIMachineSpec_DeepCopy_v1beta1 = new_copy AzureStackHCIMachineSpec_DeepCopyInto_v1beta1"

definition AzureStackHCIMachineStatus_shape_v1beta1 :: "ext_copies \<Rightarrow> tree \<Rightarrow> bool" where
  "AzureStackHCIMachineStatus_shape_v1beta1 X = struct_of
     [(''Ready'', lit), (''Addresses'', slice_of NodeAddress_shape), (''VMState'', ptr_to lit),
      (''Conditions'', slice_of (s_ClusterCondition X)), (''FailureReason'', ptr_to lit),
      (''FailureMessage'', ptr_to lit)]"

definition AzureStackHCIMachineStatus_DeepCopyInto_v1beta1 :: "ext_copies \<Rightarrow> copier" where
  "AzureStackHCIMachineStatus_DeepCopyInto_v1beta1 X = struct_copy
     [(''Addresses'', make_copy plain), (''VMState'', new_copy plain),
      (''Conditions'', make_copy (x_ClusterCondition X)), (''FailureReason'', new_copy plain),
      (''FailureMessage'', new_copy plain)]"

definition AzureStackHCIMachineStatus_DeepCopy_v1beta1 :: "ext_copies \<Rightarrow> copier" where
  "AzureStackHCIMachineStatus_DeepCopy_v1beta1 X = new_copy (AzureStackHCIMachineStatus_DeepCopyInto_v1beta1 X)"

definition AzureStackHCIMachine_shape_v1beta1 :: "ext_copies \<Rightarrow> tree \<Rightarrow> bool" where
  "AzureStackHCIMachine_shape_v1beta1 X = struct_of
     [(''TypeMeta'', TypeMeta_shape), (''ObjectMeta'', s_ObjectMeta X),
      (''Spec'', AzureStackHCIMachineSpec_shape_v1beta1),
      (''Status'', AzureStackHCIMachineStatus_shape_v1beta1 X)]"

definition AzureStackHCIMachine_DeepCopyInto_v1beta1 :: "ext_copies \<Rightarrow> copier" where
  "AzureStackHCIMachine_DeepCopyInto_v1beta1 X = struct_copy
     [(''TypeMeta'', plain), (''ObjectMeta'', x_ObjectMeta X),
      (''Spec'', AzureStackHCIMachineSpec_DeepCopyInto_v1beta1),
      (''Status'', AzureStackHCIMachineStatus_DeepCopyInto_v1beta1 X)]"

definition AzureStackHCIMachine_DeepCopy_v1beta1 :: "ext_copies \<Rightarrow> copier" where
  "AzureStackHCIMachine_DeepCopy_v1beta1 X = new_copy (AzureStackHCIMachine_DeepCopyInto_v1beta1 X)"

definition AzureStackHCIMachine_DeepCopyObject_v1beta1 :: "ext_copies \<Rightarrow> copier" where
  "AzureStackHCIMachine_DeepCopyObject_v1beta1 X = copy_object (AzureStackHCIMachine_DeepCopy_v1beta1 X)"

definition AzureStackHCIMachineList_shape_v1beta1 :: "ext_copies \<Rightarrow> tree \<Rightarrow> bool" where
  "AzureStackHCIMachineList_shape_v1beta1 X = struct_of
     [(''TypeMeta'', TypeMeta_shape), (''ListMeta'', s_ListMeta X),
      (''Items'', slice_of (AzureStackHCIMachine_shape_v1beta1 X))]"

definition AzureStackHCIMachineList_DeepCopyInto_v1beta1 :: "ext_copies \<Rightarrow> copier" where
  "AzureStackHCIMachineList_DeepCopyInto_v1beta1 X = struct_copy
     [(''TypeMeta'', plain), (''ListMeta'', x_ListMeta X),
      (''Items'', make_copy (AzureStackHCIMachine_DeepCopyInto_v1beta1 X))]"

definition AzureStackHCIMachineList_DeepCopy_v1beta1 :: "ext_copies \<Rightarrow> copier" where
  "AzureStackHCIMachineList_DeepCopy_v1beta1 X = new_copy (AzureStackHCIMachineList_DeepCopyInto_v1beta1 X)"

definition AzureStackHCIMachineList_DeepCopyObject_v1beta1 :: "ext_copies \<Rightarrow> copier" where
  "AzureStackHCIMachineList_DeepCopyObject_v1beta1 X = copy_object (AzureStackHCIMachineList_DeepCopy_v1beta1 X)"

definition AzureStackHCIMachineProviderCondition_shape_v1beta1 :: "ext_copies \<Rightarrow> tree \<Rightarrow> bool" where
  "AzureStackHCIMachineProviderCondition_shape_v1beta1 X = struct_of
     [(''Type'', lit), (''Status'', lit), (''LastProbeTime'', s_Time X), (''LastTransitionTime'', s_Time X),
      (''Reason'', lit), (''Message'', lit)]"

definition AzureStackHCIMachineProviderCondition_DeepCopyInto_v1beta1 :: "ext_copies \<Rightarrow> copier" where
  "AzureStackHCIMachineProviderCondition_DeepCopyInto_v1beta1 X = struct_copy
     [(''LastProbeTime'', x_Time X), (''LastTransitionTime'', x_Time X)]"

definition AzureStackHCIMachineProviderCondition_DeepCopy_v1beta1 :: "ext_copies \<Rightarrow> copier" where
  "AzureStackHCIMachineProviderCondition_DeepCopy_v1beta1 X = new_copy (AzureStackHCIMachineProviderCondition_DeepCopyInto_v1beta1 X)"

definition AzureStackHCIMachineTemplateResource_shape_v1beta1 :: "tree \<Rightarrow> bool" where
  "AzureStackHCIMachineTemplateResource_shape_v1beta1 = struct_of
     [(''Spec'', AzureStackHCIMachineSpec_shape_v1beta1)]"

definition AzureStackHCIMachineTemplateResource_DeepCopyInto_v1beta1 :: "copier" where
  "AzureStackHCIMachineTemplateResource_DeepCopyInto_v1beta1 = struct_copy
     [(''Spec'', AzureStackHCIMachineSpec_DeepCopyInto_v1beta1)]"

definition AzureStackHCIMachineTemplateResource_DeepCopy_v1beta1 :: "copier" where
  "AzureStackHCIMachineTemplateResource_DeepCopy_v1beta1 = new_copy AzureStackHCIMachineTemplateResource_DeepCopyInto_v1beta1"

definition AzureStackHCIMachineTemplateSpec_shape_v1beta1 :: "tree \<Rightarrow> bool" where
  "AzureStackHCIMachineTemplateSpec_shape_v1beta1 = struct_of
     [(''Template'', AzureStackHCIMachineTemplateResource_shape_v1beta1)]"

definition AzureStackHCIMachineTemplateSpec_DeepCopyInto_v1beta1 :: "copier" where
  "AzureStackHCIMachineTemplateSpec_DeepCopyInto_v1beta1 = struct_copy
     [(''Template'', AzureStackHCIMachineTemplateResource_DeepCopyInto_v1beta1)]"

definition AzureStackHCIMachineTemplateSpec_DeepCopy_v1beta1 :: "copier" where
  "AzureStackHCIMachineTemplateSpec_DeepCopy_v1beta1 = new_copy AzureStackHCIMachineTemplateSpec_DeepCopyInto_v1beta1"

definition AzureStackHCIMachineTemplate_shape_v1beta1 :: "ext_copies \<Rightarrow> tree \<Rightarrow> bool" where
  "AzureStackHCIMachineTemplate_shape_v1beta1 X = struct_of
     [(''TypeMeta'', TypeMeta_shape), (''ObjectMeta'', s_ObjectMeta X),
      (''Spec'', AzureStackHCIMachineTemplateSpec_shape_v1beta1)]"

definition AzureStackHCIMachineTemplate_DeepCopyInto_v1beta1 :: "ext_copies \<Rightarrow> copier" where
  "AzureStackHCIMachineTemplate_DeepCopyInto_v1beta1 X = struct_copy
     [(''TypeMeta'', plain), (''ObjectMeta'', x_ObjectMeta X),
      (''Spec'', AzureStackHCIMachineTemplateSpec_DeepCopyInto_v1beta1)]"

definition AzureStackHCIMachineTemplate_DeepCopy_v1beta1 :: "ext_copies \<Rightarrow> copier" where
  "AzureStackHCIMachineTemplate_DeepCopy_v1beta1 X = new_copy (AzureStackHCIMachineTemplate_DeepCopyInto_v1beta1 X)"

definition AzureStackHCIMachineTemplate_DeepCopyObject_v1beta1 :: "ext_copies \<Rightarrow> copier" where
  "AzureStackHCIMachineTemplate_DeepCopyObject_v1beta1 X = copy_object (AzureStackHCIMachineTemplate_DeepCopy_v1beta1 X)"

definition AzureStackHCIMachineTemplateList_shape_v1beta1 :: "ext_copies \<Rightarrow> tree \<Rightarrow> bool" where
  "AzureStackHCIMachineTemplateList_shape_v1beta1 X = struct_of
     [(''TypeMeta'', TypeMeta_shape), (''ListMeta'', s_ListMeta X),
      (''Items'', slice_of (AzureStackHCIMachineTemplate_shape_v1beta1 X))]"

definition AzureStackHCIMachineTemplateList_DeepCopyInto_v1beta1 :: "ext_copies \<Rightarrow> copier" where
  "AzureStackHCIMachineTemplateList_DeepCopyInto_v1beta1 X = struct_copy
     [(''TypeMeta'', plain), (''ListMeta'', x_ListMeta X),
      (''Items'', make_copy (AzureStackHCIMachineTemplate_DeepCopyInto_v1beta1 X))]"

definition AzureStackHCIMachineTemplateList_DeepCopy_v1beta1 :: "ext_copies \<Rightarrow> copier" where
  "AzureStackHCIMachineTemplateList_DeepCopy_v1beta1 X = new_copy (AzureStackHCIMachineTemplateList_DeepCopyInto_v1beta1 X)"

definition AzureStackHCIMachineTemplateList_DeepCopyObject_v1beta1 :: "ext_copies \<Rightarrow> copier" where
  "AzureStackHCIMachineTemplateList_DeepCopyObject_v1beta1 X = copy_object (AzureStackHCIMachineTemplateList_DeepCopy_v1beta1 X)"

definition AzureStackHCIResourceReference_shape_v1beta1 :: "tree \<Rightarrow> bool" where
  "AzureStackHCIResourceReference_shape_v1beta1 = struct_of
     [(''ID'', ptr_to lit)]"

definition AzureStackHCIResourceReference_DeepCopyInto_v1beta1 :: "copier" where
  "AzureStackHCIResourceReference_DeepCopyInto_v1beta1 = struct_copy
     [(''ID'', new_copy plain)]"

definition AzureStackHCIResourceReference_DeepCopy_v1beta1 :: "copier" where
  "AzureStackHCIResourceReference_DeepCopy_v1beta1 = new_copy AzureStackHCIResourceReference_DeepCopyInto_v1beta1"

definition AzureStackHCIVirtualMachineSpec_shape_v1beta1 :: "tree \<Rightarrow> bool" where
  "AzureStackHCIVirtualMachineSpec_shape_v1beta1 = struct_of
     [(''VMSize'', lit), (''AvailabilityZone'', AvailabilityZone_shape_v1beta1),
      (''Image'', Image_shape_v1beta1), (''OSDisk'', OSDisk_shape_v1beta1), (''BootstrapData'', ptr_to lit),
      (''Identity'', lit), (''Location'', lit), (''SSHPublicKey'', lit), (''StorageContainer'', lit),
      (''GpuCount'', lit), (''ResourceGroup'', lit), (''VnetName'', lit), (''ClusterName'', lit),
      (''SubnetName'', lit), (''BackendPoolNames'', slice_of lit), (''AdditionalSSHKeys'', slice_of lit),
      (''NetworkInterfaces'', NetworkInterfaces_shape_v1beta1), (''AvailabilitySetName'', lit),
      (''PlacementGroupName'', lit)]"

definition AzureStackHCIVirtualMachineSpec_DeepCopyInto_v1beta1 :: "copier" where
  "AzureStackHCIVirtualMachineSpec_DeepCopyInto_v1beta1 = struct_copy
     [(''AvailabilityZone'', AvailabilityZone_DeepCopyInto_v1beta1),
      (''Image'', Image_DeepCopyInto_v1beta1), (''OSDisk'', plain), (''BootstrapData'', new_copy plain),
      (''BackendPoolNames'', make_copy plain), (''AdditionalSSHKeys'', make_copy plain),
      (''NetworkInterfaces'', make_copy (new_copy NetworkInterfaceSpec_DeepCopyInto_v1beta1))]"

definition AzureStackHCIVirtualMachineSpec_DeepCopy_v1beta1 :: "copier" where
  "AzureStackHCIVirtualMachineSpec_DeepCopy_v1beta1 = new_copy AzureStackHCIVirtualMachineSpec_DeepCopyInto_v1beta1"

definition AzureStackHCIVirtualMachineStatus_shape_v1beta1 :: "ext_copies \<Rightarrow> tree \<Rightarrow> bool" where
  "AzureStackHCIVirtualMachineStatus_shape_v1beta1 X = struct_of
     [(''Ready'', lit), (''Addresses'', slice_of NodeAddress_shape), (''VMState'', ptr_to lit),
      (''FailureReason'', ptr_to lit), (''FailureMessage'', ptr_to lit),
      (''Conditions'', slice_of (s_ClusterCondition X))]"

definition AzureStackHCIVirtualMachineStatus_DeepCopyInto_v1beta1 :: "ext_copies \<Rightarrow> copier" where
  "AzureStackHCIVirtualMachineStatus_DeepCopyInto_v1beta1 X = struct_copy
     [(''Addresses'', make_copy plain), (''VMState'', new_copy plain), (''FailureReason'', new_copy plain),
      (''FailureMessage'', new_copy plain), (''Conditions'', make_copy (x_ClusterCondition X))]"

definition AzureStackHCIVirtualMachineStatus_DeepCopy_v1beta1 :: "ext_copies \<Rightarrow> copier" where
  "AzureStackHCIVirtualMachineStatus_DeepCopy_v1beta1 X = new_copy (AzureStackHCIVirtualMachineStatus_DeepCopyInto_v1beta1 X)"

definition AzureStackHCIVirtualMachine_shape_v1beta1 :: "ext_copies \<Rightarrow> tree \<Rightarrow> bool" where
  "AzureStackHCIVirtualMachine_shape_v1beta1 X = struct_of
     [(''TypeMeta'', TypeMeta_shape), (''ObjectMeta'', s_ObjectMeta X),
      (''Spec'', AzureStackHCIVirtualMachineSpec_shape_v1beta1),
      (''Status'', AzureStackHCIVirtualMachineStatus_shape_v1beta1 X)]"

definition AzureStackHCIVirtualMachine_DeepCopyInto_v1beta1 :: "ext_copies \<Rightarrow> copier" where
  "AzureStackHCIVirtualMachine_DeepCopyInto_v1beta1 X = struct_copy
     [(''TypeMeta'', plain), (''ObjectMeta'', x_ObjectMeta X),
      (''Spec'', AzureStackHCIVirtualMachineSpec_DeepCopyInto_v1beta1),
      (''Status'', AzureStackHCIVirtualMachineStatus_DeepCopyInto_v1beta1 X)]"

definition AzureStackHCIVirtualMachine_DeepCopy_v1beta1 :: "ext_copies \<Rightarrow> copier" where
  "AzureStackHCIVirtualMachine_DeepCopy_v1beta1 X = new_copy (AzureStackHCIVirtualMachine_DeepCopyInto_v1beta1 X)"

definition AzureStackHCIVirtualMachine_DeepCopyObject_v1beta1 :: "ext_copies \<Rightarrow> copier" where
  "AzureStackHCIVirtualMachine_DeepCopyObject_v1beta1 X = copy_object (AzureStackHCIVirtualMachine_DeepCopy_v1beta1 X)"

definition AzureStackHCIVirtualMachineList_shape_v1beta1 :: "ext_copies \<Rightarrow> tree \<Rightarrow> bool" where
  "AzureStackHCIVirtualMachineList_shape_v1beta1 X = struct_of
     [(''TypeMeta'', TypeMeta_shape), (''ListMeta'', s_ListMeta X),
      (''Items'', slice_of (AzureStackHCIVirtualMachine_shape_v1beta1 X))]"

definition AzureStackHCIVirtualMachineList_DeepCopyInto_v1beta1 :: "ext_copies \<Rightarrow> copier" where
  "AzureStackHCIVirtualMachineList_DeepCopyInto_v1beta1 X = struct_copy
     [(''TypeMeta'', plain), (''ListMeta'', x_ListMeta X),
      (''Items'', make_copy (AzureStackHCIVirtualMachine_DeepCopyInto_v1beta1 X))]"

definition AzureStackHCIVirtualMachineList_DeepCopy_v1beta1 :: "ext_copies \<Rightarrow> copier" where
  "AzureStackHCIVirtualMachineList_DeepCopy_v1beta1 X = new_copy (AzureStackHCIVirtualMachineList_DeepCopyInto_v1beta1 X)"

definition AzureStackHCIVirtualMachineList_DeepCopyObject_v1beta1 :: "ext_copies \<Rightarrow> copier" where
  "AzureStackHCIVirtualMachineList_DeepCopyObject_v1beta1 X = copy_object (AzureStackHCIVirtualMachineList_DeepCopy_v1beta1 X)"

definition VirtualMachinesByCreationTimestamp_shape_v1beta1 :: "ext_copies \<Rightarrow> tree \<Rightarrow> bool" where
  "VirtualMachinesByCreationTimestamp_shape_v1beta1 X = slice_of (ptr_to (AzureStackHCIVirtualMachine_shape_v1beta1 X))"

definition VirtualMachinesByCreationTimestamp_DeepCopyInto_v1beta1 :: "ext_copies \<Rightarrow> copier" where
  "VirtualMachinesByCreationTimestamp_DeepCopyInto_v1beta1 X = make_always (new_copy (AzureStackHCIVirtualMachine_DeepCopyInto_v1beta1 X))"

definition VirtualMachinesByCreationTimestamp_DeepCopy_v1beta1 :: "ext_copies \<Rightarrow> copier" where
  "VirtualMachinesByCreationTimestamp_DeepCopy_v1beta1 X = copy_slice (VirtualMachinesByCreationTimestamp_DeepCopyInto_v1beta1 X)"

subsection \<open>The copies are deep\<close>

lemmas slice_shapes_v1beta1 = Subnets_shape_v1beta1_def IpConfigurations_shape_v1beta1_def NetworkInterfaces_shape_v1beta1_def VirtualMachinesByCreationTimestamp_shape_v1beta1_def

lemma AvailabilityZone_deep_v1beta1 [deep_rules]: "deep AvailabilityZone_DeepCopyInto_v1beta1 AvailabilityZone_shape_v1beta1"
  unfolding AvailabilityZone_DeepCopyInto_v1beta1_def AvailabilityZone_shape_v1beta1_def by (auto intro!: deep_rules simp: slice_shapes_v1beta1)

lemma VnetSpec_flat_v1beta1 [deep_rules]: "pointer_free VnetSpec_shape_v1beta1"
  unfolding VnetSpec_shape_v1beta1_def by (auto intro!: deep_rules)

lemma VnetSpec_deep_v1beta1 [deep_rules]: "deep VnetSpec_DeepCopyInto_v1beta1 VnetSpec_shape_v1beta1"
  unfolding VnetSpec_DeepCopyInto_v1beta1_def VnetSpec_shape_v1beta1_def by (auto intro!: deep_rules simp: slice_shapes_v1beta1)

lemma SubnetSpec_flat_v1beta1 [deep_rules]: "pointer_free SubnetSpec_shape_v1beta1"
  unfolding SubnetSpec_shape_v1beta1_def by (auto intro!: deep_rules)

lemma SubnetSpec_deep_v1beta1 [deep_rules]: "deep SubnetSpec_DeepCopyInto_v1beta1 SubnetSpec_shape_v1beta1"
  unfolding SubnetSpec_DeepCopyInto_v1beta1_def SubnetSpec_shape_v1beta1_def by (auto intro!: deep_rules simp: slice_shapes_v1beta1)

lemma Subnets_deep_v1beta1 [deep_rules]: "deep Subnets_DeepCopyInto_v1beta1 (\<lambda>t. Subnets_shape_v1beta1 t \<and> t \<noteq> TNil)"
  unfolding Subnets_DeepCopyInto_v1beta1_def Subnets_shape_v1beta1_def by (auto intro!: deep_rules)

lemma NetworkSpec_deep_v1beta1 [deep_rules]: "deep NetworkSpec_DeepCopyInto_v1beta1 NetworkSpec_shape_v1beta1"
  unfolding NetworkSpec_DeepCopyInto_v1beta1_def NetworkSpec_shape_v1beta1_def by (auto intro!: deep_rules simp: slice_shapes_v1beta1)

lemma Image_deep_v1beta1 [deep_rules]: "deep Image_DeepCopyInto_v1beta1 Image_shape_v1beta1"
  unfolding Image_DeepCopyInto_v1beta1_def Image_shape_v1beta1_def by (auto intro!: deep_rules simp: slice_shapes_v1beta1)

lemma AzureStackHCILoadBalancerSpec_deep_v1beta1 [deep_rules]: "deep AzureStackHCILoadBalancerSpec_DeepCopyInto_v1beta1 AzureStackHCILoadBalancerSpec_shape_v1beta1"
  unfolding AzureStackHCILoadBalancerSpec_DeepCopyInto_v1beta1_def AzureStackHCILoadBalancerSpec_shape_v1beta1_def by (auto intro!: deep_rules simp: slice_shapes_v1beta1)

lemma AzureStackHCIClusterSpec_deep_v1beta1 [deep_rules]: "deep AzureStackHCIClusterSpec_DeepCopyInto_v1beta1 AzureStackHCIClusterSpec_shape_v1beta1"
  unfolding AzureStackHCIClusterSpec_DeepCopyInto_v1beta1_def AzureStackHCIClusterSpec_shape_v1beta1_def by (auto intro!: deep_rules simp: slice_shapes_v1beta1)

lemma ManagedDisk_flat_v1beta1 [deep_rules]: "pointer_free ManagedDisk_shape_v1beta1"
  unfolding ManagedDisk_shape_v1beta1_def by (auto intro!: deep_rules)

lemma ManagedDisk_deep_v1beta1 [deep_rules]: "deep ManagedDisk_DeepCopyInto_v1beta1 ManagedDisk_shape_v1beta1"
  unfolding ManagedDisk_DeepCopyInto_v1beta1_def ManagedDisk_shape_v1beta1_def by (auto intro!: deep_rules simp: slice_shapes_v1beta1)

lemma OSDisk_flat_v1beta1 [deep_rules]: "pointer_free OSDisk_shape_v1beta1"
  unfolding OSDisk_shape_v1beta1_def by (auto intro!: deep_rules)

lemma OSDisk_deep_v1beta1 [deep_rules]: "deep OSDisk_DeepCopyInto_v1beta1 OSDisk_shape_v1beta1"
  unfolding OSDisk_DeepCopyInto_v1beta1_def OSDisk_shape_v1beta1_def by (auto intro!: deep_rules simp: slice_shapes_v1beta1)

lemma VM_deep_v1beta1 [deep_rules]: "deep VM_DeepCopyInto_v1beta1 VM_shape_v1beta1"
  unfolding VM_DeepCopyInto_v1beta1_def VM_shape_v1beta1_def by (auto intro!: deep_rules simp: slice_shapes_v1beta1)

lemma AzureStackHCIClusterStatus_deep_v1beta1 [deep_rules]: "ext_deep X \<Longrightarrow> deep (AzureStackHCIClusterStatus_DeepCopyInto_v1beta1 X) (AzureStackHCIClusterStatus_shape_v1beta1 X)"
  unfolding AzureStackHCIClusterStatus_DeepCopyInto_v1beta1_def AzureStackHCIClusterStatus_shape_v1beta1_def by (auto intro!: deep_rules simp: slice_shapes_v1beta1)

lemma AzureStackHCICluster_deep_v1beta1 [deep_rules]: "ext_deep X \<Longrightarrow> deep (AzureStackHCICluster_DeepCopyInto_v1beta1 X) (AzureStackHCICluster_shape_v1beta1 X)"
  unfolding AzureStackHCICluster_DeepCopyInto_v1beta1_def AzureStackHCICluster_shape_v1beta1_def by (auto intro!: deep_rules simp: slice_shapes_v1beta1)

lemma AzureStackHCIClusterList_deep_v1beta1 [deep_rules]: "ext_deep X \<Longrightarrow> deep (AzureStackHCIClusterList_DeepCopyInto_v1beta1 X) (AzureStackHCIClusterList_shape_v1beta1 X)"
  unfolding AzureStackHCIClusterList_DeepCopyInto_v1beta1_def AzureStackHCIClusterList_shape_v1beta1_def by (auto intro!: deep_rules simp: slice_shapes_v1beta1)

lemma AzureStackHCIClusterTemplateResource_deep_v1beta1 [deep_rules]: "deep AzureStackHCIClusterTemplateResource_DeepCopyInto_v1beta1 AzureStackHCIClusterTemplateResource_shape_v1beta1"
  unfolding AzureStackHCIClusterTemplateResource_DeepCopyInto_v1beta1_def AzureStackHCIClusterTemplateResource_shape_v1beta1_def by (auto intro!: deep_rules simp: slice_shapes_v1beta1)

lemma AzureStackHCIClusterTemplateSpec_deep_v1beta1 [deep_rules]: "deep AzureStackHCIClusterTemplateSpec_DeepCopyInto_v1beta1 AzureStackHCIClusterTemplateSpec_shape_v1beta1"
  unfolding AzureStackHCIClusterTemplateSpec_DeepCopyInto_v1beta1_def AzureStackHCIClusterTemplateSpec_shape_v1beta1_def by (auto intro!: deep_rules simp: slice_shapes_v1beta1)

lemma AzureStackHCIClusterTemplate_deep_v1beta1 [deep_rules]: "ext_deep X \<Longrightarrow> deep (AzureStackHCIClusterTemplate_DeepCopyInto_v1beta1 X) (AzureStackHCIClusterTemplate_shape_v1beta1 X)"
  unfolding AzureStackHCIClusterTemplate_DeepCopyInto_v1beta1_def AzureStackHCIClusterTemplate_shape_v1beta1_def by (auto intro!: deep_rules simp: slice_shapes_v1beta1)

lemma AzureStackHCIClusterTemplateList_deep_v1beta1 [deep_rules]: "ext_deep X \<Longrightarrow> deep (AzureStackHCIClusterTemplateList_DeepCopyInto_v1beta1 X) (AzureStackHCIClusterTemplateList_shape_v1beta1 X)"
  unfolding AzureStackHCIClusterTemplateList_DeepCopyInto_v1beta1_def AzureStackHCIClusterTemplateList_shape_v1beta1_def by (auto intro!: deep_rules simp: slice_shapes_v1beta1)

lemma AzureStackHCILoadBalancerStatus_deep_v1beta1 [deep_rules]: "ext_deep X \<Longrightarrow> deep (AzureStackHCILoadBalancerStatus_DeepCopyInto_v1beta1 X) (AzureStackHCILoadBalancerStatus_shape_v1beta1 X)"
  unfolding AzureStackHCILoadBalancerStatus_DeepCopyInto_v1beta1_def AzureStackHCILoadBalancerStatus_shape_v1beta1_def by (auto intro!: deep_rules simp: slice_shapes_v1beta1)

lemma AzureStackHCILoadBalancer_deep_v1beta1 [deep_rules]: "ext_deep X \<Longrightarrow> deep (AzureStackHCILoadBalancer_DeepCopyInto_v1beta1 X) (AzureStackHCILoadBalancer_shape_v1beta1 X)"
  unfolding AzureStackHCILoadBalancer_DeepCopyInto_v1beta1_def AzureStackHCILoadBalancer_shape_v1beta1_def by (auto intro!: deep_rules simp: slice_shapes_v1beta1)

lemma AzureStackHCILoadBalancerList_deep_v1beta1 [deep_rules]: "ext_deep X \<Longrightarrow> deep (AzureStackHCILoadBalancerList_DeepCopyInto_v1beta1 X) (AzureStackHCILoadBalancerList_shape_v1beta1 X)"
  unfolding AzureStackHCILoadBalancerList_DeepCopyInto_v1beta1_def AzureStackHCILoadBalancerList_shape_v1beta1_def by (auto intro!: deep_rules simp: slice_shapes_v1beta1)

lemma IpConfigurationSpec_flat_v1beta1 [deep_rules]: "pointer_free IpConfigurationSpec_shape_v1beta1"
  unfolding IpConfigurationSpec_shape_v1beta1_def by (auto intro!: deep_rules)

lemma IpConfigurationSpec_deep_v1beta1 [deep_rules]: "deep IpConfigurationSpec_DeepCopyInto_v1beta1 IpConfigurationSpec_shape_v1beta1"
  unfolding IpConfigurationSpec_DeepCopyInto_v1beta1_def IpConfigurationSpec_shape_v1beta1_def by (auto intro!: deep_rules simp: slice_shapes_v1beta1)

lemma IpConfigurations_deep_v1beta1 [deep_rules]: "deep IpConfigurations_DeepCopyInto_v1beta1 (\<lambda>t. IpConfigurations_shape_v1beta1 t \<and> t \<noteq> TNil)"
  unfolding IpConfigurations_DeepCopyInto_v1beta1_def IpConfigurations_shape_v1beta1_def by (auto intro!: deep_rules)

lemma NetworkInterfaceSpec_deep_v1beta1 [deep_rules]: "deep NetworkInterfaceSpec_DeepCopyInto_v1beta1 NetworkInterfaceSpec_shape_v1beta1"
  unfolding NetworkInterfaceSpec_DeepCopyInto_v1beta1_def NetworkInterfaceSpec_shape_v1beta1_def by (auto intro!: deep_rules simp: slice_shapes_v1beta1)

lemma NetworkInterfaces_deep_v1beta1 [deep_rules]: "deep NetworkInterfaces_DeepCopyInto_v1beta1 (\<lambda>t. NetworkInterfaces_shape_v1beta1 t \<and> t \<noteq> TNil)"
  unfolding NetworkInterfaces_DeepCopyInto_v1beta1_def NetworkInterfaces_shape_v1beta1_def by (auto intro!: deep_rules)

lemma AzureStackHCIMachineSpec_deep_v1beta1 [deep_rules]: "deep AzureStackHCIMachineSpec_DeepCopyInto_v1beta1 AzureStackHCIMachineSpec_shape_v1beta1"
  unfolding AzureStackHCIMachineSpec_DeepCopyInto_v1beta1_def AzureStackHCIMachineSpec_shape_v1beta1_def by (auto intro!: deep_rules simp: slice_shapes_v1beta1)

lemma AzureStackHCIMachineStatus_deep_v1beta1 [deep_rules]: "ext_deep X \<Longrightarrow> deep (AzureStackHCIMachineStatus_DeepCopyInto_v1beta1 X) (AzureStackHCIMachineStatus_shape_v1beta1 X)"
  unfolding AzureStackHCIMachineStatus_DeepCopyInto_v1beta1_def AzureStackHCIMachineStatus_shape_v1beta1_def by (auto intro!: deep_rules simp: slice_shapes_v1beta1)

lemma AzureStackHCIMachine_deep_v1beta1 [deep_rules]: "ext_deep X \<Longrightarrow> deep (AzureStackHCIMachine_DeepCopyInto_v1beta1 X) (AzureStackHCIMachine_shape_v1beta1 X)"
  unfolding AzureStackHCIMachine_DeepCopyInto_v1beta1_def AzureStackHCIMachine_shape_v1beta1_def by (auto intro!: deep_rules simp: slice_shapes_v1beta1)

lemma AzureStackHCIMachineList_deep_v1beta1 [deep_rules]: "ext_deep X \<Longrightarrow> deep (AzureStackHCIMachineList_DeepCopyInto_v1beta1 X) (AzureStackHCIMachineList_shape_v1beta1 X)"
  unfolding AzureStackHCIMachineList_DeepCopyInto_v1beta1_def AzureStackHCIMachineList_shape_v1beta1_def by (auto intro!: deep_rules simp: slice_shapes_v1beta1)

lemma AzureStackHCIMachineProviderCondition_deep_v1beta1 [deep_rules]: "ext_deep X \<Longrightarrow> deep (AzureStackHCIMachineProviderCondition_DeepCopyInto_v1beta1 X) (AzureStackHCIMachineProviderCondition_shape_v1beta1 X)"
  unfolding AzureStackHCIMachineProviderCondition_DeepCopyInto_v1beta1_def AzureStackHCIMachineProviderCondition_shape_v1beta1_def by (auto intro!: deep_rules simp: slice_shapes_v1beta1)

lemma AzureStackHCIMachineTemplateResource_deep_v1beta1 [deep_rules]: "deep AzureStackHCIMachineTemplateResource_DeepCopyInto_v1beta1 AzureStackHCIMachineTemplateResource_shape_v1beta1"
  unfolding AzureStackHCIMachineTemplateResource_DeepCopyInto_v1beta1_def AzureStackHCIMachineTemplateResource_shape_v1beta1_def by (auto intro!: deep_rules simp: slice_shapes_v1beta1)

lemma AzureStackHCIMachineTemplateSpec_deep_v1beta1 [deep_rules]: "deep AzureStackHCIMachineTemplateSpec_DeepCopyInto_v1beta1 AzureStackHCIMachineTemplateSpec_shape_v1beta1"
  unfolding AzureStackHCIMachineTemplateSpec_DeepCopyInto_v1beta1_def AzureStackHCIMachineTemplateSpec_shape_v1beta1_def by (auto intro!: deep_rules simp: slice_shapes_v1beta1)

lemma AzureStackHCIMachineTemplate_deep_v1beta1 [deep_rules]: "ext_deep X \<Longrightarrow> deep (AzureStackHCIMachineTemplate_DeepCopyInto_v1beta1 X) (AzureStackHCIMachineTemplate_shape_v1beta1 X)"
  unfolding AzureStackHCIMachineTemplate_DeepCopyInto_v1beta1_def AzureStackHCIMachineTemplate_shape_v1beta1_def by (auto intro!: deep_rules simp: slice_shapes_v1beta1)

lemma AzureStackHCIMachineTemplateList_deep_v1beta1 [deep_rules]: "ext_deep X \<Longrightarrow> deep (AzureStackHCIMachineTemplateList_DeepCopyInto_v1beta1 X) (AzureStackHCIMachineTemplateList_shape_v1beta1 X)"
  unfolding AzureStackHCIMachineTemplateList_DeepCopyInto_v1beta1_def AzureStackHCIMachineTemplateList_shape_v1beta1_def by (auto intro!: deep_rules simp: slice_shapes_v1beta1)

lemma AzureStackHCIResourceReference_deep_v1beta1 [deep_rules]: "deep AzureStackHCIResourceReference_DeepCopyInto_v1beta1 AzureStackHCIResourceReference_shape_v1beta1"
  unfolding AzureStackHCIResourceReference_DeepCopyInto_v1beta1_def AzureStackHCIResourceReference_shape_v1beta1_def by (auto intro!: deep_rules simp: slice_shapes_v1beta1)

lemma AzureStackHCIVirtualMachineSpec_deep_v1beta1 [deep_rules]: "deep AzureStackHCIVirtualMachineSpec_DeepCopyInto_v1beta1 AzureStackHCIVirtualMachineSpec_shape_v1beta1"
  unfolding AzureStackHCIVirtualMachineSpec_DeepCopyInto_v1beta1_def AzureStackHCIVirtualMachineSpec_shape_v1beta1_def by (auto intro!: deep_rules simp: slice_shapes_v1beta1)

lemma AzureStackHCIVirtualMachineStatus_deep_v1beta1 [deep_rules]: "ext_deep X \<Longrightarrow> deep (AzureStackHCIVirtualMachineStatus_DeepCopyInto_v1beta1 X) (AzureStackHCIVirtualMachineStatus_shape_v1beta1 X)"
  unfolding AzureStackHCIVirtualMachineStatus_DeepCopyInto_v1beta1_def AzureStackHCIVirtualMachineStatus_shape_v1beta1_def by (auto intro!: deep_rules simp: slice_shapes_v1beta1)

lemma AzureStackHCIVirtualMachine_deep_v1beta1 [deep_rules]: "ext_deep X \<Longrightarrow> deep (AzureStackHCIVirtualMachine_DeepCopyInto_v1beta1 X) (AzureStackHCIVirtualMachine_shape_v1beta1 X)"
  unfolding AzureStackHCIVirtualMachine_DeepCopyInto_v1beta1_def AzureStackHCIVirtualMachine_shape_v1beta1_def by (auto intro!: deep_rules simp: slice_shapes_v1beta1)

lemma AzureStackHCIVirtualMachineList_deep_v1beta1 [deep_rules]: "ext_deep X \<Longrightarrow> deep (AzureStackHCIVirtualMachineList_DeepCopyInto_v1beta1 X) (AzureStackHCIVirtualMachineList_shape_v1beta1 X)"
  unfolding AzureStackHCIVirtualMachineList_DeepCopyInto_v1beta1_def AzureStackHCIVirtualMachineList_shape_v1beta1_def by (auto intro!: deep_rules simp: slice_shapes_v1beta1)

lemma VirtualMachinesByCreationTimestamp_deep_v1beta1 [deep_rules]: "ext_deep X \<Longrightarrow> deep (VirtualMachinesByCreationTimestamp_DeepCopyInto_v1beta1 X) (\<lambda>t. VirtualMachinesByCreationTimestamp_shape_v1beta1 X t \<and> t \<noteq> TNil)"
  unfolding VirtualMachinesByCreationTimestamp_DeepCopyInto_v1beta1_def VirtualMachinesByCreationTimestamp_shape_v1beta1_def by (auto intro!: deep_rules)

subsection \<open>The copies of API objects\<close>

text \<open>The objects of both versions, each with the copy that the API machinery calls.\<close>

definition api_copies :: "ext_copies \<Rightarrow> (copier \<times> (tree \<Rightarrow> bool)) list" where
  "api_copies X =
     [(AzureStackHCICluster_DeepCopyObject X, ptr_to (AzureStackHCICluster_shape X)),
      (AzureStackHCIClusterList_DeepCopyObject X, ptr_to (AzureStackHCIClusterList_shape X)),
      (AzureStackHCIClusterTemplate_DeepCopyObject X, ptr_to (AzureStackHCIClusterTemplate_shape X)),
      (AzureStackHCIClusterTemplateList_DeepCopyObject X, ptr_to (AzureStackHCIClusterTemplateList_shape X)),
      (AzureStackHCILoadBalancer_DeepCopyObject X, ptr_to (AzureStackHCILoadBalancer_shape X)),
      (AzureStackHCILoadBalancerList_DeepCopyObject X, ptr_to (AzureStackHCILoadBalancerList_shape X)),
      (AzureStackHCIMachine_DeepCopyObject X, ptr_to (AzureStackHCIMachine_shape X)),
      (AzureStackHCIMachineList_DeepCopyObject X, ptr_to (AzureStackHCIMachineList_shape X)),
      (AzureStackHCIMachineTemplate_DeepCopyObject X, ptr_to (AzureStackHCIMachineTemplate_shape X)),
      (AzureStackHCIMachineTemplateList_DeepCopyObject X, ptr_to (AzureStackHCIMachineTemplateList_shape X)),
      (AzureStackHCIVirtualMachine_DeepCopyObject X, ptr_to (AzureStackHCIVirtualMachine_shape X)),
      (AzureStackHCIVirtualMachineList_DeepCopyObject X, ptr_to (AzureStackHCIVirtualMachineList_shape X)),
      (AzureStackHCICluster_DeepCopyObject_v1beta1 X, ptr_to (AzureStackHCICluster_shape_v1beta1 X)),
      (AzureStackHCIClusterList_DeepCopyObject_v1beta1 X, ptr_to (AzureStackHCIClusterList_shape_v1beta1 X)),
      (AzureStackHCIClusterTemplate_DeepCopyObject_v1beta1 X, ptr_to (AzureStackHCIClusterTemplate_shape_v1beta1 X)),
      (AzureStackHCIClusterTemplateList_DeepCopyObject_v1beta1 X, ptr_to (AzureStackHCIClusterTemplateList_shape_v1beta1 X)),
      (AzureStackHCILoadBalancer_DeepCopyObject_v1beta1 X, ptr_to (AzureStackHCILoadBalancer_shape_v1beta1 X)),
      (AzureStackHCILoadBalancerList_DeepCopyObject_v1beta1 X, ptr_to (AzureStackHCILoadBalancerList_shape_v1beta1 X)),
      (AzureStackHCIMachine_DeepCopyObject_v1beta1 X, ptr_to (AzureStackHCIMachine_shape_v1beta1 X)),
      (AzureStackHCIMachineList_DeepCopyObject_v1beta1 X, ptr_to (AzureStackHCIMachineList_shape_v1beta1 X)),
      (AzureStackHCIMachineTemplate_DeepCopyObject_v1beta1 X, ptr_to (AzureStackHCIMachineTemplate_shape_v1beta1 X)),
      (AzureStackHCIMachineTemplateList_DeepCopyObject_v1beta1 X, ptr_to (AzureStackHCIMachineTemplateList_shape_v1beta1 X)),
      (AzureStackHCIVirtualMachine_DeepCopyObject_v1beta1 X, ptr_to (AzureStackHCIVirtualMachine_shape_v1beta1 X)),
      (AzureStackHCIVirtualMachineList_DeepCopyObject_v1beta1 X, ptr_to (AzureStackHCIVirtualMachineList_shape_v1beta1 X))]"

lemma api_copies_deep: "ext_deep X \<Longrightarrow> list_all (\<lambda>(c, T). deep c T) (api_copies X)"
  by (auto simp: api_copies_def AzureStackHCICluster_DeepCopyObject_def AzureStackHCICluster_DeepCopy_def AzureStackHCIClusterList_DeepCopyObject_def AzureStackHCIClusterList_DeepCopy_def AzureStackHCIClusterTemplate_DeepCopyObject_def AzureStackHCIClusterTemplate_DeepCopy_def AzureStackHCIClusterTemplateList_DeepCopyObject_def AzureStackHCIClusterTemplateList_DeepCopy_def AzureStackHCILoadBalancer_DeepCopyObject_def AzureStackHCILoadBalancer_DeepCopy_def AzureStackHCILoadBalancerList_DeepCopyObject_def AzureStackHCILoadBalancerList_DeepCopy_def AzureStackHCIMachine_DeepCopyObject_def AzureStackHCIMachine_DeepCopy_def AzureStackHCIMachineList_DeepCopyObject_def AzureStackHCIMachineList_DeepCopy_def AzureStackHCIMachineTemplate_DeepCopyObject_def AzureStackHCIMachineTemplate_DeepCopy_def AzureStackHCIMachineTemplateList_DeepCopyObject_def AzureStackHCIMachineTemplateList_DeepCopy_def AzureStackHCIVirtualMachine_DeepCopyObject_def AzureStackHCIVirtualMachine_DeepCopy_def AzureStackHCIVirtualMachineList_DeepCopyObject_def AzureStackHCIVirtualMachineList_DeepCopy_def AzureStackHCICluster_DeepCopyObject_v1beta1_def AzureStackHCICluster_DeepCopy_v1beta1_def AzureStackHCIClusterList_DeepCopyObject_v1beta1_def AzureStackHCIClusterList_DeepCopy_v1beta1_def AzureStackHCIClusterTemplate_DeepCopyObject_v1beta1_def AzureStackHCIClusterTemplate_DeepCopy_v1beta1_def AzureStackHCIClusterTemplateList_DeepCopyObject_v1beta1_def AzureStackHCIClusterTemplateList_DeepCopy_v1beta1_def AzureStackHCILoadBalancer_DeepCopyObject_v1beta1_def AzureStackHCILoadBalancer_DeepCopy_v1beta1_def AzureStackHCILoadBalancerList_DeepCopyObject_v1beta1_def AzureStackHCILoadBalancerList_DeepCopy_v1beta1_def AzureStackHCIMachine_DeepCopyObject_v1beta1_def AzureStackHCIMachine_DeepCopy_v1beta1_def AzureStackHCIMachineList_DeepCopyObject_v1beta1_def AzureStackHCIMachineList_DeepCopy_v1beta1_def AzureStackHCIMachineTemplate_DeepCopyObject_v1beta1_def AzureStackHCIMachineTemplate_DeepCopy_v1beta1_def AzureStackHCIMachineTemplateList_DeepCopyObject_v1beta1_def AzureStackHCIMachineTemplateList_DeepCopy_v1beta1_def AzureStackHCIVirtualMachine_DeepCopyObject_v1beta1_def AzureStackHCIVirtualMachine_DeepCopy_v1beta1_def AzureStackHCIVirtualMachineList_DeepCopyObject_v1beta1_def AzureStackHCIVirtualMachineList_DeepCopy_v1beta1_def
      intro!: deep_rules)

text \<open>
  Library copies that fit the laws, and a memory with a load balancer object at address 1, whose number of
  replicas is behind the pointer 0.
\<close>

definition ext0 :: ext_copies where
  "ext0 = \<lparr>x_ObjectMeta = struct_copy [(''Labels'', new_copy plain)], x_ListMeta = plain, x_Condition = plain,
     x_ClusterCondition = plain, x_Time = plain,
     s_ObjectMeta = struct_of [(''Name'', lit), (''Labels'', ptr_to lit)], s_ListMeta = lit, s_Condition = lit,
     s_ClusterCondition = lit, s_Time = lit\<rparr>"

lemma ext0_deep: "ext_deep ext0"
  by (auto simp: ext_deep_def ext0_def intro!: deep_rules)

definition lb_mem :: mem where
  "lb_mem = [Lit ''2'', Struct [(''TypeMeta'', Struct [(''Kind'', Lit []), (''APIVersion'', Lit [])]),
     (''ObjectMeta'', Struct [(''Name'', Lit ''lb''), (''Labels'', NilV)]),
     (''Spec'', Struct [(''SSHPublicKey'', Lit []), (''Image'', NilV), (''VMSize'', Lit []), (''StorageContainer'', Lit []), (''Replicas'', Ref 0)]),
     (''Status'', Struct [(''Ready'', Lit []), (''Replicas'', Lit []), (''ReadyReplicas'', Lit []), (''FailedReplicas'', Lit []), (''Address'', Lit []), (''Port'', Lit []), (''Phase'', Lit []), (''Conditions'', NilV), (''ErrorReason'', NilV), (''ErrorMessage'', NilV), (''Selector'', Lit [])])]]"

definition lb_tree :: tree where
  "lb_tree = TPtr (TStruct [(''TypeMeta'', TStruct [(''Kind'', TLit []), (''APIVersion'', TLit [])]),
     (''ObjectMeta'', TStruct [(''Name'', TLit ''lb''), (''Labels'', TNil)]),
     (''Spec'', TStruct [(''SSHPublicKey'', TLit []), (''Image'', TNil), (''VMSize'', TLit []), (''StorageContainer'', TLit []), (''Replicas'', TPtr (TLit ''2''))]),
     (''Status'', TStruct [(''Ready'', TLit []), (''Replicas'', TLit []), (''ReadyReplicas'', TLit []), (''FailedReplicas'', TLit []), (''Address'', TLit []), (''Port'', TLit []), (''Phase'', TLit []), (''Conditions'', TNil), (''ErrorReason'', TNil), (''ErrorMessage'', TNil), (''Selector'', TLit [])])])"

lemma lb_tree_built: "built 0 lb_mem (Ref 1) lb_tree"
  unfolding lb_mem_def lb_tree_def by (auto intro!: built.intros)

lemma lb_tree_shape: "ptr_to (AzureStackHCILoadBalancer_shape ext0) lb_tree"
  by (simp add: ptr_to_def lb_tree_def AzureStackHCILoadBalancer_shape_def AzureStackHCILoadBalancerSpec_shape_def
      AzureStackHCILoadBalancerStatus_shape_def TypeMeta_shape_def ext0_def struct_of_def slice_of_def lit_def)

subsection \<open>Properties\<close>

text \<open>
  C36: Deep copies are deep.  For every object of either version of the API, \<open>DeepCopyObject\<close> returns, without
  a panic, a value that stands for the same tree of values as the original and consists of new
  cells only, and it leaves all old cells alone: whatever is written to a cell of the copy
  afterwards, the original stands for the same tree as before.
\<close>

theorem DeepCopyObject_independent:
  assumes "ext_deep X" "(copy, T) \<in> set (api_copies X)" "built 0 m v t" "T t"
  shows "\<exists>v' m'. copy v m = (Ret v', m') \<and> built (length m) m' v' t \<and>
    (\<forall>a x. length m \<le> a \<longrightarrow> built 0 (m'[a := x]) v t)"
proof (rule deep_independent)
  show "deep copy T" using api_copies_deep [OF assms(1)] assms(2) by (auto simp: list_all_iff)
qed (rule assms)+

theorem DeepCopyObject_independent_witness:
  "\<exists>v' m'. AzureStackHCILoadBalancer_DeepCopyObject ext0 (Ref 1) lb_mem = (Ret v', m') \<and>
    built 2 m' v' lb_tree \<and> built 0 (m'[3 := Lit ''changed'']) (Ref 1) lb_tree"
proof -
  have lb: "(AzureStackHCILoadBalancer_DeepCopyObject ext0, ptr_to (AzureStackHCILoadBalancer_shape ext0)) \<in> set (api_copies ext0)"
    by (simp add: api_copies_def)
  have "length lb_mem = 2" by (simp add: lb_mem_def)
  then show ?thesis
    using DeepCopyObject_independent [where T = "ptr_to (AzureStackHCILoadBalancer_shape ext0)",
        OF ext0_deep lb lb_tree_built lb_tree_shape] by fastforce
qed

end
