(* ===== verification/Manager.thy ===== *)
theory Manager
  imports VMController LBController MachineController ClusterController
begin

text \<open>
  The manager process: the flags and the start-up sequence of \<open>cmd/manager/main.go\<close>, the
  registration of the four controllers with their watches and loggers (\<open>SetupWithManager\<close> and
  \<open>ConstructLogger\<close> of \<open>controllers/\<close>) and of the webhooks (\<open>api/v1beta2/*_webhook.go\<close>), and the
  health checks with \<open>pkg/network\<close>.  Controller-runtime and the flag parser are the record
  \<open>runtime\<close>; the law \<open>startup_log\<close> says that it keeps a record of what it was asked to do and
  whether it did it.  Log lines are left out.
\<close>

subsection \<open>Flags\<close>

text \<open>
  A flag is declared with its name and default; the parser hands back the values.  Go's flag
  variables are typed, so each variable reads the flag of its own type.
\<close>

datatype flag_value = BoolFlag bool | StringFlag string | IntFlag int | DurationFlag int

type_synonym flags = "(string \<times> flag_value) list"

definition InitFlags :: "flags \<Rightarrow> flags" where
  "InitFlags featureGates =
     [(''enable-leader-election'', BoolFlag False),
      (''namespace'', StringFlag []),
      (''profiler-address'', StringFlag []),
      (''azurestackhcicluster-concurrency'', IntFlag 10),
      (''azurestackhcimachine-concurrency'', IntFlag 10),
      (''azurestackhciload-balancer-concurrency'', IntFlag 10),
      (''azurestackhci-virtual-machine-concurrency'', IntFlag 5),
      (''sync-period'', DurationFlag (10 * 60 * 1000000000)),
      (''health-addr'', StringFlag '':9440''),
      (''webhook-port'', IntFlag 9443)] @ featureGates"

definition bool_flag :: "flags \<Rightarrow> string \<Rightarrow> bool" where
  "bool_flag fs n = (case map_of fs n of Some (BoolFlag b) \<Rightarrow> b | _ \<Rightarrow> False)"

definition string_flag :: "flags \<Rightarrow> string \<Rightarrow> string" where
  "string_flag fs n = (case map_of fs n of Some (StringFlag s) \<Rightarrow> s | _ \<Rightarrow> [])"

definition int_flag :: "flags \<Rightarrow> string \<Rightarrow> int" where
  "int_flag fs n = (case map_of fs n of Some (IntFlag i) \<Rightarrow> i | Some (DurationFlag i) \<Rightarrow> i | _ \<Rightarrow> 0)"

definition enableLeaderElection :: "flags \<Rightarrow> bool" where
  "enableLeaderElection fs = bool_flag fs ''enable-leader-election''"

definition watchNamespace :: "flags \<Rightarrow> string" where
  "watchNamespace fs = string_flag fs ''namespace''"

definition profilerAddress :: "flags \<Rightarrow> string" where
  "profilerAddress fs = string_flag fs ''profiler-address''"

definition azureStackHCIClusterConcurrency :: "flags \<Rightarrow> int" where
  "azureStackHCIClusterConcurrency fs = int_flag fs ''azurestackhcicluster-concurrency''"

definition azureStackHCIMachineConcurrency :: "flags \<Rightarrow> int" where
  "azureStackHCIMachineConcurrency fs = int_flag fs ''azurestackhcimachine-concurrency''"

definition azureStackHCIloadBalancerConcurrency :: "flags \<Rightarrow> int" where
  "azureStackHCIloadBalancerConcurrency fs = int_flag fs ''azurestackhciload-balancer-concurrency''"

definition azureStackHCIVirtualMachineConcurrency :: "flags \<Rightarrow> int" where
  "azureStackHCIVirtualMachineConcurrency fs = int_flag fs ''azurestackhci-virtual-machine-concurrency''"

definition syncPeriod :: "flags \<Rightarrow> int" where
  "syncPeriod fs = int_flag fs ''sync-period''"

definition healthAddr :: "flags \<Rightarrow> string" where
  "healthAddr fs = string_flag fs ''health-addr''"

definition webhookPort :: "flags \<Rightarrow> int" where
  "webhookPort fs = int_flag fs ''webhook-port''"

subsection \<open>Kinds and the scheme\<close>

record GroupVersionKind =
  gvk_Group :: string
  gvk_Version :: string
  gvk_Kind :: string

definition GroupVersion_v1beta1 :: "string \<Rightarrow> GroupVersionKind" where
  "GroupVersion_v1beta1 k = \<lparr>gvk_Group = ''infrastructure.cluster.x-k8s.io'', gvk_Version = ''v1beta1'', gvk_Kind = k\<rparr>"

definition GroupVersion_v1beta2 :: "string \<Rightarrow> GroupVersionKind" where
  "GroupVersion_v1beta2 k = \<lparr>gvk_Group = ''infrastructure.cluster.x-k8s.io'', gvk_Version = ''v1beta2'', gvk_Kind = k\<rparr>"

text \<open>
  \<open>clusterv1.Machine\<close> belongs to Cluster API.  \<open>init\<close> adds the types of four packages to the
  scheme, in this order.
\<close>

definition clusterv1_Machine :: GroupVersionKind where
  "clusterv1_Machine = \<lparr>gvk_Group = ''cluster.x-k8s.io'', gvk_Version = ''v1beta2'', gvk_Kind = ''Machine''\<rparr>"

datatype scheme_package = Clientgoscheme | Clusterv1 | Infrav1beta1 | Infrav1beta2

definition main_scheme :: "scheme_package list" where
  "main_scheme = [Clientgoscheme, Clusterv1, Infrav1beta1, Infrav1beta2]"

subsection \<open>What is registered\<close>

text \<open>
  A logger is its names and key-value pairs.  A controller is registered for a kind, with the
  other kinds it watches and how their events become requests, and with its reconcile function.
\<close>

datatype log_value = LogKey ObjectKey | LogString string

record logger =
  log_Names :: "string list"
  log_Values :: "(string \<times> log_value) list"

definition WithName :: "string \<Rightarrow> logger \<Rightarrow> logger" where
  "WithName n l = l\<lparr>log_Names := log_Names l @ [n]\<rparr>"

definition WithValues :: "(string \<times> log_value) list \<Rightarrow> logger \<Rightarrow> logger" where
  "WithValues vs l = l\<lparr>log_Values := log_Values l @ vs\<rparr>"

datatype 'w event_handler =
    MachineToInfrastructureMapFunc GroupVersionKind
  | EnqueueRequestsFromMapFunc "AzureStackHCICluster option \<Rightarrow> ('w, ObjectKey list) io"
  | EnqueueRequestForOwner GroupVersionKind

datatype rate_limiter = DefaultTypedControllerRateLimiter

record controller_options =
  co_MaxConcurrentReconciles :: int
  co_RateLimiter :: rate_limiter

record 'w controller =
  ct_Options :: controller_options
  ct_LogConstructor :: "ObjectKey option \<Rightarrow> ('w, logger) io"
  ct_For :: GroupVersionKind
  ct_Watches :: "(GroupVersionKind \<times> 'w event_handler) list"
  ct_Reconcile :: "ObjectKey \<Rightarrow> (('w, unit) rstate, Result \<times> goerror option) io"

record manager_options =
  mo_Scheme :: "scheme_package list"
  mo_LeaderElection :: bool
  mo_LeaderElectionID :: string
  mo_HealthProbeBindAddress :: string
  mo_BurstSize :: nat
  mo_DefaultNamespaces :: "string list option"
  mo_SyncPeriod :: int
  mo_WebhookPort :: int

type_synonym 'w checker = "('w, goerror option) io"

text \<open>
  Controller-runtime, the flag parser and the network.  \<open>rt_Parse\<close> exits with a code of its own
  on a bad command line.
\<close>

record 'w runtime =
  rt_FeatureGates :: flags
  rt_Parse :: "flags \<Rightarrow> ('w, nat + flags) io"
  rt_ListenAndServe :: "string \<Rightarrow> ('w, unit) io"
  rt_GetConfig :: "('w, goerror option) io"
  rt_NewManager :: "manager_options \<Rightarrow> ('w, goerror option) io"
  rt_GetClient :: "'w kube"
  rt_InitFromRecorder :: "string \<Rightarrow> ('w, unit) io"
  rt_CompleteController :: "'w controller \<Rightarrow> ('w, goerror option) io"
  rt_CompleteWebhook :: "GroupVersionKind \<Rightarrow> ('w, goerror option) io"
  rt_Ping :: "'w checker"
  rt_AddReadyzCheck :: "string \<Rightarrow> 'w checker \<Rightarrow> ('w, goerror option) io"
  rt_AddHealthzCheck :: "string \<Rightarrow> 'w checker \<Rightarrow> ('w, goerror option) io"
  rt_DialTimeout :: "string \<Rightarrow> string \<Rightarrow> int \<Rightarrow> ('w, goerror option) io"
  rt_Start :: "('w, goerror option) io"

subsection \<open>Reconcilers\<close>

record 'w AzureStackHCIMachineReconciler =
  hmr_Client :: "'w kube"
  hmr_Log :: logger
  hmr_Recorder :: string

record 'w AzureStackHCIClusterReconciler =
  hcr_Client :: "'w kube"
  hcr_Log :: logger
  hcr_Recorder :: string

record 'w AzureStackHCILoadBalancerReconciler =
  lbr_Client :: "'w kube"
  lbr_Log :: logger
  lbr_Recorder :: string

record 'w AzureStackHCIVirtualMachineReconciler =
  vmr_Client :: "'w kube"
  vmr_Log :: logger
  vmr_Scheme :: "scheme_package list"
  vmr_Recorder :: string

text \<open>
  The four \<open>ConstructLogger\<close> methods differ in the kind they read and in the key they log it
  under; \<open>construct_logger\<close> is their common body.
\<close>

definition construct_logger :: "logger \<Rightarrow> string \<Rightarrow> (ObjectKey \<Rightarrow> ('w, goerror + 'o) io) \<Rightarrow> ('o \<Rightarrow> ObjectMeta) \<Rightarrow>
    ObjectKey option \<Rightarrow> ('w, logger) io" where
  "construct_logger base name get meta req = (let log = WithName [] base in case req of
      None \<Rightarrow> return log
    | Some key \<Rightarrow> (let log = WithValues [(name, LogKey key)] log in bind (get key) (\<lambda>r. case r of
        Inl _ \<Rightarrow> return log
      | Inr x \<Rightarrow> return (WithValues
          [(''operationId'', LogString (map_get (om_Annotations (meta x)) AzureOperationIDAnnotationKey)),
           (''correlationId'', LogString (map_get (om_Annotations (meta x)) AzureCorrelationIDAnnotationKey))] log))))"

definition Machine_ConstructLogger :: "'w AzureStackHCIMachineReconciler \<Rightarrow> ObjectKey option \<Rightarrow> ('w, logger) io" where
  "Machine_ConstructLogger r = construct_logger (hmr_Log r) ''azureStackHCIMachine'' (k_Get_HMachine (hmr_Client r)) hm_Meta"

definition Cluster_ConstructLogger :: "'w AzureStackHCIClusterReconciler \<Rightarrow> ObjectKey option \<Rightarrow> ('w, logger) io" where
  "Cluster_ConstructLogger r = construct_logger (hcr_Log r) ''azureStackHCICluster'' (k_Get_HCluster (hcr_Client r)) hc_Meta"

definition LB_ConstructLogger :: "'w AzureStackHCILoadBalancerReconciler \<Rightarrow> ObjectKey option \<Rightarrow> ('w, logger) io" where
  "LB_ConstructLogger r = construct_logger (lbr_Log r) ''azureStackHCILoadBalancer'' (k_Get_LB (lbr_Client r)) hlb_Meta"

definition VM_ConstructLogger :: "'w AzureStackHCIVirtualMachineReconciler \<Rightarrow> ObjectKey option \<Rightarrow> ('w, logger) io" where
  "VM_ConstructLogger r = construct_logger (vmr_Log r) ''azureStackHCIVirtualMachine'' (k_Get_VM (vmr_Client r)) hvm_Meta"

definition Machine_controller :: "lib \<Rightarrow> 'w sys \<Rightarrow> 'w AzureStackHCIMachineReconciler \<Rightarrow> controller_options \<Rightarrow> 'w controller" where
  "Machine_controller L S r options =
     \<lparr>ct_Options = options, ct_LogConstructor = Machine_ConstructLogger r,
      ct_For = GroupVersion_v1beta2 ''AzureStackHCIMachine'',
      ct_Watches =
        [(clusterv1_Machine, MachineToInfrastructureMapFunc (GroupVersion_v1beta2 ''AzureStackHCIMachine'')),
         (GroupVersion_v1beta2 ''AzureStackHCICluster'',
            EnqueueRequestsFromMapFunc (AzureStackHCIClusterToAzureStackHCIMachines (hmr_Client r))),
         (GroupVersion_v1beta2 ''AzureStackHCIVirtualMachine'',
            EnqueueRequestForOwner (GroupVersion_v1beta2 ''AzureStackHCIMachine''))],
      ct_Reconcile = Machine_Reconcile L S (hmr_Client r)\<rparr>"

definition Cluster_controller :: "lib \<Rightarrow> 'w sys \<Rightarrow> 'w moc \<Rightarrow> 'w AzureStackHCIClusterReconciler \<Rightarrow> controller_options \<Rightarrow> 'w controller" where
  "Cluster_controller L S M r options =
     \<lparr>ct_Options = options, ct_LogConstructor = Cluster_ConstructLogger r,
      ct_For = GroupVersion_v1beta2 ''AzureStackHCICluster'', ct_Watches = [],
      ct_Reconcile = Cluster_Reconcile L S M (hcr_Client r)\<rparr>"

definition LB_controller :: "lib \<Rightarrow> 'w sys \<Rightarrow> 'w moc \<Rightarrow> 'w AzureStackHCILoadBalancerReconciler \<Rightarrow> controller_options \<Rightarrow> 'w controller" where
  "LB_controller L S M r options =
     \<lparr>ct_Options = options, ct_LogConstructor = LB_ConstructLogger r,
      ct_For = GroupVersion_v1beta2 ''AzureStackHCILoadBalancer'',
      ct_Watches =
        [(GroupVersion_v1beta2 ''AzureStackHCIVirtualMachine'',
            EnqueueRequestForOwner (GroupVersion_v1beta2 ''AzureStackHCILoadBalancer''))],
      ct_Reconcile = LB_Reconcile L S M (lbr_Client r)\<rparr>"

definition VM_controller :: "lib \<Rightarrow> 'w sys \<Rightarrow> 'w moc \<Rightarrow> 'w AzureStackHCIVirtualMachineReconciler \<Rightarrow> controller_options \<Rightarrow> 'w controller" where
  "VM_controller L S M r options =
     \<lparr>ct_Options = options, ct_LogConstructor = VM_ConstructLogger r,
      ct_For = GroupVersion_v1beta2 ''AzureStackHCIVirtualMachine'', ct_Watches = [],
      ct_Reconcile = VM_Reconcile L S M (vmr_Client r)\<rparr>"

text \<open>\<open>SetupWithManager\<close> builds the controller and completes it with the manager.\<close>

definition Machine_SetupWithManager :: "lib \<Rightarrow> 'w sys \<Rightarrow> 'w AzureStackHCIMachineReconciler \<Rightarrow> 'w runtime \<Rightarrow>
    controller_options \<Rightarrow> ('w, goerror option) io" where
  "Machine_SetupWithManager L S r mgr options = rt_CompleteController mgr (Machine_controller L S r options)"

definition Cluster_SetupWithManager :: "lib \<Rightarrow> 'w sys \<Rightarrow> 'w moc \<Rightarrow> 'w AzureStackHCIClusterReconciler \<Rightarrow> 'w runtime \<Rightarrow>
    controller_options \<Rightarrow> ('w, goerror option) io" where
  "Cluster_SetupWithManager L S M r mgr options = rt_CompleteController mgr (Cluster_controller L S M r options)"

definition LB_SetupWithManager :: "lib \<Rightarrow> 'w sys \<Rightarrow> 'w moc \<Rightarrow> 'w AzureStackHCILoadBalancerReconciler \<Rightarrow> 'w runtime \<Rightarrow>
    controller_options \<Rightarrow> ('w, goerror option) io" where
  "LB_SetupWithManager L S M r mgr options = rt_CompleteController mgr (LB_controller L S M r options)"

definition VM_SetupWithManager :: "lib \<Rightarrow> 'w sys \<Rightarrow> 'w moc \<Rightarrow> 'w AzureStackHCIVirtualMachineReconciler \<Rightarrow> 'w runtime \<Rightarrow>
    controller_options \<Rightarrow> ('w, goerror option) io" where
  "VM_SetupWithManager L S M r mgr options = rt_CompleteController mgr (VM_controller L S M r options)"

subsection \<open>Webhooks\<close>

definition Cluster_SetupWebhookWithManager :: "'w runtime \<Rightarrow> ('w, goerror option) io" where
  "Cluster_SetupWebhookWithManager mgr = rt_CompleteWebhook mgr (GroupVersion_v1beta2 ''AzureStackHCICluster'')"

definition Machine_SetupWebhookWithManager :: "'w runtime \<Rightarrow> ('w, goerror option) io" where
  "Machine_SetupWebhookWithManager mgr = rt_CompleteWebhook mgr (GroupVersion_v1beta2 ''AzureStackHCIMachine'')"

definition MachineTemplate_SetupWebhookWithManager :: "'w runtime \<Rightarrow> ('w, goerror option) io" where
  "MachineTemplate_SetupWebhookWithManager mgr = rt_CompleteWebhook mgr (GroupVersion_v1beta2 ''AzureStackHCIMachineTemplate'')"

definition VM_SetupWebhookWithManager :: "'w runtime \<Rightarrow> ('w, goerror option) io" where
  "VM_SetupWebhookWithManager mgr = rt_CompleteWebhook mgr (GroupVersion_v1beta2 ''AzureStackHCIVirtualMachine'')"

definition LB_SetupWebhookWithManager :: "'w runtime \<Rightarrow> ('w, goerror option) io" where
  "LB_SetupWebhookWithManager mgr = rt_CompleteWebhook mgr (GroupVersion_v1beta2 ''AzureStackHCILoadBalancer'')"

text \<open>The older version has the same constructors; the manager never calls them.\<close>

definition Cluster_SetupWebhookWithManager_v1beta1 :: "'w runtime \<Rightarrow> ('w, goerror option) io" where
  "Cluster_SetupWebhookWithManager_v1beta1 mgr = rt_CompleteWebhook mgr (GroupVersion_v1beta1 ''AzureStackHCICluster'')"

definition Machine_SetupWebhookWithManager_v1beta1 :: "'w runtime \<Rightarrow> ('w, goerror option) io" where
  "Machine_SetupWebhookWithManager_v1beta1 mgr = rt_CompleteWebhook mgr (GroupVersion_v1beta1 ''AzureStackHCIMachine'')"

definition MachineTemplate_SetupWebhookWithManager_v1beta1 :: "'w runtime \<Rightarrow> ('w, goerror option) io" where
  "MachineTemplate_SetupWebhookWithManager_v1beta1 mgr = rt_CompleteWebhook mgr (GroupVersion_v1beta1 ''AzureStackHCIMachineTemplate'')"

definition VM_SetupWebhookWithManager_v1beta1 :: "'w runtime \<Rightarrow> ('w, goerror option) io" where
  "VM_SetupWebhookWithManager_v1beta1 mgr = rt_CompleteWebhook mgr (GroupVersion_v1beta1 ''AzureStackHCIVirtualMachine'')"

definition LB_SetupWebhookWithManager_v1beta1 :: "'w runtime \<Rightarrow> ('w, goerror option) io" where
  "LB_SetupWebhookWithManager_v1beta1 mgr = rt_CompleteWebhook mgr (GroupVersion_v1beta1 ''AzureStackHCILoadBalancer'')"

subsection \<open>The start-up sequence\<close>

text \<open>
  A step of \<open>main\<close> either goes on (\<open>None\<close>) or ends the process with an exit code;
  \<open>exitOnError\<close> is \<open>if err != nil { setupLog.Error(...); os.Exit(1) }\<close>.  \<open>GetConfigOrDie\<close> is
  documented to do the same when there is no configuration.
\<close>

definition exitOnError :: "('w, goerror option) io \<Rightarrow> ('w, nat option) io" where
  "exitOnError m = bind m (\<lambda>err. return (case err of None \<Rightarrow> None | Some _ \<Rightarrow> Some 1))"

definition andThen :: "('w, nat option) io \<Rightarrow> ('w, nat option) io \<Rightarrow> ('w, nat option) io" where
  "andThen m k = bind m (\<lambda>r. case r of None \<Rightarrow> k | Some code \<Rightarrow> return (Some code))"

definition managerOptions :: "flags \<Rightarrow> manager_options" where
  "managerOptions fs =
     \<lparr>mo_Scheme = main_scheme, mo_LeaderElection = enableLeaderElection fs,
      mo_LeaderElectionID = ''controller-leader-election-caph'',
      mo_HealthProbeBindAddress = healthAddr fs, mo_BurstSize = 100,
      mo_DefaultNamespaces = (if watchNamespace fs \<noteq> [] then Some [watchNamespace fs] else None),
      mo_SyncPeriod = syncPeriod fs, mo_WebhookPort = webhookPort fs\<rparr>"

definition controllersLog :: "string \<Rightarrow> logger" where
  "controllersLog n = \<lparr>log_Names = [''controllers'', n], log_Values = []\<rparr>"

definition concurrency :: "int \<Rightarrow> controller_options" where
  "concurrency n = \<lparr>co_MaxConcurrentReconciles = n, co_RateLimiter = DefaultTypedControllerRateLimiter\<rparr>"

definition machineReconciler :: "'w runtime \<Rightarrow> 'w AzureStackHCIMachineReconciler" where
  "machineReconciler mgr = \<lparr>hmr_Client = rt_GetClient mgr, hmr_Log = controllersLog ''AzureStackHCIMachine'',
     hmr_Recorder = ''azurestackhcimachine-reconciler''\<rparr>"

definition clusterReconciler :: "'w runtime \<Rightarrow> 'w AzureStackHCIClusterReconciler" where
  "clusterReconciler mgr = \<lparr>hcr_Client = rt_GetClient mgr, hcr_Log = controllersLog ''AzureStackHCICluster'',
     hcr_Recorder = ''azurestackhcicluster-reconciler''\<rparr>"

definition loadBalancerReconciler :: "'w runtime \<Rightarrow> 'w AzureStackHCILoadBalancerReconciler" where
  "loadBalancerReconciler mgr = \<lparr>lbr_Client = rt_GetClient mgr, lbr_Log = controllersLog ''AzureStackHCILoadBalancer'',
     lbr_Recorder = ''azurestackhciloadbalancer-reconciler''\<rparr>"

definition virtualMachineReconciler :: "'w runtime \<Rightarrow> 'w AzureStackHCIVirtualMachineReconciler" where
  "virtualMachineReconciler mgr = \<lparr>vmr_Client = rt_GetClient mgr, vmr_Log = controllersLog ''AzureStackHCIVirtualMachine'',
     vmr_Scheme = main_scheme, vmr_Recorder = ''azurestackhcivirtualmachine-reconciler''\<rparr>"

definition main_controllers :: "lib \<Rightarrow> 'w sys \<Rightarrow> 'w moc \<Rightarrow> 'w runtime \<Rightarrow> flags \<Rightarrow> ('w, nat option) io" where
  "main_controllers L S M mgr fs =
     andThen (exitOnError (Machine_SetupWithManager L S (machineReconciler mgr) mgr
         (concurrency (azureStackHCIMachineConcurrency fs))))
    (andThen (exitOnError (Cluster_SetupWithManager L S M (clusterReconciler mgr) mgr
         (concurrency (azureStackHCIClusterConcurrency fs))))
    (andThen (exitOnError (LB_SetupWithManager L S M (loadBalancerReconciler mgr) mgr
         (concurrency (azureStackHCIloadBalancerConcurrency fs))))
     (exitOnError (VM_SetupWithManager L S M (virtualMachineReconciler mgr) mgr
         (concurrency (azureStackHCIVirtualMachineConcurrency fs))))))"

definition main_webhooks :: "'w runtime \<Rightarrow> ('w, nat option) io" where
  "main_webhooks mgr =
     andThen (exitOnError (Cluster_SetupWebhookWithManager mgr))
    (andThen (exitOnError (Machine_SetupWebhookWithManager mgr))
    (andThen (exitOnError (MachineTemplate_SetupWebhookWithManager mgr))
    (andThen (exitOnError (VM_SetupWebhookWithManager mgr))
     (exitOnError (LB_SetupWebhookWithManager mgr)))))"

definition EndpointChecker :: "lib \<Rightarrow> 'w runtime \<Rightarrow> string \<Rightarrow> 'w checker" where
  "EndpointChecker L R targetIPAddress = bind (rt_DialTimeout R ''tcp'' targetIPAddress 1000000000) (\<lambda>err. case err of
      Some err \<Rightarrow> return (Some (ErrorNew (''failed to dial: '' @ err_Error L err)))
    | None \<Rightarrow> return None)"

definition setupChecks :: "lib \<Rightarrow> 'w sys \<Rightarrow> 'w runtime \<Rightarrow> ('w, nat option) io" where
  "setupChecks L S mgr =
     andThen (exitOnError (rt_AddReadyzCheck mgr ''ping'' (rt_Ping mgr)))
     (bind (sys_Getenv S ''AZURESTACKHCI_CLOUDAGENT_FQDN'') (\<lambda>cloudAgentFqdn.
        if cloudAgentFqdn = [] then return (Some 1)
        else exitOnError (rt_AddHealthzCheck mgr ''ping'' (EndpointChecker L mgr (cloudAgentFqdn @ '':55000'')))))"

definition main_run :: "lib \<Rightarrow> 'w sys \<Rightarrow> 'w moc \<Rightarrow> 'w runtime \<Rightarrow> flags \<Rightarrow> ('w, nat option) io" where
  "main_run L S M mgr fs =
     bind (if profilerAddress fs \<noteq> [] then sys_go S (rt_ListenAndServe mgr (profilerAddress fs)) else return ()) (\<lambda>_.
     andThen (exitOnError (rt_GetConfig mgr))
    (andThen (exitOnError (rt_NewManager mgr (managerOptions fs)))
     (bind (rt_InitFromRecorder mgr ''azurestackhci-controller'') (\<lambda>_.
     andThen (main_controllers L S M mgr fs)
    (andThen (main_webhooks mgr)
    (andThen (setupChecks L S mgr)
     (exitOnError (rt_Start mgr))))))))"

definition main :: "lib \<Rightarrow> 'w sys \<Rightarrow> 'w moc \<Rightarrow> 'w runtime \<Rightarrow> ('w, nat option) io" where
  "main L S M mgr = bind (rt_Parse mgr (InitFlags (rt_FeatureGates mgr))) (\<lambda>r. case r of
      Inl code \<Rightarrow> return (Some code)
    | Inr fs \<Rightarrow> main_run L S M mgr fs)"


subsection \<open>What start-up does\<close>

text \<open>
  The calls of \<open>main\<close> that ask controller-runtime for something, as values.  A log holds their
  labels: a controller carries functions on the world, so the world cannot hold every controller,
  and a labelling says what of a call the log keeps.  \<open>startup_log\<close>: every such call is logged
  with its success, and nothing else is.
\<close>

datatype 'w startup =
    GetConfig
  | NewManager manager_options
  | NewController "'w controller"
  | NewWebhook GroupVersionKind
  | NewReadyzCheck string "'w checker"
  | NewHealthzCheck string "'w checker"
  | StartManager

definition unlogged :: "('w \<Rightarrow> ('l \<times> bool) list) \<Rightarrow> ('w, 'a) io \<Rightarrow> bool" where
  "unlogged log m \<longleftrightarrow> (\<forall>l. hoare (\<lambda>w. log w = l) m (\<lambda>_ w. log w = l) (\<lambda>_. True))"

definition logged :: "('w \<Rightarrow> ('l \<times> bool) list) \<Rightarrow> ('w, goerror option) io \<Rightarrow> 'l \<Rightarrow> bool" where
  "logged log m c \<longleftrightarrow> (\<forall>l. hoare (\<lambda>w. log w = l) m (\<lambda>err w. log w = l @ [(c, err = None)]) (\<lambda>_. True))"

definition startup_log :: "('w startup \<Rightarrow> 'l) \<Rightarrow> 'w sys \<Rightarrow> 'w runtime \<Rightarrow> ('w \<Rightarrow> ('l \<times> bool) list) \<Rightarrow> bool" where
  "startup_log label S R log \<longleftrightarrow>
     (\<forall>x. unlogged log (sys_Getenv S x)) \<and> (\<forall>x. unlogged log (sys_go S (rt_ListenAndServe R x))) \<and>
     (\<forall>x. unlogged log (rt_InitFromRecorder R x)) \<and> (\<forall>x. unlogged log (rt_Parse R x)) \<and>
     logged log (rt_GetConfig R) (label GetConfig) \<and> (\<forall>x. logged log (rt_NewManager R x) (label (NewManager x))) \<and>
     (\<forall>x. logged log (rt_CompleteController R x) (label (NewController x))) \<and>
     (\<forall>x. logged log (rt_CompleteWebhook R x) (label (NewWebhook x))) \<and>
     (\<forall>x c. logged log (rt_AddReadyzCheck R x c) (label (NewReadyzCheck x c))) \<and>
     (\<forall>x c. logged log (rt_AddHealthzCheck R x c) (label (NewHealthzCheck x c))) \<and>
     logged log (rt_Start R) (label StartManager)"

text \<open>
  The reference: everything the manager has to be told before it may start, and the two calls
  that need the address of the cloud agent.
\<close>

definition registrations :: "lib \<Rightarrow> 'w sys \<Rightarrow> 'w moc \<Rightarrow> 'w runtime \<Rightarrow> flags \<Rightarrow> 'w startup list" where
  "registrations L S M R fs =
     [GetConfig, NewManager (managerOptions fs),
      NewController (Machine_controller L S (machineReconciler R) (concurrency (azureStackHCIMachineConcurrency fs))),
      NewController (Cluster_controller L S M (clusterReconciler R) (concurrency (azureStackHCIClusterConcurrency fs))),
      NewController (LB_controller L S M (loadBalancerReconciler R) (concurrency (azureStackHCIloadBalancerConcurrency fs))),
      NewController (VM_controller L S M (virtualMachineReconciler R) (concurrency (azureStackHCIVirtualMachineConcurrency fs)))] @
     map (\<lambda>k. NewWebhook (GroupVersion_v1beta2 k))
       [''AzureStackHCICluster'', ''AzureStackHCIMachine'', ''AzureStackHCIMachineTemplate'',
        ''AzureStackHCIVirtualMachine'', ''AzureStackHCILoadBalancer''] @
     [NewReadyzCheck ''ping'' (rt_Ping R)]"

definition agent_calls :: "lib \<Rightarrow> 'w runtime \<Rightarrow> string \<Rightarrow> 'w startup list" where
  "agent_calls L R fqdn = [NewHealthzCheck ''ping'' (EndpointChecker L R (fqdn @ '':55000'')), StartManager]"

text \<open>
  A step \<open>follows\<close> a description of its outcomes when the exit code and what it adds to the log
  are among them; \<open>script cs\<close>: all of \<open>cs\<close> succeed, or the process exits with 1 at the first
  that does not.
\<close>

definition follows :: "('w \<Rightarrow> ('l \<times> bool) list) \<Rightarrow> ('w, nat option) io \<Rightarrow>
    (nat option \<Rightarrow> ('l \<times> bool) list \<Rightarrow> bool) \<Rightarrow> bool" where
  "follows log m P \<longleftrightarrow> (\<forall>l. hoare (\<lambda>w. log w = l) m (\<lambda>code w. \<exists>d. log w = l @ d \<and> P code d) (\<lambda>_. True))"

definition script :: "'l list \<Rightarrow> nat option \<Rightarrow> ('l \<times> bool) list \<Rightarrow> bool" where
  "script cs code d \<longleftrightarrow> (case code of
      None \<Rightarrow> d = map (\<lambda>c. (c, True)) cs
    | Some n \<Rightarrow> n = 1 \<and> (\<exists>before c after. cs = before @ c # after \<and> d = map (\<lambda>c. (c, True)) before @ [(c, False)]))"

lemma followsD:
  assumes "follows log m P" "log w = l" "m w = (Ret code, w')"
  shows "\<exists>d. log w' = l @ d \<and> P code d"
proof -
  from assms(1) have "hoare (\<lambda>w. log w = l) m (\<lambda>code w. \<exists>d. log w = l @ d \<and> P code d) (\<lambda>_. True)"
    unfolding follows_def by blast
  from hoareD_Ret [OF this assms(2,3)] show ?thesis .
qed

lemma follows_exitOnError: "logged log m c \<Longrightarrow> follows log (exitOnError m) (script [c])"
  unfolding follows_def logged_def exitOnError_def
  by (intro allI, erule allE, erule hoare_bind)
    (auto simp: hoare_def script_def split: option.splits intro: exI [of _ "[]"])

lemma follows_unlogged:
  assumes "unlogged log m" "\<And>x u v. m u = (Ret x, v) \<Longrightarrow> follows log (f x) P"
  shows "follows log (bind m f) P"
  unfolding follows_def
proof (intro allI, rule hoare_bind)
  fix l
  show "hoare (\<lambda>w. log w = l) m (\<lambda>x w. log w = l \<and> (\<exists>u v. m u = (Ret x, v))) (\<lambda>_. True)"
    using assms(1) by (auto simp: unlogged_def intro!: hoareI dest: hoareD_Ret)
  show "hoare (\<lambda>w. log w = l \<and> (\<exists>u v. m u = (Ret x, v))) (f x) (\<lambda>code w. \<exists>d. log w = l @ d \<and> P code d) (\<lambda>_. True)" for x
    using assms(2) [of _ x] by (intro hoare_pure) (auto simp: follows_def)
qed

lemma follows_andThen:
  assumes m: "follows log m (script cs)" and k: "follows log k P"
    and go_on: "\<And>code d. P code d \<Longrightarrow> Q code (map (\<lambda>c. (c, True)) cs @ d)"
    and stop: "\<And>code d. script cs (Some code) d \<Longrightarrow> Q (Some code) d"
  shows "follows log (andThen m k) Q"
  unfolding follows_def andThen_def
proof (intro allI, rule hoare_bind)
  fix l
  show "hoare (\<lambda>w. log w = l) m (\<lambda>code w. \<exists>d. log w = l @ d \<and> script cs code d) (\<lambda>_. True)"
    using m by (simp add: follows_def)
  fix r
  show "hoare (\<lambda>w. \<exists>d. log w = l @ d \<and> script cs r d) (case r of None \<Rightarrow> k | Some code \<Rightarrow> return (Some code))
      (\<lambda>code w. \<exists>d. log w = l @ d \<and> Q code d) (\<lambda>_. True)"
  proof (cases r)
    case None
    have "hoare (\<lambda>w. log w = l @ map (\<lambda>c. (c, True)) cs) k
        (\<lambda>code w. \<exists>d. log w = (l @ map (\<lambda>c. (c, True)) cs) @ d \<and> P code d) (\<lambda>_. True)"
      using k unfolding follows_def by blast
    then have "hoare (\<lambda>w. \<exists>d. log w = l @ d \<and> script cs None d) k (\<lambda>code w. \<exists>d. log w = l @ d \<and> Q code d) (\<lambda>_. True)"
      by (rule hoare_weaken) (use go_on in \<open>auto simp: script_def\<close>)
    with None show ?thesis by simp
  qed (use stop in \<open>auto intro!: hoare_return\<close>)
qed

lemma script_append_ok: "script ds code d \<Longrightarrow> script (cs @ ds) code (map (\<lambda>c. (c, True)) cs @ d)"
  by (cases code) (auto simp: script_def, metis append.assoc map_append)

lemma script_append_stop: "script cs (Some n) d \<Longrightarrow> script (cs @ ds) (Some n) d"
  unfolding script_def by (auto, metis)

lemma follows_script:
  assumes "follows log m (script cs)" "follows log k (script ds)"
  shows "follows log (andThen m k) (script (cs @ ds))"
  using assms by (rule follows_andThen) (auto intro: script_append_ok script_append_stop)

lemma andThen_assoc: "andThen (andThen m k) n = andThen m (andThen k n)"
  unfolding andThen_def bind_assoc by (intro arg_cong [where f = "bind m"] ext) (simp split: option.split)

lemma andThen_bind: "andThen (bind m f) k = bind m (\<lambda>x. andThen (f x) k)"
  by (simp add: andThen_def bind_assoc)


lemmas startup_steps =
  Machine_SetupWithManager_def Cluster_SetupWithManager_def LB_SetupWithManager_def VM_SetupWithManager_def
  Cluster_SetupWebhookWithManager_def Machine_SetupWebhookWithManager_def
  MachineTemplate_SetupWebhookWithManager_def VM_SetupWebhookWithManager_def LB_SetupWebhookWithManager_def

lemma startup_log_follows:
  assumes "startup_log label S R log"
  shows "follows log (exitOnError (rt_GetConfig R)) (script [label GetConfig])"
    "follows log (exitOnError (rt_NewManager R x)) (script [label (NewManager x)])"
    "follows log (exitOnError (rt_CompleteController R ct)) (script [label (NewController ct)])"
    "follows log (exitOnError (rt_CompleteWebhook R k)) (script [label (NewWebhook k)])"
    "follows log (exitOnError (rt_AddReadyzCheck R n c)) (script [label (NewReadyzCheck n c)])"
    "follows log (exitOnError (rt_AddHealthzCheck R n c)) (script [label (NewHealthzCheck n c)])"
    "follows log (exitOnError (rt_Start R)) (script [label StartManager])"
  using assms by (auto simp: startup_log_def intro!: follows_exitOnError)

lemma startup_log_unlogged:
  assumes "startup_log label S R log"
  shows "unlogged log (sys_Getenv S x)" "unlogged log (rt_InitFromRecorder R x)" "unlogged log (rt_Parse R fs)"
    "unlogged log (if b then sys_go S (rt_ListenAndServe R x) else return ())"
  using assms by (auto simp: startup_log_def unlogged_def intro: hoare_return)

lemma andThen_exit [simp]: "andThen (return (Some n)) k = return (Some n)"
  by (rule ext) (simp add: andThen_def)

lemma follows_exit: "P (Some n) [] \<Longrightarrow> follows log (return (Some n)) P"
  by (simp add: follows_def hoare_def)

lemma follows_weaken: "follows log m P \<Longrightarrow> (\<And>code d. P code d \<Longrightarrow> Q code d) \<Longrightarrow> follows log m Q"
  unfolding follows_def by (blast intro: hoare_weaken)

text \<open>
  Once the registrations \<open>cs\<close> are done, the address of the cloud agent decides: without one the
  process exits, with one the health check is added and the manager started.
\<close>

definition agent_outcome :: "('w startup \<Rightarrow> 'l) \<Rightarrow> lib \<Rightarrow> 'w sys \<Rightarrow> 'w runtime \<Rightarrow> 'l list \<Rightarrow> nat option \<Rightarrow> ('l \<times> bool) list \<Rightarrow> bool" where
  "agent_outcome label L S R cs code d \<longleftrightarrow>
     (\<exists>fqdn u v. sys_Getenv S ''AZURESTACKHCI_CLOUDAGENT_FQDN'' u = (Ret fqdn, v) \<and>
       (if fqdn = [] then code = Some 1 \<and> d = map (\<lambda>c. (c, True)) cs
        else script (cs @ map label (agent_calls L R fqdn)) code d))"

definition startup_outcome :: "('w startup \<Rightarrow> 'l) \<Rightarrow> lib \<Rightarrow> 'w sys \<Rightarrow> 'w runtime \<Rightarrow> 'l list \<Rightarrow> nat option \<Rightarrow> ('l \<times> bool) list \<Rightarrow> bool" where
  "startup_outcome label L S R cs code d \<longleftrightarrow> (code \<noteq> None \<and> script cs code d) \<or> agent_outcome label L S R cs code d"

lemma startup_outcome_append:
  "startup_outcome label L S R ds code d \<Longrightarrow> startup_outcome label L S R (cs @ ds) code (map (\<lambda>c. (c, True)) cs @ d)"
  by (auto simp: startup_outcome_def agent_outcome_def intro: script_append_ok split: if_splits)

lemma startup_outcome_stop: "script cs (Some n) d \<Longrightarrow> startup_outcome label L S R (cs @ ds) (Some n) d"
  by (simp add: startup_outcome_def script_append_stop)

lemma startup_outcome_agent:
  assumes "sys_Getenv S ''AZURESTACKHCI_CLOUDAGENT_FQDN'' u = (Ret fqdn, v)"
    and "if fqdn = [] then code = Some 1 \<and> d = [] else script (map label (agent_calls L R fqdn)) code d"
  shows "startup_outcome label L S R [] code d"
  unfolding startup_outcome_def agent_outcome_def using assms by (intro disjI2 exI conjI) auto

lemma follows_startup:
  assumes "follows log m (script cs)" "follows log k (startup_outcome label L S R ds)"
  shows "follows log (andThen m k) (startup_outcome label L S R (cs @ ds))"
  using assms by (rule follows_andThen) (auto intro: startup_outcome_append startup_outcome_stop)

lemma setupChecks_follows:
  assumes "startup_log label S R log"
  shows "follows log (andThen (setupChecks L S R) (exitOnError (rt_Start R)))
    (startup_outcome label L S R [label (NewReadyzCheck ''ping'' (rt_Ping R))])"
proof -
  let ?check = "\<lambda>fqdn. if fqdn = [] then return (Some 1)
    else exitOnError (rt_AddHealthzCheck R ''ping'' (EndpointChecker L R (fqdn @ '':55000'')))"
  note steps = startup_log_follows [OF assms]
  have agent: "follows log (andThen (?check fqdn) (exitOnError (rt_Start R))) (startup_outcome label L S R [])"
    if "sys_Getenv S ''AZURESTACKHCI_CLOUDAGENT_FQDN'' u = (Ret fqdn, v)" for fqdn u v
  proof (cases "fqdn = []")
    case True
    have "startup_outcome label L S R [] (Some 1) []"
      by (rule startup_outcome_agent [OF that]) (simp add: True)
    with True show ?thesis by (simp add: follows_exit)
  next
    case False
    from follows_script [OF steps(6,7)] have "follows log (andThen (?check fqdn) (exitOnError (rt_Start R)))
        (script (map label (agent_calls L R fqdn)))"
      using False by (simp add: agent_calls_def)
    then show ?thesis
      by (rule follows_weaken) (use that False in \<open>auto intro: startup_outcome_agent\<close>)
  qed
  have "follows log (bind (sys_Getenv S ''AZURESTACKHCI_CLOUDAGENT_FQDN'') (\<lambda>fqdn.
      andThen (?check fqdn) (exitOnError (rt_Start R)))) (startup_outcome label L S R [])"
    by (rule follows_unlogged [OF startup_log_unlogged(1) [OF assms] agent])
  from follows_startup [OF steps(5) this] show ?thesis
    by (simp add: setupChecks_def andThen_assoc andThen_bind)
qed

lemma main_run_follows:
  assumes "startup_log label S R log"
  shows "follows log (main_run L S M R fs) (startup_outcome label L S R (map label (registrations L S M R fs)))"
proof -
  note steps = startup_log_follows [OF assms] and quiet = startup_log_unlogged [OF assms]
  have "follows log (bind (rt_InitFromRecorder R ''azurestackhci-controller'') (\<lambda>_.
      andThen (main_controllers L S M R fs) (andThen (main_webhooks R)
        (andThen (setupChecks L S R) (exitOnError (rt_Start R))))))
      (startup_outcome label L S R (map label (drop 2 (registrations L S M R fs))))"
    unfolding main_controllers_def main_webhooks_def startup_steps andThen_assoc
    by (rule follows_unlogged [OF quiet(2)], simp add: registrations_def)
      (intro follows_startup [where cs = "[_]", simplified] steps setupChecks_follows [OF assms])
  from follows_unlogged [OF quiet(4) follows_startup [OF steps(1) follows_startup [OF steps(2) this]]]
  show ?thesis by (simp add: main_run_def registrations_def)
qed


text \<open>
  C32: Start-up is all or nothing.  Whatever the command line and the environment say, the calls
  of the process to controller-runtime are, in order and without omission, a configuration, the
  manager with the options of the flags, the controllers of machines, clusters, load balancers and
  virtual machines, each for its kind, with its watches, its reconcile function and its
  concurrency flag, the five webhooks and the readiness check; then, only with the address of the
  cloud agent in the environment, the health check that dials port 55000 of it, and the start.
  The first call that fails is the last one and the process exits with code 1; it does the same
  when the address is missing.  So a manager that starts has everything registered.  This is so
  for every value of \<open>--webhook-port\<close>, although the help of that flag says that no reconcilers are
  installed when the webhook server is enabled.
\<close>

theorem main_startup:
  assumes "startup_log label S R log" "log w = []"
    and "rt_Parse R (InitFlags (rt_FeatureGates R)) w = (Ret (Inr fs), w1)"
    and "main L S M R w = (Ret code, w')"
  shows "(code \<noteq> None \<and> script (map label (registrations L S M R fs)) code (log w')) \<or>
    (\<exists>fqdn u v. sys_Getenv S ''AZURESTACKHCI_CLOUDAGENT_FQDN'' u = (Ret fqdn, v) \<and>
       (if fqdn = [] then code = Some 1 \<and> log w' = map (\<lambda>c. (c, True)) (map label (registrations L S M R fs))
        else script (map label (registrations L S M R fs @ agent_calls L R fqdn)) code (log w')))"
proof -
  have "hoare (\<lambda>w. log w = []) (rt_Parse R (InitFlags (rt_FeatureGates R))) (\<lambda>_ w. log w = []) (\<lambda>_. True)"
    using startup_log_unlogged(3) [OF assms(1)] by (simp add: unlogged_def)
  from hoareD_Ret [OF this assms(2,3)] have "log w1 = []" .
  moreover have "main_run L S M R fs w1 = (Ret code, w')"
    using assms(3,4) by (simp add: main_def bind_def)
  ultimately have "startup_outcome label L S R (map label (registrations L S M R fs)) code (log w')"
    using followsD [OF main_run_follows [OF assms(1)], of w1 "[]"] by simp
  then show ?thesis unfolding startup_outcome_def agent_outcome_def map_append .
qed

text \<open>
  Evaluation: a runtime that logs what it is told and fails on the third webhook, with the log
  keeping the kind of what was registered.
\<close>

primrec startup_name :: "'w startup \<Rightarrow> string" where
  "startup_name GetConfig = ''config''"
| "startup_name (NewManager x) = mo_LeaderElectionID x"
| "startup_name (NewController x) = gvk_Kind (ct_For x)"
| "startup_name (NewWebhook x) = gvk_Kind x"
| "startup_name (NewReadyzCheck x c) = x"
| "startup_name (NewHealthzCheck x c) = x"
| "startup_name StartManager = ''start''"

definition log_call :: "string \<Rightarrow> bool \<Rightarrow> ((string \<times> bool) list, goerror option) io" where
  "log_call n ok = bind (modify (\<lambda>l. l @ [(n, ok)])) (\<lambda>_. return (if ok then None else Some (External n)))"

definition runtime0 :: "(string \<times> bool) list runtime" where
  "runtime0 = \<lparr>rt_FeatureGates = [], rt_Parse = (\<lambda>fs. return (Inr fs)), rt_ListenAndServe = (\<lambda>_. return ()),
     rt_GetConfig = log_call ''config'' True, rt_NewManager = (\<lambda>x. log_call (mo_LeaderElectionID x) True),
     rt_GetClient = kube0, rt_InitFromRecorder = (\<lambda>_. return ()),
     rt_CompleteController = (\<lambda>x. log_call (gvk_Kind (ct_For x)) True),
     rt_CompleteWebhook = (\<lambda>x. log_call (gvk_Kind x) (gvk_Kind x \<noteq> ''AzureStackHCIMachineTemplate'')),
     rt_Ping = return None, rt_AddReadyzCheck = (\<lambda>x _. log_call x True),
     rt_AddHealthzCheck = (\<lambda>x _. log_call x True), rt_DialTimeout = (\<lambda>_ _ _. return None),
     rt_Start = log_call ''start'' True\<rparr>"

lemma startup_log0: "startup_log startup_name sys0 runtime0 (\<lambda>w. w)"
proof -
  have call: "logged (\<lambda>w. w) (log_call n ok) n" for n ok
    by (simp add: logged_def log_call_def hoare_def)
  have quiet: "unlogged (\<lambda>w. w) (return x)" for x :: 'a
    by (simp add: unlogged_def hoare_return)
  show ?thesis by (simp add: startup_log_def runtime0_def sys0_def call quiet)
qed

theorem main_startup_witness:
  "\<exists>log. main lib0 sys0 moc0 runtime0 [] = (Ret (Some 1), log) \<and>
     log = map (\<lambda>n. (n, True)) [''config'', ''controller-leader-election-caph'', ''AzureStackHCIMachine'', ''AzureStackHCICluster'',
       ''AzureStackHCILoadBalancer'', ''AzureStackHCIVirtualMachine'', ''AzureStackHCICluster'', ''AzureStackHCIMachine''] @
       [(''AzureStackHCIMachineTemplate'', False)] \<and>
     script (map startup_name (registrations lib0 sys0 moc0 runtime0 (InitFlags []) @ agent_calls lib0 runtime0 ''set'')) (Some 1) log"
proof -
  let ?log = "map (\<lambda>n. (n, True)) [''config'', ''controller-leader-election-caph'', ''AzureStackHCIMachine'', ''AzureStackHCICluster'',
       ''AzureStackHCILoadBalancer'', ''AzureStackHCIVirtualMachine'', ''AzureStackHCICluster'', ''AzureStackHCIMachine''] @
       [(''AzureStackHCIMachineTemplate'', False)]"
  have run: "main lib0 sys0 moc0 runtime0 [] = (Ret (Some 1), ?log)"
    by (simp add: main_def main_run_def main_controllers_def main_webhooks_def startup_steps andThen_def exitOnError_def
        bind_def runtime0_def log_call_def InitFlags_def profilerAddress_def string_flag_def managerOptions_def
        Machine_controller_def Cluster_controller_def LB_controller_def VM_controller_def GroupVersion_v1beta2_def)
  have parse: "rt_Parse runtime0 (InitFlags (rt_FeatureGates runtime0)) [] = (Ret (Inr (InitFlags [])), [])"
    by (simp add: runtime0_def)
  have env: "sys_Getenv sys0 ''AZURESTACKHCI_CLOUDAGENT_FQDN'' u = (Ret fqdn, v) \<longleftrightarrow> fqdn = ''set'' \<and> v = u"
    for fqdn and u v :: "(string \<times> bool) list" by (auto simp: sys0_def)
  from main_startup [OF startup_log0 refl parse run] have "script (map startup_name (registrations lib0 sys0 moc0 runtime0 (InitFlags []) @ agent_calls lib0 runtime0 ''set'')) (Some 1) ?log"
    unfolding env by (elim disjE exE conjE) (simp_all only: map_append script_append_stop, simp)
  with run show ?thesis by blast
qed

end
