(* ===== verification/Scheme.thy ===== *)
theory Scheme
  imports Manager
begin

text \<open>
  How the program learns its types: \<open>RegisterConversions\<close> of \<open>api/v1beta1/zz_generated.conversion.go\<close>,
  the scheme builders of \<open>api/*/groupversion_info.go\<close> with the lists of object types that the \<open>init\<close>
  functions of the type files fill, and the \<open>init\<close> of \<open>cmd/manager/main.go\<close>.  The scheme itself is the
  library's; a registration is a call on it.
\<close>

subsection \<open>Types and conversions\<close>

text \<open>
  The types that both API packages have, under the same names, and the library's that are converted.
  \<open>v1beta2\<close> has two more, \<open>AzureStackHCIClusterInitializationStatus\<close> and
  \<open>AzureStackHCIMachineInitializationStatus\<close>, to which no type of \<open>v1beta1\<close> corresponds.
\<close>

datatype apitype =
    AzureStackHCICluster_t | AzureStackHCIClusterList_t | AzureStackHCIClusterSpec_t
  | AzureStackHCIClusterTemplate_t | AzureStackHCIClusterTemplateList_t | AzureStackHCIClusterTemplateResource_t
  | AzureStackHCIClusterTemplateSpec_t | AzureStackHCILoadBalancer_t | AzureStackHCILoadBalancerList_t
  | AzureStackHCILoadBalancerStatus_t | AzureStackHCIMachine_t | AzureStackHCIMachineList_t
  | AzureStackHCIMachineProviderCondition_t | AzureStackHCIMachineTemplate_t | AzureStackHCIMachineTemplateList_t
  | AzureStackHCIMachineTemplateResource_t | AzureStackHCIMachineTemplateSpec_t | AzureStackHCIResourceReference_t
  | AzureStackHCIVirtualMachine_t | AzureStackHCIVirtualMachineList_t | AzureStackHCIVirtualMachineStatus_t
  | IpConfigurationSpec_t | ManagedDisk_t | NetworkInterfaceSpec_t
  | NetworkSpec_t | SubnetSpec_t | VM_t
  | VnetSpec_t | AvailabilityZone_t | AzureStackHCIClusterStatus_t
  | AzureStackHCILoadBalancerSpec_t | AzureStackHCIMachineSpec_t | AzureStackHCIMachineStatus_t
  | AzureStackHCIVirtualMachineSpec_t | Image_t | OSDisk_t

datatype gotype = V1beta1 apitype | V1beta2 apitype
  | SliceCorev1beta1Condition | SliceV1Condition | V1Condition | Corev1beta1Condition | Corev1beta1APIEndpoint | Corev1beta2APIEndpoint

text \<open>The function \<open>Convert_a_To_b\<close>, and its registration for a pair of types.\<close>

datatype convert_func = Convert gotype gotype

type_synonym registration = "gotype \<times> gotype \<times> convert_func"

definition cluster_conversions :: "registration list" where
  "cluster_conversions = [
     (V1beta2 AzureStackHCICluster_t, V1beta1 AzureStackHCICluster_t, Convert (V1beta2 AzureStackHCICluster_t) (V1beta1 AzureStackHCICluster_t)),
     (V1beta1 AzureStackHCICluster_t, V1beta2 AzureStackHCICluster_t, Convert (V1beta1 AzureStackHCICluster_t) (V1beta2 AzureStackHCICluster_t)),
     (V1beta2 AzureStackHCIClusterList_t, V1beta1 AzureStackHCIClusterList_t, Convert (V1beta2 AzureStackHCIClusterList_t) (V1beta1 AzureStackHCIClusterList_t)),
     (V1beta1 AzureStackHCIClusterList_t, V1beta2 AzureStackHCIClusterList_t, Convert (V1beta1 AzureStackHCIClusterList_t) (V1beta2 AzureStackHCIClusterList_t)),
     (V1beta2 AzureStackHCIClusterSpec_t, V1beta1 AzureStackHCIClusterSpec_t, Convert (V1beta2 AzureStackHCIClusterSpec_t) (V1beta1 AzureStackHCIClusterSpec_t)),
     (V1beta1 AzureStackHCIClusterSpec_t, V1beta2 AzureStackHCIClusterSpec_t, Convert (V1beta1 AzureStackHCIClusterSpec_t) (V1beta2 AzureStackHCIClusterSpec_t)),
     (V1beta2 AzureStackHCIClusterTemplate_t, V1beta1 AzureStackHCIClusterTemplate_t, Convert (V1beta2 AzureStackHCIClusterTemplate_t) (V1beta1 AzureStackHCIClusterTemplate_t)),
     (V1beta1 AzureStackHCIClusterTemplate_t, V1beta2 AzureStackHCIClusterTemplate_t, Convert (V1beta1 AzureStackHCIClusterTemplate_t) (V1beta2 AzureStackHCIClusterTemplate_t)),
     (V1beta2 AzureStackHCIClusterTemplateList_t, V1beta1 AzureStackHCIClusterTemplateList_t, Convert (V1beta2 AzureStackHCIClusterTemplateList_t) (V1beta1 AzureStackHCIClusterTemplateList_t)),
     (V1beta1 AzureStackHCIClusterTemplateList_t, V1beta2 AzureStackHCIClusterTemplateList_t, Convert (V1beta1 AzureStackHCIClusterTemplateList_t) (V1beta2 AzureStackHCIClusterTemplateList_t)),
     (V1beta2 AzureStackHCIClusterTemplateResource_t, V1beta1 AzureStackHCIClusterTemplateResource_t, Convert (V1beta2 AzureStackHCIClusterTemplateResource_t) (V1beta1 AzureStackHCIClusterTemplateResource_t)),
     (V1beta1 AzureStackHCIClusterTemplateResource_t, V1beta2 AzureStackHCIClusterTemplateResource_t, Convert (V1beta1 AzureStackHCIClusterTemplateResource_t) (V1beta2 AzureStackHCIClusterTemplateResource_t)),
     (V1beta2 AzureStackHCIClusterTemplateSpec_t, V1beta1 AzureStackHCIClusterTemplateSpec_t, Convert (V1beta2 AzureStackHCIClusterTemplateSpec_t) (V1beta1 AzureStackHCIClusterTemplateSpec_t)),
     (V1beta1 AzureStackHCIClusterTemplateSpec_t, V1beta2 AzureStackHCIClusterTemplateSpec_t, Convert (V1beta1 AzureStackHCIClusterTemplateSpec_t) (V1beta2 AzureStackHCIClusterTemplateSpec_t))]"

definition loadBalancer_conversions :: "registration list" where
  "loadBalancer_conversions = [
     (V1beta2 AzureStackHCILoadBalancer_t, V1beta1 AzureStackHCILoadBalancer_t, Convert (V1beta2 AzureStackHCILoadBalancer_t) (V1beta1 AzureStackHCILoadBalancer_t)),
     (V1beta1 AzureStackHCILoadBalancer_t, V1beta2 AzureStackHCILoadBalancer_t, Convert (V1beta1 AzureStackHCILoadBalancer_t) (V1beta2 AzureStackHCILoadBalancer_t)),
     (V1beta2 AzureStackHCILoadBalancerList_t, V1beta1 AzureStackHCILoadBalancerList_t, Convert (V1beta2 AzureStackHCILoadBalancerList_t) (V1beta1 AzureStackHCILoadBalancerList_t)),
     (V1beta1 AzureStackHCILoadBalancerList_t, V1beta2 AzureStackHCILoadBalancerList_t, Convert (V1beta1 AzureStackHCILoadBalancerList_t) (V1beta2 AzureStackHCILoadBalancerList_t)),
     (V1beta2 AzureStackHCILoadBalancerStatus_t, V1beta1 AzureStackHCILoadBalancerStatus_t, Convert (V1beta2 AzureStackHCILoadBalancerStatus_t) (V1beta1 AzureStackHCILoadBalancerStatus_t)),
     (V1beta1 AzureStackHCILoadBalancerStatus_t, V1beta2 AzureStackHCILoadBalancerStatus_t, Convert (V1beta1 AzureStackHCILoadBalancerStatus_t) (V1beta2 AzureStackHCILoadBalancerStatus_t))]"

definition machine_conversions :: "registration list" where
  "machine_conversions = [
     (V1beta2 AzureStackHCIMachine_t, V1beta1 AzureStackHCIMachine_t, Convert (V1beta2 AzureStackHCIMachine_t) (V1beta1 AzureStackHCIMachine_t)),
     (V1beta1 AzureStackHCIMachine_t, V1beta2 AzureStackHCIMachine_t, Convert (V1beta1 AzureStackHCIMachine_t) (V1beta2 AzureStackHCIMachine_t)),
     (V1beta2 AzureStackHCIMachineList_t, V1beta1 AzureStackHCIMachineList_t, Convert (V1beta2 AzureStackHCIMachineList_t) (V1beta1 AzureStackHCIMachineList_t)),
     (V1beta1 AzureStackHCIMachineList_t, V1beta2 AzureStackHCIMachineList_t, Convert (V1beta1 AzureStackHCIMachineList_t) (V1beta2 AzureStackHCIMachineList_t)),
     (V1beta2 AzureStackHCIMachineProviderCondition_t, V1beta1 AzureStackHCIMachineProviderCondition_t, Convert (V1beta2 AzureStackHCIMachineProviderCondition_t) (V1beta1 AzureStackHCIMachineProviderCondition_t)),
     (V1beta1 AzureStackHCIMachineProviderCondition_t, V1beta2 AzureStackHCIMachineProviderCondition_t, Convert (V1beta1 AzureStackHCIMachineProviderCondition_t) (V1beta2 AzureStackHCIMachineProviderCondition_t)),
     (V1beta2 AzureStackHCIMachineTemplate_t, V1beta1 AzureStackHCIMachineTemplate_t, Convert (V1beta2 AzureStackHCIMachineTemplate_t) (V1beta1 AzureStackHCIMachineTemplate_t)),
     (V1beta1 AzureStackHCIMachineTemplate_t, V1beta2 AzureStackHCIMachineTemplate_t, Convert (V1beta1 AzureStackHCIMachineTemplate_t) (V1beta2 AzureStackHCIMachineTemplate_t)),
     (V1beta2 AzureStackHCIMachineTemplateList_t, V1beta1 AzureStackHCIMachineTemplateList_t, Convert (V1beta2 AzureStackHCIMachineTemplateList_t) (V1beta1 AzureStackHCIMachineTemplateList_t)),
     (V1beta1 AzureStackHCIMachineTemplateList_t, V1beta2 AzureStackHCIMachineTemplateList_t, Convert (V1beta1 AzureStackHCIMachineTemplateList_t) (V1beta2 AzureStackHCIMachineTemplateList_t)),
     (V1beta2 AzureStackHCIMachineTemplateResource_t, V1beta1 AzureStackHCIMachineTemplateResource_t, Convert (V1beta2 AzureStackHCIMachineTemplateResource_t) (V1beta1 AzureStackHCIMachineTemplateResource_t)),
     (V1beta1 AzureStackHCIMachineTemplateResource_t, V1beta2 AzureStackHCIMachineTemplateResource_t, Convert (V1beta1 AzureStackHCIMachineTemplateResource_t) (V1beta2 AzureStackHCIMachineTemplateResource_t)),
     (V1beta2 AzureStackHCIMachineTemplateSpec_t, V1beta1 AzureStackHCIMachineTemplateSpec_t, Convert (V1beta2 AzureStackHCIMachineTemplateSpec_t) (V1beta1 AzureStackHCIMachineTemplateSpec_t)),
     (V1beta1 AzureStackHCIMachineTemplateSpec_t, V1beta2 AzureStackHCIMachineTemplateSpec_t, Convert (V1beta1 AzureStackHCIMachineTemplateSpec_t) (V1beta2 AzureStackHCIMachineTemplateSpec_t)),
     (V1beta2 AzureStackHCIResourceReference_t, V1beta1 AzureStackHCIResourceReference_t, Convert (V1beta2 AzureStackHCIResourceReference_t) (V1beta1 AzureStackHCIResourceReference_t)),
     (V1beta1 AzureStackHCIResourceReference_t, V1beta2 AzureStackHCIResourceReference_t, Convert (V1beta1 AzureStackHCIResourceReference_t) (V1beta2 AzureStackHCIResourceReference_t))]"

definition virtualMachine_conversions :: "registration list" where
  "virtualMachine_conversions = [
     (V1beta2 AzureStackHCIVirtualMachine_t, V1beta1 AzureStackHCIVirtualMachine_t, Convert (V1beta2 AzureStackHCIVirtualMachine_t) (V1beta1 AzureStackHCIVirtualMachine_t)),
     (V1beta1 AzureStackHCIVirtualMachine_t, V1beta2 AzureStackHCIVirtualMachine_t, Convert (V1beta1 AzureStackHCIVirtualMachine_t) (V1beta2 AzureStackHCIVirtualMachine_t)),
     (V1beta2 AzureStackHCIVirtualMachineList_t, V1beta1 AzureStackHCIVirtualMachineList_t, Convert (V1beta2 AzureStackHCIVirtualMachineList_t) (V1beta1 AzureStackHCIVirtualMachineList_t)),
     (V1beta1 AzureStackHCIVirtualMachineList_t, V1beta2 AzureStackHCIVirtualMachineList_t, Convert (V1beta1 AzureStackHCIVirtualMachineList_t) (V1beta2 AzureStackHCIVirtualMachineList_t)),
     (V1beta2 AzureStackHCIVirtualMachineStatus_t, V1beta1 AzureStackHCIVirtualMachineStatus_t, Convert (V1beta2 AzureStackHCIVirtualMachineStatus_t) (V1beta1 AzureStackHCIVirtualMachineStatus_t)),
     (V1beta1 AzureStackHCIVirtualMachineStatus_t, V1beta2 AzureStackHCIVirtualMachineStatus_t, Convert (V1beta1 AzureStackHCIVirtualMachineStatus_t) (V1beta2 AzureStackHCIVirtualMachineStatus_t))]"

definition field_conversions :: "registration list" where
  "field_conversions = [
     (V1beta2 IpConfigurationSpec_t, V1beta1 IpConfigurationSpec_t, Convert (V1beta2 IpConfigurationSpec_t) (V1beta1 IpConfigurationSpec_t)),
     (V1beta1 IpConfigurationSpec_t, V1beta2 IpConfigurationSpec_t, Convert (V1beta1 IpConfigurationSpec_t) (V1beta2 IpConfigurationSpec_t)),
     (V1beta2 ManagedDisk_t, V1beta1 ManagedDisk_t, Convert (V1beta2 ManagedDisk_t) (V1beta1 ManagedDisk_t)),
     (V1beta1 ManagedDisk_t, V1beta2 ManagedDisk_t, Convert (V1beta1 ManagedDisk_t) (V1beta2 ManagedDisk_t)),
     (V1beta2 NetworkInterfaceSpec_t, V1beta1 NetworkInterfaceSpec_t, Convert (V1beta2 NetworkInterfaceSpec_t) (V1beta1 NetworkInterfaceSpec_t)),
     (V1beta1 NetworkInterfaceSpec_t, V1beta2 NetworkInterfaceSpec_t, Convert (V1beta1 NetworkInterfaceSpec_t) (V1beta2 NetworkInterfaceSpec_t)),
     (V1beta2 NetworkSpec_t, V1beta1 NetworkSpec_t, Convert (V1beta2 NetworkSpec_t) (V1beta1 NetworkSpec_t)),
     (V1beta1 NetworkSpec_t, V1beta2 NetworkSpec_t, Convert (V1beta1 NetworkSpec_t) (V1beta2 NetworkSpec_t)),
     (V1beta2 SubnetSpec_t, V1beta1 SubnetSpec_t, Convert (V1beta2 SubnetSpec_t) (V1beta1 SubnetSpec_t)),
     (V1beta1 SubnetSpec_t, V1beta2 SubnetSpec_t, Convert (V1beta1 SubnetSpec_t) (V1beta2 SubnetSpec_t)),
     (V1beta2 VM_t, V1beta1 VM_t, Convert (V1beta2 VM_t) (V1beta1 VM_t)),
     (V1beta1 VM_t, V1beta2 VM_t, Convert (V1beta1 VM_t) (V1beta2 VM_t)),
     (V1beta2 VnetSpec_t, V1beta1 VnetSpec_t, Convert (V1beta2 VnetSpec_t) (V1beta1 VnetSpec_t)),
     (V1beta1 VnetSpec_t, V1beta2 VnetSpec_t, Convert (V1beta1 VnetSpec_t) (V1beta2 VnetSpec_t))]"

definition manual_conversions :: "registration list" where
  "manual_conversions = [
     (SliceCorev1beta1Condition, SliceV1Condition, Convert SliceCorev1beta1Condition SliceV1Condition),
     (SliceV1Condition, SliceCorev1beta1Condition, Convert SliceV1Condition SliceCorev1beta1Condition),
     (V1Condition, Corev1beta1Condition, Convert V1Condition Corev1beta1Condition),
     (Corev1beta1APIEndpoint, Corev1beta2APIEndpoint, Convert Corev1beta1APIEndpoint Corev1beta2APIEndpoint),
     (V1beta1 AvailabilityZone_t, V1beta2 AvailabilityZone_t, Convert (V1beta1 AvailabilityZone_t) (V1beta2 AvailabilityZone_t)),
     (V1beta1 AzureStackHCIClusterStatus_t, V1beta2 AzureStackHCIClusterStatus_t, Convert (V1beta1 AzureStackHCIClusterStatus_t) (V1beta2 AzureStackHCIClusterStatus_t)),
     (V1beta1 AzureStackHCILoadBalancerSpec_t, V1beta2 AzureStackHCILoadBalancerSpec_t, Convert (V1beta1 AzureStackHCILoadBalancerSpec_t) (V1beta2 AzureStackHCILoadBalancerSpec_t)),
     (V1beta1 AzureStackHCIMachineSpec_t, V1beta2 AzureStackHCIMachineSpec_t, Convert (V1beta1 AzureStackHCIMachineSpec_t) (V1beta2 AzureStackHCIMachineSpec_t)),
     (V1beta1 AzureStackHCIMachineStatus_t, V1beta2 AzureStackHCIMachineStatus_t, Convert (V1beta1 AzureStackHCIMachineStatus_t) (V1beta2 AzureStackHCIMachineStatus_t)),
     (V1beta1 AzureStackHCIVirtualMachineSpec_t, V1beta2 AzureStackHCIVirtualMachineSpec_t, Convert (V1beta1 AzureStackHCIVirtualMachineSpec_t) (V1beta2 AzureStackHCIVirtualMachineSpec_t)),
     (Corev1beta1Condition, V1Condition, Convert Corev1beta1Condition V1Condition),
     (V1beta1 Image_t, V1beta2 Image_t, Convert (V1beta1 Image_t) (V1beta2 Image_t)),
     (V1beta1 OSDisk_t, V1beta2 OSDisk_t, Convert (V1beta1 OSDisk_t) (V1beta2 OSDisk_t)),
     (Corev1beta2APIEndpoint, Corev1beta1APIEndpoint, Convert Corev1beta2APIEndpoint Corev1beta1APIEndpoint),
     (V1beta2 AvailabilityZone_t, V1beta1 AvailabilityZone_t, Convert (V1beta2 AvailabilityZone_t) (V1beta1 AvailabilityZone_t)),
     (V1beta2 AzureStackHCIClusterStatus_t, V1beta1 AzureStackHCIClusterStatus_t, Convert (V1beta2 AzureStackHCIClusterStatus_t) (V1beta1 AzureStackHCIClusterStatus_t)),
     (V1beta2 AzureStackHCILoadBalancerSpec_t, V1beta1 AzureStackHCILoadBalancerSpec_t, Convert (V1beta2 AzureStackHCILoadBalancerSpec_t) (V1beta1 AzureStackHCILoadBalancerSpec_t)),
     (V1beta2 AzureStackHCIMachineSpec_t, V1beta1 AzureStackHCIMachineSpec_t, Convert (V1beta2 AzureStackHCIMachineSpec_t) (V1beta1 AzureStackHCIMachineSpec_t)),
     (V1beta2 AzureStackHCIMachineStatus_t, V1beta1 AzureStackHCIMachineStatus_t, Convert (V1beta2 AzureStackHCIMachineStatus_t) (V1beta1 AzureStackHCIMachineStatus_t)),
     (V1beta2 AzureStackHCIVirtualMachineSpec_t, V1beta1 AzureStackHCIVirtualMachineSpec_t, Convert (V1beta2 AzureStackHCIVirtualMachineSpec_t) (V1beta1 AzureStackHCIVirtualMachineSpec_t)),
     (V1beta2 Image_t, V1beta1 Image_t, Convert (V1beta2 Image_t) (V1beta1 Image_t)),
     (V1beta2 OSDisk_t, V1beta1 OSDisk_t, Convert (V1beta2 OSDisk_t) (V1beta1 OSDisk_t))]"

subsection \<open>Registering them\<close>

text \<open>
  The calls on a \<open>runtime.Scheme\<close>, and the \<open>AddToScheme\<close> of a \<open>runtime.SchemeBuilder\<close> and of the two
  library packages; none of them is in the repository.  A group version is a group and a version.
\<close>

record 's scheme =
  sch_AddKnownTypes :: "string \<times> string \<Rightarrow> gotype list \<Rightarrow> ('s, unit) io"
  sch_AddToGroupVersion :: "string \<times> string \<Rightarrow> ('s, unit) io"
  sch_AddGeneratedConversionFunc :: "gotype \<Rightarrow> gotype \<Rightarrow> convert_func \<Rightarrow> ('s, goerror option) io"
  sch_AddConversionFunc :: "gotype \<Rightarrow> gotype \<Rightarrow> convert_func \<Rightarrow> ('s, goerror option) io"
  sch_SchemeBuilder_AddToScheme :: "('s, goerror option) io list \<Rightarrow> ('s, goerror option) io"
  sch_clientgoscheme_AddToScheme :: "('s, goerror option) io"
  sch_clusterv1_AddToScheme :: "('s, goerror option) io"

definition group_version :: "(string \<Rightarrow> GroupVersionKind) \<Rightarrow> string \<times> string" where
  "group_version withKind = (gvk_Group (withKind []), gvk_Version (withKind []))"

definition RegisterConversions :: "'s scheme \<Rightarrow> ('s, goerror option) io" where
  "RegisterConversions s =
     bind (forEach (cluster_conversions @ loadBalancer_conversions @ machine_conversions @
         virtualMachine_conversions @ field_conversions) (\<lambda>(a, b, f). sch_AddGeneratedConversionFunc s a b f)) (\<lambda>err. case err of
       Some err \<Rightarrow> return (Some err)
     | None \<Rightarrow> forEach manual_conversions (\<lambda>(a, b, f). sch_AddConversionFunc s a b f))"

text \<open>The \<open>init\<close> functions of the type files, which run in the order of the file names.\<close>

definition init_Cluster_v1beta1 :: "gotype list \<Rightarrow> gotype list" where
  "init_Cluster_v1beta1 objectTypes = objectTypes @ [V1beta1 AzureStackHCICluster_t, V1beta1 AzureStackHCIClusterList_t]"

definition init_ClusterTemplate_v1beta1 :: "gotype list \<Rightarrow> gotype list" where
  "init_ClusterTemplate_v1beta1 objectTypes = objectTypes @ [V1beta1 AzureStackHCIClusterTemplate_t, V1beta1 AzureStackHCIClusterTemplateList_t]"

definition init_LoadBalancer_v1beta1 :: "gotype list \<Rightarrow> gotype list" where
  "init_LoadBalancer_v1beta1 objectTypes = objectTypes @ [V1beta1 AzureStackHCILoadBalancer_t, V1beta1 AzureStackHCILoadBalancerList_t]"

definition init_Machine_v1beta1 :: "gotype list \<Rightarrow> gotype list" where
  "init_Machine_v1beta1 objectTypes = objectTypes @ [V1beta1 AzureStackHCIMachine_t, V1beta1 AzureStackHCIMachineList_t]"

definition init_MachineTemplate_v1beta1 :: "gotype list \<Rightarrow> gotype list" where
  "init_MachineTemplate_v1beta1 objectTypes = objectTypes @ [V1beta1 AzureStackHCIMachineTemplate_t, V1beta1 AzureStackHCIMachineTemplateList_t]"

definition init_VirtualMachine_v1beta1 :: "gotype list \<Rightarrow> gotype list" where
  "init_VirtualMachine_v1beta1 objectTypes = objectTypes @ [V1beta1 AzureStackHCIVirtualMachine_t, V1beta1 AzureStackHCIVirtualMachineList_t]"

definition init_Cluster_v1beta2 :: "gotype list \<Rightarrow> gotype list" where
  "init_Cluster_v1beta2 objectTypes = objectTypes @ [V1beta2 AzureStackHCICluster_t, V1beta2 AzureStackHCIClusterList_t]"

definition init_ClusterTemplate_v1beta2 :: "gotype list \<Rightarrow> gotype list" where
  "init_ClusterTemplate_v1beta2 objectTypes = objectTypes @ [V1beta2 AzureStackHCIClusterTemplate_t, V1beta2 AzureStackHCIClusterTemplateList_t]"

definition init_LoadBalancer_v1beta2 :: "gotype list \<Rightarrow> gotype list" where
  "init_LoadBalancer_v1beta2 objectTypes = objectTypes @ [V1beta2 AzureStackHCILoadBalancer_t, V1beta2 AzureStackHCILoadBalancerList_t]"

definition init_Machine_v1beta2 :: "gotype list \<Rightarrow> gotype list" where
  "init_Machine_v1beta2 objectTypes = objectTypes @ [V1beta2 AzureStackHCIMachine_t, V1beta2 AzureStackHCIMachineList_t]"

definition init_MachineTemplate_v1beta2 :: "gotype list \<Rightarrow> gotype list" where
  "init_MachineTemplate_v1beta2 objectTypes = objectTypes @ [V1beta2 AzureStackHCIMachineTemplate_t, V1beta2 AzureStackHCIMachineTemplateList_t]"

definition init_VirtualMachine_v1beta2 :: "gotype list \<Rightarrow> gotype list" where
  "init_VirtualMachine_v1beta2 objectTypes = objectTypes @ [V1beta2 AzureStackHCIVirtualMachine_t, V1beta2 AzureStackHCIVirtualMachineList_t]"

definition objectTypes_v1beta1 :: "gotype list" where
  "objectTypes_v1beta1 = init_VirtualMachine_v1beta1 (init_MachineTemplate_v1beta1 (init_Machine_v1beta1 (init_LoadBalancer_v1beta1 (init_ClusterTemplate_v1beta1 (init_Cluster_v1beta1 [])))))"

definition objectTypes_v1beta2 :: "gotype list" where
  "objectTypes_v1beta2 = init_VirtualMachine_v1beta2 (init_MachineTemplate_v1beta2 (init_Machine_v1beta2 (init_LoadBalancer_v1beta2 (init_ClusterTemplate_v1beta2 (init_Cluster_v1beta2 [])))))"

definition addKnownTypes_v1beta1 :: "'s scheme \<Rightarrow> ('s, goerror option) io" where
  "addKnownTypes_v1beta1 s = bind (sch_AddKnownTypes s (group_version GroupVersion_v1beta1) objectTypes_v1beta1) (\<lambda>_.
     bind (sch_AddToGroupVersion s (group_version GroupVersion_v1beta1)) (\<lambda>_. return None))"

definition addKnownTypes_v1beta2 :: "'s scheme \<Rightarrow> ('s, goerror option) io" where
  "addKnownTypes_v1beta2 s = bind (sch_AddKnownTypes s (group_version GroupVersion_v1beta2) objectTypes_v1beta2) (\<lambda>_.
     bind (sch_AddToGroupVersion s (group_version GroupVersion_v1beta2)) (\<lambda>_. return None))"

text \<open>
  The scheme builders.  \<open>AddToScheme\<close> is a method value on the variable, so it sees the conversions
  that the generated \<open>init\<close> appends to the builder of \<open>v1beta1\<close>.
\<close>

definition AddToScheme_v1beta1 :: "'s scheme \<Rightarrow> ('s, goerror option) io" where
  "AddToScheme_v1beta1 s = sch_SchemeBuilder_AddToScheme s ([addKnownTypes_v1beta1 s] @ [RegisterConversions s])"

definition AddToScheme_v1beta2 :: "'s scheme \<Rightarrow> ('s, goerror option) io" where
  "AddToScheme_v1beta2 s = sch_SchemeBuilder_AddToScheme s [addKnownTypes_v1beta2 s]"

text \<open>The \<open>init\<close> of the manager, which drops the errors.\<close>

fun package_AddToScheme :: "'s scheme \<Rightarrow> scheme_package \<Rightarrow> ('s, goerror option) io" where
  "package_AddToScheme s Clientgoscheme = sch_clientgoscheme_AddToScheme s"
| "package_AddToScheme s Clusterv1 = sch_clusterv1_AddToScheme s"
| "package_AddToScheme s Infrav1beta1 = AddToScheme_v1beta1 s"
| "package_AddToScheme s Infrav1beta2 = AddToScheme_v1beta2 s"

definition main_init :: "'s scheme \<Rightarrow> ('s, unit) io" where
  "main_init s = bind (forEach main_scheme (\<lambda>p. bind (package_AddToScheme s p) (\<lambda>_. return None))) (\<lambda>(_ :: unit option). return ())"

subsection \<open>What the scheme knows\<close>

text \<open>
  The laws of the library: what is added is there, a manual conversion is kept apart from the
  generated ones, the library's own packages leave the conversions between the two versions of the
  API alone, and a builder runs its functions in order up to an error.
\<close>

definition keeps_own :: "(gotype \<times> gotype \<Rightarrow> convert_func option) \<Rightarrow> (gotype \<times> gotype \<Rightarrow> convert_func option) \<Rightarrow> bool" where
  "keeps_own m m' \<longleftrightarrow> (\<forall>t. m' (V1beta1 t, V1beta2 t) = m (V1beta1 t, V1beta2 t) \<and> m' (V1beta2 t, V1beta1 t) = m (V1beta2 t, V1beta1 t))"

definition scheme_laws :: "'s scheme \<Rightarrow> ('s \<Rightarrow> ((string \<times> string) \<times> gotype) set) \<Rightarrow> ('s \<Rightarrow> gotype \<times> gotype \<Rightarrow> convert_func option) \<Rightarrow>
    ('s \<Rightarrow> gotype \<times> gotype \<Rightarrow> convert_func option) \<Rightarrow> bool" where
  "scheme_laws sch known generated manual \<longleftrightarrow>
     (\<forall>gv ts s. \<exists>s'. sch_AddKnownTypes sch gv ts s = (Ret (), s') \<and> known s' = known s \<union> {gv} \<times> set ts \<and>
        generated s' = generated s \<and> manual s' = manual s) \<and>
     (\<forall>gv s. \<exists>s'. sch_AddToGroupVersion sch gv s = (Ret (), s') \<and> known s \<subseteq> known s' \<and>
        keeps_own (generated s) (generated s') \<and> keeps_own (manual s) (manual s')) \<and>
     (\<forall>a b f s. \<exists>s'. sch_AddGeneratedConversionFunc sch a b f s = (Ret None, s') \<and> known s' = known s \<and>
        generated s' = (generated s)((a, b) \<mapsto> f) \<and> manual s' = manual s) \<and>
     (\<forall>a b f s. \<exists>s'. sch_AddConversionFunc sch a b f s = (Ret None, s') \<and> known s' = known s \<and>
        generated s' = generated s \<and> manual s' = (manual s)((a, b) \<mapsto> f)) \<and>
     (\<forall>fs. sch_SchemeBuilder_AddToScheme sch fs = forEach fs (\<lambda>f. f)) \<and>
     (\<forall>s. \<exists>e s'. sch_clientgoscheme_AddToScheme sch s = (Ret e, s') \<and> keeps_own (manual s) (manual s')) \<and>
     (\<forall>s. \<exists>e s'. sch_clusterv1_AddToScheme sch s = (Ret e, s') \<and> keeps_own (manual s) (manual s'))"

text \<open>A conversion uses the manual function of the pair, else the generated one.\<close>

definition conversion_of :: "('s \<Rightarrow> gotype \<times> gotype \<Rightarrow> convert_func option) \<Rightarrow> ('s \<Rightarrow> gotype \<times> gotype \<Rightarrow> convert_func option) \<Rightarrow>
    's \<Rightarrow> gotype \<times> gotype \<Rightarrow> convert_func option" where
  "conversion_of generated manual s = generated s ++ manual s"

text \<open>A table of registrations as a map.\<close>

definition table :: "registration list \<Rightarrow> gotype \<times> gotype \<Rightarrow> convert_func option" where
  "table rs = map_of (rev (map (\<lambda>(a, b, f). ((a, b), f)) rs))"

definition faithful :: "registration list \<Rightarrow> bool" where
  "faithful rs \<longleftrightarrow> list_all (\<lambda>(a, b, f). f = Convert a b) rs"

lemma table_snoc: "table ((a, b, f) # rs) = [(a, b) \<mapsto> f] ++ table rs"
  by (simp add: table_def)

lemma faithful_table: "faithful rs \<Longrightarrow> table rs (a, b) = (if (a, b, Convert a b) \<in> set rs then Some (Convert a b) else None)"
  by (induction rs) (auto simp: table_snoc faithful_def map_add_def table_def split: option.splits)

lemma table_faithful: "faithful rs \<Longrightarrow> table rs (a, b) = Some f \<Longrightarrow> f = Convert a b"
  by (simp add: faithful_table split: if_splits)

abbreviation generated_conversions :: "registration list" where
  "generated_conversions \<equiv> cluster_conversions @ loadBalancer_conversions @ machine_conversions @
     virtualMachine_conversions @ field_conversions"

lemmas conversion_tables = cluster_conversions_def loadBalancer_conversions_def machine_conversions_def
  virtualMachine_conversions_def field_conversions_def manual_conversions_def

lemma conversions_faithful: "faithful generated_conversions" "faithful manual_conversions"
  by (simp_all add: faithful_def conversion_tables)

lemma conversions_total:
  "(V1beta1 t, V1beta2 t, Convert (V1beta1 t) (V1beta2 t)) \<in> set generated_conversions \<union> set manual_conversions"
  "(V1beta2 t, V1beta1 t, Convert (V1beta2 t) (V1beta1 t)) \<in> set generated_conversions \<union> set manual_conversions"
  by (cases t; simp add: conversion_tables)+

lemma forEach_adds:
  assumes "\<And>a b f s. \<exists>s'. add a b f s = (Ret None, s') \<and> P s' = P s \<and> view s' = (view s)((a, b) \<mapsto> f)"
  shows "\<exists>s'. forEach rs (\<lambda>(a, b, f). add a b f) s = (Ret None, s') \<and> P s' = P s \<and> view s' = view s ++ table rs"
proof (induction rs arbitrary: s)
  case Nil
  then show ?case by (simp add: table_def)
next
  case (Cons r rs)
  obtain a b f where r: "r = (a, b, f)" by (cases r)
  obtain s1 where one: "add a b f s = (Ret None, s1)" "P s1 = P s" "view s1 = (view s)((a, b) \<mapsto> f)" using assms by blast
  obtain s2 where rest: "forEach rs (\<lambda>(a, b, f). add a b f) s1 = (Ret None, s2)" "P s2 = P s1" "view s2 = view s1 ++ table rs"
    using Cons.IH by blast
  have "forEach (r # rs) (\<lambda>(a, b, f). add a b f) s = (Ret None, s2)" using one(1) rest(1) by (simp add: r bind_def)
  moreover have "view s2 = view s ++ table (r # rs)" unfolding r table_snoc rest(3) one(3) by simp
  ultimately show ?case using one(2) rest(2) by auto
qed

lemma scheme_lawsD:
  assumes "scheme_laws sch known generated manual"
  shows "\<exists>s'. sch_AddKnownTypes sch gv ts s = (Ret (), s') \<and> known s' = known s \<union> {gv} \<times> set ts \<and>
      generated s' = generated s \<and> manual s' = manual s"
    "\<exists>s'. sch_AddToGroupVersion sch gv s = (Ret (), s') \<and> known s \<subseteq> known s' \<and>
      keeps_own (generated s) (generated s') \<and> keeps_own (manual s) (manual s')"
    "\<exists>s'. sch_AddGeneratedConversionFunc sch a b f s = (Ret None, s') \<and> known s' = known s \<and>
      generated s' = (generated s)((a, b) \<mapsto> f) \<and> manual s' = manual s"
    "\<exists>s'. sch_AddConversionFunc sch a b f s = (Ret None, s') \<and> known s' = known s \<and>
      generated s' = generated s \<and> manual s' = (manual s)((a, b) \<mapsto> f)"
    "sch_SchemeBuilder_AddToScheme sch fs = forEach fs (\<lambda>f. f)"
    "\<exists>e s'. sch_clientgoscheme_AddToScheme sch s = (Ret e, s') \<and> keeps_own (manual s) (manual s')"
    "\<exists>e s'. sch_clusterv1_AddToScheme sch s = (Ret e, s') \<and> keeps_own (manual s) (manual s')"
  using assms by (simp_all add: scheme_laws_def del: split_paired_All split_paired_Ex)

lemma RegisterConversions_registers:
  assumes "scheme_laws sch known generated manual"
  shows "\<exists>s'. RegisterConversions sch s = (Ret None, s') \<and> known s' = known s \<and>
    generated s' = generated s ++ table generated_conversions \<and> manual s' = manual s ++ table manual_conversions"
proof -
  have gen: "\<exists>s'. sch_AddGeneratedConversionFunc sch a b f s = (Ret None, s') \<and> (known s', manual s') = (known s, manual s) \<and>
      generated s' = (generated s)((a, b) \<mapsto> f)" for a b f s
    using scheme_lawsD(3) [OF assms, of a b f s] by auto
  have man: "\<exists>s'. sch_AddConversionFunc sch a b f s = (Ret None, s') \<and> (known s', generated s') = (known s, generated s) \<and>
      manual s' = (manual s)((a, b) \<mapsto> f)" for a b f s
    using scheme_lawsD(4) [OF assms, of a b f s] by auto
  obtain s1 where one: "forEach generated_conversions (\<lambda>(a, b, f). sch_AddGeneratedConversionFunc sch a b f) s = (Ret None, s1)"
      "(known s1, manual s1) = (known s, manual s)" "generated s1 = generated s ++ table generated_conversions"
    using forEach_adds [where P = "\<lambda>s. (known s, manual s)" and view = generated, OF gen] by blast
  obtain s2 where two: "forEach manual_conversions (\<lambda>(a, b, f). sch_AddConversionFunc sch a b f) s1 = (Ret None, s2)"
      "(known s2, generated s2) = (known s1, generated s1)" "manual s2 = manual s1 ++ table manual_conversions"
    using forEach_adds [where P = "\<lambda>s. (known s, generated s)" and view = manual, OF man] by blast
  from one two show ?thesis unfolding RegisterConversions_def by (simp add: bind_def)
qed

lemma addKnownTypes_adds:
  assumes "scheme_laws sch known generated manual"
  shows "\<exists>s'. addKnownTypes_v1beta1 sch s = (Ret None, s') \<and> known s \<union> {group_version GroupVersion_v1beta1} \<times> set objectTypes_v1beta1 \<subseteq> known s' \<and>
      keeps_own (generated s) (generated s') \<and> keeps_own (manual s) (manual s')"
    "\<exists>s'. addKnownTypes_v1beta2 sch s = (Ret None, s') \<and> known s \<union> {group_version GroupVersion_v1beta2} \<times> set objectTypes_v1beta2 \<subseteq> known s' \<and>
      keeps_own (generated s) (generated s') \<and> keeps_own (manual s) (manual s')"
proof -
  have both: "\<exists>s'. bind (sch_AddKnownTypes sch gv ts) (\<lambda>_. bind (sch_AddToGroupVersion sch gv) (\<lambda>_. return None)) s = (Ret None, s') \<and>
      known s \<union> {gv} \<times> set ts \<subseteq> known s' \<and> keeps_own (generated s) (generated s') \<and> keeps_own (manual s) (manual s')" for gv ts
  proof -
    obtain s1 where one: "sch_AddKnownTypes sch gv ts s = (Ret (), s1)" "known s1 = known s \<union> {gv} \<times> set ts"
      "generated s1 = generated s" "manual s1 = manual s" using scheme_lawsD(1) [OF assms] by blast
    obtain s2 where "sch_AddToGroupVersion sch gv s1 = (Ret (), s2)" "known s1 \<subseteq> known s2"
      "keeps_own (generated s1) (generated s2)" "keeps_own (manual s1) (manual s2)" using scheme_lawsD(2) [OF assms] by blast
    with one show ?thesis by (simp add: bind_def)
  qed
  show "\<exists>s'. addKnownTypes_v1beta1 sch s = (Ret None, s') \<and> known s \<union> {group_version GroupVersion_v1beta1} \<times> set objectTypes_v1beta1 \<subseteq> known s' \<and>
      keeps_own (generated s) (generated s') \<and> keeps_own (manual s) (manual s')"
    "\<exists>s'. addKnownTypes_v1beta2 sch s = (Ret None, s') \<and> known s \<union> {group_version GroupVersion_v1beta2} \<times> set objectTypes_v1beta2 \<subseteq> known s' \<and>
      keeps_own (generated s) (generated s') \<and> keeps_own (manual s) (manual s')"
    unfolding addKnownTypes_v1beta1_def addKnownTypes_v1beta2_def by (fact both)+
qed

lemmas object_inits = init_Cluster_v1beta1_def init_ClusterTemplate_v1beta1_def init_LoadBalancer_v1beta1_def init_Machine_v1beta1_def
  init_MachineTemplate_v1beta1_def init_VirtualMachine_v1beta1_def init_Cluster_v1beta2_def init_ClusterTemplate_v1beta2_def
  init_LoadBalancer_v1beta2_def init_Machine_v1beta2_def init_MachineTemplate_v1beta2_def init_VirtualMachine_v1beta2_def

lemma registered:
  assumes "(a, b, Convert a b) \<in> set generated_conversions \<union> set manual_conversions" "manual s (a, b) = None"
    and "generated s' (a, b) = (generated s ++ table generated_conversions) (a, b)"
    and "manual s' (a, b) = (manual s ++ table manual_conversions) (a, b)"
  shows "conversion_of generated manual s' (a, b) = Some (Convert a b)"
  using assms faithful_table [OF conversions_faithful(1), of a b] faithful_table [OF conversions_faithful(2), of a b]
  by (cases "(a, b, Convert a b) \<in> set manual_conversions") (simp_all add: conversion_of_def map_add_def)

lemma AddToScheme_adds:
  assumes "scheme_laws sch known generated manual"
  shows "\<exists>s1 s'. AddToScheme_v1beta1 sch s = (Ret None, s') \<and> keeps_own (manual s) (manual s1) \<and>
      {group_version GroupVersion_v1beta1} \<times> set objectTypes_v1beta1 \<subseteq> known s' \<and>
      generated s' = generated s1 ++ table generated_conversions \<and> manual s' = manual s1 ++ table manual_conversions"
    "\<exists>s'. AddToScheme_v1beta2 sch s = (Ret None, s') \<and> known s \<union> {group_version GroupVersion_v1beta2} \<times> set objectTypes_v1beta2 \<subseteq> known s' \<and>
      keeps_own (generated s) (generated s') \<and> keeps_own (manual s) (manual s')"
proof -
  obtain s1 where one: "addKnownTypes_v1beta1 sch s = (Ret None, s1)" "keeps_own (manual s) (manual s1)"
      "{group_version GroupVersion_v1beta1} \<times> set objectTypes_v1beta1 \<subseteq> known s1"
    using addKnownTypes_adds(1) [OF assms] by blast
  obtain s2 where two: "RegisterConversions sch s1 = (Ret None, s2)" "known s2 = known s1"
      "generated s2 = generated s1 ++ table generated_conversions" "manual s2 = manual s1 ++ table manual_conversions"
    using RegisterConversions_registers [OF assms] by blast
  have "AddToScheme_v1beta1 sch s = (Ret None, s2)"
    using one(1) two(1) by (simp add: AddToScheme_v1beta1_def scheme_lawsD(5) [OF assms] bind_def)
  with one two show "\<exists>s1 s'. AddToScheme_v1beta1 sch s = (Ret None, s') \<and> keeps_own (manual s) (manual s1) \<and>
      {group_version GroupVersion_v1beta1} \<times> set objectTypes_v1beta1 \<subseteq> known s' \<and>
      generated s' = generated s1 ++ table generated_conversions \<and> manual s' = manual s1 ++ table manual_conversions" by auto
  show "\<exists>s'. AddToScheme_v1beta2 sch s = (Ret None, s') \<and> known s \<union> {group_version GroupVersion_v1beta2} \<times> set objectTypes_v1beta2 \<subseteq> known s' \<and>
      keeps_own (generated s) (generated s') \<and> keeps_own (manual s) (manual s')"
    using addKnownTypes_adds(2) [OF assms, of s] by (auto simp: AddToScheme_v1beta2_def scheme_lawsD(5) [OF assms] bind_def)
qed

subsection \<open>Properties\<close>

text \<open>
  C33: Every stored object can be served in either version.  After the initialisation of the manager,
  the scheme knows the kinds of both versions, which are the same, and for every type of the API,
  field types included, the conversion from each version to the other is the function written for
  that very pair; nothing in the initialisation fails.
\<close>

theorem every_type_converts:
  assumes "scheme_laws sch known generated manual"
    and "\<And>t. manual s (V1beta1 t, V1beta2 t) = None \<and> manual s (V1beta2 t, V1beta1 t) = None"
  shows "\<exists>s'. main_init sch s = (Ret (), s') \<and>
    (\<forall>t. conversion_of generated manual s' (V1beta1 t, V1beta2 t) = Some (Convert (V1beta1 t) (V1beta2 t)) \<and>
         conversion_of generated manual s' (V1beta2 t, V1beta1 t) = Some (Convert (V1beta2 t) (V1beta1 t))) \<and>
    (\<forall>t. V1beta1 t \<in> set objectTypes_v1beta1 \<longleftrightarrow> V1beta2 t \<in> set objectTypes_v1beta2) \<and>
    {group_version GroupVersion_v1beta1} \<times> set objectTypes_v1beta1 \<union>
      {group_version GroupVersion_v1beta2} \<times> set objectTypes_v1beta2 \<subseteq> known s'"
proof -
  note laws = scheme_lawsD [OF assms(1)]
  obtain e1 s1 where one: "sch_clientgoscheme_AddToScheme sch s = (Ret e1, s1)" "keeps_own (manual s) (manual s1)" using laws(6) by blast
  obtain e2 s2 where two: "sch_clusterv1_AddToScheme sch s1 = (Ret e2, s2)" "keeps_own (manual s1) (manual s2)" using laws(7) by blast
  obtain s3 s4 where three: "AddToScheme_v1beta1 sch s2 = (Ret None, s4)" "keeps_own (manual s2) (manual s3)"
      "{group_version GroupVersion_v1beta1} \<times> set objectTypes_v1beta1 \<subseteq> known s4"
      "generated s4 = generated s3 ++ table generated_conversions" "manual s4 = manual s3 ++ table manual_conversions"
    using AddToScheme_adds(1) [OF assms(1)] by blast
  obtain s5 where four: "AddToScheme_v1beta2 sch s4 = (Ret None, s5)"
      "known s4 \<union> {group_version GroupVersion_v1beta2} \<times> set objectTypes_v1beta2 \<subseteq> known s5"
      "keeps_own (generated s4) (generated s5)" "keeps_own (manual s4) (manual s5)"
    using AddToScheme_adds(2) [OF assms(1)] by blast
  have "main_init sch s = (Ret (), s5)"
    using one(1) two(1) three(1) four(1) by (simp add: main_init_def main_scheme_def bind_def)
  moreover have "conversion_of generated manual s5 (V1beta1 t, V1beta2 t) = Some (Convert (V1beta1 t) (V1beta2 t)) \<and>
      conversion_of generated manual s5 (V1beta2 t, V1beta1 t) = Some (Convert (V1beta2 t) (V1beta1 t))" for t
    using assms(2) one(2) two(2) three(2,4,5) four(3,4)
    by (intro conjI registered [OF conversions_total(1), of manual s3] registered [OF conversions_total(2), of manual s3])
      (simp_all add: keeps_own_def)
  moreover have "V1beta1 t \<in> set objectTypes_v1beta1 \<longleftrightarrow> V1beta2 t \<in> set objectTypes_v1beta2" for t
    by (simp add: objectTypes_v1beta1_def objectTypes_v1beta2_def object_inits)
  ultimately show ?thesis using three(3) four(2) by blast
qed

text \<open>A scheme that keeps what it is told: the known types, the generated and the manual conversions.\<close>

type_synonym scheme_tables = "((string \<times> string) \<times> gotype) set \<times> (gotype \<times> gotype \<Rightarrow> convert_func option) \<times>
  (gotype \<times> gotype \<Rightarrow> convert_func option)"

definition table_scheme :: "scheme_tables scheme" where
  "table_scheme = \<lparr>sch_AddKnownTypes = \<lambda>gv ts (k, g, m). (Ret (), (k \<union> {gv} \<times> set ts, g, m)), sch_AddToGroupVersion = \<lambda>_ s. (Ret (), s),
     sch_AddGeneratedConversionFunc = \<lambda>a b f (k, g, m). (Ret None, (k, g((a, b) \<mapsto> f), m)),
     sch_AddConversionFunc = \<lambda>a b f (k, g, m). (Ret None, (k, g, m((a, b) \<mapsto> f))),
     sch_SchemeBuilder_AddToScheme = \<lambda>fs. forEach fs (\<lambda>f. f),
     sch_clientgoscheme_AddToScheme = return None, sch_clusterv1_AddToScheme = return None\<rparr>"

lemma table_scheme_laws: "scheme_laws table_scheme fst (\<lambda>s. fst (snd s)) (\<lambda>s. snd (snd s))"
  by (auto simp: scheme_laws_def table_scheme_def keeps_own_def)

theorem every_type_converts_witness:
  "\<exists>s'. main_init table_scheme ({}, Map.empty, Map.empty) = (Ret (), s') \<and>
    (\<forall>t. conversion_of (\<lambda>s. fst (snd s)) (\<lambda>s. snd (snd s)) s' (V1beta1 t, V1beta2 t) = Some (Convert (V1beta1 t) (V1beta2 t)) \<and>
         conversion_of (\<lambda>s. fst (snd s)) (\<lambda>s. snd (snd s)) s' (V1beta2 t, V1beta1 t) = Some (Convert (V1beta2 t) (V1beta1 t))) \<and>
    ((''infrastructure.cluster.x-k8s.io'', ''v1beta1''), V1beta1 AzureStackHCIMachine_t) \<in> fst s'"
proof -
  have "((''infrastructure.cluster.x-k8s.io'', ''v1beta1''), V1beta1 AzureStackHCIMachine_t) \<in>
      {group_version GroupVersion_v1beta1} \<times> set objectTypes_v1beta1"
    by (simp add: group_version_def GroupVersion_v1beta1_def objectTypes_v1beta1_def object_inits)
  with every_type_converts [OF table_scheme_laws, of "({}, Map.empty, Map.empty)"] show ?thesis by fastforce
qed

end
