(* ===== verification/ServiceClients.thy ===== *)
theory ServiceClients
  imports Scope
begin

text \<open>
  The constructors of the cloud services, \<open>cloud/services/*/service.go\<close>.  Each asks the SDK for
  a client, drops the error and dereferences the pointer it got.  A constructor of the SDK is a
  parameter: it returns a pointer, which may be nil, and an error.  The reconcilers take working
  clients as the record \<open>moc\<close>; the lemmas here say when a service with such a client exists.
\<close>

subsection \<open>What a service needs of its scope\<close>

text \<open>The two methods of \<open>scope.ScopeInterface\<close> that a constructor calls, and who implements them.\<close>

record ScopeInterface =
  GetCloudAgentFqdn :: string
  GetAuthorizer :: string

definition ClusterScope_interface :: "ClusterScope \<Rightarrow> ScopeInterface" where
  "ClusterScope_interface s = \<lparr>GetCloudAgentFqdn = csc_CloudAgentFqdn s, GetAuthorizer = csc_Authorizer s\<rparr>"

definition VMScope_interface :: "VirtualMachineScope \<Rightarrow> ScopeInterface" where
  "VMScope_interface s = \<lparr>GetCloudAgentFqdn = vsc_CloudAgentFqdn s, GetAuthorizer = vsc_Authorizer s\<rparr>"

record ('c, 's) Service =
  svc_Client :: 'c
  svc_Scope :: 's

type_synonym ('w, 'c) sdk_constructor = "string \<Rightarrow> string \<Rightarrow> ('w, 'c option \<times> goerror option) io"

definition deref_client :: "'c option \<times> goerror option \<Rightarrow> ('w, 'c) io" where
  "deref_client r = (case fst r of None \<Rightarrow> panic ''nil pointer dereference'' | Some c \<Rightarrow> return c)"

subsection \<open>Constructors\<close>

definition getGroupClient :: "('w, 'c) sdk_constructor \<Rightarrow> string \<Rightarrow> string \<Rightarrow> ('w, 'c) io" where
  "getGroupClient New cloudAgentFqdn authorizer = bind (New cloudAgentFqdn authorizer) deref_client"

definition groups_NewService :: "('w, 'c) sdk_constructor \<Rightarrow> ClusterScope \<Rightarrow> ('w, ('c, ClusterScope) Service) io" where
  "groups_NewService New scope = bind (getGroupClient New (csc_CloudAgentFqdn scope) (csc_Authorizer scope))
     (\<lambda>client. return \<lparr>svc_Client = client, svc_Scope = scope\<rparr>)"

definition getKeyVaultClient :: "('w, 'c) sdk_constructor \<Rightarrow> string \<Rightarrow> string \<Rightarrow> ('w, 'c) io" where
  "getKeyVaultClient New cloudAgentFqdn authorizer = bind (New cloudAgentFqdn authorizer) deref_client"

definition keyvaults_NewService :: "('w, 'c) sdk_constructor \<Rightarrow> ScopeInterface \<Rightarrow> ('w, ('c, ScopeInterface) Service) io" where
  "keyvaults_NewService New scope = bind (getKeyVaultClient New (GetCloudAgentFqdn scope) (GetAuthorizer scope))
     (\<lambda>client. return \<lparr>svc_Client = client, svc_Scope = scope\<rparr>)"

definition getDisksClient :: "('w, 'c) sdk_constructor \<Rightarrow> string \<Rightarrow> string \<Rightarrow> ('w, 'c) io" where
  "getDisksClient New cloudAgentFqdn authorizer = bind (New cloudAgentFqdn authorizer) deref_client"

definition disks_NewService :: "('w, 'c) sdk_constructor \<Rightarrow> ScopeInterface \<Rightarrow> ('w, ('c, ScopeInterface) Service) io" where
  "disks_NewService New scope = bind (getDisksClient New (GetCloudAgentFqdn scope) (GetAuthorizer scope))
     (\<lambda>client. return \<lparr>svc_Client = client, svc_Scope = scope\<rparr>)"

definition getNetworkInterfacesClient :: "('w, 'c) sdk_constructor \<Rightarrow> string \<Rightarrow> string \<Rightarrow> ('w, 'c) io" where
  "getNetworkInterfacesClient New cloudAgentFqdn authorizer = bind (New cloudAgentFqdn authorizer) deref_client"

definition networkinterfaces_NewService :: "('w, 'c) sdk_constructor \<Rightarrow> ScopeInterface \<Rightarrow> ('w, ('c, ScopeInterface) Service) io" where
  "networkinterfaces_NewService New scope = bind (getNetworkInterfacesClient New (GetCloudAgentFqdn scope) (GetAuthorizer scope))
     (\<lambda>client. return \<lparr>svc_Client = client, svc_Scope = scope\<rparr>)"

definition getLoadBalancersClient :: "('w, 'c) sdk_constructor \<Rightarrow> string \<Rightarrow> string \<Rightarrow> ('w, 'c) io" where
  "getLoadBalancersClient New cloudAgentFqdn authorizer = bind (New cloudAgentFqdn authorizer) deref_client"

definition loadbalancers_NewService :: "('w, 'c) sdk_constructor \<Rightarrow> ScopeInterface \<Rightarrow> ('w, ('c, ScopeInterface) Service) io" where
  "loadbalancers_NewService New scope = bind (getLoadBalancersClient New (GetCloudAgentFqdn scope) (GetAuthorizer scope))
     (\<lambda>client. return \<lparr>svc_Client = client, svc_Scope = scope\<rparr>)"

definition getVirtualNetworksClient :: "('w, 'c) sdk_constructor \<Rightarrow> string \<Rightarrow> string \<Rightarrow> ('w, 'c) io" where
  "getVirtualNetworksClient New cloudAgentFqdn authorizer = bind (New cloudAgentFqdn authorizer) deref_client"

definition virtualnetworks_NewService :: "('w, 'c) sdk_constructor \<Rightarrow> ScopeInterface \<Rightarrow> ('w, ('c, ScopeInterface) Service) io" where
  "virtualnetworks_NewService New scope = bind (getVirtualNetworksClient New (GetCloudAgentFqdn scope) (GetAuthorizer scope))
     (\<lambda>client. return \<lparr>svc_Client = client, svc_Scope = scope\<rparr>)"

definition getVipPoolsClient :: "('w, 'c) sdk_constructor \<Rightarrow> string \<Rightarrow> string \<Rightarrow> ('w, 'c) io" where
  "getVipPoolsClient New cloudAgentFqdn authorizer = bind (New cloudAgentFqdn authorizer) deref_client"

definition vippools_NewService :: "('w, 'c) sdk_constructor \<Rightarrow> ScopeInterface \<Rightarrow> ('w, ('c, ScopeInterface) Service) io" where
  "vippools_NewService New scope = bind (getVipPoolsClient New (GetCloudAgentFqdn scope) (GetAuthorizer scope))
     (\<lambda>client. return \<lparr>svc_Client = client, svc_Scope = scope\<rparr>)"

definition getVirtualMachinesClient :: "('w, 'c) sdk_constructor \<Rightarrow> string \<Rightarrow> string \<Rightarrow> ('w, 'c) io" where
  "getVirtualMachinesClient New cloudAgentFqdn authorizer = bind (New cloudAgentFqdn authorizer) deref_client"

definition virtualmachines_NewService :: "('w, 'c) sdk_constructor \<Rightarrow> ScopeInterface \<Rightarrow> ('w, ('c, ScopeInterface) Service) io" where
  "virtualmachines_NewService New scope = bind (getVirtualMachinesClient New (GetCloudAgentFqdn scope) (GetAuthorizer scope))
     (\<lambda>client. return \<lparr>svc_Client = client, svc_Scope = scope\<rparr>)"

definition getVersionClient :: "('w, 'c) sdk_constructor \<Rightarrow> string \<Rightarrow> string \<Rightarrow> ('w, 'c) io" where
  "getVersionClient New cloudAgentFqdn authorizer = bind (New cloudAgentFqdn authorizer) deref_client"

definition versions_NewService :: "('w, 'c) sdk_constructor \<Rightarrow> ScopeInterface \<Rightarrow> ('w, ('c, ScopeInterface) Service) io" where
  "versions_NewService New scope = bind (getVersionClient New (GetCloudAgentFqdn scope) (GetAuthorizer scope))
     (\<lambda>client. return \<lparr>svc_Client = client, svc_Scope = scope\<rparr>)"

definition getHealthClient :: "('w, 'c) sdk_constructor \<Rightarrow> string \<Rightarrow> string \<Rightarrow> ('w, 'c) io" where
  "getHealthClient New cloudAgentFqdn authorizer = bind (New cloudAgentFqdn authorizer) deref_client"

definition health_NewService :: "('w, 'c) sdk_constructor \<Rightarrow> ScopeInterface \<Rightarrow> ('w, ('c, ScopeInterface) Service) io" where
  "health_NewService New scope = bind (getHealthClient New (GetCloudAgentFqdn scope) (GetAuthorizer scope))
     (\<lambda>client. return \<lparr>svc_Client = client, svc_Scope = scope\<rparr>)"

lemmas service_constructors =
  getGroupClient_def groups_NewService_def
  getKeyVaultClient_def keyvaults_NewService_def
  getDisksClient_def disks_NewService_def
  getNetworkInterfacesClient_def networkinterfaces_NewService_def
  getLoadBalancersClient_def loadbalancers_NewService_def
  getVirtualNetworksClient_def virtualnetworks_NewService_def
  getVipPoolsClient_def vippools_NewService_def
  getVirtualMachinesClient_def virtualmachines_NewService_def
  getVersionClient_def versions_NewService_def
  getHealthClient_def health_NewService_def

text \<open>
  A constructor yields a service exactly when the SDK hands out a client, whatever error comes
  with it; without a client it panics instead of reporting the error.
\<close>

lemma NewService_run:
  assumes "New (csc_CloudAgentFqdn scope) (csc_Authorizer scope) w = (Ret (c, err), w')"
  shows "groups_NewService New scope w = (case c of
      None \<Rightarrow> (Panics ''nil pointer dereference'', w')
    | Some client \<Rightarrow> (Ret \<lparr>svc_Client = client, svc_Scope = scope\<rparr>, w'))"
  using assms by (cases c) (simp_all add: service_constructors bind_def deref_client_def)

lemma NewService_interface_run:
  assumes "New (GetCloudAgentFqdn scope) (GetAuthorizer scope) w = (Ret (c, err), w')"
    and "mk \<in> {keyvaults_NewService, disks_NewService, networkinterfaces_NewService, loadbalancers_NewService,
      virtualnetworks_NewService, vippools_NewService, virtualmachines_NewService, versions_NewService, health_NewService}"
  shows "mk New scope w = (case c of
      None \<Rightarrow> (Panics ''nil pointer dereference'', w')
    | Some client \<Rightarrow> (Ret \<lparr>svc_Client = client, svc_Scope = scope\<rparr>, w'))"
  using assms by (cases c) (auto simp: service_constructors bind_def deref_client_def)

end
