(* ===== verification/Globals.thy ===== *)
theory Globals
  imports ServiceClients
begin

text \<open>
  State of the process that is written once: the default recorder of \<open>pkg/record/recorder.go\<close> and the
  version service that \<open>cloud/telemetry/logutils.go\<close> keeps.  Beside it are the constructors of the
  services of the cluster and the virtual machine controller, which run on every reconcile.
\<close>

subsection \<open>Written once\<close>

text \<open>
  The contract of such a variable: filling it again changes nothing.  So after the first time every
  later attempt is idle.
\<close>

locale written_once =
  fixes fill :: "'x \<Rightarrow> 's \<Rightarrow> 's" and filled :: "'s \<Rightarrow> bool"
  assumes fill_again: "filled s \<Longrightarrow> fill x s = s"
begin

lemma fills_again: "filled s \<Longrightarrow> fold fill xs s = s"
  by (induction xs) (simp_all add: fill_again)

lemma first_wins: "filled (fill x s) \<Longrightarrow> fold fill (x # xs) s = fill x s"
  by (simp add: fills_again)

end

subsection \<open>The default recorder\<close>

text \<open>\<open>record.EventRecorder\<close> of client-go, on objects \<open>'o\<close> with arguments \<open>'a\<close> of a format.\<close>

record ('w, 'o, 'a) EventRecorder =
  rec_Event :: "'o \<Rightarrow> EventType \<Rightarrow> string \<Rightarrow> string \<Rightarrow> ('w, unit) io"
  rec_Eventf :: "'o \<Rightarrow> EventType \<Rightarrow> string \<Rightarrow> string \<Rightarrow> 'a list \<Rightarrow> ('w, unit) io"

record ('w, 'o, 'a) record_vars =
  initOnce :: bool
  defaultRecorder :: "('w, 'o, 'a) EventRecorder"

text \<open>The argument of \<open>init\<close> is \<open>new(record.FakeRecorder)\<close>.\<close>

definition record_init :: "('w, 'o, 'a) EventRecorder \<Rightarrow> ('w, 'o, 'a) record_vars" where
  "record_init fake = \<lparr>initOnce = False, defaultRecorder = fake\<rparr>"

definition InitFromRecorder :: "('w, 'o, 'a) EventRecorder \<Rightarrow> ('w, 'o, 'a) record_vars \<Rightarrow> ('w, 'o, 'a) record_vars" where
  "InitFromRecorder recorder v = (if initOnce v then v else \<lparr>initOnce = True, defaultRecorder = recorder\<rparr>)"

text \<open>\<open>strings.Title\<close> on ASCII: a letter goes to upper case when no letter, digit or underscore comes before it.\<close>

definition isSeparator :: "char \<Rightarrow> bool" where
  "isSeparator c = (let n = of_char c :: nat in
     \<not> (48 \<le> n \<and> n \<le> 57 \<or> 97 \<le> n \<and> n \<le> 122 \<or> 65 \<le> n \<and> n \<le> 90 \<or> n = 95))"

definition toTitle :: "char \<Rightarrow> char" where
  "toTitle c = (let n = of_char c :: nat in if 97 \<le> n \<and> n \<le> 122 then char_of (n - 32) else c)"

fun title_after :: "char \<Rightarrow> string \<Rightarrow> string" where
  "title_after prev [] = []"
| "title_after prev (c # cs) = (if isSeparator prev then toTitle c else c) # title_after c cs"

definition strings_Title :: "string \<Rightarrow> string" where
  "strings_Title s = title_after (CHR '' '') s"

definition record_Event :: "('w, 'o, 'a) record_vars \<Rightarrow> 'o \<Rightarrow> string \<Rightarrow> string \<Rightarrow> ('w, unit) io" where
  "record_Event v object reason message = rec_Event (defaultRecorder v) object EventTypeNormal (strings_Title reason) message"

definition record_Eventf :: "('w, 'o, 'a) record_vars \<Rightarrow> 'o \<Rightarrow> string \<Rightarrow> string \<Rightarrow> 'a list \<Rightarrow> ('w, unit) io" where
  "record_Eventf v object reason message args =
     rec_Eventf (defaultRecorder v) object EventTypeNormal (strings_Title reason) message args"

definition record_Warn :: "('w, 'o, 'a) record_vars \<Rightarrow> 'o \<Rightarrow> string \<Rightarrow> string \<Rightarrow> ('w, unit) io" where
  "record_Warn v object reason message = rec_Event (defaultRecorder v) object EventTypeWarning (strings_Title reason) message"

definition record_Warnf :: "('w, 'o, 'a) record_vars \<Rightarrow> 'o \<Rightarrow> string \<Rightarrow> string \<Rightarrow> 'a list \<Rightarrow> ('w, unit) io" where
  "record_Warnf v object reason message args =
     rec_Eventf (defaultRecorder v) object EventTypeWarning (strings_Title reason) message args"

interpretation recorder: written_once InitFromRecorder initOnce
  by unfold_locales (simp add: InitFromRecorder_def)

text \<open>Whoever calls first provides the recorder that all events go to.\<close>

lemma record_Event_first:
  "record_Event (fold InitFromRecorder (r # rs) (record_init fake)) object reason message =
     rec_Event r object EventTypeNormal (strings_Title reason) message"
proof -
  have "fold InitFromRecorder (r # rs) (record_init fake) = InitFromRecorder r (record_init fake)"
    by (rule recorder.first_wins) (simp add: InitFromRecorder_def)
  then show ?thesis by (simp add: record_Event_def InitFromRecorder_def record_init_def)
qed

text \<open>A reason that was put into title case stays as it is.\<close>

lemma isSeparator_toTitle [simp]: "isSeparator (toTitle c) = isSeparator c"
  by (auto simp: isSeparator_def toTitle_def Let_def of_char_of take_bit_nat_eq_self)

lemma toTitle_idem [simp]: "toTitle (toTitle c) = toTitle c"
  by (auto simp: toTitle_def Let_def of_char_of take_bit_nat_eq_self)

lemma title_after_cong: "isSeparator p = isSeparator q \<Longrightarrow> title_after p s = title_after q s"
  by (cases s) simp_all

lemma title_after_idem: "title_after p (title_after p s) = title_after p s"
proof (induction s arbitrary: p)
  case (Cons c cs)
  have "title_after (if isSeparator p then toTitle c else c) t = title_after c t" for t
    by (rule title_after_cong) simp
  with Cons.IH show ?case by simp
qed simp

lemma strings_Title_idem: "strings_Title (strings_Title s) = strings_Title s"
  by (simp add: strings_Title_def title_after_idem)

subsection \<open>The version service\<close>

text \<open>The variable \<open>versionsService\<close> is beside the world; a constructor that panics leaves it nil.\<close>

definition getVersionsService :: "('w, 'c) sdk_constructor \<Rightarrow> ScopeInterface \<Rightarrow>
    ('w \<times> ('c, ScopeInterface) Service option, ('c, ScopeInterface) Service) io" where
  "getVersionsService New scope = (\<lambda>(w, versionsService). case versionsService of
      Some s \<Rightarrow> (Ret s, (w, versionsService))
    | None \<Rightarrow> (case versions_NewService New scope w of
        (Ret s, w') \<Rightarrow> (Ret s, (w', Some s))
      | (Panics p, w') \<Rightarrow> (Panics p, (w', None))))"

interpretation versions: written_once "\<lambda>scope s. snd (getVersionsService New scope s)" "\<lambda>(w, v). v \<noteq> None" for New
  by unfold_locales (auto simp: getVersionsService_def)

text \<open>
  Every later scope, with whatever credentials, gets the service with the client of the first one.
\<close>

lemma getVersionsService_first:
  assumes "New (GetCloudAgentFqdn scope) (GetAuthorizer scope) w = (Ret (Some c, e), w')"
  shows "fst (getVersionsService New later (fold (\<lambda>scope s. snd (getVersionsService New scope s)) (scope # scopes) (w, None))) =
    Ret \<lparr>svc_Client = c, svc_Scope = scope\<rparr>"
proof -
  let ?s = "snd (getVersionsService New scope (w, None))"
  have s: "?s = (w', Some \<lparr>svc_Client = c, svc_Scope = scope\<rparr>)"
    using NewService_interface_run [of New scope w "Some c" e w' versions_NewService] assms by (simp add: getVersionsService_def)
  then have "fold (\<lambda>scope s. snd (getVersionsService New scope s)) (scope # scopes) (w, None) = ?s"
    by (intro versions.first_wins) simp
  with s show ?thesis by (simp add: getVersionsService_def)
qed

subsection \<open>The services of a reconcile\<close>

record ('v, 'k, 'g) azureStackHCIClusterReconciler =
  ccr_scope :: ClusterScope
  ccr_vnetSvc :: "('v, ScopeInterface) Service"
  ccr_keyvaultSvc :: "('k, ScopeInterface) Service"
  ccr_groupSvc :: "('g, ClusterScope) Service"

definition newAzureStackHCIClusterReconciler :: "('w, 'v) sdk_constructor \<Rightarrow> ('w, 'k) sdk_constructor \<Rightarrow> ('w, 'g) sdk_constructor \<Rightarrow>
    ClusterScope \<Rightarrow> ('w, ('v, 'k, 'g) azureStackHCIClusterReconciler) io" where
  "newAzureStackHCIClusterReconciler NewVnet NewKeyvault NewGroup scope =
     bind (virtualnetworks_NewService NewVnet (ClusterScope_interface scope)) (\<lambda>vnetSvc.
     bind (keyvaults_NewService NewKeyvault (ClusterScope_interface scope)) (\<lambda>keyvaultSvc.
     bind (groups_NewService NewGroup scope) (\<lambda>groupSvc.
     return \<lparr>ccr_scope = scope, ccr_vnetSvc = vnetSvc, ccr_keyvaultSvc = keyvaultSvc, ccr_groupSvc = groupSvc\<rparr>)))"

record ('n, 'v, 'd) azureStackHCIVirtualMachineService =
  vsv_vmScope :: VirtualMachineScope
  vsv_networkInterfacesSvc :: "('n, ScopeInterface) Service"
  vsv_virtualMachinesSvc :: "('v, ScopeInterface) Service"
  vsv_disksSvc :: "('d, ScopeInterface) Service"

definition newAzureStackHCIVirtualMachineService :: "('w, 'n) sdk_constructor \<Rightarrow> ('w, 'v) sdk_constructor \<Rightarrow> ('w, 'd) sdk_constructor \<Rightarrow>
    VirtualMachineScope \<Rightarrow> ('w, ('n, 'v, 'd) azureStackHCIVirtualMachineService) io" where
  "newAzureStackHCIVirtualMachineService NewNIC NewVM NewDisk vmScope =
     bind (networkinterfaces_NewService NewNIC (VMScope_interface vmScope)) (\<lambda>networkInterfacesSvc.
     bind (virtualmachines_NewService NewVM (VMScope_interface vmScope)) (\<lambda>virtualMachinesSvc.
     bind (disks_NewService NewDisk (VMScope_interface vmScope)) (\<lambda>disksSvc.
     return \<lparr>vsv_vmScope = vmScope, vsv_networkInterfacesSvc = networkInterfacesSvc,
       vsv_virtualMachinesSvc = virtualMachinesSvc, vsv_disksSvc = disksSvc\<rparr>)))"

text \<open>
  With a client from every SDK constructor, all services of a reconcile work on the scope of that
  reconcile, unlike the version service.
\<close>

lemma newAzureStackHCIVirtualMachineService_scope:
  assumes "newAzureStackHCIVirtualMachineService NewNIC NewVM NewDisk vmScope w = (Ret s, w')"
  shows "vsv_vmScope s = vmScope" "svc_Scope (vsv_networkInterfacesSvc s) = VMScope_interface vmScope"
    "svc_Scope (vsv_virtualMachinesSvc s) = VMScope_interface vmScope" "svc_Scope (vsv_disksSvc s) = VMScope_interface vmScope"
  using assms
  by (auto simp: newAzureStackHCIVirtualMachineService_def service_constructors deref_client_def run_simps)

lemma newAzureStackHCIClusterReconciler_scope:
  assumes "newAzureStackHCIClusterReconciler NewVnet NewKeyvault NewGroup scope w = (Ret s, w')"
  shows "ccr_scope s = scope" "svc_Scope (ccr_vnetSvc s) = ClusterScope_interface scope"
    "svc_Scope (ccr_keyvaultSvc s) = ClusterScope_interface scope" "svc_Scope (ccr_groupSvc s) = scope"
  using assms
  by (auto simp: newAzureStackHCIClusterReconciler_def service_constructors deref_client_def run_simps)

end
