(* ===== verification/ApiConstsV1beta1.thy ===== *)
theory ApiConstsV1beta1
  imports ApiConsts Defaults
begin

text \<open>
  The string constants of \<open>api/v1beta1\<close> and the constants of \<open>api/v1beta2\<close> that no controller
  reads.  Stored objects move between the versions with their conditions, phases, labels,
  annotations and finalizers carried over verbatim, so a constant that differed between the
  versions would make one side blind to what the other wrote; no constant does.
\<close>

subsection \<open>Constants of the newer version without a reader\<close>

definition MachineCreated :: string where "MachineCreated = ''MachineCreated''"
definition VMStateCreating :: string where "VMStateCreating = ''Creating''"
definition VMStateDeleting :: string where "VMStateDeleting = ''Deleting''"
definition VMStateMigrating :: string where "VMStateMigrating = ''Migrating''"
definition AnnotationClusterInfrastructureReady :: string where "AnnotationClusterInfrastructureReady = ''azurestackhci.cluster.sigs.k8s.io/infrastructure-ready''"
definition ValueReady :: string where "ValueReady = ''true''"
definition AnnotationControlPlaneReady :: string where "AnnotationControlPlaneReady = ''azurestackhci.cluster.sigs.k8s.io/control-plane-ready''"

subsection \<open>Constants of the older version\<close>

definition ClusterFinalizer_v1beta1 :: string where "ClusterFinalizer_v1beta1 = ''azurestackhcicluster.infrastructure.cluster.x-k8s.io''"
definition AzureStackHCILoadBalancerFinalizer_v1beta1 :: string where "AzureStackHCILoadBalancerFinalizer_v1beta1 = ''azurestackhciloadbalancer.infrastructure.cluster.x-k8s.io''"
definition MachineFinalizer_v1beta1 :: string where "MachineFinalizer_v1beta1 = ''azurestackhcimachine.infrastructure.cluster.x-k8s.io''"
definition VirtualMachineFinalizer_v1beta1 :: string where "VirtualMachineFinalizer_v1beta1 = ''azurestackhcivirtualmachine.infrastructure.cluster.x-k8s.io''"
definition VMRunningCondition_v1beta1 :: string where "VMRunningCondition_v1beta1 = ''VMRunning''"
definition VMUpdatingReason_v1beta1 :: string where "VMUpdatingReason_v1beta1 = ''VMUpdating''"
definition VMProvisionFailedReason_v1beta1 :: string where "VMProvisionFailedReason_v1beta1 = ''VMProvisionFailed''"
definition VMNotFoundReason_v1beta1 :: string where "VMNotFoundReason_v1beta1 = ''VMNotFound''"
definition OutOfMemoryReason_v1beta1 :: string where "OutOfMemoryReason_v1beta1 = ''OutOfMemory''"
definition OutOfCapacityReason_v1beta1 :: string where "OutOfCapacityReason_v1beta1 = ''OutOfCapacity''"
definition OutOfNodeCapacityReason_v1beta1 :: string where "OutOfNodeCapacityReason_v1beta1 = ''OutOfNodeCapacity''"
definition PathNotFoundReason_v1beta1 :: string where "PathNotFoundReason_v1beta1 = ''PathNotFound''"
definition NotFoundReason_v1beta1 :: string where "NotFoundReason_v1beta1 = ''NotFound''"
definition MOCUnreachableReason_v1beta1 :: string where "MOCUnreachableReason_v1beta1 = ''MOCUnreachable''"
definition NetworkInfrastructureReadyCondition_v1beta1 :: string where "NetworkInfrastructureReadyCondition_v1beta1 = ''NetworkInfrastructureReady''"
definition ClusterReconciliationFailedReason_v1beta1 :: string where "ClusterReconciliationFailedReason_v1beta1 = ''ClusterReconciliationFailed''"
definition LoadBalancerProvisioningReason_v1beta1 :: string where "LoadBalancerProvisioningReason_v1beta1 = ''LoadBalancerProvisioning''"
definition LoadBalancerDeletingReason_v1beta1 :: string where "LoadBalancerDeletingReason_v1beta1 = ''LoadBalancerDeleting''"
definition AzureStackHCIMachinesDeletingReason_v1beta1 :: string where "AzureStackHCIMachinesDeletingReason_v1beta1 = ''AzureStackHCIMachineDeleting''"
definition LoadBalancerInfrastructureReadyCondition_v1beta1 :: string where "LoadBalancerInfrastructureReadyCondition_v1beta1 = ''LoadBalancerInfrastructureReady''"
definition LoadBalancerServiceReconciliationFailedReason_v1beta1 :: string where "LoadBalancerServiceReconciliationFailedReason_v1beta1 = ''ServiceReconciliationFailed''"
definition LoadBalancerServiceStatusFailedReason_v1beta1 :: string where "LoadBalancerServiceStatusFailedReason_v1beta1 = ''ServiceStatusFailed''"
definition LoadBalancerMachineReconciliationFailedReason_v1beta1 :: string where "LoadBalancerMachineReconciliationFailedReason_v1beta1 = ''MachineReconciliationFailed''"
definition LoadBalancerAddressUnavailableReason_v1beta1 :: string where "LoadBalancerAddressUnavailableReason_v1beta1 = ''AddressUnavailable''"
definition LoadBalancerNoReplicasReadyReason_v1beta1 :: string where "LoadBalancerNoReplicasReadyReason_v1beta1 = ''NoReplicasReady''"
definition LoadBalancerReplicasReadyCondition_v1beta1 :: string where "LoadBalancerReplicasReadyCondition_v1beta1 = ''LoadBalancerReplicasReady''"
definition LoadBalancerWaitingForReplicasReadyReason_v1beta1 :: string where "LoadBalancerWaitingForReplicasReadyReason_v1beta1 = ''WaitingForReplicasToBeReady''"
definition LoadBalancerReplicasScalingUpReason_v1beta1 :: string where "LoadBalancerReplicasScalingUpReason_v1beta1 = ''ScalingUp''"
definition LoadBalancerReplicasScalingDownReason_v1beta1 :: string where "LoadBalancerReplicasScalingDownReason_v1beta1 = ''ScalingDown''"
definition LoadBalancerReplicasUpgradingReason_v1beta1 :: string where "LoadBalancerReplicasUpgradingReason_v1beta1 = ''Upgrading''"
definition LoadBalancerReplicasFailedReason_v1beta1 :: string where "LoadBalancerReplicasFailedReason_v1beta1 = ''FailedReplicas''"
definition InfrastructureReadyReason_v1beta1 :: string where "InfrastructureReadyReason_v1beta1 = ''InfrastructureReady''"
definition DeletionFailedReason_v1beta1 :: string where "DeletionFailedReason_v1beta1 = ''DeletionFailed''"
definition AzureStackHCIClusterPhasePending_v1beta1 :: string where "AzureStackHCIClusterPhasePending_v1beta1 = ''pending''"
definition AzureStackHCIClusterPhaseProvisioning_v1beta1 :: string where "AzureStackHCIClusterPhaseProvisioning_v1beta1 = ''provisioning''"
definition AzureStackHCIClusterPhaseProvisioned_v1beta1 :: string where "AzureStackHCIClusterPhaseProvisioned_v1beta1 = ''provisioned''"
definition AzureStackHCIClusterPhaseDeleting_v1beta1 :: string where "AzureStackHCIClusterPhaseDeleting_v1beta1 = ''deleting''"
definition AzureStackHCIClusterPhaseFailed_v1beta1 :: string where "AzureStackHCIClusterPhaseFailed_v1beta1 = ''failed''"
definition AzureStackHCIClusterPhaseUpgrading_v1beta1 :: string where "AzureStackHCIClusterPhaseUpgrading_v1beta1 = ''upgrading''"
definition AzureStackHCIClusterPhaseUnknown_v1beta1 :: string where "AzureStackHCIClusterPhaseUnknown_v1beta1 = []"
definition AzureStackHCILoadBalancerPhasePending_v1beta1 :: string where "AzureStackHCILoadBalancerPhasePending_v1beta1 = ''pending''"
definition AzureStackHCILoadBalancerPhaseProvisioning_v1beta1 :: string where "AzureStackHCILoadBalancerPhaseProvisioning_v1beta1 = ''provisioning''"
definition AzureStackHCILoadBalancerPhaseProvisioned_v1beta1 :: string where "AzureStackHCILoadBalancerPhaseProvisioned_v1beta1 = ''provisioned''"
definition AzureStackHCILoadBalancerPhaseScaling_v1beta1 :: string where "AzureStackHCILoadBalancerPhaseScaling_v1beta1 = ''scaling''"
definition AzureStackHCILoadBalancerPhaseUpgrading_v1beta1 :: string where "AzureStackHCILoadBalancerPhaseUpgrading_v1beta1 = ''upgrading''"
definition AzureStackHCILoadBalancerPhaseDeleting_v1beta1 :: string where "AzureStackHCILoadBalancerPhaseDeleting_v1beta1 = ''deleting''"
definition AzureStackHCILoadBalancerPhaseFailed_v1beta1 :: string where "AzureStackHCILoadBalancerPhaseFailed_v1beta1 = ''failed''"
definition AzureStackHCILoadBalancerPhaseUnknown_v1beta1 :: string where "AzureStackHCILoadBalancerPhaseUnknown_v1beta1 = []"
definition MachineCreated_v1beta1 :: string where "MachineCreated_v1beta1 = ''MachineCreated''"
definition ControlPlane_v1beta1 :: string where "ControlPlane_v1beta1 = ''control-plane''"
definition Node_v1beta1 :: string where "Node_v1beta1 = ''node''"
definition OSVersionLabelName_v1beta1 :: string where "OSVersionLabelName_v1beta1 = ''msft.microsoft/os-version''"
definition LoadBalancerLabel_v1beta1 :: string where "LoadBalancerLabel_v1beta1 = ''msft.microsoft/load-balancer''"
definition VMStateCreating_v1beta1 :: string where "VMStateCreating_v1beta1 = ''Creating''"
definition VMStateDeleting_v1beta1 :: string where "VMStateDeleting_v1beta1 = ''Deleting''"
definition VMStateFailed_v1beta1 :: string where "VMStateFailed_v1beta1 = ''Failed''"
definition VMStateMigrating_v1beta1 :: string where "VMStateMigrating_v1beta1 = ''Migrating''"
definition VMStateSucceeded_v1beta1 :: string where "VMStateSucceeded_v1beta1 = ''Succeeded''"
definition VMStateUpdating_v1beta1 :: string where "VMStateUpdating_v1beta1 = ''Updating''"
definition OSTypeLinux_v1beta1 :: string where "OSTypeLinux_v1beta1 = ''Linux''"
definition OSTypeWindows_v1beta1 :: string where "OSTypeWindows_v1beta1 = ''Windows''"
definition OSTypeWindows2022_v1beta1 :: string where "OSTypeWindows2022_v1beta1 = ''Windows2022''"
definition AnnotationClusterInfrastructureReady_v1beta1 :: string where "AnnotationClusterInfrastructureReady_v1beta1 = ''azurestackhci.cluster.sigs.k8s.io/infrastructure-ready''"
definition ValueReady_v1beta1 :: string where "ValueReady_v1beta1 = ''true''"
definition AnnotationControlPlaneReady_v1beta1 :: string where "AnnotationControlPlaneReady_v1beta1 = ''azurestackhci.cluster.sigs.k8s.io/control-plane-ready''"
definition AzureOperationIDAnnotationKey_v1beta1 :: string where "AzureOperationIDAnnotationKey_v1beta1 = ''management.azure.com/operationId''"
definition AzureCorrelationIDAnnotationKey_v1beta1 :: string where "AzureCorrelationIDAnnotationKey_v1beta1 = ''management.azure.com/correlationId''"

text \<open>Every constant has the same value in both versions.\<close>

lemma constants_agree:
  "ClusterFinalizer_v1beta1 = ClusterFinalizer"
  "AzureStackHCILoadBalancerFinalizer_v1beta1 = AzureStackHCILoadBalancerFinalizer"
  "MachineFinalizer_v1beta1 = MachineFinalizer"
  "VirtualMachineFinalizer_v1beta1 = VirtualMachineFinalizer"
  "VMRunningCondition_v1beta1 = VMRunningCondition"
  "VMUpdatingReason_v1beta1 = VMUpdatingReason"
  "VMProvisionFailedReason_v1beta1 = VMProvisionFailedReason"
  "VMNotFoundReason_v1beta1 = VMNotFoundReason"
  "OutOfMemoryReason_v1beta1 = OutOfMemoryReason"
  "OutOfCapacityReason_v1beta1 = OutOfCapacityReason"
  "OutOfNodeCapacityReason_v1beta1 = OutOfNodeCapacityReason"
  "PathNotFoundReason_v1beta1 = PathNotFoundReason"
  "NotFoundReason_v1beta1 = NotFoundReason"
  "MOCUnreachableReason_v1beta1 = MOCUnreachableReason"
  "NetworkInfrastructureReadyCondition_v1beta1 = NetworkInfrastructureReadyCondition"
  "ClusterReconciliationFailedReason_v1beta1 = ClusterReconciliationFailedReason"
  "LoadBalancerProvisioningReason_v1beta1 = LoadBalancerProvisioningReason"
  "LoadBalancerDeletingReason_v1beta1 = LoadBalancerDeletingReason"
  "AzureStackHCIMachinesDeletingReason_v1beta1 = AzureStackHCIMachinesDeletingReason"
  "LoadBalancerInfrastructureReadyCondition_v1beta1 = LoadBalancerInfrastructureReadyCondition"
  "LoadBalancerServiceReconciliationFailedReason_v1beta1 = LoadBalancerServiceReconciliationFailedReason"
  "LoadBalancerServiceStatusFailedReason_v1beta1 = LoadBalancerServiceStatusFailedReason"
  "LoadBalancerMachineReconciliationFailedReason_v1beta1 = LoadBalancerMachineReconciliationFailedReason"
  "LoadBalancerAddressUnavailableReason_v1beta1 = LoadBalancerAddressUnavailableReason"
  "LoadBalancerNoReplicasReadyReason_v1beta1 = LoadBalancerNoReplicasReadyReason"
  "LoadBalancerReplicasReadyCondition_v1beta1 = LoadBalancerReplicasReadyCondition"
  "LoadBalancerWaitingForReplicasReadyReason_v1beta1 = LoadBalancerWaitingForReplicasReadyReason"
  "LoadBalancerReplicasScalingUpReason_v1beta1 = LoadBalancerReplicasScalingUpReason"
  "LoadBalancerReplicasScalingDownReason_v1beta1 = LoadBalancerReplicasScalingDownReason"
  "LoadBalancerReplicasUpgradingReason_v1beta1 = LoadBalancerReplicasUpgradingReason"
  "LoadBalancerReplicasFailedReason_v1beta1 = LoadBalancerReplicasFailedReason"
  "InfrastructureReadyReason_v1beta1 = InfrastructureReadyReason"
  "DeletionFailedReason_v1beta1 = DeletionFailedReason"
  "AzureStackHCIClusterPhasePending_v1beta1 = AzureStackHCIClusterPhasePending"
  "AzureStackHCIClusterPhaseProvisioning_v1beta1 = AzureStackHCIClusterPhaseProvisioning"
  "AzureStackHCIClusterPhaseProvisioned_v1beta1 = AzureStackHCIClusterPhaseProvisioned"
  "AzureStackHCIClusterPhaseDeleting_v1beta1 = AzureStackHCIClusterPhaseDeleting"
  "AzureStackHCIClusterPhaseFailed_v1beta1 = AzureStackHCIClusterPhaseFailed"
  "AzureStackHCIClusterPhaseUpgrading_v1beta1 = AzureStackHCIClusterPhaseUpgrading"
  "AzureStackHCIClusterPhaseUnknown_v1beta1 = AzureStackHCIClusterPhaseUnknown"
  "AzureStackHCILoadBalancerPhasePending_v1beta1 = AzureStackHCILoadBalancerPhasePending"
  "AzureStackHCILoadBalancerPhaseProvisioning_v1beta1 = AzureStackHCILoadBalancerPhaseProvisioning"
  "AzureStackHCILoadBalancerPhaseProvisioned_v1beta1 = AzureStackHCILoadBalancerPhaseProvisioned"
  "AzureStackHCILoadBalancerPhaseScaling_v1beta1 = AzureStackHCILoadBalancerPhaseScaling"
  "AzureStackHCILoadBalancerPhaseUpgrading_v1beta1 = AzureStackHCILoadBalancerPhaseUpgrading"
  "AzureStackHCILoadBalancerPhaseDeleting_v1beta1 = AzureStackHCILoadBalancerPhaseDeleting"
  "AzureStackHCILoadBalancerPhaseFailed_v1beta1 = AzureStackHCILoadBalancerPhaseFailed"
  "AzureStackHCILoadBalancerPhaseUnknown_v1beta1 = AzureStackHCILoadBalancerPhaseUnknown"
  "MachineCreated_v1beta1 = MachineCreated"
  "ControlPlane_v1beta1 = ControlPlane"
  "Node_v1beta1 = Node"
  "OSVersionLabelName_v1beta1 = OSVersionLabelName"
  "LoadBalancerLabel_v1beta1 = LoadBalancerLabel"
  "VMStateCreating_v1beta1 = VMStateCreating"
  "VMStateDeleting_v1beta1 = VMStateDeleting"
  "VMStateFailed_v1beta1 = VMStateFailed"
  "VMStateMigrating_v1beta1 = VMStateMigrating"
  "VMStateSucceeded_v1beta1 = VMStateSucceeded"
  "VMStateUpdating_v1beta1 = VMStateUpdating"
  "OSTypeLinux_v1beta1 = OSTypeLinux"
  "OSTypeWindows_v1beta1 = OSTypeWindows"
  "OSTypeWindows2022_v1beta1 = OSTypeWindows2022"
  "AnnotationClusterInfrastructureReady_v1beta1 = AnnotationClusterInfrastructureReady"
  "ValueReady_v1beta1 = ValueReady"
  "AnnotationControlPlaneReady_v1beta1 = AnnotationControlPlaneReady"
  "AzureOperationIDAnnotationKey_v1beta1 = AzureOperationIDAnnotationKey"
  "AzureCorrelationIDAnnotationKey_v1beta1 = AzureCorrelationIDAnnotationKey"
  by (simp_all add:
      ClusterFinalizer_v1beta1_def ClusterFinalizer_def
      AzureStackHCILoadBalancerFinalizer_v1beta1_def AzureStackHCILoadBalancerFinalizer_def
      MachineFinalizer_v1beta1_def MachineFinalizer_def
      VirtualMachineFinalizer_v1beta1_def VirtualMachineFinalizer_def
      VMRunningCondition_v1beta1_def VMRunningCondition_def
      VMUpdatingReason_v1beta1_def VMUpdatingReason_def
      VMProvisionFailedReason_v1beta1_def VMProvisionFailedReason_def
      VMNotFoundReason_v1beta1_def VMNotFoundReason_def
      OutOfMemoryReason_v1beta1_def OutOfMemoryReason_def
      OutOfCapacityReason_v1beta1_def OutOfCapacityReason_def
      OutOfNodeCapacityReason_v1beta1_def OutOfNodeCapacityReason_def
      PathNotFoundReason_v1beta1_def PathNotFoundReason_def
      NotFoundReason_v1beta1_def NotFoundReason_def
      MOCUnreachableReason_v1beta1_def MOCUnreachableReason_def
      NetworkInfrastructureReadyCondition_v1beta1_def NetworkInfrastructureReadyCondition_def
      ClusterReconciliationFailedReason_v1beta1_def ClusterReconciliationFailedReason_def
      LoadBalancerProvisioningReason_v1beta1_def LoadBalancerProvisioningReason_def
      LoadBalancerDeletingReason_v1beta1_def LoadBalancerDeletingReason_def
      AzureStackHCIMachinesDeletingReason_v1beta1_def AzureStackHCIMachinesDeletingReason_def
      LoadBalancerInfrastructureReadyCondition_v1beta1_def LoadBalancerInfrastructureReadyCondition_def
      LoadBalancerServiceReconciliationFailedReason_v1beta1_def LoadBalancerServiceReconciliationFailedReason_def
      LoadBalancerServiceStatusFailedReason_v1beta1_def LoadBalancerServiceStatusFailedReason_def
      LoadBalancerMachineReconciliationFailedReason_v1beta1_def LoadBalancerMachineReconciliationFailedReason_def
      LoadBalancerAddressUnavailableReason_v1beta1_def LoadBalancerAddressUnavailableReason_def
      LoadBalancerNoReplicasReadyReason_v1beta1_def LoadBalancerNoReplicasReadyReason_def
      LoadBalancerReplicasReadyCondition_v1beta1_def LoadBalancerReplicasReadyCondition_def
      LoadBalancerWaitingForReplicasReadyReason_v1beta1_def LoadBalancerWaitingForReplicasReadyReason_def
      LoadBalancerReplicasScalingUpReason_v1beta1_def LoadBalancerReplicasScalingUpReason_def
      LoadBalancerReplicasScalingDownReason_v1beta1_def LoadBalancerReplicasScalingDownReason_def
      LoadBalancerReplicasUpgradingReason_v1beta1_def LoadBalancerReplicasUpgradingReason_def
      LoadBalancerReplicasFailedReason_v1beta1_def LoadBalancerReplicasFailedReason_def
      InfrastructureReadyReason_v1beta1_def InfrastructureReadyReason_def
      DeletionFailedReason_v1beta1_def DeletionFailedReason_def
      AzureStackHCIClusterPhasePending_v1beta1_def AzureStackHCIClusterPhasePending_def
      AzureStackHCIClusterPhaseProvisioning_v1beta1_def AzureStackHCIClusterPhaseProvisioning_def
      AzureStackHCIClusterPhaseProvisioned_v1beta1_def AzureStackHCIClusterPhaseProvisioned_def
      AzureStackHCIClusterPhaseDeleting_v1beta1_def AzureStackHCIClusterPhaseDeleting_def
      AzureStackHCIClusterPhaseFailed_v1beta1_def AzureStackHCIClusterPhaseFailed_def
      AzureStackHCIClusterPhaseUpgrading_v1beta1_def AzureStackHCIClusterPhaseUpgrading_def
      AzureStackHCIClusterPhaseUnknown_v1beta1_def AzureStackHCIClusterPhaseUnknown_def
      AzureStackHCILoadBalancerPhasePending_v1beta1_def AzureStackHCILoadBalancerPhasePending_def
      AzureStackHCILoadBalancerPhaseProvisioning_v1beta1_def AzureStackHCILoadBalancerPhaseProvisioning_def
      AzureStackHCILoadBalancerPhaseProvisioned_v1beta1_def AzureStackHCILoadBalancerPhaseProvisioned_def
      AzureStackHCILoadBalancerPhaseScaling_v1beta1_def AzureStackHCILoadBalancerPhaseScaling_def
      AzureStackHCILoadBalancerPhaseUpgrading_v1beta1_def AzureStackHCILoadBalancerPhaseUpgrading_def
      AzureStackHCILoadBalancerPhaseDeleting_v1beta1_def AzureStackHCILoadBalancerPhaseDeleting_def
      AzureStackHCILoadBalancerPhaseFailed_v1beta1_def AzureStackHCILoadBalancerPhaseFailed_def
      AzureStackHCILoadBalancerPhaseUnknown_v1beta1_def AzureStackHCILoadBalancerPhaseUnknown_def
      MachineCreated_v1beta1_def MachineCreated_def
      ControlPlane_v1beta1_def ControlPlane_def
      Node_v1beta1_def Node_def
      OSVersionLabelName_v1beta1_def OSVersionLabelName_def
      LoadBalancerLabel_v1beta1_def LoadBalancerLabel_def
      VMStateCreating_v1beta1_def VMStateCreating_def
      VMStateDeleting_v1beta1_def VMStateDeleting_def
      VMStateFailed_v1beta1_def VMStateFailed_def
      VMStateMigrating_v1beta1_def VMStateMigrating_def
      VMStateSucceeded_v1beta1_def VMStateSucceeded_def
      VMStateUpdating_v1beta1_def VMStateUpdating_def
      OSTypeLinux_v1beta1_def OSTypeLinux_def
      OSTypeWindows_v1beta1_def OSTypeWindows_def
      OSTypeWindows2022_v1beta1_def OSTypeWindows2022_def
      AnnotationClusterInfrastructureReady_v1beta1_def AnnotationClusterInfrastructureReady_def
      ValueReady_v1beta1_def ValueReady_def
      AnnotationControlPlaneReady_v1beta1_def AnnotationControlPlaneReady_def
      AzureOperationIDAnnotationKey_v1beta1_def AzureOperationIDAnnotationKey_def
      AzureCorrelationIDAnnotationKey_v1beta1_def AzureCorrelationIDAnnotationKey_def)

end
