(* ===== verification/Spec2Isabelle.thy ===== *)
theory Spec2Isabelle
  imports ChainTeardown ClusterOwnership WorkQueue Convergence LBRollout ConversionObjects AutoConversion
    DeepCopyV1beta1 Scheme Globals ApiConstsV1beta1
begin

text \<open>
  A verification development for the Cluster API provider for Azure Stack HCI (the Go code under
  \<open>src/\<close>).  The provider is a set of Kubernetes controllers.  A reconcile loop reads one custom
  resource, drives the cloud (MOC) and the Kubernetes API towards what the resource asks for, and
  writes status, conditions and finalizers back.

  \<^bold>\<open>How the program is put together.\<close>  The cluster controller provides the virtual network, the
  resource group and the key vault of a cluster and creates its load balancer object.  The load
  balancer controller creates the replicas of a load balancer as virtual machine objects, scales
  and upgrades them, and maintains the load balancer service in the cloud.  The machine controller
  creates one virtual machine object per Cluster API machine and takes over its state.  The
  virtual machine controller creates the network interface, the disk and the machine in the cloud.
  All four work through a scope (the object under reconciliation with its patch helper and its
  credentials) and through one small service per kind of cloud resource.

  \<^bold>\<open>How it is modelled.\<close>  A computation is a function from a world to a result and a world; the
  result is a value or a panic, so nil dereferences and out-of-range accesses are branches of the
  model, and an error is a value.  A reconcile runs on a state of world, object and recorded
  events; \<open>on_world\<close> lifts calls of clients to it, \<open>upd_obj\<close> is a write to the object, \<open>Eventf\<close>
  an event, \<open>close_after\<close> the deferred patch.  Everything outside the repository is a parameter:
  the records \<open>lib\<close> (conditions, finalizers, owner references, error classification), \<open>kube\<close> (the
  Kubernetes client), \<open>sys\<close> (environment, files, randomness, goroutines, login) and \<open>moc\<close> (the cloud
  SDK).  What the proofs need of them are the named laws \<open>lib_conditions\<close>, \<open>lib_finalizers\<close>,
  \<open>lib_ownerrefs\<close> and \<open>sys_rand\<close>; \<open>Instances\<close> has concrete clients that satisfy them.  The type \<open>'w\<close> of
  worlds is arbitrary, so a theorem holds for every cloud and every API server, including ones
  that change behind the program's back.  The theorems that follow objects over many reconciles
  state what they need of the outside as laws: \<open>replica_env\<close> (the requests
  for the replicas of a load balancer succeed; the cloud may report any number of them ready), \<open>vm_api\<close> (a stored object, its patches, and deletions in the cloud),
  \<open>lb_api\<close>, \<open>cluster_api\<close> and \<open>machine_api\<close> (the same for load balancers, clusters and machines),
  \<open>group_api\<close> (a resource group has the tags that it was created with),
  \<open>chain_api\<close> (both objects of a machine at once),
  \<open>vm_up\<close>, \<open>machine_up\<close> and \<open>vm_deletion_api\<close> (calls go through, and the API server removes a deleted
  object with its last finalizer), \<open>object_store\<close> (what a patch leaves stored) and \<open>cloud_finds\<close> (the cloud finds
  what was created).  Deep copies have \<open>ext_deep\<close> (the copies of library types); the start of the
  manager has \<open>startup_log\<close> (controller-runtime, the record \<open>runtime\<close>, keeps a log of what it was
  told) and \<open>scheme_laws\<close> (the scheme keeps what it is told).  Each is shown to hold of a concrete
  instance.

  \<^bold>\<open>Theories, in the order they build on each other.\<close>

  \<^item> \<open>Prelude\<close>: the computations, triples \<open>hoare P m Q R\<close> (\<open>Q\<close> after a return, \<open>R\<close> after a panic)
    with their rules, the judgement \<open>up ok m Q\<close> (the call returns, in \<open>Q\<close>), Go errors, maps and numbers
    in text.
  \<^item> \<open>ApiTypes\<close>, \<open>ApiConsts\<close>: \<open>api/v1beta2\<close>, its structs as records, condition reasons, phases
    with the locale \<open>typed_phase\<close>, the order on virtual machines.
  \<^item> \<open>Externals\<close>: the parameters and their laws, the reconcile state, and the locale
    \<open>conditions_object\<close> with its interpretations on the four kinds of objects.
  \<^item> \<open>Defaults\<close>: \<open>cloud/defaults.go\<close>, \<open>cloud/converters\<close> and \<open>pkg/util\<close>: names, images, random
    strings, lookups.
  \<^item> \<open>Telemetry\<close>: \<open>cloud/telemetry\<close> and the traced cloud client, whose world records the
    changes asked of the cloud.
  \<^item> \<open>Services\<close>: \<open>cloud/services\<close>, one group per service, with the locale \<open>cloud_service\<close> for the
    contract that four of them share (query, create if missing, delete tolerating absence).
  \<^item> \<open>Base64\<close>, \<open>Auth\<close>, \<open>Scope\<close>: the encoding of bootstrap data with its round trip, the login
    (\<open>pkg/auth\<close>), and \<open>cloud/scope\<close>.
  \<^item> \<open>Instances\<close>: concrete clients and objects at which the theorems are applied.
  \<^item> \<open>VirtualMachines\<close>, \<open>VMReconciler\<close>, \<open>VMController\<close>: the virtual machine service, the steps of
    creating and deleting a machine, and the controller.
  \<^item> \<open>LBMachines\<close>, \<open>LBController\<close>: the replicas of a load balancer (sorting, scaling, the upgrade
    loop with its termination proof) with the locales \<open>sort_order\<close> and \<open>lb_frame\<close>, and the controller.
  \<^item> \<open>MachineController\<close>, \<open>ClusterController\<close>: the other two controllers.
  \<^item> \<open>LBReplicas\<close>, \<open>LBRollout\<close>: the abstract rollout policy, its refinement by the load balancer
    controller, and the step relation \<open>lb_round\<close> of repeated reconciles.
  \<^item> \<open>Ownership\<close>: what a finalizer is for, in general.  \<open>covers\<close> says that nothing an object owns
    exists unless the object is stored with its finalizer; \<open>life_step\<close> is a complete reconcile, however
    it ends, or a step of others who respect the rules of \<open>bystander\<close>; the locale \<open>finalizer_guard\<close>
    proves, from registering first and releasing last, that a reconcile keeps \<open>covers\<close>.
  \<^item> \<open>Lifecycle\<close>, \<open>LBOwnership\<close>, \<open>ClusterOwnership\<close>, \<open>MachineOwnership\<close>: the interpretations of
    \<open>finalizer_guard\<close> on the four controllers, and what comes of them.  A virtual machine object owns
    machine, network interface and disk, a load balancer object its service, a cluster object key vault
    and resource group, and a machine object the virtual machine object under its own key.
  \<^item> \<open>Teardown\<close>: the deletion of a virtual machine object comes to an end once the calls go through.
  \<^item> \<open>Chain\<close>: the step relation \<open>chain_step\<close> of the machine controller and the virtual machine
    controller on one API server and one cloud; each keeps the other's link of the chain of ownership.
  \<^item> \<open>ChainTeardown\<close>: the deletion of a machine comes to an end, over both controllers.
  \<^item> \<open>WorkQueue\<close>: the step relation \<open>queue_step\<close> of the request queue that controller-runtime keeps for
    an object, and when the four controllers let a request go: when the object needs nothing, or, for
    machines and load balancers, when the lookups before a reconcile failed.
  \<^item> \<open>Convergence\<close>: a reconcile of cloud resources that succeeded has nothing more to do.
  \<^item> \<open>ApiV1beta1\<close>, \<open>Conversion\<close>, \<open>ConversionObjects\<close>: \<open>api/v1beta1\<close>, its conversions to and from
    \<open>v1beta2\<close>, hand-written (\<open>conversion.go\<close>) and generated, with the locales \<open>spoke_conversion\<close> and
    \<open>object_conversion\<close> for what survives a round trip.
  \<^item> \<open>AutoConversion\<close>: the generated conversions that the hand-written ones replace.
  \<^item> \<open>Memory\<close>, \<open>DeepCopy\<close>, \<open>DeepCopyV1beta1\<close>: a memory of cells, the statements of generated deep
    copies, and the copies of both API versions.  Each type's declaration is a shape, and a rule per
    statement (\<open>deep_rules\<close>) derives that its copy is deep.
  \<^item> \<open>ApiConstsV1beta1\<close>: the constants of \<open>api/v1beta1\<close>, which agree with those of \<open>v1beta2\<close>.
  \<^item> \<open>ServiceClients\<close>: the constructors of the services (\<open>cloud/services/*/service.go\<close>).
  \<^item> \<open>Manager\<close>: \<open>cmd/manager/main.go\<close> with the registration of the four controllers, of the
    webhooks and of the health checks (\<open>pkg/network\<close>).
  \<^item> \<open>Scheme\<close>: the known types of both versions (\<open>api/*/groupversion_info.go\<close>, the \<open>init\<close> functions of the
    type files), \<open>RegisterConversions\<close>, and the initialisation of the manager's scheme.
  \<^item> \<open>Globals\<close>: variables that are written once (\<open>pkg/record\<close>, the version service of \<open>cloud/telemetry\<close>)
    with the locale \<open>written_once\<close>, and the services that a reconcile builds.

  \<^bold>\<open>What the theorems show.\<close>  Deletion is ordered and finalizers are removed only when it is
  complete, for all four kinds of objects; creation registers the finalizer first; readiness and
  provisioned marks are set only in the states that justify them; failures are reported with the
  right conditions; the replica count never overshoots or wraps; the right replica is removed on
  scaling down; names, networks and images are generated as documented; what a
  reconcile did is persisted, and doing it again changes nothing in the cloud.  Over many reconciles: no machine, interface, disk, load balancer,
  key vault or group is ever in the cloud without a stored object that holds the finalizer, whatever
  fails and whoever else acts; what a machine has in the cloud keeps both its virtual machine object
  and its machine object alive, so a released machine or cluster leaves nothing behind; a deletion completes within three rounds once API server
  and cloud answer; no controller lets a request go while its object needs work that it can see; and a
  rollout of load balancer replicas follows its policy step by step, waiting for replicas that are not
  ready, ends after a bounded number of rounds that do not wait, and keeps the service available.  The
  conversions are characterised by exactly the objects that survive a round trip, and deep copies
  share no cell with the original; a hand-written conversion forgets no field that the generator
  converts, and every type has its conversions registered.  A manager starts only with all controllers, webhooks and checks
  registered, each controller with the reconcile function the other theorems are about.  The theorems of this file connect components: a machine
  becomes ready from the virtual machine its controller left behind, the control plane
  endpoint of a cluster is the address of the load balancer its controller made ready, and the
  provisioned mark of a cluster survives a client of the older version.  Some
  theorems pin down behaviour that is surprising: the virtual network is never deleted, a missing
  availability zone panics, a load balancer without conditions counts as ready, and a machine or
  load balancer whose cluster cannot be read, for whatever reason, is dropped from the queue.

  \<^bold>\<open>Bounds.\<close>  Replica counts and ports are 32-bit words, read as signed numbers; other Go
  integers are unbounded where no arithmetic is done on them.  No fuel is used: every loop is
  structural or has a termination proof.  Delays are in seconds.

  \<^bold>\<open>What is not modelled.\<close>  Writing log lines and telemetry records (they are never read; their
  contents are modelled), declarations without behaviour (Go interfaces, parameter structs, the names
  of telemetry resources), the unused \<open>GenerateRandomString\<close>, and the mocks and tests.
  Conversions write into a fresh target, as the API machinery calls them.  Deep copies work on
  values whose slices own their arrays; capacities and interior pointers are not distinguished.
  Elsewhere a slice is a list, so nil and empty slices are not distinguished.
\<close>

text \<open>
  C21: The control plane endpoint follows the load balancer.  When the load balancer controller has
  finished a reconcile without an error and without asking to come back in twenty seconds, and
  the cluster controller then sees an object with that status, its load balancer step reports
  ready and sets the endpoint to the load balancer's address, which is not empty, and the
  cluster's port.
\<close>

theorem control_plane_endpoint_follows_lb:
  assumes "lib_conditions L"
    and "LB_reconcileNormal L S M K lsc csc s = (Ret (res, None), t)" "res \<noteq> requeueAfter 20"
    and "ClusterScope_AzureStackHCILoadBalancer (obj c) = Some sp"
    and "k_CreateOrUpdate_LB K' (newLoadBalancer (ClusterScope_Namespace csc')
        (GenerateAzureStackHCILoadBalancerName (ClusterScope_Name csc')))
      (\<lambda>lb. return (None, cluster_lb_mutate L csc' (obj c) sp lb)) (world c) = (Ret (opres, None, lb), w)"
    and "hlb_Status lb = hlb_Status (obj t)"
  shows "\<exists>d. reconcileAzureStackHCILoadBalancer L K' csc' c = (Ret (True, None), d) \<and>
    cs_ControlPlaneEndpoint (hc_Spec (obj d)) =
      \<lparr>ep_Host = LBScope_Address (obj t), ep_Port = ClusterScope_APIServerPort csc'\<rparr> \<and>
    LBScope_Address (obj t) \<noteq> []"
proof -
  have "lb_outcome L (lbst_Ready (hlb_Status (obj s))) (res, None) (obj t)"
    using hoareD_Ret [OF LB_reconcileNormal_outcome [OF assms(1)] _ assms(2)]
    by (simp add: lb_ready_is_def)
  then have "lb_usable L (obj t)" using assms(3) by (simp add: lb_outcome_def)
  with assms(4-6) show ?thesis
    by (auto simp: reconcileAzureStackHCILoadBalancer_def bind_on_world lb_usable_def
        LB_GetConditions_def LBScope_Address_def)
qed

theorem control_plane_endpoint_follows_lb_witness:
  "\<exists>d. reconcileAzureStackHCILoadBalancer lib0 (kube_lb0\<lparr>k_CreateOrUpdate_LB := \<lambda>_ _. return
       (OperationResultUpdated, None, obj (snd (LB_reconcileNormal lib0 sys0 moc_lb0 kube_lb0 lsc_sdn0 csc0
         \<lparr>world = (), obj = lb_sdn0, events = []\<rparr>)))\<rparr>) csc0
       \<lparr>world = (), obj = hcluster_lb0, events = []\<rparr> = (Ret (True, None), d) \<and>
     cs_ControlPlaneEndpoint (hc_Spec (obj d)) = \<lparr>ep_Host = ''10.0.0.1'', ep_Port = 6443\<rparr>"
proof -
  define run where "run = LB_reconcileNormal lib0 sys0 moc_lb0 kube_lb0 lsc_sdn0 csc0
    \<lparr>world = (), obj = lb_sdn0, events = []\<rparr>"
  have fst: "fst run = Ret (noResult, None)" and addr: "LBScope_Address (obj (snd run)) = ''10.0.0.1''"
      and port: "ClusterScope_APIServerPort csc0 = 6443"
      and spec: "ClusterScope_AzureStackHCILoadBalancer hcluster_lb0 = Some (hlb_Spec (newLoadBalancer [] []))"
    unfolding run_def by code_simp+
  have run: "LB_reconcileNormal lib0 sys0 moc_lb0 kube_lb0 lsc_sdn0 csc0
      \<lparr>world = (), obj = lb_sdn0, events = []\<rparr> = (Ret (noResult, None), snd run)"
    using fst unfolding run_def [symmetric] by (metis prod.collapse)
  have res: "noResult \<noteq> requeueAfter 20" by (simp add: noResult_def requeueAfter_def)
  show ?thesis
    unfolding run_def [symmetric] addr [symmetric] port [symmetric]
    using control_plane_endpoint_follows_lb [OF lib0_conditions run res,
        of "\<lparr>world = (), obj = hcluster_lb0, events = []\<rparr>" "hlb_Spec (newLoadBalancer [] [])"
          "kube_lb0\<lparr>k_CreateOrUpdate_LB := \<lambda>_ _. return (OperationResultUpdated, None, obj (snd run))\<rparr>"
          csc0 OperationResultUpdated "obj (snd run)" "()"] spec by auto
qed

text \<open>
  C20: A machine becomes ready from its virtual machine: when the virtual machine controller has
  reconciled an object without an error, and that object is not in a terminal failure, a machine
  that takes the object over is ready afterwards, with \<open>VMRunning\<close> true, whatever state it was in.
\<close>

theorem machine_ready_after_vm:
  assumes "lib_conditions L"
    and "VM_reconcileNormal L S M K sc s = (Ret (res, None), t)"
    and "vmst_FailureReason (hvm_Status (obj s)) = None" "vmst_FailureMessage (hvm_Status (obj s)) = None"
  shows "\<exists>u'. machine_applyVM L (obj t) u = (Ret (noResult, None), u') \<and>
    mst_Ready (hm_Status (obj u')) \<and>
    has_condition L (Machine_GetConditions (obj u')) (mkCondition VMRunningCondition ConditionTrue ''VMRunning'' [])"
proof -
  have "vmst_VMState (hvm_Status (obj t)) = Some VMStateSucceeded"
    using VM_reconcileNormal_Succeeded assms(2-4) .
  then show ?thesis
    using assms(1)
    by (simp add: machine_applyVM_def machine_applyState_def Machine_validateUpdate_def
        MachineScope_SetVMState_def MachineScope_GetVMState_def cond_lib)
qed


theorem machine_ready_after_vm_witness:
  "\<exists>u. machine_applyVM lib0 (obj (snd (VM_reconcileNormal lib0 sys0 moc_vm0 kube0
        \<lparr>vsc_before = newVirtualMachine ''ns'' ''n'', vsc_CloudAgentFqdn = [], vsc_Authorizer = []\<rparr>
        \<lparr>world = (), obj = newVirtualMachine ''ns'' ''n'', events = []\<rparr>)))
      \<lparr>world = (), obj = hmachine0, events = []\<rparr> = (Ret (noResult, None), u) \<and> mst_Ready (hm_Status (obj u))"
proof -
  define run where "run = VM_reconcileNormal lib0 sys0 moc_vm0 kube0
     \<lparr>vsc_before = newVirtualMachine ''ns'' ''n'', vsc_CloudAgentFqdn = [], vsc_Authorizer = []\<rparr>
     \<lparr>world = (), obj = newVirtualMachine ''ns'' ''n'', events = []\<rparr>"
  have "fst run = Ret (noResult, None)" unfolding run_def by code_simp
  then have run: "VM_reconcileNormal lib0 sys0 moc_vm0 kube0
     \<lparr>vsc_before = newVirtualMachine ''ns'' ''n'', vsc_CloudAgentFqdn = [], vsc_Authorizer = []\<rparr>
     \<lparr>world = (), obj = newVirtualMachine ''ns'' ''n'', events = []\<rparr> = (Ret (noResult, None), snd run)"
    unfolding run_def [symmetric] by (metis prod.collapse)
  show ?thesis
    unfolding run_def [symmetric]
    using machine_ready_after_vm [OF lib0_conditions run, of "\<lparr>world = (), obj = hmachine0, events = []\<rparr>"]
    by (auto simp: newVirtualMachine_def)
qed

text \<open>
  C37: A provisioned cluster survives clients of the older version: when the cluster controller has
  finished a reconcile without an error and without asking to come back, reading the object in the
  older version and writing it back keeps the finalizer, the control plane endpoint and the
  provisioned mark, although the older version has no field for that mark.
\<close>

theorem provisioned_survives_older_version:
  assumes "lib_conditions L" "lib_finalizers L"
    and "Cluster_reconcileNormal L M K csc s = (Ret (noResult, None), t)"
    and "stored = Cluster_ConvertTo tm (Cluster_ConvertFrom tm' (obj t))"
  shows "map_option ci_Provisioned (cst_Initialization (hc_Status stored)) = Some (Some True) \<and>
    ClusterFinalizer \<in> set (om_Finalizers (hc_Meta stored)) \<and>
    cs_ControlPlaneEndpoint (hc_Spec stored) = cs_ControlPlaneEndpoint (hc_Spec (obj t))"
proof -
  have out: "cluster_outcome L (obj s) (noResult, None) (obj t)"
    using hoareD_Ret [OF Cluster_reconcileNormal_outcome [OF assms(1,2)] refl assms(3)] .
  then have "has_condition L (Cluster_GetConditions (obj t))
      (mkCondition ReadyCondition ConditionTrue InfrastructureReadyReason [])"
    by (simp add: cluster_outcome_def)
  then have "ready_true (cst_Conditions (hc_Status (obj t)))"
    using has_condition_member [OF assms(1)]
    by (fastforce simp: ready_true_iff same_condition_def mkCondition_def Cluster_GetConditions_def
        ReadyCondition_def)
  with out show ?thesis by (simp add: assms(4) Cluster_hub cluster_outcome_def)
qed

theorem provisioned_survives_older_version_witness:
  "map_option ci_Provisioned (cst_Initialization (hc_Status (Cluster_ConvertTo zeroTypeMeta
     (Cluster_ConvertFrom zeroTypeMeta (obj (snd (Cluster_reconcileNormal lib0 moc_lb0 kube_lb0 csc0
       \<lparr>world = (), obj = hcluster_lb0, events = []\<rparr>))))))) = Some (Some True)"
proof -
  define run where "run = Cluster_reconcileNormal lib0 moc_lb0 kube_lb0 csc0
    \<lparr>world = (), obj = hcluster_lb0, events = []\<rparr>"
  have "fst run = Ret (noResult, None)" unfolding run_def by code_simp
  then have run: "Cluster_reconcileNormal lib0 moc_lb0 kube_lb0 csc0
      \<lparr>world = (), obj = hcluster_lb0, events = []\<rparr> = (Ret (noResult, None), snd run)"
    unfolding run_def [symmetric] by (metis prod.collapse)
  show ?thesis
    unfolding run_def [symmetric]
    using provisioned_survives_older_version [OF lib0_conditions lib0_finalizers run refl,
        of zeroTypeMeta zeroTypeMeta] by simp
qed

end
